(* ===== verification/Py_Prelude.thy ===== *)
theory Py_Prelude
  imports
    Complex_Main
    "HOL-Library.Char_ord"
    "HOL-Library.List_Lexorder"
    "HOL-Library.Product_Lexorder"
    "HOL-Library.Sublist"
    "HOL-Library.Multiset"
begin

text \<open>
  What the components share: Python floats with their special values, f-strings kept as symbolic
  pieces, exceptions as values, timestamps on the nanosecond axis, JSON-shaped values, and the
  generic lemmas on lists and sums the component proofs use.

  A Python \<open>float\<close> is \<open>flt\<close>: a finite value (a real number), one of the two infinities, or NaN.
  Comparisons follow IEEE 754 exactly (every comparison with NaN is false). Arithmetic on finite
  values is exact: rounding to binary64 and overflow to infinity are not modelled.
\<close>

named_theorems py_defs \<open>definitions of the language primitives, for unfolding on concrete inputs\<close>


section \<open>Floats\<close>

datatype flt = Fin real | PInf | NInf | NaN

instantiation flt :: "{ord, zero, one, plus, minus, times, uminus, abs}"
begin

fun less_flt :: "flt \<Rightarrow> flt \<Rightarrow> bool" where
  "less_flt (Fin a) (Fin b) = (a < b)"
| "less_flt (Fin _) PInf = True"
| "less_flt NInf (Fin _) = True"
| "less_flt NInf PInf = True"
| "less_flt _ _ = False"

fun less_eq_flt :: "flt \<Rightarrow> flt \<Rightarrow> bool" where
  "less_eq_flt (Fin a) (Fin b) = (a \<le> b)"
| "less_eq_flt NaN _ = False"
| "less_eq_flt _ NaN = False"
| "less_eq_flt _ PInf = True"
| "less_eq_flt NInf _ = True"
| "less_eq_flt _ _ = False"

definition zero_flt :: flt where "0 = Fin 0"
definition one_flt :: flt where "1 = Fin 1"

fun plus_flt :: "flt \<Rightarrow> flt \<Rightarrow> flt" where
  "plus_flt (Fin a) (Fin b) = Fin (a + b)"
| "plus_flt NaN _ = NaN"
| "plus_flt _ NaN = NaN"
| "plus_flt PInf NInf = NaN"
| "plus_flt NInf PInf = NaN"
| "plus_flt PInf _ = PInf"
| "plus_flt _ PInf = PInf"
| "plus_flt NInf _ = NInf"
| "plus_flt _ NInf = NInf"

fun uminus_flt :: "flt \<Rightarrow> flt" where
  "uminus_flt (Fin a) = Fin (- a)"
| "uminus_flt PInf = NInf"
| "uminus_flt NInf = PInf"
| "uminus_flt NaN = NaN"

definition minus_flt :: "flt \<Rightarrow> flt \<Rightarrow> flt" where
  "minus_flt a b = a + (- b)"

fun times_flt :: "flt \<Rightarrow> flt \<Rightarrow> flt" where
  "times_flt (Fin a) (Fin b) = Fin (a * b)"
| "times_flt NaN _ = NaN"
| "times_flt _ NaN = NaN"
| "times_flt PInf PInf = PInf"
| "times_flt PInf NInf = NInf"
| "times_flt NInf PInf = NInf"
| "times_flt NInf NInf = PInf"
| "times_flt PInf (Fin b) = (if b > 0 then PInf else if b < 0 then NInf else NaN)"
| "times_flt NInf (Fin b) = (if b > 0 then NInf else if b < 0 then PInf else NaN)"
| "times_flt (Fin a) PInf = (if a > 0 then PInf else if a < 0 then NInf else NaN)"
| "times_flt (Fin a) NInf = (if a > 0 then NInf else if a < 0 then PInf else NaN)"

fun abs_flt :: "flt \<Rightarrow> flt" where
  "abs_flt (Fin a) = Fin \<bar>a\<bar>"
| "abs_flt NaN = NaN"
| "abs_flt _ = PInf"

instance ..

end

lemma minus_flt_Fin [simp]: "Fin a - Fin b = Fin (a - b)"
  by (simp add: minus_flt_def)

lemma flt_nan_compare [simp]:
  "\<not> NaN < x" "\<not> x < NaN" "\<not> NaN \<le> x" "\<not> x \<le> NaN"
  by (cases x; simp)+

lemma flt_nan_arith [simp]:
  "NaN + x = NaN" "x + NaN = NaN" "NaN - x = NaN" "x - NaN = NaN" "NaN * x = NaN" "x * NaN = NaN"
  by (cases x; simp add: minus_flt_def)+

lemma flt_zero [simp]: "(0 :: flt) = Fin 0"
  by (rule zero_flt_def)

lemma flt_not_less: "x \<noteq> NaN \<Longrightarrow> y \<noteq> NaN \<Longrightarrow> \<not> x < y \<longleftrightarrow> y \<le> x"
  by (cases x; cases y; auto)

text \<open>Python's \<open>==\<close> on floats, the truth value of a float, and \<open>max(a, b)\<close> / \<open>min(a, b)\<close>, which
  keep the first argument unless the second is strictly better (so NaN in second place loses).\<close>

fun flt_eq :: "flt \<Rightarrow> flt \<Rightarrow> bool" where
  "flt_eq NaN _ = False"
| "flt_eq a b = (a = b)"

definition truthy :: "flt \<Rightarrow> bool" where
  [py_defs]: "truthy x \<longleftrightarrow> x \<noteq> Fin 0"

definition py_max :: "flt \<Rightarrow> flt \<Rightarrow> flt" where
  [py_defs]: "py_max a b = (if b > a then b else a)"

definition py_min :: "flt \<Rightarrow> flt \<Rightarrow> flt" where
  [py_defs]: "py_min a b = (if b < a then b else a)"

lemma py_max_Fin: "py_max (Fin a) (Fin b) = Fin (max a b)"
  by (simp add: py_max_def max_def)


text \<open>\<open>math.isfinite\<close>.\<close>

definition is_finite :: "flt \<Rightarrow> bool" where
  "is_finite x = (case x of Fin _ \<Rightarrow> True | _ \<Rightarrow> False)"

lemma is_finite_simps [simp]: "is_finite (Fin r)" "\<not> is_finite PInf" "\<not> is_finite NInf" "\<not> is_finite NaN"
  by (simp_all add: is_finite_def)


section \<open>Timestamps\<close>

text \<open>
  A \<open>pd.Timestamp\<close> (or \<open>datetime\<close>) is its instant in nanoseconds and whether it carries a time
  zone; a \<open>pd.Timedelta\<close> is an integer number of nanoseconds. Subtracting or comparing an aware
  and a naive value raises TypeError.
\<close>

record tstamp =
  tz_aware :: bool
  ns :: int

abbreviation utc :: "int \<Rightarrow> tstamp" where
  "utc n \<equiv> \<lparr>tz_aware = True, ns = n\<rparr>"


section \<open>Strings, f-strings and exceptions\<close>

text \<open>
  An f-string is a list of pieces: literal or interpolated text, a float with a fixed number of
  decimals (\<open>{x:.3f}\<close>), a float as \<open>repr\<close> prints it, and a timestamp as \<open>isoformat\<close> prints it.
\<close>

datatype piece = Lit string | Fixed nat flt | Repr flt | Iso tstamp

type_synonym ftext = "piece list"

abbreviation lit :: "string \<Rightarrow> ftext" where
  "lit s \<equiv> [Lit s]"

datatype pyexn = PyExn (exn_class: string) (exn_text: ftext)

abbreviation ValueError :: "ftext \<Rightarrow> pyexn" where
  "ValueError \<equiv> PyExn ''ValueError''"
abbreviation KeyError :: "ftext \<Rightarrow> pyexn" where
  "KeyError \<equiv> PyExn ''KeyError''"
abbreviation TypeError :: "ftext \<Rightarrow> pyexn" where
  "TypeError \<equiv> PyExn ''TypeError''"
abbreviation ZeroDivisionError :: "ftext \<Rightarrow> pyexn" where
  "ZeroDivisionError \<equiv> PyExn ''ZeroDivisionError''"

text \<open>\<open>str.isspace\<close> on one character, \<open>str.strip\<close>, and \<open>str.upper\<close> / \<open>str.lower\<close> on ASCII letters.\<close>

definition is_space :: "char \<Rightarrow> bool" where
  [py_defs]: "is_space c \<longleftrightarrow>
     (let n = of_char c :: nat in (9 \<le> n \<and> n \<le> 13) \<or> (28 \<le> n \<and> n \<le> 32) \<or> n = 133 \<or> n = 160)"

definition strip :: "string \<Rightarrow> string" where
  [py_defs]: "strip s = rev (dropWhile is_space (rev (dropWhile is_space s)))"

definition upper_char :: "char \<Rightarrow> char" where
  [py_defs]: "upper_char c =
     (let n = of_char c :: nat in if 97 \<le> n \<and> n \<le> 122 then char_of (n - 32) else c)"

definition lower_char :: "char \<Rightarrow> char" where
  [py_defs]: "lower_char c =
     (let n = of_char c :: nat in if 65 \<le> n \<and> n \<le> 90 then char_of (n + 32) else c)"

abbreviation upper :: "string \<Rightarrow> string" where
  "upper \<equiv> map upper_char"

abbreviation lower :: "string \<Rightarrow> string" where
  "lower \<equiv> map lower_char"

lemma strip_Nil [simp]: "strip [] = []"
  by (simp add: strip_def)

text \<open>Decimal digits of a number, and \<open>f"{x:.nf}"\<close>: the value scaled by \<open>10 ^ n\<close>, rounded half to
  even, with the point put back.\<close>

fun show_nat :: "nat \<Rightarrow> string" where
  "show_nat n = (if n < 10 then [char_of (48 + n)] else show_nat (n div 10) @ [char_of (48 + n mod 10)])"

declare show_nat.simps [simp del]

definition show_int :: "int \<Rightarrow> string" where
  [py_defs]: "show_int i = (if i < 0 then CHR ''-'' # show_nat (nat (- i)) else show_nat (nat i))"

definition round_half_even :: "real \<Rightarrow> int" where
  [py_defs]: "round_half_even r =
     (let f = floor r; d = r - of_int f
      in if d < 1 / 2 then f else if d > 1 / 2 then f + 1 else if even f then f else f + 1)"

definition pad_zeros :: "nat \<Rightarrow> string \<Rightarrow> string" where
  [py_defs]: "pad_zeros k s = replicate (k - length s) CHR ''0'' @ s"

definition show_fixed :: "nat \<Rightarrow> flt \<Rightarrow> string" where
  [py_defs]: "show_fixed k x =
     (case x of
        Fin r \<Rightarrow>
          (let q = nat (round_half_even (\<bar>r\<bar> * 10 ^ k));
               digits = pad_zeros (Suc k) (show_nat q);
               whole = take (length digits - k) digits;
               frac = drop (length digits - k) digits
           in (if r < 0 then ''-'' else []) @ whole @ (if k = 0 then [] else CHR ''.'' # frac))
      | PInf \<Rightarrow> ''inf'' | NInf \<Rightarrow> ''-inf'' | NaN \<Rightarrow> ''nan'')"


section \<open>Results\<close>

text \<open>A call that may raise returns \<open>Inl\<close> of the exception or \<open>Inr\<close> of its value.\<close>

definition rbind :: "'e + 'a \<Rightarrow> ('a \<Rightarrow> 'e + 'b) \<Rightarrow> 'e + 'b" where
  "rbind r f = (case r of Inl e \<Rightarrow> Inl e | Inr a \<Rightarrow> f a)"

lemma rbind_simps [simp]: "rbind (Inl e) f = Inl e" "rbind (Inr a) f = f a"
  by (simp_all add: rbind_def)

lemma rbind_eq_Inr: "rbind r f = Inr b \<longleftrightarrow> (\<exists>a. r = Inr a \<and> f a = Inr b)"
  by (cases r) auto

text \<open>A comprehension whose element may raise.\<close>

fun rmap :: "('a \<Rightarrow> 'e + 'b) \<Rightarrow> 'a list \<Rightarrow> 'e + 'b list" where
  "rmap f [] = Inr []"
| "rmap f (x # xs) = rbind (f x) (\<lambda>y. rbind (rmap f xs) (\<lambda>ys. Inr (y # ys)))"

lemma rmap_map: "(\<And>x. x \<in> set xs \<Longrightarrow> f (g x) = Inr (k x)) \<Longrightarrow> rmap f (map g xs) = Inr (map k xs)"
  by (induction xs) auto

text \<open>Float division raises on a zero divisor.\<close>

fun py_div :: "flt \<Rightarrow> flt \<Rightarrow> pyexn + flt" where
  "py_div x (Fin b) =
     (if b = 0 then Inl (ZeroDivisionError (lit ''float division by zero''))
      else case x of
        Fin a \<Rightarrow> Inr (Fin (a / b))
      | PInf \<Rightarrow> Inr (if b > 0 then PInf else NInf)
      | NInf \<Rightarrow> Inr (if b > 0 then NInf else PInf)
      | NaN \<Rightarrow> Inr NaN)"
| "py_div x NaN = Inr NaN"
| "py_div (Fin a) _ = Inr (Fin 0)"
| "py_div _ _ = Inr NaN"

definition ts_sub :: "tstamp \<Rightarrow> tstamp \<Rightarrow> pyexn + int" where
  "ts_sub a b =
     (if tz_aware a = tz_aware b then Inr (ns a - ns b)
      else Inl (TypeError (lit ''Cannot subtract tz-naive and tz-aware datetime-like objects.'')))"

definition ts_le :: "tstamp \<Rightarrow> tstamp \<Rightarrow> pyexn + bool" where
  "ts_le a b =
     (if tz_aware a = tz_aware b then Inr (ns a \<le> ns b)
      else Inl (TypeError (lit ''Cannot compare tz-naive and tz-aware timestamps'')))"

definition ts_lt :: "tstamp \<Rightarrow> tstamp \<Rightarrow> pyexn + bool" where
  "ts_lt a b =
     (if tz_aware a = tz_aware b then Inr (ns a < ns b)
      else Inl (TypeError (lit ''Cannot compare tz-naive and tz-aware timestamps'')))"

lemma ts_sub_utc [simp]: "ts_sub (utc a) (utc b) = Inr (a - b)"
  by (simp add: ts_sub_def)

lemma ts_le_utc [simp]: "ts_le (utc a) (utc b) = Inr (a \<le> b)"
  by (simp add: ts_le_def)

lemma ts_lt_utc [simp]: "ts_lt (utc a) (utc b) = Inr (a < b)"
  by (simp add: ts_lt_def)

text \<open>
  The two conversions of the pandas library the risk gateway calls: \<open>pd.Timedelta(minutes=x)\<close> and
  \<open>Timedelta.total_seconds()\<close>. They are parameters of the definitions that use them.
\<close>

record pandas =
  pd_minutes :: "flt \<Rightarrow> pyexn + int"
  pd_seconds :: "int \<Rightarrow> flt"


section \<open>JSON-shaped values\<close>

datatype jval =
    JNull
  | JBool bool
  | JInt int
  | JFloat flt
  | JStr string
  | JList "jval list"
  | JDict "(string \<times> jval) list"

type_synonym jdict = "(string \<times> jval) list"


section \<open>Shared list facts\<close>

lemma map_of_filter_fst_neq: "map_of (filter (\<lambda>p. fst p \<noteq> k) xs) k = None"
  by (induction xs) auto

lemma prefix_take_iff: "prefix p s \<longleftrightarrow> take (length p) s = p"
  by (metis append_eq_conv_conj prefix_def prefixE)

lemma sorted_list_of_set_map_of: "set (map fst xs) = dom (map_of xs)"
  by (simp add: dom_map_of_conv_image_fst)

end
