(* ===== verification/Core_Types.thy ===== *)
theory Core_Types
  imports Py_Prelude
begin

text \<open>
  The vocabulary every layer shares: the enumerations of \<open>core/enums.py\<close>, the frozen dataclasses of
  \<open>core/contracts.py\<close> that cross the ALPHA / PORTFOLIO / RISK / EXECUTION boundaries, the contract
  specification of \<open>core/instruments.py\<close> and the portfolio snapshot the risk gateway reads. A
  dataclass with a \<open>__post_init__\<close> is a record together with a function that returns the record or
  the exception the constructor raises.
\<close>

section \<open>Enumerations\<close>

datatype direction = LONG | SHORT

definition dir_sign :: "direction \<Rightarrow> real" where
  "dir_sign d = (if d = LONG then 1 else -1)"

definition dir_opposite :: "direction \<Rightarrow> direction" where
  "dir_opposite d = (if d = LONG then SHORT else LONG)"

fun dir_value :: "direction \<Rightarrow> string" where
  "dir_value LONG = ''long''"
| "dir_value SHORT = ''short''"

datatype asset_class =
  FX_MAJOR | FX_CROSS | METAL | ENERGY | INDEX | CRYPTO | EQUITY | BOND | COMMODITY

datatype timeframe = M1 | M5 | M15 | M30 | H1 | H4 | D1

fun tf_minutes :: "timeframe \<Rightarrow> int" where
  "tf_minutes M1 = 1"
| "tf_minutes M5 = 5"
| "tf_minutes M15 = 15"
| "tf_minutes M30 = 30"
| "tf_minutes H1 = 60"
| "tf_minutes H4 = 240"
| "tf_minutes D1 = 1440"

fun tf_value :: "timeframe \<Rightarrow> string" where
  "tf_value M1 = ''M1''"
| "tf_value M5 = ''M5''"
| "tf_value M15 = ''M15''"
| "tf_value M30 = ''M30''"
| "tf_value H1 = ''H1''"
| "tf_value H4 = ''H4''"
| "tf_value D1 = ''D1''"

definition all_timeframes :: "timeframe list" where
  "all_timeframes = [M1, M5, M15, M30, H1, H4, D1]"

text \<open>Looking a member up by value, \<open>Timeframe("H1")\<close>; \<open>None\<close> is the ValueError.\<close>

definition tf_of_value :: "string \<Rightarrow> timeframe option" where
  "tf_of_value s = List.find (\<lambda>t. tf_value t = s) all_timeframes"

datatype order_type = MARKET | LIMIT | STOP

datatype exec_mode = BACKTEST | PAPER | SHADOW | DEMO | LIVE

definition touches_real_money :: "exec_mode \<Rightarrow> bool" where
  "touches_real_money m \<longleftrightarrow> m = LIVE"

definition touches_broker :: "exec_mode \<Rightarrow> bool" where
  "touches_broker m \<longleftrightarrow> m \<in> {SHADOW, DEMO, LIVE}"

fun mode_value :: "exec_mode \<Rightarrow> string" where
  "mode_value BACKTEST = ''backtest''"
| "mode_value PAPER = ''paper''"
| "mode_value SHADOW = ''shadow''"
| "mode_value DEMO = ''demo''"
| "mode_value LIVE = ''live''"

definition all_modes :: "exec_mode list" where
  "all_modes = [BACKTEST, PAPER, SHADOW, DEMO, LIVE]"

definition mode_of_value :: "string \<Rightarrow> exec_mode option" where
  "mode_of_value s = List.find (\<lambda>m. mode_value m = s) all_modes"

datatype lifecycle =
    LC_DISCOVERY | LC_RESEARCH | LC_VALIDATING | LC_CANDIDATE
  | LC_PAPER | LC_SHADOW | LC_DEMO | LC_APPROVED | LC_LIVE
  | LC_WATCH | LC_DEGRADED | LC_QUARANTINED | LC_RETIRED

fun lc_value :: "lifecycle \<Rightarrow> string" where
  "lc_value LC_DISCOVERY = ''discovery''"
| "lc_value LC_RESEARCH = ''research''"
| "lc_value LC_VALIDATING = ''validating''"
| "lc_value LC_CANDIDATE = ''candidate''"
| "lc_value LC_PAPER = ''paper''"
| "lc_value LC_SHADOW = ''shadow''"
| "lc_value LC_DEMO = ''demo''"
| "lc_value LC_APPROVED = ''approved''"
| "lc_value LC_LIVE = ''live''"
| "lc_value LC_WATCH = ''watch''"
| "lc_value LC_DEGRADED = ''degraded''"
| "lc_value LC_QUARANTINED = ''quarantined''"
| "lc_value LC_RETIRED = ''retired''"

definition all_lifecycles :: "lifecycle list" where
  "all_lifecycles =
     [LC_DISCOVERY, LC_RESEARCH, LC_VALIDATING, LC_CANDIDATE, LC_PAPER, LC_SHADOW, LC_DEMO,
      LC_APPROVED, LC_LIVE, LC_WATCH, LC_DEGRADED, LC_QUARANTINED, LC_RETIRED]"

definition lc_of_value :: "string \<Rightarrow> lifecycle option" where
  "lc_of_value s = List.find (\<lambda>l. lc_value l = s) all_lifecycles"

lemma all_lifecycles_UNIV [simp]: "x \<in> set all_lifecycles"
  by (cases x) (simp_all add: all_lifecycles_def)

lemma tf_of_value_inverse [simp]: "tf_of_value (tf_value t) = Some t"
  by (cases t) (simp_all add: tf_of_value_def all_timeframes_def)

lemma mode_of_value_inverse [simp]: "mode_of_value (mode_value m) = Some m"
  by (cases m) (simp_all add: mode_of_value_def all_modes_def)

lemma lc_of_value_inverse [simp]: "lc_of_value (lc_value l) = Some l"
  by (cases l) (simp_all add: lc_of_value_def all_lifecycles_def)

lemma lc_value_inject [simp]: "lc_value a = lc_value b \<longleftrightarrow> a = b"
  by (metis lc_of_value_inverse option.inject)


section \<open>Contract specifications\<close>

record instrument =
  i_symbol :: string
  i_asset_class :: asset_class
  i_base :: string
  i_quote :: string
  i_pip_size :: flt
  i_contract_size :: flt
  i_min_size :: flt
  i_size_step :: flt
  i_price_precision :: int
  i_typical_spread_pips :: flt
  i_retail_leverage :: flt
  i_annual_financing_bps :: flt
  i_trading_hours :: string
  i_typical_spread_bps :: "flt option"
  i_shortable :: bool
  i_venue :: string

type_synonym registry = "string \<rightharpoonup> instrument"

text \<open>\<open>get\<close> refuses a symbol that is not registered, whatever its case.\<close>

definition get_instrument :: "registry \<Rightarrow> string \<Rightarrow> pyexn + instrument" where
  "get_instrument reg symb =
     (case reg (upper symb) of
        None \<Rightarrow> Inl (KeyError [Lit ''Unknown instrument '', Lit symb])
      | Some i \<Rightarrow> Inr i)"


section \<open>ALPHA: signals\<close>

record signal =
  sg_strategy_id :: string
  sg_instrument :: string
  sg_timeframe :: string
  sg_direction :: direction
  sg_bar_time :: tstamp
  sg_reference_price :: flt
  sg_stop_price :: flt
  sg_take_profit_prices :: "flt list"
  sg_take_profit_allocations :: "flt list"
  sg_confidence :: flt
  sg_rationale :: string
  sg_features :: "string \<rightharpoonup> flt"
  sg_signal_id :: string

definition flt_sum :: "flt list \<Rightarrow> flt" where
  "flt_sum xs = fold (\<lambda>x acc. acc + x) xs (Fin 0)"

fun check_take_profits :: "direction \<Rightarrow> flt \<Rightarrow> flt list \<Rightarrow> pyexn option" where
  "check_take_profits d ref [] = None"
| "check_take_profits d ref (tp # tps) =
     (if d = LONG \<and> tp \<le> ref then Some (ValueError [Lit ''LONG take-profit '', Repr tp, Lit '' must be above entry''])
      else if d = SHORT \<and> tp \<ge> ref then Some (ValueError [Lit ''SHORT take-profit '', Repr tp, Lit '' must be below entry''])
      else check_take_profits d ref tps)"

definition signal_post_init :: "signal \<Rightarrow> pyexn + signal" where
  "signal_post_init s =
     (let d = sg_direction s; ref = sg_reference_price s; stop = sg_stop_price s;
          allocs = sg_take_profit_allocations s; tps = sg_take_profit_prices s in
      if stop \<le> Fin 0 \<or> ref \<le> Fin 0
        then Inl (ValueError (lit ''Signal requires positive reference and stop prices''))
      else if d = LONG \<and> stop \<ge> ref
        then Inl (ValueError [Lit ''LONG stop '', Repr stop, Lit '' must be below entry '', Repr ref])
      else if d = SHORT \<and> stop \<le> ref
        then Inl (ValueError [Lit ''SHORT stop '', Repr stop, Lit '' must be above entry '', Repr ref])
      else case check_take_profits d ref tps of
        Some e \<Rightarrow> Inl e
      | None \<Rightarrow>
          if allocs \<noteq> [] \<and> length allocs \<noteq> length tps
            then Inl (ValueError (lit ''take_profit_allocations does not match take_profit_prices''))
          else if allocs \<noteq> [] \<and> (\<exists>a \<in> set allocs. a \<le> Fin 0 \<or> a > Fin 1)
            then Inl (ValueError (lit ''each take-profit allocation must lie in (0, 1]''))
          else if allocs \<noteq> [] \<and> flt_sum allocs > Fin (1 + 1 / 10 ^ 9)
            then Inl (ValueError [Lit ''take-profit allocations sum to '', Fixed 6 (flt_sum allocs),
                        Lit '' > 1.0; a position cannot be closed more than once''])
          else if \<not> tz_aware (sg_bar_time s)
            then Inl (ValueError (lit ''Signal.bar_time must be timezone-aware UTC''))
          else Inr s)"

definition stop_distance :: "signal \<Rightarrow> flt" where
  "stop_distance s = \<bar>sg_reference_price s - sg_stop_price s\<bar>"


section \<open>PORTFOLIO: the sized plan\<close>

record trade_plan =
  pl_signal :: signal
  pl_size :: flt
  pl_account_ccy :: string
  pl_risk_amount :: flt
  pl_sizing_basis :: string
  pl_max_leverage_applied :: flt
  pl_portfolio_weight :: flt
  pl_plan_id :: string

definition plan_post_init :: "trade_plan \<Rightarrow> pyexn + trade_plan" where
  "plan_post_init p =
     (if pl_size p \<le> Fin 0
      then Inl (ValueError (lit ''TradePlan.size must be positive; reject upstream instead''))
      else Inr p)"

abbreviation pl_direction :: "trade_plan \<Rightarrow> direction" where
  "pl_direction p \<equiv> sg_direction (pl_signal p)"

abbreviation pl_instrument :: "trade_plan \<Rightarrow> string" where
  "pl_instrument p \<equiv> sg_instrument (pl_signal p)"


section \<open>RISK: decisions and shadow reasons\<close>

definition SHADOW_REASON_PREFIX :: string where
  "SHADOW_REASON_PREFIX = ''event_veto_shadow:''"

text \<open>
  Every reason is an f-string that starts with a literal, and the prefix test reads that literal.
\<close>

fun is_shadow_reason :: "ftext \<Rightarrow> bool" where
  "is_shadow_reason (Lit s # _) = prefix SHADOW_REASON_PREFIX s"
| "is_shadow_reason _ = False"

record risk_decision =
  rd_allowed :: bool
  rd_reasons :: "ftext list"
  rd_adjusted_size :: "flt option"
  rd_checks_run :: "string list"
  rd_decided_at :: tstamp

definition blocking_reasons :: "risk_decision \<Rightarrow> ftext list" where
  "blocking_reasons d = filter (\<lambda>r. \<not> is_shadow_reason r) (rd_reasons d)"

definition shadow_reasons :: "risk_decision \<Rightarrow> ftext list" where
  "shadow_reasons d = filter is_shadow_reason (rd_reasons d)"


section \<open>The event channel\<close>

record veto_reason =
  vr_annotation_id :: string
  vr_event_type :: string
  vr_buckets :: "string list"
  vr_severity :: int
  vr_confidence :: flt
  vr_observed_at :: tstamp
  vr_policy_version :: string

fun join :: "string \<Rightarrow> string list \<Rightarrow> string" where
  "join sep [] = []"
| "join sep [x] = x"
| "join sep (x # xs) = x @ sep @ join sep xs"

definition veto_code :: "veto_reason \<Rightarrow> string" where
  "veto_code v =
     vr_event_type v @ '':'' @ join ''+'' (vr_buckets v) @ '':sev'' @ show_int (vr_severity v) @
     '':'' @ vr_annotation_id v"

record veto_assessment =
  va_policy_version :: string
  va_enabled :: bool
  va_available :: bool
  va_veto :: "veto_reason option"
  va_detail :: string


section \<open>EXECUTION: orders, fills, positions\<close>

record order =
  o_plan_id :: string
  o_instrument :: string
  o_direction :: direction
  o_size :: flt
  o_order_type :: order_type
  o_mode :: exec_mode
  o_client_ref :: string
  o_limit_price :: "flt option"
  o_stop_loss :: "flt option"
  o_take_profit :: "flt option"
  o_take_profit_prices :: "flt list"
  o_take_profit_allocations :: "flt list"
  o_created_at :: "tstamp option"
  o_order_id :: string

definition order_post_init :: "order \<Rightarrow> pyexn + order" where
  "order_post_init ord =
     (if o_client_ref ord = []
        then Inl (ValueError (lit ''Order.client_ref is mandatory.''))
      else if o_take_profit_allocations ord \<noteq> []
           \<and> length (o_take_profit_allocations ord) \<noteq> length (o_take_profit_prices ord)
        then Inl (ValueError (lit ''Order take-profit allocations do not match its prices''))
      else Inr ord)"

record fill =
  f_order_id :: string
  f_instrument :: string
  f_direction :: direction
  f_filled_size :: flt
  f_filled_price :: flt
  f_requested_price :: flt
  f_filled_at :: tstamp
  f_spread_paid :: flt
  f_commission :: flt
  f_slippage :: flt
  f_venue_ref :: "string option"
  f_partial :: bool

definition slippage_signed :: "fill \<Rightarrow> flt" where
  "slippage_signed f = (f_filled_price f - f_requested_price f) * Fin (dir_sign (f_direction f))"

record position =
  ps_instrument :: string
  ps_direction :: direction
  ps_size :: flt
  ps_entry_price :: flt
  ps_entry_time :: tstamp
  ps_stop_loss :: "flt option"
  ps_take_profit_targets :: "flt list"
  ps_strategy_id :: string
  ps_bars_held :: int
  ps_mfe :: flt
  ps_mae :: flt
  ps_financing_accrued :: flt
  ps_venue_ref :: "string option"
  ps_position_id :: string

definition unrealised_quote :: "position \<Rightarrow> flt \<Rightarrow> flt \<Rightarrow> flt" where
  "unrealised_quote p price contract_size =
     (price - ps_entry_price p) * Fin (dir_sign (ps_direction p)) * ps_size p * contract_size"

definition update_excursion :: "position \<Rightarrow> flt \<Rightarrow> flt \<Rightarrow> position" where
  "update_excursion p high low =
     (let best = (if ps_direction p = LONG then high else low);
          worst = (if ps_direction p = LONG then low else high);
          sgn = Fin (dir_sign (ps_direction p))
      in p\<lparr>ps_mfe := py_max (ps_mfe p) ((best - ps_entry_price p) * sgn),
           ps_mae := py_min (ps_mae p) ((worst - ps_entry_price p) * sgn)\<rparr>)"


section \<open>Account and portfolio snapshot\<close>

record account_state =
  ac_balance :: flt
  ac_equity :: flt
  ac_currency :: string
  ac_margin_used :: flt
  ac_open_positions :: int
  ac_realised_pnl :: flt
  ac_unrealised_pnl :: flt
  ac_peak_equity :: flt

definition free_margin :: "account_state \<Rightarrow> flt" where
  "free_margin a = ac_equity a - ac_margin_used a"

definition drawdown_pct :: "account_state \<Rightarrow> pyexn + flt" where
  "drawdown_pct a =
     (if ac_peak_equity a \<le> Fin 0 then Inr (Fin 0)
      else rbind (py_div (ac_peak_equity a - ac_equity a) (ac_peak_equity a))
             (\<lambda>q. Inr (py_max (Fin 0) (q * Fin 100))))"

text \<open>\<open>PortfolioSnapshot\<close> without its two correlation matrices, which only portfolio construction
  reads.\<close>

record snapshot =
  sn_account :: account_state
  sn_as_of :: tstamp
  sn_open_positions :: "position list"
  sn_instrument_exposure :: "string \<rightharpoonup> flt"
  sn_strategy_exposure :: "string \<rightharpoonup> flt"
  sn_currency_exposure :: "string \<rightharpoonup> flt"
  sn_asset_class_exposure :: "string \<rightharpoonup> flt"
  sn_realised_portfolio_vol :: flt
  sn_margin_available :: flt
  sn_regime :: string
  sn_open_risk_by_instrument :: "(string \<times> flt) list option"

definition margin_utilisation :: "snapshot \<Rightarrow> pyexn + flt" where
  "margin_utilisation s =
     (let a = sn_account s in
      if ac_equity a \<le> Fin 0 then Inr (Fin 1)
      else rbind (py_div (ac_margin_used a) (ac_equity a)) (\<lambda>q. Inr (py_max (Fin 0) q)))"

definition open_risk_pct :: "snapshot \<Rightarrow> pyexn + flt option" where
  "open_risk_pct s =
     (case sn_open_risk_by_instrument s of
        None \<Rightarrow> Inr None
      | Some risks \<Rightarrow>
          if ac_equity (sn_account s) \<le> Fin 0 then Inr None
          else rbind (py_div (flt_sum (map (\<lambda>kv. py_max (Fin 0) (snd kv)) risks)) (ac_equity (sn_account s)))
                 (\<lambda>q. Inr (Some (q * Fin 100))))"

end
