(* ===== verification/Mode_Guard.thy ===== *)
theory Mode_Guard
  imports Core_Types
begin

text \<open>
  The execution-mode guard of \<open>broker/mode_guard.py\<close>: parsing the hostname out of a venue URL (with what
  \<open>urllib.parse.urlsplit\<close> does to get there), the persisted operator authorisation and its store, the five
  controls LIVE needs and the check that keeps the other modes away from live venues. A stored document
  is modelled with the value types \<open>to_json\<close> writes; \<open>pd.Timestamp\<close>'s parser and printer and the
  validation of bracketed IP literals are arguments.
\<close>

section \<open>Hostnames\<close>

definition is_alpha :: "char \<Rightarrow> bool" where
  [py_defs]: "is_alpha c \<longleftrightarrow> (let n = of_char c :: nat in (65 \<le> n \<and> n \<le> 90) \<or> (97 \<le> n \<and> n \<le> 122))"

definition is_digit :: "char \<Rightarrow> bool" where
  [py_defs]: "is_digit c \<longleftrightarrow> (let n = of_char c :: nat in 48 \<le> n \<and> n \<le> 57)"

definition scheme_char :: "char \<Rightarrow> bool" where
  [py_defs]: "scheme_char c \<longleftrightarrow> is_alpha c \<or> is_digit c \<or> c \<in> set ''+-.''"

text \<open>\<open>urlsplit\<close>: leading control characters and spaces go, then every tab, carriage return and newline; a
  leading scheme is split off; what follows \<open>//\<close> up to \<open>/\<close>, \<open>?\<close> or \<open>#\<close> is the network location.\<close>

definition clean_url :: "string \<Rightarrow> string" where
  [py_defs]: "clean_url url =
     filter (\<lambda>c. (of_char c :: nat) \<notin> {9, 10, 13}) (dropWhile (\<lambda>c. (of_char c :: nat) \<le> 32) url)"

definition drop_scheme :: "string \<Rightarrow> string" where
  [py_defs]: "drop_scheme url =
     (let pre = takeWhile (\<lambda>c. c \<noteq> CHR '':'') url in
      if pre \<noteq> [] \<and> length pre < length url \<and> is_alpha (hd pre) \<and> list_all scheme_char pre
      then drop (Suc (length pre)) url else url)"

definition url_netloc :: "string \<Rightarrow> string" where
  [py_defs]: "url_netloc url =
     (let rest = drop_scheme (clean_url url) in
      if prefix ''//'' rest then takeWhile (\<lambda>c. c \<notin> set ''/?#'') (drop 2 rest) else [])"

text \<open>\<open>SplitResult.hostname\<close>: after the last \<open>@\<close>, up to the port, or inside the brackets.\<close>

definition netloc_host :: "string \<Rightarrow> string" where
  [py_defs]: "netloc_host netloc =
     (let info = rev (takeWhile (\<lambda>c. c \<noteq> CHR ''@'') (rev netloc)) in
      if CHR ''['' \<in> set info
      then takeWhile (\<lambda>c. c \<noteq> CHR '']'') (drop 1 (dropWhile (\<lambda>c. c \<noteq> CHR ''['') info))
      else takeWhile (\<lambda>c. c \<noteq> CHR '':'') info)"

definition parse_host :: "(string \<Rightarrow> bool) \<Rightarrow> string \<Rightarrow> pyexn + string" where
  "parse_host ip_ok url =
     (if url = [] then Inr []
      else let netloc = url_netloc (if sublist ''//'' url then url else ''//'' @ url);
               has_open = CHR ''['' \<in> set netloc; has_close = CHR '']'' \<in> set netloc in
        if has_open \<noteq> has_close then Inl (ValueError (lit ''Invalid IPv6 URL''))
        else if has_open \<and> \<not> ip_ok netloc then Inl (ValueError (lit ''invalid bracketed host''))
        else Inr (lower (netloc_host netloc)))"


section \<open>The operator authorisation\<close>

record live_auth =
  la_operator :: string
  la_granted_at :: tstamp
  la_expires_at :: tstamp
  la_strategies :: "string list"
  la_venue_host :: string
  la_reason :: string

definition live_auth_post_init :: "live_auth \<Rightarrow> pyexn + live_auth" where
  "live_auth_post_init a =
     (if la_operator a = []
        then Inl (ValueError (lit ''A live authorisation must name the operator who granted it''))
      else if \<not> tz_aware (la_granted_at a)
        then Inl (ValueError (lit ''LiveAuthorisation.granted_at must be timezone-aware UTC''))
      else if \<not> tz_aware (la_expires_at a)
        then Inl (ValueError (lit ''LiveAuthorisation.expires_at must be timezone-aware UTC''))
      else if ns (la_expires_at a) \<le> ns (la_granted_at a)
        then Inl (ValueError (lit ''A live authorisation must expire after it was granted''))
      else if la_strategies a = []
        then Inl (ValueError (lit ''A live authorisation with no strategies authorises nothing.''))
      else if ''*'' \<in> set (la_strategies a)
        then Inl (ValueError (lit ''* is not a strategy id.''))
      else Inr a)"

text \<open>\<open>granted_at <= now < expires_at\<close>, a chained comparison: the second half is read only after the first.\<close>

definition valid_at :: "live_auth \<Rightarrow> tstamp \<Rightarrow> pyexn + bool" where
  "valid_at a now = rbind (ts_le (la_granted_at a) now) (\<lambda>ok. if ok then ts_lt now (la_expires_at a) else Inr False)"

definition covers :: "live_auth \<Rightarrow> string \<Rightarrow> bool" where
  "covers a sid \<longleftrightarrow> sid \<in> set (la_strategies a)"

text \<open>The stored document, each key present or absent.\<close>

record auth_doc =
  ad_operator :: "string option"
  ad_granted_at :: "string option"
  ad_expires_at :: "string option"
  ad_strategies :: "string list option"
  ad_venue_host :: "string option"
  ad_reason :: "string option"

record ts_text =
  ts_parse :: "string \<Rightarrow> pyexn + tstamp"
  ts_iso :: "tstamp \<Rightarrow> string"

definition to_json :: "ts_text \<Rightarrow> live_auth \<Rightarrow> auth_doc" where
  "to_json T a =
     \<lparr>ad_operator = Some (la_operator a), ad_granted_at = Some (ts_iso T (la_granted_at a)),
      ad_expires_at = Some (ts_iso T (la_expires_at a)), ad_strategies = Some (la_strategies a),
      ad_venue_host = Some (la_venue_host a), ad_reason = Some (la_reason a)\<rparr>"

definition doc_key :: "string \<Rightarrow> 'a option \<Rightarrow> pyexn + 'a" where
  "doc_key k v = (case v of None \<Rightarrow> Inl (KeyError (lit k)) | Some x \<Rightarrow> Inr x)"

definition or_default :: "'a \<Rightarrow> 'a option \<Rightarrow> 'a" where
  "or_default d v = (case v of None \<Rightarrow> d | Some x \<Rightarrow> x)"

definition from_json :: "ts_text \<Rightarrow> auth_doc \<Rightarrow> pyexn + live_auth" where
  "from_json T d =
     rbind (doc_key ''operator'' (ad_operator d)) (\<lambda>operator.
     rbind (doc_key ''granted_at'' (ad_granted_at d)) (\<lambda>g. rbind (ts_parse T g) (\<lambda>granted.
     rbind (doc_key ''expires_at'' (ad_expires_at d)) (\<lambda>e. rbind (ts_parse T e) (\<lambda>expires.
       live_auth_post_init
         \<lparr>la_operator = operator, la_granted_at = granted, la_expires_at = expires,
          la_strategies = or_default [] (ad_strategies d), la_venue_host = or_default [] (ad_venue_host d),
          la_reason = or_default [] (ad_reason d)\<rparr>)))))"

text \<open>The store: no path configured, or a path at which there is nothing, a file that is not a readable JSON
  object, or a document.\<close>

datatype auth_file = NoFile | Garbage | Doc auth_doc

type_synonym auth_store = "auth_file option"

fun auth_load :: "ts_text \<Rightarrow> auth_store \<Rightarrow> live_auth option" where
  "auth_load T None = None"
| "auth_load T (Some NoFile) = None"
| "auth_load T (Some Garbage) = None"
| "auth_load T (Some (Doc d)) = (case from_json T d of Inl _ \<Rightarrow> None | Inr a \<Rightarrow> Some a)"

fun auth_save :: "ts_text \<Rightarrow> live_auth \<Rightarrow> auth_store \<Rightarrow> pyexn + auth_store" where
  "auth_save T a None = Inl (ValueError (lit ''LiveAuthorisationStore has no path to save to''))"
| "auth_save T a (Some _) = Inr (Some (Doc (to_json T a)))"


section \<open>The guard\<close>

definition LIVE_EXECUTION_COMPILED_IN :: bool where
  "LIVE_EXECUTION_COMPILED_IN = False"

definition LIVE_ARM_TOKEN :: string where
  "LIVE_ARM_TOKEN = ''ARMED-LIVE-EXECUTION-I-ACCEPT-REAL-MONEY-RISK''"

definition LIVE_ARM_ENV :: string where
  "LIVE_ARM_ENV = ''FIBOKI_LIVE_RUNTIME_ARMED''"

definition LIVE_HOSTS :: "string list" where
  "LIVE_HOSTS = [''api-fxtrade.oanda.com'', ''stream-fxtrade.oanda.com'', ''api.ig.com'', ''deal.ig.com'']"

definition DEMO_HOSTS :: "string list" where
  "DEMO_HOSTS = [''api-fxpractice.oanda.com'', ''stream-fxpractice.oanda.com'', ''demo-api.ig.com'']"

definition LIVE_CONTROLS :: "string list" where
  "LIVE_CONTROLS =
     [''build_time_constant'', ''runtime_env_flag'', ''operator_authorisation'', ''strategy_allow_list'', ''venue_hostname'']"

record mode_guard =
  mg_store :: auth_store
  mg_env :: "string \<rightharpoonup> string"
  mg_live_hosts :: "string list"
  mg_demo_hosts :: "string list"
  mg_compiled_in :: bool

definition mode_guard_new ::
  "auth_store \<Rightarrow> (string \<rightharpoonup> string) \<Rightarrow> string list \<Rightarrow> string list \<Rightarrow> bool option \<Rightarrow> mode_guard" where
  "mode_guard_new store env live demo compiled_in =
     \<lparr>mg_store = store, mg_env = env, mg_live_hosts = live, mg_demo_hosts = demo,
      mg_compiled_in = (case compiled_in of None \<Rightarrow> LIVE_EXECUTION_COMPILED_IN | Some b \<Rightarrow> b)\<rparr>"

record guard_decision =
  gd_allowed :: bool
  gd_mode :: exec_mode
  gd_controls :: "(string \<times> bool) list"
  gd_reasons :: "ftext list"

definition failed_controls :: "guard_decision \<Rightarrow> string list" where
  "failed_controls d = map fst (filter (\<lambda>kv. \<not> snd kv) (sort_key fst (gd_controls d)))"

definition check_non_live :: "mode_guard \<Rightarrow> exec_mode \<Rightarrow> string \<Rightarrow> guard_decision" where
  "check_non_live G mode host =
     (let at_live = (host \<noteq> [] \<and> host \<in> set (mg_live_hosts G));
          known = (host \<noteq> [] \<and> (host \<in> set (mg_demo_hosts G) \<or> host \<in> set (mg_live_hosts G)));
          reasons =
            (if at_live then [[Lit ''mode='', Lit (mode_value mode), Lit '' but venue host '', Lit host, Lit '' is a LIVE venue.'']] else [])
            @ (if touches_broker mode \<and> \<not> known
               then [[Lit ''mode='', Lit (mode_value mode), Lit '' requires a known venue host; '', Lit host]] else [])
      in \<lparr>gd_allowed = (reasons = []), gd_mode = mode,
          gd_controls = (''not_pointed_at_live_host'', \<not> at_live) #
            (if touches_broker mode then [(''known_venue_host'', known)] else []),
          gd_reasons = reasons\<rparr>)"

text \<open>Controls 3 and 4 and their reasons: \<open>(authorisation, allow list, reasons)\<close>.\<close>

definition check_authorisation :: "ts_text \<Rightarrow> mode_guard \<Rightarrow> string \<Rightarrow> string \<Rightarrow> tstamp \<Rightarrow> pyexn + bool \<times> bool \<times> ftext list" where
  "check_authorisation T G sid host now =
     (case auth_load T (mg_store G) of
        None \<Rightarrow> Inr (False, False, [lit ''no persisted operator live authorisation was found''])
      | Some a \<Rightarrow>
          rbind (valid_at a now) (\<lambda>valid.
            if \<not> valid
            then Inr (False, False, [[Lit ''operator live authorisation from '', Lit (la_operator a), Lit '' is not valid at '', Iso now]])
            else Inr (True, covers a sid,
              (if covers a sid then [] else [[Lit ''strategy '', Lit sid, Lit '' is not on the live allow-list'']])
              @ (if la_venue_host a \<noteq> [] \<and> host \<noteq> [] \<and> lower (la_venue_host a) \<noteq> host
                 then [[Lit ''authorisation names venue host '', Lit (la_venue_host a), Lit '' but the request targets '', Lit host]]
                 else []))))"

definition check_live :: "ts_text \<Rightarrow> mode_guard \<Rightarrow> string \<Rightarrow> string \<Rightarrow> tstamp \<Rightarrow> pyexn + guard_decision" where
  "check_live T G sid host now =
     rbind (check_authorisation T G sid host now) (\<lambda>(authorised, listed, auth_reasons).
       let armed = (mg_env G LIVE_ARM_ENV = Some LIVE_ARM_TOKEN);
           live_host = (host \<noteq> [] \<and> host \<in> set (mg_live_hosts G));
           controls = zip LIVE_CONTROLS [mg_compiled_in G, armed, authorised, listed, live_host];
           reasons =
             (if mg_compiled_in G then [] else [lit ''live execution is not compiled in''])
             @ (if armed then [] else [[Lit LIVE_ARM_ENV, Lit '' is not set to the live arming token'']])
             @ auth_reasons
             @ (if live_host then [] else [[Lit ''venue hostname '', Lit host, Lit '' is not an approved live host'']])
       in Inr \<lparr>gd_allowed = (list_all snd controls \<and> reasons = []), gd_mode = LIVE, gd_controls = controls,
               gd_reasons = reasons\<rparr>)"

text \<open>\<open>wall\<close> is the clock the guard reads when the caller passes no \<open>now\<close>.\<close>

definition guard_check ::
  "ts_text \<Rightarrow> (string \<Rightarrow> bool) \<Rightarrow> tstamp \<Rightarrow> mode_guard \<Rightarrow> exec_mode \<Rightarrow> string \<Rightarrow> string \<Rightarrow> tstamp option \<Rightarrow> pyexn + guard_decision" where
  "guard_check T ip_ok wall G mode sid url now =
     rbind (parse_host ip_ok url) (\<lambda>host.
       if mode = LIVE then check_live T G sid host (or_default wall now)
       else Inr (check_non_live G mode host))"

abbreviation ModeGuardError :: "ftext \<Rightarrow> pyexn" where
  "ModeGuardError \<equiv> PyExn ''ModeGuardError''"

definition guard_require ::
  "ts_text \<Rightarrow> (string \<Rightarrow> bool) \<Rightarrow> tstamp \<Rightarrow> mode_guard \<Rightarrow> exec_mode \<Rightarrow> string \<Rightarrow> string \<Rightarrow> tstamp option \<Rightarrow> pyexn + guard_decision" where
  "guard_require T ip_ok wall G mode sid url now =
     rbind (guard_check T ip_ok wall G mode sid url now) (\<lambda>d.
       if gd_allowed d then Inr d
       else Inl (ModeGuardError
         ([Lit ''ModeGuard refused mode='', Lit (mode_value mode), Lit '' for strategy '', Lit sid, Lit '' at '', Lit url,
           Lit ''. Failed controls: '', Lit (join '', '' (failed_controls d)), Lit ''. Reasons: ''] @ concat (gd_reasons d))))"


section \<open>Lemmas\<close>

lemma live_auth_post_init_Inr:
  "live_auth_post_init a = Inr b \<longleftrightarrow>
     b = a \<and> la_operator a \<noteq> [] \<and> tz_aware (la_granted_at a) \<and> tz_aware (la_expires_at a)
     \<and> ns (la_granted_at a) < ns (la_expires_at a) \<and> la_strategies a \<noteq> [] \<and> ''*'' \<notin> set (la_strategies a)"
  by (auto simp: live_auth_post_init_def)

lemma from_json_valid: "from_json T d = Inr a \<Longrightarrow> live_auth_post_init a = Inr a"
  by (auto simp: from_json_def rbind_eq_Inr live_auth_post_init_Inr)

lemma auth_load_valid: "auth_load T s = Some a \<Longrightarrow> live_auth_post_init a = Inr a"
  by (cases "(T, s)" rule: auth_load.cases) (auto dest: from_json_valid split: sum.splits)

lemma valid_at_utc:
  assumes "live_auth_post_init a = Inr a"
  shows "valid_at a (utc n) = Inr (ns (la_granted_at a) \<le> n \<and> n < ns (la_expires_at a))"
  using assms by (auto simp: live_auth_post_init_Inr valid_at_def ts_le_def ts_lt_def)

lemma check_live_allowed:
  "(\<exists>d. check_live T G sid host (utc n) = Inr d \<and> gd_allowed d) \<longleftrightarrow>
     mg_compiled_in G \<and> mg_env G LIVE_ARM_ENV = Some LIVE_ARM_TOKEN
     \<and> (\<exists>a. auth_load T (mg_store G) = Some a \<and> ns (la_granted_at a) \<le> n \<and> n < ns (la_expires_at a)
          \<and> covers a sid \<and> (la_venue_host a = [] \<or> lower (la_venue_host a) = host))
     \<and> host \<noteq> [] \<and> host \<in> set (mg_live_hosts G)"
proof (cases "auth_load T (mg_store G)")
  case None
  then show ?thesis by (simp add: check_live_def check_authorisation_def LIVE_CONTROLS_def Let_def)
next
  case (Some a)
  note valid = valid_at_utc [OF auth_load_valid [OF Some], of n]
  show ?thesis
    by (auto simp: check_live_def check_authorisation_def LIVE_CONTROLS_def Some valid Let_def)
qed

lemma auth_roundtrip:
  assumes "ts_parse T (ts_iso T (la_granted_at a)) = Inr (la_granted_at a)"
    and "ts_parse T (ts_iso T (la_expires_at a)) = Inr (la_expires_at a)"
    and "live_auth_post_init a = Inr a" "auth_save T a store = Inr store'"
  shows "auth_load T store' = Some a"
  using assms by (cases store; cases a) (auto simp: to_json_def from_json_def doc_key_def or_default_def)

lemma check_live_compiled_in: "check_live T G sid host now = Inr d \<Longrightarrow> gd_allowed d \<Longrightarrow> mg_compiled_in G"
  by (auto simp: check_live_def rbind_eq_Inr LIVE_CONTROLS_def Let_def split: if_splits)

text \<open>The characters of a network location's parts: no URL delimiter, no bracket, no control character or space.
  A host also has no colon and no at-sign.\<close>

definition loc_char :: "char \<Rightarrow> bool" where
  "loc_char c \<longleftrightarrow> c \<notin> set ''/?#[]'' \<and> (of_char c :: nat) > 32"

definition host_char :: "char \<Rightarrow> bool" where
  "host_char c \<longleftrightarrow> loc_char c \<and> c \<notin> set '':@''"

definition userinfo :: "string \<Rightarrow> bool" where
  "userinfo u \<longleftrightarrow> u = [] \<or> last u = CHR ''@'' \<and> list_all loc_char u"

definition port_part :: "string \<Rightarrow> bool" where
  "port_part p \<longleftrightarrow> p = [] \<or> hd p = CHR '':'' \<and> list_all loc_char p \<and> CHR ''@'' \<notin> set p"

definition url_tail :: "string \<Rightarrow> bool" where
  "url_tail t \<longleftrightarrow> t = [] \<or> hd t \<in> set ''/?#''"

abbreviation safe_filter :: "string \<Rightarrow> string" where
  "safe_filter \<equiv> filter (\<lambda>c. (of_char c :: nat) \<notin> {9, 10, 13})"

lemma safe_filter_loc: "list_all loc_char s \<Longrightarrow> safe_filter s = s"
  by (induction s) (auto simp: loc_char_def)

lemma url_tail_filter: "url_tail t \<Longrightarrow> url_tail (safe_filter t)"
  by (cases t) (auto simp: url_tail_def)

lemma takeWhile_tail: "list_all loc_char s \<Longrightarrow> url_tail t \<Longrightarrow> takeWhile (\<lambda>c. c \<notin> set ''/?#'') (s @ t) = s"
  by (induction s) (cases t; auto simp: loc_char_def url_tail_def)+

lemma list_all_parts:
  "userinfo u \<Longrightarrow> list_all loc_char u" "port_part p \<Longrightarrow> list_all loc_char p" "list_all host_char h \<Longrightarrow> list_all loc_char h"
  by (auto simp: userinfo_def port_part_def host_char_def list_all_iff)

lemma netloc_https:
  assumes "userinfo u" "list_all host_char h" "port_part p" "url_tail t"
  shows "url_netloc (''https://'' @ u @ h @ p @ t) = u @ h @ p"
proof -
  have loc: "list_all loc_char (u @ h @ p)" using assms list_all_parts by simp
  have "clean_url (''https://'' @ u @ h @ p @ t) = ''https://'' @ (u @ h @ p) @ safe_filter t"
    using safe_filter_loc [OF loc] by (simp add: clean_url_def)
  then have "drop_scheme (clean_url (''https://'' @ u @ h @ p @ t)) = ''//'' @ (u @ h @ p) @ safe_filter t"
    by (simp add: drop_scheme_def scheme_char_def is_alpha_def is_digit_def)
  then show ?thesis
    using takeWhile_tail [OF loc url_tail_filter [OF assms(4)]] by (simp add: url_netloc_def)
qed

lemma host_no_delim: "list_all host_char h \<Longrightarrow> CHR ''@'' \<notin> set h" "list_all host_char h \<Longrightarrow> CHR '':'' \<notin> set h"
  by (induction h) (simp_all, auto simp: host_char_def)

lemma loc_no_bracket: "list_all loc_char s \<Longrightarrow> CHR ''['' \<notin> set s" "list_all loc_char s \<Longrightarrow> CHR '']'' \<notin> set s"
  by (induction s) (simp_all, auto simp: loc_char_def)

lemma takeWhile_neq: "x \<notin> set s \<Longrightarrow> takeWhile (\<lambda>c. c \<noteq> x) s = s" "x \<notin> set s \<Longrightarrow> takeWhile (\<lambda>c. c \<noteq> x) (s @ x # t) = s"
  by (induction s) auto

lemma netloc_host_parts:
  assumes "userinfo u" "list_all host_char h" "port_part p"
  shows "netloc_host (u @ h @ p) = h"
proof -
  have at: "CHR ''@'' \<notin> set (rev (h @ p))"
    using host_no_delim(1) [OF assms(2)] assms(3) by (auto simp: port_part_def)
  have "takeWhile (\<lambda>c. c \<noteq> CHR ''@'') (rev (u @ h @ p)) = rev (h @ p)"
  proof (cases "u = []")
    case True
    then show ?thesis using takeWhile_neq(1) [OF at] by simp
  next
    case False
    then have "rev (u @ h @ p) = rev (h @ p) @ CHR ''@'' # rev (butlast u)"
      using assms(1) by (cases u rule: rev_cases) (auto simp: userinfo_def)
    then show ?thesis using takeWhile_neq(2) [OF at] by (simp only:)
  qed
  moreover have "CHR ''['' \<notin> set (h @ p)"
    using loc_no_bracket(1) [of "h @ p"] list_all_parts(2) [OF assms(3)] list_all_parts(3) [OF assms(2)] by simp
  moreover have "takeWhile (\<lambda>c. c \<noteq> CHR '':'') (h @ p) = h"
    using takeWhile_neq [OF host_no_delim(2) [OF assms(2)]] assms(3) by (cases p) (auto simp: port_part_def)
  ultimately show ?thesis by (simp add: netloc_host_def Let_def)
qed

lemma parse_host_https:
  assumes "userinfo u" "list_all host_char h" "port_part p" "url_tail t"
  shows "parse_host ip_ok (''https://'' @ u @ h @ p @ t) = Inr (lower h)"
proof -
  have sl: "sublist ''//'' (''https://'' @ u @ h @ p @ t)"
    using sublist_appendI [of "''//''" "''https:''" "u @ h @ p @ t"] by simp
  have "list_all loc_char (u @ h @ p)" using assms list_all_parts by simp
  note nb = loc_no_bracket [OF this]
  show ?thesis
    using nb unfolding parse_host_def if_P [OF sl] netloc_https [OF assms]
    by (simp add: netloc_host_parts [OF assms(1-3)] Let_def)
qed

lemma lower_char_cases:
  "lower_char c = c \<and> \<not> (65 \<le> (of_char c :: nat) \<and> (of_char c :: nat) \<le> 90)
   \<or> (of_char (lower_char c) :: nat) = of_char c + 32 \<and> 65 \<le> (of_char c :: nat) \<and> (of_char c :: nat) \<le> 90"
  by (auto simp: lower_char_def Let_def)

lemma lower_lower [simp]: "lower (lower s) = lower s"
proof -
  have "lower_char (lower_char c) = lower_char c" for c
    using lower_char_cases [of c] lower_char_cases [of "lower_char c"] by auto
  then show ?thesis by simp
qed

lemma not_special_code:
  "c \<notin> set ''/?#[]'' \<longleftrightarrow> (of_char c :: nat) \<notin> {47, 63, 35, 91, 93}" "c \<notin> set '':@'' \<longleftrightarrow> (of_char c :: nat) \<notin> {58, 64}"
  using of_char_eq_iff [of c "CHR ''/''", where 'a = nat] of_char_eq_iff [of c "CHR ''?''", where 'a = nat]
    of_char_eq_iff [of c "CHR ''#''", where 'a = nat] of_char_eq_iff [of c "CHR ''[''", where 'a = nat]
    of_char_eq_iff [of c "CHR '']''", where 'a = nat] of_char_eq_iff [of c "CHR '':''", where 'a = nat]
    of_char_eq_iff [of c "CHR ''@''", where 'a = nat]
  by auto

lemma host_char_lower: "list_all host_char h \<Longrightarrow> list_all host_char (lower h)"
proof -
  have "host_char c \<Longrightarrow> host_char (lower_char c)" for c
    using lower_char_cases [of c] unfolding host_char_def loc_char_def not_special_code by auto
  then show "list_all host_char h \<Longrightarrow> list_all host_char (lower h)" by (auto simp: list_all_iff)
qed


section \<open>Properties\<close>

text \<open>C7: LIVE needs all five controls. The guard allows LIVE exactly when the build constant is set, the arming
  token is in the environment, a valid unexpired operator authorisation is on file that names this strategy (and,
  where it names a venue, this host), and the parsed host is an approved live host.\<close>

theorem live_requires_five_controls:
  assumes "parse_host ip_ok url = Inr host"
  shows "(\<exists>d. guard_require T ip_ok wall G LIVE sid url (Some (utc n)) = Inr d) \<longleftrightarrow>
     mg_compiled_in G \<and> mg_env G LIVE_ARM_ENV = Some LIVE_ARM_TOKEN
     \<and> (\<exists>a. auth_load T (mg_store G) = Some a \<and> live_auth_post_init a = Inr a
          \<and> ns (la_granted_at a) \<le> n \<and> n < ns (la_expires_at a)
          \<and> sid \<in> set (la_strategies a) \<and> (la_venue_host a = [] \<or> lower (la_venue_host a) = host))
     \<and> host \<noteq> [] \<and> host \<in> set (mg_live_hosts G)"
proof -
  have "(\<exists>d. guard_require T ip_ok wall G LIVE sid url (Some (utc n)) = Inr d) \<longleftrightarrow>
      (\<exists>d. check_live T G sid host (utc n) = Inr d \<and> gd_allowed d)"
    using assms by (cases "check_live T G sid host (utc n)")
      (auto simp: guard_require_def guard_check_def or_default_def)
  then show ?thesis
    unfolding check_live_allowed covers_def using auth_load_valid [of T "mg_store G"] by blast
qed

definition sample_times :: ts_text where
  "sample_times = \<lparr>ts_parse = (\<lambda>s. Inr (utc (int (length s)))), ts_iso = (\<lambda>t. replicate (nat (ns t)) CHR ''i'')\<rparr>"

definition sample_auth :: live_auth where
  "sample_auth = \<lparr>la_operator = ''joe'', la_granted_at = utc 1, la_expires_at = utc 9, la_strategies = [''s1''],
     la_venue_host = ''API.ig.com'', la_reason = []\<rparr>"

definition sample_guard :: mode_guard where
  "sample_guard = mode_guard_new (Some (Doc (to_json sample_times sample_auth))) [LIVE_ARM_ENV \<mapsto> LIVE_ARM_TOKEN]
     LIVE_HOSTS DEMO_HOSTS (Some True)"

lemma sample_auth_loads: "auth_load sample_times (mg_store sample_guard) = Some sample_auth"
  by (simp add: sample_guard_def mode_guard_new_def to_json_def from_json_def sample_times_def sample_auth_def doc_key_def
      or_default_def live_auth_post_init_def)

lemma ig_host [simp]: "parse_host ip_ok ''https://joe:pw@API.ig.com:443/gateway/deal?x=1'' = Inr ''api.ig.com''"
proof -
  have "parse_host ip_ok (''https://'' @ ''joe:pw@'' @ ''API.ig.com'' @ '':443'' @ ''/gateway/deal?x=1'') = Inr (lower ''API.ig.com'')"
    by (rule parse_host_https) (simp_all add: userinfo_def host_char_def loc_char_def port_part_def url_tail_def)
  then show ?thesis by (simp add: lower_char_def char_of_eq_iff)
qed

theorem live_requires_five_controls_witness:
  "(\<exists>d. guard_require sample_times (\<lambda>_. False) (utc 0) sample_guard LIVE ''s1''
          ''https://joe:pw@API.ig.com:443/gateway/deal?x=1'' (Some (utc 5)) = Inr d)
   \<and> \<not> (\<exists>d. guard_require sample_times (\<lambda>_. False) (utc 0) sample_guard LIVE ''s2''
          ''https://joe:pw@API.ig.com:443/gateway/deal?x=1'' (Some (utc 5)) = Inr d)"
  using live_requires_five_controls [OF ig_host, of sample_times "\<lambda>_. False" "utc 0" sample_guard] sample_auth_loads
  by (simp add: sample_guard_def mode_guard_new_def sample_auth_def live_auth_post_init_def LIVE_HOSTS_def lower_char_def
      char_of_eq_iff)

text \<open>As the repository stands LIVE is unreachable. A guard built the way production builds it (no \<open>compiled_in\<close>
  argument) refuses LIVE for every store, environment, host list, strategy, URL and time.\<close>

theorem live_never_by_default:
  "\<not> (\<exists>d. guard_require T ip_ok wall (mode_guard_new store env live demo None) LIVE sid url now = Inr d)"
  using check_live_compiled_in [of T "mode_guard_new store env live demo None" sid]
  by (auto simp: guard_require_def guard_check_def rbind_eq_Inr split: if_splits)
    (auto simp: mode_guard_new_def LIVE_EXECUTION_COMPILED_IN_def)

text \<open>The other modes stay away from live venues. A broker-touching mode other than LIVE is allowed exactly
  when the URL's host is a known demo host that is not a live one; PAPER and BACKTEST are allowed exactly when
  the host is not a live one.\<close>

theorem non_live_never_at_live_host:
  assumes "mode \<noteq> LIVE" "parse_host ip_ok url = Inr host"
  shows "(\<exists>d. guard_require T ip_ok wall G mode sid url now = Inr d) \<longleftrightarrow>
     \<not> (host \<noteq> [] \<and> host \<in> set (mg_live_hosts G))
     \<and> (touches_broker mode \<longrightarrow> host \<noteq> [] \<and> host \<in> set (mg_demo_hosts G))"
  using assms by (auto simp: guard_require_def guard_check_def check_non_live_def Let_def)

theorem non_live_never_at_live_host_witness:
  "\<not> (\<exists>d. guard_require sample_times (\<lambda>_. False) (utc 0) sample_guard DEMO ''s1''
          ''https://joe:pw@API.ig.com:443/gateway/deal?x=1'' None = Inr d)"
  using non_live_never_at_live_host [of DEMO, OF _ ig_host, of sample_times "\<lambda>_. False" "utc 0" sample_guard]
  by (simp add: sample_guard_def mode_guard_new_def LIVE_HOSTS_def)

text \<open>The host is parsed, not compared. Credentials, port, path, query, fragment, trailing slash and letter
  case do not change the host a URL is checked under, and appending a label to the host does.\<close>

theorem parse_host_canonical:
  assumes "userinfo u" "list_all host_char h" "port_part p" "url_tail t"
  shows "parse_host ip_ok (''https://'' @ u @ h @ p @ t) = parse_host ip_ok (''https://'' @ lower h)
     \<and> parse_host ip_ok (''https://'' @ u @ h @ p @ t) \<noteq> parse_host ip_ok (''https://'' @ u @ h @ ''.evil'' @ p @ t)"
proof
  have low: "parse_host ip_ok (''https://'' @ [] @ lower h @ [] @ []) = Inr (lower (lower h))"
    by (rule parse_host_https) (use assms host_char_lower in \<open>auto simp: userinfo_def port_part_def url_tail_def\<close>)
  then show "parse_host ip_ok (''https://'' @ u @ h @ p @ t) = parse_host ip_ok (''https://'' @ lower h)"
    using parse_host_https [OF assms, of ip_ok] by (simp only: lower_lower append_Nil append_Nil2)
  have "list_all host_char (h @ ''.evil'')" using assms(2) by (simp add: host_char_def loc_char_def)
  then have "parse_host ip_ok (''https://'' @ u @ (h @ ''.evil'') @ p @ t) = Inr (lower (h @ ''.evil''))"
    using assms by (intro parse_host_https)
  moreover have "lower h \<noteq> lower (h @ ''.evil'')" by (simp only: map_append) simp
  ultimately show "parse_host ip_ok (''https://'' @ u @ h @ p @ t) \<noteq> parse_host ip_ok (''https://'' @ u @ h @ ''.evil'' @ p @ t)"
    using parse_host_https [OF assms, of ip_ok] by (simp only: append_assoc) simp
qed

theorem parse_host_canonical_witness:
  "parse_host (\<lambda>_. False) (''https://'' @ [] @ ''api.ig.com'' @ [] @ ''/'') = parse_host (\<lambda>_. False) (''https://'' @ lower ''api.ig.com'')"
  using parse_host_canonical [of "[]" "''api.ig.com''" "[]" "''/''" "\<lambda>_. False"]
  by (simp add: userinfo_def host_char_def loc_char_def port_part_def url_tail_def)

end
