(* ===== verification/Lifecycle.thy ===== *)
theory Lifecycle
  imports Core_Types
begin

text \<open>
  The lifecycle state machine of \<open>lifecycle/state.py\<close>: actors, evidence and human authorisations, the
  transition table as data, the hash-chained transition log (in memory or JSON lines), the record bound to a
  strategy, and the machine that registers, transitions and replays.

  Arguments stand for what is not in the repository: the SHA-256 digest of a canonical JSON value, the text
  of an instant and its parser, and Python's \<open>str\<close>, \<open>int\<close> and \<open>dict\<close> on JSON values of an unexpected type. A
  line of the log file is the JSON value it holds.
\<close>

section \<open>Canonical JSON\<close>

primrec canonicalise :: "jval \<Rightarrow> jval" where
  "canonicalise JNull = JNull"
| "canonicalise (JBool b) = JBool b"
| "canonicalise (JInt i) = JInt i"
| "canonicalise (JFloat x) =
     (case x of NaN \<Rightarrow> JDict [(''$float'', JStr ''nan'')]
      | PInf \<Rightarrow> JDict [(''$float'', JStr ''inf'')]
      | NInf \<Rightarrow> JDict [(''$float'', JStr ''-inf'')]
      | Fin r \<Rightarrow> JFloat (Fin r))"
| "canonicalise (JStr s) = JStr s"
| "canonicalise (JList vs) = JList (map canonicalise vs)"
| "canonicalise (JDict kvs) = JDict (sort_key fst (map (map_prod id canonicalise) kvs))"

record lc_env =
  le_sha :: "jval \<Rightarrow> string"
  le_iso :: "tstamp \<Rightarrow> string"
  le_parse :: "string \<Rightarrow> pyexn + tstamp"
  le_str :: "jval \<Rightarrow> string"
  le_int :: "jval \<Rightarrow> pyexn + int"
  le_dict :: "jval \<Rightarrow> pyexn + jdict"

fun py_str :: "lc_env \<Rightarrow> jval \<Rightarrow> string" where
  "py_str E (JStr s) = s"
| "py_str E v = le_str E v"

fun py_int :: "lc_env \<Rightarrow> jval \<Rightarrow> pyexn + int" where
  "py_int E (JInt i) = Inr i"
| "py_int E v = le_int E v"

fun py_dict :: "lc_env \<Rightarrow> jval \<Rightarrow> pyexn + jdict" where
  "py_dict E (JDict kvs) = Inr kvs"
| "py_dict E v = le_dict E v"

fun py_bool :: "jval \<Rightarrow> bool" where
  "py_bool JNull = False"
| "py_bool (JBool b) = b"
| "py_bool (JInt i) = (i \<noteq> 0)"
| "py_bool (JFloat x) = truthy x"
| "py_bool (JStr s) = (s \<noteq> [])"
| "py_bool (JList vs) = (vs \<noteq> [])"
| "py_bool (JDict kvs) = (kvs \<noteq> [])"

text \<open>\<open>raw[k]\<close> on a dict, \<open>raw.get(k, d)\<close>, and a subscript on a JSON value that may not be a dict.\<close>

definition jget :: "jdict \<Rightarrow> string \<Rightarrow> pyexn + jval" where
  "jget d k = (case map_of d k of None \<Rightarrow> Inl (KeyError (lit k)) | Some v \<Rightarrow> Inr v)"

definition jget_default :: "jdict \<Rightarrow> string \<Rightarrow> jval \<Rightarrow> jval" where
  "jget_default d k dflt = (case map_of d k of None \<Rightarrow> dflt | Some v \<Rightarrow> v)"

fun as_mapping :: "jval \<Rightarrow> pyexn + jdict" where
  "as_mapping (JDict kvs) = Inr kvs"
| "as_mapping _ = Inl (TypeError (lit ''indices must be integers or slices, not str''))"

fun as_list :: "jval \<Rightarrow> pyexn + jval list" where
  "as_list (JList vs) = Inr vs"
| "as_list (JDict kvs) = Inr (map (JStr \<circ> fst) kvs)"
| "as_list (JStr s) = Inr (map (\<lambda>c. JStr [c]) s)"
| "as_list _ = Inl (TypeError (lit ''object is not iterable''))"

text \<open>Looking an enum member up by its value; anything else is a ValueError.\<close>

definition enum_of :: "('m \<Rightarrow> string) \<Rightarrow> 'm list \<Rightarrow> jval \<Rightarrow> pyexn + 'm" where
  "enum_of value members v =
     (case List.find (\<lambda>m. JStr (value m) = v) members of
        None \<Rightarrow> Inl (ValueError (lit ''not a valid member''))
      | Some m \<Rightarrow> Inr m)"


section \<open>Errors\<close>

abbreviation LifecycleError :: "ftext \<Rightarrow> pyexn" where
  "LifecycleError \<equiv> PyExn ''LifecycleError''"
abbreviation HumanAuthorisationRequired :: "ftext \<Rightarrow> pyexn" where
  "HumanAuthorisationRequired \<equiv> PyExn ''HumanAuthorisationRequired''"
abbreviation TamperedLog :: "ftext \<Rightarrow> pyexn" where
  "TamperedLog \<equiv> PyExn ''TamperedLog''"

definition IllegalTransition :: "lifecycle \<Rightarrow> lifecycle \<Rightarrow> string \<Rightarrow> pyexn" where
  "IllegalTransition f t detail =
     PyExn ''IllegalTransition''
       [Lit (''illegal lifecycle transition '' @ lc_value f @ '' -> '' @ lc_value t @ (if detail = [] then [] else '': '' @ detail))]"

definition UnknownStrategy :: "string \<Rightarrow> pyexn" where
  "UnknownStrategy h =
     PyExn ''UnknownStrategy'' [Lit ''no lifecycle record for strategy content hash '', Lit (take 12 h)]"


section \<open>Actors and evidence\<close>

datatype actor_kind = HUMAN | AUTOMATED_RULE | SYSTEM

fun actor_kind_value :: "actor_kind \<Rightarrow> string" where
  "actor_kind_value HUMAN = ''human''"
| "actor_kind_value AUTOMATED_RULE = ''automated_rule''"
| "actor_kind_value SYSTEM = ''system''"

definition kind_is_automatic :: "actor_kind \<Rightarrow> bool" where
  "kind_is_automatic k \<longleftrightarrow> k \<noteq> HUMAN"

record actor =
  ar_kind :: actor_kind
  ar_name :: string

definition actor_post_init :: "actor \<Rightarrow> pyexn + actor" where
  "actor_post_init a =
     (if strip (ar_name a) = [] then Inl (ValueError (lit ''actor name is mandatory''))
      else if ar_kind a = AUTOMATED_RULE \<and> CHR '':'' \<notin> set (ar_name a)
        then Inl (ValueError [Lit ''an automated rule must name itself as <family>:<rule> (got '', Lit (ar_name a), Lit '')''])
      else Inr a)"

definition actor_to_dict :: "actor \<Rightarrow> jdict" where
  "actor_to_dict a = [(''kind'', JStr (actor_kind_value (ar_kind a))), (''name'', JStr (ar_name a))]"

definition actor_from_dict :: "lc_env \<Rightarrow> jdict \<Rightarrow> pyexn + actor" where
  "actor_from_dict E raw =
     rbind (jget raw ''kind'') (\<lambda>kv. rbind (enum_of actor_kind_value [HUMAN, AUTOMATED_RULE, SYSTEM] kv) (\<lambda>k.
     rbind (jget raw ''name'') (\<lambda>n. actor_post_init \<lparr>ar_kind = k, ar_name = py_str E n\<rparr>)))"

datatype evidence_kind =
    VALIDATION_REPORT | MONITOR_RESULT | STOPPING_RULE | PROMOTION_EVALUATION | PRE_REGISTRATION
  | HUMAN_AUTHORISATION | OPERATOR_NOTE

fun evidence_kind_value :: "evidence_kind \<Rightarrow> string" where
  "evidence_kind_value VALIDATION_REPORT = ''validation_report''"
| "evidence_kind_value MONITOR_RESULT = ''monitor_result''"
| "evidence_kind_value STOPPING_RULE = ''stopping_rule''"
| "evidence_kind_value PROMOTION_EVALUATION = ''promotion_evaluation''"
| "evidence_kind_value PRE_REGISTRATION = ''pre_registration''"
| "evidence_kind_value HUMAN_AUTHORISATION = ''human_authorisation''"
| "evidence_kind_value OPERATOR_NOTE = ''operator_note''"

definition all_evidence_kinds :: "evidence_kind list" where
  "all_evidence_kinds =
     [VALIDATION_REPORT, MONITOR_RESULT, STOPPING_RULE, PROMOTION_EVALUATION, PRE_REGISTRATION, HUMAN_AUTHORISATION,
      OPERATOR_NOTE]"

record evidence =
  e_kind :: evidence_kind
  e_id :: string
  e_summary :: string
  e_detail :: jdict

definition evidence_post_init :: "evidence \<Rightarrow> pyexn + evidence" where
  "evidence_post_init e =
     (if strip (e_id e) = []
      then Inl (ValueError [Lit (evidence_kind_value (e_kind e)), Lit '' evidence needs an id to point at''])
      else Inr e)"

definition evidence_to_dict :: "evidence \<Rightarrow> jdict" where
  "evidence_to_dict e =
     [(''kind'', JStr (evidence_kind_value (e_kind e))), (''id'', JStr (e_id e)), (''summary'', JStr (e_summary e)),
      (''detail'', canonicalise (JDict (e_detail e)))]"

definition evidence_from_dict :: "lc_env \<Rightarrow> jdict \<Rightarrow> pyexn + evidence" where
  "evidence_from_dict E raw =
     rbind (jget raw ''kind'') (\<lambda>kv. rbind (enum_of evidence_kind_value all_evidence_kinds kv) (\<lambda>k.
     rbind (jget raw ''id'') (\<lambda>i.
     rbind (py_dict E (jget_default raw ''detail'' (JDict []))) (\<lambda>d.
       evidence_post_init
         \<lparr>e_kind = k, e_id = py_str E i, e_summary = py_str E (jget_default raw ''summary'' (JStr [])), e_detail = d\<rparr>))))"

definition evidence_note :: "string \<Rightarrow> string \<Rightarrow> jdict \<Rightarrow> pyexn + evidence" where
  "evidence_note i summary detail =
     evidence_post_init \<lparr>e_kind = OPERATOR_NOTE, e_id = i, e_summary = summary, e_detail = detail\<rparr>"

record human_auth =
  ha_authorised_by :: string
  ha_strategy_content_hash :: string
  ha_to_state :: lifecycle
  ha_statement :: string
  ha_authorised_at :: tstamp
  ha_reviewed_report_hash :: string
  ha_ticket :: string

definition MIN_STATEMENT_CHARS :: nat where
  "MIN_STATEMENT_CHARS = 24"

definition human_auth_post_init :: "human_auth \<Rightarrow> pyexn + human_auth" where
  "human_auth_post_init a =
     (if strip (ha_authorised_by a) = [] then Inl (ValueError (lit ''a human authorisation must name the human''))
      else if strip (ha_strategy_content_hash a) = []
        then Inl (ValueError (lit ''a human authorisation must name the strategy content hash''))
      else if length (strip (ha_statement a)) < MIN_STATEMENT_CHARS
        then Inl (ValueError (lit ''a human authorisation must state WHY''))
      else Inr a)"

definition auth_matches :: "human_auth \<Rightarrow> string \<Rightarrow> lifecycle \<Rightarrow> bool" where
  "auth_matches a h t \<longleftrightarrow> ha_strategy_content_hash a = h \<and> ha_to_state a = t"

definition human_auth_to_dict :: "lc_env \<Rightarrow> human_auth \<Rightarrow> jdict" where
  "human_auth_to_dict E a =
     [(''authorised_by'', JStr (ha_authorised_by a)), (''strategy_content_hash'', JStr (ha_strategy_content_hash a)),
      (''to_state'', JStr (lc_value (ha_to_state a))), (''statement'', JStr (ha_statement a)),
      (''authorised_at'', JStr (le_iso E (ha_authorised_at a))),
      (''reviewed_report_hash'', JStr (ha_reviewed_report_hash a)), (''ticket'', JStr (ha_ticket a))]"

definition human_auth_from_dict :: "lc_env \<Rightarrow> jdict \<Rightarrow> pyexn + human_auth" where
  "human_auth_from_dict E raw =
     rbind (jget raw ''authorised_by'') (\<lambda>b. rbind (jget raw ''strategy_content_hash'') (\<lambda>h.
     rbind (jget raw ''to_state'') (\<lambda>tv. rbind (enum_of lc_value all_lifecycles tv) (\<lambda>t.
     rbind (jget raw ''statement'') (\<lambda>s.
     rbind (jget raw ''authorised_at'') (\<lambda>w. rbind (le_parse E (py_str E w)) (\<lambda>dt.
       human_auth_post_init
         \<lparr>ha_authorised_by = py_str E b, ha_strategy_content_hash = py_str E h, ha_to_state = t,
          ha_statement = py_str E s, ha_authorised_at = dt,
          ha_reviewed_report_hash = py_str E (jget_default raw ''reviewed_report_hash'' (JStr [])),
          ha_ticket = py_str E (jget_default raw ''ticket'' (JStr []))\<rparr>)))))))"

definition as_evidence :: "lc_env \<Rightarrow> human_auth \<Rightarrow> pyexn + evidence" where
  "as_evidence E a =
     evidence_post_init
       \<lparr>e_kind = HUMAN_AUTHORISATION, e_id = ''auth:'' @ ha_authorised_by a @ '':'' @ lc_value (ha_to_state a),
        e_summary = ha_statement a, e_detail = human_auth_to_dict E a\<rparr>"

text \<open>The first authorisation among the evidence that can be read; a KeyError or ValueError skips the item, any
  other exception escapes.\<close>

fun authorisation_in :: "lc_env \<Rightarrow> evidence list \<Rightarrow> pyexn + human_auth option" where
  "authorisation_in E [] = Inr None"
| "authorisation_in E (e # es) =
     (if e_kind e \<noteq> HUMAN_AUTHORISATION then authorisation_in E es
      else case human_auth_from_dict E (e_detail e) of
        Inr a \<Rightarrow> Inr (Some a)
      | Inl x \<Rightarrow> if exn_class x \<in> {''KeyError'', ''ValueError''} then authorisation_in E es else Inl x)"


section \<open>The transition table\<close>

definition LADDER :: "lifecycle list" where
  "LADDER =
     [LC_DISCOVERY, LC_RESEARCH, LC_VALIDATING, LC_CANDIDATE, LC_PAPER, LC_SHADOW, LC_DEMO, LC_APPROVED, LC_LIVE]"

definition RUNNING_STATES :: "lifecycle list" where
  "RUNNING_STATES = [LC_PAPER, LC_SHADOW, LC_DEMO, LC_APPROVED, LC_LIVE]"

definition HEALTH_STATES :: "lifecycle list" where
  "HEALTH_STATES = [LC_WATCH, LC_DEGRADED, LC_QUARANTINED]"

definition TERMINAL_STATES :: "lifecycle list" where
  "TERMINAL_STATES = [LC_RETIRED]"

definition PRE_RUNNING :: "lifecycle list" where
  "PRE_RUNNING = [LC_DISCOVERY, LC_RESEARCH, LC_VALIDATING, LC_CANDIDATE]"

fun index_of :: "'a list \<Rightarrow> 'a \<Rightarrow> int" where
  "index_of [] x = 0"
| "index_of (y # ys) x = (if y = x then 0 else 1 + index_of ys x)"

definition ladder_index :: "lifecycle \<Rightarrow> int" where
  "ladder_index s = (if s \<in> set LADDER then index_of LADDER s else -1)"

datatype transition_kind = REGISTRATION | PROMOTION | DEMOTION | HEALTH_ESCALATION | RECOVERY | RETIREMENT

fun transition_kind_value :: "transition_kind \<Rightarrow> string" where
  "transition_kind_value REGISTRATION = ''registration''"
| "transition_kind_value PROMOTION = ''promotion''"
| "transition_kind_value DEMOTION = ''demotion''"
| "transition_kind_value HEALTH_ESCALATION = ''health_escalation''"
| "transition_kind_value RECOVERY = ''recovery''"
| "transition_kind_value RETIREMENT = ''retirement''"

definition all_transition_kinds :: "transition_kind list" where
  "all_transition_kinds = [REGISTRATION, PROMOTION, DEMOTION, HEALTH_ESCALATION, RECOVERY, RETIREMENT]"

definition kind_adds_risk :: "transition_kind \<Rightarrow> bool" where
  "kind_adds_risk k \<longleftrightarrow> k \<in> {PROMOTION, RECOVERY}"

record lifecycle_transition =
  lt_from :: lifecycle
  lt_to :: lifecycle
  lt_kind :: transition_kind
  lt_requires_human_actor :: bool
  lt_requires_human_authorisation :: bool

abbreviation mk_edge :: "lifecycle \<Rightarrow> lifecycle \<Rightarrow> transition_kind \<Rightarrow> bool \<Rightarrow> bool \<Rightarrow> lifecycle_transition" where
  "mk_edge f t k human auth \<equiv>
     \<lparr>lt_from = f, lt_to = t, lt_kind = k, lt_requires_human_actor = human, lt_requires_human_authorisation = auth\<rparr>"

text \<open>\<open>_build_transitions\<close>, group by group in its order; the rationale texts are left out.\<close>

definition promotions :: "lifecycle_transition list" where
  "promotions =
     map (\<lambda>(lower, upper). mk_edge lower upper PROMOTION (upper \<in> set RUNNING_STATES) (upper = LC_LIVE))
       (zip LADDER (tl LADDER))"

definition ladder_demotions :: "lifecycle_transition list" where
  "ladder_demotions =
     concat (map (\<lambda>i. map (\<lambda>lower. mk_edge (LADDER ! i) lower DEMOTION False False) (take i LADDER)) [0..<length LADDER])"

definition escalations :: "lifecycle_transition list" where
  "escalations =
     concat (map (\<lambda>r. map (\<lambda>h. mk_edge r h HEALTH_ESCALATION False False) HEALTH_STATES) RUNNING_STATES)
     @ map (\<lambda>(a, b). mk_edge a b HEALTH_ESCALATION False False)
         [(LC_WATCH, LC_DEGRADED), (LC_WATCH, LC_QUARANTINED), (LC_DEGRADED, LC_QUARANTINED)]"

definition recoveries :: "lifecycle_transition list" where
  "recoveries =
     concat (map (\<lambda>h. map (\<lambda>r. mk_edge h r RECOVERY True (r = LC_LIVE)) RUNNING_STATES) HEALTH_STATES)
     @ map (\<lambda>(a, b). mk_edge a b RECOVERY True False)
         [(LC_DEGRADED, LC_WATCH), (LC_QUARANTINED, LC_WATCH), (LC_QUARANTINED, LC_DEGRADED)]"

definition back_to_lab :: "lifecycle_transition list" where
  "back_to_lab = concat (map (\<lambda>h. map (\<lambda>lab. mk_edge h lab DEMOTION False False) PRE_RUNNING) HEALTH_STATES)"

definition retirements :: "lifecycle_transition list" where
  "retirements = map (\<lambda>s. mk_edge s LC_RETIRED RETIREMENT True False) (filter (\<lambda>s. s \<noteq> LC_RETIRED) all_lifecycles)"

definition LEGAL_TRANSITIONS :: "lifecycle_transition list" where
  "LEGAL_TRANSITIONS =
     mk_edge LC_DISCOVERY LC_DISCOVERY REGISTRATION False False # promotions @ ladder_demotions @ escalations
     @ recoveries @ back_to_lab @ retirements"

abbreviation lt_key :: "lifecycle_transition \<Rightarrow> lifecycle \<times> lifecycle" where
  "lt_key e \<equiv> (lt_from e, lt_to e)"

text \<open>\<open>_BY_KEY.get((from_state, to_state))\<close> behind the self-transition guard.\<close>

definition edge :: "lifecycle \<Rightarrow> lifecycle \<Rightarrow> lifecycle_transition option" where
  "edge f t = (if f = t then None else map_of (map (\<lambda>e. (lt_key e, e)) LEGAL_TRANSITIONS) (f, t))"


section \<open>The hash-chained log\<close>

definition GENESIS_HASH :: string where
  "GENESIS_HASH = replicate 64 CHR ''0''"

record transition_record =
  tr_sequence :: int
  tr_at :: tstamp
  tr_strategy_id :: string
  tr_strategy_content_hash :: string
  tr_from_state :: lifecycle
  tr_to_state :: lifecycle
  tr_kind :: transition_kind
  tr_actor :: actor
  tr_automatic :: bool
  tr_reason :: string
  tr_evidence :: "evidence list"
  tr_previous_hash :: string
  tr_record_hash :: string

definition payload :: "lc_env \<Rightarrow> transition_record \<Rightarrow> jdict" where
  "payload E r =
     [(''sequence'', JInt (tr_sequence r)), (''at'', JStr (le_iso E (tr_at r))),
      (''strategy_id'', JStr (tr_strategy_id r)), (''strategy_content_hash'', JStr (tr_strategy_content_hash r)),
      (''from_state'', JStr (lc_value (tr_from_state r))), (''to_state'', JStr (lc_value (tr_to_state r))),
      (''kind'', JStr (transition_kind_value (tr_kind r))), (''actor'', JDict (actor_to_dict (tr_actor r))),
      (''automatic'', JBool (tr_automatic r)), (''reason'', JStr (tr_reason r)),
      (''evidence'', JList (map (JDict \<circ> evidence_to_dict) (tr_evidence r))),
      (''previous_hash'', JStr (tr_previous_hash r))]"

definition record_digest :: "lc_env \<Rightarrow> jdict \<Rightarrow> string" where
  "record_digest E p = le_sha E (canonicalise (JDict p))"

definition recompute_hash :: "lc_env \<Rightarrow> transition_record \<Rightarrow> string" where
  "recompute_hash E r = record_digest E (payload E r)"

text \<open>\<open>automatic\<close> is derived from the actor's kind.\<close>

definition seal ::
  "lc_env \<Rightarrow> int \<Rightarrow> tstamp \<Rightarrow> string \<Rightarrow> string \<Rightarrow> lifecycle \<Rightarrow> lifecycle \<Rightarrow> transition_kind \<Rightarrow> actor \<Rightarrow> string \<Rightarrow>
   evidence list \<Rightarrow> string \<Rightarrow> transition_record" where
  "seal E sequence when sid h f t kind who reason ev prev =
     (let draft = \<lparr>tr_sequence = sequence, tr_at = when, tr_strategy_id = sid, tr_strategy_content_hash = h,
            tr_from_state = f, tr_to_state = t, tr_kind = kind, tr_actor = who,
            tr_automatic = kind_is_automatic (ar_kind who), tr_reason = reason, tr_evidence = ev,
            tr_previous_hash = prev, tr_record_hash = []\<rparr>
      in draft\<lparr>tr_record_hash := record_digest E (payload E draft)\<rparr>)"

definition record_to_dict :: "lc_env \<Rightarrow> transition_record \<Rightarrow> jdict" where
  "record_to_dict E r = payload E r @ [(''record_hash'', JStr (tr_record_hash r))]"

definition record_from_dict :: "lc_env \<Rightarrow> jdict \<Rightarrow> pyexn + transition_record" where
  "record_from_dict E raw =
     rbind (jget raw ''sequence'') (\<lambda>qv. rbind (py_int E qv) (\<lambda>q.
     rbind (jget raw ''at'') (\<lambda>w. rbind (le_parse E (py_str E w)) (\<lambda>dt.
     rbind (jget raw ''strategy_content_hash'') (\<lambda>h.
     rbind (jget raw ''from_state'') (\<lambda>fv. rbind (enum_of lc_value all_lifecycles fv) (\<lambda>f.
     rbind (jget raw ''to_state'') (\<lambda>tv. rbind (enum_of lc_value all_lifecycles tv) (\<lambda>t.
     rbind (jget raw ''kind'') (\<lambda>kv. rbind (enum_of transition_kind_value all_transition_kinds kv) (\<lambda>k.
     rbind (jget raw ''actor'') (\<lambda>av. rbind (as_mapping av) (\<lambda>ad. rbind (actor_from_dict E ad) (\<lambda>who.
     rbind (jget raw ''automatic'') (\<lambda>auto.
     rbind (as_list (jget_default raw ''evidence'' (JList []))) (\<lambda>evs.
     rbind (rmap (\<lambda>v. rbind (as_mapping v) (evidence_from_dict E)) evs) (\<lambda>ev.
     rbind (jget raw ''previous_hash'') (\<lambda>p.
       Inr \<lparr>tr_sequence = q, tr_at = dt, tr_strategy_id = py_str E (jget_default raw ''strategy_id'' (JStr [])),
            tr_strategy_content_hash = py_str E h, tr_from_state = f, tr_to_state = t, tr_kind = k, tr_actor = who,
            tr_automatic = py_bool auto, tr_reason = py_str E (jget_default raw ''reason'' (JStr [])),
            tr_evidence = ev, tr_previous_hash = py_str E p,
            tr_record_hash = py_str E (jget_default raw ''record_hash'' (JStr []))\<rparr>))))))))))))))))))"

definition record_to_line :: "lc_env \<Rightarrow> transition_record \<Rightarrow> jval" where
  "record_to_line E r = canonicalise (JDict (record_to_dict E r))"

record chain_verification =
  cv_ok :: bool
  cv_n_records :: nat
  cv_broken_at :: "nat option"
  cv_reason :: ftext

fun verify_from :: "lc_env \<Rightarrow> nat \<Rightarrow> nat \<Rightarrow> string \<Rightarrow> transition_record list \<Rightarrow> chain_verification" where
  "verify_from E n i previous [] = \<lparr>cv_ok = True, cv_n_records = n, cv_broken_at = None, cv_reason = []\<rparr>"
| "verify_from E n i previous (row # rows) =
     (if tr_sequence row \<noteq> int i
        then \<lparr>cv_ok = False, cv_n_records = n, cv_broken_at = Some i,
              cv_reason = [Lit ''sequence '', Lit (show_int (tr_sequence row)), Lit '' at position '', Lit (show_nat i)]\<rparr>
      else if tr_previous_hash row \<noteq> previous
        then \<lparr>cv_ok = False, cv_n_records = n, cv_broken_at = Some i,
              cv_reason = [Lit ''previous_hash '', Lit (take 12 (tr_previous_hash row)),
                           Lit '' does not match predecessor '', Lit (take 12 previous)]\<rparr>
      else if recompute_hash E row \<noteq> tr_record_hash row
        then \<lparr>cv_ok = False, cv_n_records = n, cv_broken_at = Some i,
              cv_reason = [Lit ''record_hash '', Lit (take 12 (tr_record_hash row)),
                           Lit '' does not match the payload, which hashes to '', Lit (take 12 (recompute_hash E row))]\<rparr>
      else verify_from E n (Suc i) (tr_record_hash row) rows)"

definition verify_rows :: "lc_env \<Rightarrow> transition_record list \<Rightarrow> chain_verification" where
  "verify_rows E rows = verify_from E (length rows) 0 GENESIS_HASH rows"

text \<open>The two logs: a list of records, or the lines of a file.\<close>

datatype transition_log = MemLog "transition_record list" | FileLog "jval list"

fun log_append :: "lc_env \<Rightarrow> transition_record \<Rightarrow> transition_log \<Rightarrow> transition_log" where
  "log_append E r (MemLog rs) = MemLog (rs @ [r])"
| "log_append E r (FileLog ls) = FileLog (ls @ [record_to_line E r])"

fun log_records :: "lc_env \<Rightarrow> transition_log \<Rightarrow> pyexn + transition_record list" where
  "log_records E (MemLog rs) = Inr rs"
| "log_records E (FileLog ls) = rmap (\<lambda>v. rbind (as_mapping v) (record_from_dict E)) ls"

definition head_hash_of :: "transition_record list \<Rightarrow> string" where
  "head_hash_of rows = (if rows = [] then GENESIS_HASH else tr_record_hash (last rows))"

definition head_hash :: "lc_env \<Rightarrow> transition_log \<Rightarrow> pyexn + string" where
  "head_hash E lg = rbind (log_records E lg) (\<lambda>rows. Inr (head_hash_of rows))"

definition log_len :: "lc_env \<Rightarrow> transition_log \<Rightarrow> pyexn + int" where
  "log_len E lg = rbind (log_records E lg) (\<lambda>rows. Inr (int (length rows)))"

definition for_strategy :: "lc_env \<Rightarrow> string \<Rightarrow> transition_log \<Rightarrow> pyexn + transition_record list" where
  "for_strategy E h lg =
     rbind (log_records E lg) (\<lambda>rows. Inr (filter (\<lambda>r. tr_strategy_content_hash r = h) rows))"

definition log_verify :: "lc_env \<Rightarrow> transition_log \<Rightarrow> pyexn + chain_verification" where
  "log_verify E lg = rbind (log_records E lg) (\<lambda>rows. Inr (verify_rows E rows))"


section \<open>The record bound to a strategy\<close>

record strategy_record =
  sr_strategy_id :: string
  sr_strategy_content_hash :: string
  sr_state :: lifecycle
  sr_created_at :: tstamp
  sr_history :: "transition_record list"
  sr_pre_health_state :: "lifecycle option"

definition is_running :: "strategy_record \<Rightarrow> bool" where
  "is_running r \<longleftrightarrow> sr_state r \<in> set RUNNING_STATES"

definition is_halted :: "strategy_record \<Rightarrow> bool" where
  "is_halted r \<longleftrightarrow> sr_state r \<in> set HEALTH_STATES \<or> sr_state r = LC_RETIRED"

definition entered_state_at :: "strategy_record \<Rightarrow> tstamp" where
  "entered_state_at r =
     (case List.find (\<lambda>x. tr_to_state x = sr_state r) (rev (sr_history r)) of
        Some x \<Rightarrow> tr_at x
      | None \<Rightarrow> sr_created_at r)"

definition evidence_chain :: "strategy_record \<Rightarrow> evidence list" where
  "evidence_chain r = concat (map tr_evidence (sr_history r))"

definition evidence_of :: "evidence_kind \<Rightarrow> strategy_record \<Rightarrow> evidence list" where
  "evidence_of k r = filter (\<lambda>e. e_kind e = k) (evidence_chain r)"

definition applied :: "strategy_record \<Rightarrow> transition_record \<Rightarrow> strategy_record" where
  "applied r x =
     (if tr_kind x = REGISTRATION then r\<lparr>sr_history := sr_history r @ [x]\<rparr>
      else let leaving = (sr_state r \<in> set LADDER \<and> tr_to_state x \<in> set HEALTH_STATES);
               returning = (tr_to_state x \<in> set LADDER)
           in r\<lparr>sr_state := tr_to_state x, sr_history := sr_history r @ [x],
                sr_pre_health_state :=
                  (if leaving then Some (sr_state r) else if returning then None else sr_pre_health_state r)\<rparr>)"

definition registered_record :: "transition_record \<Rightarrow> strategy_record" where
  "registered_record x =
     \<lparr>sr_strategy_id = tr_strategy_id x, sr_strategy_content_hash = tr_strategy_content_hash x,
      sr_state = LC_DISCOVERY, sr_created_at = tr_at x, sr_history = [x], sr_pre_health_state = None\<rparr>"


section \<open>The machine\<close>

type_synonym strategy_records = "string \<rightharpoonup> strategy_record"

record machine =
  mc_log :: transition_log
  mc_records :: strategy_records

fun replay_rows :: "transition_record list \<Rightarrow> strategy_records \<Rightarrow> pyexn + strategy_records" where
  "replay_rows [] recs = Inr recs"
| "replay_rows (x # xs) recs =
     (if tr_kind x = REGISTRATION then replay_rows xs (recs(tr_strategy_content_hash x \<mapsto> registered_record x))
      else case recs (tr_strategy_content_hash x) of
        None \<Rightarrow> Inl (TamperedLog [Lit ''transition for unregistered strategy '', Lit (take 12 (tr_strategy_content_hash x)),
                       Lit '' at sequence '', Lit (show_int (tr_sequence x))])
      | Some current \<Rightarrow> replay_rows xs (recs(tr_strategy_content_hash x \<mapsto> applied current x)))"

definition machine_new :: "lc_env \<Rightarrow> transition_log \<Rightarrow> pyexn + machine" where
  "machine_new E lg =
     rbind (log_verify E lg) (\<lambda>v.
       if \<not> cv_ok v
       then Inl (TamperedLog (Lit ''refusing to load lifecycle state: chain BROKEN: '' # cv_reason v))
       else rbind (log_records E lg) (\<lambda>rows.
            rbind (replay_rows rows Map.empty) (\<lambda>recs. Inr \<lparr>mc_log = lg, mc_records = recs\<rparr>)))"

definition machine_record :: "machine \<Rightarrow> string \<Rightarrow> pyexn + strategy_record" where
  "machine_record m h = (case mc_records m h of None \<Rightarrow> Inl (UnknownStrategy h) | Some r \<Rightarrow> Inr r)"

definition machine_state :: "machine \<Rightarrow> string \<Rightarrow> pyexn + lifecycle" where
  "machine_state m h = rbind (machine_record m h) (\<lambda>r. Inr (sr_state r))"

definition legal_targets :: "machine \<Rightarrow> string \<Rightarrow> pyexn + lifecycle list" where
  "legal_targets m h =
     rbind (machine_state m h) (\<lambda>s.
       Inr (sort_key lc_value (remdups (map lt_to
         (filter (\<lambda>e. lt_from e = s \<and> lt_kind e \<noteq> REGISTRATION) LEGAL_TRANSITIONS)))))"

definition commit :: "lc_env \<Rightarrow> transition_record \<Rightarrow> strategy_record \<Rightarrow> machine \<Rightarrow> machine" where
  "commit E x r m =
     \<lparr>mc_log = log_append E x (mc_log m), mc_records = (mc_records m)(tr_strategy_content_hash x \<mapsto> r)\<rparr>"

text \<open>\<open>tuple(evidence) or (Evidence.note(...),)\<close>.\<close>

definition registration_items :: "string \<Rightarrow> string \<Rightarrow> evidence list \<Rightarrow> pyexn + evidence list" where
  "registration_items h reason ev =
     (if ev \<noteq> [] then Inr ev
      else rbind (evidence_note (''registration:'' @ take 12 h) reason []) (\<lambda>e. Inr [e]))"

definition register ::
  "lc_env \<Rightarrow> tstamp \<Rightarrow> string \<Rightarrow> string \<Rightarrow> actor \<Rightarrow> string \<Rightarrow> evidence list \<Rightarrow> tstamp option \<Rightarrow> machine \<Rightarrow>
   pyexn + machine \<times> strategy_record" where
  "register E now sid h who reason ev when m =
     (case mc_records m h of
        Some r \<Rightarrow> Inl (LifecycleError [Lit ''strategy '', Lit (take 12 h), Lit '' is already registered in state '', Lit (lc_value (sr_state r))])
      | None \<Rightarrow>
          if strip h = [] then Inl (ValueError (lit ''strategy_content_hash is mandatory''))
          else rbind (registration_items h reason ev) (\<lambda>items.
               rbind (log_len E (mc_log m)) (\<lambda>n. rbind (head_hash E (mc_log m)) (\<lambda>prev.
                 let x = seal E n (case when of Some t \<Rightarrow> t | None \<Rightarrow> now) sid h LC_DISCOVERY LC_DISCOVERY REGISTRATION who
                           reason items prev
                 in Inr (commit E x (registered_record x) m, registered_record x)))))"

text \<open>The checks of \<open>transition\<close>, in the order they run, each giving the exception it raises.\<close>

definition check_edge :: "lifecycle \<Rightarrow> lifecycle \<Rightarrow> pyexn + lifecycle_transition" where
  "check_edge f t =
     (case edge f t of
        Some e \<Rightarrow> Inr e
      | None \<Rightarrow> Inl (IllegalTransition f t
          (if f \<in> set LADDER \<and> t \<in> set LADDER \<and> ladder_index t > ladder_index f + 1
           then ''promotion moves exactly one stage''
           else if f = LC_RETIRED then ''RETIRED is terminal; a revived idea is a new content hash'' else [])))"

definition check_live_invariant :: "lc_env \<Rightarrow> string \<Rightarrow> lifecycle \<Rightarrow> actor \<Rightarrow> evidence list \<Rightarrow> pyexn + unit" where
  "check_live_invariant E h t who ev =
     (if t \<noteq> LC_LIVE then Inr ()
      else if ar_kind who \<noteq> HUMAN
        then Inl (HumanAuthorisationRequired [Lit (actor_kind_value (ar_kind who)), Lit (ar_name who), Lit '' may not move a strategy to LIVE.''])
      else rbind (authorisation_in E ev) (\<lambda>found.
        case found of
          None \<Rightarrow> Inl (HumanAuthorisationRequired (lit ''a transition to LIVE requires a HumanAuthorisation among its evidence''))
        | Some a \<Rightarrow>
            if auth_matches a h LC_LIVE then Inr ()
            else Inl (HumanAuthorisationRequired [Lit ''the supplied HumanAuthorisation names strategy '', Lit (take 12 (ha_strategy_content_hash a))])))"

definition check_edge_needs ::
  "lc_env \<Rightarrow> string \<Rightarrow> lifecycle \<Rightarrow> lifecycle \<Rightarrow> lifecycle_transition \<Rightarrow> actor \<Rightarrow> evidence list \<Rightarrow> pyexn + unit" where
  "check_edge_needs E h f t e who ev =
     (if lt_requires_human_actor e \<and> ar_kind who \<noteq> HUMAN
        then Inl (HumanAuthorisationRequired [Lit (lc_value f), Lit '' -> '', Lit (lc_value t), Lit '' requires a named human''])
      else if lt_requires_human_authorisation e
        then rbind (authorisation_in E ev) (\<lambda>found.
          case found of
            None \<Rightarrow> Inl (HumanAuthorisationRequired (lit ''requires a matching HumanAuthorisation among its evidence''))
          | Some a \<Rightarrow> if auth_matches a h t then Inr ()
                      else Inl (HumanAuthorisationRequired (lit ''requires a matching HumanAuthorisation among its evidence'')))
      else Inr ())"

definition check_ceiling :: "lifecycle \<Rightarrow> lifecycle \<Rightarrow> lifecycle_transition \<Rightarrow> lifecycle option \<Rightarrow> pyexn + unit" where
  "check_ceiling f t e pre =
     (case pre of
        Some ceil \<Rightarrow>
          if lt_kind e = RECOVERY \<and> t \<in> set LADDER \<and> ladder_index t > ladder_index ceil
          then Inl (IllegalTransition f t (''this strategy left the ladder from '' @ lc_value ceil))
          else Inr ()
      | None \<Rightarrow> Inr ())"

definition transition ::
  "lc_env \<Rightarrow> tstamp \<Rightarrow> string \<Rightarrow> lifecycle \<Rightarrow> actor \<Rightarrow> string \<Rightarrow> evidence list \<Rightarrow> tstamp option \<Rightarrow> machine \<Rightarrow>
   pyexn + machine \<times> strategy_record" where
  "transition E now h t who reason ev when m =
     rbind (machine_record m h) (\<lambda>current.
     rbind (check_edge (sr_state current) t) (\<lambda>e.
       if ev = [] then Inl (LifecycleError [Lit (lc_value (sr_state current)), Lit '' -> '', Lit (lc_value t), Lit '' needs evidence''])
       else
         rbind (check_live_invariant E h t who ev) (\<lambda>_.
         rbind (check_edge_needs E h (sr_state current) t e who ev) (\<lambda>_.
         rbind (check_ceiling (sr_state current) t e (sr_pre_health_state current)) (\<lambda>_.
         rbind (log_len E (mc_log m)) (\<lambda>n. rbind (head_hash E (mc_log m)) (\<lambda>prev.
           let x = seal E n (case when of Some u \<Rightarrow> u | None \<Rightarrow> now) (sr_strategy_id current) h (sr_state current) t
                     (lt_kind e) who reason ev prev
           in Inr (commit E x (applied current x) m, applied current x))))))))"

end
