(* ===== verification/Lifecycle_Safety.thy ===== *)
theory Lifecycle_Safety
  imports Lifecycle
begin

text \<open>
  What the lifecycle state machine guarantees: hash chains as an interface (\<open>hash_chain\<close>, interpreted on the
  transition records), the shape of the transition table, the round trip of a record through the log file, the
  invariant of every machine reachable by registrations and transitions, restart from the log, and what two
  processes over one log can do to each other.
\<close>

section \<open>Hash chains\<close>

text \<open>A chain of rows, each at its position, naming its predecessor's hash and carrying the digest of what it
  commits to.\<close>

primrec chain_linked ::
  "('r \<Rightarrow> int) \<Rightarrow> ('r \<Rightarrow> string) \<Rightarrow> ('r \<Rightarrow> string) \<Rightarrow> ('r \<Rightarrow> string) \<Rightarrow> nat \<Rightarrow> string \<Rightarrow> 'r list \<Rightarrow> bool" where
  "chain_linked pos prev own dig i p [] \<longleftrightarrow> True"
| "chain_linked pos prev own dig i p (r # rs) \<longleftrightarrow>
     pos r = int i \<and> prev r = p \<and> dig r = own r \<and> chain_linked pos prev own dig (Suc i) (own r) rs"

definition chain_head :: "('r \<Rightarrow> string) \<Rightarrow> string \<Rightarrow> 'r list \<Rightarrow> string" where
  "chain_head own p rows = (if rows = [] then p else own (last rows))"

text \<open>What a hash chain promises when a row's commitment contains its position and its predecessor.\<close>

locale hash_chain =
  fixes pos :: "'r \<Rightarrow> int" and prev own :: "'r \<Rightarrow> string" and committed :: "'r \<Rightarrow> 'p" and dg :: "'p \<Rightarrow> string"
  assumes committed_pos: "committed a = committed b \<Longrightarrow> pos a = pos b"
    and committed_prev: "committed a = committed b \<Longrightarrow> prev a = prev b"
begin

lemma linked_append:
  "chain_linked pos prev own (\<lambda>r. dg (committed r)) i p (xs @ ys) \<longleftrightarrow>
     chain_linked pos prev own (\<lambda>r. dg (committed r)) i p xs
     \<and> chain_linked pos prev own (\<lambda>r. dg (committed r)) (i + length xs) (chain_head own p xs) ys"
  by (induction xs arbitrary: i p) (auto simp: chain_head_def)

lemma linked_take: "chain_linked pos prev own (\<lambda>r. dg (committed r)) i p xs \<Longrightarrow>
  chain_linked pos prev own (\<lambda>r. dg (committed r)) i p (take k xs)"
  using linked_append [of i p "take k xs" "drop k xs"] by simp

text \<open>The head hash commits to the whole history: two chains with the same head either commit to the same rows
  or exhibit a collision of the digest.\<close>

lemma head_commits:
  assumes "chain_linked pos prev own (\<lambda>r. dg (committed r)) 0 g xs" "chain_linked pos prev own (\<lambda>r. dg (committed r)) 0 g ys"
    and "xs \<noteq> []" "ys \<noteq> []" "chain_head own g xs = chain_head own g ys"
  shows "map committed xs = map committed ys
    \<or> (\<exists>a \<in> set xs. \<exists>b \<in> set ys. committed a \<noteq> committed b \<and> dg (committed a) = dg (committed b))"
  using assms
proof (induction xs arbitrary: ys rule: rev_induct)
  case Nil
  then show ?case by simp
next
  case (snoc a xs)
  obtain b zs where ys: "ys = zs @ [b]" using snoc.prems(4) by (metis rev_exhaust)
  have own: "dg (committed a) = dg (committed b)" and pa: "pos a = int (length xs)" "pos b = int (length zs)"
    and pv: "prev a = chain_head own g xs" "prev b = chain_head own g zs"
    and links: "chain_linked pos prev own (\<lambda>r. dg (committed r)) 0 g xs" "chain_linked pos prev own (\<lambda>r. dg (committed r)) 0 g zs"
    using snoc.prems(1,2,5) by (auto simp: ys linked_append chain_head_def)
  show ?case
  proof (cases "committed a = committed b")
    case False
    then show ?thesis using own ys by auto
  next
    case True
    then have len: "length xs = length zs" and heads: "chain_head own g xs = chain_head own g zs"
      using committed_pos committed_prev pa pv by (metis of_nat_eq_iff, metis)
    show ?thesis
    proof (cases "xs = []")
      case True
      then show ?thesis using len ys \<open>committed a = committed b\<close> by simp
    next
      case False
      then have "zs \<noteq> []" using len by auto
      from snoc.IH [OF links False this heads] show ?thesis using ys \<open>committed a = committed b\<close> by auto
    qed
  qed
qed

end


section \<open>Canonical values\<close>

lemma map_of_sort_key: "distinct (map fst xs) \<Longrightarrow> map_of (sort_key fst xs) = map_of xs"
proof -
  assume dist: "distinct (map fst xs)"
  have "mset (map fst (sort_key fst xs)) = mset (map fst xs)" by simp
  then have "distinct (map fst (sort_key fst xs))" using dist mset_eq_imp_distinct_iff by blast
  then show ?thesis using dist by (simp add: map_of_inject_set)
qed

lemma jdict_lookup_canonical:
  assumes "distinct (map fst xs)" "canonicalise (JDict xs) = canonicalise (JDict ys)" "distinct (map fst ys)"
  shows "map_option canonicalise (map_of xs k) = map_option canonicalise (map_of ys k)"
proof -
  have keys: "map fst (map (map_prod id canonicalise) zs) = map fst zs" for zs :: jdict by simp
  have look: "map_of (map (map_prod id canonicalise) zs) k = map_option canonicalise (map_of zs k)" for zs :: jdict
    by (induction zs) auto
  have "sort_key fst (map (map_prod id canonicalise) xs) = sort_key fst (map (map_prod id canonicalise) ys)"
    using assms(2) by simp
  then have "map_of (map (map_prod id canonicalise) xs) = map_of (map (map_prod id canonicalise) ys)"
    using map_of_sort_key [of "map (map_prod id canonicalise) xs"] map_of_sort_key [of "map (map_prod id canonicalise) ys"]
      assms(1,3) keys by metis
  then show ?thesis using look [of xs] look [of ys] by simp
qed

definition row_commitment :: "lc_env \<Rightarrow> transition_record \<Rightarrow> jval" where
  "row_commitment E r = canonicalise (JDict (payload E r))"

lemma payload_keys: "distinct (map fst (payload E r))"
  by (simp add: payload_def)

lemma payload_lookup:
  "row_commitment E a = row_commitment E b \<Longrightarrow> map_option canonicalise (map_of (payload E a) k) = map_option canonicalise (map_of (payload E b) k)"
  unfolding row_commitment_def by (rule jdict_lookup_canonical [OF payload_keys _ payload_keys])

lemma commitment_determines:
  assumes "row_commitment E a = row_commitment E b"
  shows "tr_sequence a = tr_sequence b" "tr_previous_hash a = tr_previous_hash b"
    "tr_strategy_content_hash a = tr_strategy_content_hash b" "tr_from_state a = tr_from_state b"
    "tr_to_state a = tr_to_state b" "tr_automatic a = tr_automatic b" "tr_reason a = tr_reason b"
    "tr_strategy_id a = tr_strategy_id b"
  using payload_lookup [OF assms, of "''sequence''"] payload_lookup [OF assms, of "''previous_hash''"]
    payload_lookup [OF assms, of "''strategy_content_hash''"] payload_lookup [OF assms, of "''from_state''"]
    payload_lookup [OF assms, of "''to_state''"] payload_lookup [OF assms, of "''automatic''"]
    payload_lookup [OF assms, of "''reason''"] payload_lookup [OF assms, of "''strategy_id''"]
  by (simp_all add: payload_def)

interpretation tlc: hash_chain tr_sequence tr_previous_hash tr_record_hash "row_commitment E" "le_sha E" for E
  by unfold_locales (auto dest: commitment_determines)

abbreviation rows_linked :: "lc_env \<Rightarrow> nat \<Rightarrow> string \<Rightarrow> transition_record list \<Rightarrow> bool" where
  "rows_linked E \<equiv> chain_linked tr_sequence tr_previous_hash tr_record_hash (\<lambda>r. le_sha E (row_commitment E r))"

lemma verify_from_ok: "cv_ok (verify_from E n i p rows) \<longleftrightarrow> rows_linked E i p rows"
  by (induction rows arbitrary: i p) (auto simp: recompute_hash_def record_digest_def row_commitment_def)

lemma verify_rows_ok: "cv_ok (verify_rows E rows) \<longleftrightarrow> rows_linked E 0 GENESIS_HASH rows"
  by (simp add: verify_rows_def verify_from_ok)

lemma head_hash_of_chain: "head_hash_of rows = chain_head tr_record_hash GENESIS_HASH rows"
  by (simp add: head_hash_of_def chain_head_def)

lemma seal_simps [simp]:
  "tr_sequence (seal E n w sid h f t k who reason ev p) = n"
  "tr_at (seal E n w sid h f t k who reason ev p) = w"
  "tr_strategy_id (seal E n w sid h f t k who reason ev p) = sid"
  "tr_strategy_content_hash (seal E n w sid h f t k who reason ev p) = h"
  "tr_from_state (seal E n w sid h f t k who reason ev p) = f"
  "tr_to_state (seal E n w sid h f t k who reason ev p) = t"
  "tr_kind (seal E n w sid h f t k who reason ev p) = k"
  "tr_actor (seal E n w sid h f t k who reason ev p) = who"
  "tr_automatic (seal E n w sid h f t k who reason ev p) = kind_is_automatic (ar_kind who)"
  "tr_evidence (seal E n w sid h f t k who reason ev p) = ev"
  "tr_previous_hash (seal E n w sid h f t k who reason ev p) = p"
  by (simp_all add: seal_def Let_def)

lemma seal_hash: "tr_record_hash (seal E n w sid h f t k who reason ev p) = le_sha E (row_commitment E (seal E n w sid h f t k who reason ev p))"
  by (simp add: seal_def payload_def record_digest_def row_commitment_def Let_def del: canonicalise.simps)

lemma linked_snoc_seal:
  assumes "rows_linked E 0 GENESIS_HASH rows"
  shows "rows_linked E 0 GENESIS_HASH (rows @ [seal E (int (length rows)) w sid h f t k who reason ev (head_hash_of rows)])"
  using assms by (simp add: tlc.linked_append head_hash_of_chain seal_hash [symmetric])


section \<open>What the edges allow\<close>

text \<open>The shape of each kind of edge: promotions are one rung, demotions go down or back to the laboratory,
  escalations and recoveries are between running and health states, retirement ends everything; moves into a
  running state from below and every recovery and retirement need a human, every way into LIVE an authorisation.\<close>

definition edge_shape :: "lifecycle \<Rightarrow> lifecycle \<Rightarrow> lifecycle_transition \<Rightarrow> bool" where
  "edge_shape f t e \<longleftrightarrow>
     lt_from e = f \<and> lt_to e = t \<and> f \<noteq> t \<and> f \<noteq> LC_RETIRED \<and> (lt_requires_human_authorisation e \<longleftrightarrow> t = LC_LIVE)
     \<and> (case lt_kind e of
          REGISTRATION \<Rightarrow> False
        | PROMOTION \<Rightarrow> f \<in> set LADDER \<and> t \<in> set LADDER \<and> ladder_index t = ladder_index f + 1
                       \<and> (lt_requires_human_actor e \<longleftrightarrow> t \<in> set RUNNING_STATES)
        | DEMOTION \<Rightarrow> t \<in> set LADDER \<and> t \<noteq> LC_LIVE
                      \<and> (f \<in> set LADDER \<and> ladder_index t < ladder_index f \<or> f \<in> set HEALTH_STATES \<and> t \<in> set PRE_RUNNING)
        | HEALTH_ESCALATION \<Rightarrow> t \<in> set HEALTH_STATES \<and> f \<in> set RUNNING_STATES \<union> set HEALTH_STATES
        | RECOVERY \<Rightarrow> f \<in> set HEALTH_STATES \<and> t \<in> set RUNNING_STATES \<union> set HEALTH_STATES \<and> lt_requires_human_actor e
        | RETIREMENT \<Rightarrow> t = LC_RETIRED \<and> lt_requires_human_actor e)"

lemma edge_shape_table:
  "list_all (\<lambda>f. list_all (\<lambda>t. case edge f t of None \<Rightarrow> True | Some e \<Rightarrow> edge_shape f t e) all_lifecycles) all_lifecycles"
  by code_simp

lemma edge_shape: "edge f t = Some e \<Longrightarrow> edge_shape f t e"
proof -
  assume found: "edge f t = Some e"
  have "case edge f t of None \<Rightarrow> True | Some e \<Rightarrow> edge_shape f t e"
    using edge_shape_table unfolding list_all_iff by (metis all_lifecycles_UNIV)
  then show "edge_shape f t e" by (simp add: found)
qed

lemma keys_distinct: "distinct (map lt_key LEGAL_TRANSITIONS)"
  by code_simp

lemma states_partition:
  "s \<in> set LADDER \<longleftrightarrow> s \<in> set PRE_RUNNING \<union> set RUNNING_STATES"
  "s \<in> set HEALTH_STATES \<Longrightarrow> s \<notin> set LADDER"
  "s \<in> set RUNNING_STATES \<Longrightarrow> s \<in> set LADDER"
  "s \<in> set PRE_RUNNING \<Longrightarrow> p \<in> set RUNNING_STATES \<Longrightarrow> ladder_index s < ladder_index p"
  "LC_RETIRED \<notin> set LADDER" "LC_RETIRED \<notin> set HEALTH_STATES" "LC_RETIRED \<notin> set RUNNING_STATES"
  by (auto simp: LADDER_def PRE_RUNNING_def RUNNING_STATES_def HEALTH_STATES_def ladder_index_def)

lemma ladder_index_inj: "a \<in> set LADDER \<Longrightarrow> ladder_index a = ladder_index b \<Longrightarrow> a = b"
  by (cases a; cases b) (simp_all add: LADDER_def ladder_index_def)

section \<open>What a transition does\<close>

lemma transition_Inr:
  assumes "transition E now h t who reason ev when m = Inr (m', r')"
  obtains r e n prev where
    "mc_records m h = Some r" "edge (sr_state r) t = Some e" "ev \<noteq> []"
    "check_live_invariant E h t who ev = Inr ()" "check_edge_needs E h (sr_state r) t e who ev = Inr ()"
    "check_ceiling (sr_state r) t e (sr_pre_health_state r) = Inr ()"
    "log_len E (mc_log m) = Inr n" "head_hash E (mc_log m) = Inr prev"
    "r' = applied r (seal E n (case when of Some u \<Rightarrow> u | None \<Rightarrow> now) (sr_strategy_id r) h (sr_state r) t (lt_kind e) who reason ev prev)"
    "m' = commit E (seal E n (case when of Some u \<Rightarrow> u | None \<Rightarrow> now) (sr_strategy_id r) h (sr_state r) t (lt_kind e) who reason ev prev) r' m"
  using assms
  by (auto simp: transition_def machine_record_def check_edge_def rbind_eq_Inr Let_def split: option.splits if_splits)

lemma edge_not_registration: "edge f t = Some e \<Longrightarrow> lt_kind e \<noteq> REGISTRATION"
  using edge_shape [of f t e] by (auto simp: edge_shape_def)

lemma transition_result:
  assumes "transition E now h t who reason ev when m = Inr (m', r')"
  shows "mc_records m' h = Some r' \<and> sr_state r' = t \<and> ev \<noteq> []"
  using assms by (rule transition_Inr) (simp add: commit_def applied_def Let_def edge_not_registration)

lemma register_Inr:
  assumes "register E now sid h who reason ev when m = Inr (m', r')"
  obtains items n prev where
    "mc_records m h = None" "strip h \<noteq> []" "registration_items h reason ev = Inr items"
    "log_len E (mc_log m) = Inr n" "head_hash E (mc_log m) = Inr prev"
    "r' = registered_record (seal E n (case when of Some t \<Rightarrow> t | None \<Rightarrow> now) sid h LC_DISCOVERY LC_DISCOVERY REGISTRATION who reason items prev)"
    "m' = commit E (seal E n (case when of Some t \<Rightarrow> t | None \<Rightarrow> now) sid h LC_DISCOVERY LC_DISCOVERY REGISTRATION who reason items prev) r' m"
  using assms by (auto simp: register_def rbind_eq_Inr Let_def split: option.splits if_splits)

lemma registration_items_ok:
  assumes "registration_items h reason ev = Inr items"
  shows "items \<noteq> []"
    and "list_all (\<lambda>e. evidence_post_init e = Inr e) ev \<Longrightarrow> list_all (\<lambda>e. evidence_post_init e = Inr e) items"
  using assms by (auto simp: registration_items_def rbind_eq_Inr evidence_note_def evidence_post_init_def split: if_splits)

lemma live_needs:
  assumes "check_live_invariant E h t who ev = Inr ()" "t = LC_LIVE"
  shows "ar_kind who = HUMAN \<and> (\<exists>a. authorisation_in E ev = Inr (Some a) \<and> ha_strategy_content_hash a = h \<and> ha_to_state a = LC_LIVE)"
  using assms by (auto simp: check_live_invariant_def rbind_eq_Inr auth_matches_def split: if_splits option.splits)

lemma authorisation_in_valid:
  "authorisation_in E ev = Inr (Some a) \<Longrightarrow>
   \<exists>e \<in> set ev. e_kind e = HUMAN_AUTHORISATION \<and> human_auth_from_dict E (e_detail e) = Inr a"
  by (induction ev) (auto split: if_splits sum.splits)

lemma human_needed: "check_edge_needs E h f t e who ev = Inr () \<Longrightarrow> lt_requires_human_actor e \<Longrightarrow> ar_kind who = HUMAN"
  by (auto simp: check_edge_needs_def split: if_splits)


section \<open>Reading the file back\<close>

definition canon_dict :: "jdict \<Rightarrow> jdict" where
  "canon_dict kvs = sort_key fst (map (map_prod id canonicalise) kvs)"

lemma canonicalise_JDict [simp]: "canonicalise (JDict kvs) = JDict (canon_dict kvs)"
  by (simp add: canon_dict_def)

declare canonicalise.simps(7) [simp del]

lemma insort_map_fst:
  "insort_key fst (map_prod id g x) (map (map_prod id g) ys) = map (map_prod id g) (insort_key fst x ys)"
  by (induction ys) auto

lemma sort_key_map_fst: "sort_key fst (map (map_prod id g) xs) = map (map_prod id g) (sort_key fst xs)"
  by (induction xs) (simp_all add: insort_map_fst del: id_apply map_prod_simp)

lemma sort_key_sorted: "sorted (map f xs) \<Longrightarrow> sort_key f xs = xs"
  by (induction xs) (auto simp: insort_is_Cons)

lemma canonicalise_idem [simp]: "canonicalise (canonicalise v) = canonicalise v"
proof (induction v)
  case (JFloat x)
  then show ?case by (cases x) (simp_all add: canon_dict_def)
next
  case (JDict kvs)
  have "\<forall>x \<in> set kvs. map_prod id canonicalise (map_prod id canonicalise x) = map_prod id canonicalise x"
    using JDict by (auto simp: map_prod_def split: prod.splits)
  then have again: "map (map_prod id canonicalise) (map (map_prod id canonicalise) kvs) = map (map_prod id canonicalise) kvs"
    by simp
  have "canon_dict (canon_dict kvs) =
      sort_key fst (sort_key fst (map (map_prod id canonicalise) (map (map_prod id canonicalise) kvs)))"
    unfolding canon_dict_def sort_key_map_fst ..
  also have "\<dots> = canon_dict kvs" unfolding again canon_dict_def by (rule sort_key_sorted) simp
  finally show ?case by simp
qed (simp_all cong: map_cong)

lemma canon_dict_lookup: "distinct (map fst kvs) \<Longrightarrow> map_of (canon_dict kvs) k = map_option canonicalise (map_of kvs k)"
proof -
  assume dist: "distinct (map fst kvs)"
  have keys: "map fst (map (map_prod id canonicalise) kvs) = map fst kvs" by simp
  have "map_of (map (map_prod id canonicalise) kvs) k = map_option canonicalise (map_of kvs k)" by (induction kvs) auto
  then show "map_of (canon_dict kvs) k = map_option canonicalise (map_of kvs k)"
    using map_of_sort_key [of "map (map_prod id canonicalise) kvs"] dist keys by (simp add: canon_dict_def)
qed

lemma canon_dict_idem [simp]: "canon_dict (canon_dict kvs) = canon_dict kvs"
  using canonicalise_idem [of "JDict kvs"] by simp

definition reload_evidence :: "evidence \<Rightarrow> evidence" where
  "reload_evidence e = e\<lparr>e_detail := canon_dict (e_detail e)\<rparr>"

definition reload_ts :: "lc_env \<Rightarrow> tstamp \<Rightarrow> tstamp" where
  "reload_ts E t = (case le_parse E (le_iso E t) of Inr u \<Rightarrow> u | Inl _ \<Rightarrow> t)"

definition reload :: "lc_env \<Rightarrow> transition_record \<Rightarrow> transition_record" where
  "reload E r = r\<lparr>tr_at := reload_ts E (tr_at r), tr_evidence := map reload_evidence (tr_evidence r)\<rparr>"

text \<open>The clock's text: \<open>datetime.fromisoformat\<close> reads what \<open>isoformat\<close> wrote, as an instant that prints the same.\<close>

definition clock_text_ok :: "lc_env \<Rightarrow> bool" where
  "clock_text_ok E \<longleftrightarrow> (\<forall>t. \<exists>u. le_parse E (le_iso E t) = Inr u \<and> le_iso E u = le_iso E t)"

lemma clock_reload: "clock_text_ok E \<Longrightarrow> le_parse E (le_iso E t) = Inr (reload_ts E t) \<and> le_iso E (reload_ts E t) = le_iso E t"
  unfolding clock_text_ok_def reload_ts_def by (metis sum.simps(6))

text \<open>A record's actor and evidence are constructed objects, so their constructors accepted them.\<close>

definition row_constructed :: "transition_record \<Rightarrow> bool" where
  "row_constructed r \<longleftrightarrow>
     actor_post_init (tr_actor r) = Inr (tr_actor r) \<and> list_all (\<lambda>e. evidence_post_init e = Inr e) (tr_evidence r)"

lemma enum_lifecycle [simp]: "enum_of lc_value all_lifecycles (JStr (lc_value s)) = Inr s"
  by (cases s) (simp_all add: enum_of_def all_lifecycles_def)

lemma enum_transition_kind [simp]:
  "enum_of transition_kind_value all_transition_kinds (JStr (transition_kind_value k)) = Inr k"
  by (cases k) (simp_all add: enum_of_def all_transition_kinds_def)

lemma enum_actor_kind [simp]: "enum_of actor_kind_value [HUMAN, AUTOMATED_RULE, SYSTEM] (JStr (actor_kind_value a)) = Inr a"
  by (cases a) (simp_all add: enum_of_def)

lemma enum_evidence_kind [simp]: "enum_of evidence_kind_value all_evidence_kinds (JStr (evidence_kind_value k)) = Inr k"
  by (cases k) (simp_all add: enum_of_def all_evidence_kinds_def)

lemma actor_roundtrip: "actor_post_init a = Inr a \<Longrightarrow> actor_from_dict E (canon_dict (actor_to_dict a)) = Inr a"
  using canon_dict_lookup [of "actor_to_dict a"]
  by (cases a) (simp add: actor_to_dict_def actor_from_dict_def jget_def)

lemma evidence_roundtrip:
  assumes "evidence_post_init e = Inr e"
  shows "evidence_from_dict E (canon_dict (evidence_to_dict e)) = Inr (reload_evidence e)"
proof -
  have "distinct (map fst (evidence_to_dict e))" by (simp add: evidence_to_dict_def)
  note look = canon_dict_lookup [OF this]
  have "evidence_post_init (reload_evidence e) = Inr (reload_evidence e)"
    using assms by (auto simp: evidence_post_init_def reload_evidence_def split: if_splits)
  moreover have "reload_evidence e = \<lparr>e_kind = e_kind e, e_id = e_id e, e_summary = e_summary e, e_detail = canon_dict (e_detail e)\<rparr>"
    by (simp add: reload_evidence_def)
  ultimately show ?thesis
    by (simp add: evidence_from_dict_def jget_def jget_default_def look) (simp add: evidence_to_dict_def)
qed

lemma evidence_list_roundtrip:
  assumes "list_all (\<lambda>e. evidence_post_init e = Inr e) es"
  shows "rmap (\<lambda>v. rbind (as_mapping v) (evidence_from_dict E)) (map (canonicalise \<circ> (JDict \<circ> evidence_to_dict)) es)
    = Inr (map reload_evidence es)"
  using assms by (induction es) (simp_all add: evidence_roundtrip)

lemma record_roundtrip:
  assumes "row_constructed r" "clock_text_ok E"
  shows "rbind (as_mapping (record_to_line E r)) (record_from_dict E) = Inr (reload E r)"
proof -
  have "distinct (map fst (record_to_dict E r))" by (simp add: record_to_dict_def payload_def)
  note look = canon_dict_lookup [OF this]
  have ev: "rmap (\<lambda>v. rbind (as_mapping v) (evidence_from_dict E)) (map canonicalise (map (JDict \<circ> evidence_to_dict) (tr_evidence r)))
      = Inr (map reload_evidence (tr_evidence r))"
    using evidence_list_roundtrip [of "tr_evidence r" E] assms(1) by (simp add: row_constructed_def comp_def)
  have act: "actor_from_dict E (canon_dict (actor_to_dict (tr_actor r))) = Inr (tr_actor r)"
    using actor_roundtrip assms(1) by (simp add: row_constructed_def)
  have "le_parse E (le_iso E (tr_at r)) = Inr (reload_ts E (tr_at r))" using clock_reload [OF assms(2)] by simp
  with ev act show ?thesis
    by (simp add: record_to_line_def record_from_dict_def jget_def jget_default_def look)
      (simp add: record_to_dict_def payload_def reload_def)
qed

lemma reload_commitment: "clock_text_ok E \<Longrightarrow> row_commitment E (reload E r) = row_commitment E r"
  using clock_reload [of E "tr_at r"]
  by (simp add: row_commitment_def payload_def reload_def evidence_to_dict_def reload_evidence_def comp_def)

lemma reload_simps [simp]:
  "tr_sequence (reload E r) = tr_sequence r" "tr_previous_hash (reload E r) = tr_previous_hash r"
  "tr_record_hash (reload E r) = tr_record_hash r" "tr_kind (reload E r) = tr_kind r"
  "tr_strategy_content_hash (reload E r) = tr_strategy_content_hash r" "tr_to_state (reload E r) = tr_to_state r"
  "tr_strategy_id (reload E r) = tr_strategy_id r"
  by (simp_all add: reload_def)

lemma reload_linked: "clock_text_ok E \<Longrightarrow> rows_linked E i p (map (reload E) rows) = rows_linked E i p rows"
  by (induction rows arbitrary: i p) (auto simp: reload_commitment)

definition reload_sr :: "lc_env \<Rightarrow> strategy_record \<Rightarrow> strategy_record" where
  "reload_sr E s = s\<lparr>sr_created_at := reload_ts E (sr_created_at s), sr_history := map (reload E) (sr_history s)\<rparr>"

lemma reload_applied: "applied (reload_sr E s) (reload E x) = reload_sr E (applied s x)"
  by (simp add: applied_def reload_sr_def Let_def)

lemma reload_registered: "registered_record (reload E x) = reload_sr E (registered_record x)"
  by (simp add: registered_record_def reload_sr_def) (simp add: reload_def)

lemma replay_reload:
  "replay_rows (map (reload E) rows) (\<lambda>h. map_option (reload_sr E) (recs h)) =
     map_sum id (\<lambda>recs h. map_option (reload_sr E) (recs h)) (replay_rows rows recs)"
proof (induction rows arbitrary: recs)
  case (Cons x xs)
  have upd: "(\<lambda>h. map_option (reload_sr E) (recs h))(k \<mapsto> reload_sr E v) = (\<lambda>h. map_option (reload_sr E) ((recs(k \<mapsto> v)) h))" for k v
    by auto
  show ?case
    using Cons by (auto simp: reload_applied reload_registered upd simp del: fun_upd_apply split: option.splits)
qed simp


section \<open>Reachable machines\<close>

text \<open>One machine over its own log: strategies register and move, with actors and evidence their constructors
  accepted; a refused call changes nothing.\<close>

inductive lc_step :: "lc_env \<Rightarrow> machine \<Rightarrow> machine \<Rightarrow> bool" for E where
  step_register:
    "actor_post_init who = Inr who \<Longrightarrow> list_all (\<lambda>e. evidence_post_init e = Inr e) ev \<Longrightarrow>
     register E now sid h who reason ev when m = Inr (m', r) \<Longrightarrow> lc_step E m m'"
| step_transition:
    "actor_post_init who = Inr who \<Longrightarrow> list_all (\<lambda>e. evidence_post_init e = Inr e) ev \<Longrightarrow>
     transition E now h t who reason ev when m = Inr (m', r) \<Longrightarrow> lc_step E m m'"

definition lc_reachable :: "lc_env \<Rightarrow> machine \<Rightarrow> bool" where
  "lc_reachable E m \<longleftrightarrow>
     (\<exists>empty. empty \<in> {MemLog [], FileLog []} \<and> (lc_step E)\<^sup>*\<^sup>* \<lparr>mc_log = empty, mc_records = Map.empty\<rparr> m)"

text \<open>What every row of a machine's log satisfies.\<close>

definition row_justified :: "lc_env \<Rightarrow> transition_record \<Rightarrow> bool" where
  "row_justified E x \<longleftrightarrow>
     row_constructed x \<and> tr_evidence x \<noteq> [] \<and> (tr_automatic x \<longleftrightarrow> ar_kind (tr_actor x) \<noteq> HUMAN)
     \<and> (tr_to_state x = LC_LIVE \<longrightarrow>
          ar_kind (tr_actor x) = HUMAN
          \<and> (\<exists>a. authorisation_in E (tr_evidence x) = Inr (Some a)
               \<and> ha_strategy_content_hash a = tr_strategy_content_hash x \<and> ha_to_state a = LC_LIVE))
     \<and> (if tr_kind x = REGISTRATION then tr_from_state x = LC_DISCOVERY \<and> tr_to_state x = LC_DISCOVERY
        else \<exists>e. edge (tr_from_state x) (tr_to_state x) = Some e \<and> lt_kind e = tr_kind x
               \<and> (lt_requires_human_actor e \<longrightarrow> ar_kind (tr_actor x) = HUMAN))"

text \<open>What every strategy record satisfies: a strategy in a health state remembers a running state it left, and
  every rung up to the one it stands on (or left) is in its history.\<close>

definition top_rung :: "strategy_record \<Rightarrow> int" where
  "top_rung r = (case sr_pre_health_state r of Some p \<Rightarrow> ladder_index p | None \<Rightarrow> ladder_index (sr_state r))"

definition climbed :: "strategy_record \<Rightarrow> bool" where
  "climbed r \<longleftrightarrow>
     (sr_state r \<in> set HEALTH_STATES \<longrightarrow> (\<exists>p. sr_pre_health_state r = Some p \<and> p \<in> set RUNNING_STATES))
     \<and> (sr_state r \<in> set LADDER \<longrightarrow> sr_pre_health_state r = None)
     \<and> (\<forall>s \<in> set LADDER. ladder_index s \<le> top_rung r \<longrightarrow> s \<in> tr_to_state ` set (sr_history r))"

definition holds_rows :: "lc_env \<Rightarrow> transition_log \<Rightarrow> transition_record list \<Rightarrow> bool" where
  "holds_rows E lg rows \<longleftrightarrow> lg = MemLog rows \<or> lg = FileLog (map (record_to_line E) rows)"

definition lc_inv :: "lc_env \<Rightarrow> machine \<Rightarrow> transition_record list \<Rightarrow> bool" where
  "lc_inv E m rows \<longleftrightarrow>
     holds_rows E (mc_log m) rows \<and> rows_linked E 0 GENESIS_HASH rows \<and> list_all (row_justified E) rows
     \<and> replay_rows rows Map.empty = Inr (mc_records m)
     \<and> (\<forall>h r. mc_records m h = Some r \<longrightarrow> climbed r)
     \<and> (\<forall>h. filter (\<lambda>x. tr_strategy_content_hash x = h) rows =
            (case mc_records m h of None \<Rightarrow> [] | Some r \<Rightarrow> sr_history r))"

lemma log_records_of:
  assumes "holds_rows E lg rows" "list_all row_constructed rows" "clock_text_ok E"
  shows "log_records E lg \<in> {Inr rows, Inr (map (reload E) rows)}"
  using assms
  by (auto simp: holds_rows_def list_all_iff record_roundtrip intro!: rmap_map)

lemma log_head_of:
  assumes "holds_rows E lg rows" "list_all row_constructed rows" "clock_text_ok E"
  shows "log_len E lg = Inr (int (length rows))" "head_hash E lg = Inr (head_hash_of rows)"
  using log_records_of [OF assms]
  by (auto simp: log_len_def head_hash_def head_hash_of_def last_map)

lemma holds_rows_append: "holds_rows E lg rows \<Longrightarrow> holds_rows E (log_append E x lg) (rows @ [x])"
  by (auto simp: holds_rows_def)

lemma replay_rows_append:
  "replay_rows (xs @ ys) recs = rbind (replay_rows xs recs) (replay_rows ys)"
  by (induction xs arbitrary: recs) (auto split: option.splits)

lemma justified_constructed: "list_all (row_justified E) rows \<Longrightarrow> list_all row_constructed rows"
  by (auto simp: list_all_iff row_justified_def)

lemma climbed_registered: "tr_to_state x = LC_DISCOVERY \<Longrightarrow> climbed (registered_record x)"
  by (auto simp: climbed_def registered_record_def top_rung_def LADDER_def HEALTH_STATES_def ladder_index_def)

lemma ladder_index_nonneg: "s \<in> set LADDER \<Longrightarrow> 0 \<le> ladder_index s" and retired_index: "ladder_index LC_RETIRED = -1"
  by (auto simp: LADDER_def ladder_index_def)

lemma climbed_by_rungs:
  assumes "climbed r" "sr_history r' = sr_history r @ [x]"
    and "sr_state r' \<in> set HEALTH_STATES \<longrightarrow> (\<exists>p. sr_pre_health_state r' = Some p \<and> p \<in> set RUNNING_STATES)"
    and "sr_state r' \<in> set LADDER \<longrightarrow> sr_pre_health_state r' = None"
    and "\<And>s. s \<in> set LADDER \<Longrightarrow> ladder_index s \<le> top_rung r' \<Longrightarrow> s = tr_to_state x \<or> ladder_index s \<le> top_rung r"
  shows "climbed r'"
  unfolding climbed_def
proof (intro conjI ballI impI)
  fix s assume "s \<in> set LADDER" "ladder_index s \<le> top_rung r'"
  with assms(5) [of s] assms(1) show "s \<in> tr_to_state ` set (sr_history r')"
    by (auto simp: assms(2) climbed_def)
qed (use assms(3,4) in auto)

lemma climbed_applied:
  assumes "climbed r" "edge (sr_state r) (tr_to_state x) = Some e" "tr_kind x = lt_kind e"
    and "check_ceiling (sr_state r) (tr_to_state x) e (sr_pre_health_state r) = Inr ()"
  shows "climbed (applied r x)"
proof -
  let ?f = "sr_state r" and ?t = "tr_to_state x"
  note shape = edge_shape [OF assms(2)]
  have nr: "tr_kind x \<noteq> REGISTRATION" using shape assms(3) by (auto simp: edge_shape_def)
  have hist: "sr_history (applied r x) = sr_history r @ [x]" "sr_state (applied r x) = ?t"
    "sr_pre_health_state (applied r x) = (if ?f \<in> set LADDER \<and> ?t \<in> set HEALTH_STATES then Some ?f
       else if ?t \<in> set LADDER then None else sr_pre_health_state r)"
    using nr by (simp_all add: applied_def Let_def)
  have left: "?f \<in> set HEALTH_STATES \<Longrightarrow> \<exists>p. sr_pre_health_state r = Some p \<and> p \<in> set RUNNING_STATES"
    and on: "?f \<in> set LADDER \<Longrightarrow> sr_pre_health_state r = None"
    using assms(1) by (auto simp: climbed_def)
  show ?thesis
  proof (rule climbed_by_rungs [OF assms(1) hist(1)])
    show "sr_state (applied r x) \<in> set HEALTH_STATES \<longrightarrow>
        (\<exists>p. sr_pre_health_state (applied r x) = Some p \<and> p \<in> set RUNNING_STATES)"
      using shape left states_partition(2,3,6) by (auto simp: hist edge_shape_def split: transition_kind.splits)
    show "sr_state (applied r x) \<in> set LADDER \<longrightarrow> sr_pre_health_state (applied r x) = None"
      using states_partition(2) by (auto simp: hist)
    fix s assume s: "s \<in> set LADDER" "ladder_index s \<le> top_rung (applied r x)"
    show "s = ?t \<or> ladder_index s \<le> top_rung r"
    proof (cases "lt_kind e")
      case PROMOTION
      then have "?f \<in> set LADDER" "?t \<in> set LADDER" "ladder_index ?t = ladder_index ?f + 1"
        using shape by (auto simp: edge_shape_def)
      moreover have "?t \<notin> set HEALTH_STATES" using states_partition(2) calculation(2) by blast
      ultimately show ?thesis using s on ladder_index_inj [OF s(1), of ?t] by (auto simp: top_rung_def hist)
    next
      case DEMOTION
      then have t: "?t \<in> set LADDER" "?t \<notin> set HEALTH_STATES"
        and down: "?f \<in> set LADDER \<and> ladder_index ?t < ladder_index ?f \<or> ?f \<in> set HEALTH_STATES \<and> ?t \<in> set PRE_RUNNING"
        using shape states_partition(2) by (auto simp: edge_shape_def)
      have s': "ladder_index s \<le> ladder_index ?t" using s(2) t by (simp add: top_rung_def hist)
      show ?thesis
      proof (cases "?f \<in> set LADDER")
        case True
        then show ?thesis using on s' down states_partition(2) by (auto simp: top_rung_def)
      next
        case False
        then obtain p where "sr_pre_health_state r = Some p" "p \<in> set RUNNING_STATES" using left down by blast
        then show ?thesis using s' down False states_partition(4) [of ?t p] by (auto simp: top_rung_def)
      qed
    next
      case HEALTH_ESCALATION
      then show ?thesis using s on left states_partition(2,3) shape by (auto simp: top_rung_def hist edge_shape_def)
    next
      case RECOVERY
      then show ?thesis using s left states_partition(2,3) shape assms(4)
        by (auto simp: top_rung_def hist edge_shape_def check_ceiling_def split: if_splits)
    next
      case RETIREMENT
      then show ?thesis using s states_partition(5,6) shape ladder_index_nonneg [OF s(1)] retired_index
        by (auto simp: top_rung_def hist edge_shape_def split: option.splits)
    next
      case REGISTRATION
      then show ?thesis using nr assms(3) by simp
    qed
  qed
qed

lemma inv_commit:
  assumes inv: "lc_inv E m rows"
    and x: "x = seal E (int (length rows)) w sid h f t k who reason ev (head_hash_of rows)"
    and just: "row_justified E x" and climb: "climbed r"
    and rep: "replay_rows [x] (mc_records m) = Inr ((mc_records m)(h \<mapsto> r))"
    and hist: "sr_history r = (case mc_records m h of None \<Rightarrow> [] | Some r0 \<Rightarrow> sr_history r0) @ [x]"
  shows "lc_inv E (commit E x r m) (rows @ [x])"
proof -
  have h: "tr_strategy_content_hash x = h" using x by simp
  have "replay_rows (rows @ [x]) Map.empty = Inr ((mc_records m)(h \<mapsto> r))"
    using inv rep by (simp add: lc_inv_def replay_rows_append)
  moreover have "rows_linked E 0 GENESIS_HASH (rows @ [x])"
    unfolding x using inv by (intro linked_snoc_seal) (simp add: lc_inv_def)
  ultimately show ?thesis
    using inv just climb hist h
    by (auto simp: lc_inv_def commit_def holds_rows_append split: option.splits)
qed

lemma inv_head:
  assumes "lc_inv E m rows" "clock_text_ok E"
  shows "log_len E (mc_log m) = Inr (int (length rows))" "head_hash E (mc_log m) = Inr (head_hash_of rows)"
  using assms log_head_of [of E "mc_log m" rows] by (auto simp: lc_inv_def justified_constructed)

lemma inv_register:
  assumes inv: "lc_inv E m rows" and clock: "clock_text_ok E"
    and objs: "actor_post_init who = Inr who" "list_all (\<lambda>e. evidence_post_init e = Inr e) ev"
    and reg: "register E now sid h who reason ev when m = Inr (m', r)"
  shows "\<exists>x. lc_inv E m' (rows @ [x])"
proof -
  obtain items n prev where none: "mc_records m h = None" and nb: "strip h \<noteq> []"
    and items: "registration_items h reason ev = Inr items"
    and n0: "log_len E (mc_log m) = Inr n" and p0: "head_hash E (mc_log m) = Inr prev"
    and r: "r = registered_record (seal E n (case when of Some t \<Rightarrow> t | None \<Rightarrow> now) sid h LC_DISCOVERY LC_DISCOVERY REGISTRATION who reason items prev)"
    and m': "m' = commit E (seal E n (case when of Some t \<Rightarrow> t | None \<Rightarrow> now) sid h LC_DISCOVERY LC_DISCOVERY REGISTRATION who reason items prev) r m"
    by (rule register_Inr [OF reg])
  note it = registration_items_ok(1) [OF items] registration_items_ok(2) [OF items objs(2)]
  have n: "n = int (length rows)" "prev = head_hash_of rows" using n0 p0 inv_head [OF inv clock] by simp_all
  have climb: "climbed r" unfolding r by (rule climbed_registered) simp
  show ?thesis unfolding m'
    by (rule exI, rule inv_commit [OF inv _ _ climb])
      (use none it objs in \<open>auto simp: n r row_justified_def row_constructed_def kind_is_automatic_def registered_record_def\<close>)
qed

lemma inv_transition:
  assumes inv: "lc_inv E m rows" and clock: "clock_text_ok E"
    and objs: "actor_post_init who = Inr who" "list_all (\<lambda>e. evidence_post_init e = Inr e) ev"
    and tr: "transition E now h t who reason ev when m = Inr (m', r')"
  shows "\<exists>x. lc_inv E m' (rows @ [x])"
proof -
  obtain r e where cur: "mc_records m h = Some r" "edge (sr_state r) t = Some e" "ev \<noteq> []"
    and chk: "check_live_invariant E h t who ev = Inr ()" "check_edge_needs E h (sr_state r) t e who ev = Inr ()"
      "check_ceiling (sr_state r) t e (sr_pre_health_state r) = Inr ()"
    and r': "r' = applied r (seal E (int (length rows)) (case when of Some u \<Rightarrow> u | None \<Rightarrow> now) (sr_strategy_id r) h (sr_state r) t (lt_kind e) who reason ev (head_hash_of rows))"
    and m': "m' = commit E (seal E (int (length rows)) (case when of Some u \<Rightarrow> u | None \<Rightarrow> now) (sr_strategy_id r) h (sr_state r) t (lt_kind e) who reason ev (head_hash_of rows)) r' m"
    using tr inv_head [OF inv clock] by (elim transition_Inr) auto
  note shape = edge_shape [OF cur(2)]
  have nr: "lt_kind e \<noteq> REGISTRATION" using shape by (auto simp: edge_shape_def)
  have "climbed r" using inv cur(1) by (auto simp: lc_inv_def)
  then have climb: "climbed r'" unfolding r' by (rule climbed_applied) (use cur chk in auto)
  show ?thesis unfolding m'
    by (rule exI, rule inv_commit [OF inv refl _ climb])
      (use cur chk objs nr live_needs [OF chk(1)] human_needed [OF chk(2)] in
        \<open>auto simp: r' row_justified_def row_constructed_def kind_is_automatic_def applied_def Let_def\<close>)
qed

lemma reachable_inv:
  assumes "lc_reachable E m" "clock_text_ok E"
  shows "\<exists>rows. lc_inv E m rows"
proof -
  obtain empty where empty: "empty \<in> {MemLog [], FileLog []}"
    and steps: "(lc_step E)\<^sup>*\<^sup>* \<lparr>mc_log = empty, mc_records = Map.empty\<rparr> m"
    using assms(1) by (auto simp: lc_reachable_def)
  from steps show ?thesis
  proof (induction rule: rtranclp_induct)
    case base
    show ?case using empty by (intro exI [of _ "[]"]) (auto simp: lc_inv_def holds_rows_def)
  next
    case (step y z)
    then obtain rows where rows: "lc_inv E y rows" by blast
    from step.hyps(2) show ?case
      by (cases rule: lc_step.cases)
        (blast dest: inv_register [OF rows assms(2)] inv_transition [OF rows assms(2)])+
  qed
qed


section \<open>Restarting from the log\<close>

abbreviation position :: "strategy_record \<Rightarrow> string \<times> lifecycle \<times> lifecycle option" where
  "position r \<equiv> (sr_strategy_id r, sr_state r, sr_pre_health_state r)"

lemma machine_new_of_rows:
  assumes "holds_rows E lg rows" "list_all row_constructed rows" "clock_text_ok E"
    and "rows_linked E 0 GENESIS_HASH rows" "replay_rows rows Map.empty = Inr recs"
  shows "\<exists>m. machine_new E lg = Inr m \<and> mc_log m = lg
    \<and> (\<forall>h. map_option position (mc_records m h) = map_option position (recs h))"
proof -
  have reloaded: "replay_rows (map (reload E) rows) Map.empty = Inr (\<lambda>h. map_option (reload_sr E) (recs h))"
    using replay_reload [of E rows Map.empty] assms(5) by simp
  have pos: "map_option position (map_option (reload_sr E) (recs h)) = map_option position (recs h)" for h
    by (cases "recs h") (simp_all add: reload_sr_def)
  from log_records_of [OF assms(1-3)] consider
      "log_records E lg = Inr rows" | "log_records E lg = Inr (map (reload E) rows)" by auto
  then show ?thesis
  proof cases
    case 1
    then show ?thesis using assms(4,5) by (simp add: machine_new_def log_verify_def verify_rows_ok)
  next
    case 2
    then show ?thesis using assms(3,4) reloaded pos
      by (simp add: machine_new_def log_verify_def verify_rows_ok reload_linked)
  qed
qed


lemma reachable_history:
  assumes "lc_reachable E m" "clock_text_ok E" "mc_records m h = Some r"
  shows "climbed r" "x \<in> set (sr_history r) \<Longrightarrow> row_justified E x \<and> tr_strategy_content_hash x = h"
proof -
  obtain rows where inv: "lc_inv E m rows" using reachable_inv [OF assms(1,2)] by blast
  then show "climbed r" using assms(3) by (auto simp: lc_inv_def)
  have "sr_history r = filter (\<lambda>x. tr_strategy_content_hash x = h) rows"
    using inv assms(3) by (simp add: lc_inv_def)
  then show "x \<in> set (sr_history r) \<Longrightarrow> row_justified E x \<and> tr_strategy_content_hash x = h"
    using inv by (auto simp: lc_inv_def list_all_iff)
qed

text \<open>The edges an automated actor may use: into a running state only downwards on the ladder, out of a health
  state only to the laboratory or a deeper health state, never to RETIRED.\<close>

definition automated_shape :: "lifecycle \<Rightarrow> lifecycle \<Rightarrow> bool" where
  "automated_shape f t \<longleftrightarrow>
     (t \<in> set RUNNING_STATES \<longrightarrow> f \<in> set LADDER \<and> ladder_index t < ladder_index f)
     \<and> (f \<in> set HEALTH_STATES \<longrightarrow> t \<in> set (PRE_RUNNING @ HEALTH_STATES)) \<and> t \<noteq> LC_RETIRED"

lemma automated_table:
  "list_all (\<lambda>f. list_all (\<lambda>t. case edge f t of None \<Rightarrow> True
     | Some e \<Rightarrow> lt_requires_human_actor e \<or> automated_shape f t) all_lifecycles) all_lifecycles"
  by code_simp

lemma automated_edge:
  assumes "row_justified E x" "ar_kind (tr_actor x) \<noteq> HUMAN" "tr_kind x \<noteq> REGISTRATION"
  shows "automated_shape (tr_from_state x) (tr_to_state x)"
proof -
  obtain e where e: "edge (tr_from_state x) (tr_to_state x) = Some e" "\<not> lt_requires_human_actor e"
    using assms by (auto simp: row_justified_def)
  have "case edge f t of None \<Rightarrow> True | Some e \<Rightarrow> lt_requires_human_actor e \<or> automated_shape f t" for f t
    using automated_table unfolding list_all_iff by (metis all_lifecycles_UNIV)
  from this [of "tr_from_state x" "tr_to_state x"] e show ?thesis by simp
qed


section \<open>A concrete climb\<close>

text \<open>An environment for the witnesses, with every digest the same length-coded text and a clock that prints one text.\<close>

definition sample_lc_env :: lc_env where
  "sample_lc_env =
     \<lparr>le_sha = (\<lambda>_. ''sha''), le_iso = (\<lambda>_. ''now''), le_parse = (\<lambda>_. Inr (utc 0)), le_str = (\<lambda>_. []),
      le_int = (\<lambda>_. Inl (ValueError [])), le_dict = (\<lambda>_. Inl (TypeError []))\<rparr>"

lemma sample_clock: "clock_text_ok sample_lc_env"
  by (simp add: clock_text_ok_def sample_lc_env_def)

definition joe :: actor where "joe = \<lparr>ar_kind = HUMAN, ar_name = ''joe''\<rparr>"
definition drift_rule :: actor where "drift_rule = \<lparr>ar_kind = AUTOMATED_RULE, ar_name = ''monitor:drift''\<rparr>"

definition joes_auth :: human_auth where
  "joes_auth = \<lparr>ha_authorised_by = ''joe'', ha_strategy_content_hash = ''h1'', ha_to_state = LC_LIVE,
     ha_statement = ''reviewed report and demo results'', ha_authorised_at = utc 0, ha_reviewed_report_hash = [], ha_ticket = []\<rparr>"

definition joes_evidence :: evidence where
  "joes_evidence = \<lparr>e_kind = HUMAN_AUTHORISATION, e_id = ''auth:joe:live'', e_summary = ''reviewed report and demo results'',
     e_detail = human_auth_to_dict sample_lc_env joes_auth\<rparr>"

fun climb :: "lifecycle list \<Rightarrow> machine \<Rightarrow> pyexn + machine" where
  "climb [] m = Inr m"
| "climb (t # ts) m =
     rbind (transition sample_lc_env (utc 0) ''h1'' t joe ''ok'' [joes_evidence] None m) (\<lambda>(m', r). climb ts m')"

definition start_machine :: "pyexn + machine" where
  "start_machine =
     rbind (register sample_lc_env (utc 0) ''s1'' ''h1'' joe ''new'' [] None \<lparr>mc_log = MemLog [], mc_records = Map.empty\<rparr>)
       (\<lambda>(m, r). Inr m)"

definition climbed_machine :: "lifecycle list \<Rightarrow> machine" where
  "climbed_machine ts = (case rbind start_machine (climb ts) of Inr m \<Rightarrow> m | Inl _ \<Rightarrow> \<lparr>mc_log = MemLog [], mc_records = Map.empty\<rparr>)"

lemma joe_ok: "actor_post_init joe = Inr joe" and joes_evidence_ok: "evidence_post_init joes_evidence = Inr joes_evidence"
  by (simp_all add: actor_post_init_def joe_def evidence_post_init_def joes_evidence_def strip_def is_space_def)

lemma climb_reachable:
  "lc_reachable sample_lc_env m \<Longrightarrow> climb ts m = Inr m' \<Longrightarrow> lc_reachable sample_lc_env m'"
proof (induction ts arbitrary: m)
  case (Cons t ts)
  then obtain m1 r where t: "transition sample_lc_env (utc 0) ''h1'' t joe ''ok'' [joes_evidence] None m = Inr (m1, r)"
    and rest: "climb ts m1 = Inr m'" by (auto simp: rbind_eq_Inr split: prod.splits)
  have "lc_step sample_lc_env m m1" by (rule step_transition [OF joe_ok _ t]) (simp add: joes_evidence_ok)
  then have "lc_reachable sample_lc_env m1"
    using Cons.prems(1) unfolding lc_reachable_def by (meson rtranclp.rtrancl_into_rtrancl)
  from Cons.IH [OF this rest] show ?case .
qed simp

lemma climbed_machine_reachable: "lc_reachable sample_lc_env (climbed_machine ts)"
proof -
  let ?m0 = "\<lparr>mc_log = MemLog [], mc_records = Map.empty\<rparr>"
  have m0: "lc_reachable sample_lc_env ?m0" by (auto simp: lc_reachable_def)
  have "lc_reachable sample_lc_env m" if start: "start_machine = Inr m" for m
  proof -
    from start obtain r where reg: "register sample_lc_env (utc 0) ''s1'' ''h1'' joe ''new'' [] None ?m0 = Inr (m, r)"
      by (auto simp: start_machine_def rbind_eq_Inr split: prod.splits)
    have "lc_step sample_lc_env ?m0 m" by (rule step_register [OF joe_ok _ reg]) simp
    then show ?thesis using m0 unfolding lc_reachable_def by (meson rtranclp.rtrancl_into_rtrancl)
  qed
  then show ?thesis using m0 climb_reachable
    by (auto simp: climbed_machine_def rbind_eq_Inr split: sum.splits)
qed

definition full_climb :: "lifecycle list" where
  "full_climb = tl LADDER"

lemma live_machine_state: "map_option sr_state (mc_records (climbed_machine full_climb) ''h1'') = Some LC_LIVE"
  by code_simp


lemma climbed_rung:
  "climbed r \<Longrightarrow> sr_state r \<in> set LADDER \<Longrightarrow> s \<in> set LADDER \<Longrightarrow> ladder_index s \<le> ladder_index (sr_state r) \<Longrightarrow>
   \<exists>x \<in> set (sr_history r). tr_to_state x = s"
  by (force simp: climbed_def top_rung_def image_iff)

lemma running_demotion_table:
  "list_all (\<lambda>f. list_all (\<lambda>t. \<not> ladder_index t < ladder_index f \<or>
      edge f t = Some (mk_edge f t DEMOTION False False) \<and> t \<noteq> LC_LIVE) RUNNING_STATES) RUNNING_STATES"
  by code_simp

lemma running_demotion:
  "f \<in> set RUNNING_STATES \<Longrightarrow> t \<in> set RUNNING_STATES \<Longrightarrow> ladder_index t < ladder_index f \<Longrightarrow>
   edge f t = Some (mk_edge f t DEMOTION False False) \<and> t \<noteq> LC_LIVE"
  using running_demotion_table unfolding list_all_iff by blast

text \<open>A machine whose records are older than its log: the transition it accepts is sealed onto the newer log.\<close>

lemma stale_demotion:
  assumes "lc_inv E other rows" "clock_text_ok E" "mc_records m h = Some r" "mc_log m = mc_log other"
    and "sr_state r \<in> set RUNNING_STATES" "sr_pre_health_state r = None"
    and "t \<in> set RUNNING_STATES" "ladder_index t < ladder_index (sr_state r)" "evidence \<noteq> []"
    and "x = seal E (int (length rows)) (case when of Some u \<Rightarrow> u | None \<Rightarrow> now) (sr_strategy_id r) h (sr_state r) t
           DEMOTION rule why evidence (head_hash_of rows)"
  shows "transition E now h t rule why evidence when m = Inr (commit E x (applied r x) m, applied r x)"
  using running_demotion [OF assms(5,7,8)] inv_head [OF assms(1,2)] assms(3,4,6,9)
  by (simp add: transition_def machine_record_def check_edge_def check_live_invariant_def check_edge_needs_def
      check_ceiling_def assms(10) Let_def)

lemma replay_onto:
  assumes "lc_inv E other rows" "clock_text_ok E" "mc_records other h = Some halted"
    and "x = seal E (int (length rows)) w sid h f t DEMOTION rule why evidence (head_hash_of rows)"
    and "actor_post_init rule = Inr rule" "list_all (\<lambda>e. evidence_post_init e = Inr e) evidence"
  shows "\<exists>m2. machine_new E (log_append E x (mc_log other)) = Inr m2 \<and> machine_state m2 h = Inr t"
proof -
  have rep: "replay_rows (rows @ [x]) Map.empty = Inr ((mc_records other)(h \<mapsto> applied halted x))"
    using assms(1,3) by (simp add: lc_inv_def replay_rows_append assms(4))
  have link: "rows_linked E 0 GENESIS_HASH (rows @ [x])"
    unfolding assms(4) using assms(1) by (intro linked_snoc_seal) (simp add: lc_inv_def)
  have "row_constructed x" using assms(5,6) by (simp add: assms(4) row_constructed_def)
  then have cons: "list_all row_constructed (rows @ [x])"
    using assms(1) justified_constructed [of E rows] by (simp add: lc_inv_def)
  have hold: "holds_rows E (log_append E x (mc_log other)) (rows @ [x])"
    using assms(1) by (intro holds_rows_append) (simp add: lc_inv_def)
  obtain m2 where "machine_new E (log_append E x (mc_log other)) = Inr m2"
    and "map_option position (mc_records m2 h) = map_option position (((mc_records other)(h \<mapsto> applied halted x)) h)"
    using machine_new_of_rows [OF hold cons assms(2) link rep] by blast
  then show ?thesis
    by (auto simp: machine_state_def machine_record_def applied_def assms(4) Let_def)
qed


section \<open>Properties\<close>

text \<open>C8: nothing automated reaches LIVE. In every machine reachable by registrations and transitions, every
  transition into LIVE in any strategy's history was made by a human actor, is not marked automatic, and cites
  a readable human authorisation for exactly this content hash and this target.\<close>

theorem live_requires_named_human:
  assumes "lc_reachable E m" "clock_text_ok E" "mc_records m h = Some r" "x \<in> set (sr_history r)" "tr_to_state x = LC_LIVE"
  shows "ar_kind (tr_actor x) = HUMAN \<and> \<not> tr_automatic x
    \<and> (\<exists>e \<in> set (tr_evidence x). e_kind e = HUMAN_AUTHORISATION
         \<and> (\<exists>a. human_auth_from_dict E (e_detail e) = Inr a \<and> ha_strategy_content_hash a = h \<and> ha_to_state a = LC_LIVE))"
proof -
  have "row_justified E x" "tr_strategy_content_hash x = h"
    using reachable_history(2) [OF assms(1-4)] by auto
  then show ?thesis using assms(5) authorisation_in_valid [of E "tr_evidence x"] by (fastforce simp: row_justified_def)
qed

theorem live_requires_named_human_witness:
  "\<exists>r x. mc_records (climbed_machine full_climb) ''h1'' = Some r \<and> x \<in> set (sr_history r) \<and> tr_to_state x = LC_LIVE
     \<and> ar_kind (tr_actor x) = HUMAN"
proof -
  obtain r where r: "mc_records (climbed_machine full_climb) ''h1'' = Some r" "sr_state r = LC_LIVE"
    using live_machine_state by auto
  have live: "climbed r" by (rule reachable_history(1) [OF climbed_machine_reachable sample_clock r(1)])
  then obtain x where x: "x \<in> set (sr_history r)" "tr_to_state x = LC_LIVE"
    using r(2) climbed_rung [OF live, of LC_LIVE] by (auto simp: LADDER_def)
  from live_requires_named_human [OF climbed_machine_reachable sample_clock r(1) x] r x show ?thesis by blast
qed

text \<open>C12: promotion cannot skip a stage. A strategy standing on a rung of the ladder has, in its history, a
  transition into every rung below it: a LIVE strategy has been in research, validation, candidate, paper,
  shadow, demo and approved.\<close>

theorem no_stage_skipped:
  assumes "lc_reachable E m" "clock_text_ok E" "mc_records m h = Some r" "sr_state r \<in> set LADDER"
    and "s \<in> set LADDER" "ladder_index s \<le> ladder_index (sr_state r)"
  shows "\<exists>x \<in> set (sr_history r). tr_to_state x = s"
  by (rule climbed_rung [OF reachable_history(1) [OF assms(1-3)] assms(4-6)])

theorem no_stage_skipped_witness:
  "\<exists>r. mc_records (climbed_machine full_climb) ''h1'' = Some r \<and> (\<exists>x \<in> set (sr_history r). tr_to_state x = LC_SHADOW)"
proof -
  obtain r where r: "mc_records (climbed_machine full_climb) ''h1'' = Some r" "sr_state r = LC_LIVE"
    using live_machine_state by auto
  from no_stage_skipped [OF climbed_machine_reachable sample_clock r(1), of LC_SHADOW] r show ?thesis
    by (auto simp: LADDER_def ladder_index_def)
qed

text \<open>An automated rule may take risk away and may never give it back. Every transition an automated or
  system actor made moves into a running state only downwards on the ladder, leaves a health state only for the
  laboratory or another health state, and never retires a strategy.\<close>

theorem automation_never_adds_risk:
  assumes "lc_reachable E m" "clock_text_ok E" "mc_records m h = Some r" "x \<in> set (sr_history r)"
    and "ar_kind (tr_actor x) \<noteq> HUMAN" "tr_kind x \<noteq> REGISTRATION"
  shows "tr_automatic x
    \<and> (tr_to_state x \<in> set RUNNING_STATES \<longrightarrow>
         tr_from_state x \<in> set LADDER \<and> ladder_index (tr_to_state x) < ladder_index (tr_from_state x))
    \<and> (tr_from_state x \<in> set HEALTH_STATES \<longrightarrow> tr_to_state x \<in> set (PRE_RUNNING @ HEALTH_STATES))
    \<and> tr_to_state x \<noteq> LC_RETIRED"
proof -
  have just: "row_justified E x" using reachable_history(2) [OF assms(1-4)] by simp
  then show ?thesis using automated_edge [OF just assms(5,6)] assms(5) by (auto simp: automated_shape_def row_justified_def)
qed

definition halted_machine :: machine where
  "halted_machine =
     (case transition sample_lc_env (utc 0) ''h1'' LC_QUARANTINED drift_rule ''drift'' [joes_evidence] None (climbed_machine full_climb)
      of Inr (m, r) \<Rightarrow> m | Inl _ \<Rightarrow> climbed_machine full_climb)"

lemma drift_rule_ok: "actor_post_init drift_rule = Inr drift_rule"
  by (simp add: actor_post_init_def drift_rule_def strip_def is_space_def)

lemma halted_machine_reachable: "lc_reachable sample_lc_env halted_machine"
proof (cases "transition sample_lc_env (utc 0) ''h1'' LC_QUARANTINED drift_rule ''drift'' [joes_evidence] None (climbed_machine full_climb)")
  case (Inl e)
  then show ?thesis by (simp add: halted_machine_def climbed_machine_reachable)
next
  case (Inr mr)
  then obtain m r where mr: "transition sample_lc_env (utc 0) ''h1'' LC_QUARANTINED drift_rule ''drift'' [joes_evidence] None
      (climbed_machine full_climb) = Inr (m, r)" by (cases mr) simp
  have "lc_step sample_lc_env (climbed_machine full_climb) m"
    by (rule step_transition [OF drift_rule_ok _ mr]) (simp add: joes_evidence_ok)
  then show ?thesis using climbed_machine_reachable [of full_climb] mr unfolding lc_reachable_def halted_machine_def
    by (auto intro: rtranclp.rtrancl_into_rtrancl)
qed

lemma halted_machine_step:
  "\<exists>r. transition sample_lc_env (utc 0) ''h1'' LC_QUARANTINED drift_rule ''drift'' [joes_evidence] None
     (climbed_machine full_climb) = Inr (halted_machine, r)"
proof -
  obtain rows where inv: "lc_inv sample_lc_env (climbed_machine full_climb) rows"
    using reachable_inv [OF climbed_machine_reachable sample_clock] by blast
  obtain r where r: "mc_records (climbed_machine full_climb) ''h1'' = Some r" "sr_state r = LC_LIVE"
    using live_machine_state by auto
  have "edge LC_LIVE LC_QUARANTINED = Some (mk_edge LC_LIVE LC_QUARANTINED HEALTH_ESCALATION False False)" by code_simp
  then have "\<exists>m r'. transition sample_lc_env (utc 0) ''h1'' LC_QUARANTINED drift_rule ''drift'' [joes_evidence] None
     (climbed_machine full_climb) = Inr (m, r')"
    using r inv_head [OF inv sample_clock]
    by (simp add: transition_def machine_record_def check_edge_def check_live_invariant_def check_edge_needs_def check_ceiling_def Let_def
        split: option.split)
  then show ?thesis by (auto simp: halted_machine_def)
qed

lemma halted_machine_last:
  "map_option (\<lambda>r. ar_kind (tr_actor (last (sr_history r))) = AUTOMATED_RULE \<and> tr_kind (last (sr_history r)) = HEALTH_ESCALATION
     \<and> sr_history r \<noteq> []) (mc_records halted_machine ''h1'') = Some True"
proof -
  obtain r' where run: "transition sample_lc_env (utc 0) ''h1'' LC_QUARANTINED drift_rule ''drift'' [joes_evidence] None
     (climbed_machine full_climb) = Inr (halted_machine, r')" using halted_machine_step by blast
  have kind: "edge LC_LIVE LC_QUARANTINED = Some (mk_edge LC_LIVE LC_QUARANTINED HEALTH_ESCALATION False False)" by code_simp
  from run kind live_machine_state have "sr_history r' \<noteq> [] \<and> tr_kind (last (sr_history r')) = HEALTH_ESCALATION \<and> tr_actor (last (sr_history r')) = drift_rule"
    by (elim transition_Inr) (auto simp: applied_def Let_def)
  then show ?thesis using transition_result [OF run] by (simp add: drift_rule_def)
qed

theorem automation_never_adds_risk_witness:
  "\<exists>r. mc_records halted_machine ''h1'' = Some r \<and> tr_automatic (last (sr_history r))"
proof -
  obtain r where r: "mc_records halted_machine ''h1'' = Some r" "ar_kind (tr_actor (last (sr_history r))) = AUTOMATED_RULE"
    "tr_kind (last (sr_history r)) = HEALTH_ESCALATION" "sr_history r \<noteq> []"
    using halted_machine_last by auto
  from automation_never_adds_risk [OF halted_machine_reachable sample_clock r(1) last_in_set [OF r(4)]] r show ?thesis
    by auto
qed



text \<open>The history cannot be tidied. Two logs that verify and have the same head hash commit to the same rows
  (position, strategy, states, actor, reason, evidence, predecessor), unless the digest has a collision.\<close>

theorem head_hash_commits_to_history:
  assumes "cv_ok (verify_rows E xs)" "cv_ok (verify_rows E ys)" "xs \<noteq> []" "ys \<noteq> []" "head_hash_of xs = head_hash_of ys"
  shows "map (row_commitment E) xs = map (row_commitment E) ys
    \<or> (\<exists>a \<in> set xs. \<exists>b \<in> set ys. row_commitment E a \<noteq> row_commitment E b
         \<and> le_sha E (row_commitment E a) = le_sha E (row_commitment E b))"
  using assms tlc.head_commits [of E GENESIS_HASH xs ys] by (simp add: verify_rows_ok head_hash_of_chain)

definition sample_row :: transition_record where
  "sample_row = seal sample_lc_env 0 (utc 0) ''s1'' ''h1'' LC_DISCOVERY LC_DISCOVERY REGISTRATION joe ''new'' [joes_evidence] GENESIS_HASH"

lemma sample_row_verifies: "cv_ok (verify_rows sample_lc_env [sample_row])"
  using linked_snoc_seal [of sample_lc_env "[]" "utc 0" "''s1''" "''h1''" LC_DISCOVERY LC_DISCOVERY REGISTRATION joe "''new''" "[joes_evidence]"]
  by (simp add: verify_rows_ok sample_row_def head_hash_of_def)

theorem head_hash_commits_to_history_witness:
  "map (row_commitment sample_lc_env) [sample_row] = map (row_commitment sample_lc_env) [sample_row]
    \<or> (\<exists>a \<in> set [sample_row]. \<exists>b \<in> set [sample_row]. row_commitment sample_lc_env a \<noteq> row_commitment sample_lc_env b
         \<and> le_sha sample_lc_env (row_commitment sample_lc_env a) = le_sha sample_lc_env (row_commitment sample_lc_env b))"
  by (rule head_hash_commits_to_history) (simp_all add: sample_row_verifies)

text \<open>A log cut short still verifies. Dropping any number of rows from the end leaves a chain that \<open>verify\<close>
  accepts, so the latest transitions (a quarantine, say) can be removed without a break.\<close>

theorem truncation_verifies:
  "cv_ok (verify_rows E rows) \<Longrightarrow> cv_ok (verify_rows E (take k rows))"
  using tlc.linked_take [of E 0 GENESIS_HASH rows k] by (simp add: verify_rows_ok)

theorem truncation_verifies_witness: "cv_ok (verify_rows sample_lc_env (take 0 [sample_row]))"
  by (rule truncation_verifies [OF sample_row_verifies])

text \<open>Illegal moves are refused by name. A transition up the ladder by more than one rung, and any transition of
  a retired strategy, raises \<open>IllegalTransition\<close>, whoever acts and whatever the evidence.\<close>

theorem illegal_moves_refused:
  assumes "mc_records m h = Some r"
    and "sr_state r \<in> set LADDER \<and> t \<in> set LADDER \<and> ladder_index t > ladder_index (sr_state r) + 1 \<or> sr_state r = LC_RETIRED"
  shows "\<exists>why. transition E now h t who reason ev when m = Inl (IllegalTransition (sr_state r) t why)"
proof -
  have "edge (sr_state r) t = None"
  proof (rule ccontr)
    assume "edge (sr_state r) t \<noteq> None"
    then obtain e where "edge (sr_state r) t = Some e" by blast
    from edge_shape [OF this] assms(2) states_partition(2,5) show False
      by (auto simp: edge_shape_def split: transition_kind.splits)
  qed
  then show ?thesis using assms(1) by (auto simp: transition_def machine_record_def check_edge_def)
qed

theorem illegal_moves_refused_witness:
  "\<exists>why. transition sample_lc_env (utc 0) ''h1'' LC_LIVE joe ''now'' [joes_evidence] None
     \<lparr>mc_log = MemLog [sample_row], mc_records = [''h1'' \<mapsto> registered_record sample_row]\<rparr>
     = Inl (IllegalTransition LC_DISCOVERY LC_LIVE why)"
  using illegal_moves_refused [of "\<lparr>mc_log = MemLog [sample_row], mc_records = [''h1'' \<mapsto> registered_record sample_row]\<rparr>"
      "''h1''" "registered_record sample_row" LC_LIVE sample_lc_env "utc 0" joe "''now''" "[joes_evidence]" None]
  by (simp add: registered_record_def LADDER_def ladder_index_def)

text \<open>A machine does not notice what another process wrote. When a second process quarantines a running
  strategy in the shared log, the first machine, whose records were loaded before, still accepts an automated
  demotion to a lower running state; the log then replays to that running state, and the halt is gone without
  the human recovery it was supposed to need.\<close>

theorem stale_machine_undoes_halt:
  assumes "lc_reachable E m" "clock_text_ok E" "mc_records m h = Some r" "sr_state r \<in> set RUNNING_STATES"
    and halt: "transition E now h LC_QUARANTINED rule why evidence when m = Inr (other, halted)"
    and objs: "actor_post_init rule = Inr rule" "list_all (\<lambda>e. evidence_post_init e = Inr e) evidence"
    and "t \<in> set RUNNING_STATES" "ladder_index t < ladder_index (sr_state r)"
  shows "sr_state halted = LC_QUARANTINED
    \<and> (\<exists>m' r' m2. transition E now h t rule why evidence when (m\<lparr>mc_log := mc_log other\<rparr>) = Inr (m', r')
         \<and> machine_new E (mc_log m') = Inr m2 \<and> machine_state m2 h = Inr t)"
proof -
  obtain rows where inv: "lc_inv E m rows" using reachable_inv [OF assms(1,2)] by blast
  obtain q where other: "lc_inv E other (rows @ [q])" using inv_transition [OF inv assms(2) objs halt] by blast
  have rec: "mc_records other h = Some halted" and halted: "sr_state halted = LC_QUARANTINED" and ev: "evidence \<noteq> []"
    using transition_result [OF halt] by auto
  have "climbed r" by (rule reachable_history(1) [OF assms(1-3)])
  then have pre: "sr_pre_health_state r = None" using assms(4) states_partition(3) by (auto simp: climbed_def)
  let ?m = "m\<lparr>mc_log := mc_log other\<rparr>"
  let ?x = "seal E (int (length (rows @ [q]))) (case when of Some u \<Rightarrow> u | None \<Rightarrow> now) (sr_strategy_id r) h (sr_state r) t
           DEMOTION rule why evidence (head_hash_of (rows @ [q]))"
  have "transition E now h t rule why evidence when ?m = Inr (commit E ?x (applied r ?x) ?m, applied r ?x)"
    by (rule stale_demotion [OF other assms(2) _ _ assms(4) pre assms(8,9) ev refl]) (simp_all add: assms(3))
  moreover have "\<exists>m2. machine_new E (log_append E ?x (mc_log other)) = Inr m2 \<and> machine_state m2 h = Inr t"
    by (rule replay_onto [OF other assms(2) rec refl objs])
  ultimately show ?thesis using halted by (auto simp: commit_def)
qed

theorem stale_machine_undoes_halt_witness:
  "\<exists>m' r' m2. transition sample_lc_env (utc 0) ''h1'' LC_PAPER drift_rule ''drift'' [joes_evidence] None
       ((climbed_machine full_climb)\<lparr>mc_log := mc_log halted_machine\<rparr>) = Inr (m', r')
     \<and> machine_new sample_lc_env (mc_log m') = Inr m2 \<and> machine_state m2 ''h1'' = Inr LC_PAPER"
proof -
  obtain r where r: "mc_records (climbed_machine full_climb) ''h1'' = Some r" "sr_state r = LC_LIVE"
    using live_machine_state by auto
  obtain halted where halt: "transition sample_lc_env (utc 0) ''h1'' LC_QUARANTINED drift_rule ''drift'' [joes_evidence] None
     (climbed_machine full_climb) = Inr (halted_machine, halted)" using halted_machine_step by blast
  from stale_machine_undoes_halt [OF climbed_machine_reachable sample_clock r(1) _ halt drift_rule_ok _, of LC_PAPER] r(2)
    joes_evidence_ok show ?thesis by (simp add: RUNNING_STATES_def LADDER_def ladder_index_def)
qed

end
