(* ===== verification/Kill_Switch.thy ===== *)
theory Kill_Switch
  imports Core_Types
begin

text \<open>
  The operator kill switch of \<open>risk/killswitch.py\<close>: its journal (in memory or a file every process
  shares), the state cached by one \<open>KillSwitch\<close> object, the refresh before every decision, the two
  operator actions, the permission table per request kind and the closing intents of FLATTEN.

  The journal interface is the locale \<open>append_only_journal\<close>, interpreted on the two journals of the
  code; what the switch relies on is that appends are visible through the fingerprint.
\<close>

section \<open>Vocabulary\<close>

datatype ks_mode = PAUSE | FLATTEN

datatype request_kind = OPEN | INCREASE | REDUCE | CLOSE | PROTECTIVE_AMEND

definition adds_risk :: "request_kind \<Rightarrow> bool" where
  "adds_risk k \<longleftrightarrow> k \<in> {OPEN, INCREASE}"

fun kind_value :: "request_kind \<Rightarrow> string" where
  "kind_value OPEN = ''open''"
| "kind_value INCREASE = ''increase''"
| "kind_value REDUCE = ''reduce''"
| "kind_value CLOSE = ''close''"
| "kind_value PROTECTIVE_AMEND = ''protective_amend''"

record ks_event =
  ev_action :: string
  ev_mode :: "ks_mode option"
  ev_operator :: string
  ev_reason :: string
  ev_at :: tstamp
  ev_positions_open :: int
  ev_extra :: jdict


section \<open>Journals\<close>

text \<open>
  \<open>FileJournal\<close> is the file as the journal sees it: absent, or an inode with the rows written so
  far and the time of the last write. \<open>L e\<close> is the number of bytes of the framed line of \<open>e\<close>; the
  newline is one more.
\<close>

record jfile =
  jf_ino :: int
  jf_rows :: "ks_event list"
  jf_mtime :: int

datatype journal = MemJournal "ks_event list" | FileJournal "jfile option"

datatype fingerprint = FpMemory nat | FpMissing | FpStat int nat int

fun journal_durable :: "journal \<Rightarrow> bool" where
  "journal_durable (MemJournal _) = False"
| "journal_durable (FileJournal _) = True"

fun journal_events :: "journal \<Rightarrow> ks_event list" where
  "journal_events (MemJournal es) = es"
| "journal_events (FileJournal None) = []"
| "journal_events (FileJournal (Some f)) = jf_rows f"

definition file_bytes :: "(ks_event \<Rightarrow> nat) \<Rightarrow> ks_event list \<Rightarrow> nat" where
  "file_bytes L rows = sum_list (map (\<lambda>e. Suc (L e)) rows)"

fun journal_fingerprint :: "(ks_event \<Rightarrow> nat) \<Rightarrow> journal \<Rightarrow> fingerprint" where
  "journal_fingerprint L (MemJournal es) = FpMemory (length es)"
| "journal_fingerprint L (FileJournal None) = FpMissing"
| "journal_fingerprint L (FileJournal (Some f)) =
     FpStat (jf_ino f) (file_bytes L (jf_rows f)) (jf_mtime f)"

text \<open>An append to a file stamps it with the time of the write (\<open>fst env\<close>); an absent file is
  created, with the inode the file system gives it (\<open>snd env\<close>).\<close>

fun journal_append :: "int \<times> int \<Rightarrow> ks_event \<Rightarrow> journal \<Rightarrow> journal" where
  "journal_append env e (MemJournal es) = MemJournal (es @ [e])"
| "journal_append env e (FileJournal None) =
     FileJournal (Some \<lparr>jf_ino = snd env, jf_rows = [e], jf_mtime = fst env\<rparr>)"
| "journal_append env e (FileJournal (Some f)) =
     FileJournal (Some (f\<lparr>jf_rows := jf_rows f @ [e], jf_mtime := fst env\<rparr>))"


section \<open>State\<close>

record ks_state =
  st_active :: bool
  st_mode :: "ks_mode option"
  st_operator :: "string option"
  st_reason :: "string option"
  st_since :: "tstamp option"

definition inactive_state :: ks_state where
  "inactive_state = \<lparr>st_active = False, st_mode = None, st_operator = None, st_reason = None, st_since = None\<rparr>"

definition blocks_new_risk :: "ks_state \<Rightarrow> bool" where
  "blocks_new_risk s \<longleftrightarrow> st_active s"

definition requires_flatten :: "ks_state \<Rightarrow> bool" where
  "requires_flatten s \<longleftrightarrow> st_active s \<and> st_mode s = Some FLATTEN"

definition replay_step :: "ks_event \<Rightarrow> ks_state \<Rightarrow> ks_state" where
  "replay_step e s =
     (if ev_action e = ''activate''
        then \<lparr>st_active = True, st_mode = ev_mode e, st_operator = Some (ev_operator e),
              st_reason = Some (ev_reason e), st_since = Some (ev_at e)\<rparr>
      else if ev_action e = ''deactivate'' then inactive_state
      else s)"

definition replay :: "ks_event list \<Rightarrow> ks_state" where
  "replay es = fold replay_step es inactive_state"

record kill_switch =
  ks_journal :: journal
  ks_fingerprint :: fingerprint
  ks_state :: ks_state

definition ks_new :: "(ks_event \<Rightarrow> nat) \<Rightarrow> journal \<Rightarrow> kill_switch" where
  "ks_new L j = \<lparr>ks_journal = j, ks_fingerprint = journal_fingerprint L j, ks_state = replay (journal_events j)\<rparr>"

definition refresh :: "(ks_event \<Rightarrow> nat) \<Rightarrow> kill_switch \<Rightarrow> kill_switch" where
  "refresh L k =
     (let current = journal_fingerprint L (ks_journal k) in
      if current \<noteq> ks_fingerprint k
      then k\<lparr>ks_state := replay (journal_events (ks_journal k)), ks_fingerprint := current\<rparr>
      else k)"

definition ks_durable :: "kill_switch \<Rightarrow> bool" where
  "ks_durable k \<longleftrightarrow> journal_durable (ks_journal k)"

definition ks_append :: "(ks_event \<Rightarrow> nat) \<Rightarrow> int \<times> int \<Rightarrow> ks_event \<Rightarrow> kill_switch \<Rightarrow> kill_switch" where
  "ks_append L env e k =
     (let j = journal_append env e (ks_journal k)
      in \<lparr>ks_journal = j, ks_fingerprint = journal_fingerprint L j, ks_state = replay (journal_events j)\<rparr>)"


section \<open>Operator actions\<close>

text \<open>
  \<open>mode = None\<close> stands for an argument that is not a \<open>KillSwitchMode\<close>. The result carries the switch
  as the call leaves it: a refused call has still refreshed the cache.
\<close>

definition activate_refused :: "ks_mode \<Rightarrow> ks_state \<Rightarrow> bool" where
  "activate_refused m s \<longleftrightarrow> st_active s \<and> st_mode s = Some FLATTEN \<and> m = PAUSE"

definition activation_event ::
  "tstamp \<Rightarrow> ks_mode \<Rightarrow> string \<Rightarrow> string \<Rightarrow> tstamp option \<Rightarrow> int \<Rightarrow> jdict \<Rightarrow> ks_event" where
  "activation_event now m operator reason when n_open extra =
     \<lparr>ev_action = ''activate'', ev_mode = Some m, ev_operator = operator, ev_reason = reason,
      ev_at = (case when of Some t \<Rightarrow> t | None \<Rightarrow> now), ev_positions_open = n_open, ev_extra = extra\<rparr>"

definition activate ::
  "(ks_event \<Rightarrow> nat) \<Rightarrow> int \<times> int \<Rightarrow> tstamp \<Rightarrow> ks_mode option \<Rightarrow> string \<Rightarrow> string \<Rightarrow> tstamp option \<Rightarrow> int \<Rightarrow>
   jdict \<Rightarrow> kill_switch \<Rightarrow> kill_switch \<times> (pyexn + ks_state)" where
  "activate L env now mode operator reason when n_open extra k =
     (case mode of
        None \<Rightarrow> (k, Inl (TypeError (lit ''KillSwitch.activate requires an explicit KillSwitchMode'')))
      | Some m \<Rightarrow>
          if operator = [] \<or> reason = []
            then (k, Inl (ValueError (lit ''Kill switch activation requires an operator and a reason'')))
          else let k1 = refresh L k in
            if activate_refused m (ks_state k1)
              then (k1, Inl (ValueError (lit ''Refusing to downgrade FLATTEN to PAUSE.'')))
            else let k2 = ks_append L env (activation_event now m operator reason when n_open extra) k1
                 in (k2, Inr (ks_state k2)))"

definition deactivate ::
  "(ks_event \<Rightarrow> nat) \<Rightarrow> int \<times> int \<Rightarrow> tstamp \<Rightarrow> string \<Rightarrow> string \<Rightarrow> tstamp option \<Rightarrow> jdict \<Rightarrow>
   kill_switch \<Rightarrow> kill_switch \<times> (pyexn + ks_state)" where
  "deactivate L env now operator reason when extra k =
     (let k1 = refresh L k in
      if \<not> st_active (ks_state k1)
        then (k1, Inl (ValueError (lit ''Kill switch is not active; nothing to deactivate'')))
      else if operator = [] \<or> reason = []
        then (k1, Inl (ValueError (lit ''Kill switch deactivation requires an operator and a reason'')))
      else let k2 = ks_append L env
                 \<lparr>ev_action = ''deactivate'', ev_mode = st_mode (ks_state k1), ev_operator = operator,
                  ev_reason = reason, ev_at = (case when of Some t \<Rightarrow> t | None \<Rightarrow> now), ev_positions_open = 0,
                  ev_extra = extra\<rparr> k1
           in (k2, Inr (ks_state k2)))"


section \<open>Queries\<close>

definition permits :: "ks_state \<Rightarrow> request_kind \<Rightarrow> bool \<times> string" where
  "permits s kind =
     (if \<not> st_active s then (True, ''kill_switch_inactive'')
      else case st_mode s of
        Some PAUSE \<Rightarrow>
          if adds_risk kind then (False, ''kill_switch_pause_blocks_new_risk'')
          else (True, ''kill_switch_pause_permits_risk_reduction'')
      | Some FLATTEN \<Rightarrow>
          if kind \<in> {CLOSE, REDUCE} then (True, ''kill_switch_flatten_permits_closing'')
          else (False, ''kill_switch_flatten_blocks_non_closing'')
      | None \<Rightarrow> (False, ''kill_switch_unknown_mode''))"

definition allows :: "(ks_event \<Rightarrow> nat) \<Rightarrow> request_kind \<Rightarrow> kill_switch \<Rightarrow> kill_switch \<times> (bool \<times> string)" where
  "allows L kind k = (let k1 = refresh L k in (k1, permits (ks_state k1) kind))"

record flatten_intent =
  fi_position_id :: string
  fi_instrument :: string
  fi_size :: flt
  fi_strategy_id :: string
  fi_venue_ref :: "string option"
  fi_reason :: string

text \<open>\<open>reason or f"kill_switch_flatten:{state.reason}"\<close>: an empty reason counts as absent.\<close>

definition flatten_why :: "ks_state \<Rightarrow> string option \<Rightarrow> string" where
  "flatten_why s reason =
     (case reason of
        Some r \<Rightarrow> if r \<noteq> [] then r else ''kill_switch_flatten:'' @ (case st_reason s of Some x \<Rightarrow> x | None \<Rightarrow> ''None'')
      | None \<Rightarrow> ''kill_switch_flatten:'' @ (case st_reason s of Some x \<Rightarrow> x | None \<Rightarrow> ''None''))"

definition flatten_orders ::
  "(ks_event \<Rightarrow> nat) \<Rightarrow> position list \<Rightarrow> string option \<Rightarrow> kill_switch \<Rightarrow> kill_switch \<times> flatten_intent list" where
  "flatten_orders L ps reason k =
     (let k1 = refresh L k; s = ks_state k1 in
      if \<not> st_active s \<or> st_mode s \<noteq> Some FLATTEN then (k1, [])
      else (k1, map (\<lambda>p. \<lparr>fi_position_id = ps_position_id p, fi_instrument = ps_instrument p, fi_size = ps_size p,
                          fi_strategy_id = ps_strategy_id p, fi_venue_ref = ps_venue_ref p,
                          fi_reason = flatten_why s reason\<rparr>)
                (sort_key (\<lambda>p. (ps_instrument p, ps_position_id p)) ps)))"


section \<open>The journal interface\<close>

locale append_only_journal =
  fixes events :: "'j \<Rightarrow> 'e list"
    and append :: "'x \<Rightarrow> 'e \<Rightarrow> 'j \<Rightarrow> 'j"
    and fp :: "'j \<Rightarrow> 'f"
  assumes events_append: "events (append x e j) = events j @ [e]"
    and fp_fresh: "xs \<noteq> [] \<Longrightarrow> fp (fold (\<lambda>(x, e). append x e) xs j) \<noteq> fp j"
begin

lemma events_appends: "events (fold (\<lambda>(x, e). append x e) xs j) = events j @ map snd xs"
  by (induction xs arbitrary: j) (auto simp: events_append)

text \<open>A cache taken at \<open>j0\<close> and refreshed only when the fingerprint moved is never stale, however many
  appends other holders of the journal made in between.\<close>

lemma cached_events_current:
  assumes "j = fold (\<lambda>(x, e). append x e) xs j0"
  shows "(if fp j \<noteq> fp j0 then events j else events j0) = events j"
  using assms fp_fresh [of xs j0] by (cases "xs = []") auto

end

lemma file_bytes_append [simp]: "file_bytes L (xs @ ys) = file_bytes L xs + file_bytes L ys"
  by (simp add: file_bytes_def)

lemma file_bytes_Nil [simp]: "file_bytes L [] = 0"
  by (simp add: file_bytes_def)

lemma file_bytes_pos: "xs \<noteq> [] \<Longrightarrow> 0 < file_bytes L xs"
  by (cases xs) (auto simp: file_bytes_def)

lemma mem_appends:
  "fold (\<lambda>(x, e). journal_append x e) xs (MemJournal es) = MemJournal (es @ map snd xs)"
  by (induction xs arbitrary: es) auto

lemma file_appends:
  "\<exists>m. fold (\<lambda>(x, e). journal_append x e) xs (FileJournal (Some f)) =
       FileJournal (Some (f\<lparr>jf_rows := jf_rows f @ map snd xs, jf_mtime := m\<rparr>))"
proof (induction xs arbitrary: f)
  case Nil
  show ?case by (rule exI [of _ "jf_mtime f"]) simp
next
  case (Cons p xs)
  obtain x e where p: "p = (x, e)" by (cases p)
  from Cons [of "f\<lparr>jf_rows := jf_rows f @ [e], jf_mtime := fst x\<rparr>"] show ?case
    by (simp add: p)
qed

lemma journal_events_append: "journal_events (journal_append x e j) = journal_events j @ [e]"
  by (cases "(x, e, j)" rule: journal_append.cases) auto

lemma journal_fp_fresh:
  assumes "xs \<noteq> []"
  shows "journal_fingerprint L (fold (\<lambda>(x, e). journal_append x e) xs j) \<noteq> journal_fingerprint L j"
proof (cases j)
  case (MemJournal es)
  with assms show ?thesis by (auto simp: mem_appends)
next
  case (FileJournal fo)
  show ?thesis
  proof (cases fo)
    case (Some f)
    obtain m where "fold (\<lambda>(x, e). journal_append x e) xs (FileJournal (Some f)) =
        FileJournal (Some (f\<lparr>jf_rows := jf_rows f @ map snd xs, jf_mtime := m\<rparr>))"
      using file_appends [of xs f] by blast
    with assms FileJournal Some file_bytes_pos [of "map snd xs" L] show ?thesis by auto
  next
    case None
    from assms obtain x e ys where xs: "xs = (x, e) # ys" by (cases xs) auto
    obtain m where "fold (\<lambda>(x, e). journal_append x e) ys
          (FileJournal (Some \<lparr>jf_ino = snd x, jf_rows = [e], jf_mtime = fst x\<rparr>)) =
        FileJournal (Some \<lparr>jf_ino = snd x, jf_rows = e # map snd ys, jf_mtime = m\<rparr>)"
      using file_appends [of ys "\<lparr>jf_ino = snd x, jf_rows = [e], jf_mtime = fst x\<rparr>"] by auto
    with FileJournal None xs show ?thesis by auto
  qed
qed

interpretation ksj: append_only_journal journal_events journal_append "journal_fingerprint L" for L
  by unfold_locales (auto simp: journal_events_append intro: journal_fp_fresh [THEN notE])


section \<open>Replay\<close>


lemma replay_Nil [simp]: "replay [] = inactive_state"
  by (simp add: replay_def)

lemma inactive_simps [simp]:
  "st_active inactive_state = False" "st_mode inactive_state = None" "st_reason inactive_state = None"
  by (simp_all add: inactive_state_def)



section \<open>Many processes, one journal\<close>

text \<open>
  One process's switch between its own calls: it may refresh (\<open>state\<close>, \<open>active\<close>, \<open>mode\<close>, \<open>allows\<close> and
  \<open>flatten_orders\<close> all do), activate, deactivate, and any other process may append to the journal.
\<close>

inductive ks_step :: "(ks_event \<Rightarrow> nat) \<Rightarrow> kill_switch \<Rightarrow> kill_switch \<Rightarrow> bool" for L where
  step_allows: "ks_step L k (fst (allows L kind k))"
| step_flatten: "ks_step L k (fst (flatten_orders L ps why k))"
| step_activate: "ks_step L k (fst (activate L env now m operator reason when n_open extra k))"
| step_deactivate: "ks_step L k (fst (deactivate L env now operator reason when extra k))"
| step_other_process: "ks_step L k (k\<lparr>ks_journal := journal_append env e (ks_journal k)\<rparr>)"

definition ks_reachable :: "(ks_event \<Rightarrow> nat) \<Rightarrow> kill_switch \<Rightarrow> bool" where
  "ks_reachable L k \<longleftrightarrow> (\<exists>j. (ks_step L)\<^sup>*\<^sup>* (ks_new L j) k)"

definition ks_coherent :: "(ks_event \<Rightarrow> nat) \<Rightarrow> kill_switch \<Rightarrow> bool" where
  "ks_coherent L k \<longleftrightarrow>
     (\<exists>j0 xs. ks_journal k = fold (\<lambda>(x, e). journal_append x e) xs j0
            \<and> ks_fingerprint k = journal_fingerprint L j0 \<and> ks_state k = replay (journal_events j0))"

lemma coherent_new: "ks_coherent L (ks_new L j)"
  unfolding ks_coherent_def ks_new_def by (rule exI [of _ j], rule exI [of _ "[]"]) simp

lemma coherent_append: "ks_coherent L (ks_append L env e k)"
  unfolding ks_coherent_def ks_append_def Let_def
  by (rule exI [of _ "journal_append env e (ks_journal k)"], rule exI [of _ "[]"]) simp

lemma coherent_other:
  assumes "ks_coherent L k"
  shows "ks_coherent L (k\<lparr>ks_journal := journal_append env e (ks_journal k)\<rparr>)"
proof -
  from assms obtain j0 xs where "ks_journal k = fold (\<lambda>(x, e). journal_append x e) xs j0"
    and "ks_fingerprint k = journal_fingerprint L j0" and "ks_state k = replay (journal_events j0)"
    unfolding ks_coherent_def by blast
  then show ?thesis unfolding ks_coherent_def
    by (intro exI [of _ j0] exI [of _ "xs @ [(env, e)]"]) simp
qed

lemma refresh_current: "ks_coherent L k \<Longrightarrow> ks_state (refresh L k) = replay (journal_events (ks_journal k))"
  unfolding ks_coherent_def refresh_def Let_def
  using ksj.cached_events_current [of "ks_journal k" _ _ L] by (fastforce split: if_splits)

lemma refresh_journal [simp]: "ks_journal (refresh L k) = ks_journal k"
  by (simp add: refresh_def Let_def)

lemma coherent_refresh:
  assumes "ks_coherent L k"
  shows "ks_coherent L (refresh L k)"
  unfolding ks_coherent_def
proof (intro exI conjI)
  show "ks_journal (refresh L k) = fold (\<lambda>(x, e). journal_append x e) [] (ks_journal k)" by simp
  show "ks_fingerprint (refresh L k) = journal_fingerprint L (ks_journal k)"
    by (simp add: refresh_def Let_def)
  show "ks_state (refresh L k) = replay (journal_events (ks_journal k))"
    using assms by (rule refresh_current)
qed

lemmas coherent_intros = coherent_new coherent_append coherent_other coherent_refresh

lemma step_coherent: "ks_step L k k' \<Longrightarrow> ks_coherent L k \<Longrightarrow> ks_coherent L k'"
  by (induction rule: ks_step.induct)
    (auto simp: allows_def flatten_orders_def activate_def deactivate_def Let_def
      intro: coherent_intros split: option.splits)

lemma reachable_coherent: "ks_reachable L k \<Longrightarrow> ks_coherent L k"
  unfolding ks_reachable_def
proof (elim exE)
  fix j
  assume "(ks_step L)\<^sup>*\<^sup>* (ks_new L j) k"
  then show "ks_coherent L k"
    by (induction rule: rtranclp_induct) (auto intro: coherent_new step_coherent)
qed

lemma reachable_refresh_current:
  "ks_reachable L k \<Longrightarrow> ks_state (refresh L k) = replay (journal_events (ks_journal k))"
  by (rule refresh_current) (rule reachable_coherent)

lemma ks_new_reachable: "ks_reachable L (ks_new L j)"
  by (auto simp: ks_reachable_def)

lemma ks_reachable_step: "ks_reachable L k \<Longrightarrow> ks_step L k k' \<Longrightarrow> ks_reachable L k'"
  unfolding ks_reachable_def by (meson rtranclp.rtrancl_into_rtrancl)


section \<open>Properties\<close>

text \<open>A two-row journal for the witnesses: another process activates after this one started.\<close>

definition ev_pause :: ks_event where
  "ev_pause = \<lparr>ev_action = ''activate'', ev_mode = Some PAUSE, ev_operator = ''joe'', ev_reason = ''fast market'',
     ev_at = utc 0, ev_positions_open = 0, ev_extra = []\<rparr>"

definition ev_flatten :: ks_event where
  "ev_flatten = ev_pause\<lparr>ev_mode := Some FLATTEN\<rparr>"

definition ks_other_activated :: kill_switch where
  "ks_other_activated =
     (ks_new (\<lambda>_. 100) (FileJournal None))
       \<lparr>ks_journal := journal_append (5, 7) ev_flatten (FileJournal None)\<rparr>"

lemma ks_other_activated_reachable: "ks_reachable (\<lambda>_. 100) ks_other_activated"
proof (rule ks_reachable_step [OF ks_new_reachable])
  show "ks_step (\<lambda>_. 100) (ks_new (\<lambda>_. 100) (FileJournal None)) ks_other_activated"
    using step_other_process [of "\<lambda>_. 100" "ks_new (\<lambda>_. 100) (FileJournal None)" "(5, 7)" ev_flatten]
    by (simp add: ks_other_activated_def ks_new_def)
qed





text \<open>The permission table. An inactive switch permits everything; PAUSE permits exactly the requests
  that do not add risk; FLATTEN permits exactly closes and reductions.\<close>

lemma permits_table:
  "fst (permits s kind) \<longleftrightarrow>
     (if \<not> st_active s then True
      else if st_mode s = Some PAUSE then kind \<in> {REDUCE, CLOSE, PROTECTIVE_AMEND}
      else if st_mode s = Some FLATTEN then kind \<in> {REDUCE, CLOSE}
      else False)"
  by (cases kind) (auto simp: permits_def adds_risk_def split: option.splits ks_mode.splits)

text \<open>Softening FLATTEN to PAUSE in one call is refused. When the journal says FLATTEN, \<open>activate\<close> with
  PAUSE raises and writes nothing.\<close>

theorem activate_refuses_downgrade:
  assumes "ks_reachable L k"
    and "requires_flatten (replay (journal_events (ks_journal k)))"
  shows "(\<exists>e. snd (activate L env now (Some PAUSE) operator reason when n_open extra k) = Inl e)
    \<and> ks_journal (fst (activate L env now (Some PAUSE) operator reason when n_open extra k)) = ks_journal k"
  using reachable_refresh_current [OF assms(1)] assms(2)
  by (auto simp: activate_def activate_refused_def requires_flatten_def Let_def)

theorem activate_refuses_downgrade_witness:
  "(\<exists>e. snd (activate (\<lambda>_. 100) (9, 7) (utc 1) (Some PAUSE) ''joe'' ''calmer'' None 0 [] ks_other_activated) = Inl e)
   \<and> ks_journal (fst (activate (\<lambda>_. 100) (9, 7) (utc 1) (Some PAUSE) ''joe'' ''calmer'' None 0 [] ks_other_activated))
     = ks_journal ks_other_activated"
  by (rule activate_refuses_downgrade [OF ks_other_activated_reachable])
    (simp add: ks_other_activated_def requires_flatten_def replay_def replay_step_def ev_flatten_def ev_pause_def)

text \<open>FLATTEN enumerates exactly one closing intent per open position, each for the full size and carrying
  the venue's reference, ordered by instrument and then position id; and it enumerates nothing unless the
  journal says FLATTEN.\<close>

theorem flatten_orders_complete:
  assumes "ks_reachable L k"
    and "fis = snd (flatten_orders L ps why k)"
    and "closing = (\<lambda>p. (ps_position_id p, ps_instrument p, ps_size p, ps_venue_ref p))"
    and "intent = (\<lambda>f. (fi_position_id f, fi_instrument f, fi_size f, fi_venue_ref f))"
  shows "if requires_flatten (replay (journal_events (ks_journal k)))
         then mset (map intent fis) = mset (map closing ps)
            \<and> sorted (map (\<lambda>f. (fi_instrument f, fi_position_id f)) fis)
         else fis = []"
proof (cases "requires_flatten (replay (journal_events (ks_journal k)))")
  case True
  then have fis: "fis = map (\<lambda>p. \<lparr>fi_position_id = ps_position_id p, fi_instrument = ps_instrument p,
      fi_size = ps_size p, fi_strategy_id = ps_strategy_id p, fi_venue_ref = ps_venue_ref p,
      fi_reason = flatten_why (replay (journal_events (ks_journal k))) why\<rparr>)
      (sort_key (\<lambda>p. (ps_instrument p, ps_position_id p)) ps)"
    using assms(2) reachable_refresh_current [OF assms(1)]
    by (simp add: flatten_orders_def requires_flatten_def Let_def)
  have "mset (map intent fis) = mset (map closing ps)"
    unfolding fis assms(3,4) by (simp add: comp_def multiset.map_comp)
  moreover have "sorted (map (\<lambda>f. (fi_instrument f, fi_position_id f)) fis)"
    unfolding fis by (simp add: comp_def)
  ultimately show ?thesis using True by simp
next
  case False
  then show ?thesis
    using assms(2) reachable_refresh_current [OF assms(1)]
    by (auto simp: flatten_orders_def requires_flatten_def Let_def)
qed


definition two_positions :: "position list" where
  "two_positions =
     (let p = \<lparr>ps_instrument = ''USDJPY'', ps_direction = LONG, ps_size = Fin 3, ps_entry_price = Fin 150,
               ps_entry_time = utc 0, ps_stop_loss = None, ps_take_profit_targets = [], ps_strategy_id = ''s'',
               ps_bars_held = 0, ps_mfe = Fin 0, ps_mae = Fin 0, ps_financing_accrued = Fin 0,
               ps_venue_ref = Some ''77'', ps_position_id = ''p1''\<rparr>
      in [p, p\<lparr>ps_instrument := ''EURUSD'', ps_position_id := ''p2''\<rparr>])"

theorem flatten_orders_complete_witness:
  "mset (map (\<lambda>f. (fi_position_id f, fi_instrument f, fi_size f, fi_venue_ref f))
           (snd (flatten_orders (\<lambda>_. 100) two_positions None ks_other_activated)))
     = {#(''p1'', ''USDJPY'', Fin 3, Some ''77''), (''p2'', ''EURUSD'', Fin 3, Some ''77'')#}"
  using flatten_orders_complete [OF ks_other_activated_reachable refl refl refl, of two_positions None]
  by (simp add: ks_other_activated_def requires_flatten_def replay_def replay_step_def ev_flatten_def ev_pause_def
      two_positions_def Let_def)


lemma activate_is_check_then_append:
  "operator \<noteq> [] \<Longrightarrow> reason \<noteq> [] \<Longrightarrow> \<not> activate_refused m (ks_state (refresh L k)) \<Longrightarrow>
   fst (activate L env now (Some m) operator reason when n_open extra k) =
     ks_append L env (activation_event now m operator reason when n_open extra) (refresh L k)"
  by (simp add: activate_def Let_def)

text \<open>The check and the append of \<open>activate\<close> are two separate steps on the shared journal, so the refusal
  of a downgrade holds within one process only. If another process's FLATTEN lands between them, the PAUSE row is
  appended after it and the book is softened to PAUSE with no deactivation on record.\<close>

theorem flatten_downgrade_race:
  "\<exists>L k env1 env2 now.
     ks_reachable L k
   \<and> \<not> activate_refused PAUSE (ks_state (refresh L k))
   \<and> (let other = (refresh L k)\<lparr>ks_journal := journal_append env1 ev_flatten (ks_journal k)\<rparr>;
          pause = activation_event now PAUSE ''joe'' ''fast market'' None 0 [];
          final = ks_append L env2 pause other
      in requires_flatten (replay (journal_events (ks_journal other)))
       \<and> journal_events (ks_journal final) = journal_events (ks_journal other) @ [pause]
       \<and> st_mode (ks_state final) = Some PAUSE)"
  by (rule exI [of _ "\<lambda>_. 100"], rule exI [of _ "ks_new (\<lambda>_. 100) (FileJournal None)"],
      rule exI [of _ "(5, 7)"], rule exI [of _ "(6, 7)"], rule exI [of _ "utc 1"], rule conjI, rule ks_new_reachable)
    (simp add: ks_new_def refresh_def ks_append_def activation_event_def activate_refused_def
      requires_flatten_def replay_def replay_step_def ev_flatten_def ev_pause_def Let_def)

text \<open>A journal file that disappears re-arms trading. Whatever the switch had cached from an existing
  file, the next decision replays an empty journal and permits everything, with no operator action.\<close>

theorem missing_journal_rearms:
  assumes "ks_fingerprint k \<noteq> FpMissing"
  shows "snd (allows L kind (k\<lparr>ks_journal := FileJournal None\<rparr>)) = (True, ''kill_switch_inactive'')"
  using assms by (simp add: allows_def refresh_def permits_def Let_def)

theorem missing_journal_rearms_witness:
  "requires_flatten (ks_state (refresh (\<lambda>_. 100) ks_other_activated))
   \<and> snd (allows (\<lambda>_. 100) OPEN ((refresh (\<lambda>_. 100) ks_other_activated)\<lparr>ks_journal := FileJournal None\<rparr>))
     = (True, ''kill_switch_inactive'')"
proof
  show "requires_flatten (ks_state (refresh (\<lambda>_. 100) ks_other_activated))"
    using reachable_refresh_current [OF ks_other_activated_reachable]
    by (simp add: ks_other_activated_def requires_flatten_def replay_def replay_step_def ev_flatten_def ev_pause_def)
  show "snd (allows (\<lambda>_. 100) OPEN ((refresh (\<lambda>_. 100) ks_other_activated)\<lparr>ks_journal := FileJournal None\<rparr>))
     = (True, ''kill_switch_inactive'')"
    by (rule missing_journal_rearms) (simp add: ks_other_activated_def refresh_def ks_new_def Let_def)
qed

end
