(* ===== verification/Limit_Sets.thy ===== *)
theory Limit_Sets
  imports Core_Types
begin

text \<open>
  Limit sets as versioned data (\<open>risk/limits.py\<close>): the record, what its constructor refuses, the
  six published sets, deriving and registering a new version, and the set in force per mode. The
  digest behind \<open>fingerprint\<close> (SHA-256 of the JSON text, truncated) is a parameter over the payload
  it commits to.
\<close>

section \<open>The limit set\<close>

record limit_set =
  lm_version :: string
  lm_max_per_trade_risk_pct :: flt
  lm_max_account_risk_pct :: flt
  lm_max_instrument_exposure_pct :: flt
  lm_max_strategy_exposure_pct :: flt
  lm_max_currency_exposure_pct :: flt
  lm_max_correlated_exposure_pct :: flt
  lm_correlation_threshold :: flt
  lm_max_daily_loss_pct :: flt
  lm_max_weekly_loss_pct :: flt
  lm_max_total_drawdown_pct :: flt
  lm_max_margin_utilisation_pct :: flt
  lm_max_price_age_seconds :: flt
  lm_max_data_age_seconds :: flt
  lm_max_spread_multiple :: flt
  lm_min_broker_health :: flt
  lm_event_blackout_minutes :: flt
  lm_event_blackout_pre_minutes :: "flt option"
  lm_event_blackout_post_minutes :: "flt option"
  lm_margin_utilisation_after_trade :: "bool option"
  lm_notes :: string

definition limit_floats :: "limit_set \<Rightarrow> flt list" where
  "limit_floats l =
     [lm_max_per_trade_risk_pct l, lm_max_account_risk_pct l, lm_max_instrument_exposure_pct l,
      lm_max_strategy_exposure_pct l, lm_max_currency_exposure_pct l, lm_max_correlated_exposure_pct l,
      lm_correlation_threshold l, lm_max_daily_loss_pct l, lm_max_weekly_loss_pct l,
      lm_max_total_drawdown_pct l, lm_max_margin_utilisation_pct l, lm_max_price_age_seconds l,
      lm_max_data_age_seconds l, lm_max_spread_multiple l, lm_min_broker_health l,
      lm_event_blackout_minutes l]
     @ (case lm_event_blackout_pre_minutes l of Some x \<Rightarrow> [x] | None \<Rightarrow> [])
     @ (case lm_event_blackout_post_minutes l of Some x \<Rightarrow> [x] | None \<Rightarrow> [])"

definition limits_post_init :: "limit_set \<Rightarrow> pyexn + limit_set" where
  "limits_post_init l =
     (if lm_version l = []
        then Inl (ValueError (lit ''A LimitSet must be versioned; unnamed limits cannot be audited''))
      else if list_ex (\<lambda>v. v < Fin 0) (limit_floats l)
        then Inl (ValueError [Lit ''LimitSet '', Lit (lm_version l), Lit '': negative limits''])
      else if \<not> (Fin 0 \<le> lm_correlation_threshold l \<and> lm_correlation_threshold l \<le> Fin 1)
        then Inl (ValueError (lit ''correlation_threshold must be in [0, 1]''))
      else if \<not> (Fin 0 \<le> lm_min_broker_health l \<and> lm_min_broker_health l \<le> Fin 1)
        then Inl (ValueError (lit ''min_broker_health must be in [0, 1]''))
      else if lm_max_per_trade_risk_pct l > lm_max_account_risk_pct l
        then Inl (ValueError [Lit ''LimitSet '', Lit (lm_version l), Lit '': one trade could breach the book limit''])
      else if lm_max_daily_loss_pct l > lm_max_weekly_loss_pct l
        then Inl (ValueError [Lit ''LimitSet '', Lit (lm_version l), Lit '': daily loss limit exceeds the weekly limit''])
      else if lm_max_weekly_loss_pct l > lm_max_total_drawdown_pct l
        then Inl (ValueError [Lit ''LimitSet '', Lit (lm_version l), Lit '': weekly loss limit exceeds total drawdown limit''])
      else if (lm_event_blackout_pre_minutes l = None) \<noteq> (lm_event_blackout_post_minutes l = None)
        then Inl (ValueError [Lit ''LimitSet '', Lit (lm_version l), Lit '': set both event_blackout_pre_minutes and event_blackout_post_minutes, or neither''])
      else Inr l)"

definition asymmetric_blackout :: "limit_set \<Rightarrow> bool" where
  "asymmetric_blackout l \<longleftrightarrow> lm_event_blackout_pre_minutes l \<noteq> None"


section \<open>Fingerprint\<close>

text \<open>The payload in key order, without \<open>version\<close> and \<open>notes\<close> and without the \<open>None\<close> fields.\<close>

definition opt_entry :: "string \<Rightarrow> ('a \<Rightarrow> jval) \<Rightarrow> 'a option \<Rightarrow> jdict" where
  "opt_entry k f v = (case v of None \<Rightarrow> [] | Some x \<Rightarrow> [(k, f x)])"

definition limits_payload :: "limit_set \<Rightarrow> jdict" where
  "limits_payload l =
     [(''correlation_threshold'', JFloat (lm_correlation_threshold l)),
      (''event_blackout_minutes'', JFloat (lm_event_blackout_minutes l))]
     @ opt_entry ''event_blackout_post_minutes'' JFloat (lm_event_blackout_post_minutes l)
     @ opt_entry ''event_blackout_pre_minutes'' JFloat (lm_event_blackout_pre_minutes l)
     @ opt_entry ''margin_utilisation_after_trade'' JBool (lm_margin_utilisation_after_trade l)
     @ [(''max_account_risk_pct'', JFloat (lm_max_account_risk_pct l)),
        (''max_correlated_exposure_pct'', JFloat (lm_max_correlated_exposure_pct l)),
        (''max_currency_exposure_pct'', JFloat (lm_max_currency_exposure_pct l)),
        (''max_daily_loss_pct'', JFloat (lm_max_daily_loss_pct l)),
        (''max_data_age_seconds'', JFloat (lm_max_data_age_seconds l)),
        (''max_instrument_exposure_pct'', JFloat (lm_max_instrument_exposure_pct l)),
        (''max_margin_utilisation_pct'', JFloat (lm_max_margin_utilisation_pct l)),
        (''max_per_trade_risk_pct'', JFloat (lm_max_per_trade_risk_pct l)),
        (''max_price_age_seconds'', JFloat (lm_max_price_age_seconds l)),
        (''max_spread_multiple'', JFloat (lm_max_spread_multiple l)),
        (''max_strategy_exposure_pct'', JFloat (lm_max_strategy_exposure_pct l)),
        (''max_total_drawdown_pct'', JFloat (lm_max_total_drawdown_pct l)),
        (''max_weekly_loss_pct'', JFloat (lm_max_weekly_loss_pct l)),
        (''min_broker_health'', JFloat (lm_min_broker_health l))]"

definition limits_fingerprint :: "(jdict \<Rightarrow> string) \<Rightarrow> limit_set \<Rightarrow> string" where
  "limits_fingerprint digest l = take 16 (digest (limits_payload l))"

definition limits_stamp :: "(jdict \<Rightarrow> string) \<Rightarrow> limit_set \<Rightarrow> string \<times> string" where
  "limits_stamp digest l = (lm_version l, limits_fingerprint digest l)"


section \<open>Publishing a new version\<close>


type_synonym limit_sets = "string \<rightharpoonup> limit_set"

definition register_limit_set :: "limit_sets \<Rightarrow> limit_set \<Rightarrow> bool \<Rightarrow> pyexn + limit_sets" where
  "register_limit_set sets l overwrite =
     (case sets (lm_version l) of
        Some existing \<Rightarrow>
          if \<not> overwrite \<and> existing \<noteq> l
          then Inl (ValueError [Lit ''Limit set '', Lit (lm_version l), Lit '' is already registered with different values.''])
          else Inr (sets(lm_version l \<mapsto> l))
      | None \<Rightarrow> Inr (sets(lm_version l \<mapsto> l)))"

definition get_limit_set :: "limit_sets \<Rightarrow> string \<Rightarrow> pyexn + limit_set" where
  "get_limit_set sets version =
     (case sets version of
        None \<Rightarrow> Inl (KeyError [Lit ''Unknown limit set '', Lit version])
      | Some l \<Rightarrow> Inr l)"


section \<open>The published sets\<close>

definition DEFAULT_NOTES :: string where
  "DEFAULT_NOTES =
     ''Baseline for monitored paper/demo. 1% per trade, 5% book risk, 3%/6% '' @
     ''daily/weekly loss, 20% total drawdown, 50% margin utilisation. '' @
     ''Notional caps are gap backstops, not the primary risk control -- see '' @
     ''the note on the concentration fields for how they were derived.''"

definition CONSERVATIVE_NOTES :: string where
  "CONSERVATIVE_NOTES = ''For the first monitored period on a real venue. Half the default risk.''"

definition PAPER_NOTES :: string where
  "PAPER_NOTES =
     ''Paper mode. Data-quality tolerances relaxed because a stale paper quote '' @
     ''costs nothing; every risk limit is identical to the default set so '' @
     ''paper and live risk behaviour stay comparable.''"

definition V2_NOTE :: string where
  "V2_NOTE =
     '' limits_v2: the event blackout is asymmetric, 30 minutes before and 15 '' @
     ''after, measured from the decision time (the signal bar's close) and '' @
     ''reaching at least one bar ahead; margin utilisation is measured AFTER the '' @
     ''trade. Every other number is the v1 set's.''"

definition V2_CONSERVATIVE_NOTE :: string where
  "V2_CONSERVATIVE_NOTE =
     '' limits_v2: asymmetric blackout 30 before / 30 after (v1 was 30 either '' @
     ''side) from the decision time, and margin utilisation after the trade.''"

definition DEFAULT_LIMITS :: limit_set where
  "DEFAULT_LIMITS =
     \<lparr>lm_version = ''limits_v1_default'', lm_max_per_trade_risk_pct = Fin 1, lm_max_account_risk_pct = Fin 5,
      lm_max_instrument_exposure_pct = Fin 1000, lm_max_strategy_exposure_pct = Fin 1500,
      lm_max_currency_exposure_pct = Fin 1500, lm_max_correlated_exposure_pct = Fin 2000,
      lm_correlation_threshold = Fin (6 / 10), lm_max_daily_loss_pct = Fin 3, lm_max_weekly_loss_pct = Fin 6,
      lm_max_total_drawdown_pct = Fin 20, lm_max_margin_utilisation_pct = Fin 50,
      lm_max_price_age_seconds = Fin 90, lm_max_data_age_seconds = Fin 300, lm_max_spread_multiple = Fin 3,
      lm_min_broker_health = Fin (5 / 10), lm_event_blackout_minutes = Fin 15,
      lm_event_blackout_pre_minutes = None, lm_event_blackout_post_minutes = None,
      lm_margin_utilisation_after_trade = None,
      lm_notes = DEFAULT_NOTES\<rparr>"

definition CONSERVATIVE_LIMITS :: limit_set where
  "CONSERVATIVE_LIMITS = DEFAULT_LIMITS
     \<lparr>lm_version := ''limits_v1_conservative'', lm_max_per_trade_risk_pct := Fin (5 / 10),
      lm_max_account_risk_pct := Fin (25 / 10), lm_max_instrument_exposure_pct := Fin 500,
      lm_max_strategy_exposure_pct := Fin 750, lm_max_currency_exposure_pct := Fin 750,
      lm_max_correlated_exposure_pct := Fin 1000, lm_max_daily_loss_pct := Fin (15 / 10),
      lm_max_weekly_loss_pct := Fin 3, lm_max_total_drawdown_pct := Fin 10,
      lm_max_margin_utilisation_pct := Fin 25, lm_max_spread_multiple := Fin 2,
      lm_min_broker_health := Fin (7 / 10), lm_event_blackout_minutes := Fin 30,
      lm_notes := CONSERVATIVE_NOTES\<rparr>"

definition PAPER_LIMITS :: limit_set where
  "PAPER_LIMITS = DEFAULT_LIMITS
     \<lparr>lm_version := ''limits_v1_paper'', lm_max_price_age_seconds := Fin 600,
      lm_max_data_age_seconds := Fin 1800, lm_max_spread_multiple := Fin 5,
      lm_min_broker_health := Fin (1 / 10), lm_notes := PAPER_NOTES\<rparr>"

definition v2_changes :: "real \<Rightarrow> string \<Rightarrow> limit_set \<Rightarrow> limit_set" where
  "v2_changes post note l = l
     \<lparr>lm_event_blackout_pre_minutes := Some (Fin 30), lm_event_blackout_post_minutes := Some (Fin post),
      lm_margin_utilisation_after_trade := Some True, lm_notes := lm_notes l @ note\<rparr>"

definition DEFAULT_LIMITS_V2 :: limit_set where
  "DEFAULT_LIMITS_V2 = (v2_changes 15 V2_NOTE DEFAULT_LIMITS)\<lparr>lm_version := ''limits_v2_default''\<rparr>"

definition CONSERVATIVE_LIMITS_V2 :: limit_set where
  "CONSERVATIVE_LIMITS_V2 = (v2_changes 30 V2_CONSERVATIVE_NOTE CONSERVATIVE_LIMITS)\<lparr>lm_version := ''limits_v2_conservative''\<rparr>"

definition PAPER_LIMITS_V2 :: limit_set where
  "PAPER_LIMITS_V2 = (v2_changes 15 V2_NOTE PAPER_LIMITS)\<lparr>lm_version := ''limits_v2_paper''\<rparr>"

definition published_sets :: "limit_set list" where
  "published_sets =
     [DEFAULT_LIMITS, CONSERVATIVE_LIMITS, PAPER_LIMITS, DEFAULT_LIMITS_V2, CONSERVATIVE_LIMITS_V2, PAPER_LIMITS_V2]"

definition LIMIT_SETS :: limit_sets where
  "LIMIT_SETS = map_of (map (\<lambda>l. (lm_version l, l)) published_sets)"

definition default_limit_set :: "exec_mode \<Rightarrow> limit_set" where
  "default_limit_set m =
     (if m \<in> {BACKTEST, PAPER} then PAPER_LIMITS_V2
      else if m \<in> {SHADOW, DEMO} then DEFAULT_LIMITS_V2
      else CONSERVATIVE_LIMITS_V2)"

lemmas published_defs =
  DEFAULT_LIMITS_def CONSERVATIVE_LIMITS_def PAPER_LIMITS_def DEFAULT_LIMITS_V2_def
  CONSERVATIVE_LIMITS_V2_def PAPER_LIMITS_V2_def v2_changes_def


section \<open>Lemmas\<close>

lemma register_ok_iff:
  "(\<exists>sets'. register_limit_set sets l False = Inr sets') \<longleftrightarrow> sets (lm_version l) \<in> {None, Some l}"
  by (auto simp: register_limit_set_def split: option.splits)

lemma register_keeps_lookup:
  assumes "register_limit_set sets l False = Inr sets'" "sets v = Some old"
  shows "sets' v = Some old"
  using assms by (auto simp: register_limit_set_def split: option.splits if_splits)

lemma limits_post_init_Inr:
  "limits_post_init l = Inr l' \<Longrightarrow> l' = l"
  by (auto simp: limits_post_init_def split: if_splits)

lemma limits_valid_chain:
  assumes "limits_post_init l = Inr l'"
  shows "\<not> lm_max_per_trade_risk_pct l > lm_max_account_risk_pct l"
    and "\<not> lm_max_daily_loss_pct l > lm_max_weekly_loss_pct l"
    and "\<not> lm_max_weekly_loss_pct l > lm_max_total_drawdown_pct l"
    and "(lm_event_blackout_pre_minutes l = None) = (lm_event_blackout_post_minutes l = None)"
  using assms by (auto simp: limits_post_init_def split: if_splits)


text \<open>Registrations in sequence, each refused one leaving the registry as it was.\<close>

fun register_all :: "limit_sets \<Rightarrow> limit_set list \<Rightarrow> limit_sets" where
  "register_all sets [] = sets"
| "register_all sets (l # ls) =
     (case register_limit_set sets l False of Inl _ \<Rightarrow> register_all sets ls | Inr sets' \<Rightarrow> register_all sets' ls)"

lemma register_all_keeps: "sets v = Some old \<Longrightarrow> register_all sets ls v = Some old"
  by (induction ls arbitrary: sets) (auto split: sum.splits dest: register_keeps_lookup)


section \<open>Properties\<close>


text \<open>A version, once registered, never changes its meaning: whatever sequence of registrations without
  \<open>overwrite\<close> follows, the version still names the same values.\<close>

lemma registered_version_is_stable:
  assumes "get_limit_set sets v = Inr old"
  shows "get_limit_set (register_all sets ls) v = Inr old"
  using assms register_all_keeps [of sets v old ls] by (simp add: get_limit_set_def split: option.splits)

lemma registered_version_is_stable_witness:
  "get_limit_set (register_all LIMIT_SETS [DEFAULT_LIMITS\<lparr>lm_max_daily_loss_pct := Fin 99\<rparr>]) ''limits_v1_default''
     = Inr DEFAULT_LIMITS"
  by (rule registered_version_is_stable)
    (simp add: get_limit_set_def LIMIT_SETS_def published_sets_def published_defs)

text \<open>The fingerprint payload commits to every number of a limit set and to nothing else: two sets have
  the same payload exactly when they agree on everything but version and notes.\<close>

theorem limits_payload_exact:
  "limits_payload a = limits_payload b \<longleftrightarrow>
     a\<lparr>lm_version := [], lm_notes := []\<rparr> = b\<lparr>lm_version := [], lm_notes := []\<rparr>"
proof
  assume "limits_payload a = limits_payload b"
  then show "a\<lparr>lm_version := [], lm_notes := []\<rparr> = b\<lparr>lm_version := [], lm_notes := []\<rparr>"
    by (cases a; cases b) (auto simp: limits_payload_def opt_entry_def split: option.splits)
next
  assume "a\<lparr>lm_version := [], lm_notes := []\<rparr> = b\<lparr>lm_version := [], lm_notes := []\<rparr>"
  then show "limits_payload a = limits_payload b"
    by (cases a; cases b) (simp add: limits_payload_def)
qed

text \<open>The sets in force get no looser as the mode gets more dangerous. LIVE's risk, loss, exposure and
  margin limits are at most DEMO's, and PAPER's equal DEMO's: only data-quality tolerances differ there.\<close>

definition risk_limits :: "limit_set \<Rightarrow> flt list" where
  "risk_limits l =
     [lm_max_per_trade_risk_pct l, lm_max_account_risk_pct l, lm_max_instrument_exposure_pct l,
      lm_max_strategy_exposure_pct l, lm_max_currency_exposure_pct l, lm_max_correlated_exposure_pct l,
      lm_max_daily_loss_pct l, lm_max_weekly_loss_pct l, lm_max_total_drawdown_pct l,
      lm_max_margin_utilisation_pct l]"

lemma mode_limits_tighten:
  "list_all2 (\<le>) (risk_limits (default_limit_set LIVE)) (risk_limits (default_limit_set DEMO))
   \<and> risk_limits (default_limit_set PAPER) = risk_limits (default_limit_set DEMO)
   \<and> default_limit_set SHADOW = default_limit_set DEMO
   \<and> default_limit_set BACKTEST = default_limit_set PAPER"
  by (simp add: default_limit_set_def risk_limits_def published_defs)

end
