(* ===== verification/Risk_Gateway.thy ===== *)
theory Risk_Gateway
  imports Kill_Switch Limit_Sets
begin

text \<open>
  The pre-order risk gateway of \<open>risk/gateway.py\<close>: its inputs, its twenty-one entry checks and five exit
  checks, the two evaluation loops and the attempt rows they record. A check's result is a value: it
  passes, blocks with a named reason, leaves shadow notes, or raises; the loop turns a raise into a
  blocking reason. The instrument registry, the pandas conversions, the lock source and the event-veto
  source are arguments.
\<close>

section \<open>Inputs\<close>

record market_view =
  mv_mid_price :: "flt option"
  mv_spread_price :: "flt option"
  mv_quote_time :: "tstamp option"
  mv_last_bar_time :: "tstamp option"
  mv_market_open :: "bool option"
  mv_regime :: string
  mv_event_times :: "tstamp list"
  mv_halted :: bool

record venue_view =
  vv_connected :: "bool option"
  vv_score :: "flt option"
  vv_message :: string

record strategy_view =
  sv_lifecycle :: "lifecycle option"
  sv_health :: flt
  sv_degraded :: bool

record veto_provider =
  vp_policy_version :: string
  vp_assess :: "string \<Rightarrow> tstamp \<Rightarrow> pyexn + veto_assessment"

text \<open>The surface an entry context and an exit context share, so the same checks run against both.\<close>

record check_surface =
  cx_now :: tstamp
  cx_mode :: exec_mode
  cx_limits :: "limit_set option"
  cx_market :: market_view
  cx_venue :: venue_view
  cx_request_kind :: request_kind
  cx_extra :: jdict

record risk_context = check_surface +
  rc_plan :: trade_plan
  rc_snapshot :: snapshot
  rc_strategy :: strategy_view
  rc_open_risk_amount :: "flt option"
  rc_correlated_exposure :: "flt option"
  rc_daily_pnl :: "flt option"
  rc_weekly_pnl :: "flt option"
  rc_fx_quote_to_account :: "flt option"
  rc_event_veto :: "veto_provider option"

record exit_context = check_surface +
  xc_instrument :: string
  xc_strategy_id :: string
  xc_size :: flt
  xc_position_id :: string

abbreviation rc_equity :: "risk_context \<Rightarrow> flt" where
  "rc_equity c \<equiv> ac_equity (sn_account (rc_snapshot c))"

definition rc_instrument :: "registry \<Rightarrow> risk_context \<Rightarrow> pyexn + instrument" where
  "rc_instrument reg c = get_instrument reg (pl_instrument (rc_plan c))"

text \<open>\<open>mid_price or reference_price\<close>: a missing and a zero mid both fall back.\<close>

definition mid_or_reference :: "risk_context \<Rightarrow> flt" where
  "mid_or_reference c =
     (case mv_mid_price (cx_market c) of
        Some p \<Rightarrow> if truthy p then p else sg_reference_price (pl_signal (rc_plan c))
      | None \<Rightarrow> sg_reference_price (pl_signal (rc_plan c)))"

definition plan_notional_account :: "registry \<Rightarrow> risk_context \<Rightarrow> pyexn + flt" where
  "plan_notional_account reg c =
     (case rc_fx_quote_to_account c of
        None \<Rightarrow> Inl (ValueError (lit ''fx_quote_to_account is missing''))
      | Some fx \<Rightarrow>
          rbind (rc_instrument reg c)
            (\<lambda>i. Inr \<bar>mid_or_reference c * pl_size (rc_plan c) * i_contract_size i * fx\<bar>))"


section \<open>Lock source and gateway state\<close>

datatype lock_error = LockStateUnavailable ftext | LockRaised pyexn

type_synonym lock_source = "string \<Rightarrow> string \<Rightarrow> tstamp \<Rightarrow> bool \<Rightarrow> string \<Rightarrow> lock_error + string option"

record execution_attempt =
  at_plan_id :: string
  at_signal_id :: string
  at_strategy_id :: string
  at_instrument :: string
  at_mode :: exec_mode
  at_requested_size :: flt
  at_decision :: risk_decision
  at_decided_at :: tstamp
  at_limits_version :: string
  at_limits_fingerprint :: string
  at_client_ref :: "string option"
  at_order_id :: "string option"
  at_extra :: jdict

record gateway =
  gw_mode :: "exec_mode option"
  gw_kill_switch :: kill_switch
  gw_paper_allows_missing_inputs :: bool
  gw_attempts :: "execution_attempt list"
  gw_default_limits :: limit_set
  gw_locks :: "lock_source option"

definition gateway_new ::
  "kill_switch \<Rightarrow> limit_set \<Rightarrow> lock_source option \<Rightarrow> exec_mode option \<Rightarrow> bool \<Rightarrow> pyexn + gateway" where
  "gateway_new switch limits locks mode paper_missing =
     (if mode \<noteq> None \<and> mode \<noteq> Some BACKTEST \<and> \<not> ks_durable switch
      then Inl (ValueError [Lit ''RiskGateway(mode='', Lit (case mode of Some m \<Rightarrow> mode_value m | None \<Rightarrow> []),
                  Lit '') was given an in-memory kill-switch journal.''])
      else Inr \<lparr>gw_mode = mode, gw_kill_switch = switch, gw_paper_allows_missing_inputs = paper_missing,
                gw_attempts = [], gw_default_limits = limits, gw_locks = locks\<rparr>)"

text \<open>\<open>InMemoryAttemptRecorder.record\<close>.\<close>

definition record_attempt :: "execution_attempt \<Rightarrow> gateway \<Rightarrow> gateway" where
  "record_attempt a g = g\<lparr>gw_attempts := gw_attempts g @ [a]\<rparr>"


section \<open>Check results and helpers\<close>

datatype outcome = Pass | Block ftext | Shadow "ftext list" | Raise pyexn

definition on_value :: "pyexn + 'a \<Rightarrow> ('a \<Rightarrow> outcome) \<Rightarrow> outcome" where
  "on_value r f = (case r of Inl e \<Rightarrow> Raise e | Inr a \<Rightarrow> f a)"

lemma on_value_simps [simp]: "on_value (Inl e) f = Raise e" "on_value (Inr a) f = f a"
  by (simp_all add: on_value_def)

definition pct_of_equity :: "flt \<Rightarrow> flt \<Rightarrow> pyexn + flt" where
  "pct_of_equity amount equity =
     (if equity \<le> Fin 0
      then Inl (ValueError (lit ''equity must be positive to express a percentage of it''))
      else rbind (py_div amount equity) (\<lambda>q. Inr (q * Fin 100)))"

definition age_seconds :: "pandas \<Rightarrow> tstamp option \<Rightarrow> tstamp \<Rightarrow> pyexn + flt" where
  "age_seconds pd past now =
     (case past of
        None \<Rightarrow> Inl (ValueError (lit ''timestamp is unknown''))
      | Some t \<Rightarrow>
          if \<not> tz_aware t then Inl (ValueError (lit ''timestamp must be timezone-aware UTC''))
          else rbind (ts_sub now t) (\<lambda>d. Inr (pd_seconds pd d)))"

text \<open>The nullable inputs, by the names \<open>INPUT_FIELDS\<close> gives them.\<close>

definition INPUT_FIELDS :: "(string \<times> (risk_context \<Rightarrow> flt option)) list" where
  "INPUT_FIELDS =
     [(''open_risk_amount'', rc_open_risk_amount), (''fx_quote_to_account'', rc_fx_quote_to_account),
      (''correlated_exposure'', rc_correlated_exposure), (''daily_pnl'', rc_daily_pnl),
      (''weekly_pnl'', rc_weekly_pnl)]"

definition input_field :: "risk_context \<Rightarrow> string \<Rightarrow> flt option" where
  "input_field c name = (case map_of INPUT_FIELDS name of Some f \<Rightarrow> f c | None \<Rightarrow> None)"

definition missing_inputs :: "risk_context \<Rightarrow> string list" where
  "missing_inputs c = filter (\<lambda>n. input_field c n = None) (map fst INPUT_FIELDS)"

definition strict_input_mode :: "exec_mode \<Rightarrow> bool" where
  "strict_input_mode m \<longleftrightarrow> m \<in> {SHADOW, DEMO, LIVE}"

text \<open>\<open>_require\<close> followed by the rest of a check: run it when the inputs are present, block when they are
  not and the gap is not excused, pass when it is.\<close>

definition with_required :: "bool \<Rightarrow> risk_context \<Rightarrow> string \<Rightarrow> string list \<Rightarrow> outcome \<Rightarrow> outcome" where
  "with_required paper_missing c check names rest =
     (let missing = filter (\<lambda>n. input_field c n = None) names in
      if missing = [] then rest
      else if paper_missing \<and> \<not> strict_input_mode (cx_mode c) then Pass
      else Block [Lit check, Lit ''_input_missing:'', Lit (join '','' missing)])"


section \<open>The checks\<close>

definition check_kill_switch ::
  "(ks_event \<Rightarrow> nat) \<Rightarrow> kill_switch \<Rightarrow> 'a check_surface_scheme \<Rightarrow> kill_switch \<times> outcome" where
  "check_kill_switch L k c =
     (if adds_risk (cx_request_kind c) \<and> \<not> ks_durable k \<and> touches_broker (cx_mode c)
      then (k, Block [Lit ''kill_switch_journal_not_durable:'', Lit (mode_value (cx_mode c))])
      else case allows L (cx_request_kind c) k of
        (k', ok, why) \<Rightarrow> (k', if ok then Pass else Block (lit why)))"

definition forbidden_lifecycles :: "lifecycle set" where
  "forbidden_lifecycles =
     {LC_QUARANTINED, LC_RETIRED, LC_DEGRADED, LC_DISCOVERY, LC_RESEARCH, LC_VALIDATING, LC_CANDIDATE}"

definition check_strategy_lifecycle :: "risk_context \<Rightarrow> outcome" where
  "check_strategy_lifecycle c =
     (case sv_lifecycle (rc_strategy c) of
        None \<Rightarrow> Block (lit ''strategy_lifecycle_unknown'')
      | Some lc \<Rightarrow>
          if lc \<in> forbidden_lifecycles then Block [Lit ''strategy_lifecycle_blocks:'', Lit (lc_value lc)]
          else if sv_degraded (rc_strategy c) then Block (lit ''strategy_degraded'')
          else if cx_mode c = LIVE \<and> lc \<noteq> LC_LIVE then Block [Lit ''strategy_not_live_approved:'', Lit (lc_value lc)]
          else if cx_mode c = DEMO \<and> lc \<in> {LC_PAPER} then Block [Lit ''strategy_not_demo_approved:'', Lit (lc_value lc)]
          else Pass)"

definition check_market_state :: "'a check_surface_scheme \<Rightarrow> outcome" where
  "check_market_state c =
     (if mv_halted (cx_market c) then Block (lit ''market_halted'')
      else case mv_market_open (cx_market c) of
        None \<Rightarrow> Block (lit ''market_state_unknown'')
      | Some is_open \<Rightarrow> if \<not> is_open then Block (lit ''market_closed'') else Pass)"

definition check_direction_permitted :: "registry \<Rightarrow> risk_context \<Rightarrow> outcome" where
  "check_direction_permitted reg c =
     (if pl_direction (rc_plan c) = SHORT
      then on_value (rc_instrument reg c)
             (\<lambda>i. if \<not> i_shortable i
                  then Block [Lit ''short_not_permitted:'', Lit (i_symbol i), Lit '':'', Lit (i_venue i)] else Pass)
      else Pass)"

definition check_data_freshness :: "pandas \<Rightarrow> 'a check_surface_scheme \<Rightarrow> limit_set \<Rightarrow> outcome" where
  "check_data_freshness pd c l =
     on_value (age_seconds pd (mv_last_bar_time (cx_market c)) (cx_now c))
       (\<lambda>age. if age < Fin 0 then Block [Lit ''data_from_the_future:'', Fixed 1 age, Lit ''s'']
              else if age > lm_max_data_age_seconds l
                then Block [Lit ''data_stale:'', Fixed 1 age, Lit ''s>'', Repr (lm_max_data_age_seconds l), Lit ''s'']
              else Pass)"

definition check_stale_price :: "pandas \<Rightarrow> 'a check_surface_scheme \<Rightarrow> limit_set \<Rightarrow> outcome" where
  "check_stale_price pd c l =
     on_value (age_seconds pd (mv_quote_time (cx_market c)) (cx_now c))
       (\<lambda>age. if age < Fin 0 then Block [Lit ''quote_from_the_future:'', Fixed 1 age, Lit ''s'']
              else if age > lm_max_price_age_seconds l
                then Block [Lit ''stale_price:'', Fixed 1 age, Lit ''s>'', Repr (lm_max_price_age_seconds l), Lit ''s'']
              else Pass)"

definition spread_multiple_outcome :: "flt \<Rightarrow> flt \<Rightarrow> limit_set \<Rightarrow> outcome" where
  "spread_multiple_outcome spread typical l =
     (if typical \<le> Fin 0 then Pass
      else on_value (py_div spread typical)
        (\<lambda>m. if m > lm_max_spread_multiple l
             then Block [Lit ''abnormal_spread:'', Fixed 2 m, Lit ''x>'', Repr (lm_max_spread_multiple l), Lit ''x_typical'']
             else Pass))"

definition check_abnormal_spread :: "registry \<Rightarrow> risk_context \<Rightarrow> limit_set \<Rightarrow> outcome" where
  "check_abnormal_spread reg c l =
     (case mv_spread_price (cx_market c) of
        None \<Rightarrow> Block (lit ''spread_unknown'')
      | Some spread \<Rightarrow>
          if spread < Fin 0 then Block [Lit ''negative_spread:'', Repr spread]
          else on_value (rc_instrument reg c) (\<lambda>i.
            case i_typical_spread_bps i of
              Some bps \<Rightarrow>
                (case mv_mid_price (cx_market c) of
                   None \<Rightarrow> Block (lit ''spread_reference_mid_unknown'')
                 | Some mid \<Rightarrow>
                     if \<not> mid > Fin 0 then Block (lit ''spread_reference_mid_unknown'')
                     else spread_multiple_outcome spread (bps * Fin (1 / 10 ^ 4) * mid) l)
            | None \<Rightarrow> spread_multiple_outcome spread (i_typical_spread_pips i * i_pip_size i) l))"

definition check_broker_health :: "'a check_surface_scheme \<Rightarrow> limit_set \<Rightarrow> outcome" where
  "check_broker_health c l =
     (case (vv_connected (cx_venue c), vv_score (cx_venue c)) of
        (Some is_conn, Some score) \<Rightarrow>
          if \<not> is_conn then Block [Lit ''broker_disconnected:'', Lit (vv_message (cx_venue c))]
          else if score < lm_min_broker_health l
            then Block [Lit ''broker_unhealthy:'', Fixed 2 score, Lit ''<'', Repr (lm_min_broker_health l)]
          else Pass
      | _ \<Rightarrow> Block (lit ''broker_health_unknown''))"

text \<open>The v1 blackout: symmetric around \<open>now\<close>. The first event that blocks ends the loop.\<close>

fun blackout_v1 :: "int \<Rightarrow> tstamp \<Rightarrow> tstamp list \<Rightarrow> outcome" where
  "blackout_v1 window now [] = Pass"
| "blackout_v1 window now (ev # evs) =
     (if \<not> tz_aware ev then Block (lit ''event_time_not_utc'')
      else on_value (ts_sub ev now)
        (\<lambda>d. if \<bar>d\<bar> \<le> window then Block [Lit ''event_blackout:'', Iso ev] else blackout_v1 window now evs))"

text \<open>The v2 blackout: \<open>decision - post <= ev <= decision + ahead\<close>, short-circuiting like the chained
  comparison.\<close>

fun blackout_v2 :: "int \<Rightarrow> int \<Rightarrow> tstamp \<Rightarrow> tstamp list \<Rightarrow> outcome" where
  "blackout_v2 post ahead decision [] = Pass"
| "blackout_v2 post ahead decision (ev # evs) =
     (if \<not> tz_aware ev then Block (lit ''event_time_not_utc'')
      else on_value (ts_le (decision\<lparr>ns := ns decision - post\<rparr>) ev)
        (\<lambda>after. if \<not> after then blackout_v2 post ahead decision evs
          else on_value (ts_le ev (decision\<lparr>ns := ns decision + ahead\<rparr>))
            (\<lambda>before. if before then Block [Lit ''event_blackout:'', Iso ev]
                      else blackout_v2 post ahead decision evs)))"

text \<open>\<open>Timedelta(minutes=Timeframe(str(signal.timeframe)).minutes)\<close>, a ValueError giving no bar at all.\<close>

definition bar_length :: "pandas \<Rightarrow> string \<Rightarrow> pyexn + int" where
  "bar_length pd tf =
     (case tf_of_value tf of
        None \<Rightarrow> Inr 0
      | Some t \<Rightarrow>
          (case pd_minutes pd (Fin (of_int (tf_minutes t))) of
             Inl e \<Rightarrow> if exn_class e = ''ValueError'' then Inr 0 else Inl e
           | Inr b \<Rightarrow> Inr b))"

definition decision_time :: "tstamp \<Rightarrow> tstamp \<Rightarrow> int \<Rightarrow> pyexn + tstamp" where
  "decision_time now bar_time bar =
     (let bar_close = bar_time\<lparr>ns := ns bar_time + bar\<rparr> in
      if tz_aware bar_close
      then rbind (ts_lt now bar_close) (\<lambda>later. Inr (if later then bar_close else now))
      else Inr now)"

definition or_zero :: "flt option \<Rightarrow> flt" where
  "or_zero x = (case x of Some v \<Rightarrow> if truthy v then v else Fin 0 | None \<Rightarrow> Fin 0)"

definition check_event_blackout :: "pandas \<Rightarrow> risk_context \<Rightarrow> limit_set \<Rightarrow> outcome" where
  "check_event_blackout pd c l =
     (if \<not> asymmetric_blackout l
      then on_value (pd_minutes pd (lm_event_blackout_minutes l))
             (\<lambda>window. if window \<le> 0 then Pass else blackout_v1 window (cx_now c) (mv_event_times (cx_market c)))
      else on_value (pd_minutes pd (or_zero (lm_event_blackout_pre_minutes l))) (\<lambda>pre.
           on_value (pd_minutes pd (or_zero (lm_event_blackout_post_minutes l))) (\<lambda>post.
           on_value (bar_length pd (sg_timeframe (pl_signal (rc_plan c)))) (\<lambda>bar.
           on_value (decision_time (cx_now c) (sg_bar_time (pl_signal (rc_plan c))) bar) (\<lambda>decision.
             blackout_v2 post (max pre bar) decision (mv_event_times (cx_market c)))))))"

definition check_event_veto :: "risk_context \<Rightarrow> outcome" where
  "check_event_veto c =
     (case rc_event_veto c of
        None \<Rightarrow> Pass
      | Some src \<Rightarrow>
          if cx_request_kind c \<noteq> OPEN then Pass
          else on_value (vp_assess src (pl_instrument (rc_plan c)) (cx_now c)) (\<lambda>v.
            case va_veto v of
              Some r \<Rightarrow>
                if va_enabled v then Block [Lit ''event_veto:'', Lit (veto_code r)]
                else Shadow ((if va_available v then []
                              else [[Lit ''event_veto_shadow:unavailable:'', Lit (if va_detail v = [] then ''unknown'' else va_detail v)]])
                             @ [[Lit ''event_veto_shadow:'', Lit (veto_code r)]])
            | None \<Rightarrow>
                if va_available v then Pass
                else Shadow [[Lit ''event_veto_shadow:unavailable:'', Lit (if va_detail v = [] then ''unknown'' else va_detail v)]]))"

definition LOCKS_DECLARED_FEATURE :: string where
  "LOCKS_DECLARED_FEATURE = ''locks_declared''"

definition locks_declared :: "signal \<Rightarrow> bool" where
  "locks_declared s \<longleftrightarrow> (case sg_features s LOCKS_DECLARED_FEATURE of Some v \<Rightarrow> v > Fin 0 | None \<Rightarrow> False)"

definition check_instrument_lock :: "lock_source option \<Rightarrow> risk_context \<Rightarrow> outcome" where
  "check_instrument_lock locks c =
     (let s = pl_signal (rc_plan c); declared = locks_declared s in
      case locks of
        None \<Rightarrow> if declared then Block (lit ''instrument_lock_state_unavailable:no_lock_source'') else Pass
      | Some lock_for \<Rightarrow>
          (case lock_for (sg_instrument s) (sg_strategy_id s) (sg_bar_time s) declared (sg_timeframe s) of
             Inl (LockStateUnavailable why) \<Rightarrow> Block (Lit ''instrument_lock_state_unavailable:'' # why)
           | Inl (LockRaised e) \<Rightarrow> Raise e
           | Inr (Some code) \<Rightarrow> Block [Lit ''instrument_lock:'', Lit code]
           | Inr None \<Rightarrow> Pass))"

definition limit_outcome :: "flt \<Rightarrow> flt \<Rightarrow> ftext \<Rightarrow> outcome" where
  "limit_outcome pct limit reason = (if pct > limit then Block reason else Pass)"

definition check_max_per_trade_risk :: "risk_context \<Rightarrow> limit_set \<Rightarrow> outcome" where
  "check_max_per_trade_risk c l =
     on_value (pct_of_equity (pl_risk_amount (rc_plan c)) (rc_equity c))
       (\<lambda>pct. limit_outcome pct (lm_max_per_trade_risk_pct l)
          [Lit ''max_per_trade_risk:'', Fixed 3 pct, Lit ''%>'', Repr (lm_max_per_trade_risk_pct l), Lit ''%''])"

definition check_max_account_risk :: "bool \<Rightarrow> risk_context \<Rightarrow> limit_set \<Rightarrow> outcome" where
  "check_max_account_risk pm c l =
     with_required pm c ''max_account_risk'' [''open_risk_amount'']
       (on_value (pct_of_equity (the (rc_open_risk_amount c) + pl_risk_amount (rc_plan c)) (rc_equity c))
          (\<lambda>pct. limit_outcome pct (lm_max_account_risk_pct l)
             [Lit ''max_account_risk:'', Fixed 3 pct, Lit ''%>'', Repr (lm_max_account_risk_pct l), Lit ''%'']))"

definition exposure_of :: "(string \<rightharpoonup> flt) \<Rightarrow> string \<Rightarrow> flt" where
  "exposure_of m k = (case m k of Some v \<Rightarrow> v | None \<Rightarrow> Fin 0)"

definition check_max_instrument_exposure :: "registry \<Rightarrow> bool \<Rightarrow> risk_context \<Rightarrow> limit_set \<Rightarrow> outcome" where
  "check_max_instrument_exposure reg pm c l =
     with_required pm c ''max_instrument_exposure'' [''fx_quote_to_account'']
       (on_value (plan_notional_account reg c) (\<lambda>add.
        on_value (pct_of_equity (\<bar>exposure_of (sn_instrument_exposure (rc_snapshot c)) (pl_instrument (rc_plan c))\<bar> + add) (rc_equity c))
          (\<lambda>pct. limit_outcome pct (lm_max_instrument_exposure_pct l)
             [Lit ''max_instrument_exposure:'', Lit (pl_instrument (rc_plan c)), Lit '':'', Fixed 2 pct, Lit ''%>'',
              Repr (lm_max_instrument_exposure_pct l), Lit ''%''])))"

definition check_max_strategy_exposure :: "registry \<Rightarrow> bool \<Rightarrow> risk_context \<Rightarrow> limit_set \<Rightarrow> outcome" where
  "check_max_strategy_exposure reg pm c l =
     with_required pm c ''max_strategy_exposure'' [''fx_quote_to_account'']
       (let sid = sg_strategy_id (pl_signal (rc_plan c)) in
        on_value (plan_notional_account reg c) (\<lambda>add.
        on_value (pct_of_equity (\<bar>exposure_of (sn_strategy_exposure (rc_snapshot c)) sid\<bar> + add) (rc_equity c))
          (\<lambda>pct. limit_outcome pct (lm_max_strategy_exposure_pct l)
             [Lit ''max_strategy_exposure:'', Lit sid, Lit '':'', Fixed 2 pct, Lit ''%>'',
              Repr (lm_max_strategy_exposure_pct l), Lit ''%''])))"

fun currency_legs :: "risk_context \<Rightarrow> limit_set \<Rightarrow> (string \<times> flt) list \<Rightarrow> outcome" where
  "currency_legs c l [] = Pass"
| "currency_legs c l ((ccy, delta) # legs) =
     on_value (pct_of_equity \<bar>exposure_of (sn_currency_exposure (rc_snapshot c)) ccy + delta\<bar> (rc_equity c))
       (\<lambda>pct. if pct > lm_max_currency_exposure_pct l
              then Block [Lit ''max_currency_exposure:'', Lit ccy, Lit '':'', Fixed 2 pct, Lit ''%>'',
                          Repr (lm_max_currency_exposure_pct l), Lit ''%'']
              else currency_legs c l legs)"

definition check_max_currency_exposure :: "registry \<Rightarrow> bool \<Rightarrow> risk_context \<Rightarrow> limit_set \<Rightarrow> outcome" where
  "check_max_currency_exposure reg pm c l =
     with_required pm c ''max_currency_exposure'' [''fx_quote_to_account'']
       (on_value (rc_instrument reg c) (\<lambda>i.
        on_value (plan_notional_account reg c) (\<lambda>add.
          let sgn = dir_sign (pl_direction (rc_plan c))
          in currency_legs c l [(i_base i, Fin sgn * add), (i_quote i, Fin (- sgn) * add)])))"

definition check_max_correlated_exposure :: "registry \<Rightarrow> bool \<Rightarrow> risk_context \<Rightarrow> limit_set \<Rightarrow> outcome" where
  "check_max_correlated_exposure reg pm c l =
     with_required pm c ''max_correlated_exposure'' [''correlated_exposure'', ''fx_quote_to_account'']
       (on_value (plan_notional_account reg c) (\<lambda>add.
        on_value (pct_of_equity (the (rc_correlated_exposure c) + add) (rc_equity c))
          (\<lambda>pct. limit_outcome pct (lm_max_correlated_exposure_pct l)
             [Lit ''max_correlated_exposure:'', Fixed 2 pct, Lit ''%>'', Repr (lm_max_correlated_exposure_pct l),
              Lit ''%@rho>='', Repr (lm_correlation_threshold l)])))"

definition loss_outcome :: "string \<Rightarrow> flt \<Rightarrow> flt \<Rightarrow> flt \<Rightarrow> outcome" where
  "loss_outcome name pnl equity limit =
     (if pnl \<ge> Fin 0 then Pass
      else on_value (pct_of_equity (- pnl) equity)
        (\<lambda>pct. if pct \<ge> limit then Block [Lit name, Lit '':'', Fixed 2 pct, Lit ''%>='', Repr limit, Lit ''%''] else Pass))"

definition check_daily_loss :: "bool \<Rightarrow> risk_context \<Rightarrow> limit_set \<Rightarrow> outcome" where
  "check_daily_loss pm c l =
     with_required pm c ''daily_loss'' [''daily_pnl'']
       (loss_outcome ''daily_loss'' (the (rc_daily_pnl c)) (rc_equity c) (lm_max_daily_loss_pct l))"

definition check_weekly_loss :: "bool \<Rightarrow> risk_context \<Rightarrow> limit_set \<Rightarrow> outcome" where
  "check_weekly_loss pm c l =
     with_required pm c ''weekly_loss'' [''weekly_pnl'']
       (loss_outcome ''weekly_loss'' (the (rc_weekly_pnl c)) (rc_equity c) (lm_max_weekly_loss_pct l))"

definition check_total_drawdown :: "risk_context \<Rightarrow> limit_set \<Rightarrow> outcome" where
  "check_total_drawdown c l =
     on_value (drawdown_pct (sn_account (rc_snapshot c)))
       (\<lambda>dd. if dd \<ge> lm_max_total_drawdown_pct l
             then Block [Lit ''total_drawdown:'', Fixed 2 dd, Lit ''%>='', Repr (lm_max_total_drawdown_pct l), Lit ''%'']
             else Pass)"

text \<open>\<open>float(plan.max_leverage_applied or instrument.retail_leverage)\<close>.\<close>

definition applied_leverage :: "registry \<Rightarrow> risk_context \<Rightarrow> pyexn + flt" where
  "applied_leverage reg c =
     (if truthy (pl_max_leverage_applied (rc_plan c)) then Inr (pl_max_leverage_applied (rc_plan c))
      else rbind (rc_instrument reg c) (\<lambda>i. Inr (i_retail_leverage i)))"

definition check_margin_utilisation :: "registry \<Rightarrow> risk_context \<Rightarrow> limit_set \<Rightarrow> outcome" where
  "check_margin_utilisation reg c l =
     on_value (margin_utilisation (rc_snapshot c)) (\<lambda>u.
       let util = u * Fin 100 in
       if lm_margin_utilisation_after_trade l \<noteq> Some True
       then (if util \<ge> lm_max_margin_utilisation_pct l
             then Block [Lit ''margin_utilisation:'', Fixed 2 util, Lit ''%>='', Repr (lm_max_margin_utilisation_pct l), Lit ''%'']
             else Pass)
       else on_value (applied_leverage reg c) (\<lambda>leverage.
         if rc_equity c \<le> Fin 0 \<or> leverage \<le> Fin 0
         then Block (lit ''margin_utilisation_after_trade:equity_or_leverage_not_positive'')
         else on_value (plan_notional_account reg c) (\<lambda>notional.
              on_value (py_div notional leverage) (\<lambda>margin.
              on_value (py_div (ac_margin_used (sn_account (rc_snapshot c)) + margin) (rc_equity c)) (\<lambda>q.
                let after = q * Fin 100 in
                if after \<ge> lm_max_margin_utilisation_pct l
                then Block [Lit ''margin_utilisation_after_trade:'', Fixed 2 after, Lit ''%>='', Repr (lm_max_margin_utilisation_pct l), Lit ''%'']
                else Pass)))))"


section \<open>Evaluation\<close>

datatype check =
    Kill_switch | Strategy_lifecycle | Market_state | Direction_permitted | Data_freshness | Stale_price
  | Abnormal_spread | Broker_health | Event_blackout | Event_veto | Instrument_lock | Max_per_trade_risk
  | Max_account_risk | Max_instrument_exposure | Max_strategy_exposure | Max_currency_exposure
  | Max_correlated_exposure | Daily_loss | Weekly_loss | Total_drawdown | Margin_utilisation

fun check_name :: "check \<Rightarrow> string" where
  "check_name Kill_switch = ''kill_switch''"
| "check_name Strategy_lifecycle = ''strategy_lifecycle''"
| "check_name Market_state = ''market_state''"
| "check_name Direction_permitted = ''direction_permitted''"
| "check_name Data_freshness = ''data_freshness''"
| "check_name Stale_price = ''stale_price''"
| "check_name Abnormal_spread = ''abnormal_spread''"
| "check_name Broker_health = ''broker_health''"
| "check_name Event_blackout = ''event_blackout''"
| "check_name Event_veto = ''event_veto''"
| "check_name Instrument_lock = ''instrument_lock''"
| "check_name Max_per_trade_risk = ''max_per_trade_risk''"
| "check_name Max_account_risk = ''max_account_risk''"
| "check_name Max_instrument_exposure = ''max_instrument_exposure''"
| "check_name Max_strategy_exposure = ''max_strategy_exposure''"
| "check_name Max_currency_exposure = ''max_currency_exposure''"
| "check_name Max_correlated_exposure = ''max_correlated_exposure''"
| "check_name Daily_loss = ''daily_loss''"
| "check_name Weekly_loss = ''weekly_loss''"
| "check_name Total_drawdown = ''total_drawdown''"
| "check_name Margin_utilisation = ''margin_utilisation''"

definition CHECKS :: "check list" where
  "CHECKS =
     [Kill_switch, Strategy_lifecycle, Market_state, Direction_permitted, Data_freshness, Stale_price,
      Abnormal_spread, Broker_health, Event_blackout, Event_veto, Instrument_lock, Max_per_trade_risk,
      Max_account_risk, Max_instrument_exposure, Max_strategy_exposure, Max_currency_exposure,
      Max_correlated_exposure, Daily_loss, Weekly_loss, Total_drawdown, Margin_utilisation]"

definition EXIT_CHECKS :: "check list" where
  "EXIT_CHECKS = [Kill_switch, Market_state, Data_freshness, Stale_price, Broker_health]"

text \<open>What the code reads from outside: the framed length of a journal row, the pandas conversions, the
  instrument registry and the digest of a limit set.\<close>

record gw_env =
  ge_row_length :: "ks_event \<Rightarrow> nat"
  ge_pandas :: pandas
  ge_registry :: registry
  ge_digest :: "jdict \<Rightarrow> string"

fun run_check :: "gw_env \<Rightarrow> gateway \<Rightarrow> risk_context \<Rightarrow> limit_set \<Rightarrow> check \<Rightarrow> outcome" where
  "run_check E g c l Kill_switch = snd (check_kill_switch (ge_row_length E) (gw_kill_switch g) c)"
| "run_check E g c l Strategy_lifecycle = check_strategy_lifecycle c"
| "run_check E g c l Market_state = check_market_state c"
| "run_check E g c l Direction_permitted = check_direction_permitted (ge_registry E) c"
| "run_check E g c l Data_freshness = check_data_freshness (ge_pandas E) c l"
| "run_check E g c l Stale_price = check_stale_price (ge_pandas E) c l"
| "run_check E g c l Abnormal_spread = check_abnormal_spread (ge_registry E) c l"
| "run_check E g c l Broker_health = check_broker_health c l"
| "run_check E g c l Event_blackout = check_event_blackout (ge_pandas E) c l"
| "run_check E g c l Event_veto = check_event_veto c"
| "run_check E g c l Instrument_lock = check_instrument_lock (gw_locks g) c"
| "run_check E g c l Max_per_trade_risk = check_max_per_trade_risk c l"
| "run_check E g c l Max_account_risk = check_max_account_risk (gw_paper_allows_missing_inputs g) c l"
| "run_check E g c l Max_instrument_exposure =
     check_max_instrument_exposure (ge_registry E) (gw_paper_allows_missing_inputs g) c l"
| "run_check E g c l Max_strategy_exposure =
     check_max_strategy_exposure (ge_registry E) (gw_paper_allows_missing_inputs g) c l"
| "run_check E g c l Max_currency_exposure =
     check_max_currency_exposure (ge_registry E) (gw_paper_allows_missing_inputs g) c l"
| "run_check E g c l Max_correlated_exposure =
     check_max_correlated_exposure (ge_registry E) (gw_paper_allows_missing_inputs g) c l"
| "run_check E g c l Daily_loss = check_daily_loss (gw_paper_allows_missing_inputs g) c l"
| "run_check E g c l Weekly_loss = check_weekly_loss (gw_paper_allows_missing_inputs g) c l"
| "run_check E g c l Total_drawdown = check_total_drawdown c l"
| "run_check E g c l Margin_utilisation = check_margin_utilisation (ge_registry E) c l"

fun outcome_reasons :: "string \<Rightarrow> outcome \<Rightarrow> ftext list" where
  "outcome_reasons name Pass = []"
| "outcome_reasons name (Block r) = [r]"
| "outcome_reasons name (Shadow rs) = rs"
| "outcome_reasons name (Raise e) =
     [[Lit ''check_error:'', Lit name, Lit '':'', Lit (exn_class e), Lit '':''] @ exn_text e]"

definition verify_coverage :: "check list \<Rightarrow> check list \<Rightarrow> ftext list" where
  "verify_coverage checks seen =
     map (\<lambda>m. [Lit ''check_did_not_run:'', Lit (check_name m)]) (filter (\<lambda>ch. ch \<notin> set seen) checks)"

definition limits_in_force :: "gateway \<Rightarrow> 'a check_surface_scheme \<Rightarrow> limit_set" where
  "limits_in_force g c = (case cx_limits c of Some l \<Rightarrow> l | None \<Rightarrow> gw_default_limits g)"

definition entry_reasons :: "gw_env \<Rightarrow> gateway \<Rightarrow> risk_context \<Rightarrow> ftext list" where
  "entry_reasons E g c =
     concat (map (\<lambda>ch. outcome_reasons (check_name ch) (run_check E g c (limits_in_force g c) ch)) CHECKS)
     @ verify_coverage CHECKS CHECKS"

definition entry_attempt :: "gw_env \<Rightarrow> gateway \<Rightarrow> risk_context \<Rightarrow> risk_decision \<Rightarrow> execution_attempt" where
  "entry_attempt E g c d =
     (let l = limits_in_force g c; s = pl_signal (rc_plan c); p = rc_plan c; stamp = limits_stamp (ge_digest E) l in
      \<lparr>at_plan_id = pl_plan_id p, at_signal_id = sg_signal_id s, at_strategy_id = sg_strategy_id s,
       at_instrument = sg_instrument s, at_mode = cx_mode c, at_requested_size = pl_size p, at_decision = d,
       at_decided_at = cx_now c, at_limits_version = fst stamp, at_limits_fingerprint = snd stamp,
       at_client_ref = None, at_order_id = None,
       at_extra =
         [(''requested_price'', JFloat (mid_or_reference c)),
          (''regime'', JStr (mv_regime (cx_market c))),
          (''request_kind'', JStr (kind_value (cx_request_kind c))),
          (''risk_amount'', JFloat (pl_risk_amount p)),
          (''portfolio_weight'', JFloat (pl_portfolio_weight p)),
          (''event_veto_policy'', JStr (case rc_event_veto c of Some v \<Rightarrow> vp_policy_version v | None \<Rightarrow> ''not_wired'')),
          (''kill_switch_journal'', JStr (if ks_durable (gw_kill_switch g) then ''durable'' else ''in_memory'')),
          (''missing_inputs'', JList (map JStr (missing_inputs c))),
          (''paper_allows_missing_inputs'', JBool (gw_paper_allows_missing_inputs g))]\<rparr>)"

definition evaluate :: "gw_env \<Rightarrow> gateway \<Rightarrow> risk_context \<Rightarrow> gateway \<times> risk_decision" where
  "evaluate E g c =
     (let reasons = entry_reasons E g c;
          d = \<lparr>rd_allowed = (filter (\<lambda>r. \<not> is_shadow_reason r) reasons = []), rd_reasons = reasons,
               rd_adjusted_size = None, rd_checks_run = map check_name CHECKS, rd_decided_at = cx_now c\<rparr>;
          k' = fst (check_kill_switch (ge_row_length E) (gw_kill_switch g) c)
      in (record_attempt (entry_attempt E g c d) (g\<lparr>gw_kill_switch := k'\<rparr>), d))"

fun run_exit_check :: "gw_env \<Rightarrow> gateway \<Rightarrow> exit_context \<Rightarrow> limit_set \<Rightarrow> check \<Rightarrow> outcome" where
  "run_exit_check E g c l Kill_switch = snd (check_kill_switch (ge_row_length E) (gw_kill_switch g) c)"
| "run_exit_check E g c l Market_state = check_market_state c"
| "run_exit_check E g c l Data_freshness = check_data_freshness (ge_pandas E) c l"
| "run_exit_check E g c l Stale_price = check_stale_price (ge_pandas E) c l"
| "run_exit_check E g c l Broker_health = check_broker_health c l"
| "run_exit_check E g c l _ = Pass"

definition exit_reasons :: "gw_env \<Rightarrow> gateway \<Rightarrow> exit_context \<Rightarrow> ftext list" where
  "exit_reasons E g c =
     concat (map (\<lambda>ch. outcome_reasons (check_name ch) (run_exit_check E g c (limits_in_force g c) ch)) EXIT_CHECKS)
     @ verify_coverage EXIT_CHECKS EXIT_CHECKS"

definition exit_attempt :: "gw_env \<Rightarrow> gateway \<Rightarrow> exit_context \<Rightarrow> risk_decision \<Rightarrow> execution_attempt" where
  "exit_attempt E g c d =
     (let l = limits_in_force g c; stamp = limits_stamp (ge_digest E) l in
      \<lparr>at_plan_id = (if xc_position_id c \<noteq> [] then xc_position_id c else ''exit:'' @ xc_instrument c),
       at_signal_id = [], at_strategy_id = xc_strategy_id c, at_instrument = xc_instrument c, at_mode = cx_mode c,
       at_requested_size = xc_size c, at_decision = d, at_decided_at = cx_now c,
       at_limits_version = fst stamp, at_limits_fingerprint = snd stamp, at_client_ref = None, at_order_id = None,
       at_extra =
         cx_extra c @
         [(''requested_price'', JFloat (or_zero (mv_mid_price (cx_market c)))),
          (''regime'', JStr (mv_regime (cx_market c))),
          (''request_kind'', JStr (kind_value (cx_request_kind c))),
          (''exit'', JBool True)]\<rparr>)"

definition evaluate_exit :: "gw_env \<Rightarrow> gateway \<Rightarrow> exit_context \<Rightarrow> gateway \<times> (pyexn + risk_decision)" where
  "evaluate_exit E g c =
     (if adds_risk (cx_request_kind c)
      then (g, Inl (ValueError [Lit ''evaluate_exit called with '', Lit (kind_value (cx_request_kind c)), Lit '', which ADDS risk.'']))
      else let reasons = exit_reasons E g c;
               d = \<lparr>rd_allowed = (reasons = []), rd_reasons = reasons, rd_adjusted_size = None,
                    rd_checks_run = map check_name EXIT_CHECKS, rd_decided_at = cx_now c\<rparr>;
               k' = fst (check_kill_switch (ge_row_length E) (gw_kill_switch g) c)
           in (record_attempt (exit_attempt E g c d) (g\<lparr>gw_kill_switch := k'\<rparr>), Inr d))"


section \<open>Outcome lemmas\<close>

text \<open>A well-labelled outcome: blocking reasons never carry the shadow prefix, shadow notes always do.\<close>

fun well_labelled :: "outcome \<Rightarrow> bool" where
  "well_labelled (Block r) \<longleftrightarrow> \<not> is_shadow_reason r"
| "well_labelled (Shadow rs) \<longleftrightarrow> list_all is_shadow_reason rs"
| "well_labelled _ \<longleftrightarrow> True"

fun votes_against :: "outcome \<Rightarrow> bool" where
  "votes_against (Block _) = True"
| "votes_against (Raise _) = True"
| "votes_against _ = False"

lemma well_labelled_on_value [intro!]:
  "(\<And>a. r = Inr a \<Longrightarrow> well_labelled (f a)) \<Longrightarrow> well_labelled (on_value r f)"
  by (cases r) auto

lemma shadow_prefix_simps [simp]:
  "is_shadow_reason (Lit s # ps) \<longleftrightarrow> prefix ''event_veto_shadow:'' s"
  by (simp add: SHADOW_REASON_PREFIX_def)

declare is_shadow_reason.simps(1) [simp del]

lemma well_labelled_with_required:
  assumes "\<not> prefix ''event_veto_shadow:'' check" "well_labelled rest"
  shows "well_labelled (with_required pm c check names rest)"
  using assms by (simp add: with_required_def Let_def)

lemma well_labelled_blackout_v1 [simp]: "well_labelled (blackout_v1 w now evs)"
  by (induction evs) auto

lemma well_labelled_blackout_v2 [simp]: "well_labelled (blackout_v2 p a d evs)"
  by (induction evs) auto

lemma well_labelled_currency_legs [simp]: "well_labelled (currency_legs c l legs)"
  by (induction legs) auto

lemma well_labelled_kill_switch: "well_labelled (snd (check_kill_switch L k c))"
  by (auto simp: check_kill_switch_def allows_def permits_def Let_def split: option.splits ks_mode.splits)

lemma well_labelled_event_veto: "well_labelled (check_event_veto c)"
  by (auto simp: check_event_veto_def split: option.splits)

lemmas simple_check_defs =
  check_strategy_lifecycle_def check_market_state_def check_direction_permitted_def check_data_freshness_def
  check_stale_price_def check_abnormal_spread_def spread_multiple_outcome_def check_broker_health_def
  check_event_blackout_def check_instrument_lock_def check_max_per_trade_risk_def check_total_drawdown_def
  check_margin_utilisation_def limit_outcome_def loss_outcome_def

lemmas required_check_defs =
  check_max_account_risk_def check_max_instrument_exposure_def check_max_strategy_exposure_def
  check_max_currency_exposure_def check_max_correlated_exposure_def check_daily_loss_def check_weekly_loss_def

lemma run_check_well_labelled: "well_labelled (run_check E g c l ch)"
proof (cases ch)
  case Kill_switch
  then show ?thesis by (simp add: well_labelled_kill_switch)
next
  case Event_veto
  then show ?thesis by (simp add: well_labelled_event_veto)
qed (auto simp: simple_check_defs required_check_defs Let_def
       intro!: well_labelled_with_required split: option.splits sum.splits lock_error.splits)

lemma outcome_reasons_blocking:
  "well_labelled v \<Longrightarrow> filter (\<lambda>r. \<not> is_shadow_reason r) (outcome_reasons name v) = [] \<longleftrightarrow> \<not> votes_against v"
  by (cases v) (auto simp: list_all_iff filter_empty_conv)

lemma verify_coverage_full [simp]: "verify_coverage checks checks = []"
  by (simp add: verify_coverage_def)

lemma filter_concat_Nil: "filter P (concat xss) = [] \<longleftrightarrow> (\<forall>xs \<in> set xss. filter P xs = [])"
  by (induction xss) auto

lemma evaluate_allowed:
  "rd_allowed (snd (evaluate E g c)) \<longleftrightarrow>
     list_all (\<lambda>ch. \<not> votes_against (run_check E g c (limits_in_force g c) ch)) CHECKS"
  by (simp add: evaluate_def entry_reasons_def Let_def filter_concat_Nil outcome_reasons_blocking
      run_check_well_labelled list_all_iff)

lemma CHECKS_all [simp]: "ch \<in> set CHECKS"
  by (cases ch) (simp_all add: CHECKS_def)

lemma evaluate_allowedD:
  "rd_allowed (snd (evaluate E g c)) \<Longrightarrow> \<not> votes_against (run_check E g c (limits_in_force g c) ch)"
  by (simp add: evaluate_allowed list_all_iff)

end
