(* ===== verification/Execution_Service.thy ===== *)
theory Execution_Service
  imports Risk_Gateway Mode_Guard
begin

text \<open>
  The order lifecycle of \<open>broker/execution_service.py\<close> over the adapter contract of \<open>broker/base.py\<close>: the
  durable intents and their stores, the protocol of submit, close, amend, partial close and flatten, and the
  reconciliation with the venue.

  An adapter is a record of functions over a venue state of any type; what a venue may answer is an
  acknowledgement or one of the broker exceptions. The service's state carries a trace of its store writes
  and venue instructions in the order they happen, which the code does not keep; it is what ordering claims
  speak about. Float parsing of venue values and the identifier of a new order are arguments.
\<close>

section \<open>The adapter contract\<close>

datatype order_status = OS_ACCEPTED | OS_FILLED | OS_PARTIALLY_FILLED | OS_REJECTED | OS_CANCELLED | OS_UNKNOWN

definition os_terminal :: "order_status \<Rightarrow> bool" where
  "os_terminal s \<longleftrightarrow> s \<in> {OS_FILLED, OS_REJECTED, OS_CANCELLED}"

record order_ack =
  oa_status :: order_status
  oa_broker_ref :: "string option"
  oa_client_ref :: string
  oa_order_id :: string
  oa_submitted_at :: tstamp
  oa_acked_at :: "tstamp option"
  oa_fill :: "fill option"
  oa_message :: string
  oa_raw :: jdict

text \<open>The truth value of an optional string.\<close>

definition given :: "string option \<Rightarrow> bool" where
  "given x \<longleftrightarrow> (case x of Some s \<Rightarrow> s \<noteq> [] | None \<Rightarrow> False)"

definition ack_post_init :: "order_ack \<Rightarrow> pyexn + order_ack" where
  "ack_post_init a =
     (if oa_status a \<in> {OS_FILLED, OS_PARTIALLY_FILLED} \<and> \<not> given (oa_broker_ref a)
      then Inl (ValueError (lit ''A filled order must carry the venue's reference.''))
      else Inr a)"

text \<open>What an adapter call may raise: the broker exceptions (\<open>PositionNotFound\<close> is a \<open>BrokerRejected\<close>; every
  other class of the hierarchy is a plain \<open>BrokerError\<close> with its name), or anything else.\<close>

datatype broker_exn =
    BrokerRejected ftext
  | PositionNotFound ftext
  | DuplicateClientRef ftext
  | BrokerUnavailable ftext
  | AmendNotSupported ftext
  | OtherBrokerError string ftext
  | NotBrokerError pyexn

record 'v adapter =
  ad_venue_name :: string
  ad_place_order :: "order \<Rightarrow> 'v \<Rightarrow> 'v \<times> (broker_exn + order_ack)"
  ad_close_position :: "position \<Rightarrow> string \<Rightarrow> jval \<Rightarrow> 'v \<Rightarrow> 'v \<times> (broker_exn + order_ack)"
  ad_amend_position :: "position \<Rightarrow> flt option \<Rightarrow> flt option \<Rightarrow> string \<Rightarrow> string \<Rightarrow> 'v \<Rightarrow> 'v \<times> (broker_exn + order_ack)"
  ad_close_partial :: "position \<Rightarrow> flt \<Rightarrow> string \<Rightarrow> string \<Rightarrow> 'v \<Rightarrow> 'v \<times> (broker_exn + order_ack)"
  ad_orders :: "'v \<Rightarrow> 'v \<times> (pyexn + order_ack list)"
  ad_positions :: "'v \<Rightarrow> 'v \<times> (pyexn + position list)"


section \<open>Intents\<close>

datatype intent_state =
  IS_PENDING | IS_UNKNOWN | IS_ACKED | IS_FILLED | IS_REJECTED | IS_CANCELLED | IS_CLOSED | IS_BLOCKED

fun intent_value :: "intent_state \<Rightarrow> string" where
  "intent_value IS_PENDING = ''pending''"
| "intent_value IS_UNKNOWN = ''unknown''"
| "intent_value IS_ACKED = ''acked''"
| "intent_value IS_FILLED = ''filled''"
| "intent_value IS_REJECTED = ''rejected''"
| "intent_value IS_CANCELLED = ''cancelled''"
| "intent_value IS_CLOSED = ''closed''"
| "intent_value IS_BLOCKED = ''blocked''"

definition is_terminal :: "intent_state \<Rightarrow> bool" where
  "is_terminal s \<longleftrightarrow> s \<in> {IS_FILLED, IS_REJECTED, IS_CANCELLED, IS_CLOSED, IS_BLOCKED}"

definition needs_reconciliation :: "intent_state \<Rightarrow> bool" where
  "needs_reconciliation s \<longleftrightarrow> s \<in> {IS_PENDING, IS_UNKNOWN, IS_ACKED}"

definition blocks_resubmission :: "intent_state \<Rightarrow> bool" where
  "blocks_resubmission s \<longleftrightarrow> s \<noteq> IS_REJECTED \<and> s \<notin> {IS_CANCELLED, IS_BLOCKED}"

definition client_ref_for :: "trade_plan \<Rightarrow> string" where
  "client_ref_for p = ''FBK-'' @ pl_plan_id p"

definition level_text :: "flt option \<Rightarrow> string" where
  "level_text v = (case v of None \<Rightarrow> ''none'' | Some x \<Rightarrow> show_fixed 10 x)"

definition amend_client_ref :: "string \<Rightarrow> flt option \<Rightarrow> flt option \<Rightarrow> string" where
  "amend_client_ref pid sl tp = ''FBK-AMEND-'' @ pid @ ''-'' @ level_text sl @ ''-'' @ level_text tp"

record order_intent =
  oi_client_ref :: string
  oi_plan_id :: string
  oi_signal_id :: string
  oi_strategy_id :: string
  oi_instrument :: string
  oi_direction :: direction
  oi_size :: flt
  oi_mode :: exec_mode
  oi_state :: intent_state
  oi_created_at :: tstamp
  oi_updated_at :: tstamp
  oi_venue :: string
  oi_order_id :: string
  oi_broker_ref :: "string option"
  oi_stop_loss :: "flt option"
  oi_take_profit :: "flt option"
  oi_filled_size :: flt
  oi_filled_price :: jval
  oi_last_error :: ftext
  oi_limits_version :: string
  oi_dispatch_attempts :: nat
  oi_extra :: jdict


section \<open>Intent stores\<close>

text \<open>\<open>_current\<close> is a dict: an association list in insertion order, one entry per client reference. The in-memory
  store also keeps its history; the JSON-lines store keeps the file, one line per write.\<close>

fun dict_put :: "'k \<Rightarrow> 'a \<Rightarrow> ('k \<times> 'a) list \<Rightarrow> ('k \<times> 'a) list" where
  "dict_put k v [] = [(k, v)]"
| "dict_put k v ((k', v') # kvs) = (if k' = k then (k, v) # kvs else (k', v') # dict_put k v kvs)"

type_synonym intents = "(string \<times> order_intent) list"

datatype intent_store =
    MemStore (st_current: intents) (st_log: "order_intent list")
  | JsonlStore (st_current: intents) (st_log: "order_intent list")

fun store_write :: "order_intent \<Rightarrow> intent_store \<Rightarrow> intent_store" where
  "store_write i (MemStore cur hist) = MemStore (dict_put (oi_client_ref i) i cur) (hist @ [i])"
| "store_write i (JsonlStore cur file) = JsonlStore (dict_put (oi_client_ref i) i cur) (file @ [i])"

definition store_get :: "string \<Rightarrow> intent_store \<Rightarrow> order_intent option" where
  "store_get r s = map_of (st_current s) r"

text \<open>\<open>existing is not None and existing.state.blocks_resubmission\<close>.\<close>

definition live_intent :: "string \<Rightarrow> intent_store \<Rightarrow> bool" where
  "live_intent r s \<longleftrightarrow> (case store_get r s of Some i \<Rightarrow> blocks_resubmission (oi_state i) | None \<Rightarrow> False)"

definition store_all :: "intent_store \<Rightarrow> order_intent list" where
  "store_all s = map snd (sort_key fst (st_current s))"

text \<open>Opening a JSON-lines store replays its file.\<close>

definition store_open :: "order_intent list \<Rightarrow> intent_store" where
  "store_open file = JsonlStore (fold (\<lambda>i cur. dict_put (oi_client_ref i) i cur) file []) file"


section \<open>The service\<close>

datatype event = Wrote order_intent | Dispatched string

record 'v service =
  xs_gateway :: gateway
  xs_guard :: mode_guard
  xs_store :: intent_store
  xs_venue :: 'v
  xs_url :: string
  xs_mode :: exec_mode
  xs_trace :: "event list"

record exec_env =
  xe_gw :: gw_env
  xe_times :: ts_text
  xe_ip_ok :: "string \<Rightarrow> bool"
  xe_float :: "jval \<Rightarrow> pyexn + flt"

abbreviation IdempotencyViolation :: "ftext \<Rightarrow> pyexn" where
  "IdempotencyViolation \<equiv> PyExn ''IdempotencyViolation''"

record submit_outcome =
  so_accepted :: bool
  so_intent :: "order_intent option"
  so_decision :: "risk_decision option"
  so_ack :: "order_ack option"
  so_reason :: ftext

abbreviation outcome_of ::
  "bool \<Rightarrow> order_intent option \<Rightarrow> risk_decision option \<Rightarrow> order_ack option \<Rightarrow> ftext \<Rightarrow> submit_outcome" where
  "outcome_of ok i d a r \<equiv> \<lparr>so_accepted = ok, so_intent = i, so_decision = d, so_ack = a, so_reason = r\<rparr>"

definition write_intent :: "order_intent \<Rightarrow> 'v service \<Rightarrow> 'v service" where
  "write_intent i s = s\<lparr>xs_store := store_write i (xs_store s), xs_trace := xs_trace s @ [Wrote i]\<rparr>"

text \<open>Calling the adapter with a client reference.\<close>

definition dispatch :: "string \<Rightarrow> ('v \<Rightarrow> 'v \<times> 'r) \<Rightarrow> 'v service \<Rightarrow> 'v service \<times> 'r" where
  "dispatch r call s =
     (case call (xs_venue s) of (v, res) \<Rightarrow> (s\<lparr>xs_venue := v, xs_trace := xs_trace s @ [Dispatched r]\<rparr>, res))"

definition first_target :: "trade_plan \<Rightarrow> flt option" where
  "first_target p = (case sg_take_profit_prices (pl_signal p) of [] \<Rightarrow> None | t # _ \<Rightarrow> Some t)"

definition new_intent ::
  "'v adapter \<Rightarrow> exec_mode \<Rightarrow> trade_plan \<Rightarrow> string \<Rightarrow> tstamp \<Rightarrow> intent_state \<Rightarrow> string \<Rightarrow> ftext \<Rightarrow> string \<Rightarrow> order_intent" where
  "new_intent A mode p r now state oid err lv =
     \<lparr>oi_client_ref = r, oi_plan_id = pl_plan_id p, oi_signal_id = sg_signal_id (pl_signal p),
      oi_strategy_id = sg_strategy_id (pl_signal p), oi_instrument = pl_instrument p, oi_direction = pl_direction p,
      oi_size = pl_size p, oi_mode = mode, oi_state = state, oi_created_at = now, oi_updated_at = now,
      oi_venue = ad_venue_name A, oi_order_id = oid, oi_broker_ref = None,
      oi_stop_loss = Some (sg_stop_price (pl_signal p)), oi_take_profit = first_target p, oi_filled_size = Fin 0,
      oi_filled_price = JNull, oi_last_error = err, oi_limits_version = lv, oi_dispatch_attempts = 0,
      oi_extra =
        [(''risk_amount'', JFloat (pl_risk_amount p)), (''sizing_basis'', JStr (pl_sizing_basis p)),
         (''take_profit_prices'', JList (map JFloat (sg_take_profit_prices (pl_signal p)))),
         (''take_profit_allocations'', JList (map JFloat (sg_take_profit_allocations (pl_signal p))))]\<rparr>"

definition build_order :: "exec_mode \<Rightarrow> trade_plan \<Rightarrow> string \<Rightarrow> tstamp \<Rightarrow> string \<Rightarrow> pyexn + order" where
  "build_order mode p r now oid =
     order_post_init
       \<lparr>o_plan_id = pl_plan_id p, o_instrument = pl_instrument p, o_direction = pl_direction p, o_size = pl_size p,
        o_order_type = MARKET, o_mode = mode, o_client_ref = r, o_limit_price = None,
        o_stop_loss = Some (sg_stop_price (pl_signal p)), o_take_profit = first_target p,
        o_take_profit_prices = sg_take_profit_prices (pl_signal p),
        o_take_profit_allocations = sg_take_profit_allocations (pl_signal p), o_created_at = Some now, o_order_id = oid\<rparr>"

text \<open>\<open>float(raw.get("filled_size", d) or 0.0)\<close>.\<close>

fun jtruthy :: "jval \<Rightarrow> bool" where
  "jtruthy JNull = False"
| "jtruthy (JBool b) = b"
| "jtruthy (JInt i) = (i \<noteq> 0)"
| "jtruthy (JFloat x) = truthy x"
| "jtruthy (JStr s) = (s \<noteq> [])"
| "jtruthy (JList vs) = (vs \<noteq> [])"
| "jtruthy (JDict kvs) = (kvs \<noteq> [])"

definition raw_size :: "(jval \<Rightarrow> pyexn + flt) \<Rightarrow> jdict \<Rightarrow> flt \<Rightarrow> pyexn + flt" where
  "raw_size F raw dflt =
     (let v = (case map_of raw ''filled_size'' of Some v \<Rightarrow> v | None \<Rightarrow> JFloat dflt) in
      if \<not> jtruthy v then Inr (Fin 0)
      else case v of JFloat x \<Rightarrow> Inr x | JInt i \<Rightarrow> Inr (Fin (of_int i)) | JBool b \<Rightarrow> Inr (Fin (of_bool b)) | _ \<Rightarrow> F v)"

fun state_of_status :: "order_status \<Rightarrow> intent_state" where
  "state_of_status OS_FILLED = IS_FILLED"
| "state_of_status OS_PARTIALLY_FILLED = IS_FILLED"
| "state_of_status OS_ACCEPTED = IS_ACKED"
| "state_of_status OS_REJECTED = IS_REJECTED"
| "state_of_status OS_CANCELLED = IS_CANCELLED"
| "state_of_status OS_UNKNOWN = IS_UNKNOWN"

abbreviation or_ref :: "string option \<Rightarrow> string option \<Rightarrow> string option" where
  "or_ref a b \<equiv> (if given a then a else b)"

definition apply_ack :: "(jval \<Rightarrow> pyexn + flt) \<Rightarrow> order_intent \<Rightarrow> order_ack \<Rightarrow> tstamp \<Rightarrow> pyexn + order_intent" where
  "apply_ack F i a now =
     rbind (case oa_fill a of Some f \<Rightarrow> Inr (f_filled_size f) | None \<Rightarrow> raw_size F (oa_raw a) (Fin 0)) (\<lambda>size.
       let price = (case oa_fill a of Some f \<Rightarrow> JFloat (f_filled_price f)
                    | None \<Rightarrow> (case map_of (oa_raw a) ''price'' of Some v \<Rightarrow> v | None \<Rightarrow> JNull))
       in Inr (i\<lparr>oi_state := state_of_status (oa_status a), oi_updated_at := now,
                 oi_broker_ref := or_ref (oa_broker_ref a) (oi_broker_ref i),
                 oi_order_id := (if oi_order_id i \<noteq> [] then oi_order_id i else oa_order_id a),
                 oi_filled_size := (if truthy size then size else oi_filled_size i),
                 oi_filled_price := (if price \<noteq> JNull then price else oi_filled_price i),
                 oi_last_error := (if oa_status a = OS_REJECTED then lit (oa_message a) else oi_last_error i)\<rparr>))"


section \<open>Submitting an order\<close>

definition limits_version_of :: "risk_context \<Rightarrow> string" where
  "limits_version_of c = (case cx_limits c of Some l \<Rightarrow> lm_version l | None \<Rightarrow> [])"

text \<open>What a broker exception does to the intent of an entry: \<open>Inr (state, error, text)\<close>, or the exception escapes.\<close>

fun submit_failure :: "broker_exn \<Rightarrow> pyexn + intent_state \<times> ftext \<times> ftext" where
  "submit_failure (BrokerRejected t) = Inr (IS_REJECTED, Lit ''broker_rejected:'' # t, t)"
| "submit_failure (PositionNotFound t) = Inr (IS_REJECTED, Lit ''broker_rejected:'' # t, t)"
| "submit_failure (DuplicateClientRef t) = Inr (IS_UNKNOWN, Lit ''duplicate_client_ref:'' # t, t)"
| "submit_failure (BrokerUnavailable t) = Inr (IS_UNKNOWN, Lit ''broker_unavailable:'' # t, t)"
| "submit_failure (AmendNotSupported t) = Inr (IS_UNKNOWN, Lit ''broker_error:AmendNotSupported:'' # t, t)"
| "submit_failure (OtherBrokerError cls t) = Inr (IS_UNKNOWN, [Lit ''broker_error:'', Lit cls, Lit '':''] @ t, t)"
| "submit_failure (NotBrokerError e) = Inl e"

text \<open>Steps 4 to 6: write PENDING, dispatch, record the answer.\<close>

definition place ::
  "exec_env \<Rightarrow> 'v adapter \<Rightarrow> order \<Rightarrow> order_intent \<Rightarrow> risk_decision \<Rightarrow> tstamp \<Rightarrow> 'v service \<Rightarrow>
   'v service \<times> (pyexn + submit_outcome)" where
  "place X A ord pending d now s0 =
     (let s1 = write_intent pending s0; r = oi_client_ref pending; i = pending\<lparr>oi_dispatch_attempts := 1\<rparr> in
      case dispatch r (ad_place_order A ord) s1 of
        (s2, Inl e) \<Rightarrow>
          (case submit_failure e of
             Inl x \<Rightarrow> (s2, Inl x)
           | Inr (state, err, why) \<Rightarrow>
               let s3 = write_intent (i\<lparr>oi_state := state, oi_updated_at := now, oi_last_error := err\<rparr>) s2
               in (s3, Inr (outcome_of False (store_get r (xs_store s3)) (Some d) None why)))
      | (s2, Inr a) \<Rightarrow>
          (case apply_ack (xe_float X) i a now of
             Inl x \<Rightarrow> (s2, Inl x)
           | Inr updated \<Rightarrow>
               (write_intent updated s2, Inr (outcome_of (oa_status a \<noteq> OS_REJECTED) (Some updated) (Some d) (Some a) []))))"

text \<open>\<open>";".join(reasons)\<close>.\<close>

fun join_reasons :: "ftext list \<Rightarrow> ftext" where
  "join_reasons [] = []"
| "join_reasons [r] = r"
| "join_reasons (r # rs) = r @ Lit '';'' # join_reasons rs"

text \<open>Steps 2 and 3: the gateway, then the order.\<close>

definition submit_evaluated ::
  "exec_env \<Rightarrow> 'v adapter \<Rightarrow> string \<Rightarrow> trade_plan \<Rightarrow> risk_context \<Rightarrow> 'v service \<Rightarrow> 'v service \<times> (pyexn + submit_outcome)" where
  "submit_evaluated X A oid p c s =
     (let now = cx_now c; r = client_ref_for p in
      case evaluate (xe_gw X) (xs_gateway s) c of
        (g, d) \<Rightarrow>
          let s1 = s\<lparr>xs_gateway := g\<rparr> in
          if \<not> rd_allowed d then
            let blocked = new_intent A (xs_mode s) p r now IS_BLOCKED [] (join_reasons (rd_reasons d)) (limits_version_of c)
            in (write_intent blocked s1, Inr (outcome_of False (Some blocked) (Some d) None (lit ''risk_gateway_blocked'')))
          else
            case build_order (xs_mode s) p r now oid of
              Inl e \<Rightarrow> (s1, Inl e)
            | Inr ord \<Rightarrow> place X A ord (new_intent A (xs_mode s) p r now IS_PENDING oid [] (limits_version_of c)) d now s1)"

definition submit ::
  "exec_env \<Rightarrow> 'v adapter \<Rightarrow> string \<Rightarrow> trade_plan \<Rightarrow> risk_context \<Rightarrow> 'v service \<Rightarrow> 'v service \<times> (pyexn + submit_outcome)" where
  "submit X A oid p c s =
     (let now = cx_now c; r = client_ref_for p in
      case guard_check (xe_times X) (xe_ip_ok X) now (xs_guard s) (xs_mode s) (sg_strategy_id (pl_signal p)) (xs_url s) (Some now) of
        Inl e \<Rightarrow> (s, Inl e)
      | Inr g \<Rightarrow>
          if \<not> gd_allowed g then
            let why = [Lit ''mode_guard_blocked:'', Lit (join '', '' (failed_controls g))];
                s1 = write_intent (new_intent A (xs_mode s) p r now IS_BLOCKED [] why []) s
            in (s1, Inr (outcome_of False (store_get r (xs_store s1)) None None why))
          else
            if live_intent r (xs_store s)
            then (s, Inl (IdempotencyViolation [Lit ''client_ref '', Lit r, Lit '' is already live'']))
            else submit_evaluated X A oid p c s)"


section \<open>Closing a position\<close>

definition position_intent ::
  "'v adapter \<Rightarrow> exec_mode \<Rightarrow> position \<Rightarrow> string \<Rightarrow> direction \<Rightarrow> flt \<Rightarrow> tstamp \<Rightarrow> flt option \<Rightarrow> flt option \<Rightarrow> jdict \<Rightarrow> order_intent" where
  "position_intent A mode pos r dir sz now sl tp extra =
     \<lparr>oi_client_ref = r, oi_plan_id = ps_position_id pos, oi_signal_id = [], oi_strategy_id = ps_strategy_id pos,
      oi_instrument = ps_instrument pos, oi_direction = dir, oi_size = sz, oi_mode = mode, oi_state = IS_PENDING,
      oi_created_at = now, oi_updated_at = now, oi_venue = ad_venue_name A, oi_order_id = [],
      oi_broker_ref = ps_venue_ref pos, oi_stop_loss = sl, oi_take_profit = tp, oi_filled_size = Fin 0,
      oi_filled_price = JNull, oi_last_error = [], oi_limits_version = [], oi_dispatch_attempts = 0, oi_extra = extra\<rparr>"

definition close_client_ref :: "position \<Rightarrow> string" where
  "close_client_ref pos = ''FBK-CLOSE-'' @ ps_position_id pos"

definition partial_client_ref :: "position \<Rightarrow> flt \<Rightarrow> string" where
  "partial_client_ref pos sz = ''FBK-PARTIAL-'' @ ps_position_id pos @ ''-'' @ show_fixed 10 sz"

text \<open>How closing treats a broker exception: \<open>Inr (accepted, state, error, text)\<close>.\<close>

fun close_failure :: "broker_exn \<Rightarrow> pyexn + bool \<times> intent_state \<times> ftext \<times> ftext" where
  "close_failure (PositionNotFound t) = Inr (True, IS_CLOSED, Lit ''already_flat:'' # t, Lit ''already_flat:'' # t)"
| "close_failure (BrokerRejected t) = Inr (False, IS_REJECTED, Lit ''broker_rejected:'' # t, t)"
| "close_failure (DuplicateClientRef t) = Inr (False, IS_UNKNOWN, Lit ''DuplicateClientRef:'' # t, t)"
| "close_failure (BrokerUnavailable t) = Inr (False, IS_UNKNOWN, Lit ''BrokerUnavailable:'' # t, t)"
| "close_failure (AmendNotSupported t) = Inr (False, IS_UNKNOWN, Lit ''AmendNotSupported:'' # t, t)"
| "close_failure (OtherBrokerError cls t) = Inr (False, IS_UNKNOWN, [Lit cls, Lit '':''] @ t, t)"
| "close_failure (NotBrokerError e) = Inl e"

definition fill_size :: "order_ack \<Rightarrow> flt \<Rightarrow> flt" where
  "fill_size a dflt = (case oa_fill a of Some f \<Rightarrow> f_filled_size f | None \<Rightarrow> dflt)"

definition fill_price :: "order_ack \<Rightarrow> jval" where
  "fill_price a = (case oa_fill a of Some f \<Rightarrow> JFloat (f_filled_price f) | None \<Rightarrow> JNull)"

definition close ::
  "exec_env \<Rightarrow> 'v adapter \<Rightarrow> position \<Rightarrow> exit_context \<Rightarrow> 'v service \<Rightarrow> 'v service \<times> (pyexn + submit_outcome)" where
  "close X A pos c s =
     (let now = cx_now c; r = close_client_ref pos in
      case evaluate_exit (xe_gw X) (xs_gateway s) c of
        (g, Inl e) \<Rightarrow> (s\<lparr>xs_gateway := g\<rparr>, Inl e)
      | (g, Inr d) \<Rightarrow>
          let s1 = s\<lparr>xs_gateway := g\<rparr> in
          if \<not> rd_allowed d then (s1, Inr (outcome_of False None (Some d) None (lit ''risk_gateway_blocked_exit'')))
          else if live_intent r (xs_store s1)
          then (s1, Inl (IdempotencyViolation [Lit ''close for '', Lit (ps_position_id pos), Lit '' is already live'']))
          else
            let i = position_intent A (xs_mode s) pos r (dir_opposite (ps_direction pos)) (ps_size pos) now None None
                      [(''closing'', JBool True), (''position_id'', JStr (ps_position_id pos))];
                why = (case map_of (cx_extra c) ''reason'' of Some v \<Rightarrow> v | None \<Rightarrow> JStr [])
            in case dispatch r (ad_close_position A pos r why) (write_intent i s1) of
                 (s2, Inl e) \<Rightarrow>
                   (case close_failure e of
                      Inl x \<Rightarrow> (s2, Inl x)
                    | Inr (ok, state, err, msg) \<Rightarrow>
                        let s3 = write_intent (i\<lparr>oi_state := state, oi_updated_at := now, oi_last_error := err\<rparr>) s2
                        in (s3, Inr (outcome_of ok (store_get r (xs_store s3)) (Some d) None msg)))
               | (s2, Inr a) \<Rightarrow>
                   let closed = i\<lparr>oi_state := IS_CLOSED, oi_updated_at := now,
                          oi_broker_ref := or_ref (oa_broker_ref a) (oi_broker_ref i),
                          oi_filled_size := fill_size a (Fin 0), oi_filled_price := fill_price a\<rparr>
                   in (write_intent closed s2, Inr (outcome_of True (Some closed) (Some d) (Some a) [])))"

text \<open>Closing every position, an exception of one becoming its outcome.\<close>

fun flatten ::
  "exec_env \<Rightarrow> 'v adapter \<Rightarrow> (position \<Rightarrow> pyexn + exit_context) \<Rightarrow> position list \<Rightarrow> 'v service \<Rightarrow>
   'v service \<times> submit_outcome list" where
  "flatten X A mk [] s = (s, [])"
| "flatten X A mk (pos # ps) s =
     (case (case mk pos of Inl e \<Rightarrow> (s, Inl e) | Inr c \<Rightarrow> close X A pos c s) of
        (s1, res) \<Rightarrow>
          let out = (case res of Inr q \<Rightarrow> q
                     | Inl e \<Rightarrow> outcome_of False None None None ([Lit (exn_class e), Lit '':''] @ exn_text e))
          in case flatten X A mk ps s1 of (s2, outs) \<Rightarrow> (s2, out # outs))"


section \<open>Amending and partly closing\<close>

record amend_outcome = submit_outcome +
  ao_attempts :: int
  ao_skipped :: bool

abbreviation amend_outcome_of ::
  "bool \<Rightarrow> order_intent option \<Rightarrow> risk_decision option \<Rightarrow> order_ack option \<Rightarrow> ftext \<Rightarrow> int \<Rightarrow> bool \<Rightarrow> amend_outcome" where
  "amend_outcome_of ok i d a r n sk \<equiv>
     \<lparr>so_accepted = ok, so_intent = i, so_decision = d, so_ack = a, so_reason = r, ao_attempts = n, ao_skipped = sk\<rparr>"

datatype amend_failure =
    Stop intent_state ftext
  | Again intent_state ftext
  | Escape pyexn

fun classify_amend :: "broker_exn \<Rightarrow> amend_failure" where
  "classify_amend (PositionNotFound t) = Stop IS_CLOSED (Lit ''already_flat:'' # t)"
| "classify_amend (AmendNotSupported t) = Stop IS_REJECTED (Lit ''amend_not_supported:'' # t)"
| "classify_amend (BrokerRejected t) = Again IS_REJECTED (Lit ''BrokerRejected:'' # t)"
| "classify_amend (DuplicateClientRef t) = Again IS_UNKNOWN (Lit ''DuplicateClientRef:'' # t)"
| "classify_amend (BrokerUnavailable t) = Again IS_UNKNOWN (Lit ''BrokerUnavailable:'' # t)"
| "classify_amend (OtherBrokerError cls t) = Again IS_UNKNOWN ([Lit cls, Lit '':''] @ t)"
| "classify_amend (NotBrokerError e) = Escape e"

text \<open>The attempts of one amendment, \<open>n\<close> of them left, the next being number \<open>k\<close>.\<close>

fun amend_loop ::
  "nat \<Rightarrow> nat \<Rightarrow> int \<Rightarrow> string \<Rightarrow> ('v \<Rightarrow> 'v \<times> (broker_exn + order_ack)) \<Rightarrow> order_intent \<Rightarrow> risk_decision \<Rightarrow> tstamp \<Rightarrow>
   ftext \<Rightarrow> 'v service \<Rightarrow> 'v service \<times> (pyexn + amend_outcome)" where
  "amend_loop 0 k attempts r call i0 d now err s =
     (s, Inr (amend_outcome_of False (store_get r (xs_store s)) (Some d) None err attempts False))"
| "amend_loop (Suc n) k attempts r call i0 d now err s =
     (let i = i0\<lparr>oi_dispatch_attempts := k, oi_updated_at := now\<rparr> in
      case dispatch r call s of
        (s1, Inr a) \<Rightarrow>
          let applied = i\<lparr>oi_state := IS_FILLED, oi_updated_at := now,
                oi_broker_ref := or_ref (oa_broker_ref a) (oi_broker_ref i),
                oi_order_id := (if oi_order_id i \<noteq> [] then oi_order_id i else oa_order_id a), oi_last_error := []\<rparr>
          in (write_intent applied s1, Inr (amend_outcome_of True (Some applied) (Some d) (Some a) [] (int k) False))
      | (s1, Inl e) \<Rightarrow>
          (case classify_amend e of
             Escape x \<Rightarrow> (s1, Inl x)
           | Stop state msg \<Rightarrow>
               let s2 = write_intent (i\<lparr>oi_state := state, oi_updated_at := now, oi_last_error := msg\<rparr>) s1
               in (s2, Inr (amend_outcome_of False (store_get r (xs_store s2)) (Some d) None msg (int k) False))
           | Again state msg \<Rightarrow>
               amend_loop n (Suc k) attempts r call i d now msg
                 (write_intent (i\<lparr>oi_state := state, oi_updated_at := now, oi_last_error := msg\<rparr>) s1)))"

text \<open>\<open>retry\<close> is the attempts of the retry policy, if one is given; a policy with zero attempts counts as one.\<close>

definition amend ::
  "exec_env \<Rightarrow> 'v adapter \<Rightarrow> position \<Rightarrow> flt option \<Rightarrow> flt option \<Rightarrow> exit_context \<Rightarrow> int option \<Rightarrow> string \<Rightarrow> 'v service \<Rightarrow>
   'v service \<times> (pyexn + amend_outcome)" where
  "amend X A pos sl tp c retry reason s =
     (let now = cx_now c; r = amend_client_ref (ps_position_id pos) sl tp in
      case evaluate_exit (xe_gw X) (xs_gateway s) c of
        (g, Inl e) \<Rightarrow> (s\<lparr>xs_gateway := g\<rparr>, Inl e)
      | (g, Inr d) \<Rightarrow>
          let s1 = s\<lparr>xs_gateway := g\<rparr> in
          if \<not> rd_allowed d then (s1, Inr (amend_outcome_of False None (Some d) None (lit ''risk_gateway_blocked_amend'') 0 False))
          else if map_option oi_state (store_get r (xs_store s1)) = Some IS_FILLED
          then (s1, Inr (amend_outcome_of True (store_get r (xs_store s1)) (Some d) None (lit ''already_applied'') 0 True))
          else
            let i = position_intent A (xs_mode s) pos r (ps_direction pos) (ps_size pos) now sl tp
                      [(''amend'', JBool True), (''position_id'', JStr (ps_position_id pos)), (''reason'', JStr reason)];
                attempts = (case retry of Some n \<Rightarrow> if n \<noteq> 0 then n else 1 | None \<Rightarrow> 1)
            in amend_loop (nat attempts) 1 attempts r (ad_amend_position A pos sl tp r reason) i d now [] (write_intent i s1))"

definition close_partial ::
  "exec_env \<Rightarrow> 'v adapter \<Rightarrow> position \<Rightarrow> flt \<Rightarrow> exit_context \<Rightarrow> string \<Rightarrow> 'v service \<Rightarrow> 'v service \<times> (pyexn + amend_outcome)" where
  "close_partial X A pos sz c reason s =
     (let now = cx_now c; r = partial_client_ref pos sz in
      case evaluate_exit (xe_gw X) (xs_gateway s) c of
        (g, Inl e) \<Rightarrow> (s\<lparr>xs_gateway := g\<rparr>, Inl e)
      | (g, Inr d) \<Rightarrow>
          let s1 = s\<lparr>xs_gateway := g\<rparr> in
          if \<not> rd_allowed d then (s1, Inr (amend_outcome_of False None (Some d) None (lit ''risk_gateway_blocked_partial'') 0 False))
          else if live_intent r (xs_store s1)
          then (s1, Inl (IdempotencyViolation [Lit ''a partial close of '', Repr sz, Lit '' on '', Lit (ps_position_id pos), Lit '' is already live'']))
          else
            let i = position_intent A (xs_mode s) pos r (dir_opposite (ps_direction pos)) sz now None None
                      [(''partial_close'', JBool True), (''position_id'', JStr (ps_position_id pos)), (''reason'', JStr reason)]
            in case dispatch r (ad_close_partial A pos sz r reason) (write_intent i s1) of
                 (s2, Inl e) \<Rightarrow>
                   (case close_failure e of
                      Inl x \<Rightarrow> (s2, Inl x)
                    | Inr (ok, state, err, msg) \<Rightarrow>
                        let s3 = write_intent (i\<lparr>oi_state := state, oi_updated_at := now, oi_last_error := err\<rparr>) s2
                        in (s3, Inr (amend_outcome_of ok (store_get r (xs_store s3)) (Some d) None msg 1 ok)))
               | (s2, Inr a) \<Rightarrow>
                   let done' = i\<lparr>oi_state := IS_FILLED, oi_updated_at := now,
                          oi_broker_ref := or_ref (oa_broker_ref a) (oi_broker_ref i),
                          oi_filled_size := fill_size a sz, oi_filled_price := fill_price a\<rparr>
                   in (write_intent done' s2, Inr (amend_outcome_of True (Some done') (Some d) (Some a) [] 1 False)))"


section \<open>Reconciliation and recovery\<close>

record reconciliation_report =
  rr_at :: tstamp
  rr_checked :: nat
  rr_resolved :: "string list"
  rr_still_unknown :: "string list"
  rr_orphan_broker_refs :: "string list"
  rr_size_mismatches :: "(string \<times> flt \<times> flt) list"
  rr_errors :: "ftext list"

definition report_clean :: "reconciliation_report \<Rightarrow> bool" where
  "report_clean r \<longleftrightarrow> rr_still_unknown r = [] \<and> rr_orphan_broker_refs r = [] \<and> rr_size_mismatches r = [] \<and> rr_errors r = []"

text \<open>The two indexes over the venue's orders; a later order with the same key wins.\<close>

definition by_broker_ref :: "order_ack list \<Rightarrow> string \<rightharpoonup> order_ack" where
  "by_broker_ref acks = map_of (rev (map (\<lambda>a. (the (oa_broker_ref a), a)) (filter (\<lambda>a. given (oa_broker_ref a)) acks)))"

definition by_client_ref :: "order_ack list \<Rightarrow> string \<rightharpoonup> order_ack" where
  "by_client_ref acks = map_of (rev (map (\<lambda>a. (oa_client_ref a, a)) (filter (\<lambda>a. oa_client_ref a \<noteq> []) acks)))"

definition find_ack :: "order_ack list \<Rightarrow> order_intent \<Rightarrow> order_ack option" where
  "find_ack acks i =
     (case (if given (oi_broker_ref i) then by_broker_ref acks (the (oi_broker_ref i)) else None) of
        Some a \<Rightarrow> Some a
      | None \<Rightarrow> by_client_ref acks (oi_client_ref i))"

record recon_acc =
  ra_resolved :: "string list"
  ra_unknown :: "string list"
  ra_mismatches :: "(string \<times> flt \<times> flt) list"

definition size_mismatch :: "order_ack \<Rightarrow> flt \<Rightarrow> flt \<Rightarrow> bool" where
  "size_mismatch a venue_size local_size \<longleftrightarrow>
     oa_status a \<in> {OS_FILLED, OS_PARTIALLY_FILLED} \<and> venue_size > Fin 0 \<and> \<bar>venue_size - local_size\<bar> > Fin (1 / 10 ^ 9)"

definition reconcile_intent ::
  "exec_env \<Rightarrow> order_ack list \<Rightarrow> tstamp \<Rightarrow> order_intent \<Rightarrow> 'v service \<times> recon_acc \<Rightarrow> 'v service \<times> (pyexn + recon_acc)" where
  "reconcile_intent X acks now i sa =
     (case sa of (s, acc) \<Rightarrow>
        case find_ack acks i of
          None \<Rightarrow>
            if oi_state i = IS_PENDING
            then (write_intent (i\<lparr>oi_state := IS_CANCELLED, oi_updated_at := now,
                    oi_last_error := lit ''reconciled:venue_has_no_record_of_pending_order''\<rparr>) s,
                  Inr (acc\<lparr>ra_resolved := ra_resolved acc @ [oi_client_ref i]\<rparr>))
            else (s, Inr (acc\<lparr>ra_unknown := ra_unknown acc @ [oi_client_ref i]\<rparr>))
        | Some a \<Rightarrow>
            (case apply_ack (xe_float X) i a now of
               Inl e \<Rightarrow> (s, Inl e)
             | Inr u \<Rightarrow>
                 let acc1 = (if given (oi_broker_ref u) \<and> \<not> given (oi_broker_ref i) \<or> oi_state u \<noteq> oi_state i
                             then acc\<lparr>ra_resolved := ra_resolved acc @ [oi_client_ref i]\<rparr> else acc);
                     s1 = write_intent u s;
                     acc2 = (if needs_reconciliation (oi_state u) then acc1\<lparr>ra_unknown := ra_unknown acc1 @ [oi_client_ref i]\<rparr> else acc1)
                 in case raw_size (xe_float X) (oa_raw a) (oi_filled_size u) of
                      Inl e \<Rightarrow> (s1, Inl e)
                    | Inr vs \<Rightarrow>
                        (s1, Inr (if size_mismatch a vs (oi_filled_size u)
                                  then acc2\<lparr>ra_mismatches := ra_mismatches acc2 @ [(oi_client_ref i, oi_filled_size u, vs)]\<rparr>
                                  else acc2))))"

fun reconcile_loop ::
  "exec_env \<Rightarrow> order_ack list \<Rightarrow> tstamp \<Rightarrow> order_intent list \<Rightarrow> 'v service \<Rightarrow> recon_acc \<Rightarrow> 'v service \<times> (pyexn + recon_acc)" where
  "reconcile_loop X acks now [] s acc = (s, Inr acc)"
| "reconcile_loop X acks now (i # is) s acc =
     (case reconcile_intent X acks now i (s, acc) of
        (s1, Inl e) \<Rightarrow> (s1, Inl e)
      | (s1, Inr acc1) \<Rightarrow> reconcile_loop X acks now is s1 acc1)"

definition sorted_set :: "string list \<Rightarrow> string list" where
  "sorted_set xs = sort (remdups xs)"

definition known_refs :: "intent_store \<Rightarrow> string list" where
  "known_refs st = map (\<lambda>i. the (oi_broker_ref i)) (filter (\<lambda>i. given (oi_broker_ref i)) (store_all st))"

definition orphans :: "intent_store \<Rightarrow> position list \<Rightarrow> string list" where
  "orphans st ps =
     sort (map (\<lambda>p. the (ps_venue_ref p))
       (filter (\<lambda>p. given (ps_venue_ref p) \<and> the (ps_venue_ref p) \<notin> set (known_refs st)) ps))"

definition unreachable_report :: "tstamp \<Rightarrow> pyexn \<Rightarrow> reconciliation_report" where
  "unreachable_report now e =
     \<lparr>rr_at = now, rr_checked = 0, rr_resolved = [], rr_still_unknown = [], rr_orphan_broker_refs = [],
      rr_size_mismatches = [], rr_errors = [[Lit ''venue_unreachable:'', Lit (exn_class e), Lit '':''] @ exn_text e]\<rparr>"

definition reconcile ::
  "exec_env \<Rightarrow> 'v adapter \<Rightarrow> tstamp \<Rightarrow> 'v service \<Rightarrow> 'v service \<times> (pyexn + reconciliation_report)" where
  "reconcile X A now s =
     (case ad_orders A (xs_venue s) of
        (v1, Inl e) \<Rightarrow> (s\<lparr>xs_venue := v1\<rparr>, Inr (unreachable_report now e))
      | (v1, Inr acks) \<Rightarrow>
          (case ad_positions A v1 of
             (v2, Inl e) \<Rightarrow> (s\<lparr>xs_venue := v2\<rparr>, Inr (unreachable_report now e))
           | (v2, Inr ps) \<Rightarrow>
               let outstanding = filter (\<lambda>i. needs_reconciliation (oi_state i)) (store_all (xs_store s)) in
               case reconcile_loop X acks now outstanding (s\<lparr>xs_venue := v2\<rparr>)
                      \<lparr>ra_resolved = [], ra_unknown = [], ra_mismatches = []\<rparr> of
                 (s1, Inl e) \<Rightarrow> (s1, Inl e)
               | (s1, Inr acc) \<Rightarrow>
                   (s1, Inr \<lparr>rr_at = now, rr_checked = length outstanding, rr_resolved = sorted_set (ra_resolved acc),
                             rr_still_unknown = sorted_set (ra_unknown acc),
                             rr_orphan_broker_refs = orphans (xs_store s1) ps,
                             rr_size_mismatches = ra_mismatches acc, rr_errors = []\<rparr>)))"

record recovered_position =
  rp_position :: position
  rp_intent :: "order_intent option"
  rp_broker_ref :: string
  rp_has_local_record :: bool
  rp_stop_loss :: "flt option"

definition or_level :: "flt option \<Rightarrow> flt option \<Rightarrow> flt option" where
  "or_level a b = (case a of Some x \<Rightarrow> if truthy x then a else b | None \<Rightarrow> b)"

definition recover_position :: "(string \<rightharpoonup> order_intent) \<Rightarrow> position \<Rightarrow> recovered_position" where
  "recover_position by_ref pos =
     (let ref = (case ps_venue_ref pos of Some x \<Rightarrow> x | None \<Rightarrow> []);
          intent = by_ref ref;
          stop = or_level (ps_stop_loss pos) (case intent of Some i \<Rightarrow> oi_stop_loss i | None \<Rightarrow> None);
          p1 = (case intent of
                  Some i \<Rightarrow> if ps_stop_loss pos \<in> {None, Some (Fin 0)} \<and> or_level (oi_stop_loss i) None \<noteq> None
                            then pos\<lparr>ps_stop_loss := oi_stop_loss i\<rparr> else pos
                | None \<Rightarrow> pos);
          p2 = (case intent of Some i \<Rightarrow> if ps_strategy_id p1 = [] then p1\<lparr>ps_strategy_id := oi_strategy_id i\<rparr> else p1 | None \<Rightarrow> p1)
      in \<lparr>rp_position = p2, rp_intent = intent, rp_broker_ref = ref, rp_has_local_record = (intent \<noteq> None), rp_stop_loss = stop\<rparr>)"

record recovery_report =
  rv_at :: tstamp
  rv_positions :: "recovered_position list"
  rv_unresolved_intents :: "order_intent list"
  rv_reconciliation :: reconciliation_report

definition intents_by_ref :: "intent_store \<Rightarrow> string \<rightharpoonup> order_intent" where
  "intents_by_ref st =
     map_of (rev (map (\<lambda>i. (the (oi_broker_ref i), i)) (filter (\<lambda>i. given (oi_broker_ref i)) (store_all st))))"

definition recover ::
  "exec_env \<Rightarrow> 'v adapter \<Rightarrow> tstamp \<Rightarrow> 'v service \<Rightarrow> 'v service \<times> (pyexn + recovery_report)" where
  "recover X A now s =
     (case reconcile X A now s of
        (s1, Inl e) \<Rightarrow> (s1, Inl e)
      | (s1, Inr rep) \<Rightarrow>
          (case ad_positions A (xs_venue s1) of
             (v, res) \<Rightarrow>
               let ps = (case res of Inl _ \<Rightarrow> [] | Inr ps \<Rightarrow> ps); s2 = s1\<lparr>xs_venue := v\<rparr> in
               (s2, Inr \<lparr>rv_at = now, rv_positions = map (recover_position (intents_by_ref (xs_store s1))) ps,
                         rv_unresolved_intents =
                           filter (\<lambda>i. needs_reconciliation (oi_state i) \<and> \<not> given (oi_broker_ref i)) (store_all (xs_store s1)),
                         rv_reconciliation = rep\<rparr>)))"

end
