(* ===== verification/Execution_Protocol.thy ===== *)
theory Execution_Protocol
  imports Execution_Service
begin

text \<open>
  The protocol lemmas of the execution service: the intent store as a keyed store whose last write wins, the
  write-ahead discipline of every instruction that reaches the venue, when an entry may reach it, and what one
  pass of reconciliation does to the store.
\<close>

section \<open>The store interface\<close>

text \<open>What the service relies on: a write is what the next read of its key returns, and no other key moves.\<close>

locale keyed_store =
  fixes key :: "'i \<Rightarrow> 'k" and put :: "'i \<Rightarrow> 's \<Rightarrow> 's" and fetch :: "'k \<Rightarrow> 's \<Rightarrow> 'i option"
  assumes fetch_put: "fetch k (put i s) = (if k = key i then Some i else fetch k s)"
begin

lemma fetch_puts_other: "list_all (\<lambda>i. key i \<noteq> k) is \<Longrightarrow> fetch k (fold put is s) = fetch k s"
  by (induction "is" arbitrary: s) (auto simp: fetch_put)

lemma last_write_wins: "list_all (\<lambda>j. key j \<noteq> key i) later \<Longrightarrow> fetch (key i) (fold put (earlier @ i # later) s) = Some i"
  by (simp add: fetch_puts_other fetch_put)

end

lemma map_of_dict_put: "map_of (dict_put k v kvs) = (map_of kvs)(k \<mapsto> v)"
  by (induction k v kvs rule: dict_put.induct) auto

lemma store_get_write: "store_get r (store_write i s) = (if r = oi_client_ref i then Some i else store_get r s)"
  by (cases s) (simp_all add: store_get_def map_of_dict_put)

interpretation ist: keyed_store oi_client_ref store_write store_get
  by unfold_locales (rule store_get_write)

text \<open>A store's \<open>_current\<close> has one entry per reference, under that intent's own reference.\<close>

definition store_ok :: "intent_store \<Rightarrow> bool" where
  "store_ok s \<longleftrightarrow> distinct (map fst (st_current s)) \<and> (\<forall>(k, i) \<in> set (st_current s). k = oi_client_ref i)"

lemma set_dict_put: "set (dict_put k v kvs) \<subseteq> insert (k, v) (set kvs)"
  by (induction k v kvs rule: dict_put.induct) auto

lemma keys_dict_put: "set (map fst (dict_put k v kvs)) = insert k (set (map fst kvs))"
  by (induction k v kvs rule: dict_put.induct) auto

lemma distinct_dict_put: "distinct (map fst kvs) \<Longrightarrow> distinct (map fst (dict_put k v kvs))"
proof (induction k v kvs rule: dict_put.induct)
  case (2 k v k' v' kvs)
  then show ?case using keys_dict_put [of k v kvs] by auto
qed simp

lemma store_ok_write: "store_ok s \<Longrightarrow> store_ok (store_write i s)"
  using set_dict_put [of "oi_client_ref i" i]
  by (cases s) (auto simp: store_ok_def distinct_dict_put dest!: set_mp)

lemma store_all_get: "store_ok s \<Longrightarrow> i \<in> set (store_all s) \<longleftrightarrow> store_get (oi_client_ref i) s = Some i"
  by (force simp: store_ok_def store_all_def store_get_def image_iff intro: map_of_is_SomeI dest: map_of_SomeD)

lemma store_all_refs: "store_ok s \<Longrightarrow> distinct (map oi_client_ref (store_all s))"
proof -
  assume ok: "store_ok s"
  have "map oi_client_ref (store_all s) = map fst (sort_key fst (st_current s))"
    using ok by (auto simp: store_all_def store_ok_def)
  moreover have "mset (map fst (sort_key fst (st_current s))) = mset (map fst (st_current s))" by simp
  ultimately show ?thesis using ok mset_eq_imp_distinct_iff unfolding store_ok_def by metis
qed

text \<open>Reopening the file gives back every current intent.\<close>

lemma store_open_get:
  "store_get r (store_open lines) = store_get r (fold store_write lines (JsonlStore [] []))"
proof -
  have "st_current (fold store_write rows (JsonlStore cur f)) = fold (\<lambda>i cur. dict_put (oi_client_ref i) i cur) rows cur" for rows cur f
    by (induction rows arbitrary: cur f) auto
  then show ?thesis by (simp add: store_get_def store_open_def)
qed


section \<open>Service bookkeeping\<close>

lemma write_simps [simp]:
  "xs_store (write_intent i s) = store_write i (xs_store s)" "xs_trace (write_intent i s) = xs_trace s @ [Wrote i]"
  "xs_venue (write_intent i s) = xs_venue s" "xs_gateway (write_intent i s) = xs_gateway s"
  "xs_mode (write_intent i s) = xs_mode s" "xs_guard (write_intent i s) = xs_guard s" "xs_url (write_intent i s) = xs_url s"
  by (simp_all add: write_intent_def)

lemma dispatch_cases:
  assumes "dispatch r call s = (s', res)"
  obtains v where "call (xs_venue s) = (v, res)" "s' = s\<lparr>xs_venue := v, xs_trace := xs_trace s @ [Dispatched r]\<rparr>"
  using assms by (auto simp: dispatch_def split: prod.splits)

text \<open>Write-ahead: every venue instruction is preceded by the write of a PENDING intent with its reference.\<close>

fun write_ahead :: "string list \<Rightarrow> event list \<Rightarrow> bool" where
  "write_ahead pending [] = True"
| "write_ahead pending (Wrote i # es) = write_ahead (if oi_state i = IS_PENDING then oi_client_ref i # pending else pending) es"
| "write_ahead pending (Dispatched r # es) = (r \<in> set pending \<and> write_ahead pending es)"

lemma write_ahead_mono: "set p \<subseteq> set q \<Longrightarrow> write_ahead p es \<Longrightarrow> write_ahead q es"
proof (induction p es arbitrary: q rule: write_ahead.induct)
  case (2 p i es)
  have "set (if oi_state i = IS_PENDING then oi_client_ref i # p else p)
      \<subseteq> set (if oi_state i = IS_PENDING then oi_client_ref i # q else q)" using "2.prems"(1) by auto
  from "2.IH" [OF this] show ?case using "2.prems"(2) by simp
qed auto

lemma write_ahead_append: "write_ahead p xs \<Longrightarrow> write_ahead p ys \<Longrightarrow> write_ahead p (xs @ ys)"
proof (induction p xs rule: write_ahead.induct)
  case (2 p i es)
  have "set p \<subseteq> set (if oi_state i = IS_PENDING then oi_client_ref i # p else p)" by auto
  from write_ahead_mono [OF this "2.prems"(2)] "2.IH" "2.prems"(1) show ?case by simp
qed auto

definition extends :: "'v service \<Rightarrow> 'v service \<Rightarrow> (event list \<Rightarrow> bool) \<Rightarrow> bool" where
  "extends s s' P \<longleftrightarrow> (\<exists>es. xs_trace s' = xs_trace s @ es \<and> P es)"

lemma extendsI: "xs_trace s' = xs_trace s @ es \<Longrightarrow> P es \<Longrightarrow> extends s s' P"
  by (auto simp: extends_def)

lemma new_intent_simps [simp]:
  "oi_client_ref (new_intent A m p r now st oid err lv) = r" "oi_state (new_intent A m p r now st oid err lv) = st"
  "oi_broker_ref (new_intent A m p r now st oid err lv) = None"
  by (simp_all add: new_intent_def)

lemma position_intent_simps [simp]:
  "oi_client_ref (position_intent A m pos r d sz now sl tp ex) = r"
  "oi_state (position_intent A m pos r d sz now sl tp ex) = IS_PENDING"
  "oi_broker_ref (position_intent A m pos r d sz now sl tp ex) = ps_venue_ref pos"
  by (simp_all add: position_intent_def)

lemma place_write_ahead:
  assumes "oi_state pending = IS_PENDING"
  shows "extends s (fst (place X A ord pending d now s)) (write_ahead [])"
  using assms
  by (auto simp: place_def dispatch_def Let_def extends_def split: prod.splits sum.splits)

lemma gateway_step [simp]: "extends (s\<lparr>xs_gateway := g\<rparr>) s' P = extends s s' P"
  by (simp add: extends_def)

lemma extends_refl: "extends s s (write_ahead [])"
  by (simp add: extends_def)

lemma extends_gateway: "extends s (s\<lparr>xs_gateway := g\<rparr>) (write_ahead [])"
  by (simp add: extends_def)

lemma extends_write: "extends s (write_intent i s) (write_ahead [])"
  by (simp add: extends_def)

lemma submit_evaluated_write_ahead: "extends s (fst (submit_evaluated X A oid p c s)) (write_ahead [])"
proof (cases "evaluate (xe_gw X) (xs_gateway s) c")
  case (Pair g d)
  let ?s1 = "s\<lparr>xs_gateway := g\<rparr>"
  have "extends ?s1 (write_intent i ?s1) (write_ahead [])" for i by (rule extends_write)
  moreover have "extends ?s1 (fst (place X A ord (new_intent A (xs_mode s) p r now IS_PENDING oid err lv) d t ?s1)) (write_ahead [])"
    for ord r now err lv t by (rule place_write_ahead) simp
  ultimately show ?thesis
    using extends_gateway [of s g] by (auto simp: submit_evaluated_def Pair Let_def split: sum.splits)
qed

lemma submit_write_ahead: "extends s (fst (submit X A oid p c s)) (write_ahead [])"
  using submit_evaluated_write_ahead [of s X A oid p c] extends_refl [of s] extends_write [of s]
  by (auto simp: submit_def Let_def split: sum.splits)

lemma close_write_ahead: "extends s (fst (close X A pos c s)) (write_ahead [])"
  by (auto simp: close_def dispatch_def extends_def Let_def split: prod.splits sum.splits)

lemma close_partial_write_ahead: "extends s (fst (close_partial X A pos sz c reason s)) (write_ahead [])"
  by (auto simp: close_partial_def dispatch_def extends_def Let_def split: prod.splits sum.splits)

lemma amend_loop_trace:
  "oi_client_ref i = r \<Longrightarrow>
   \<exists>es. xs_trace (fst (amend_loop n k attempts r call i d now err s)) = xs_trace s @ es \<and> write_ahead [r] es
        \<and> length (filter (\<lambda>e. e = Dispatched r) es) \<le> n"
proof (induction n arbitrary: k i err s)
  case 0
  then show ?case by simp
next
  case (Suc n)
  let ?i = "i\<lparr>oi_dispatch_attempts := k, oi_updated_at := now\<rparr>"
  obtain s1 res where disp: "dispatch r call s = (s1, res)" by (cases "dispatch r call s")
  then have t1: "xs_trace s1 = xs_trace s @ [Dispatched r]" by (auto elim!: dispatch_cases)
  show ?case
  proof (cases res)
    case (Inr a)
    then show ?thesis using disp t1 Suc.prems by (auto simp: Let_def)
  next
    case (Inl e)
    show ?thesis
    proof (cases "classify_amend e")
      case (Again state msg)
      let ?s2 = "write_intent (?i\<lparr>oi_state := state, oi_updated_at := now, oi_last_error := msg\<rparr>) s1"
      have "oi_client_ref ?i = r" using Suc.prems by simp
      from Suc.IH [OF this, of "Suc k" msg ?s2] obtain es where
          es: "xs_trace (fst (amend_loop n (Suc k) attempts r call ?i d now msg ?s2)) = xs_trace ?s2 @ es"
            "write_ahead [r] es" "length (filter (\<lambda>e. e = Dispatched r) es) \<le> n" by blast
      have "write_ahead q es" if "set q \<supseteq> {r}" for q using write_ahead_mono [of "[r]" q es] that es(2) by auto
      then show ?thesis using es t1 disp Inl Again Suc.prems by (auto simp: Let_def)
    qed (use disp t1 Inl Suc.prems in \<open>auto simp: Let_def\<close>)
  qed
qed

lemma amend_write_ahead: "extends s (fst (amend X A pos sl tp c retry reason s)) (write_ahead [])"
proof (cases "evaluate_exit (xe_gw X) (xs_gateway s) c")
  case (Pair g res)
  let ?r = "amend_client_ref (ps_position_id pos) sl tp" and ?s1 = "s\<lparr>xs_gateway := g\<rparr>"
  have loop: "extends s (fst (amend_loop n k att ?r call (position_intent A m pos ?r dr sz now sl tp ex) d t err
       (write_intent (position_intent A m pos ?r dr sz now sl tp ex) ?s1))) (write_ahead [])"
    for n k att call m dr sz now ex d t err
    using amend_loop_trace [of "position_intent A m pos ?r dr sz now sl tp ex" ?r n k att call d t err
        "write_intent (position_intent A m pos ?r dr sz now sl tp ex) ?s1"]
    by (auto simp: extends_def)
  show ?thesis
    using loop extends_gateway [of s g] by (auto simp: amend_def Pair Let_def split: sum.splits)
qed

lemma flatten_write_ahead: "extends s (fst (flatten X A mk ps s)) (write_ahead [])"
proof (induction ps arbitrary: s)
  case Nil
  show ?case by (simp add: extends_refl)
next
  case (Cons pos ps)
  obtain s1 res where step: "(case mk pos of Inl e \<Rightarrow> (s, Inl e) | Inr c \<Rightarrow> close X A pos c s) = (s1, res)"
    by (cases "case mk pos of Inl e \<Rightarrow> (s, Inl e) | Inr c \<Rightarrow> close X A pos c s")
  have "extends s s1 (write_ahead [])"
    using step close_write_ahead [of s X A pos] extends_refl [of s] by (auto split: sum.splits) (metis fst_conv)
  with Cons [of s1] show ?case
    by (auto simp: step extends_def Let_def write_ahead_append split: prod.splits)
qed


section \<open>Entries\<close>

fun refused :: "broker_exn + order_ack \<Rightarrow> bool" where
  "refused (Inl (BrokerRejected _)) = True"
| "refused (Inl (PositionNotFound _)) = True"
| "refused (Inr a) = (oa_status a \<in> {OS_REJECTED, OS_CANCELLED})"
| "refused _ = False"

lemma apply_ack_ref: "apply_ack F i a now = Inr u \<Longrightarrow> oi_client_ref u = oi_client_ref i"
  by (auto simp: apply_ack_def rbind_eq_Inr Let_def)

lemma apply_ack_state: "apply_ack F i a now = Inr u \<Longrightarrow> oi_state u = state_of_status (oa_status a)"
  by (auto simp: apply_ack_def rbind_eq_Inr Let_def)

lemma state_blocks: "blocks_resubmission (state_of_status st) \<longleftrightarrow> st \<notin> {OS_REJECTED, OS_CANCELLED}"
  by (cases st) (auto simp: blocks_resubmission_def)

lemma failure_blocks: "submit_failure e = Inr (st, err, why) \<Longrightarrow> blocks_resubmission st \<longleftrightarrow> \<not> refused (Inl e)"
  by (cases e) (auto simp: blocks_resubmission_def)

lemma live_after_write: "live_intent r (store_write i s) \<longleftrightarrow> (if r = oi_client_ref i then blocks_resubmission (oi_state i) else live_intent r s)"
  by (simp add: live_intent_def store_get_write)

lemma place_live:
  assumes "oi_client_ref pending = r" "oi_state pending = IS_PENDING"
    and "\<And>v ans. ad_place_order A ord (xs_venue s) = (v, ans) \<Longrightarrow> \<not> refused ans"
  shows "live_intent r (xs_store (fst (place X A ord pending d now s)))"
proof -
  obtain v ans where ans: "ad_place_order A ord (xs_venue s) = (v, ans)" by (cases "ad_place_order A ord (xs_venue s)")
  have nr: "\<not> refused ans" by (rule assms(3) [OF ans])
  have pend: "blocks_resubmission IS_PENDING" by (simp add: blocks_resubmission_def)
  show ?thesis
  proof (cases ans)
    case (Inl e)
    then show ?thesis using ans assms(1,2) nr pend failure_blocks [of e]
      by (auto simp: place_def dispatch_def live_after_write Let_def split: sum.splits)
  next
    case (Inr a)
    then show ?thesis using ans assms(1,2) nr pend apply_ack_ref [of "xe_float X"] apply_ack_state [of "xe_float X"]
      by (auto simp: place_def dispatch_def live_after_write state_blocks Let_def split: sum.splits)
  qed
qed

abbreviation placement :: "exec_env \<Rightarrow> 'v adapter \<Rightarrow> order \<Rightarrow> string \<Rightarrow> trade_plan \<Rightarrow> risk_context \<Rightarrow> 'v service \<Rightarrow>
   'v service \<times> (pyexn + submit_outcome)" where
  "placement X A ord oid p c s \<equiv>
     place X A ord (new_intent A (xs_mode s) p (client_ref_for p) (cx_now c) IS_PENDING oid [] (limits_version_of c))
       (snd (evaluate (xe_gw X) (xs_gateway s) c)) (cx_now c) (s\<lparr>xs_gateway := fst (evaluate (xe_gw X) (xs_gateway s) c)\<rparr>)"

text \<open>The only way \<open>submit\<close> reaches the venue is through \<open>place\<close>, after the guard and the gateway have allowed it.\<close>

lemma submit_dispatch_cases:
  obtains (quiet) es where "xs_trace (fst (submit X A oid p c s)) = xs_trace s @ es" "\<forall>e \<in> set es. \<exists>i. e = Wrote i"
  | (placed) ord where "build_order (xs_mode s) p (client_ref_for p) (cx_now c) oid = Inr ord"
      "rd_allowed (snd (evaluate (xe_gw X) (xs_gateway s) c))" "\<not> live_intent (client_ref_for p) (xs_store s)"
      "submit X A oid p c s = placement X A ord oid p c s"
proof (cases "guard_check (xe_times X) (xe_ip_ok X) (cx_now c) (xs_guard s) (xs_mode s) (sg_strategy_id (pl_signal p)) (xs_url s) (Some (cx_now c))")
  case (Inl e)
  then show ?thesis using quiet [of "[]"] by (simp add: submit_def)
next
  case (Inr g)
  note guard = this
  show ?thesis
  proof (cases "gd_allowed g \<and> \<not> live_intent (client_ref_for p) (xs_store s)")
    case False
    then consider "\<not> gd_allowed g" | "gd_allowed g" "live_intent (client_ref_for p) (xs_store s)" by blast
    then show ?thesis
    proof cases
      case 1
      then show ?thesis using guard by (intro quiet) (auto simp: submit_def Let_def)
    next
      case 2
      then show ?thesis using guard quiet [of "[]"] by (simp add: submit_def Let_def)
    qed
  next
    case True
    then have sub: "submit X A oid p c s = submit_evaluated X A oid p c s" using guard by (simp add: submit_def)
    obtain g' d where ev: "evaluate (xe_gw X) (xs_gateway s) c = (g', d)" by (cases "evaluate (xe_gw X) (xs_gateway s) c")
    show ?thesis
    proof (cases "rd_allowed d")
      case no: False
      then show ?thesis using quiet sub ev by (auto simp: submit_evaluated_def Let_def)
    next
      case yes: True
      show ?thesis
      proof (cases "build_order (xs_mode s) p (client_ref_for p) (cx_now c) oid")
        case (Inl e)
        then show ?thesis using quiet [of "[]"] yes sub ev by (simp add: submit_evaluated_def Let_def)
      next
        case (Inr ord)
        then show ?thesis using placed [of ord] yes sub ev True by (simp add: submit_evaluated_def Let_def)
      qed
    qed
  qed
qed

lemma live_submit_quiet:
  assumes "live_intent (client_ref_for p) (xs_store s)"
  shows "\<exists>es. xs_trace (fst (submit X A oid p c s)) = xs_trace s @ es \<and> list_all (\<lambda>e. \<exists>i. e = Wrote i) es"
  by (rule submit_dispatch_cases [of X A oid p c s]) (use assms in \<open>auto simp: list_all_iff\<close>)


section \<open>Reconciliation\<close>

lemma reconcile_intent_ok:
  assumes "reconcile_intent X acks now i (s, acc) = (s', Inr acc')" "store_get (oi_client_ref i) (xs_store s) = Some i"
  shows "\<exists>j. store_get (oi_client_ref i) (xs_store s') = Some j \<and> (needs_reconciliation (oi_state j) \<longrightarrow> oi_client_ref i \<in> set (ra_unknown acc'))"
    and "r \<noteq> oi_client_ref i \<Longrightarrow> store_get r (xs_store s') = store_get r (xs_store s)"
    and "set (ra_unknown acc) \<subseteq> set (ra_unknown acc')" and "store_ok (xs_store s) \<Longrightarrow> store_ok (xs_store s')"
    and "find_ack acks i = None \<Longrightarrow> oi_state i = IS_PENDING \<Longrightarrow>
      map_option oi_state (store_get (oi_client_ref i) (xs_store s')) = Some IS_CANCELLED"
  using assms apply_ack_ref [of "xe_float X" i]
  by (auto simp: reconcile_intent_def Let_def store_get_write store_ok_write needs_reconciliation_def
      split: option.splits if_splits sum.splits)

lemma reconcile_loop_ok:
  assumes "reconcile_loop X acks now is s acc = (s', Inr acc')" "distinct (map oi_client_ref is)"
    and "\<forall>i \<in> set is. store_get (oi_client_ref i) (xs_store s) = Some i" "store_ok (xs_store s)"
  shows "store_ok (xs_store s') \<and> set (ra_unknown acc) \<subseteq> set (ra_unknown acc')
    \<and> (\<forall>r. r \<notin> set (map oi_client_ref is) \<longrightarrow> store_get r (xs_store s') = store_get r (xs_store s))
    \<and> (\<forall>i \<in> set is. (\<exists>j. store_get (oi_client_ref i) (xs_store s') = Some j
          \<and> (needs_reconciliation (oi_state j) \<longrightarrow> oi_client_ref i \<in> set (ra_unknown acc'))))
    \<and> (\<forall>i \<in> set is. find_ack acks i = None \<longrightarrow> oi_state i = IS_PENDING \<longrightarrow>
          map_option oi_state (store_get (oi_client_ref i) (xs_store s')) = Some IS_CANCELLED)"
  using assms
proof (induction "is" arbitrary: s acc)
  case Nil
  then show ?case by simp
next
  case (Cons i "is")
  obtain s1 acc1 where step: "reconcile_intent X acks now i (s, acc) = (s1, Inr acc1)"
    and rest: "reconcile_loop X acks now is s1 acc1 = (s', Inr acc')"
    using Cons.prems(1) by (auto split: prod.splits sum.splits)
  have gi: "store_get (oi_client_ref i) (xs_store s) = Some i" using Cons.prems(3) by simp
  note one = reconcile_intent_ok [OF step gi]
  have others: "\<forall>j \<in> set is. store_get (oi_client_ref j) (xs_store s1) = Some j"
    using Cons.prems(2,3) one(2) by (auto simp: image_iff)
  have ih: "store_ok (xs_store s') \<and> set (ra_unknown acc1) \<subseteq> set (ra_unknown acc')
    \<and> (\<forall>r. r \<notin> set (map oi_client_ref is) \<longrightarrow> store_get r (xs_store s') = store_get r (xs_store s1))
    \<and> (\<forall>i \<in> set is. (\<exists>j. store_get (oi_client_ref i) (xs_store s') = Some j
          \<and> (needs_reconciliation (oi_state j) \<longrightarrow> oi_client_ref i \<in> set (ra_unknown acc'))))
    \<and> (\<forall>i \<in> set is. find_ack acks i = None \<longrightarrow> oi_state i = IS_PENDING \<longrightarrow>
          map_option oi_state (store_get (oi_client_ref i) (xs_store s')) = Some IS_CANCELLED)"
    using Cons.IH [OF rest _ others] Cons.prems(2) one(4) [OF Cons.prems(4)] by simp
  have same: "store_get (oi_client_ref i) (xs_store s') = store_get (oi_client_ref i) (xs_store s1)"
    using ih Cons.prems(2) by auto
  show ?case using ih one(1,3,5) one(2) same Cons.prems(2) by (auto simp: subset_iff)
qed

end
