(* ===== verification/Gateway_Safety.thy ===== *)
theory Gateway_Safety
  imports Risk_Gateway
begin

text \<open>
  What the risk gateway's decisions mean: a specification of the ten limit checks over real numbers and the
  proof that the checks implement it on finite inputs, the fail-closed decision rule, the audit rows, the
  exit path, missing inputs, the event blackout and the shadow veto. A concrete order on a demo account
  serves as the witness.
\<close>

section \<open>What the limit checks promise\<close>

text \<open>
  The specification of the ten limit checks on real numbers: the book as it would stand after the trade,
  against every limit. It applies to contexts whose inputs are present and finite.
\<close>

fun val :: "flt \<Rightarrow> real" where
  "val (Fin r) = r"
| "val _ = 0"

fun finite_flt :: "flt \<Rightarrow> bool" where
  "finite_flt (Fin _) = True"
| "finite_flt _ = False"

lemma finite_flt_val [simp]: "finite_flt x \<Longrightarrow> Fin (val x) = x"
  by (cases x) auto

lemma finite_fltE: "finite_flt x \<Longrightarrow> (\<And>r. x = Fin r \<Longrightarrow> P) \<Longrightarrow> P"
  by (cases x) auto

definition present_finite :: "flt option \<Rightarrow> bool" where
  "present_finite x \<longleftrightarrow> (case x of Some v \<Rightarrow> finite_flt v | None \<Rightarrow> False)"

definition limit_inputs_finite :: "instrument \<Rightarrow> risk_context \<Rightarrow> limit_set \<Rightarrow> bool" where
  "limit_inputs_finite i c l \<longleftrightarrow>
     list_all finite_flt
       ([rc_equity c, ac_peak_equity (sn_account (rc_snapshot c)), ac_margin_used (sn_account (rc_snapshot c)),
         pl_risk_amount (rc_plan c), pl_size (rc_plan c), pl_max_leverage_applied (rc_plan c), mid_or_reference c,
         i_contract_size i, i_retail_leverage i,
         exposure_of (sn_instrument_exposure (rc_snapshot c)) (pl_instrument (rc_plan c)),
         exposure_of (sn_strategy_exposure (rc_snapshot c)) (sg_strategy_id (pl_signal (rc_plan c))),
         exposure_of (sn_currency_exposure (rc_snapshot c)) (i_base i),
         exposure_of (sn_currency_exposure (rc_snapshot c)) (i_quote i)] @ risk_limits l)
     \<and> list_all present_finite
         [rc_open_risk_amount c, rc_correlated_exposure c, rc_daily_pnl c, rc_weekly_pnl c, rc_fx_quote_to_account c]"

definition notional :: "instrument \<Rightarrow> risk_context \<Rightarrow> real" where
  "notional i c =
     \<bar>val (mid_or_reference c) * val (pl_size (rc_plan c)) * val (i_contract_size i) * val (the (rc_fx_quote_to_account c))\<bar>"

definition leverage_of :: "instrument \<Rightarrow> risk_context \<Rightarrow> real" where
  "leverage_of i c =
     (let lev = val (pl_max_leverage_applied (rc_plan c)) in if lev \<noteq> 0 then lev else val (i_retail_leverage i))"

definition within_limits :: "instrument \<Rightarrow> risk_context \<Rightarrow> limit_set \<Rightarrow> bool" where
  "within_limits i c l \<longleftrightarrow>
     (let e = val (rc_equity c); n = notional i c; r = val (pl_risk_amount (rc_plan c));
          s = rc_snapshot c; sgn = dir_sign (pl_direction (rc_plan c));
          cap = (\<lambda>limit. val limit / 100 * e) in
      e > 0
      \<and> r \<le> cap (lm_max_per_trade_risk_pct l)
      \<and> val (the (rc_open_risk_amount c)) + r \<le> cap (lm_max_account_risk_pct l)
      \<and> \<bar>val (exposure_of (sn_instrument_exposure s) (pl_instrument (rc_plan c)))\<bar> + n \<le> cap (lm_max_instrument_exposure_pct l)
      \<and> \<bar>val (exposure_of (sn_strategy_exposure s) (sg_strategy_id (pl_signal (rc_plan c))))\<bar> + n \<le> cap (lm_max_strategy_exposure_pct l)
      \<and> \<bar>val (exposure_of (sn_currency_exposure s) (i_base i)) + sgn * n\<bar> \<le> cap (lm_max_currency_exposure_pct l)
      \<and> \<bar>val (exposure_of (sn_currency_exposure s) (i_quote i)) - sgn * n\<bar> \<le> cap (lm_max_currency_exposure_pct l)
      \<and> val (the (rc_correlated_exposure c)) + n \<le> cap (lm_max_correlated_exposure_pct l)
      \<and> (val (the (rc_daily_pnl c)) \<ge> 0 \<or> - val (the (rc_daily_pnl c)) < cap (lm_max_daily_loss_pct l))
      \<and> (val (the (rc_weekly_pnl c)) \<ge> 0 \<or> - val (the (rc_weekly_pnl c)) < cap (lm_max_weekly_loss_pct l))
      \<and> (let peak = val (ac_peak_equity (sn_account s)); limit = val (lm_max_total_drawdown_pct l) in
          0 < limit \<and> (peak \<le> 0 \<or> peak - e < limit / 100 * peak))
      \<and> (let used = val (ac_margin_used (sn_account s)) in
          if lm_margin_utilisation_after_trade l = Some True
          then leverage_of i c > 0 \<and> used + n / leverage_of i c < cap (lm_max_margin_utilisation_pct l)
          else 0 < val (lm_max_margin_utilisation_pct l) \<and> used < cap (lm_max_margin_utilisation_pct l)))"

definition LIMIT_CHECKS :: "check list" where
  "LIMIT_CHECKS =
     [Max_per_trade_risk, Max_account_risk, Max_instrument_exposure, Max_strategy_exposure, Max_currency_exposure,
      Max_correlated_exposure, Daily_loss, Weekly_loss, Total_drawdown, Margin_utilisation]"

lemma pct_of_equity_Fin:
  "pct_of_equity (Fin a) (Fin e) =
     (if e \<le> 0 then Inl (ValueError (lit ''equity must be positive to express a percentage of it''))
      else Inr (Fin (a / e * 100)))"
  by (simp add: pct_of_equity_def)

lemma limit_vote:
  "votes_against (on_value (pct_of_equity (Fin a) (Fin e)) (\<lambda>pct. limit_outcome pct (Fin m) (why pct))) \<longleftrightarrow>
     \<not> (0 < e \<and> a \<le> m / 100 * e)"
  by (cases "0 < e") (auto simp: pct_of_equity_Fin limit_outcome_def field_simps)

lemma loss_vote:
  "votes_against (loss_outcome name (Fin p) (Fin e) (Fin m)) \<longleftrightarrow>
     \<not> (p \<ge> 0 \<or> (0 < e \<and> - p < m / 100 * e))"
  by (cases "0 < e") (auto simp: pct_of_equity_Fin loss_outcome_def field_simps)

declare py_max_Fin [simp]

lemma capped_ratio: "0 < b \<Longrightarrow> m \<le> max 0 (a / b * 100) \<longleftrightarrow> \<not> (0 < m \<and> a < m / 100 * (b :: real))"
  by (auto simp: le_max_iff_disj field_simps)

lemma drawdown_vote:
  assumes "ac_equity (sn_account (rc_snapshot c)) = Fin e" "ac_peak_equity (sn_account (rc_snapshot c)) = Fin p"
    "lm_max_total_drawdown_pct l = Fin m"
  shows "votes_against (check_total_drawdown c l) \<longleftrightarrow> \<not> (0 < m \<and> (p \<le> 0 \<or> p - e < m / 100 * p))"
  using assms capped_ratio [of p m "p - e"]
  by (cases "p \<le> 0") (auto simp: check_total_drawdown_def drawdown_pct_def)

lemma plan_notional_finite:
  assumes "limit_inputs_finite i c l" "rc_instrument reg c = Inr i"
  shows "plan_notional_account reg c = Inr (Fin (notional i c))"
  using assms
  by (auto simp: plan_notional_account_def limit_inputs_finite_def present_finite_def notional_def
      elim!: finite_fltE split: option.splits)

lemma currency_vote:
  assumes "rc_equity c = Fin e" "lm_max_currency_exposure_pct l = Fin m"
    "exposure_of (sn_currency_exposure (rc_snapshot c)) a = Fin x"
    "exposure_of (sn_currency_exposure (rc_snapshot c)) b = Fin y"
  shows "votes_against (currency_legs c l [(a, Fin u), (b, Fin v)]) \<longleftrightarrow>
     \<not> (0 < e \<and> \<bar>x + u\<bar> \<le> m / 100 * e \<and> \<bar>y + v\<bar> \<le> m / 100 * e)"
  using assms by (cases "0 < e") (auto simp: pct_of_equity_Fin field_simps)

lemma margin_before_vote:
  assumes "rc_equity c = Fin e" "ac_margin_used (sn_account (rc_snapshot c)) = Fin u"
    "lm_max_margin_utilisation_pct l = Fin m" "lm_margin_utilisation_after_trade l \<noteq> Some True" "0 < e"
  shows "votes_against (check_margin_utilisation reg c l) \<longleftrightarrow> \<not> (0 < m \<and> u < m / 100 * e)"
  using assms capped_ratio [of e m u]
  by (simp add: check_margin_utilisation_def margin_utilisation_def max_mult_distrib_right)

lemma applied_leverage_finite:
  assumes "limit_inputs_finite i c l" "rc_instrument reg c = Inr i"
  shows "applied_leverage reg c = Inr (Fin (leverage_of i c))"
  using assms
  by (auto simp: applied_leverage_def limit_inputs_finite_def leverage_of_def truthy_def elim!: finite_fltE)

lemma margin_after_vote:
  assumes "limit_inputs_finite i c l" "rc_instrument reg c = Inr i"
    "rc_equity c = Fin e" "ac_margin_used (sn_account (rc_snapshot c)) = Fin u"
    "lm_max_margin_utilisation_pct l = Fin m" "lm_margin_utilisation_after_trade l = Some True" "0 < e"
  shows "votes_against (check_margin_utilisation reg c l) \<longleftrightarrow>
    \<not> (leverage_of i c > 0 \<and> u + notional i c / leverage_of i c < m / 100 * e)"
  using assms(3-) applied_leverage_finite [OF assms(1,2)] plan_notional_finite [OF assms(1,2)]
  by (auto simp: check_margin_utilisation_def margin_utilisation_def Let_def not_le pos_less_divide_eq pos_divide_less_eq
    pos_le_divide_eq pos_divide_le_eq)

lemma with_required_present:
  "list_all (\<lambda>n. input_field c n \<noteq> None) names \<Longrightarrow> with_required pm c check names rest = rest"
  by (simp add: with_required_def filter_empty_conv list_all_iff)

lemma input_field_simps [simp]:
  "input_field c ''open_risk_amount'' = rc_open_risk_amount c"
  "input_field c ''fx_quote_to_account'' = rc_fx_quote_to_account c"
  "input_field c ''correlated_exposure'' = rc_correlated_exposure c"
  "input_field c ''daily_pnl'' = rc_daily_pnl c"
  "input_field c ''weekly_pnl'' = rc_weekly_pnl c"
  by (simp_all add: input_field_def INPUT_FIELDS_def)


lemmas finite_inputs = limit_inputs_finite_def present_finite_def risk_limits_def

lemma risk_votes:
  assumes "limit_inputs_finite i c l"
  shows "votes_against (check_max_per_trade_risk c l) \<longleftrightarrow>
      \<not> (0 < val (rc_equity c) \<and> val (pl_risk_amount (rc_plan c)) \<le> val (lm_max_per_trade_risk_pct l) / 100 * val (rc_equity c))"
    and "votes_against (check_max_account_risk pm c l) \<longleftrightarrow>
      \<not> (0 < val (rc_equity c) \<and> val (the (rc_open_risk_amount c)) + val (pl_risk_amount (rc_plan c))
             \<le> val (lm_max_account_risk_pct l) / 100 * val (rc_equity c))"
    and "votes_against (check_daily_loss pm c l) \<longleftrightarrow>
      \<not> (val (the (rc_daily_pnl c)) \<ge> 0 \<or>
          0 < val (rc_equity c) \<and> - val (the (rc_daily_pnl c)) < val (lm_max_daily_loss_pct l) / 100 * val (rc_equity c))"
    and "votes_against (check_weekly_loss pm c l) \<longleftrightarrow>
      \<not> (val (the (rc_weekly_pnl c)) \<ge> 0 \<or>
          0 < val (rc_equity c) \<and> - val (the (rc_weekly_pnl c)) < val (lm_max_weekly_loss_pct l) / 100 * val (rc_equity c))"
  using assms
  by (auto simp: check_max_per_trade_risk_def check_max_account_risk_def check_daily_loss_def check_weekly_loss_def
      with_required_present finite_inputs limit_vote loss_vote elim!: finite_fltE split: option.splits)

lemma exposure_votes:
  assumes fin: "limit_inputs_finite i c l" and reg: "rc_instrument reg c = Inr i"
  shows "votes_against (check_max_instrument_exposure reg pm c l) \<longleftrightarrow>
      \<not> (0 < val (rc_equity c) \<and>
          \<bar>val (exposure_of (sn_instrument_exposure (rc_snapshot c)) (pl_instrument (rc_plan c)))\<bar> + notional i c
            \<le> val (lm_max_instrument_exposure_pct l) / 100 * val (rc_equity c))"
    and "votes_against (check_max_strategy_exposure reg pm c l) \<longleftrightarrow>
      \<not> (0 < val (rc_equity c) \<and>
          \<bar>val (exposure_of (sn_strategy_exposure (rc_snapshot c)) (sg_strategy_id (pl_signal (rc_plan c))))\<bar> + notional i c
            \<le> val (lm_max_strategy_exposure_pct l) / 100 * val (rc_equity c))"
    and "votes_against (check_max_correlated_exposure reg pm c l) \<longleftrightarrow>
      \<not> (0 < val (rc_equity c) \<and>
          val (the (rc_correlated_exposure c)) + notional i c \<le> val (lm_max_correlated_exposure_pct l) / 100 * val (rc_equity c))"
  using fin plan_notional_finite [OF fin reg] reg
  by (auto simp: check_max_instrument_exposure_def check_max_strategy_exposure_def check_max_correlated_exposure_def
      with_required_present finite_inputs limit_vote elim!: finite_fltE split: option.splits)

lemma currency_exposure_vote:
  assumes fin: "limit_inputs_finite i c l" and reg: "rc_instrument reg c = Inr i"
  shows "votes_against (check_max_currency_exposure reg pm c l) \<longleftrightarrow>
      \<not> (0 < val (rc_equity c)
         \<and> \<bar>val (exposure_of (sn_currency_exposure (rc_snapshot c)) (i_base i)) + dir_sign (pl_direction (rc_plan c)) * notional i c\<bar>
             \<le> val (lm_max_currency_exposure_pct l) / 100 * val (rc_equity c)
         \<and> \<bar>val (exposure_of (sn_currency_exposure (rc_snapshot c)) (i_quote i)) - dir_sign (pl_direction (rc_plan c)) * notional i c\<bar>
             \<le> val (lm_max_currency_exposure_pct l) / 100 * val (rc_equity c))"
proof -
  have fx: "rc_fx_quote_to_account c \<noteq> None" using fin by (auto simp: finite_inputs split: option.splits)
  have vals: "rc_equity c = Fin (val (rc_equity c))" "lm_max_currency_exposure_pct l = Fin (val (lm_max_currency_exposure_pct l))"
    "exposure_of (sn_currency_exposure (rc_snapshot c)) (i_base i) = Fin (val (exposure_of (sn_currency_exposure (rc_snapshot c)) (i_base i)))"
    "exposure_of (sn_currency_exposure (rc_snapshot c)) (i_quote i) = Fin (val (exposure_of (sn_currency_exposure (rc_snapshot c)) (i_quote i)))"
    using fin by (simp_all add: finite_inputs)
  show ?thesis
    using currency_vote [OF vals, of "dir_sign (pl_direction (rc_plan c)) * notional i c" "- dir_sign (pl_direction (rc_plan c)) * notional i c"]
      plan_notional_finite [OF fin reg] reg fx
    by (simp add: check_max_currency_exposure_def with_required_present Let_def del: currency_legs.simps)
qed

lemma drawdown_margin_votes:
  assumes fin: "limit_inputs_finite i c l" and reg: "rc_instrument reg c = Inr i" and pos: "0 < val (rc_equity c)"
  shows "votes_against (check_total_drawdown c l) \<longleftrightarrow>
      \<not> (let peak = val (ac_peak_equity (sn_account (rc_snapshot c))); limit = val (lm_max_total_drawdown_pct l) in
          0 < limit \<and> (peak \<le> 0 \<or> peak - val (rc_equity c) < limit / 100 * peak))"
    and "votes_against (check_margin_utilisation reg c l) \<longleftrightarrow>
      \<not> (let used = val (ac_margin_used (sn_account (rc_snapshot c))); cap = val (lm_max_margin_utilisation_pct l) / 100 * val (rc_equity c) in
          if lm_margin_utilisation_after_trade l = Some True
          then leverage_of i c > 0 \<and> used + notional i c / leverage_of i c < cap
          else 0 < val (lm_max_margin_utilisation_pct l) \<and> used < cap)"
proof -
  have vals: "rc_equity c = Fin (val (rc_equity c))"
    "ac_peak_equity (sn_account (rc_snapshot c)) = Fin (val (ac_peak_equity (sn_account (rc_snapshot c))))"
    "ac_margin_used (sn_account (rc_snapshot c)) = Fin (val (ac_margin_used (sn_account (rc_snapshot c))))"
    "lm_max_total_drawdown_pct l = Fin (val (lm_max_total_drawdown_pct l))"
    "lm_max_margin_utilisation_pct l = Fin (val (lm_max_margin_utilisation_pct l))"
    using fin by (simp_all add: finite_inputs)
  show "votes_against (check_total_drawdown c l) \<longleftrightarrow>
      \<not> (let peak = val (ac_peak_equity (sn_account (rc_snapshot c))); limit = val (lm_max_total_drawdown_pct l) in
          0 < limit \<and> (peak \<le> 0 \<or> peak - val (rc_equity c) < limit / 100 * peak))"
    using drawdown_vote [OF vals(1,2,4)] by (simp add: Let_def)
  show "votes_against (check_margin_utilisation reg c l) \<longleftrightarrow>
      \<not> (let used = val (ac_margin_used (sn_account (rc_snapshot c))); cap = val (lm_max_margin_utilisation_pct l) / 100 * val (rc_equity c) in
          if lm_margin_utilisation_after_trade l = Some True
          then leverage_of i c > 0 \<and> used + notional i c / leverage_of i c < cap
          else 0 < val (lm_max_margin_utilisation_pct l) \<and> used < cap)"
    using margin_before_vote [OF vals(1,3,5) _ pos, of reg] margin_after_vote [OF fin reg vals(1,3,5) _ pos]
    by (simp add: Let_def)
qed

lemma limit_checks_spec:
  assumes fin: "limit_inputs_finite i c l" and reg: "rc_instrument (ge_registry E) c = Inr i"
  shows "list_all (\<lambda>ch. \<not> votes_against (run_check E g c l ch)) LIMIT_CHECKS \<longleftrightarrow> within_limits i c l"
proof (cases "0 < val (rc_equity c)")
  case True
  then show ?thesis
    by (simp add: LIMIT_CHECKS_def within_limits_def risk_votes [OF fin] exposure_votes [OF fin reg]
        currency_exposure_vote [OF fin reg] drawdown_margin_votes [OF fin reg True] Let_def)
next
  case False
  then show ?thesis by (simp add: LIMIT_CHECKS_def within_limits_def risk_votes [OF fin] Let_def)
qed


section \<open>A concrete entry\<close>

text \<open>A small EURUSD purchase on a healthy demo account, and the same order in the variations the witnesses need.\<close>

definition eurusd :: instrument where
  "eurusd = \<lparr>i_symbol = ''EURUSD'', i_asset_class = FX_MAJOR, i_base = ''EUR'', i_quote = ''USD'', i_pip_size = Fin (1 / 10 ^ 4),
     i_contract_size = Fin 1, i_min_size = Fin 1, i_size_step = Fin 1, i_price_precision = 5,
     i_typical_spread_pips = Fin 1, i_retail_leverage = Fin 30, i_annual_financing_bps = Fin 250,
     i_trading_hours = ''fx_24_5'', i_typical_spread_bps = None, i_shortable = True, i_venue = ''ig''\<rparr>"

definition sample_signal :: signal where
  "sample_signal = \<lparr>sg_strategy_id = ''s1'', sg_instrument = ''EURUSD'', sg_timeframe = ''H1'', sg_direction = LONG,
     sg_bar_time = utc 0, sg_reference_price = Fin (11 / 10), sg_stop_price = Fin 1, sg_take_profit_prices = [],
     sg_take_profit_allocations = [], sg_confidence = Fin 1, sg_rationale = [], sg_features = Map.empty,
     sg_signal_id = ''sig1''\<rparr>"

definition sample_plan :: trade_plan where
  "sample_plan = \<lparr>pl_signal = sample_signal, pl_size = Fin 500, pl_account_ccy = ''GBP'', pl_risk_amount = Fin 50,
     pl_sizing_basis = ''fixed'', pl_max_leverage_applied = Fin 0, pl_portfolio_weight = Fin 0, pl_plan_id = ''p1''\<rparr>"

definition sample_snapshot :: snapshot where
  "sample_snapshot =
     \<lparr>sn_account = \<lparr>ac_balance = Fin 10000, ac_equity = Fin 10000, ac_currency = ''GBP'', ac_margin_used = Fin 100,
        ac_open_positions = 0, ac_realised_pnl = Fin 0, ac_unrealised_pnl = Fin 0, ac_peak_equity = Fin 10500\<rparr>,
      sn_as_of = utc 0, sn_open_positions = [], sn_instrument_exposure = Map.empty, sn_strategy_exposure = Map.empty,
      sn_currency_exposure = Map.empty, sn_asset_class_exposure = Map.empty, sn_realised_portfolio_vol = Fin 0,
      sn_margin_available = Fin 9900, sn_regime = ''trend'', sn_open_risk_by_instrument = None\<rparr>"

definition sample_ctx :: risk_context where
  "sample_ctx =
     \<lparr>cx_now = utc (3600 * 10 ^ 9), cx_mode = DEMO, cx_limits = Some DEFAULT_LIMITS_V2,
      cx_market = \<lparr>mv_mid_price = Some (Fin (11 / 10)), mv_spread_price = Some (Fin (1 / 10 ^ 4)),
        mv_quote_time = Some (utc (3600 * 10 ^ 9)), mv_last_bar_time = Some (utc (3600 * 10 ^ 9)), mv_market_open = Some True,
        mv_regime = ''trend'', mv_event_times = [utc (10 * 3600 * 10 ^ 9)], mv_halted = False\<rparr>,
      cx_venue = \<lparr>vv_connected = Some True, vv_score = Some (Fin 1), vv_message = []\<rparr>,
      cx_request_kind = OPEN, cx_extra = [], rc_plan = sample_plan, rc_snapshot = sample_snapshot,
      rc_strategy = \<lparr>sv_lifecycle = Some LC_DEMO, sv_health = Fin 1, sv_degraded = False\<rparr>,
      rc_open_risk_amount = Some (Fin 100), rc_correlated_exposure = Some (Fin 0), rc_daily_pnl = Some (Fin (- 20)),
      rc_weekly_pnl = Some (Fin 0), rc_fx_quote_to_account = Some (Fin (8 / 10)), rc_event_veto = None\<rparr>"

definition sample_env :: gw_env where
  "sample_env =
     \<lparr>ge_row_length = (\<lambda>_. 100),
      ge_pandas = \<lparr>pd_minutes = (\<lambda>x. case x of Fin r \<Rightarrow> Inr \<lfloor>r * 60 * 10 ^ 9\<rfloor> | _ \<Rightarrow> Inl (ValueError [])),
                   pd_seconds = (\<lambda>d. Fin (of_int d / 10 ^ 9))\<rparr>,
      ge_registry = [''EURUSD'' \<mapsto> eurusd], ge_digest = (\<lambda>_. ''digest'')\<rparr>"

definition sample_gateway :: gateway where
  "sample_gateway =
     \<lparr>gw_mode = Some DEMO, gw_kill_switch = ks_new (\<lambda>_. 100) (FileJournal None),
      gw_paper_allows_missing_inputs = False, gw_attempts = [], gw_default_limits = DEFAULT_LIMITS, gw_locks = None\<rparr>"

lemmas sample_defs =
  eurusd_def sample_signal_def sample_plan_def sample_snapshot_def sample_ctx_def sample_env_def sample_gateway_def

lemma sample_lookup [simp]: "rc_instrument (ge_registry sample_env) sample_ctx = Inr eurusd"
  by (simp add: rc_instrument_def get_instrument_def sample_defs upper_char_def)

lemma sample_limits [simp]: "limits_in_force sample_gateway sample_ctx = DEFAULT_LIMITS_V2"
  by (simp add: limits_in_force_def sample_ctx_def)

lemma sample_finite: "limit_inputs_finite eurusd sample_ctx DEFAULT_LIMITS_V2"
  by (simp add: finite_inputs sample_defs exposure_of_def mid_or_reference_def truthy_def published_defs)

lemma sample_within: "within_limits eurusd sample_ctx DEFAULT_LIMITS_V2"
  by (simp add: within_limits_def sample_defs exposure_of_def mid_or_reference_def truthy_def published_defs notional_def
      leverage_of_def dir_sign_def Let_def)

definition GUARD_CHECKS :: "check list" where
  "GUARD_CHECKS =
     [Kill_switch, Strategy_lifecycle, Market_state, Direction_permitted, Data_freshness, Stale_price,
      Abnormal_spread, Broker_health, Event_blackout, Event_veto, Instrument_lock]"

lemma CHECKS_split: "CHECKS = GUARD_CHECKS @ LIMIT_CHECKS"
  by (simp add: CHECKS_def GUARD_CHECKS_def LIMIT_CHECKS_def)

lemma sample_guards: "list_all (\<lambda>ch. \<not> votes_against (run_check sample_env sample_gateway sample_ctx DEFAULT_LIMITS_V2 ch)) GUARD_CHECKS"
  by (simp add: GUARD_CHECKS_def simple_check_defs check_kill_switch_def check_event_veto_def)
    (simp add: sample_defs published_defs allows_def permits_def refresh_def ks_new_def ks_durable_def age_seconds_def
      asymmetric_blackout_def or_zero_def truthy_def bar_length_def tf_of_value_def all_timeframes_def decision_time_def
      forbidden_lifecycles_def Let_def locks_declared_def ts_sub_def ts_lt_def ts_le_def touches_broker_def adds_risk_def
      rc_instrument_def get_instrument_def upper_char_def spread_multiple_outcome_def)

lemma sample_allowed: "rd_allowed (snd (evaluate sample_env sample_gateway sample_ctx))"
  using sample_guards limit_checks_spec [OF sample_finite sample_lookup] sample_within
  by (simp add: evaluate_allowed CHECKS_split)


section \<open>Lemmas for the properties\<close>

lemma evaluate_attempt:
  "gw_attempts (fst (evaluate E g c)) = gw_attempts g @ [entry_attempt E g c (snd (evaluate E g c))]"
  by (simp add: evaluate_def record_attempt_def Let_def)

lemma pct_nan [simp]: "pct_of_equity a NaN = Inr NaN"
  by (simp add: pct_of_equity_def)

lemma py_div_positive: "\<not> lev \<le> Fin 0 \<Longrightarrow> \<exists>q. py_div x lev = Inr q"
  by (cases lev; cases x; auto)

lemma currency_legs_nan: "rc_equity c = NaN \<Longrightarrow> currency_legs c l legs = Pass"
  by (induction legs) (auto cong: if_cong)

lemma plan_notional_present:
  "rc_fx_quote_to_account c \<noteq> None \<Longrightarrow> rc_instrument reg c = Inr i \<Longrightarrow> \<exists>n. plan_notional_account reg c = Inr n"
  by (auto simp: plan_notional_account_def)

lemma margin_nan:
  assumes "rc_equity c = NaN" "rc_fx_quote_to_account c \<noteq> None" "rc_instrument reg c = Inr i"
    "applied_leverage reg c = Inr lev" "\<not> lev \<le> Fin 0" "\<not> lm_max_margin_utilisation_pct l \<le> Fin 0"
  shows "check_margin_utilisation reg c l = Pass"
proof -
  obtain n where n: "plan_notional_account reg c = Inr n" using plan_notional_present [OF assms(2,3)] by blast
  obtain q where q: "py_div n lev = Inr q" using py_div_positive [OF assms(5)] by blast
  show ?thesis using assms n q
    by (simp add: check_margin_utilisation_def margin_utilisation_def py_max_def Let_def)
qed

lemma missing_input_vote:
  assumes "strict_input_mode (cx_mode c)" "n \<in> set names" "input_field c n = None"
  shows "votes_against (with_required pm c check names rest)"
  using assms by (auto simp: with_required_def filter_empty_conv Let_def)

lemma missing_margin_vote:
  "rc_fx_quote_to_account c = None \<Longrightarrow> lm_margin_utilisation_after_trade l = Some True \<Longrightarrow>
   votes_against (check_margin_utilisation reg c l)"
  by (cases "margin_utilisation (rc_snapshot c)"; cases "applied_leverage reg c")
    (simp_all add: check_margin_utilisation_def plan_notional_account_def Let_def)

text \<open>The v2 blackout passes exactly when every event is zoned and outside the window.\<close>

lemma blackout_v2_pass:
  "tz_aware decision \<Longrightarrow>
   (\<not> votes_against (blackout_v2 post ahead decision evs)) \<longleftrightarrow>
     list_all (\<lambda>ev. tz_aware ev \<and> (ns ev < ns decision - post \<or> ns decision + ahead < ns ev)) evs"
  by (induction evs) (auto simp: ts_le_def)

lemma kill_switch_vote:
  assumes "ks_reachable L k" "\<not> votes_against (snd (check_kill_switch L k c))" "adds_risk (cx_request_kind c)"
  shows "\<not> st_active (replay (journal_events (ks_journal k)))" "touches_broker (cx_mode c) \<Longrightarrow> ks_durable k"
  using assms reachable_refresh_current [OF assms(1)]
  by (auto simp: check_kill_switch_def allows_def permits_def adds_risk_def Let_def split: if_splits option.splits ks_mode.splits)

lemma kill_switch_permits_closing:
  assumes "ks_reachable L k" "cx_request_kind c \<in> {CLOSE, REDUCE}"
    "\<not> (st_active (replay (journal_events (ks_journal k))) \<and> st_mode (replay (journal_events (ks_journal k))) = None)"
  shows "snd (check_kill_switch L k c) = Pass"
  using assms reachable_refresh_current [OF assms(1)]
  by (auto simp: check_kill_switch_def allows_def permits_def adds_risk_def Let_def split: option.splits ks_mode.splits)

lemma evaluate_exit_allowed:
  assumes "\<not> adds_risk (cx_request_kind x)"
  shows "\<exists>d. snd (evaluate_exit E g x) = Inr d \<and>
    (rd_allowed d \<longleftrightarrow> list_all (\<lambda>ch. run_exit_check E g x (limits_in_force g x) ch \<in> {Pass, Shadow []}) EXIT_CHECKS)"
proof -
  have nil: "outcome_reasons name v = [] \<longleftrightarrow> v \<in> {Pass, Shadow []}" for name v by (cases v) auto
  show ?thesis using assms
    by (simp add: evaluate_exit_def exit_reasons_def Let_def list_all_iff nil)
qed


lemma sample_fields:
  "ge_row_length sample_env = (\<lambda>_. 100)" "gw_kill_switch sample_gateway = ks_new (\<lambda>_. 100) (FileJournal None)"
  "cx_request_kind sample_ctx = OPEN" "cx_mode sample_ctx = DEMO"
  by (simp_all add: sample_env_def sample_gateway_def sample_ctx_def)

text \<open>No check but the veto reads the veto source.\<close>

lemma veto_unread [simp]:
  "rc_instrument reg (c\<lparr>rc_event_veto := v\<rparr>) = rc_instrument reg c"
  "mid_or_reference (c\<lparr>rc_event_veto := v\<rparr>) = mid_or_reference c"
  "input_field (c\<lparr>rc_event_veto := v\<rparr>) n = input_field c n"
  by (simp_all add: rc_instrument_def mid_or_reference_def input_field_def INPUT_FIELDS_def cong: option.case_cong if_cong)

lemma veto_unread_checks [simp]:
  "plan_notional_account reg (c\<lparr>rc_event_veto := v\<rparr>) = plan_notional_account reg c"
  "applied_leverage reg (c\<lparr>rc_event_veto := v\<rparr>) = applied_leverage reg c"
  "with_required pm (c\<lparr>rc_event_veto := v\<rparr>) check names rest = with_required pm c check names rest"
  "check_kill_switch L k (c\<lparr>rc_event_veto := v\<rparr>) = check_kill_switch L k c"
  by (simp_all add: plan_notional_account_def applied_leverage_def with_required_def check_kill_switch_def Let_def
      cong: option.case_cong if_cong)

lemma veto_unread_legs [simp]: "currency_legs (c\<lparr>rc_event_veto := v\<rparr>) l legs = currency_legs c l legs"
  by (induction legs) (auto cong: if_cong)

lemma run_check_veto_unread:
  "ch \<noteq> Event_veto \<Longrightarrow> run_check E g (c\<lparr>rc_event_veto := v\<rparr>) l ch = run_check E g c l ch"
  by (cases ch) (simp_all add: simple_check_defs required_check_defs Let_def cong: option.case_cong if_cong)


section \<open>Properties\<close>

text \<open>C1: the gateway fails closed. A decision allows the order exactly when none of the twenty-one checks
  blocks or raises (a check that raises counts as a vote against, and no blocking reason can be mistaken
  for a shadow note), and every decision lists every check by its own name.\<close>

theorem evaluate_fail_closed:
  "(rd_allowed (snd (evaluate E g c)) \<longleftrightarrow> (\<forall>ch. \<not> votes_against (run_check E g c (limits_in_force g c) ch)))
   \<and> rd_checks_run (snd (evaluate E g c)) = map check_name CHECKS
   \<and> distinct (map check_name CHECKS) \<and> length CHECKS = 21
   \<and> (rd_allowed (snd (evaluate E g c)) \<longleftrightarrow> blocking_reasons (snd (evaluate E g c)) = [])"
proof (intro conjI)
  show "rd_allowed (snd (evaluate E g c)) \<longleftrightarrow> (\<forall>ch. \<not> votes_against (run_check E g c (limits_in_force g c) ch))"
    by (auto simp: evaluate_allowed list_all_iff)
  show "distinct (map check_name CHECKS)" "length CHECKS = 21" by (simp_all add: CHECKS_def)
qed (simp_all add: evaluate_def blocking_reasons_def Let_def)



text \<open>A NaN equity switches every limit check off. With the inputs present and the instrument known, all
  ten pass whatever the size and the risk of the plan, because every comparison with NaN is false.\<close>

theorem nan_equity_disables_limits:
  assumes "rc_equity c = NaN" "missing_inputs c = []"
    and "rc_instrument (ge_registry E) c = Inr i" "applied_leverage (ge_registry E) c = Inr lev" "\<not> lev \<le> Fin 0"
    and "\<not> lm_max_total_drawdown_pct l \<le> Fin 0" "\<not> lm_max_margin_utilisation_pct l \<le> Fin 0"
  shows "list_all (\<lambda>ch. run_check E g c l ch = Pass) LIMIT_CHECKS"
proof -
  have present: "rc_open_risk_amount c \<noteq> None" "rc_fx_quote_to_account c \<noteq> None" "rc_correlated_exposure c \<noteq> None"
    "rc_daily_pnl c \<noteq> None" "rc_weekly_pnl c \<noteq> None"
    using assms(2) by (auto simp: missing_inputs_def INPUT_FIELDS_def input_field_def split: if_splits)
  obtain n where n: "plan_notional_account (ge_registry E) c = Inr n"
    using plan_notional_present [OF present(2) assms(3)] by blast
  have dd: "check_total_drawdown c l = Pass" using assms(1,6)
    by (cases "ac_peak_equity (sn_account (rc_snapshot c))")
      (auto simp: check_total_drawdown_def drawdown_pct_def py_max_def)
  show ?thesis
    using assms(1,3) present n dd margin_nan [OF assms(1) present(2) assms(3,4,5,7)]
    by (simp add: LIMIT_CHECKS_def required_check_defs check_max_per_trade_risk_def with_required_present
        limit_outcome_def loss_outcome_def currency_legs_nan Let_def)
qed


definition reckless_ctx :: risk_context where
  "reckless_ctx = sample_ctx
     \<lparr>rc_plan := sample_plan\<lparr>pl_size := Fin (10 ^ 9), pl_risk_amount := Fin (10 ^ 9)\<rparr>,
      rc_snapshot := sample_snapshot\<lparr>sn_account := (sn_account sample_snapshot)\<lparr>ac_equity := NaN\<rparr>\<rparr>\<rparr>"

theorem nan_equity_disables_limits_witness:
  "pl_risk_amount (rc_plan reckless_ctx) = Fin (10 ^ 9)
   \<and> list_all (\<lambda>ch. run_check sample_env sample_gateway reckless_ctx DEFAULT_LIMITS_V2 ch = Pass) LIMIT_CHECKS"
proof
  show "list_all (\<lambda>ch. run_check sample_env sample_gateway reckless_ctx DEFAULT_LIMITS_V2 ch = Pass) LIMIT_CHECKS"
    by (rule nan_equity_disables_limits [where i = eurusd and lev = "Fin 30"])
      (simp_all add: reckless_ctx_def sample_defs missing_inputs_def INPUT_FIELDS_def input_field_def rc_instrument_def
        get_instrument_def upper_char_def applied_leverage_def truthy_def published_defs)
qed (simp add: reckless_ctx_def)

text \<open>Nothing is dropped silently. Every entry decision, allowed or not, appends exactly one attempt row
  carrying that decision, the plan, the version of the limits in force and the list of missing inputs; an exit
  request does the same, and one that would add risk is refused with nothing recorded or changed.\<close>

theorem every_decision_is_recorded:
  "gw_attempts (fst (evaluate E g c)) = gw_attempts g @ [entry_attempt E g c (snd (evaluate E g c))]
   \<and> at_decision (entry_attempt E g c (snd (evaluate E g c))) = snd (evaluate E g c)
   \<and> at_limits_version (entry_attempt E g c (snd (evaluate E g c))) = lm_version (limits_in_force g c)
   \<and> map_of (at_extra (entry_attempt E g c (snd (evaluate E g c)))) ''missing_inputs''
       = Some (JList (map JStr (missing_inputs c)))
   \<and> (case snd (evaluate_exit E g x) of
        Inl _ \<Rightarrow> adds_risk (cx_request_kind x) \<and> fst (evaluate_exit E g x) = g
      | Inr d \<Rightarrow> \<not> adds_risk (cx_request_kind x)
                 \<and> gw_attempts (fst (evaluate_exit E g x)) = gw_attempts g @ [exit_attempt E g x d]
                 \<and> at_decision (exit_attempt E g x d) = d)"
  by (simp add: evaluate_attempt)
    (simp add: entry_attempt_def exit_attempt_def evaluate_exit_def record_attempt_def limits_stamp_def Let_def)

text \<open>C13: an exit is never trapped. For a close or a reduction, whatever the kill switch says (inactive, PAUSE
  or FLATTEN, in memory or durable) and whatever the book looks like, the decision is allowed exactly when the
  market is open, data and price are fresh and the venue is healthy.\<close>

theorem exit_never_trapped:
  assumes "ks_reachable (ge_row_length E) (gw_kill_switch g)" "cx_request_kind x \<in> {CLOSE, REDUCE}"
    and "\<not> (st_active (replay (journal_events (ks_journal (gw_kill_switch g))))
            \<and> st_mode (replay (journal_events (ks_journal (gw_kill_switch g)))) = None)"
  shows "\<exists>d. snd (evaluate_exit E g x) = Inr d \<and>
    (rd_allowed d \<longleftrightarrow>
       check_market_state x = Pass \<and> check_data_freshness (ge_pandas E) x (limits_in_force g x) = Pass
       \<and> check_stale_price (ge_pandas E) x (limits_in_force g x) = Pass
       \<and> check_broker_health x (limits_in_force g x) = Pass)"
proof -
  have no_shadow: "check_market_state x \<noteq> Shadow r" "check_data_freshness P x l \<noteq> Shadow r"
    "check_stale_price P x l \<noteq> Shadow r" "check_broker_health x l \<noteq> Shadow r" for r P l
    by (auto simp: check_market_state_def check_data_freshness_def check_stale_price_def check_broker_health_def
        on_value_def split: option.splits sum.splits)
  have "\<not> adds_risk (cx_request_kind x)" using assms(2) by (auto simp: adds_risk_def)
  from evaluate_exit_allowed [OF this, of E g] kill_switch_permits_closing [OF assms] show ?thesis
    by (simp add: EXIT_CHECKS_def no_shadow)
qed

definition sample_exit :: exit_context where
  "sample_exit =
     \<lparr>cx_now = cx_now sample_ctx, cx_mode = DEMO, cx_limits = Some DEFAULT_LIMITS_V2, cx_market = cx_market sample_ctx,
      cx_venue = cx_venue sample_ctx, cx_request_kind = CLOSE, cx_extra = [], xc_instrument = ''EURUSD'',
      xc_strategy_id = ''s1'', xc_size = Fin 500, xc_position_id = ''pos1''\<rparr>"

theorem exit_never_trapped_witness:
  "\<exists>d. snd (evaluate_exit sample_env (sample_gateway\<lparr>gw_kill_switch := ks_other_activated\<rparr>) sample_exit) = Inr d \<and> rd_allowed d"
proof -
  have "\<exists>d. snd (evaluate_exit sample_env (sample_gateway\<lparr>gw_kill_switch := ks_other_activated\<rparr>) sample_exit) = Inr d \<and>
    (rd_allowed d \<longleftrightarrow>
       check_market_state sample_exit = Pass
       \<and> check_data_freshness (ge_pandas sample_env) sample_exit
           (limits_in_force (sample_gateway\<lparr>gw_kill_switch := ks_other_activated\<rparr>) sample_exit) = Pass
       \<and> check_stale_price (ge_pandas sample_env) sample_exit
           (limits_in_force (sample_gateway\<lparr>gw_kill_switch := ks_other_activated\<rparr>) sample_exit) = Pass
       \<and> check_broker_health sample_exit
           (limits_in_force (sample_gateway\<lparr>gw_kill_switch := ks_other_activated\<rparr>) sample_exit) = Pass)"
    by (rule exit_never_trapped)
      (use ks_other_activated_reachable in \<open>simp_all add: sample_env_def sample_exit_def ks_other_activated_def ks_new_def
        replay_def replay_step_def ev_flatten_def ev_pause_def\<close>)
  then show ?thesis
    by (simp add: check_market_state_def check_data_freshness_def check_stale_price_def check_broker_health_def
        sample_exit_def sample_defs age_seconds_def ts_sub_def limits_in_force_def published_defs)
qed

text \<open>Absence is not zero. In SHADOW, DEMO and LIVE an order with any loss or exposure input missing is
  refused, whatever the gateway's \<open>paper_allows_missing_inputs\<close>.\<close>

theorem missing_input_blocks:
  assumes "strict_input_mode (cx_mode c)" "missing_inputs c \<noteq> []"
  shows "\<not> rd_allowed (snd (evaluate E g c))"
proof -
  from assms(2) obtain n where n: "n \<in> set (map fst INPUT_FIELDS)" "input_field c n = None"
    by (auto simp: missing_inputs_def filter_empty_conv)
  let ?against = "\<lambda>ch. votes_against (run_check E g c (limits_in_force g c) ch)"
  have "?against Max_account_risk \<or> ?against Max_correlated_exposure \<or> ?against Daily_loss \<or> ?against Weekly_loss"
    using n missing_input_vote [OF assms(1), of n] by (auto simp: INPUT_FIELDS_def required_check_defs)
  then show ?thesis using evaluate_allowedD [of E g c] by blast
qed

theorem missing_input_blocks_witness:
  "\<not> rd_allowed (snd (evaluate sample_env sample_gateway (sample_ctx\<lparr>rc_daily_pnl := None\<rparr>)))"
  by (rule missing_input_blocks)
    (simp_all add: sample_ctx_def strict_input_mode_def missing_inputs_def INPUT_FIELDS_def input_field_def)

text \<open>The permission for a PAPER order to pass without \<open>fx_quote_to_account\<close> does not reach the limit sets
  in force: every v2 set measures margin after the trade, and that check raises on the missing rate. So with the
  default set of the mode no order without the rate is ever allowed, also where the gateway was built with
  \<open>paper_allows_missing_inputs\<close>.\<close>

theorem paper_missing_fx_still_blocks:
  assumes "rc_fx_quote_to_account c = None" "limits_in_force g c = default_limit_set (cx_mode c)"
  shows "\<not> rd_allowed (snd (evaluate E g c))"
proof -
  have "lm_margin_utilisation_after_trade (default_limit_set (cx_mode c)) = Some True"
    by (simp add: default_limit_set_def published_defs)
  then have "votes_against (run_check E g c (limits_in_force g c) Margin_utilisation)"
    using missing_margin_vote [OF assms(1)] assms(2) by simp
  then show ?thesis using evaluate_allowedD [of E g c Margin_utilisation] by blast
qed

theorem paper_missing_fx_still_blocks_witness:
  "\<not> rd_allowed (snd (evaluate sample_env (sample_gateway\<lparr>gw_paper_allows_missing_inputs := True\<rparr>)
     (sample_ctx\<lparr>cx_mode := PAPER, cx_limits := Some PAPER_LIMITS_V2, rc_fx_quote_to_account := None\<rparr>)))"
  by (rule paper_missing_fx_still_blocks) (simp_all add: limits_in_force_def default_limit_set_def)

text \<open>What an allowed risk-adding order proves about the world. The shared journal, complete with every
  process's rows, replays to an inactive switch; in a broker-touching mode that journal is the durable one; the
  strategy's lifecycle is known, is none of the stages barred from trading, is LIVE in LIVE mode and past PAPER
  in DEMO mode; the market is open and not halted; a short sale is on a shortable instrument.\<close>

theorem allowed_entry_preconditions:
  assumes "ks_reachable (ge_row_length E) (gw_kill_switch g)" "adds_risk (cx_request_kind c)"
    and "rd_allowed (snd (evaluate E g c))"
  shows "\<not> st_active (replay (journal_events (ks_journal (gw_kill_switch g))))
    \<and> (touches_broker (cx_mode c) \<longrightarrow> ks_durable (gw_kill_switch g))
    \<and> (\<exists>lc. sv_lifecycle (rc_strategy c) = Some lc \<and> lc \<notin> forbidden_lifecycles \<and> \<not> sv_degraded (rc_strategy c)
          \<and> (cx_mode c = LIVE \<longrightarrow> lc = LC_LIVE) \<and> (cx_mode c = DEMO \<longrightarrow> lc \<noteq> LC_PAPER))
    \<and> mv_market_open (cx_market c) = Some True \<and> \<not> mv_halted (cx_market c)
    \<and> (pl_direction (rc_plan c) = SHORT \<longrightarrow> (\<exists>i. rc_instrument (ge_registry E) c = Inr i \<and> i_shortable i))"
proof -
  note ok = evaluate_allowedD [OF assms(3)]
  have "\<exists>lc. sv_lifecycle (rc_strategy c) = Some lc \<and> lc \<notin> forbidden_lifecycles \<and> \<not> sv_degraded (rc_strategy c)
          \<and> (cx_mode c = LIVE \<longrightarrow> lc = LC_LIVE) \<and> (cx_mode c = DEMO \<longrightarrow> lc \<noteq> LC_PAPER)"
    using ok [of Strategy_lifecycle] by (auto simp: check_strategy_lifecycle_def split: option.splits if_splits)
  moreover have "mv_market_open (cx_market c) = Some True \<and> \<not> mv_halted (cx_market c)"
    using ok [of Market_state] by (auto simp: check_market_state_def split: option.splits if_splits)
  moreover have "pl_direction (rc_plan c) = SHORT \<longrightarrow> (\<exists>i. rc_instrument (ge_registry E) c = Inr i \<and> i_shortable i)"
    using ok [of Direction_permitted]
    by (auto simp: check_direction_permitted_def on_value_def split: sum.splits if_splits)
  ultimately show ?thesis
    using kill_switch_vote [OF assms(1) _ assms(2)] ok [of Kill_switch] by simp
qed

theorem allowed_entry_preconditions_witness:
  "\<not> st_active (replay (journal_events (ks_journal (gw_kill_switch sample_gateway))))
   \<and> ks_durable (gw_kill_switch sample_gateway)"
  using allowed_entry_preconditions [of sample_env sample_gateway sample_ctx] sample_allowed
    ks_new_reachable [of "\<lambda>_. 100" "FileJournal None"]
  by (simp add: sample_fields adds_risk_def touches_broker_def)

text \<open>The asymmetric blackout. An allowed order under a v2 limit set has no flagged event in
  \<open>[decision - post, decision + max(pre, one bar)]\<close>, where the decision time is the later of \<open>now\<close> and the
  signal bar's close, and every event time it was shown carries a zone.\<close>

theorem allowed_outside_blackout:
  assumes "rd_allowed (snd (evaluate E g c))" "asymmetric_blackout (limits_in_force g c)"
    and "pd_minutes (ge_pandas E) (or_zero (lm_event_blackout_pre_minutes (limits_in_force g c))) = Inr pre"
    and "pd_minutes (ge_pandas E) (or_zero (lm_event_blackout_post_minutes (limits_in_force g c))) = Inr post"
    and "bar_length (ge_pandas E) (sg_timeframe (pl_signal (rc_plan c))) = Inr bar"
    and "cx_now c = utc now" "sg_bar_time (pl_signal (rc_plan c)) = utc bar_open"
  shows "list_all (\<lambda>ev. tz_aware ev \<and>
      (ns ev < max now (bar_open + bar) - post \<or> max now (bar_open + bar) + max pre bar < ns ev)) (mv_event_times (cx_market c))"
proof -
  have d: "decision_time (utc now) (utc bar_open) bar = Inr (utc (max now (bar_open + bar)))"
    by (simp add: decision_time_def max_def Let_def)
  have "\<not> votes_against (blackout_v2 post (max pre bar) (utc (max now (bar_open + bar))) (mv_event_times (cx_market c)))"
    using evaluate_allowedD [OF assms(1), of Event_blackout] assms(2-) d by (simp add: check_event_blackout_def)
  then show ?thesis
    using blackout_v2_pass [of "utc (max now (bar_open + bar))" post "max pre bar"] by simp
qed

theorem allowed_outside_blackout_witness:
  "mv_event_times (cx_market sample_ctx) = [utc 36000000000000]
   \<and> max 3600000000000 (0 + 3600000000000) + max 1800000000000 3600000000000 < (36000000000000 :: int)"
  using allowed_outside_blackout [OF sample_allowed, of 1800000000000 900000000000 3600000000000 3600000000000 0]
  by (simp add: sample_defs limits_in_force_def published_defs asymmetric_blackout_def or_zero_def truthy_def
      bar_length_def tf_of_value_def all_timeframes_def)

text \<open>A disabled event veto has no influence. When the policy answers and is not enabled, the decision is
  the one the same order gets with no veto source wired at all; only shadow notes are added to its reasons.\<close>

theorem disabled_veto_never_blocks:
  assumes "rc_event_veto c = Some src" "vp_assess src (pl_instrument (rc_plan c)) (cx_now c) = Inr v" "\<not> va_enabled v"
  shows "rd_allowed (snd (evaluate E g c)) = rd_allowed (snd (evaluate E g (c\<lparr>rc_event_veto := None\<rparr>)))
    \<and> blocking_reasons (snd (evaluate E g c)) = blocking_reasons (snd (evaluate E g (c\<lparr>rc_event_veto := None\<rparr>)))"
proof -
  let ?c0 = "c\<lparr>rc_event_veto := None\<rparr>" and ?l = "limits_in_force g c"
  let ?block = "\<lambda>c. concat (map (\<lambda>ch. filter (\<lambda>r. \<not> is_shadow_reason r)
        (outcome_reasons (check_name ch) (run_check E g c ?l ch))) CHECKS)"
  have l0: "limits_in_force g ?c0 = ?l" by (simp add: limits_in_force_def)
  have veto: "filter (\<lambda>r. \<not> is_shadow_reason r) (outcome_reasons ''event_veto'' (check_event_veto c)) = []"
    using assms by (auto simp: check_event_veto_def split: option.splits)
  have same: "run_check E g ?c0 ?l ch = run_check E g c ?l ch" if "ch \<noteq> Event_veto" for ch
    using that by (rule run_check_veto_unread)
  have block: "blocking_reasons (snd (evaluate E g c')) = ?block c'" if "limits_in_force g c' = ?l" for c'
    using that by (simp add: blocking_reasons_def evaluate_def entry_reasons_def filter_concat comp_def Let_def)
  have "?block c = ?block ?c0"
  proof (rule arg_cong [where f = concat], rule map_cong [OF refl])
    fix ch
    show "filter (\<lambda>r. \<not> is_shadow_reason r) (outcome_reasons (check_name ch) (run_check E g c ?l ch)) =
          filter (\<lambda>r. \<not> is_shadow_reason r) (outcome_reasons (check_name ch) (run_check E g ?c0 ?l ch))"
      using veto same [of ch] by (cases "ch = Event_veto") (auto simp: check_event_veto_def)
  qed
  moreover have "rd_allowed (snd (evaluate E g c')) \<longleftrightarrow> blocking_reasons (snd (evaluate E g c')) = []" for c'
    by (simp add: evaluate_def blocking_reasons_def Let_def)
  ultimately show ?thesis by (simp add: block l0)
qed


definition shadow_veto :: veto_provider where
  "shadow_veto =
     \<lparr>vp_policy_version = ''v1'',
      vp_assess = (\<lambda>_ t. Inr \<lparr>va_policy_version = ''v1'', va_enabled = False, va_available = True,
        va_veto = Some \<lparr>vr_annotation_id = ''a1'', vr_event_type = ''cpi'', vr_buckets = [''usd''], vr_severity = 3,
          vr_confidence = Fin 1, vr_observed_at = t, vr_policy_version = ''v1''\<rparr>, va_detail = []\<rparr>)\<rparr>"

theorem disabled_veto_never_blocks_witness:
  "rd_allowed (snd (evaluate sample_env sample_gateway (sample_ctx\<lparr>rc_event_veto := Some shadow_veto\<rparr>)))"
proof -
  have c0: "sample_ctx\<lparr>rc_event_veto := Some shadow_veto, rc_event_veto := None\<rparr> = sample_ctx"
    by (simp add: sample_ctx_def)
  show ?thesis
    using disabled_veto_never_blocks [of "sample_ctx\<lparr>rc_event_veto := Some shadow_veto\<rparr>" shadow_veto _ sample_env sample_gateway]
      sample_allowed c0 by (simp add: shadow_veto_def)
qed

end
