(* ===== verification/Execution_Safety.thy ===== *)
theory Execution_Safety
  imports Execution_Protocol Gateway_Safety
begin

text \<open>
  The safety of the order lifecycle: instructions are written ahead, an entry is dispatched at most once, a clean
  reconciliation report is complete, amendments report what is on record; and the sequences of calls in which the
  service forgets an order, re-sends one, or can never send an instruction again.
\<close>

section \<open>Runs of submissions\<close>


definition guard_allows :: "exec_env \<Rightarrow> 'v service \<Rightarrow> trade_plan \<Rightarrow> risk_context \<Rightarrow> bool" where
  "guard_allows X s p c \<longleftrightarrow>
     (case guard_check (xe_times X) (xe_ip_ok X) (cx_now c) (xs_guard s) (xs_mode s) (sg_strategy_id (pl_signal p)) (xs_url s)
        (Some (cx_now c)) of Inr g \<Rightarrow> gd_allowed g | Inl _ \<Rightarrow> False)"

lemma place_frame [simp]:
  "xs_guard (fst (place X A ord pending d now s)) = xs_guard s" "xs_mode (fst (place X A ord pending d now s)) = xs_mode s"
  "xs_url (fst (place X A ord pending d now s)) = xs_url s"
  "q \<noteq> oi_client_ref pending \<Longrightarrow> store_get q (xs_store (fst (place X A ord pending d now s))) = store_get q (xs_store s)"
  using apply_ack_ref [of "xe_float X"]
  by (auto simp: place_def dispatch_def Let_def store_get_write split: prod.splits sum.splits)

lemma submit_frame:
  "xs_guard (fst (submit X A oid p c s)) = xs_guard s" "xs_mode (fst (submit X A oid p c s)) = xs_mode s"
  "xs_url (fst (submit X A oid p c s)) = xs_url s"
  "q \<noteq> client_ref_for p \<Longrightarrow> store_get q (xs_store (fst (submit X A oid p c s))) = store_get q (xs_store s)"
  by (simp_all add: submit_def submit_evaluated_def Let_def store_get_write split: sum.splits prod.splits)





text \<open>What it takes for a submission to reach the venue.\<close>

lemma submit_places:
  assumes "guard_allows X s p c" "\<not> live_intent (client_ref_for p) (xs_store s)" "rd_allowed (snd (evaluate (xe_gw X) (xs_gateway s) c))"
    and "build_order (xs_mode s) p (client_ref_for p) (cx_now c) oid = Inr ord"
  shows "submit X A oid p c s = placement X A ord oid p c s"
  using assms by (auto simp: submit_def submit_evaluated_def guard_allows_def Let_def split: sum.splits prod.splits)

lemma place_dispatches: "oi_client_ref pending = r \<Longrightarrow>
  \<exists>es. xs_trace (fst (place X A ord pending d now s)) = xs_trace s @ [Wrote pending, Dispatched r] @ es"
  by (auto simp: place_def dispatch_def Let_def split: prod.splits sum.splits)


lemma submit_dispatches:
  assumes "guard_allows X s p c" "\<not> live_intent (client_ref_for p) (xs_store s)" "rd_allowed (snd (evaluate (xe_gw X) (xs_gateway s) c))"
    and "build_order (xs_mode s) p (client_ref_for p) (cx_now c) oid = Inr ord"
  shows "\<exists>i es. xs_trace (fst (submit X A oid p c s)) = xs_trace s @ [Wrote i, Dispatched (client_ref_for p)] @ es"
  using submit_places [OF assms, of A]
    place_dispatches [of "new_intent A (xs_mode s) p (client_ref_for p) (cx_now c) IS_PENDING oid [] (limits_version_of c)"
      "client_ref_for p" X A ord _ _ "s\<lparr>xs_gateway := _\<rparr>"]
  by simp blast

section \<open>Witness states\<close>

definition sample_X :: exec_env where
  "sample_X = \<lparr>xe_gw = sample_env, xe_times = sample_times, xe_ip_ok = (\<lambda>_. False), xe_float = (\<lambda>_. Inl (ValueError []))\<rparr>"

text \<open>A venue that records the size of each order it accepts and loses every answer.\<close>

definition lossy :: "flt list adapter" where
  "lossy = \<lparr>ad_venue_name = ''demo'', ad_place_order = (\<lambda>ord v. (v @ [o_size ord], Inl (BrokerUnavailable []))),
     ad_close_position = (\<lambda>_ _ _ v. (v, Inl (BrokerUnavailable []))),
     ad_amend_position = (\<lambda>_ _ _ _ _ v. (v, Inl (BrokerUnavailable []))),
     ad_close_partial = (\<lambda>_ _ _ _ v. (v, Inl (BrokerUnavailable []))),
     ad_orders = (\<lambda>v. (v, Inr [])), ad_positions = (\<lambda>v. (v, Inr []))\<rparr>"

definition demo_url :: string where
  "demo_url = ''https://demo-api.ig.com''"

definition demo_guard :: "string list \<Rightarrow> mode_guard" where
  "demo_guard demo = mode_guard_new None (\<lambda>_. None) LIVE_HOSTS demo None"

definition sample_service :: "flt list service" where
  "sample_service = \<lparr>xs_gateway = sample_gateway, xs_guard = demo_guard DEMO_HOSTS, xs_store = MemStore [] [], xs_venue = [],
     xs_url = demo_url, xs_mode = DEMO, xs_trace = []\<rparr>"

lemma demo_host [simp]: "parse_host ip_ok demo_url = Inr ''demo-api.ig.com''"
proof -
  have "parse_host ip_ok (''https://'' @ [] @ ''demo-api.ig.com'' @ [] @ []) = Inr (lower ''demo-api.ig.com'')"
    by (rule parse_host_https) (simp_all add: userinfo_def host_char_def loc_char_def port_part_def url_tail_def)
  then show ?thesis by (simp add: demo_url_def lower_char_def)
qed

lemma demo_allows [simp]:
  "guard_check T ip_ok wall (demo_guard DEMO_HOSTS) DEMO sid demo_url now
     = Inr (check_non_live (demo_guard DEMO_HOSTS) DEMO ''demo-api.ig.com'')"
  "gd_allowed (check_non_live (demo_guard DEMO_HOSTS) DEMO ''demo-api.ig.com'')"
  "guard_check T ip_ok wall (demo_guard []) DEMO sid demo_url now
     = Inr (check_non_live (demo_guard []) DEMO ''demo-api.ig.com'')"
  "\<not> gd_allowed (check_non_live (demo_guard []) DEMO ''demo-api.ig.com'')"
  by (simp_all add: guard_check_def check_non_live_def demo_guard_def mode_guard_new_def DEMO_HOSTS_def LIVE_HOSTS_def Let_def
      touches_broker_def)

lemma sample_service_simps [simp]:
  "xs_gateway sample_service = sample_gateway" "xs_guard sample_service = demo_guard DEMO_HOSTS"
  "xs_store sample_service = MemStore [] []" "xs_venue sample_service = []" "xs_url sample_service = demo_url"
  "xs_mode sample_service = DEMO" "xs_trace sample_service = []"
  "xe_gw sample_X = sample_env" "xe_times sample_X = sample_times"
  by (simp_all add: sample_service_def sample_X_def)

lemma sample_guard_allows: "xs_guard s = demo_guard DEMO_HOSTS \<Longrightarrow> xs_url s = demo_url \<Longrightarrow> xs_mode s = DEMO \<Longrightarrow> guard_allows X s p c"
  by (simp add: guard_allows_def)

lemma sample_order: "\<exists>ord. build_order DEMO sample_plan r now oid = Inr ord" if "r \<noteq> []"
  using that by (simp add: build_order_def order_post_init_def sample_defs first_target_def)



text \<open>A submission the mode guard blocks erases the order it repeats. The guard runs before the idempotency
  check and its BLOCKED intent replaces the live one: the stored broker reference is gone, and once the guard
  passes again the same plan is sent to the venue a second time.\<close>

theorem blocked_repeat_forgets_the_order:
  assumes "live_intent (client_ref_for p) (xs_store s)"
    and "guard_check (xe_times X) (xe_ip_ok X) (cx_now c) (xs_guard s) (xs_mode s) (sg_strategy_id (pl_signal p)) (xs_url s) (Some (cx_now c)) = Inr g"
    and "\<not> gd_allowed g" "submit X A oid p c s = (s1, res)"
    and "guard_allows X (s1\<lparr>xs_guard := G\<rparr>) p c2" "rd_allowed (snd (evaluate (xe_gw X) (xs_gateway s) c2))"
    and "build_order (xs_mode s) p (client_ref_for p) (cx_now c2) oid2 = Inr ord"
  shows "map_option oi_broker_ref (store_get (client_ref_for p) (xs_store s1)) = Some None
    \<and> (\<exists>es. xs_trace (fst (submit X A oid2 p c2 (s1\<lparr>xs_guard := G\<rparr>)))
           = xs_trace s1 @ es \<and> Dispatched (client_ref_for p) \<in> set es)"
proof -
  have s1: "\<exists>why. s1 = write_intent (new_intent A (xs_mode s) p (client_ref_for p) (cx_now c) IS_BLOCKED [] why []) s"
    using assms(2-4) by (auto simp: submit_def Let_def)
  then have ref: "map_option oi_broker_ref (store_get (client_ref_for p) (xs_store s1)) = Some None"
    and dead: "\<not> live_intent (client_ref_for p) (xs_store s1)" and same: "xs_gateway s1 = xs_gateway s" "xs_mode s1 = xs_mode s"
    by (auto simp: live_after_write store_get_write blocks_resubmission_def)
  have "\<exists>i es. xs_trace (fst (submit X A oid2 p c2 (s1\<lparr>xs_guard := G\<rparr>)))
      = xs_trace (s1\<lparr>xs_guard := G\<rparr>) @ [Wrote i, Dispatched (client_ref_for p)] @ es"
    by (rule submit_dispatches [where ord = ord]) (use assms(5-7) dead same in simp_all)
  then show ?thesis using ref by auto
qed

theorem blocked_repeat_forgets_the_order_witness:
  "\<exists>s1 es. xs_store s1 = store_write (new_intent lossy DEMO sample_plan (client_ref_for sample_plan) (cx_now sample_ctx) IS_BLOCKED []
        [Lit ''mode_guard_blocked:'', Lit (join '', '' (failed_controls (check_non_live (demo_guard []) DEMO ''demo-api.ig.com'')))] [])
        (store_write (new_intent lossy DEMO sample_plan (client_ref_for sample_plan) (cx_now sample_ctx) IS_UNKNOWN ''o1'' [] ''v2'') (MemStore [] []))
      \<and> xs_trace (fst (submit sample_X lossy ''o2'' sample_plan sample_ctx (s1\<lparr>xs_guard := demo_guard DEMO_HOSTS\<rparr>))) = xs_trace s1 @ es
      \<and> Dispatched (client_ref_for sample_plan) \<in> set es"
proof -
  define s where "s = sample_service\<lparr>xs_guard := demo_guard [],
    xs_store := store_write (new_intent lossy DEMO sample_plan (client_ref_for sample_plan) (cx_now sample_ctx) IS_UNKNOWN ''o1'' [] ''v2'') (MemStore [] [])\<rparr>"
  let ?r = "client_ref_for sample_plan"
  define s1 where "s1 = fst (submit sample_X lossy ''o2'' sample_plan sample_ctx s)"
  obtain ord where ord: "build_order DEMO sample_plan ?r (cx_now sample_ctx) ''o2'' = Inr ord"
    using sample_order [of ?r] by (auto simp: client_ref_for_def)
  have "map_option oi_broker_ref (store_get ?r (xs_store s1)) = Some None
    \<and> (\<exists>es. xs_trace (fst (submit sample_X lossy ''o2'' sample_plan sample_ctx (s1\<lparr>xs_guard := demo_guard DEMO_HOSTS\<rparr>)))
           = xs_trace s1 @ es \<and> Dispatched ?r \<in> set es)"
    unfolding s1_def
    by (rule blocked_repeat_forgets_the_order
        [where s = s and c = sample_ctx and g = "check_non_live (demo_guard []) DEMO ''demo-api.ig.com''" and oid = "''o2''"
          and ord = ord and res = "snd (submit sample_X lossy ''o2'' sample_plan sample_ctx s)"])
      (use ord sample_allowed in \<open>simp_all add: s_def live_intent_def store_get_def blocks_resubmission_def guard_allows_def submit_frame\<close>)
  moreover have "xs_store s1 = store_write (new_intent lossy DEMO sample_plan ?r (cx_now sample_ctx) IS_BLOCKED []
      [Lit ''mode_guard_blocked:'', Lit (join '', '' (failed_controls (check_non_live (demo_guard []) DEMO ''demo-api.ig.com'')))] []) (xs_store s)"
    by (simp add: s1_def submit_def s_def Let_def)
  ultimately show ?thesis by (auto simp: s_def)
qed

text \<open>The risk decision is on the context's plan, the order on the argument's. The two are never compared: when
  the gateway allows the context, any plan whose reference is not live is placed with its own size, instrument and
  the service's own mode, whatever plan and mode the context holds.\<close>

theorem order_and_decision_may_differ:
  assumes "guard_allows X s p c" "\<not> live_intent (client_ref_for p) (xs_store s)"
    and "rd_allowed (snd (evaluate (xe_gw X) (xs_gateway s) c))"
    and "sg_take_profit_allocations (pl_signal p) = []"
  shows "\<exists>ord. o_size ord = pl_size p \<and> o_instrument ord = pl_instrument p \<and> o_mode ord = xs_mode s
     \<and> xs_venue (fst (submit X A oid p c s)) = fst (ad_place_order A ord (xs_venue s))"
proof -
  obtain ord where ord: "build_order (xs_mode s) p (client_ref_for p) (cx_now c) oid = Inr ord"
    using assms(4) by (simp add: build_order_def order_post_init_def client_ref_for_def)
  then have "o_size ord = pl_size p" "o_instrument ord = pl_instrument p" "o_mode ord = xs_mode s"
    by (auto simp: build_order_def order_post_init_def split: if_splits)
  moreover have "xs_venue (fst (submit X A oid p c s)) = fst (ad_place_order A ord (xs_venue s))"
    unfolding submit_places [OF assms(1-3) ord, of A]
    by (auto simp: place_def dispatch_def Let_def split: prod.splits sum.splits)
  ultimately show ?thesis by blast
qed

theorem order_and_decision_may_differ_witness:
  "rd_allowed (snd (evaluate sample_env sample_gateway sample_ctx)) \<and> pl_size (rc_plan sample_ctx) = Fin 500
   \<and> xs_venue (fst (submit sample_X lossy ''o1'' (sample_plan\<lparr>pl_size := Fin (10 ^ 9)\<rparr>) sample_ctx sample_service)) = [Fin (10 ^ 9)]"
proof -
  have "\<exists>ord. o_size ord = pl_size (sample_plan\<lparr>pl_size := Fin (10 ^ 9)\<rparr>)
     \<and> o_instrument ord = pl_instrument (sample_plan\<lparr>pl_size := Fin (10 ^ 9)\<rparr>) \<and> o_mode ord = xs_mode sample_service
     \<and> xs_venue (fst (submit sample_X lossy ''o1'' (sample_plan\<lparr>pl_size := Fin (10 ^ 9)\<rparr>) sample_ctx sample_service))
         = fst (ad_place_order lossy ord (xs_venue sample_service))"
    by (rule order_and_decision_may_differ)
      (use sample_allowed in \<open>simp_all add: sample_guard_allows live_intent_def store_get_def, simp_all add: sample_defs\<close>)
  then show ?thesis using sample_allowed by (auto simp: lossy_def, simp_all add: sample_defs)
qed


section \<open>What a reconciliation leaves\<close>

lemma reconcile_cases:
  assumes "reconcile X A now s = (s1, Inr rep)"
  obtains (unreachable) e where "rep = unreachable_report now e" "xs_store s1 = xs_store s"
  | (compared) v acks v2 ps acc where "ad_orders A (xs_venue s) = (v, Inr acks)" "ad_positions A v = (v2, Inr ps)"
      "reconcile_loop X acks now (filter (\<lambda>i. needs_reconciliation (oi_state i)) (store_all (xs_store s))) (s\<lparr>xs_venue := v2\<rparr>)
         \<lparr>ra_resolved = [], ra_unknown = [], ra_mismatches = []\<rparr> = (s1, Inr acc)"
      "rr_still_unknown rep = sorted_set (ra_unknown acc)" "rr_orphan_broker_refs rep = orphans (xs_store s1) ps"
  using assms by (auto simp: reconcile_def Let_def split: prod.splits sum.splits)

lemma outstanding_stored:
  assumes "store_ok st"
  shows "distinct (map oi_client_ref (filter P (store_all st)))" "\<forall>i \<in> set (filter P (store_all st)). store_get (oi_client_ref i) st = Some i"
  using store_all_refs [OF assms] store_all_get [OF assms] by (auto simp: distinct_map_filter)

lemma orphans_none: "orphans st ps = [] \<longleftrightarrow> (\<forall>q \<in> set ps. given (ps_venue_ref q) \<longrightarrow> the (ps_venue_ref q) \<in> set (known_refs st))"
proof -
  have "orphans st ps = [] \<longleftrightarrow> set (orphans st ps) = {}" by simp
  then show ?thesis by (auto simp: orphans_def simp del: set_empty)
qed

lemma sorted_set_empty [simp]: "sorted_set xs = [] \<longleftrightarrow> xs = []"
  by (metis set_empty set_remdups set_sort sorted_set_def)

text \<open>A clean reconciliation report is complete. When it reports nothing unknown, no orphan, no mismatch and no
  error, every intent in the store is settled, and every position the venue listed carries the broker reference of
  a stored intent.\<close>

theorem clean_report_is_complete:
  assumes "store_ok (xs_store s)" "reconcile X A now s = (s1, Inr rep)" "report_clean rep"
  shows "(\<forall>i \<in> set (store_all (xs_store s1)). \<not> needs_reconciliation (oi_state i))
     \<and> (\<exists>v ps. snd (ad_positions A v) = Inr ps
          \<and> (\<forall>q \<in> set ps. given (ps_venue_ref q) \<longrightarrow>
               (\<exists>i \<in> set (store_all (xs_store s1)). oi_broker_ref i = ps_venue_ref q)))"
  using assms(2)
proof (cases rule: reconcile_cases)
  case (unreachable e)
  then show ?thesis using assms(3) by (simp add: report_clean_def unreachable_report_def)
next
  case (compared v acks v2 ps acc)
  let ?out = "filter (\<lambda>i. needs_reconciliation (oi_state i)) (store_all (xs_store s))"
  have none: "ra_unknown acc = []" using compared(4) assms(3) by (simp add: report_clean_def)
  have loop: "store_ok (xs_store s1)"
    "\<And>r. r \<notin> set (map oi_client_ref ?out) \<Longrightarrow> store_get r (xs_store s1) = store_get r (xs_store s)"
    "\<And>i. i \<in> set ?out \<Longrightarrow> \<exists>j. store_get (oi_client_ref i) (xs_store s1) = Some j \<and> \<not> needs_reconciliation (oi_state j)"
    using reconcile_loop_ok [OF compared(3)] outstanding_stored [OF assms(1)] assms(1) none by auto
  have "\<not> needs_reconciliation (oi_state i)" if i: "i \<in> set (store_all (xs_store s1))" for i
  proof
    assume need: "needs_reconciliation (oi_state i)"
    have got: "store_get (oi_client_ref i) (xs_store s1) = Some i" using store_all_get [OF loop(1)] i by simp
    show False
    proof (cases "oi_client_ref i \<in> set (map oi_client_ref ?out)")
      case True
      then obtain k where "k \<in> set ?out" "oi_client_ref i = oi_client_ref k" by auto
      then show False using loop(3) [of k] got need by auto
    next
      case False
      then have "i \<in> set (store_all (xs_store s))" using loop(2) got store_all_get [OF assms(1)] by simp
      then show False using False need by auto
    qed
  qed
  moreover have "orphans (xs_store s1) ps = []" using compared(5) assms(3) by (simp add: report_clean_def)
  then have "\<forall>q \<in> set ps. given (ps_venue_ref q) \<longrightarrow>
               (\<exists>i \<in> set (store_all (xs_store s1)). oi_broker_ref i = ps_venue_ref q)"
    by (fastforce simp: orphans_none known_refs_def given_def split: option.splits)
  ultimately show ?thesis using compared(2) by (metis snd_conv)
qed

lemma store_ok_empty [simp]: "store_ok (MemStore [] [])" "store_ok (JsonlStore [] [])"
  by (simp_all add: store_ok_def)

text \<open>A venue that filled the sample order.\<close>

definition sample_position :: position where
  "sample_position = \<lparr>ps_instrument = ''EURUSD'', ps_direction = LONG, ps_size = Fin 500, ps_entry_price = Fin 1,
     ps_entry_time = utc 0, ps_stop_loss = None, ps_take_profit_targets = [], ps_strategy_id = ''s1'', ps_bars_held = 0,
     ps_mfe = Fin 0, ps_mae = Fin 0, ps_financing_accrued = Fin 0, ps_venue_ref = Some ''D1'', ps_position_id = ''pos1''\<rparr>"

definition sample_ack :: order_ack where
  "sample_ack = \<lparr>oa_status = OS_FILLED, oa_broker_ref = Some ''D1'', oa_client_ref = client_ref_for sample_plan, oa_order_id = ''o1'',
     oa_submitted_at = utc 0, oa_acked_at = None, oa_fill = None, oa_message = [], oa_raw = []\<rparr>"

definition reporting :: "order_ack list \<Rightarrow> position list \<Rightarrow> flt list adapter" where
  "reporting acks ps = lossy\<lparr>ad_orders := (\<lambda>v. (v, Inr acks)), ad_positions := (\<lambda>v. (v, Inr ps))\<rparr>"

definition sample_intent :: "intent_state \<Rightarrow> order_intent" where
  "sample_intent st = new_intent lossy DEMO sample_plan (client_ref_for sample_plan) (cx_now sample_ctx) st ''o1'' [] ''v2''"

definition service_with :: "order_intent \<Rightarrow> flt list service" where
  "service_with i = sample_service\<lparr>xs_store := store_write i (MemStore [] [])\<rparr>"

lemma sample_intent_simps [simp]:
  "oi_client_ref (sample_intent st) = client_ref_for sample_plan" "oi_state (sample_intent st) = st"
  "oi_broker_ref (sample_intent st) = None" "oi_order_id (sample_intent st) = ''o1''" "oi_filled_size (sample_intent st) = Fin 0"
  by (simp_all add: sample_intent_def, simp_all add: new_intent_def)

theorem clean_report_is_complete_witness:
  "list_all (\<lambda>i. oi_state i = IS_FILLED \<and> oi_broker_ref i = Some ''D1'')
     (store_all (xs_store (fst (reconcile sample_X (reporting [sample_ack] [sample_position]) (utc 0) (service_with (sample_intent IS_UNKNOWN))))))
   \<and> list_all (\<lambda>i. \<not> needs_reconciliation (oi_state i))
     (store_all (xs_store (fst (reconcile sample_X (reporting [sample_ack] [sample_position]) (utc 0) (service_with (sample_intent IS_UNKNOWN))))))"
proof -
  let ?A = "reporting [sample_ack] [sample_position]" and ?s = "service_with (sample_intent IS_UNKNOWN)"
  have run: "\<exists>s1 rep u. reconcile sample_X ?A (utc 0) ?s = (s1, Inr rep) \<and> report_clean rep
      \<and> store_all (xs_store s1) = [u] \<and> oi_state u = IS_FILLED \<and> oi_broker_ref u = Some ''D1''"
    by (simp add: reconcile_def reporting_def service_with_def store_all_def needs_reconciliation_def reconcile_intent_def
        find_ack_def by_broker_ref_def by_client_ref_def sample_ack_def given_def apply_ack_def raw_size_def truthy_def
        report_clean_def sorted_set_def orphans_def known_refs_def sample_position_def size_mismatch_def client_ref_for_def
        Let_def image_iff cong: conj_cong)
  then obtain s1 rep u where r: "reconcile sample_X ?A (utc 0) ?s = (s1, Inr rep)" "report_clean rep"
      "store_all (xs_store s1) = [u]" "oi_state u = IS_FILLED" "oi_broker_ref u = Some ''D1''" by blast
  have "store_ok (xs_store ?s)" by (simp add: service_with_def store_ok_def)
  from clean_report_is_complete [OF this r(1,2)] r show ?thesis by simp
qed


text \<open>Reconciliation calls a PENDING order dead when the venue's order list does not show it, whatever positions
  the venue reports: the intent becomes CANCELLED and the next submission of the plan is sent. The adapter's
  \<open>orders\<close> need not show orders that have filled, so the order may have become a position.\<close>

theorem unlisted_pending_order_is_resent:
  assumes "store_ok (xs_store s)" "store_get (client_ref_for p) (xs_store s) = Some i" "oi_state i = IS_PENDING"
    and "ad_orders A (xs_venue s) = (v, Inr acks)" "find_ack acks i = None" "oi_client_ref i = client_ref_for p"
    and "reconcile X A now s = (s1, Inr rep)" "rr_errors rep = []"
    and "guard_allows X s1 p c" "rd_allowed (snd (evaluate (xe_gw X) (xs_gateway s1) c))"
    and "build_order (xs_mode s1) p (client_ref_for p) (cx_now c) oid = Inr ord"
  shows "map_option oi_state (store_get (client_ref_for p) (xs_store s1)) = Some IS_CANCELLED
    \<and> (\<exists>es. xs_trace (fst (submit X A oid p c s1)) = xs_trace s1 @ es \<and> Dispatched (client_ref_for p) \<in> set es)"
proof -
  have cancelled: "map_option oi_state (store_get (client_ref_for p) (xs_store s1)) = Some IS_CANCELLED"
    using assms(7)
  proof (cases rule: reconcile_cases)
    case (unreachable e)
    then show ?thesis using assms(8) by (simp add: unreachable_report_def)
  next
    case (compared v' acks' v2 ps acc)
    let ?out = "filter (\<lambda>i. needs_reconciliation (oi_state i)) (store_all (xs_store s))"
    have "i \<in> set ?out" using store_all_get [OF assms(1), of i] assms(2,3,6) by (simp add: needs_reconciliation_def)
    moreover have "acks' = acks" using compared(1) assms(4) by simp
    ultimately show ?thesis
      using reconcile_loop_ok [OF compared(3)] outstanding_stored [OF assms(1)] assms(1,3,5,6) by auto
  qed
  then have "\<not> live_intent (client_ref_for p) (xs_store s1)" by (auto simp: live_intent_def blocks_resubmission_def)
  from submit_dispatches [OF assms(9) this assms(10,11), of A] cancelled show ?thesis by auto
qed

theorem unlisted_pending_order_is_resent_witness:
  "\<exists>s1 rep es. reconcile sample_X (reporting [] [sample_position]) (utc 0) (service_with (sample_intent IS_PENDING)) = (s1, Inr rep)
     \<and> rr_resolved rep = [client_ref_for sample_plan] \<and> rr_orphan_broker_refs rep = [''D1'']
     \<and> xs_trace (fst (submit sample_X (reporting [] [sample_position]) ''o2'' sample_plan sample_ctx s1)) = xs_trace s1 @ es
     \<and> Dispatched (client_ref_for sample_plan) \<in> set es"
proof -
  let ?A = "reporting [] [sample_position]" and ?s = "service_with (sample_intent IS_PENDING)" and ?r = "client_ref_for sample_plan"
  have "\<exists>s1 rep. reconcile sample_X ?A (utc 0) ?s = (s1, Inr rep) \<and> rr_resolved rep = [?r] \<and> rr_orphan_broker_refs rep = [''D1''] \<and> rr_errors rep = []
      \<and> xs_gateway s1 = sample_gateway \<and> xs_mode s1 = DEMO \<and> xs_guard s1 = demo_guard DEMO_HOSTS \<and> xs_url s1 = demo_url"
    by (simp add: reconcile_def reporting_def service_with_def store_all_def needs_reconciliation_def reconcile_intent_def
        find_ack_def by_broker_ref_def by_client_ref_def given_def
        report_clean_def sorted_set_def orphans_def known_refs_def sample_position_def client_ref_for_def
        Let_def image_iff cong: conj_cong)
  then obtain s1 rep where r: "reconcile sample_X ?A (utc 0) ?s = (s1, Inr rep)" "rr_resolved rep = [?r]" "rr_orphan_broker_refs rep = [''D1'']"
      "rr_errors rep = []" "xs_gateway s1 = sample_gateway" "xs_mode s1 = DEMO" "xs_guard s1 = demo_guard DEMO_HOSTS" "xs_url s1 = demo_url"
    by blast
  obtain ord where ord: "build_order DEMO sample_plan ?r (cx_now sample_ctx) ''o2'' = Inr ord"
    using sample_order [of ?r] by (auto simp: client_ref_for_def)
  have "map_option oi_state (store_get ?r (xs_store s1)) = Some IS_CANCELLED
    \<and> (\<exists>es. xs_trace (fst (submit sample_X ?A ''o2'' sample_plan sample_ctx s1)) = xs_trace s1 @ es \<and> Dispatched ?r \<in> set es)"
    by (rule unlisted_pending_order_is_resent [where i = "sample_intent IS_PENDING" and v = "[]" and acks = "[]" and s = ?s and now = "utc 0"
          and rep = rep and ord = ord])
      (use r ord sample_allowed in \<open>simp_all add: sample_guard_allows service_with_def store_ok_def store_get_def reporting_def
        find_ack_def by_broker_ref_def by_client_ref_def\<close>)
  then show ?thesis using r by blast
qed


section \<open>Closing and amending\<close>

lemma live_close_quiet:
  assumes "live_intent (close_client_ref pos) (xs_store s)"
  shows "xs_trace (fst (close X A pos c s)) = xs_trace s" "xs_store (fst (close X A pos c s)) = xs_store s"
  using assms by (auto simp: close_def Let_def split: prod.splits sum.splits)

lemma close_frame:
  "q \<noteq> close_client_ref pos \<Longrightarrow> store_get q (xs_store (fst (close X A pos c s))) = store_get q (xs_store s)"
  by (auto simp: close_def dispatch_def Let_def store_get_write split: prod.splits sum.splits)

lemma close_dispatches_own:
  "\<exists>es. xs_trace (fst (close X A pos c s)) = xs_trace s @ es \<and> (\<forall>r. Dispatched r \<in> set es \<longrightarrow> r = close_client_ref pos)"
  by (auto simp: close_def dispatch_def Let_def split: prod.splits sum.splits)

lemma close_store_ok: "store_ok (xs_store s) \<Longrightarrow> store_ok (xs_store (fst (close X A pos c s)))"
  by (auto simp: close_def dispatch_def Let_def store_ok_write split: prod.splits sum.splits)

definition held :: "order_intent \<Rightarrow> 'v service \<Rightarrow> 'v service \<Rightarrow> bool" where
  "held i s s' \<longleftrightarrow> store_ok (xs_store s') \<and> store_get (oi_client_ref i) (xs_store s') = Some i
     \<and> extends s s' (\<lambda>es. Dispatched (oi_client_ref i) \<notin> set es)"

lemma held_trans: "held i s s1 \<Longrightarrow> held i s1 s2 \<Longrightarrow> held i s s2"
  by (auto simp: held_def extends_def)

lemma held_refl: "store_ok (xs_store s) \<Longrightarrow> store_get (oi_client_ref i) (xs_store s) = Some i \<Longrightarrow> held i s s"
  by (auto simp: held_def extends_def)

lemma close_held:
  assumes "store_ok (xs_store s)" "store_get (oi_client_ref i) (xs_store s) = Some i" "oi_state i = IS_UNKNOWN"
  shows "held i s (fst (close X A pos c s))"
proof (cases "close_client_ref pos = oi_client_ref i")
  case True
  then have "live_intent (close_client_ref pos) (xs_store s)" using assms(2,3) by (simp add: live_intent_def blocks_resubmission_def)
  from live_close_quiet [OF this, of X A c] show ?thesis using assms by (auto simp: held_def extends_def)
next
  case False
  then show ?thesis using close_frame [of "oi_client_ref i" pos X A c s] close_dispatches_own [of X A pos c s] close_store_ok assms
    by (auto simp: held_def extends_def)
qed

lemma flatten_held:
  assumes "store_ok (xs_store s)" "store_get (oi_client_ref i) (xs_store s) = Some i" "oi_state i = IS_UNKNOWN"
  shows "held i s (fst (flatten X A mk ps s))"
  using assms
proof (induction ps arbitrary: s)
  case Nil
  then show ?case by (simp add: held_refl)
next
  case (Cons pos ps)
  obtain s1 res where step: "(case mk pos of Inl e \<Rightarrow> (s, Inl e) | Inr c \<Rightarrow> close X A pos c s) = (s1, res)"
    by (cases "case mk pos of Inl e \<Rightarrow> (s, Inl e) | Inr c \<Rightarrow> close X A pos c s")
  have one: "held i s s1"
    using step close_held [OF Cons.prems, of X A pos] held_refl [OF Cons.prems(1,2)]
    by (auto split: sum.splits) (metis fst_conv)
  then have "held i s1 (fst (flatten X A mk ps s1))" using Cons.IH Cons.prems(3) by (simp add: held_def)
  from held_trans [OF one this] show ?case by (auto simp: step Let_def split: prod.splits)
qed

lemma reconcile_trace_intent:
  "\<exists>es. xs_trace (fst (reconcile_intent X acks now i (s, acc))) = xs_trace s @ es \<and> (\<forall>r. Dispatched r \<notin> set es)"
  by (auto simp: reconcile_intent_def Let_def split: option.splits sum.splits)

lemma reconcile_loop_trace:
  "\<exists>es. xs_trace (fst (reconcile_loop X acks now is s acc)) = xs_trace s @ es \<and> (\<forall>r. Dispatched r \<notin> set es)"
proof (induction "is" arbitrary: s acc)
  case (Cons i "is")
  obtain s1 res where step: "reconcile_intent X acks now i (s, acc) = (s1, res)" by (cases "reconcile_intent X acks now i (s, acc)")
  obtain es where es: "xs_trace s1 = xs_trace s @ es" "\<forall>r. Dispatched r \<notin> set es"
    using reconcile_trace_intent [of X acks now i s acc] step by auto
  then show ?case using Cons [of s1] step by (cases res) fastforce+
qed simp

lemma reconcile_intent_frame:
  "r \<noteq> oi_client_ref j \<or> (find_ack acks j = None \<and> oi_state j = IS_UNKNOWN) \<Longrightarrow>
     store_get r (xs_store (fst (reconcile_intent X acks now j (s, acc)))) = store_get r (xs_store s)"
  "store_ok (xs_store s) \<Longrightarrow> store_ok (xs_store (fst (reconcile_intent X acks now j (s, acc))))"
  using apply_ack_ref [of "xe_float X" j]
  by (auto simp: reconcile_intent_def Let_def store_get_write store_ok_write split: option.splits sum.splits)

lemma reconcile_loop_frame:
  assumes "\<forall>j \<in> set is. oi_client_ref j = r \<longrightarrow> find_ack acks j = None \<and> oi_state j = IS_UNKNOWN"
  shows "store_get r (xs_store (fst (reconcile_loop X acks now is s acc))) = store_get r (xs_store s)
    \<and> (store_ok (xs_store s) \<longrightarrow> store_ok (xs_store (fst (reconcile_loop X acks now is s acc))))"
  using assms
proof (induction "is" arbitrary: s acc)
  case (Cons j "is")
  obtain s1 res where step: "reconcile_intent X acks now j (s, acc) = (s1, res)" by (cases "reconcile_intent X acks now j (s, acc)")
  have "store_get r (xs_store s1) = store_get r (xs_store s)" "store_ok (xs_store s) \<Longrightarrow> store_ok (xs_store s1)"
    using reconcile_intent_frame(1) [where r = r and j = j and X = X and now = now and s = s and acc = acc and acks = acks]
      reconcile_intent_frame(2) [of s X acks now j acc] Cons.prems step by auto
  then show ?case using Cons.IH [of s1] Cons.prems step by (cases res) auto
qed simp

lemma reconcile_held:
  assumes "store_ok (xs_store s)" "store_get (oi_client_ref i) (xs_store s) = Some i" "oi_state i = IS_UNKNOWN"
    and "\<And>v acks. ad_orders A (xs_venue s) = (v, Inr acks) \<Longrightarrow> find_ack acks i = None"
  shows "held i s (fst (reconcile X A now s))"
proof -
  have own: "\<forall>j \<in> set (filter P (store_all (xs_store s))). oi_client_ref j = oi_client_ref i \<longrightarrow> find_ack acks j = None \<and> oi_state j = IS_UNKNOWN"
    if "ad_orders A (xs_venue s) = (v, Inr acks)" for P v acks
    using store_all_get [OF assms(1)] assms(2,3) assms(4) [OF that] by auto
  obtain v1 o_res where o: "ad_orders A (xs_venue s) = (v1, o_res)" by (cases "ad_orders A (xs_venue s)")
  obtain v2 p_res where p: "ad_positions A v1 = (v2, p_res)" by (cases "ad_positions A v1")
  let ?out = "filter (\<lambda>i. needs_reconciliation (oi_state i)) (store_all (xs_store s))"
  let ?acc = "\<lparr>ra_resolved = [], ra_unknown = [], ra_mismatches = []\<rparr>"
  show ?thesis
  proof (cases "\<exists>acks ps. o_res = Inr acks \<and> p_res = Inr ps")
    case True
    then obtain acks ps where ok: "o_res = Inr acks" "p_res = Inr ps" by blast
    obtain s1 res where loop: "reconcile_loop X acks now ?out (s\<lparr>xs_venue := v2\<rparr>) ?acc = (s1, res)"
      by (cases "reconcile_loop X acks now ?out (s\<lparr>xs_venue := v2\<rparr>) ?acc")
    then have "fst (reconcile X A now s) = s1" using o p ok by (auto simp: reconcile_def Let_def split: sum.splits)
    moreover have "held i s s1"
      using reconcile_loop_frame [OF own [of v1 acks "\<lambda>i. needs_reconciliation (oi_state i)"], of X now "s\<lparr>xs_venue := v2\<rparr>" ?acc]
        reconcile_loop_trace [of X acks now ?out "s\<lparr>xs_venue := v2\<rparr>" ?acc] loop o ok assms(1,2)
      by (auto simp: held_def extends_def)
    ultimately show ?thesis by simp
  next
    case False
    then have "xs_store (fst (reconcile X A now s)) = xs_store s \<and> xs_trace (fst (reconcile X A now s)) = xs_trace s"
      using o p by (auto simp: reconcile_def split: sum.splits)
    then show ?thesis using held_refl [OF assms(1,2)] by (simp add: held_def extends_def)
  qed
qed

text \<open>Everything the system does about a close of unknown outcome: instruct it again, alone or in a flatten, and
  reconcile with a venue whose order list does not show it.\<close>

inductive chase :: "exec_env \<Rightarrow> 'v adapter \<Rightarrow> order_intent \<Rightarrow> 'v service \<Rightarrow> 'v service \<Rightarrow> bool" for X A i where
  chase_close: "chase X A i s (fst (close X A pos c s))"
| chase_flatten: "chase X A i s (fst (flatten X A mk ps s))"
| chase_reconcile: "(\<And>v acks. ad_orders A (xs_venue s) = (v, Inr acks) \<Longrightarrow> find_ack acks i = None) \<Longrightarrow>
    chase X A i s (fst (reconcile X A now s))"

text \<open>C39: a close of unknown outcome is never sent again. Through any sequence of closes, flattens and
  reconciliations with a venue whose order list does not show it, the intent stays UNKNOWN and its reference is not
  dispatched.\<close>

theorem unknown_close_is_never_resent:
  assumes "(chase X A i)\<^sup>*\<^sup>* s s'" "store_ok (xs_store s)" "store_get (oi_client_ref i) (xs_store s) = Some i" "oi_state i = IS_UNKNOWN"
  shows "store_get (oi_client_ref i) (xs_store s') = Some i
    \<and> (\<exists>es. xs_trace s' = xs_trace s @ es \<and> Dispatched (oi_client_ref i) \<notin> set es)"
proof -
  from assms(1) have "held i s s'"
  proof induction
    case base
    show ?case using held_refl assms(2,3) .
  next
    case (step s1 s2)
    then have "store_ok (xs_store s1)" "store_get (oi_client_ref i) (xs_store s1) = Some i" by (simp_all add: held_def)
    from step(2) this have "held i s1 s2"
      by (cases rule: chase.cases) (auto intro: close_held flatten_held reconcile_held simp: assms(4))
    with step(3) show ?case by (rule held_trans)
  qed
  then show ?thesis by (auto simp: held_def extends_def)
qed


definition lost_close :: order_intent where
  "lost_close = position_intent lossy DEMO sample_position (close_client_ref sample_position) SHORT (Fin 500) (utc 0) None None []\<lparr>oi_state := IS_UNKNOWN\<rparr>"

theorem unknown_close_is_never_resent_witness:
  "\<exists>es. xs_trace (fst (flatten sample_X lossy (\<lambda>_. Inr sample_exit) [sample_position]
          (fst (reconcile sample_X lossy (utc 1) (fst (close sample_X lossy sample_position sample_exit (service_with lost_close)))))))
      = xs_trace (service_with lost_close) @ es \<and> Dispatched (oi_client_ref lost_close) \<notin> set es"
proof -
  let ?s1 = "fst (close sample_X lossy sample_position sample_exit (service_with lost_close))"
  let ?s2 = "fst (reconcile sample_X lossy (utc 1) ?s1)"
  let ?s3 = "fst (flatten sample_X lossy (\<lambda>_. Inr sample_exit) [sample_position] ?s2)"
  have a: "chase sample_X lossy lost_close (service_with lost_close) ?s1" by (rule chase_close)
  have b: "chase sample_X lossy lost_close ?s1 ?s2"
    by (rule chase_reconcile) (auto simp: lossy_def find_ack_def by_broker_ref_def by_client_ref_def)
  have "chase sample_X lossy lost_close ?s2 ?s3" by (rule chase_flatten)
  from rtranclp.rtrancl_into_rtrancl [OF rtranclp.rtrancl_into_rtrancl [OF r_into_rtranclp [of "chase sample_X lossy lost_close", OF a] b] this]
  have "(chase sample_X lossy lost_close)\<^sup>*\<^sup>* (service_with lost_close) ?s3" .
  from unknown_close_is_never_resent [OF this] show ?thesis
    by (simp add: service_with_def store_ok_def store_get_def lost_close_def)
qed

lemma amend_loop_stored:
  assumes "amend_loop n k attempts r call i d now err s = (s1, Inr out)" "oi_client_ref i = r"
    and "map_option oi_state (store_get r (xs_store s)) \<noteq> Some IS_FILLED"
  shows "so_accepted out \<longleftrightarrow> map_option oi_state (store_get r (xs_store s1)) = Some IS_FILLED" "so_decision out = Some d" "\<not> ao_skipped out"
    "so_intent out = store_get r (xs_store s1)"
proof -
  have "(so_accepted out \<longleftrightarrow> map_option oi_state (store_get r (xs_store s1)) = Some IS_FILLED) \<and> so_decision out = Some d \<and> \<not> ao_skipped out
      \<and> so_intent out = store_get r (xs_store s1)"
    using assms
  proof (induction n arbitrary: k i err s)
    case 0
    then show ?case by auto
  next
    case (Suc n)
    have not_filled: "state \<noteq> IS_FILLED" if "classify_amend e = Stop state msg \<or> classify_amend e = Again state msg" for e state msg
      using that by (cases e) auto
    show ?case
    proof (cases "dispatch r call s")
      case (Pair s' res)
      show ?thesis
      proof (cases res)
        case (Inr a)
        then show ?thesis using Suc.prems Pair by (auto simp: Let_def store_get_write)
      next
        case (Inl e)
        show ?thesis
        proof (cases "classify_amend e")
          case (Again state msg)
          let ?i = "i\<lparr>oi_dispatch_attempts := k, oi_updated_at := now\<rparr>"
          let ?s2 = "write_intent (?i\<lparr>oi_state := state, oi_updated_at := now, oi_last_error := msg\<rparr>) s'"
          have "amend_loop n (Suc k) attempts r call ?i d now msg ?s2 = (s1, Inr out)"
            using Suc.prems(1) Pair Inl Again by (simp add: Let_def)
          then show ?thesis by (rule Suc.IH) (use Suc.prems(2) not_filled [of e] Again in \<open>auto simp: store_get_write\<close>)
        qed (use Suc.prems Pair Inl not_filled [of e] in \<open>auto simp: Let_def store_get_write\<close>)
      qed
    qed
  qed
  then show "so_accepted out \<longleftrightarrow> map_option oi_state (store_get r (xs_store s1)) = Some IS_FILLED" "so_decision out = Some d" "\<not> ao_skipped out"
    "so_intent out = store_get r (xs_store s1)" by auto
qed

lemma amend_loop_frame:
  "oi_client_ref i = r \<Longrightarrow> q \<noteq> r \<Longrightarrow> store_get q (xs_store (fst (amend_loop n k attempts r call i d now err s))) = store_get q (xs_store s)"
proof (induction n arbitrary: k i err s)
  case (Suc n)
  then show ?case
    by (cases "dispatch r call s")
      (auto simp: Let_def store_get_write dispatch_def split: sum.splits amend_failure.splits prod.splits)
qed simp

definition amend_attempts :: "int option \<Rightarrow> nat" where
  "amend_attempts retry = (case retry of Some n \<Rightarrow> if n \<noteq> 0 then nat n else 1 | None \<Rightarrow> 1)"

lemma amend_frame:
  "q \<noteq> amend_client_ref (ps_position_id pos) sl tp \<Longrightarrow>
     store_get q (xs_store (fst (amend X A pos sl tp c retry reason s))) = store_get q (xs_store s)"
  by (auto simp: amend_def Let_def amend_loop_frame store_get_write split: prod.splits sum.splits)

text \<open>An allowed amendment is either the skip of levels on record or the loop over the attempts.\<close>

lemma amend_cases:
  assumes "amend X A pos sl tp c retry reason s = (s1, Inr out)" "so_decision out = Some d" "rd_allowed d"
  obtains (skip) "map_option oi_state (store_get (amend_client_ref (ps_position_id pos) sl tp) (xs_store s)) = Some IS_FILLED"
      "xs_store s1 = xs_store s" "xs_trace s1 = xs_trace s" "so_accepted out" "ao_skipped out"
      "so_intent out = store_get (amend_client_ref (ps_position_id pos) sl tp) (xs_store s)"
  | (loop) i att g call where "oi_client_ref i = amend_client_ref (ps_position_id pos) sl tp" "oi_state i = IS_PENDING"
      "nat att = amend_attempts retry"
      "amend_loop (nat att) 1 att (amend_client_ref (ps_position_id pos) sl tp) call i d (cx_now c) [] (write_intent i (s\<lparr>xs_gateway := g\<rparr>)) = (s1, Inr out)"
proof -
  let ?r = "amend_client_ref (ps_position_id pos) sl tp"
  obtain g d' where ev: "evaluate_exit (xe_gw X) (xs_gateway s) c = (g, Inr d')"
    using assms(1) by (auto simp: amend_def Let_def split: prod.splits sum.splits)
  have allowed: "rd_allowed d'" using assms ev by (auto simp: amend_def Let_def split: if_splits)
  show thesis
  proof (cases "map_option oi_state (store_get ?r (xs_store s)) = Some IS_FILLED")
    case True
    then show thesis using assms(1) ev allowed by (intro skip) (auto simp: amend_def Let_def)
  next
    case False
    define i where "i = position_intent A (xs_mode s) pos ?r (ps_direction pos) (ps_size pos) (cx_now c) sl tp
                      [(''amend'', JBool True), (''position_id'', JStr (ps_position_id pos)), (''reason'', JStr reason)]"
    define att where "att = (case retry of Some n \<Rightarrow> if n \<noteq> 0 then n else 1 | None \<Rightarrow> 1)"
    have i: "oi_client_ref i = ?r" "oi_state i = IS_PENDING" by (simp_all add: i_def)
    have att: "nat att = amend_attempts retry" by (auto simp: att_def amend_attempts_def split: option.splits)
    have run: "amend_loop (nat att) 1 att ?r (ad_amend_position A pos sl tp ?r reason) i d' (cx_now c) []
        (write_intent i (s\<lparr>xs_gateway := g\<rparr>)) = (s1, Inr out)"
      using assms(1) ev allowed False by (simp add: amend_def Let_def i_def att_def del: map_option_eq_Some)
    moreover have "d' = d" using amend_loop_stored(2) [OF run i(1)] i assms(2) by (simp add: store_get_write)
    ultimately show thesis using loop [OF i att] by simp
  qed
qed

lemma amend_record:
  assumes "amend X A pos sl tp c retry reason s = (s1, Inr out)" "so_decision out = Some d" "rd_allowed d"
  shows "so_accepted out \<longleftrightarrow>
      map_option oi_state (store_get (amend_client_ref (ps_position_id pos) sl tp) (xs_store s1)) = Some IS_FILLED"
    "so_intent out = store_get (amend_client_ref (ps_position_id pos) sl tp) (xs_store s1)"
  using assms by (cases rule: amend_cases; auto simp: amend_loop_stored store_get_write)+

text \<open>An amendment reports what is on record. When the gateway allows it and the call returns, it is accepted
  exactly when the intent stored under the key of its levels is FILLED, the intent it returns is the stored one,
  every instruction sent was written ahead, and it sent at most the attempts of the retry policy, none when it
  reports a skip.\<close>

theorem amend_reports_the_record:
  assumes "amend X A pos sl tp c retry reason s = (s1, Inr out)" "so_decision out = Some d" "rd_allowed d"
  shows "(so_accepted out \<longleftrightarrow>
           map_option oi_state (store_get (amend_client_ref (ps_position_id pos) sl tp) (xs_store s1)) = Some IS_FILLED)
    \<and> so_intent out = store_get (amend_client_ref (ps_position_id pos) sl tp) (xs_store s1)
    \<and> (\<exists>es. xs_trace s1 = xs_trace s @ es \<and> write_ahead [] es
          \<and> length (filter (\<lambda>e. e = Dispatched (amend_client_ref (ps_position_id pos) sl tp)) es)
             \<le> (if ao_skipped out then 0 else amend_attempts retry))"
  using assms
proof (cases rule: amend_cases)
  case skip
  then show ?thesis using amend_record [OF assms] by simp
next
  case (loop i att g call)
  let ?r = "amend_client_ref (ps_position_id pos) sl tp" and ?s0 = "write_intent i (s\<lparr>xs_gateway := g\<rparr>)"
  from amend_loop_trace [OF loop(1), of "nat att" 1 att call d "cx_now c" "[]" ?s0] loop(4) obtain es
    where es: "xs_trace s1 = xs_trace ?s0 @ es" "write_ahead [?r] es" "length (filter (\<lambda>e. e = Dispatched ?r) es) \<le> nat att" by auto
  have "\<not> ao_skipped out" using amend_loop_stored(3) [OF loop(4,1)] loop(1,2) by (simp add: store_get_write)
  with es loop(1-3) show ?thesis
    by (intro conjI amend_record [OF assms] exI [of _ "Wrote i # es"]) auto
qed

text \<open>Levels the venue held once are never sent again. After an accepted amendment to some levels and any
  amendment to others, an amendment back to the first levels reports acceptance and sends nothing: the venue keeps
  the levels of the second.\<close>

theorem returning_levels_are_skipped:
  assumes "amend X A pos sl tp c retry reason s = (s1, Inr out)" "so_decision out = Some d" "rd_allowed d" "so_accepted out"
    and "amend X A pos sl2 tp2 c2 retry2 reason2 s1 = (s2, Inr out2)"
    and "amend_client_ref (ps_position_id pos) sl2 tp2 \<noteq> amend_client_ref (ps_position_id pos) sl tp"
    and "evaluate_exit (xe_gw X) (xs_gateway s2) c3 = (g, Inr d3)" "rd_allowed d3"
  shows "\<exists>s3 out3. amend X A pos sl tp c3 retry3 reason3 s2 = (s3, Inr out3)
    \<and> so_accepted out3 \<and> xs_trace s3 = xs_trace s2 \<and> xs_venue s3 = xs_venue s2"
proof -
  let ?r = "amend_client_ref (ps_position_id pos) sl tp"
  have "map_option oi_state (store_get ?r (xs_store s1)) = Some IS_FILLED"
    using amend_record(1) [OF assms(1-3)] assms(4) by simp
  then have "map_option oi_state (store_get ?r (xs_store s2)) = Some IS_FILLED"
    using amend_frame [of ?r pos sl2 tp2 X A c2 retry2 reason2 s1] assms(5,6) by simp
  then show ?thesis using assms(7,8) by (auto simp: amend_def Let_def)
qed

lemma partial_live:
  assumes "close_partial X A pos sz c reason s = (s1, Inr out)" "so_accepted out"
  shows "live_intent (partial_client_ref pos sz) (xs_store s1)"
proof -
  have flat: "state = IS_CLOSED" if "close_failure e = Inr (True, state, err, msg)" for e state err msg
    using that by (cases e) auto
  show ?thesis
    using assms by (auto simp: close_partial_def dispatch_def live_after_write blocks_resubmission_def Let_def
        split: prod.splits sum.splits if_splits dest!: flat)
qed

text \<open>One partial close per position and size. After an accepted partial close, a second one of the same size on
  that position raises and sends nothing, also when it is a different leg of the scale-out.\<close>

theorem equal_partial_is_refused:
  assumes "close_partial X A pos sz c reason s = (s1, Inr out)" "so_accepted out"
    and "ps_position_id pos2 = ps_position_id pos"
    and "evaluate_exit (xe_gw X) (xs_gateway s1) c2 = (g, Inr d)" "rd_allowed d"
  shows "\<exists>s2 why. close_partial X A pos2 sz c2 reason2 s1 = (s2, Inl (IdempotencyViolation why))
    \<and> xs_trace s2 = xs_trace s1 \<and> xs_venue s2 = xs_venue s1"
proof -
  have "live_intent (partial_client_ref pos2 sz) (xs_store s1)"
    using partial_live [OF assms(1,2)] assms(3) by (simp add: partial_client_ref_def)
  then show ?thesis using assms(4,5) by (auto simp: close_partial_def Let_def)
qed


text \<open>A venue that applies every amendment and partial close.\<close>

definition obliging :: "flt list adapter" where
  "obliging = lossy
     \<lparr>ad_amend_position := (\<lambda>pos sl tp r why v. (v @ [case sl of Some x \<Rightarrow> x | None \<Rightarrow> Fin 0], Inr sample_ack)),
      ad_close_partial := (\<lambda>pos sz r why v. (v @ [sz], Inr sample_ack))\<rparr>"

lemma sample_exit_allowed:
  assumes "gw_kill_switch g = gw_kill_switch sample_gateway"
  shows "\<exists>g' d. evaluate_exit sample_env g sample_exit = (g', Inr d) \<and> rd_allowed d \<and> gw_kill_switch g' = gw_kill_switch sample_gateway"
  using assms
  by (simp add: evaluate_exit_def adds_risk_def sample_exit_def exit_reasons_def EXIT_CHECKS_def verify_coverage_def
      check_kill_switch_def allows_def permits_def refresh_def ks_new_def sample_defs record_attempt_def Let_def
      check_market_state_def check_data_freshness_def check_stale_price_def check_broker_health_def age_seconds_def ts_sub_def
      limits_in_force_def published_defs)

lemma levels_text:
  "show_nat 10000000000 = ''10000000000''" "show_nat 20000000000 = ''20000000000''"
  by (simp_all add: show_nat.simps char_of_eq_iff)

lemma levels_distinct:
  "amend_client_ref pid (Some (Fin 2)) tp \<noteq> amend_client_ref pid (Some (Fin 1)) tp"
  by (simp add: amend_client_ref_def level_text_def py_defs levels_text)

lemma obliging_amend:
  assumes "gw_kill_switch (xs_gateway s) = gw_kill_switch sample_gateway"
    and "store_get (amend_client_ref ''pos1'' sl None) (xs_store s) = None"
  shows "\<exists>s1 out d. amend sample_X obliging sample_position sl None sample_exit None [] s = (s1, Inr out)
    \<and> so_decision out = Some d \<and> rd_allowed d \<and> so_accepted out \<and> gw_kill_switch (xs_gateway s1) = gw_kill_switch sample_gateway
    \<and> xs_venue s1 = xs_venue s @ [case sl of Some x \<Rightarrow> x | None \<Rightarrow> Fin 0]"
proof -
  obtain g d where "evaluate_exit sample_env (xs_gateway s) sample_exit = (g, Inr d)" "rd_allowed d"
      "gw_kill_switch g = gw_kill_switch sample_gateway" using sample_exit_allowed [OF assms(1)] by blast
  moreover have "ps_position_id sample_position = ''pos1''" by (simp add: sample_position_def)
  ultimately show ?thesis using assms(2) by (simp add: amend_def Let_def dispatch_def obliging_def)
qed

theorem amend_reports_the_record_witness:
  "\<exists>s1 out. amend sample_X obliging sample_position (Some (Fin 1)) None sample_exit None [] sample_service = (s1, Inr out) \<and> so_accepted out
    \<and> map_option oi_state (store_get (amend_client_ref (ps_position_id sample_position) (Some (Fin 1)) None) (xs_store s1)) = Some IS_FILLED"
proof -
  obtain s1 out d where a: "amend sample_X obliging sample_position (Some (Fin 1)) None sample_exit None [] sample_service = (s1, Inr out)"
      "so_decision out = Some d" "rd_allowed d" "so_accepted out"
    using obliging_amend [of sample_service "Some (Fin 1)"] by (auto simp: store_get_def)
  from amend_reports_the_record [OF a(1-3)] a show ?thesis by blast
qed

theorem returning_levels_are_skipped_witness:
  "\<exists>s1 o1 s2 o2 s3 o3. amend sample_X obliging sample_position (Some (Fin 1)) None sample_exit None [] sample_service = (s1, Inr o1)
    \<and> amend sample_X obliging sample_position (Some (Fin 2)) None sample_exit None [] s1 = (s2, Inr o2)
    \<and> amend sample_X obliging sample_position (Some (Fin 1)) None sample_exit None [] s2 = (s3, Inr o3)
    \<and> so_accepted o3 \<and> xs_venue s3 = [Fin 1, Fin 2]"
proof -
  let ?amend = "\<lambda>x. amend sample_X obliging sample_position (Some (Fin x)) None sample_exit None []"
  have pid: "ps_position_id sample_position = ''pos1''" by (simp add: sample_position_def)
  obtain s1 o1 d where a: "?amend 1 sample_service = (s1, Inr o1)" "so_decision o1 = Some d" "rd_allowed d" "so_accepted o1"
      "gw_kill_switch (xs_gateway s1) = gw_kill_switch sample_gateway" "xs_venue s1 = [Fin 1]"
    using obliging_amend [of sample_service "Some (Fin 1)"] by (auto simp: store_get_def)
  have "store_get (amend_client_ref ''pos1'' (Some (Fin 2)) None) (xs_store s1) = None"
    using amend_frame [of "amend_client_ref ''pos1'' (Some (Fin 2)) None" sample_position "Some (Fin 1)" None sample_X obliging
        sample_exit None "[]" sample_service] a(1) levels_distinct by (simp add: pid store_get_def)
  from obliging_amend [OF a(5) this] obtain s2 o2 where b: "?amend 2 s1 = (s2, Inr o2)"
      "gw_kill_switch (xs_gateway s2) = gw_kill_switch sample_gateway" "xs_venue s2 = [Fin 1, Fin 2]" using a(6) by auto
  from sample_exit_allowed [OF b(2)] obtain g d3 where e: "evaluate_exit (xe_gw sample_X) (xs_gateway s2) sample_exit = (g, Inr d3)" "rd_allowed d3"
    by auto
  from returning_levels_are_skipped [OF a(1-4) b(1) levels_distinct e, of None "[]"] a b show ?thesis by auto
qed

theorem equal_partial_is_refused_witness:
  "\<exists>s1 o1 s2 why. close_partial sample_X obliging sample_position (Fin 100) sample_exit [] sample_service = (s1, Inr o1) \<and> so_accepted o1
    \<and> close_partial sample_X obliging (sample_position\<lparr>ps_size := Fin 400\<rparr>) (Fin 100) sample_exit [] s1 = (s2, Inl (IdempotencyViolation why))
    \<and> xs_venue s2 = [Fin 100]"
proof -
  from sample_exit_allowed [of sample_gateway] obtain g d where g: "evaluate_exit sample_env sample_gateway sample_exit = (g, Inr d)"
      "rd_allowed d" "gw_kill_switch g = gw_kill_switch sample_gateway" by blast
  have "\<exists>s1 o1. close_partial sample_X obliging sample_position (Fin 100) sample_exit [] sample_service = (s1, Inr o1)
      \<and> so_accepted o1 \<and> xs_gateway s1 = g \<and> xs_venue s1 = [Fin 100]"
    using g by (simp add: close_partial_def Let_def live_intent_def store_get_def dispatch_def obliging_def)
  then obtain s1 o1 where a: "close_partial sample_X obliging sample_position (Fin 100) sample_exit [] sample_service = (s1, Inr o1)"
      "so_accepted o1" "xs_gateway s1 = g" "xs_venue s1 = [Fin 100]" by blast
  from sample_exit_allowed [OF g(3)] obtain g2 d2 where e: "evaluate_exit (xe_gw sample_X) (xs_gateway s1) sample_exit = (g2, Inr d2)" "rd_allowed d2"
    using a(3) by auto
  from equal_partial_is_refused [OF a(1,2) _ e, of "sample_position\<lparr>ps_size := Fin 400\<rparr>" "[]"] a show ?thesis by auto
qed


end
