(* ===== verification/Durable_Log.thy ===== *)
theory Durable_Log
  imports Py_Prelude "HOL-Library.Word"
begin

text \<open>
  The durable append-only ledger of \<open>core/durable.py\<close>: CRC-32 framing of a JSON line, verification, the scan of a
  file into verified records and a torn tail, quarantine, append, read, and the atomically replaced record file.

  A byte string is a list of characters; a text is its UTF-8 form. Whether \<open>json.loads\<close> accepts an unframed line is
  an argument. Every operation runs under the file lock, so operations are atomic; a crash is an append that gets
  only part of its bytes onto the disk. Flushing (\<open>full_fsync\<close>, \<open>fsync_directory\<close>) is what makes a completed write
  survive and has no other effect. The hooks fired on a torn tail are kept as a list of events.
\<close>

unbundle bit_operations_syntax

section \<open>CRC-32\<close>

definition crc_bit :: "32 word \<Rightarrow> 32 word" where
  "crc_bit c = (if bit c 0 then drop_bit 1 c XOR 0xEDB88320 else drop_bit 1 c)"

definition crc_byte :: "32 word \<Rightarrow> char \<Rightarrow> 32 word" where
  "crc_byte c b = (crc_bit ^^ 8) (c XOR word_of_nat (of_char b))"

definition crc32 :: "string \<Rightarrow> 32 word" where
  "crc32 s = NOT (foldl crc_byte 0xFFFFFFFF s)"

definition hex_digit :: "nat \<Rightarrow> char" where
  "hex_digit n = char_of (if n < 10 then 48 + n else 87 + n)"

definition hex8 :: "32 word \<Rightarrow> string" where
  "hex8 w = map (\<lambda>i. hex_digit (unat (take_bit 4 (drop_bit (4 * i) w)))) (rev [0..<8])"

definition crc_text :: "string \<Rightarrow> string" where
  "crc_text payload = hex8 (crc32 payload)"


section \<open>Bytes and text\<close>

text \<open>A byte string and the UTF-8 form of a text are both a list of characters (a character is a byte).\<close>

abbreviation nl :: char where
  "nl \<equiv> CHR 0x0A"

definition cont_byte :: "nat \<Rightarrow> bool" where
  "cont_byte b \<longleftrightarrow> 128 \<le> b \<and> b \<le> 191"

fun utf8_ok :: "nat list \<Rightarrow> bool" where
  "utf8_ok [] = True"
| "utf8_ok (b # bs) =
     (if b < 128 then utf8_ok bs
      else if 194 \<le> b \<and> b \<le> 223 then (case bs of c # r \<Rightarrow> cont_byte c \<and> utf8_ok r | _ \<Rightarrow> False)
      else if 224 \<le> b \<and> b \<le> 239 then
        (case bs of c # d # r \<Rightarrow>
             (if b = 224 then 160 \<le> c \<and> c \<le> 191 else if b = 237 then 128 \<le> c \<and> c \<le> 159 else cont_byte c) \<and> cont_byte d \<and> utf8_ok r
         | _ \<Rightarrow> False)
      else if 240 \<le> b \<and> b \<le> 244 then
        (case bs of c # d # e # r \<Rightarrow>
             (if b = 240 then 144 \<le> c \<and> c \<le> 191 else if b = 244 then 128 \<le> c \<and> c \<le> 143 else cont_byte c)
             \<and> cont_byte d \<and> cont_byte e \<and> utf8_ok r
         | _ \<Rightarrow> False)
      else False)"

definition is_utf8 :: "string \<Rightarrow> bool" where
  "is_utf8 s = utf8_ok (map of_char s)"

text \<open>\<open>s[:1].isspace()\<close>, on the UTF-8 form of \<open>s\<close>.\<close>

definition py_spaces :: "nat list list" where
  "py_spaces = map (\<lambda>n. [n]) ([9..<14] @ [28..<33]) @ [[194, 133], [194, 160], [225, 154, 128]]
     @ map (\<lambda>n. [226, 128, n]) ([128..<139] @ [168, 169, 175]) @ [[226, 129, 159], [227, 128, 128]]"

definition starts_with_space :: "string \<Rightarrow> bool" where
  "starts_with_space s \<longleftrightarrow> list_ex (\<lambda>p. prefix p (map of_char s)) py_spaces"

text \<open>\<open>bytes.strip()\<close>.\<close>

definition byte_space :: "char \<Rightarrow> bool" where
  "byte_space c \<longleftrightarrow> of_char c \<in> {9 :: nat, 10, 11, 12, 13, 32}"

definition bytes_strip :: "string \<Rightarrow> string" where
  "bytes_strip s = rev (dropWhile byte_space (rev (dropWhile byte_space s)))"


section \<open>Framing\<close>

definition FRAME_PREFIX :: string where
  "FRAME_PREFIX = ''{\"_crc32\":\"''"

abbreviation FrameError :: "ftext \<Rightarrow> pyexn" where
  "FrameError \<equiv> PyExn ''FrameError''"
abbreviation DurableLogCorrupt :: "ftext \<Rightarrow> pyexn" where
  "DurableLogCorrupt \<equiv> PyExn ''DurableLogCorrupt''"

definition frame_line :: "string \<Rightarrow> pyexn + string" where
  "frame_line payload =
     (if \<not> prefix ''{'' payload \<or> \<not> suffix ''}'' payload
        then Inl (ValueError (lit ''durable lines are JSON objects''))
      else if nl \<in> set payload \<or> CHR 0x0D \<in> set payload
        then Inl (ValueError (lit ''a durable line may not contain a raw newline''))
      else if prefix (butlast FRAME_PREFIX) payload
        then Inl (ValueError (lit ''payload is already framed''))
      else if payload = ''{}'' then Inr (FRAME_PREFIX @ crc_text payload @ ''\"}'')
      else if starts_with_space (tl payload)
        then Inl (ValueError (lit ''payload must start with a key''))
      else Inr (FRAME_PREFIX @ crc_text payload @ ''\",'' @ tl payload))"

text \<open>\<open>json_ok line\<close> is whether \<open>json.loads(line)\<close> succeeds.\<close>

definition decode_line :: "(string \<Rightarrow> bool) \<Rightarrow> string \<Rightarrow> pyexn + string \<times> bool" where
  "decode_line json_ok line =
     (if prefix FRAME_PREFIX line then
        let crc = take 8 (drop (length FRAME_PREFIX) line); rest = drop (length FRAME_PREFIX + 8) line in
        rbind (if rest = ''\"}'' then Inr ''{}''
               else if prefix ''\",'' rest then Inr (CHR ''{'' # drop 2 rest)
               else Inl (FrameError (lit ''malformed frame'')))
          (\<lambda>payload. if length crc \<noteq> 8 \<or> crc_text payload \<noteq> lower crc
                     then Inl (FrameError (lit ''crc32 mismatch'')) else Inr (payload, True))
      else if json_ok line then Inr (line, False)
      else Inl (FrameError (lit ''not JSON'')))"

text \<open>\<open>decode_line(text.decode("utf-8"))\<close>.\<close>

definition decode_bytes :: "(string \<Rightarrow> bool) \<Rightarrow> string \<Rightarrow> pyexn + string \<times> bool" where
  "decode_bytes json_ok s =
     (if is_utf8 s then decode_line json_ok s else Inl (PyExn ''UnicodeDecodeError'' (lit ''invalid utf-8'')))"


section \<open>Scanning a ledger\<close>

record scan_result =
  sc_payloads :: "string list"
  sc_good_len :: nat
  sc_torn :: "string option"
  sc_reason :: ftext

abbreviation mk_scan :: "string list \<Rightarrow> nat \<Rightarrow> string option \<Rightarrow> ftext \<Rightarrow> scan_result" where
  "mk_scan ps n t r \<equiv> \<lparr>sc_payloads = ps, sc_good_len = n, sc_torn = t, sc_reason = r\<rparr>"

fun split_nl :: "string \<Rightarrow> string list" where
  "split_nl [] = [[]]"
| "split_nl (c # cs) =
     (if c = nl then [] # split_nl cs else case split_nl cs of l # ls \<Rightarrow> (c # l) # ls | [] \<Rightarrow> [[c]])"

fun scan_lines ::
  "(string \<Rightarrow> bool) \<Rightarrow> string \<Rightarrow> string \<Rightarrow> nat \<Rightarrow> nat \<Rightarrow> string list \<Rightarrow> string list \<Rightarrow> pyexn + scan_result" where
  "scan_lines J blob partial index pos payloads [] =
     Inr (if partial \<noteq> [] then mk_scan payloads pos (Some (drop pos blob)) (lit ''last record is not newline-terminated'')
          else mk_scan payloads pos None [])"
| "scan_lines J blob partial index pos payloads (raw # rest) =
     (let end' = pos + length raw + 1; text = bytes_strip raw in
      if text = [] then scan_lines J blob partial (Suc index) end' payloads rest
      else case decode_bytes J text of
        Inr (payload, _) \<Rightarrow> scan_lines J blob partial (Suc index) end' (payloads @ [payload]) rest
      | Inl e \<Rightarrow>
          if list_all (\<lambda>r. bytes_strip r = []) rest \<and> bytes_strip partial = []
          then Inr (mk_scan payloads pos (Some (drop pos blob)) (Lit ''last record failed verification: '' # exn_text e))
          else Inl (DurableLogCorrupt [Lit ''line '', Lit (show_nat (Suc index)), Lit '' failed verification'']))"

definition scan :: "(string \<Rightarrow> bool) \<Rightarrow> string \<Rightarrow> pyexn + scan_result" where
  "scan J blob = (let parts = split_nl blob in scan_lines J blob (last parts) 0 0 [] (butlast parts))"


section \<open>The ledger on disk\<close>

text \<open>The file if it exists, the quarantine copies made so far, and the torn-tail events fired.\<close>

record torn_tail =
  tt_quarantined :: bool
  tt_bytes :: nat
  tt_reason :: ftext

record ledger =
  lg_file :: "string option"
  lg_copies :: "string list"
  lg_events :: "torn_tail list"

definition empty_ledger :: ledger where
  "empty_ledger = \<lparr>lg_file = None, lg_copies = [], lg_events = []\<rparr>"

text \<open>\<open>os.write\<close> may accept only part of the view; the loop goes on with the rest. \<open>w k n\<close> is what the \<open>k\<close>th call
  accepts of \<open>n\<close> bytes.\<close>

partial_function (option) write_all :: "(nat \<Rightarrow> nat \<Rightarrow> nat) \<Rightarrow> nat \<Rightarrow> string \<Rightarrow> string \<Rightarrow> string option" where
  "write_all w k view disk =
     (if view = [] then Some disk
      else write_all w (Suc k) (drop (w k (length view)) view) (disk @ take (w k (length view)) view))"

text \<open>\<open>os.pread\<close> may return fewer bytes than asked for; an empty chunk ends the loop.\<close>

function read_fd :: "(nat \<Rightarrow> nat \<Rightarrow> nat) \<Rightarrow> string \<Rightarrow> nat \<Rightarrow> string" where
  "read_fd r disk offset =
     (if offset < length disk then
        let chunk = take (r offset (min 1048576 (length disk - offset))) (take (min 1048576 (length disk - offset)) (drop offset disk))
        in if chunk = [] then [] else chunk @ read_fd r disk (offset + length chunk)
      else [])"
  by pat_completeness auto
termination
  by (relation "measure (\<lambda>(r, disk, offset). length disk - offset)") (auto simp: Let_def)

text \<open>Preserving the torn bytes and cutting the ledger back; \<open>ok\<close> is whether the file system allows it.\<close>

definition quarantine :: "bool \<Rightarrow> scan_result \<Rightarrow> ledger \<Rightarrow> ledger" where
  "quarantine ok sc L =
     (let torn = (case sc_torn sc of Some t \<Rightarrow> t | None \<Rightarrow> []);
          ev = \<lparr>tt_quarantined = ok, tt_bytes = length torn, tt_reason = sc_reason sc\<rparr>;
          L1 = (if ok then L\<lparr>lg_copies := lg_copies L @ [torn], lg_file := map_option (take (sc_good_len sc)) (lg_file L)\<rparr> else L)
      in L1\<lparr>lg_events := lg_events L1 @ [ev]\<rparr>)"

definition TAIL_WINDOW :: nat where
  "TAIL_WINDOW = 65536"

definition after_last_nl :: "string \<Rightarrow> string" where
  "after_last_nl s = last (split_nl s)"

definition tail_is_clean :: "(string \<Rightarrow> bool) \<Rightarrow> string \<Rightarrow> bool" where
  "tail_is_clean J disk =
     (let window = min (length disk) TAIL_WINDOW; tail = drop (length disk - window) disk in
      if \<not> suffix [nl] tail then False
      else let body = butlast tail in
        if nl \<notin> set body \<and> window < length disk then True
        else let lst = bytes_strip (after_last_nl body) in
          lst = [] \<or> (case decode_bytes J lst of Inr _ \<Rightarrow> True | Inl _ \<Rightarrow> False))"

text \<open>An append that gets \<open>n\<close> bytes of its record onto the disk; the whole record is the normal case, fewer a crash.\<close>

definition append_upto :: "(string \<Rightarrow> bool) \<Rightarrow> bool \<Rightarrow> nat \<Rightarrow> string \<Rightarrow> ledger \<Rightarrow> ledger \<times> (pyexn + unit)" where
  "append_upto J ok n text L =
     (let data = text @ [nl]; disk = (case lg_file L of Some f \<Rightarrow> f | None \<Rightarrow> []); L0 = L\<lparr>lg_file := Some disk\<rparr> in
      case (if disk \<noteq> [] \<and> \<not> tail_is_clean J disk
            then rbind (scan J disk) (\<lambda>sc. Inr (if sc_torn sc \<noteq> None then quarantine ok sc L0 else L0))
            else Inr L0) of
        Inl e \<Rightarrow> (L0, Inl e)
      | Inr L1 \<Rightarrow> (L1\<lparr>lg_file := map_option (\<lambda>f. f @ take n data) (lg_file L1)\<rparr>, Inr ()))"

definition durable_append :: "(string \<Rightarrow> bool) \<Rightarrow> bool \<Rightarrow> string \<Rightarrow> bool \<Rightarrow> ledger \<Rightarrow> ledger \<times> (pyexn + unit)" where
  "durable_append J ok line frame L =
     (case (if frame then frame_line line else Inr line) of
        Inl e \<Rightarrow> (L, Inl e)
      | Inr text \<Rightarrow>
          if nl \<in> set text then (L, Inl (ValueError (lit ''a durable record is one line'')))
          else append_upto J ok (Suc (length text)) text L)"

definition touch_durable :: "ledger \<Rightarrow> ledger" where
  "touch_durable L = (if lg_file L = None then L\<lparr>lg_file := Some []\<rparr> else L)"

text \<open>\<open>locked\<close> is whether the file can be opened for writing to quarantine its tail. Between the first read and the
  lock another process may have written: \<open>now\<close> is the file found under the lock.\<close>

definition read_payloads ::
  "(string \<Rightarrow> bool) \<Rightarrow> bool \<Rightarrow> bool \<Rightarrow> bool \<Rightarrow> string option \<Rightarrow> ledger \<Rightarrow> ledger \<times> (pyexn + string list)" where
  "read_payloads J ok locked quar now L =
     (case lg_file L of
        None \<Rightarrow> (L, Inr [])
      | Some blob \<Rightarrow>
          (case scan J blob of
             Inl e \<Rightarrow> (L, Inl e)
           | Inr sc \<Rightarrow>
               let ev = \<lparr>tt_quarantined = False, tt_bytes = length (case sc_torn sc of Some t \<Rightarrow> t | None \<Rightarrow> []), tt_reason = sc_reason sc\<rparr> in
               if sc_torn sc = None then (L, Inr (sc_payloads sc))
               else if \<not> quar \<or> \<not> locked then (L\<lparr>lg_events := lg_events L @ [ev]\<rparr>, Inr (sc_payloads sc))
               else let L1 = L\<lparr>lg_file := (case now of Some f \<Rightarrow> Some f | None \<Rightarrow> Some blob)\<rparr> in
                 case scan J (the (lg_file L1)) of
                   Inl e \<Rightarrow> (L1, Inl e)
                 | Inr sc2 \<Rightarrow> (if sc_torn sc2 \<noteq> None then quarantine ok sc2 L1 else L1, Inr (sc_payloads sc2))))"


section \<open>Replaced records\<close>

record record_file =
  rf_target :: "string option"
  rf_tmp :: "string option"

text \<open>The states a crash may leave while a record is replaced: some of the bytes in the temporary file, then the
  rename.\<close>

definition write_tmp :: "string \<Rightarrow> nat \<Rightarrow> record_file \<Rightarrow> record_file" where
  "write_tmp data n F = F\<lparr>rf_tmp := Some (take n data)\<rparr>"

definition rename_tmp :: "record_file \<Rightarrow> record_file" where
  "rename_tmp F = \<lparr>rf_target = rf_tmp F, rf_tmp = None\<rparr>"

definition write_record_atomic :: "string \<Rightarrow> record_file \<Rightarrow> record_file \<times> (pyexn + unit)" where
  "write_record_atomic payload F =
     (case frame_line payload of
        Inl e \<Rightarrow> (F, Inl e)
      | Inr text \<Rightarrow> (rename_tmp (write_tmp (text @ [nl]) (Suc (length text)) F), Inr ()))"

definition read_record :: "(string \<Rightarrow> bool) \<Rightarrow> record_file \<Rightarrow> pyexn + string" where
  "read_record J F =
     (case rf_target F of
        None \<Rightarrow> Inl (PyExn ''FileNotFoundError'' [])
      | Some blob \<Rightarrow>
          if \<not> is_utf8 blob then Inl (FrameError (lit ''not UTF-8''))
          else if \<not> suffix [nl] blob \<or> length (filter (\<lambda>c. c = nl) blob) \<noteq> 1
          then Inl (FrameError (lit ''a record file holds exactly one newline-terminated line''))
          else rbind (decode_line J (butlast blob)) (\<lambda>(payload, framed).
            if framed then Inr payload else Inl (FrameError (lit ''record is not CRC-framed''))))"

end
