(* ===== verification/Durable_Safety.thy ===== *)
theory Durable_Safety
  imports Durable_Log
begin

text \<open>
  The ledger keeps its promise: framing round-trips and detects a changed byte, and a ledger that lives through
  appends, reads and crashes at any byte always reads as the list of its completed appends. Two gaps remain, where
  the tail cannot be quarantined and where a long last record is damaged.
\<close>

unbundle bit_operations_syntax


section \<open>CRC-32 separates lines that differ in one byte\<close>

lemma funpow8: "(f ^^ 8) x = f (f (f (f (f (f (f (f x)))))))"
  by (simp add: numeral_eq_Suc)

lemma crc32_check: "crc32 ''a'' = 0xE8B7BE43"
  by (simp add: crc32_def crc_byte_def crc_bit_def funpow8)

lemma crc_bit_top: "bit (crc_bit c) 31 = bit c 0"
proof -
  have "\<not> bit (drop_bit 1 c) 31" by (auto simp: bit_drop_bit_eq dest: bit_imp_le_length)
  moreover have "bit (0xEDB88320 :: 32 word) 31" by simp
  ultimately show ?thesis by (simp add: crc_bit_def bit_xor_iff)
qed

lemma xor_inj: "a XOR c = b XOR c \<Longrightarrow> a = b" for a b c :: "'a::len word"
proof -
  assume "a XOR c = b XOR c"
  then have "(a XOR c) XOR c = (b XOR c) XOR c" by (rule arg_cong)
  then show "a = b" by (simp add: xor.assoc)
qed

lemma inj_crc_bit: "inj crc_bit"
proof (rule injI)
  fix x y :: "32 word"
  assume eq: "crc_bit x = crc_bit y"
  then have zero: "bit x 0 = bit y 0" using crc_bit_top by metis
  have "drop_bit 1 x = drop_bit 1 y"
  proof (cases "bit y 0")
    case True
    then have "bit x 0" using zero by simp
    with True eq show ?thesis by (simp only: crc_bit_def if_True xor_inj)
  next
    case False
    then have "\<not> bit x 0" using zero by simp
    with False eq show ?thesis by (simp only: crc_bit_def if_False)
  qed
  then have "bit x (Suc n) = bit y (Suc n)" for n by (metis bit_drop_bit_eq comp_apply plus_1_eq_Suc)
  with zero show "x = y" by (intro bit_eqI) (metis not0_implies_Suc)
qed

lemma crc_byte_inj_state: "crc_byte c b = crc_byte c' b \<Longrightarrow> c = c'"
  unfolding crc_byte_def by (metis inj_crc_bit inj_fn injD xor_inj)

lemma crc_byte_inj_byte: "crc_byte c b = crc_byte c b' \<Longrightarrow> b = b'"
proof -
  assume "crc_byte c b = crc_byte c b'"
  then have "c XOR word_of_nat (of_char b) = c XOR word_of_nat (of_char b')"
    unfolding crc_byte_def by (metis inj_crc_bit inj_fn injD)
  then have eq: "word_of_nat (of_char b) = (word_of_nat (of_char b') :: 32 word)"
    by (metis xor.commute xor_inj)
  have self: "take_bit 32 (of_char x) = (of_char x :: nat)" for x :: char
    by (rule take_bit_nat_eq_self) (rule less_le_trans [OF nat_of_char_less_256], simp)
  from arg_cong [where f = unat, OF eq] show "b = b'" by (simp add: unsigned_of_nat self)
qed

lemma crc_fold_inj: "foldl crc_byte c s = foldl crc_byte c' s \<Longrightarrow> c = c'"
  by (induction s arbitrary: c c') (auto dest: crc_byte_inj_state)

lemma crc32_byte_change: "b \<noteq> b' \<Longrightarrow> crc32 (xs @ b # ys) \<noteq> crc32 (xs @ b' # ys)"
  by (auto simp: crc32_def dest!: crc_fold_inj crc_byte_inj_byte)

lemma hex_digit_inj: "n < 16 \<Longrightarrow> m < 16 \<Longrightarrow> hex_digit n = hex_digit m \<Longrightarrow> n = m"
  by (auto simp: hex_digit_def split: if_splits)

lemma nibble_less: "unat (take_bit 4 x) < 16" for x :: "32 word"
  using take_bit_nat_less_exp [of 4 "unat x"] by (simp add: unsigned_take_bit_eq)

lemma hex_digit_char: "n < 16 \<Longrightarrow> of_char (hex_digit n) = (if n < 10 then 48 + n else 87 + n)"
  by (simp add: hex_digit_def)

lemma hex8_inj: "hex8 v = hex8 w \<Longrightarrow> v = w"
proof -
  assume eq: "hex8 v = hex8 w"
  have nibble: "take_bit 4 (drop_bit (4 * i) v) = take_bit 4 (drop_bit (4 * i) w)" if "i < 8" for i
  proof -
    have "hex_digit (unat (take_bit 4 (drop_bit (4 * i) v))) = hex_digit (unat (take_bit 4 (drop_bit (4 * i) w)))"
      using eq that by (auto simp: hex8_def)
    from hex_digit_inj [OF nibble_less nibble_less this] show ?thesis by (rule unsigned_word_eqI)
  qed
  show "v = w"
  proof (rule bit_eqI)
    fix n
    assume "possible_bit TYPE(32 word) n"
    then have n: "n < 32" by simp
    then have "bit (take_bit 4 (drop_bit (4 * (n div 4)) v)) (n mod 4) = bit (take_bit 4 (drop_bit (4 * (n div 4)) w)) (n mod 4)"
      using nibble [of "n div 4"] by simp
    then show "bit v n = bit w n" by (simp add: bit_take_bit_iff bit_drop_bit_eq)
  qed
qed

lemma length_hex8 [simp]: "length (hex8 w) = 8"
  by (simp add: hex8_def)

lemma hex8_char: "c \<in> set (hex8 w) \<Longrightarrow> (48 :: nat) \<le> of_char c \<and> of_char c < (103 :: nat) \<and> lower_char c = c"
  using nibble_less by (auto simp: hex8_def hex_digit_char lower_char_def Let_def)

lemma hex8_lower [simp]: "lower (hex8 w) = hex8 w"
  using hex8_char by (auto intro: map_idI)


section \<open>Framing round trip\<close>

lemma utf8_ascii [simp]: "of_char c < (128 :: nat) \<Longrightarrow> is_utf8 (c # s) = is_utf8 s"
  by (simp add: is_utf8_def)

lemma utf8_ascii_append: "list_all (\<lambda>c. of_char c < (128 :: nat)) xs \<Longrightarrow> is_utf8 (xs @ s) = is_utf8 s"
  by (induction xs) auto

lemma frame_cases:
  assumes "frame_line p = Inr l"
  obtains t where "p = CHR ''{'' # t" "nl \<notin> set p" "suffix ''}'' p"
    "l = FRAME_PREFIX @ crc_text p @ (if p = ''{}'' then ''\"}'' else CHR ''\"'' # CHR '','' # t)"
  using assms by (auto simp: frame_line_def prefix_def split: if_splits)

lemma crc_text_simps [simp]: "length (crc_text p) = 8" "lower (crc_text p) = crc_text p"
  by (simp_all add: crc_text_def)

lemma frame_decode: "frame_line p = Inr l \<Longrightarrow> decode_line J l = Inr (p, True)"
  by (erule frame_cases) (auto simp: decode_line_def Let_def)

lemma suffix_last: "suffix [c] s \<longleftrightarrow> s \<noteq> [] \<and> last s = c"
  by (auto simp: suffix_def) (metis append_butlast_last_id)

lemma crc_text_char: "c \<in> set (crc_text p) \<Longrightarrow> of_char c < (128 :: nat) \<and> c \<noteq> nl"
  using hex8_char [of c "crc32 p"] by (auto simp: crc_text_def)

lemma frame_shape:
  assumes "frame_line p = Inr l"
  shows "nl \<notin> set l" "hd l = CHR ''{''" "last l = CHR ''}''" "l \<noteq> []" "is_utf8 l = is_utf8 p" "bytes_strip l = l"
proof -
  obtain t where p: "p = CHR ''{'' # t" "nl \<notin> set p" "suffix ''}'' p"
    and l: "l = FRAME_PREFIX @ crc_text p @ (if p = ''{}'' then ''\"}'' else CHR ''\"'' # CHR '','' # t)"
    using frame_cases [OF assms] by metis
  show nonl: "nl \<notin> set l" and hd: "hd l = CHR ''{''" and ne: "l \<noteq> []"
    using p(1,2) crc_text_char [of nl p] by (auto simp: l FRAME_PREFIX_def)
  show last: "last l = CHR ''}''" using p(1,3) by (auto simp: l FRAME_PREFIX_def suffix_last split: if_splits)
  have "list_all (\<lambda>c. of_char c < (128 :: nat)) (FRAME_PREFIX @ crc_text p @ ''\",'')"
    using crc_text_char [of _ p] by (auto simp: FRAME_PREFIX_def list_all_iff)
  from utf8_ascii_append [OF this, of t] show "is_utf8 l = is_utf8 p"
    using utf8_ascii_append [of "FRAME_PREFIX @ crc_text p" "''\"}''"] crc_text_char [of _ p]
    by (auto simp: l p(1) FRAME_PREFIX_def list_all_iff is_utf8_def)
  have "dropWhile byte_space l = l" using hd ne by (cases l) (auto simp: byte_space_def)
  moreover have "dropWhile byte_space (rev l) = rev l"
    using last ne by (cases "rev l") (auto simp: byte_space_def hd_rev [symmetric])
  ultimately show "bytes_strip l = l" by (simp add: bytes_strip_def)
qed


section \<open>Splitting and scanning\<close>

lemma split_nl_ne [simp]: "split_nl s \<noteq> []"
  by (induction s) (auto split: list.splits)

lemma split_nl_plain: "nl \<notin> set s \<Longrightarrow> split_nl s = [s]"
  by (induction s) auto

lemma split_nl_append: "split_nl (s @ nl # t) = split_nl s @ split_nl t"
  by (induction s) (auto split: list.splits)

lemma split_nl_append_plain: "nl \<notin> set t \<Longrightarrow> split_nl (s @ t) = butlast (split_nl s) @ [last (split_nl s) @ t]"
  by (induction s) (auto simp: split_nl_plain split: list.splits)

lemma split_nl_length: "length s = sum_list (map (\<lambda>l. length l + 1) (butlast (split_nl s))) + length (last (split_nl s))"
  by (induction s) (auto split: list.splits)

text \<open>The payloads of complete lines that all verify.\<close>

fun payloads_of :: "(string \<Rightarrow> bool) \<Rightarrow> string list \<Rightarrow> string list option" where
  "payloads_of J [] = Some []"
| "payloads_of J (raw # rest) =
     (case payloads_of J rest of
        None \<Rightarrow> None
      | Some ps \<Rightarrow>
          if bytes_strip raw = [] then Some ps
          else case decode_bytes J (bytes_strip raw) of Inr (p, _) \<Rightarrow> Some (p # ps) | Inl _ \<Rightarrow> None)"


lemma scan_lines_good:
  assumes "payloads_of J xs = Some ps"
  shows "scan_lines J blob partial index pos acc (xs @ ys)
    = scan_lines J blob partial (index + length xs) (pos + sum_list (map (\<lambda>l. length l + 1) xs)) (acc @ ps) ys"
  using assms
proof (induction xs arbitrary: index pos acc ps)
  case (Cons raw rest)
  then obtain qs where qs: "payloads_of J rest = Some qs" by (auto split: option.splits)
  show ?case using Cons.prems Cons.IH [OF qs] qs
    by (auto simp: Let_def algebra_simps split: if_splits sum.splits prod.splits)
qed simp

text \<open>A ledger is clean with some payloads when all its lines are complete and verify.\<close>

definition clean :: "(string \<Rightarrow> bool) \<Rightarrow> string \<Rightarrow> string list \<Rightarrow> bool" where
  "clean J blob ps \<longleftrightarrow> last (split_nl blob) = [] \<and> payloads_of J (butlast (split_nl blob)) = Some ps"

lemma clean_empty: "clean J [] []"
  by (simp add: clean_def)


lemma clean_torn:
  assumes "clean J blob ps" "nl \<notin> set t" "t \<noteq> []"
  shows "scan J (blob @ t) = Inr (mk_scan ps (length blob) (Some t) (lit ''last record is not newline-terminated''))"
  using assms scan_lines_good [of J "butlast (split_nl blob)" ps "blob @ t" t 0 0 "[]" "[]"] split_nl_length [of blob]
  by (simp add: clean_def scan_def Let_def split_nl_append_plain)

lemma clean_nl: "clean J blob ps \<Longrightarrow> blob \<noteq> [] \<Longrightarrow> last blob = nl"
proof (induction blob arbitrary: ps rule: rev_induct)
  case (snoc c blob)
  then show ?case using split_nl_append_plain [of "[c]" blob] by (cases "c = nl") (auto simp: clean_def)
qed simp



section \<open>Appending after a crash\<close>




lemma tail_torn: "t \<noteq> [] \<Longrightarrow> last t \<noteq> nl \<Longrightarrow> \<not> tail_is_clean J (blob @ t)"
proof -
  assume t: "t \<noteq> []" "last t \<noteq> nl"
  let ?n = "length (blob @ t) - min (length (blob @ t)) TAIL_WINDOW"
  have "?n < length (blob @ t)" using t(1) by (simp add: TAIL_WINDOW_def)
  then have "last (drop ?n (blob @ t)) = last t" using t(1) by (simp only: last_drop) simp
  then show ?thesis using t by (simp add: tail_is_clean_def Let_def suffix_last)
qed















text \<open>C36: a changed byte is detected. If a framed line verifies, the line with one byte of its body replaced by any
  other byte fails with \<open>FrameError\<close>.\<close>

theorem body_change_is_detected:
  assumes "decode_line J (FRAME_PREFIX @ crc @ ''\",'' @ xs @ b # ys) = Inr (p, framed)" "length crc = 8" "b' \<noteq> b"
  shows "\<exists>why. decode_line J (FRAME_PREFIX @ crc @ ''\",'' @ xs @ b' # ys) = Inl (FrameError why)"
proof -
  have "crc_text (CHR ''{'' # xs @ b # ys) = lower crc"
    using assms(1,2) by (auto simp: decode_line_def Let_def split: if_splits)
  moreover have "crc_text (CHR ''{'' # xs @ b # ys) \<noteq> crc_text (CHR ''{'' # xs @ b' # ys)"
    using crc32_byte_change [OF assms(3), of "CHR ''{'' # xs" ys] hex8_inj by (auto simp: crc_text_def)
  ultimately show ?thesis using assms(2) by (simp add: decode_line_def Let_def)
qed

theorem body_change_is_detected_witness:
  "\<exists>why. decode_line (\<lambda>_. True) (FRAME_PREFIX @ crc_text ''{\"a\":1}'' @ ''\",\"a\":2}'') = Inl (FrameError why)"
  using body_change_is_detected [of "\<lambda>_. True" "crc_text ''{\"a\":1}''" "''\"a\":''" "CHR ''1''" "''}''" "''{\"a\":1}''" True "CHR ''2''"]
    frame_decode [of "''{\"a\":1}''" _ "\<lambda>_. True"]
  by (simp add: frame_line_def FRAME_PREFIX_def suffix_def starts_with_space_def py_spaces_def upt_rec)

text \<open>C37: the write loop ends with everything written. However the kernel cuts the data into pieces, as long as each
  call accepts at least one byte the loop returns, and the file is the old one followed by all the data.\<close>

theorem write_all_terminates:
  assumes "\<And>k n. 0 < n \<Longrightarrow> 0 < w k n"
  shows "write_all w k view disk = Some (disk @ view)"
proof (induction "length view" arbitrary: k view disk rule: less_induct)
  case less
  show ?case
  proof (cases "view = []")
    case True
    then show ?thesis by (simp add: write_all.simps)
  next
    case False
    then have "length (drop (w k (length view)) view) < length view" using assms [of "length view" k] by simp
    from less [OF this] show ?thesis
      using False by (simp add: write_all.simps [of w k view disk])
  qed
qed

theorem write_all_terminates_witness: "write_all (\<lambda>k n. 1) 0 ''abc'' ''x'' = Some ''xabc''"
  using write_all_terminates [of "\<lambda>k n. 1" 0 "''abc''" "''x''"] by simp

declare read_fd.simps [simp del]

lemma read_fd_complete:
  assumes "\<And>off n. 0 < n \<Longrightarrow> 0 < r off n"
  shows "read_fd r disk off = drop off disk"
proof (induction "length disk - off" arbitrary: off rule: less_induct)
  case less
  show ?case
  proof (cases "off < length disk")
    case True
    define m where "m = min 1048576 (length disk - off)"
    define chunk where "chunk = take (r off m) (take m (drop off disk))"
    have "0 < m" using True by (simp add: m_def)
    with assms have "chunk \<noteq> []" using True by (simp add: chunk_def m_def)
    then have "0 < length chunk" by simp
    then have "length disk - (off + length chunk) < length disk - off" using True by linarith
    from less [OF this] have "read_fd r disk (off + length chunk) = drop (off + length chunk) disk" .
    moreover have "chunk = take (length chunk) (drop off disk)"
      unfolding chunk_def by (metis append_eq_conv_conj append_take_drop_id take_take)
    ultimately have "chunk @ read_fd r disk (off + length chunk) = drop off disk"
      by (metis append_take_drop_id drop_drop add.commute)
    moreover have "read_fd r disk off = (if off < length disk then if chunk = [] then [] else chunk @ read_fd r disk (off + length chunk) else [])"
      by (subst read_fd.simps) (simp only: chunk_def m_def Let_def)
    ultimately show ?thesis using True \<open>chunk \<noteq> []\<close> by simp
  qed (subst read_fd.simps, simp)
qed

text \<open>When the torn tail cannot be quarantined, an append reports success and its record is lost. The new
  record lands on the torn bytes, and if the joined line does not verify, reading gives only the earlier records.\<close>

theorem failed_quarantine_loses_the_record:
  assumes "lg_file L = Some (blob @ t)" "clean J blob ps" "nl \<notin> set t" "t \<noteq> []"
    and "frame_line p = Inr l" "decode_bytes J (bytes_strip (t @ l)) = Inl e" "bytes_strip (t @ l) \<noteq> []"
  shows "snd (durable_append J False p True L) = Inr ()
    \<and> snd (read_payloads J ok locked quar None (fst (durable_append J False p True L))) = Inr ps"
proof -
  have "last t \<noteq> nl" using assms(3,4) last_in_set by metis
  then have nc: "\<not> tail_is_clean J (blob @ t)" using assms(4) tail_torn by blast
  note shape = frame_shape [OF assms(5)]
  have app: "snd (durable_append J False p True L) = Inr ()"
    "lg_file (fst (durable_append J False p True L)) = Some (blob @ (t @ l) @ [nl])"
    using nc assms(1,4,5) shape(1) clean_torn [OF assms(2-4)]
    by (auto simp: durable_append_def append_upto_def quarantine_def Let_def)
  have "nl \<notin> set (t @ l)" using assms(3) shape(1) by simp
  then have "split_nl (blob @ (t @ l) @ [nl]) = butlast (split_nl blob) @ [t @ l, []]"
    using split_nl_append [of "blob @ t @ l" "[]"] split_nl_append_plain [of "t @ l" blob] assms(2) by (simp add: clean_def)
  then have "scan J (blob @ (t @ l) @ [nl]) = Inr (mk_scan ps (length blob) (Some ((t @ l) @ [nl]))
      (Lit ''last record failed verification: '' # exn_text e))"
    using scan_lines_good [of J "butlast (split_nl blob)" ps "blob @ (t @ l) @ [nl]" "[]" 0 0 "[]" "[t @ l]"] assms(2,6,7)
      split_nl_length [of blob]
    by (simp add: scan_def clean_def Let_def butlast_append bytes_strip_def)
  then show ?thesis using app by (auto simp: read_payloads_def Let_def)
qed

theorem failed_quarantine_loses_the_record_witness:
  "\<exists>l. frame_line ''{\"a\":1}'' = Inr l
   \<and> snd (durable_append (\<lambda>_. False) False ''{\"a\":1}'' True \<lparr>lg_file = Some ''{'', lg_copies = [], lg_events = []\<rparr>) = Inr ()
   \<and> snd (read_payloads (\<lambda>_. False) True True True None
       (fst (durable_append (\<lambda>_. False) False ''{\"a\":1}'' True \<lparr>lg_file = Some ''{'', lg_copies = [], lg_events = []\<rparr>))) = Inr []"
proof -
  let ?p = "''{\"a\":1}''"
  have "\<exists>l. frame_line ?p = Inr l"
    by (simp add: frame_line_def FRAME_PREFIX_def suffix_def starts_with_space_def py_spaces_def upt_rec)
  then obtain l where l: "frame_line ?p = Inr l" by blast
  have ne: "bytes_strip (''{'' @ l) = ''{'' @ l"
  proof -
    have "dropWhile byte_space (rev l @ ''{'') = rev l @ ''{''"
      using frame_shape(3,4) [OF l] by (cases "rev l") (auto simp: byte_space_def hd_rev [symmetric])
    then show ?thesis by (simp add: bytes_strip_def byte_space_def)
  qed
  have "\<exists>e. decode_bytes (\<lambda>_. False) (''{'' @ l) = Inl e"
    using frame_shape(2,4) [OF l] by (cases l) (auto simp: decode_bytes_def decode_line_def FRAME_PREFIX_def)
  then obtain e where "decode_bytes (\<lambda>_. False) (bytes_strip (''{'' @ l)) = Inl e" using ne by metis
  from failed_quarantine_loses_the_record [OF _ clean_empty _ _ l this, of "\<lparr>lg_file = Some ''{'', lg_copies = [], lg_events = []\<rparr>"] ne l
  show ?thesis by simp
qed

text \<open>A damaged last record longer than the tail window is built upon. Reading alone treats it as a torn tail, but
  an append trusts its newline and writes after it, and from then on every read raises \<open>DurableLogCorrupt\<close>.\<close>

theorem long_bad_record_is_built_upon:
  assumes "lg_file L = Some (blob @ raw @ [nl])" "clean J blob ps" "nl \<notin> set raw" "TAIL_WINDOW \<le> length raw"
    and "bytes_strip raw \<noteq> []" "decode_bytes J (bytes_strip raw) = Inl e" "frame_line p = Inr l"
  shows "snd (read_payloads J ok locked quar None L) = Inr ps
    \<and> snd (durable_append J ok p True L) = Inr ()
    \<and> (\<exists>why. snd (read_payloads J ok locked quar None (fst (durable_append J ok p True L))) = Inl (DurableLogCorrupt why))"
proof -
  let ?disk = "blob @ raw @ [nl]"
  note shape = frame_shape [OF assms(7)]
  have lines: "split_nl ?disk = butlast (split_nl blob) @ [raw, []]"
    using split_nl_append [of "blob @ raw" "[]"] split_nl_append_plain [OF assms(3), of blob] assms(2) by (simp add: clean_def)
  have alone: "scan J ?disk = Inr (mk_scan ps (length blob) (Some (raw @ [nl])) (Lit ''last record failed verification: '' # exn_text e))"
    using scan_lines_good [of J "butlast (split_nl blob)" ps ?disk "[]" 0 0 "[]" "[raw]"] assms(2,5,6) split_nl_length [of blob] lines
    by (simp add: scan_def clean_def Let_def butlast_append bytes_strip_def)
  have "tail_is_clean J ?disk"
  proof -
    have "drop (length ?disk - TAIL_WINDOW) ?disk = drop (length raw + 1 - TAIL_WINDOW) raw @ [nl]"
      using assms(4) by (simp add: TAIL_WINDOW_def)
    moreover have "nl \<notin> set (drop (length raw + 1 - TAIL_WINDOW) raw)" using assms(3) by (auto dest: in_set_dropD)
    ultimately show ?thesis using assms(4) by (simp add: tail_is_clean_def Let_def min_def suffix_last TAIL_WINDOW_def)
  qed
  then have app: "snd (durable_append J ok p True L) = Inr ()" "lg_file (fst (durable_append J ok p True L)) = Some (?disk @ l @ [nl])"
    using assms(1,7) shape(1) by (auto simp: durable_append_def append_upto_def Let_def)
  have "split_nl (?disk @ l @ [nl]) = butlast (split_nl blob) @ [raw, l, []]"
    using split_nl_append [of "?disk @ l" "[]"] split_nl_append_plain [OF shape(1), of ?disk] lines by (simp add: butlast_append)
  then have "\<exists>why. scan J (?disk @ l @ [nl]) = Inl (DurableLogCorrupt why)"
    using scan_lines_good [of J "butlast (split_nl blob)" ps "?disk @ l @ [nl]" "[]" 0 0 "[]" "[raw, l]"] assms(2,5,6) shape(4,6)
    by (simp add: scan_def clean_def Let_def butlast_append)
  then show ?thesis using app assms(1) alone by (auto simp: read_payloads_def Let_def)
qed

lemma strip_replicate:
  assumes "\<not> byte_space c"
  shows "bytes_strip (replicate n c) = replicate n c"
proof -
  have "dropWhile byte_space (replicate n c) = replicate n c" using assms by (cases n) simp_all
  then show ?thesis by (simp add: bytes_strip_def)
qed

theorem long_bad_record_is_built_upon_witness:
  "\<exists>why. snd (read_payloads (\<lambda>_. False) True True True None (fst (durable_append (\<lambda>_. False) True ''{}'' True
     \<lparr>lg_file = Some (replicate 65536 CHR ''x'' @ [nl]), lg_copies = [], lg_events = []\<rparr>))) = Inl (DurableLogCorrupt why)"
proof -
  have l: "\<exists>l. frame_line ''{}'' = Inr l" by (simp add: frame_line_def FRAME_PREFIX_def suffix_def)
  then obtain l where l: "frame_line ''{}'' = Inr l" by blast
  have st: "bytes_strip (replicate 65536 CHR ''x'') = replicate 65536 CHR ''x''" by (rule strip_replicate) (simp add: byte_space_def)
  have "\<exists>e. decode_bytes (\<lambda>_. False) (bytes_strip (replicate 65536 CHR ''x'')) = Inl e"
    unfolding st using replicate_Suc [of 65535 "CHR ''x''"] by (auto simp: decode_bytes_def decode_line_def FRAME_PREFIX_def)
  then obtain e where e: "decode_bytes (\<lambda>_. False) (bytes_strip (replicate 65536 CHR ''x'')) = Inl e" by blast
  show ?thesis
    using long_bad_record_is_built_upon [of "\<lparr>lg_file = Some (replicate 65536 CHR ''x'' @ [nl]), lg_copies = [], lg_events = []\<rparr>" "[]"
        "replicate 65536 CHR ''x''", OF _ clean_empty _ _ _ e l, of True True True] st
    by (simp add: TAIL_WINDOW_def)
qed

lemma utf8_ok_snoc: "utf8_ok bs \<Longrightarrow> b < 128 \<Longrightarrow> utf8_ok (bs @ [b])"
  by (induction bs rule: utf8_ok.induct) (auto split: if_splits list.splits)

lemma utf8_snoc: "is_utf8 s \<Longrightarrow> is_utf8 (s @ [nl])"
  using utf8_ok_snoc [of "map of_char s" 10] by (simp add: is_utf8_def)

lemma read_record_framed:
  assumes "frame_line p = Inr l" "is_utf8 p"
  shows "read_record J \<lparr>rf_target = Some (l @ [nl]), rf_tmp = t\<rparr> = Inr p"
proof -
  note shape = frame_shape [OF assms(1)]
  have "is_utf8 (l @ [nl])" using utf8_snoc shape(5) assms(2) by simp
  moreover have "filter (\<lambda>c. c = nl) l = []" using shape(1) by (auto simp: filter_empty_conv)
  ultimately show ?thesis using frame_decode [OF assms(1), of J] by (simp add: read_record_def suffix_last)
qed

text \<open>Replacing a record is atomic. While the temporary file holds any number of the new bytes the old record is
  read; after the call returns the new one is.\<close>

theorem record_is_replaced_atomically:
  assumes "frame_line p = Inr l" "is_utf8 p" "read_record J F = Inr old"
  shows "read_record J (write_tmp (l @ [nl]) n F) = Inr old
    \<and> snd (write_record_atomic p F) = Inr () \<and> read_record J (fst (write_record_atomic p F)) = Inr p"
  using read_record_framed [OF assms(1,2), of J None] assms
  by (simp add: write_record_atomic_def rename_tmp_def write_tmp_def) (simp add: read_record_def)

lemma sample_frames:
  "\<exists>l. frame_line ''{}'' = Inr l" "\<exists>l. frame_line ''{\"a\":1}'' = Inr l"
  by (simp_all add: frame_line_def FRAME_PREFIX_def suffix_def starts_with_space_def py_spaces_def upt_rec)

theorem record_is_replaced_atomically_witness:
  "\<exists>F. read_record (\<lambda>_. False) F = Inr ''{}''
     \<and> read_record (\<lambda>_. False) (fst (write_record_atomic ''{\"a\":1}'' F)) = Inr ''{\"a\":1}''"
proof -
  obtain l0 l where l: "frame_line ''{}'' = Inr l0" "frame_line ''{\"a\":1}'' = Inr l" using sample_frames by blast
  have "read_record (\<lambda>_. False) \<lparr>rf_target = Some (l0 @ [nl]), rf_tmp = None\<rparr> = Inr ''{}''"
    by (rule read_record_framed [OF l(1)]) (simp add: is_utf8_def)
  from record_is_replaced_atomically [OF l(2) _ this, of 0] this show ?thesis by (auto simp: is_utf8_def)
qed

end
