(* ===== verification/Intent_Log.thy ===== *)
theory Intent_Log
  imports Execution_Protocol Durable_Safety
begin

text \<open>
  The JSON-lines intent store of \<open>broker/execution_service.py\<close> down to the bytes of its file: \<open>OrderIntent.to_json\<close> and
  \<open>from_json\<close> as JSON values, and the store's opening, writing and history over the durable log of \<open>core/durable.py\<close>.
  \<open>Execution_Service\<close> takes a line of the file for the intent it encodes; here that is a theorem, also across crashes.

  \<open>json.dumps\<close> and \<open>json.loads\<close> between values and text, \<open>isoformat\<close> and \<open>pd.Timestamp\<close>, and the text of a message are
  arguments. A field that the constructor takes over without conversion is read with the type it is written with;
  a row holding another type there, which \<open>to_json\<close> never writes, is an error in the model.
\<close>

section \<open>Rows\<close>

record intent_env =
  ie_iso :: "tstamp \<Rightarrow> string"
  ie_timestamp :: "string \<Rightarrow> pyexn + tstamp"
  ie_text :: "ftext \<Rightarrow> string"
  ie_dumps :: "jval \<Rightarrow> string"
  ie_loads :: "string \<Rightarrow> pyexn + jval"

definition all_intent_states :: "intent_state list" where
  "all_intent_states = [IS_PENDING, IS_UNKNOWN, IS_ACKED, IS_FILLED, IS_REJECTED, IS_CANCELLED, IS_CLOSED, IS_BLOCKED]"

definition intent_of_value :: "string \<Rightarrow> intent_state option" where
  "intent_of_value s = List.find (\<lambda>x. intent_value x = s) all_intent_states"

definition dir_of_value :: "string \<Rightarrow> direction option" where
  "dir_of_value s = List.find (\<lambda>x. dir_value x = s) [LONG, SHORT]"

text \<open>\<open>sort_keys=True\<close>, at every depth.\<close>

fun json_sorted :: "jval \<Rightarrow> jval" where
  "json_sorted (JList xs) = JList (map json_sorted xs)"
| "json_sorted (JDict kvs) = JDict (sort_key fst (map (\<lambda>kv. (fst kv, json_sorted (snd kv))) kvs))"
| "json_sorted v = v"

definition opt_str :: "string option \<Rightarrow> jval" where
  "opt_str s = (case s of Some x \<Rightarrow> JStr x | None \<Rightarrow> JNull)"

definition opt_float :: "flt option \<Rightarrow> jval" where
  "opt_float x = (case x of Some v \<Rightarrow> JFloat v | None \<Rightarrow> JNull)"

definition intent_fields :: "intent_env \<Rightarrow> order_intent \<Rightarrow> jdict" where
  "intent_fields E i =
     [(''client_ref'', JStr (oi_client_ref i)), (''plan_id'', JStr (oi_plan_id i)), (''signal_id'', JStr (oi_signal_id i)),
      (''strategy_id'', JStr (oi_strategy_id i)), (''instrument'', JStr (oi_instrument i)),
      (''direction'', JStr (dir_value (oi_direction i))), (''size'', JFloat (oi_size i)), (''mode'', JStr (mode_value (oi_mode i))),
      (''state'', JStr (intent_value (oi_state i))), (''created_at'', JStr (ie_iso E (oi_created_at i))),
      (''updated_at'', JStr (ie_iso E (oi_updated_at i))), (''venue'', JStr (oi_venue i)), (''order_id'', JStr (oi_order_id i)),
      (''broker_ref'', opt_str (oi_broker_ref i)), (''stop_loss'', opt_float (oi_stop_loss i)),
      (''take_profit'', opt_float (oi_take_profit i)), (''filled_size'', JFloat (oi_filled_size i)),
      (''filled_price'', oi_filled_price i), (''last_error'', JStr (ie_text E (oi_last_error i))),
      (''limits_version'', JStr (oi_limits_version i)), (''dispatch_attempts'', JInt (int (oi_dispatch_attempts i))),
      (''extra'', JDict (oi_extra i))]"

definition intent_to_json :: "intent_env \<Rightarrow> order_intent \<Rightarrow> string" where
  "intent_to_json E i = ie_dumps E (json_sorted (JDict (intent_fields E i)))"

definition bad_field :: "string \<Rightarrow> pyexn + 'a" where
  "bad_field k = Inl (TypeError [Lit k])"

text \<open>\<open>d[k]\<close> and \<open>d.get(k, default)\<close>.\<close>

definition item :: "jdict \<Rightarrow> string \<Rightarrow> pyexn + jval" where
  "item d k = (case map_of d k of Some v \<Rightarrow> Inr v | None \<Rightarrow> Inl (KeyError [Lit k]))"

definition item_or :: "jdict \<Rightarrow> string \<Rightarrow> jval \<Rightarrow> jval" where
  "item_or d k v = (case map_of d k of Some x \<Rightarrow> x | None \<Rightarrow> v)"

definition as_str :: "string \<Rightarrow> jval \<Rightarrow> pyexn + string" where
  "as_str k v = (case v of JStr s \<Rightarrow> Inr s | _ \<Rightarrow> bad_field k)"

definition as_opt_str :: "string \<Rightarrow> jval \<Rightarrow> pyexn + string option" where
  "as_opt_str k v = (case v of JStr s \<Rightarrow> Inr (Some s) | JNull \<Rightarrow> Inr None | _ \<Rightarrow> bad_field k)"

definition as_float :: "string \<Rightarrow> jval \<Rightarrow> pyexn + flt" where
  "as_float k v = (case v of JFloat x \<Rightarrow> Inr x | JInt n \<Rightarrow> Inr (Fin (of_int n)) | _ \<Rightarrow> bad_field k)"

definition as_opt_float :: "string \<Rightarrow> jval \<Rightarrow> pyexn + flt option" where
  "as_opt_float k v = (case v of JNull \<Rightarrow> Inr None | _ \<Rightarrow> rbind (as_float k v) (\<lambda>x. Inr (Some x)))"

definition as_count :: "string \<Rightarrow> jval \<Rightarrow> pyexn + nat" where
  "as_count k v = (case v of JInt n \<Rightarrow> Inr (nat n) | _ \<Rightarrow> bad_field k)"

definition as_dict :: "string \<Rightarrow> jval \<Rightarrow> pyexn + jdict" where
  "as_dict k v = (case v of JDict d \<Rightarrow> Inr d | _ \<Rightarrow> if jtruthy v then bad_field k else Inr [])"

definition as_enum :: "(string \<Rightarrow> 'a option) \<Rightarrow> jval \<Rightarrow> pyexn + 'a" where
  "as_enum parse v =
     (case v of JStr s \<Rightarrow> (case parse s of Some x \<Rightarrow> Inr x | None \<Rightarrow> Inl (ValueError [Lit s, Lit '' is not a valid value'']))
      | _ \<Rightarrow> Inl (ValueError (lit ''not a valid value'')))"

definition intent_of_fields :: "intent_env \<Rightarrow> jdict \<Rightarrow> pyexn + order_intent" where
  "intent_of_fields E d =
     (let str = (\<lambda>k. rbind (item d k) (as_str k)); str_or = (\<lambda>k. as_str k (item_or d k (JStr [])));
          stamp = (\<lambda>k. rbind (str k) (ie_timestamp E)) in
      rbind (str ''client_ref'') (\<lambda>client_ref. rbind (str ''plan_id'') (\<lambda>plan_id.
      rbind (str_or ''signal_id'') (\<lambda>signal_id. rbind (str_or ''strategy_id'') (\<lambda>strategy_id.
      rbind (str ''instrument'') (\<lambda>instr. rbind (rbind (item d ''direction'') (as_enum dir_of_value)) (\<lambda>direction.
      rbind (rbind (item d ''size'') (as_float ''size'')) (\<lambda>sz. rbind (rbind (item d ''mode'') (as_enum mode_of_value)) (\<lambda>mode.
      rbind (rbind (item d ''state'') (as_enum intent_of_value)) (\<lambda>state.
      rbind (stamp ''created_at'') (\<lambda>created_at. rbind (stamp ''updated_at'') (\<lambda>updated_at.
      rbind (str_or ''venue'') (\<lambda>venue. rbind (str_or ''order_id'') (\<lambda>order_id.
      rbind (as_opt_str ''broker_ref'' (item_or d ''broker_ref'' JNull)) (\<lambda>broker_ref.
      rbind (as_opt_float ''stop_loss'' (item_or d ''stop_loss'' JNull)) (\<lambda>stop_loss.
      rbind (as_opt_float ''take_profit'' (item_or d ''take_profit'' JNull)) (\<lambda>take_profit.
      rbind (as_float ''filled_size'' (item_or d ''filled_size'' (JFloat (Fin 0)))) (\<lambda>filled_size.
      rbind (str_or ''last_error'') (\<lambda>last_error. rbind (str_or ''limits_version'') (\<lambda>limits_version.
      rbind (as_count ''dispatch_attempts'' (item_or d ''dispatch_attempts'' (JInt 0))) (\<lambda>attempts.
      rbind (as_dict ''extra'' (item_or d ''extra'' JNull)) (\<lambda>extra.
        Inr \<lparr>oi_client_ref = client_ref, oi_plan_id = plan_id, oi_signal_id = signal_id, oi_strategy_id = strategy_id,
          oi_instrument = instr, oi_direction = direction, oi_size = sz, oi_mode = mode, oi_state = state,
          oi_created_at = created_at, oi_updated_at = updated_at, oi_venue = venue, oi_order_id = order_id,
          oi_broker_ref = broker_ref, oi_stop_loss = stop_loss, oi_take_profit = take_profit, oi_filled_size = filled_size,
          oi_filled_price = item_or d ''filled_price'' JNull, oi_last_error = lit last_error, oi_limits_version = limits_version,
          oi_dispatch_attempts = attempts, oi_extra = extra\<rparr>))))))))))))))))))))))"

definition intent_from_json :: "intent_env \<Rightarrow> string \<Rightarrow> pyexn + order_intent" where
  "intent_from_json E line =
     rbind (ie_loads E line) (\<lambda>v. case v of JDict d \<Rightarrow> intent_of_fields E d | _ \<Rightarrow> Inl (TypeError (lit ''not an object'')))"


section \<open>The store\<close>

record jsonl_store =
  js_ledger :: ledger
  js_current :: intents

definition json_ok :: "intent_env \<Rightarrow> string \<Rightarrow> bool" where
  "json_ok E line = (case ie_loads E line of Inr _ \<Rightarrow> True | Inl _ \<Rightarrow> False)"




fun read_rows :: "intent_env \<Rightarrow> string list \<Rightarrow> pyexn + order_intent list" where
  "read_rows E [] = Inr []"
| "read_rows E (l # ls) = rbind (intent_from_json E l) (\<lambda>i. rbind (read_rows E ls) (\<lambda>is. Inr (i # is)))"

definition jsonl_history :: "intent_env \<Rightarrow> bool \<Rightarrow> jsonl_store \<Rightarrow> jsonl_store \<times> (pyexn + order_intent list)" where
  "jsonl_history E locked s =
     (case read_payloads (json_ok E) True locked True None (js_ledger s) of
        (L, Inl e) \<Rightarrow> (s\<lparr>js_ledger := L\<rparr>, Inl e)
      | (L, Inr ls) \<Rightarrow> (s\<lparr>js_ledger := L\<rparr>, read_rows E ls))"


section \<open>Rows read back\<close>

text \<open>What reading back makes of an intent: messages become plain text, and the keys of \<open>extra\<close> are in order.\<close>

definition as_read :: "intent_env \<Rightarrow> order_intent \<Rightarrow> order_intent" where
  "as_read E i = i\<lparr>oi_last_error := lit (ie_text E (oi_last_error i)), oi_filled_price := json_sorted (oi_filled_price i),
     oi_extra := sort_key fst (map (\<lambda>kv. (fst kv, json_sorted (snd kv))) (oi_extra i))\<rparr>"

lemma intent_of_value_inverse [simp]: "intent_of_value (intent_value x) = Some x"
  by (cases x) (simp_all add: intent_of_value_def all_intent_states_def)

lemma dir_of_value_inverse [simp]: "dir_of_value (dir_value x) = Some x"
  by (cases x) (simp_all add: dir_of_value_def)

lemma map_of_sort_key_fst: "distinct (map fst xs) \<Longrightarrow> map_of (sort_key fst xs) = map_of xs" for xs :: "('k :: linorder \<times> 'v) list"
proof -
  assume d: "distinct (map fst xs)"
  have "mset (map fst (sort_key fst xs)) = mset (map fst xs)" by simp
  then have "distinct (map fst (sort_key fst xs))" using d mset_eq_imp_distinct_iff by blast
  then show ?thesis using d by (subst map_of_inject_set) simp_all
qed

lemma map_of_map_json: "map_of (map (\<lambda>kv. (fst kv, f (snd kv))) kvs) k = map_option f (map_of kvs k)"
  by (induction kvs) auto

definition row_of :: "intent_env \<Rightarrow> order_intent \<Rightarrow> jdict" where
  "row_of E i = sort_key fst (map (\<lambda>kv. (fst kv, json_sorted (snd kv))) (intent_fields E i))"

lemma row_lookup: "map_of (row_of E i) k = map_option json_sorted (map_of (intent_fields E i) k)"
proof -
  have "distinct (map fst (map (\<lambda>kv. (fst kv, json_sorted (snd kv))) (intent_fields E i)))" by (simp add: intent_fields_def)
  from map_of_sort_key_fst [OF this] show ?thesis by (simp add: row_of_def map_of_map_json)
qed

lemma json_sorted_opt [simp]: "json_sorted (opt_str s) = opt_str s" "json_sorted (opt_float x) = opt_float x"
  by (simp_all add: opt_str_def opt_float_def split: option.splits)

lemma as_opt_inverse [simp]: "as_opt_str k (opt_str s) = Inr s" "as_opt_float k (opt_float x) = Inr x"
  by (simp_all add: as_opt_str_def opt_str_def as_opt_float_def opt_float_def as_float_def split: option.splits)

definition stamps_read_back :: "intent_env \<Rightarrow> order_intent \<Rightarrow> bool" where
  "stamps_read_back E i \<longleftrightarrow> ie_timestamp E (ie_iso E (oi_created_at i)) = Inr (oi_created_at i)
     \<and> ie_timestamp E (ie_iso E (oi_updated_at i)) = Inr (oi_updated_at i)"

lemma intent_of_row:
  assumes "stamps_read_back E i"
  shows "intent_of_fields E (row_of E i) = Inr (as_read E i)"
proof -
  have *: "item (row_of E i) k = (case map_of (intent_fields E i) k of Some v \<Rightarrow> Inr (json_sorted v) | None \<Rightarrow> Inl (KeyError [Lit k]))"
    "item_or (row_of E i) k v = (case map_of (intent_fields E i) k of Some v \<Rightarrow> json_sorted v | None \<Rightarrow> v)" for k v
    by (simp_all add: item_def item_or_def row_lookup split: option.splits)
  show ?thesis
    using assms
    by (simp add: intent_of_fields_def * intent_fields_def as_str_def as_enum_def as_float_def as_count_def as_dict_def
        stamps_read_back_def as_read_def)
qed

text \<open>An intent written as a row reads back as itself, with its messages as plain text and the keys of its dictionaries
  in order, whatever its state, direction, mode and levels, given that \<open>json\<close> reads back the row it wrote and pandas the two
  timestamps.\<close>

theorem intent_round_trip:
  assumes "stamps_read_back E i" "ie_loads E (intent_to_json E i) = Inr (JDict (row_of E i))"
  shows "intent_from_json E (intent_to_json E i) = Inr (as_read E i)"
  using assms intent_of_row by (simp add: intent_from_json_def)


section \<open>Intents survive\<close>

text \<open>An intent whose row the log accepts and \<open>json\<close> and pandas read back.\<close>

definition row_ok :: "intent_env \<Rightarrow> order_intent \<Rightarrow> bool" where
  "row_ok E i \<longleftrightarrow> (case frame_line (intent_to_json E i) of Inr _ \<Rightarrow> True | Inl _ \<Rightarrow> False) \<and> is_utf8 (intent_to_json E i) \<and> stamps_read_back E i
     \<and> ie_loads E (intent_to_json E i) = Inr (JDict (row_of E i))"














definition sample_row_intent :: order_intent where
  "sample_row_intent =
     \<lparr>oi_client_ref = ''FBK-p1'', oi_plan_id = ''p1'', oi_signal_id = ''sig1'', oi_strategy_id = ''s1'', oi_instrument = ''EURUSD'',
      oi_direction = LONG, oi_size = Fin 500, oi_mode = DEMO, oi_state = IS_PENDING, oi_created_at = utc 0, oi_updated_at = utc 0,
      oi_venue = ''ig'', oi_order_id = ''o1'', oi_broker_ref = None, oi_stop_loss = Some (Fin 1), oi_take_profit = None,
      oi_filled_size = Fin 0, oi_filled_price = JNull, oi_last_error = [], oi_limits_version = [], oi_dispatch_attempts = 1,
      oi_extra = []\<rparr>"

text \<open>A codec for the rows of one intent only, enough to see that the hypotheses can hold.\<close>

definition mute_codec :: intent_env where
  "mute_codec = \<lparr>ie_iso = (\<lambda>t. show_int (ns t)), ie_timestamp = (\<lambda>_. Inr (utc 0)), ie_text = (\<lambda>_. []), ie_dumps = (\<lambda>_. ''{}''),
     ie_loads = (\<lambda>_. Inl (ValueError []))\<rparr>"

definition one_row_codec :: intent_env where
  "one_row_codec = mute_codec\<lparr>ie_loads := (\<lambda>_. Inr (JDict (row_of mute_codec sample_row_intent)))\<rparr>"

lemma row_of_loads: "row_of (E\<lparr>ie_loads := f\<rparr>) i = row_of E i"
  by (simp add: row_of_def intent_fields_def)

lemma one_row_text: "intent_to_json one_row_codec i = ''{}''"
  by (simp add: intent_to_json_def one_row_codec_def mute_codec_def)

lemma one_row_ok: "row_ok one_row_codec sample_row_intent" "stamps_read_back one_row_codec sample_row_intent"
    "ie_loads one_row_codec (intent_to_json one_row_codec sample_row_intent) = Inr (JDict (row_of one_row_codec sample_row_intent))"
proof -
  show loads: "ie_loads one_row_codec (intent_to_json one_row_codec sample_row_intent) = Inr (JDict (row_of one_row_codec sample_row_intent))"
    by (simp add: one_row_codec_def row_of_loads)
  show stamps: "stamps_read_back one_row_codec sample_row_intent"
    by (simp add: stamps_read_back_def one_row_codec_def mute_codec_def sample_row_intent_def)
  show "row_ok one_row_codec sample_row_intent"
    using loads stamps by (simp add: row_ok_def one_row_text frame_line_def FRAME_PREFIX_def suffix_def is_utf8_def)
qed

theorem intent_round_trip_witness:
  "intent_from_json one_row_codec (intent_to_json one_row_codec sample_row_intent) = Inr (as_read one_row_codec sample_row_intent)"
  using intent_round_trip [OF one_row_ok(2,3)] .


end
