(* ===== verification/Instrument_Locks.thy ===== *)
theory Instrument_Locks
  imports Execution_Service
begin

text \<open>
  The instrument locks of \<open>backtest/locks.py\<close>: the session clock that numbers the open bar slots of a trading calendar
  (with the running sums it keeps between calls), the lock policies of a strategy document, the book of armed locks
  with its cooldown and stop-streak rules, and \<open>LedgerLockView\<close>, the lock source that rebuilds the book from a ledger of
  closed trades on every question of the risk gateway. The calendars are those of \<open>sim/fills.py\<close>, of which the clock
  reads the hours and the zone only; the zone database is an argument (\<open>lk_utc\<close>).

  A trade ledger row is the \<open>ClosedTrade\<close> that \<open>ClosedTrade.of\<close> makes of it.
\<close>

section \<open>The session clock\<close>

abbreviation UnknownSessionError :: "ftext \<Rightarrow> pyexn" where
  "UnknownSessionError \<equiv> PyExn ''UnknownSessionError''"

definition WEEK_MINUTES :: int where
  "WEEK_MINUTES = 10080"

text \<open>Monday 1970-01-05 00:00 UTC, in nanoseconds.\<close>

definition ANCHOR :: int where
  "ANCHOR = 345600000000000"

definition MINUTE_NS :: int where
  "MINUTE_NS = 60000000000"

text \<open>What a session calendar is to the clock: no closure, or the hours of the weekly closure in a zone.\<close>

datatype calendar_key = Continuous | Zoned string int int

definition SESSION_CLOSURES :: "string \<rightharpoonup> calendar_key" where
  "SESSION_CLOSURES =
     (let interbank = Zoned ''America/New_York'' 17 17 in
      [''fx_24_5'' \<mapsto> interbank, ''index'' \<mapsto> interbank, ''energy'' \<mapsto> interbank, ''commodity_cfd'' \<mapsto> interbank,
       ''bond_cfd'' \<mapsto> interbank, ''crypto_24_7'' \<mapsto> Continuous])"

text \<open>The zone database: \<open>lk_utc tz day hour\<close> is the hour \<open>hour\<close> of the local date \<open>day\<close> (counted from the anchor), in
  whole minutes after the anchor.\<close>

record lock_env =
  lk_registry :: registry
  lk_utc :: "string \<Rightarrow> int \<Rightarrow> int \<Rightarrow> int"
  lk_iso :: "tstamp \<Rightarrow> string"
  lk_str :: "jval \<Rightarrow> string"

definition week_closure :: "lock_env \<Rightarrow> calendar_key \<Rightarrow> int \<Rightarrow> (int \<times> int) list" where
  "week_closure E key week =
     (case key of
        Continuous \<Rightarrow> []
      | Zoned tz close_hour open_hour \<Rightarrow>
          [(lk_utc E tz (7 * week + 4) close_hour - WEEK_MINUTES * week, lk_utc E tz (7 * week + 6) open_hour - WEEK_MINUTES * week)])"

definition slot_open :: "(int \<times> int) list \<Rightarrow> int \<Rightarrow> nat \<Rightarrow> bool" where
  "slot_open closures m k =
     (let start = int k * m; end' = (int k + 1) * m;
          closed = sum_list (map (\<lambda>(c_start, c_end). max 0 (min end' c_end - max start c_start)) closures)
      in 2 * (m - closed) \<ge> m)"

fun prefix_counts :: "(nat \<Rightarrow> bool) \<Rightarrow> nat \<Rightarrow> nat list" where
  "prefix_counts f 0 = [0]"
| "prefix_counts f (Suc n) = (let p = prefix_counts f n in p @ [last p + (if f n then 1 else 0)])"

definition template :: "(int \<times> int) list \<Rightarrow> int \<Rightarrow> pyexn + nat list \<times> nat" where
  "template closures m =
     (if WEEK_MINUTES mod m \<noteq> 0 then Inl (ValueError (lit ''the slot does not tile a week''))
      else let p = prefix_counts (slot_open closures m) (nat (WEEK_MINUTES div m)) in Inr (p, last p))"

text \<open>The running sums, per calendar and slot size, kept between calls and extended on demand.\<close>

type_synonym slot_sums = "calendar_key \<times> int \<rightharpoonup> nat list"

definition open_in_week :: "lock_env \<Rightarrow> calendar_key \<Rightarrow> int \<Rightarrow> nat \<Rightarrow> nat" where
  "open_in_week E key m w = (case template (week_closure E key (int w)) m of Inr (_, n) \<Rightarrow> n | Inl _ \<Rightarrow> 0)"

function extend_sums :: "lock_env \<Rightarrow> calendar_key \<Rightarrow> int \<Rightarrow> nat \<Rightarrow> nat list \<Rightarrow> nat list" where
  "extend_sums E key m week acc =
     (if length acc \<le> week then extend_sums E key m week (acc @ [last acc + open_in_week E key m (length acc - 1)]) else acc)"
  by pat_completeness auto
termination
  by (relation "measure (\<lambda>(E, key, m, week, acc). Suc week - length acc)") auto

definition open_slots_before :: "lock_env \<Rightarrow> calendar_key \<Rightarrow> int \<Rightarrow> int \<Rightarrow> slot_sums \<Rightarrow> slot_sums \<times> (pyexn + nat)" where
  "open_slots_before E key m week cache =
     (if week < 0 then (cache, Inl (ValueError (lit ''an earlier timestamp is not a bar'')))
      else let acc = extend_sums E key m (nat week) (case cache (key, m) of Some s \<Rightarrow> s | None \<Rightarrow> [0])
           in (cache((key, m) \<mapsto> acc), Inr (acc ! nat week)))"

record session_clock =
  ck_trading_hours :: string
  ck_timeframe :: timeframe

definition for_instrument :: "lock_env \<Rightarrow> string \<Rightarrow> timeframe \<Rightarrow> pyexn + session_clock" where
  "for_instrument E sym' tf =
     rbind (get_instrument (lk_registry E) sym') (\<lambda>i.
       if SESSION_CLOSURES (i_trading_hours i) = None
       then Inl (UnknownSessionError [Lit sym', Lit '': no session calendar'']) else
       Inr \<lparr>ck_trading_hours = i_trading_hours i, ck_timeframe = tf\<rparr>)"

text \<open>\<open>index\<close>, with the running sums before and after.\<close>

definition clock_index_cached :: "lock_env \<Rightarrow> session_clock \<Rightarrow> tstamp \<Rightarrow> slot_sums \<Rightarrow> slot_sums \<times> (pyexn + int)" where
  "clock_index_cached E ck ts cache =
     (if \<not> tz_aware ts then (cache, Inl (ValueError (lit ''SessionBarClock.index needs a timezone-aware UTC timestamp'')))
      else
        let minutes = (ns ts - ANCHOR) div MINUTE_NS; m = tf_minutes (ck_timeframe ck); slot = minutes div m in
        if WEEK_MINUTES mod m \<noteq> 0 then (cache, Inl (ValueError (lit ''the slot does not tile a week'')))
        else
          let week = slot div (WEEK_MINUTES div m); r = slot mod (WEEK_MINUTES div m) in
          case SESSION_CLOSURES (ck_trading_hours ck) of
            None \<Rightarrow> (cache, Inl (KeyError [Lit (ck_trading_hours ck)]))
          | Some key \<Rightarrow>
              (case template (week_closure E key week) m of
                 Inl e \<Rightarrow> (cache, Inl e)
               | Inr (p, _) \<Rightarrow>
                   (case open_slots_before E key m week cache of
                      (cache1, Inl e) \<Rightarrow> (cache1, Inl e)
                    | (cache1, Inr before) \<Rightarrow> (cache1, Inr (int before + int (p ! (nat r + 1)) - 1)))))"

text \<open>The running sums only save work: the clock as a function of the timestamp.\<close>

definition clock_index :: "lock_env \<Rightarrow> session_clock \<Rightarrow> tstamp \<Rightarrow> pyexn + int" where
  "clock_index E ck ts = snd (clock_index_cached E ck ts (\<lambda>_. None))"

definition bars_between :: "lock_env \<Rightarrow> session_clock \<Rightarrow> tstamp \<Rightarrow> tstamp \<Rightarrow> pyexn + int" where
  "bars_between E ck earlier later =
     rbind (clock_index E ck later) (\<lambda>b. rbind (clock_index E ck earlier) (\<lambda>a. Inr (b - a)))"

definition clock_key :: "session_clock \<Rightarrow> string" where
  "clock_key ck = ck_trading_hours ck @ ''/'' @ tf_value (ck_timeframe ck)"


section \<open>Policies\<close>

datatype lock_scope = Scope_instrument | Scope_strategy | Scope_global

fun scope_value :: "lock_scope \<Rightarrow> string" where
  "scope_value Scope_instrument = ''instrument''"
| "scope_value Scope_strategy = ''strategy''"
| "scope_value Scope_global = ''global''"

record stop_streak_rule =
  ss_n_stops :: int
  ss_lookback_bars :: int
  ss_lock_bars :: int
  ss_scope :: lock_scope

definition streak_post_init :: "stop_streak_rule \<Rightarrow> pyexn + stop_streak_rule" where
  "streak_post_init r =
     (if ss_n_stops r < 2 then Inl (ValueError (lit ''stop_streak.n_stops must be >= 2; one stop is not a streak''))
      else if ss_lookback_bars r < 1 then Inl (ValueError (lit ''stop_streak.lookback_bars must be >= 1''))
      else if ss_lock_bars r < 1 then Inl (ValueError (lit ''stop_streak.lock_bars must be >= 1''))
      else Inr r)"

record lock_policy =
  lp_cooldown :: int
  lp_stop_streak :: "stop_streak_rule option"

definition policy_post_init :: "lock_policy \<Rightarrow> pyexn + lock_policy" where
  "policy_post_init p =
     (if lp_cooldown p < 0 then Inl (ValueError (lit ''cooldown_bars_after_close must be >= 0'')) else Inr p)"

definition policy_active :: "lock_policy \<Rightarrow> bool" where
  "policy_active p \<longleftrightarrow> lp_cooldown p > 0 \<or> lp_stop_streak p \<noteq> None"

record lock_registration =
  lr_policy :: lock_policy
  lr_timeframe :: timeframe

record closed_trade =
  ct_strategy_id :: string
  ct_instrument :: string
  ct_exit_time :: tstamp
  ct_exit_reason :: "string option"

definition is_stop_out :: "closed_trade \<Rightarrow> bool" where
  "is_stop_out t \<longleftrightarrow> ct_exit_reason t = None \<or> ct_exit_reason t = Some ''stop_loss''"

record lock_reason =
  lo_rule :: string
  lo_scope :: lock_scope
  lo_strategy_id :: string
  lo_instrument :: "string option"
  lo_armed_at :: tstamp
  lo_armed_index :: int
  lo_until_index :: int
  lo_clock :: session_clock

definition lock_bars :: "lock_reason \<Rightarrow> int" where
  "lock_bars l = lo_until_index l - lo_armed_index l + 1"

definition lock_covers :: "lock_env \<Rightarrow> lock_reason \<Rightarrow> tstamp \<Rightarrow> pyexn + bool" where
  "lock_covers E l bar = rbind (clock_index E (lo_clock l) bar) (\<lambda>i. Inr (lo_armed_index l \<le> i \<and> i \<le> lo_until_index l))"

definition applies_to :: "lock_reason \<Rightarrow> string \<Rightarrow> string \<Rightarrow> bool" where
  "applies_to l symb sid =
     (if lo_scope l = Scope_global then True
      else if lo_strategy_id l \<noteq> sid then False
      else lo_scope l = Scope_strategy \<or> lo_instrument l = Some symb)"

definition or_star :: "string option \<Rightarrow> string" where
  "or_star s = (case s of Some x \<Rightarrow> if x = [] then ''*'' else x | None \<Rightarrow> ''*'')"

definition lock_code :: "lock_env \<Rightarrow> lock_reason \<Rightarrow> string" where
  "lock_code E l =
     lo_rule l @ '':'' @ scope_value (lo_scope l) @ '':'' @ lo_strategy_id l @ '':'' @ or_star (lo_instrument l) @ '':armed=''
     @ lk_iso E (lo_armed_at l) @ '':bars='' @ show_int (lock_bars l) @ '':'' @ clock_key (lo_clock l)"


section \<open>The book\<close>

record stop_event =
  se_seq :: nat
  se_strategy_id :: string
  se_instrument :: string
  se_exit_time :: tstamp

type_synonym lock_key = "string \<times> string \<times> string \<times> string"

record lock_book =
  lb_registrations :: "(string \<times> lock_registration) list"
  lb_default :: "lock_registration option"
  lb_active :: "(lock_key \<times> lock_reason) list"
  lb_history :: "lock_reason list"
  lb_stops :: "stop_event list"
  lb_consumed :: "((string \<times> string \<times> string) \<times> nat) list"
  lb_seen :: "string list"
  lb_seq :: nat

definition book_new :: "(string \<times> lock_registration) list \<Rightarrow> lock_registration option \<Rightarrow> lock_book" where
  "book_new regs dflt =
     \<lparr>lb_registrations = regs, lb_default = dflt, lb_active = [], lb_history = [], lb_stops = [], lb_consumed = [],
      lb_seen = [], lb_seq = 0\<rparr>"

definition registration_for :: "lock_book \<Rightarrow> string \<Rightarrow> lock_registration option" where
  "registration_for b sid = (case map_of (lb_registrations b) sid of Some r \<Rightarrow> Some r | None \<Rightarrow> lb_default b)"

fun first_lock :: "lock_env \<Rightarrow> string \<Rightarrow> string \<Rightarrow> tstamp \<Rightarrow> lock_reason list \<Rightarrow> pyexn + lock_reason option" where
  "first_lock E symb sid bar [] = Inr None"
| "first_lock E symb sid bar (l # ls) =
     (if applies_to l symb sid
      then rbind (lock_covers E l bar) (\<lambda>c. if c then Inr (Some l) else first_lock E symb sid bar ls)
      else first_lock E symb sid bar ls)"

definition active_locks :: "lock_book \<Rightarrow> lock_reason list" where
  "active_locks b = map snd (sort_key fst (lb_active b))"

definition is_locked :: "lock_env \<Rightarrow> lock_book \<Rightarrow> string \<Rightarrow> string \<Rightarrow> tstamp \<Rightarrow> pyexn + lock_reason option" where
  "is_locked E b symb sid bar = first_lock E (upper symb) sid bar (active_locks b)"

definition lock_key_of :: "lock_reason \<Rightarrow> lock_key" where
  "lock_key_of l =
     (if lo_scope l = Scope_global then (lo_rule l, scope_value (lo_scope l), ''*'', ''*'')
      else (lo_rule l, scope_value (lo_scope l), lo_strategy_id l, or_star (lo_instrument l)))"

definition arm :: "lock_reason \<Rightarrow> lock_book \<Rightarrow> lock_book" where
  "arm l b = b\<lparr>lb_active := dict_put (lock_key_of l) l (lb_active b), lb_history := lb_history b @ [l]\<rparr>"

text \<open>\<open>dict(self.registrations)\<close> with the default for every strategy seen, in sorted order, those whose streak rule
  counts this stop-out.\<close>

definition streak_candidates :: "lock_book \<Rightarrow> (string \<times> lock_registration) list" where
  "streak_candidates b =
     lb_registrations b
     @ (case lb_default b of
          None \<Rightarrow> []
        | Some d \<Rightarrow> map (\<lambda>sid. (sid, d)) (filter (\<lambda>sid. map_of (lb_registrations b) sid = None) (lb_seen b)))"

definition streak_declarers :: "lock_book \<Rightarrow> closed_trade \<Rightarrow> (string \<times> lock_registration \<times> stop_streak_rule) list" where
  "streak_declarers b t =
     concat (map (\<lambda>(sid, reg). case lp_stop_streak (lr_policy reg) of
         None \<Rightarrow> []
       | Some rule \<Rightarrow> if ss_scope rule = Scope_global \<or> sid = ct_strategy_id t then [(sid, reg, rule)] else [])
       (sort_key fst (streak_candidates b)))"

definition counts_for :: "stop_streak_rule \<Rightarrow> string \<Rightarrow> closed_trade \<Rightarrow> stop_event \<Rightarrow> bool" where
  "counts_for rule declarer t e \<longleftrightarrow>
     \<not> (ss_scope rule = Scope_instrument \<and> (se_strategy_id e \<noteq> declarer \<or> se_instrument e \<noteq> ct_instrument t))
     \<and> \<not> (ss_scope rule = Scope_strategy \<and> se_strategy_id e \<noteq> declarer)"

text \<open>The loop over the stops, newest first.\<close>

fun count_stops ::
  "lock_env \<Rightarrow> session_clock \<Rightarrow> stop_streak_rule \<Rightarrow> string \<Rightarrow> closed_trade \<Rightarrow> nat \<Rightarrow> int \<Rightarrow> stop_event list \<Rightarrow> int \<Rightarrow> pyexn + int" where
  "count_stops E ck rule declarer t consumed floor' [] n = Inr n"
| "count_stops E ck rule declarer t consumed floor' (e # es) n =
     (if se_seq e \<le> consumed then Inr n
      else rbind (clock_index E ck (se_exit_time e)) (\<lambda>i.
        if i \<le> floor' then Inr n
        else count_stops E ck rule declarer t consumed floor' es (if counts_for rule declarer t e then n + 1 else n)))"

definition consume_key :: "stop_streak_rule \<Rightarrow> string \<Rightarrow> closed_trade \<Rightarrow> string \<times> string \<times> string" where
  "consume_key rule declarer t =
     (case ss_scope rule of
        Scope_instrument \<Rightarrow> (declarer, ''instrument'', ct_instrument t)
      | Scope_strategy \<Rightarrow> (declarer, ''strategy'', ''*'')
      | Scope_global \<Rightarrow> (''*'', ''global'', ''*''))"

definition evaluate_streak ::
  "lock_env \<Rightarrow> string \<Rightarrow> lock_registration \<Rightarrow> stop_streak_rule \<Rightarrow> closed_trade \<Rightarrow> lock_book \<Rightarrow> pyexn + lock_book \<times> lock_reason option" where
  "evaluate_streak E declarer reg rule t b =
     rbind (for_instrument E (ct_instrument t) (lr_timeframe reg)) (\<lambda>ck.
     rbind (clock_index E ck (ct_exit_time t)) (\<lambda>now_idx.
       let key = consume_key rule declarer t;
           consumed = (case map_of (lb_consumed b) key of Some n \<Rightarrow> n | None \<Rightarrow> 0)
       in rbind (count_stops E ck rule declarer t consumed (now_idx - ss_lookback_bars rule) (rev (lb_stops b)) 0) (\<lambda>count.
         if count < ss_n_stops rule then Inr (b, None)
         else let l = \<lparr>lo_rule = ''stop_streak'', lo_scope = ss_scope rule,
                       lo_strategy_id = (if ss_scope rule = Scope_global then ''*'' else declarer),
                       lo_instrument = (if ss_scope rule = Scope_instrument then Some (ct_instrument t) else None),
                       lo_armed_at = ct_exit_time t, lo_armed_index = now_idx,
                       lo_until_index = now_idx + ss_lock_bars rule - 1, lo_clock = ck\<rparr>
              in Inr (arm l (b\<lparr>lb_consumed := dict_put key (lb_seq b) (lb_consumed b)\<rparr>), Some l))))"

fun evaluate_streaks ::
  "lock_env \<Rightarrow> closed_trade \<Rightarrow> (string \<times> lock_registration \<times> stop_streak_rule) list \<Rightarrow> lock_book \<Rightarrow> lock_reason list \<Rightarrow>
   lock_book \<times> (pyexn + lock_reason list)" where
  "evaluate_streaks E t [] b armed = (b, Inr armed)"
| "evaluate_streaks E t ((sid, reg, rule) # ds) b armed =
     (case evaluate_streak E sid reg rule t b of
        Inl e \<Rightarrow> (b, Inl e)
      | Inr (b1, l) \<Rightarrow> evaluate_streaks E t ds b1 (armed @ (case l of Some x \<Rightarrow> [x] | None \<Rightarrow> [])))"

definition cooldown_lock :: "closed_trade \<Rightarrow> session_clock \<Rightarrow> int \<Rightarrow> int \<Rightarrow> lock_reason" where
  "cooldown_lock t ck idx n =
     \<lparr>lo_rule = ''cooldown'', lo_scope = Scope_instrument, lo_strategy_id = ct_strategy_id t,
      lo_instrument = Some (ct_instrument t), lo_armed_at = ct_exit_time t, lo_armed_index = idx, lo_until_index = idx + n - 1,
      lo_clock = ck\<rparr>"

definition cooldown_step :: "lock_env \<Rightarrow> closed_trade \<Rightarrow> lock_book \<Rightarrow> lock_book \<times> (pyexn + lock_reason list)" where
  "cooldown_step E t b =
     (case registration_for b (ct_strategy_id t) of
        None \<Rightarrow> (b, Inr [])
      | Some own \<Rightarrow>
          if lp_cooldown (lr_policy own) > 0 then
            (case rbind (for_instrument E (ct_instrument t) (lr_timeframe own)) (\<lambda>ck.
                    rbind (clock_index E ck (ct_exit_time t)) (\<lambda>idx. Inr (cooldown_lock t ck idx (lp_cooldown (lr_policy own))))) of
               Inl e \<Rightarrow> (b, Inl e)
             | Inr l \<Rightarrow> (arm l b, Inr [l]))
          else (b, Inr []))"

definition on_close :: "lock_env \<Rightarrow> closed_trade \<Rightarrow> lock_book \<Rightarrow> lock_book \<times> (pyexn + lock_reason list)" where
  "on_close E t b =
     (if \<not> tz_aware (ct_exit_time t) then (b, Inl (ValueError (lit ''a close must carry a timezone-aware UTC exit_time'')))
      else
        let b1 = b\<lparr>lb_seen := (if ct_strategy_id t \<in> set (lb_seen b) then lb_seen b else lb_seen b @ [ct_strategy_id t]),
                   lb_seq := Suc (lb_seq b)\<rparr>
        in case cooldown_step E t b1 of
             (b2, Inl e) \<Rightarrow> (b2, Inl e)
           | (b2, Inr armed) \<Rightarrow>
               if is_stop_out t then
                 let b3 = b2\<lparr>lb_stops := lb_stops b2 @ [\<lparr>se_seq = lb_seq b2, se_strategy_id = ct_strategy_id t,
                              se_instrument = ct_instrument t, se_exit_time = ct_exit_time t\<rparr>]\<rparr>
                 in evaluate_streaks E t (streak_declarers b3 t) b3 armed
               else (b2, Inr armed))"

fun replay_closes :: "lock_env \<Rightarrow> closed_trade list \<Rightarrow> lock_book \<Rightarrow> pyexn + lock_book" where
  "replay_closes E [] b = Inr b"
| "replay_closes E (t # ts) b =
     (case on_close E t b of (b1, Inl e) \<Rightarrow> Inl e | (b1, Inr _) \<Rightarrow> replay_closes E ts b1)"

definition sort_closes :: "closed_trade list \<Rightarrow> pyexn + closed_trade list" where
  "sort_closes ts =
     (if list_all (\<lambda>t. tz_aware (ct_exit_time t)) ts \<or> list_all (\<lambda>t. \<not> tz_aware (ct_exit_time t)) ts
      then Inr (sort_key (\<lambda>t. ns (ct_exit_time t)) ts)
      else Inl (TypeError (lit ''Cannot compare tz-naive and tz-aware timestamps'')))"

definition rebuild ::
  "lock_env \<Rightarrow> closed_trade list \<Rightarrow> (string \<times> lock_registration) list \<Rightarrow> lock_registration option \<Rightarrow> pyexn + lock_book" where
  "rebuild E ts regs dflt = rbind (sort_closes ts) (\<lambda>sorted_ts. replay_closes E sorted_ts (book_new regs dflt))"


section \<open>What the gateway reads\<close>

fun closes_until :: "tstamp \<Rightarrow> closed_trade list \<Rightarrow> pyexn + closed_trade list" where
  "closes_until bar [] = Inr []"
| "closes_until bar (t # ts) =
     rbind (ts_le (ct_exit_time t) bar) (\<lambda>le. rbind (closes_until bar ts) (\<lambda>rest. Inr (if le then t # rest else rest)))"

text \<open>Rebuilding the book from the closes up to the bar, and asking it.\<close>

definition ledger_answer ::
  "lock_env \<Rightarrow> (string \<times> lock_registration) list \<Rightarrow> pyexn + closed_trade list \<Rightarrow> string \<Rightarrow> string \<Rightarrow> tstamp \<Rightarrow>
   lock_error + lock_reason option" where
  "ledger_answer E regs closes symb sid bar =
     (case closes of
        Inl e \<Rightarrow> Inl (LockStateUnavailable ([Lit ''the ledger could not be read: '', Lit (exn_class e), Lit '': ''] @ exn_text e))
      | Inr records \<Rightarrow>
          (case rbind (closes_until bar records) (\<lambda>ts. rbind (rebuild E ts regs None) (\<lambda>b. is_locked E b symb sid bar)) of
             Inl e \<Rightarrow> Inl (LockRaised e)
           | Inr l \<Rightarrow> Inr l))"

definition lock_for ::
  "lock_env \<Rightarrow> (string \<times> lock_registration) list \<Rightarrow> pyexn + closed_trade list \<Rightarrow> string \<Rightarrow> string \<Rightarrow> tstamp \<Rightarrow> bool \<Rightarrow> string \<Rightarrow>
   lock_error + lock_reason option" where
  "lock_for E regs closes symb sid bar declared tf =
     (case map_of regs sid of
        None \<Rightarrow> if declared then Inl (LockStateUnavailable [Lit sid, Lit '' declares locks but no lock policy is registered for it''])
                else ledger_answer E regs closes symb sid bar
      | Some reg \<Rightarrow>
          if declared \<and> tf_of_value tf = None then Inl (LockRaised (ValueError [Lit tf, Lit '' is not a valid Timeframe'']))
          else if declared \<and> tf_of_value tf \<noteq> Some (lr_timeframe reg)
          then Inl (LockStateUnavailable [Lit sid, Lit '': signal timeframe '', Lit tf, Lit '' does not match the registered lock timeframe''])
          else ledger_answer E regs closes symb sid bar)"

text \<open>A ledger view as the lock source of a gateway: the gateway reports the code of the lock.\<close>

definition ledger_source :: "lock_env \<Rightarrow> (string \<times> lock_registration) list \<Rightarrow> pyexn + closed_trade list \<Rightarrow> lock_source" where
  "ledger_source E regs closes symb sid bar declared tf =
     (case lock_for E regs closes symb sid bar declared tf of
        Inl e \<Rightarrow> Inl e
      | Inr l \<Rightarrow> Inr (map_option (lock_code E) l))"

definition close_of_intent :: "lock_env \<Rightarrow> order_intent \<Rightarrow> closed_trade option" where
  "close_of_intent E i =
     (if \<not> (case map_of (oi_extra i) ''closing'' of Some v \<Rightarrow> jtruthy v | None \<Rightarrow> False) \<or> oi_state i \<noteq> IS_CLOSED then None
      else Some \<lparr>ct_strategy_id = oi_strategy_id i, ct_instrument = upper (oi_instrument i), ct_exit_time = oi_updated_at i,
                 ct_exit_reason = (case map_of (oi_extra i) ''exit_reason'' of
                     None \<Rightarrow> None | Some JNull \<Rightarrow> None | Some (JStr r) \<Rightarrow> Some r | Some v \<Rightarrow> Some (lk_str E v))\<rparr>)"

definition closes_from_intents :: "lock_env \<Rightarrow> order_intent list \<Rightarrow> closed_trade list" where
  "closes_from_intents E is = List.map_filter (close_of_intent E) is"

end
