(* ===== verification/Lock_Safety.thy ===== *)
theory Lock_Safety
  imports Instrument_Locks Execution_Protocol Gateway_Safety
begin

text \<open>
  What the locks promise. The session clock numbers the open slots of its calendar whatever its running sums hold, and
  never goes back; the active locks of a book are the latest of its history per key; a cooldown refuses exactly the
  declared number of session bars; a stop streak is armed exactly by enough recent, unconsumed stop-outs of its scope; a
  restart rebuilds the book; and a lock on the whole book can be replaced by a shorter one.
\<close>

section \<open>The clock counts open slots\<close>

lemma tf_minutes_pos [simp]: "0 < tf_minutes tf"
  by (cases tf) simp_all

lemma tf_tiles [simp]: "WEEK_MINUTES mod tf_minutes tf = 0"
  by (cases tf) (simp_all add: WEEK_MINUTES_def)

definition slots_per_week :: "int \<Rightarrow> nat" where
  "slots_per_week m = nat (WEEK_MINUTES div m)"

lemma slots_per_week_pos [simp]: "0 < slots_per_week (tf_minutes tf)"
  by (cases tf) (simp_all add: slots_per_week_def WEEK_MINUTES_def)

text \<open>A slot of the whole time axis, counted from the anchor, is open when its place in its week is.\<close>

definition open_at :: "lock_env \<Rightarrow> calendar_key \<Rightarrow> int \<Rightarrow> nat \<Rightarrow> bool" where
  "open_at E key m k = slot_open (week_closure E key (int (k div slots_per_week m))) m (k mod slots_per_week m)"

definition open_count :: "lock_env \<Rightarrow> calendar_key \<Rightarrow> int \<Rightarrow> nat \<Rightarrow> nat" where
  "open_count E key m n = length (filter (open_at E key m) [0..<n])"

lemma length_prefix_counts [simp]: "length (prefix_counts f n) = Suc n"
  by (induction n) (auto simp: Let_def)

lemma prefix_counts_nth: "k \<le> n \<Longrightarrow> prefix_counts f n ! k = length (filter f [0..<k])"
proof (induction n arbitrary: k)
  case (Suc n)
  have "last (prefix_counts f n) = prefix_counts f n ! n" by (subst last_conv_nth) (simp_all flip: length_greater_0_conv)
  then show ?case using Suc by (cases "k = Suc n") (auto simp: Let_def nth_append)
qed simp

lemma last_prefix_counts: "last (prefix_counts f n) = length (filter f [0..<n])"
  using prefix_counts_nth [of n n f] by (subst last_conv_nth) (simp_all flip: length_greater_0_conv)

lemma template_tf:
  "template cl (tf_minutes tf) = Inr (prefix_counts (slot_open cl (tf_minutes tf)) (slots_per_week (tf_minutes tf)),
     length (filter (slot_open cl (tf_minutes tf)) [0..<slots_per_week (tf_minutes tf)]))"
  by (simp add: template_def Let_def last_prefix_counts slots_per_week_def)

lemma open_in_week_tf:
  "open_in_week E key (tf_minutes tf) w
     = length (filter (slot_open (week_closure E key (int w)) (tf_minutes tf)) [0..<slots_per_week (tf_minutes tf)])"
  by (simp add: open_in_week_def template_tf)

lemma filter_upt_shift: "length (filter P [a..<a + n]) = length (filter (\<lambda>k. P (a + k)) [0..<n])"
  by (induction n) auto

lemma count_upt_cong: "(\<And>k. k < n \<Longrightarrow> P k = Q k) \<Longrightarrow> length (filter P [0..<n]) = length (filter Q [0..<n])"
  by (rule arg_cong [where f = length], rule filter_cong) simp_all

lemma place_in_week: "k < s \<Longrightarrow> (a * s + k) div s = a" "k < s \<Longrightarrow> (a * s + k) mod s = k" for a k s :: nat
  by simp_all

lemma open_count_week:
  assumes "r \<le> slots_per_week (tf_minutes tf)"
  shows "open_count E key (tf_minutes tf) (w * slots_per_week (tf_minutes tf) + r)
    = sum_list (map (open_in_week E key (tf_minutes tf)) [0..<w])
      + length (filter (slot_open (week_closure E key (int w)) (tf_minutes tf)) [0..<r])"
  using assms
proof (induction w arbitrary: r)
  case 0
  have "open_at E key (tf_minutes tf) k = slot_open (week_closure E key 0) (tf_minutes tf) k" if "k < r" for k
    using that 0 by (simp add: open_at_def)
  then show ?case by (simp add: open_count_def) (rule count_upt_cong)
next
  case (Suc w)
  let ?m = "tf_minutes tf" let ?s = "slots_per_week ?m"
  have step: "open_at E key ?m (Suc w * ?s + k) = slot_open (week_closure E key (int (Suc w))) ?m k" if "k < r" for k
    using that Suc.prems place_in_week [of k ?s "Suc w"] by (simp add: open_at_def del: mult_Suc)
  have "open_count E key ?m (Suc w * ?s + r) = open_count E key ?m (w * ?s + ?s) + length (filter (open_at E key ?m) [Suc w * ?s..<Suc w * ?s + r])"
    unfolding open_count_def using upt_add_eq_append [of 0 "Suc w * ?s" r] by (simp add: algebra_simps)
  moreover have "length (filter (open_at E key ?m) [Suc w * ?s..<Suc w * ?s + r])
      = length (filter (slot_open (week_closure E key (int (Suc w))) ?m) [0..<r])"
    unfolding filter_upt_shift by (rule count_upt_cong) (rule step)
  ultimately show ?case using Suc.IH [of ?s] by (simp add: open_in_week_tf)
qed

text \<open>The running sums.\<close>

definition sums_ok :: "lock_env \<Rightarrow> calendar_key \<Rightarrow> int \<Rightarrow> nat list \<Rightarrow> bool" where
  "sums_ok E key m acc \<longleftrightarrow> acc \<noteq> [] \<and> (\<forall>w < length acc. acc ! w = sum_list (map (open_in_week E key m) [0..<w]))"

definition cache_ok :: "lock_env \<Rightarrow> slot_sums \<Rightarrow> bool" where
  "cache_ok E cache \<longleftrightarrow> (\<forall>key m acc. cache (key, m) = Some acc \<longrightarrow> sums_ok E key m acc)"

declare extend_sums.simps [simp del]

lemma extend_sums_ok: "sums_ok E key m acc \<Longrightarrow> sums_ok E key m (extend_sums E key m week acc) \<and> week < length (extend_sums E key m week acc)"
proof (induction E key m week acc rule: extend_sums.induct)
  case (1 E key m week acc)
  show ?case
  proof (cases "length acc \<le> week")
    case True
    have "sums_ok E key m (acc @ [last acc + open_in_week E key m (length acc - 1)])"
      using "1.prems" by (cases acc rule: rev_cases) (auto simp: sums_ok_def nth_append less_Suc_eq)
    from "1.IH" [OF True this] show ?thesis using True by (subst (1 2) extend_sums.simps) simp
  next
    case False
    then show ?thesis using "1.prems" by (subst (1 2) extend_sums.simps) simp
  qed
qed

lemma sums_ok_start: "sums_ok E key m [0]"
  by (simp add: sums_ok_def)

lemma open_slots_before_cached:
  assumes "cache_ok E cache"
  shows "cache_ok E (fst (open_slots_before E key m week cache))"
    "snd (open_slots_before E key m week cache)
      = (if week < 0 then Inl (ValueError (lit ''an earlier timestamp is not a bar''))
         else Inr (sum_list (map (open_in_week E key m) [0..<nat week])))"
proof -
  have "sums_ok E key m (case cache (key, m) of Some s \<Rightarrow> s | None \<Rightarrow> [0])"
    using assms sums_ok_start by (auto simp: cache_ok_def split: option.splits)
  from extend_sums_ok [OF this, of "nat week"] show
    "cache_ok E (fst (open_slots_before E key m week cache))"
    "snd (open_slots_before E key m week cache)
      = (if week < 0 then Inl (ValueError (lit ''an earlier timestamp is not a bar''))
         else Inr (sum_list (map (open_in_week E key m) [0..<nat week])))"
    using assms by (auto simp: open_slots_before_def Let_def cache_ok_def sums_ok_def)
qed

definition slot_of :: "int \<Rightarrow> tstamp \<Rightarrow> int" where
  "slot_of m ts = (ns ts - ANCHOR) div MINUTE_NS div m"

lemma clock_index_cached_eq:
  assumes "SESSION_CLOSURES (ck_trading_hours ck) = Some key" "m = tf_minutes (ck_timeframe ck)"
    and "week = slot_of m (utc t) div (WEEK_MINUTES div m)" "r = slot_of m (utc t) mod (WEEK_MINUTES div m)"
  shows "snd (clock_index_cached E ck (utc t) cache)
    = (case snd (open_slots_before E key m week cache) of
         Inl e \<Rightarrow> Inl e
       | Inr before \<Rightarrow> Inr (int before + int (prefix_counts (slot_open (week_closure E key week) m) (slots_per_week m) ! (nat r + 1)) - 1))"
  using assms(1)
  by (auto simp: clock_index_cached_def assms(2-4) slot_of_def template_tf Let_def split: prod.splits sum.splits)

lemma clock_index_counts:
  assumes "cache_ok E cache" "SESSION_CLOSURES (ck_trading_hours ck) = Some key" "ANCHOR \<le> t"
  shows "snd (clock_index_cached E ck (utc t) cache)
    = Inr (int (open_count E key (tf_minutes (ck_timeframe ck)) (Suc (nat (slot_of (tf_minutes (ck_timeframe ck)) (utc t))))) - 1)"
proof -
  let ?m = "tf_minutes (ck_timeframe ck)"
  define slot where "slot = slot_of ?m (utc t)"
  have "0 \<le> slot" using assms(3) tf_minutes_pos [of "ck_timeframe ck"] by (simp add: slot_def slot_of_def MINUTE_NS_def pos_imp_zdiv_nonneg_iff)
  moreover have spw: "int (slots_per_week ?m) = WEEK_MINUTES div ?m" by (cases "ck_timeframe ck") (simp_all add: slots_per_week_def WEEK_MINUTES_def)
  ultimately have week: "0 \<le> slot div (WEEK_MINUTES div ?m)" "nat (slot div (WEEK_MINUTES div ?m)) = nat slot div slots_per_week ?m"
      "nat (slot mod (WEEK_MINUTES div ?m)) = nat slot mod slots_per_week ?m"
    by (simp_all flip: spw add: nat_div_distrib nat_mod_distrib pos_imp_zdiv_nonneg_iff)
  have r: "Suc (nat slot mod slots_per_week ?m) \<le> slots_per_week ?m" by (simp add: Suc_le_eq)
  have "open_count E key ?m (Suc (nat slot))
      = sum_list (map (open_in_week E key ?m) [0..<nat slot div slots_per_week ?m])
        + prefix_counts (slot_open (week_closure E key (int (nat slot div slots_per_week ?m))) ?m) (slots_per_week ?m) ! Suc (nat slot mod slots_per_week ?m)"
    using open_count_week [OF r, of E key "nat slot div slots_per_week ?m"] prefix_counts_nth [OF r] by simp
  moreover have "int (nat slot div slots_per_week ?m) = slot div (WEEK_MINUTES div ?m)" using week(1,2) by (metis nat_0_le)
  moreover note open_slots_before_cached(2) [OF assms(1), of key ?m "slot div (WEEK_MINUTES div ?m)"]
  moreover note clock_index_cached_eq [OF assms(2) refl refl refl, of E t cache]
  ultimately show ?thesis using week by (simp add: slot_def)
qed

text \<open>The clock never goes back.\<close>

lemma open_count_mono: "a \<le> b \<Longrightarrow> open_count E key m a \<le> open_count E key m b"
  unfolding open_count_def by (metis le_add1 le_Suc_ex length_append filter_append upt_add_eq_append le0)

lemma slot_of_mono: "s \<le> t \<Longrightarrow> 0 < m \<Longrightarrow> slot_of m (utc s) \<le> slot_of m (utc t)"
  by (simp add: slot_of_def zdiv_mono1 MINUTE_NS_def)

lemma cache_ok_empty: "cache_ok E (\<lambda>_. None)"
  by (simp add: cache_ok_def)

lemmas clock_index_open = clock_index_counts [OF cache_ok_empty, folded clock_index_def]

lemma clock_index_mono:
  assumes "SESSION_CLOSURES (ck_trading_hours ck) = Some key" "clock_index E ck (utc s) = Inr i" "clock_index E ck (utc t) = Inr j" "ANCHOR \<le> s" "s \<le> t"
  shows "i \<le> j"
proof -
  let ?m = "tf_minutes (ck_timeframe ck)"
  have "Suc (nat (slot_of ?m (utc s))) \<le> Suc (nat (slot_of ?m (utc t)))"
    using slot_of_mono [OF assms(5), of ?m] by (simp add: nat_mono)
  from open_count_mono [OF this, of E key ?m] show ?thesis
    using clock_index_open [OF assms(1), of s E] clock_index_open [OF assms(1), of t E] assms(2-5) by simp
qed

lemma clock_index_before_anchor: "t < ANCHOR \<Longrightarrow> \<exists>e. clock_index E ck (utc t) = Inl e"
proof -
  assume t: "t < ANCHOR"
  let ?m = "tf_minutes (ck_timeframe ck)"
  have "slot_of ?m (utc t) < 0" using t by (simp add: slot_of_def MINUTE_NS_def div_neg_pos_less0)
  moreover have "0 < WEEK_MINUTES div ?m" by (cases "ck_timeframe ck") (simp_all add: WEEK_MINUTES_def)
  ultimately have neg: "slot_of ?m (utc t) div (WEEK_MINUTES div ?m) < 0" by (simp add: div_neg_pos_less0)
  show ?thesis
  proof (cases "SESSION_CLOSURES (ck_trading_hours ck)")
    case None
    then show ?thesis by (simp add: clock_index_def clock_index_cached_def Let_def)
  next
    case (Some key)
    from clock_index_cached_eq [OF this refl refl refl, of E t "\<lambda>_. None"] neg
    show ?thesis by (simp add: clock_index_def open_slots_before_def)
  qed
qed

lemma clock_index_naive: "\<not> tz_aware ts \<Longrightarrow> \<exists>e. clock_index E ck ts = Inl e"
  by (simp add: clock_index_def clock_index_cached_def)

lemma clock_index_InrD:
  assumes "clock_index E ck ts = Inr i"
  obtains "ts = utc (ns ts)" "ANCHOR \<le> ns ts"
proof -
  have "tz_aware ts" using assms clock_index_naive [of ts E ck] by auto
  then have eq: "ts = utc (ns ts)" by (cases ts) simp
  moreover have "ANCHOR \<le> ns ts" using assms clock_index_before_anchor [of "ns ts" E ck] eq by (metis Inl_Inr_False not_le)
  ultimately show ?thesis using that by blast
qed

section \<open>What a close arms\<close>

definition put_lock :: "lock_reason \<Rightarrow> (lock_key \<times> lock_reason) list \<Rightarrow> (lock_key \<times> lock_reason) list" where
  "put_lock l ls = dict_put (lock_key_of l) l ls"

definition cooldown_of :: "lock_env \<Rightarrow> lock_book \<Rightarrow> closed_trade \<Rightarrow> lock_reason option" where
  "cooldown_of E b t =
     (case registration_for b (ct_strategy_id t) of
        None \<Rightarrow> None
      | Some own \<Rightarrow>
          if lp_cooldown (lr_policy own) > 0 then
            (case rbind (for_instrument E (ct_instrument t) (lr_timeframe own)) (\<lambda>ck.
                    rbind (clock_index E ck (ct_exit_time t)) (\<lambda>idx. Inr (cooldown_lock t ck idx (lp_cooldown (lr_policy own))))) of
               Inl _ \<Rightarrow> None
             | Inr l \<Rightarrow> Some l)
          else None)"

definition clock_known :: "session_clock \<Rightarrow> bool" where
  "clock_known ck \<longleftrightarrow> SESSION_CLOSURES (ck_trading_hours ck) \<noteq> None"

lemma for_instrument_known: "for_instrument E s tf = Inr ck \<Longrightarrow> clock_known ck"
  by (auto simp: for_instrument_def clock_known_def rbind_eq_Inr split: if_splits)

text \<open>The parts of a book that no close changes.\<close>

definition same_rules :: "lock_book \<Rightarrow> lock_book \<Rightarrow> bool" where
  "same_rules b b' \<longleftrightarrow> lb_registrations b' = lb_registrations b \<and> lb_default b' = lb_default b"

lemma same_rules_registration: "same_rules b b' \<Longrightarrow> registration_for b' sid = registration_for b sid"
  by (auto simp: same_rules_def registration_for_def split: option.split)

lemma same_rules_cooldown: "same_rules b b' \<Longrightarrow> cooldown_of E b' t = cooldown_of E b t"
  by (simp add: cooldown_of_def same_rules_registration)

text \<open>\<open>b'\<close> is \<open>b\<close> after arming \<open>armed\<close>, whose stop-streak locks are on known calendars.\<close>

definition streak_lock :: "lock_reason \<Rightarrow> bool" where
  "streak_lock l \<longleftrightarrow> lo_rule l = ''stop_streak'' \<and> clock_known (lo_clock l)"

definition armed_from :: "lock_book \<Rightarrow> lock_reason list \<Rightarrow> lock_book \<Rightarrow> bool" where
  "armed_from b armed b' \<longleftrightarrow>
     same_rules b b' \<and> lb_history b' = lb_history b @ armed \<and> lb_active b' = fold put_lock armed (lb_active b)"

lemma armed_from_refl: "armed_from b [] b"
  by (simp add: armed_from_def same_rules_def)

lemma armed_from_trans: "armed_from b xs b1 \<Longrightarrow> armed_from b1 ys b2 \<Longrightarrow> armed_from b (xs @ ys) b2"
  by (simp add: armed_from_def same_rules_def)

lemma arm_armed: "armed_from b [l] (arm l b)"
  by (simp add: arm_def armed_from_def same_rules_def put_lock_def)

lemma evaluate_streak_armed:
  assumes "evaluate_streak E sid reg rule t b = Inr (b', l)"
  shows "armed_from b (case l of Some x \<Rightarrow> [x] | None \<Rightarrow> []) b'" "list_all streak_lock (case l of Some x \<Rightarrow> [x] | None \<Rightarrow> [])"
  using assms for_instrument_known
  by (auto simp: evaluate_streak_def rbind_eq_Inr Let_def armed_from_refl streak_lock_def armed_from_def same_rules_def arm_def put_lock_def
      split: if_splits)

lemma evaluate_streaks_armed:
  "evaluate_streaks E t ds b armed = (b', Inr armed') \<Longrightarrow>
     \<exists>ls. armed' = armed @ ls \<and> armed_from b ls b' \<and> list_all streak_lock ls"
proof (induction E t ds b armed rule: evaluate_streaks.induct)
  case (2 E t sid reg rule ds b armed)
  then obtain b1 l where one: "evaluate_streak E sid reg rule t b = Inr (b1, l)" by (auto split: sum.splits)
  from "2.IH" [OF one refl] "2.prems" one obtain ls where
    "armed' = (armed @ (case l of Some x \<Rightarrow> [x] | None \<Rightarrow> [])) @ ls" "armed_from b1 ls b'" "list_all streak_lock ls" by auto
  with evaluate_streak_armed [OF one] show ?case
    by (intro exI [of _ "(case l of Some x \<Rightarrow> [x] | None \<Rightarrow> []) @ ls"]) (auto intro: armed_from_trans)
qed (auto intro: armed_from_refl)

lemma cooldown_step_armed:
  "cooldown_step E t b = (b', Inr armed) \<Longrightarrow> armed = (case cooldown_of E b t of Some l \<Rightarrow> [l] | None \<Rightarrow> []) \<and> armed_from b armed b'"
  by (auto simp: cooldown_step_def cooldown_of_def armed_from_refl arm_armed split: option.splits if_splits sum.splits)

lemma on_close_armed:
  assumes "on_close E t b = (b', Inr armed)"
  shows "armed_from b armed b' \<and> (\<exists>streaks. armed = (case cooldown_of E b t of Some l \<Rightarrow> [l] | None \<Rightarrow> []) @ streaks \<and> list_all streak_lock streaks)"
proof -
  let ?b1 = "b\<lparr>lb_seen := (if ct_strategy_id t \<in> set (lb_seen b) then lb_seen b else lb_seen b @ [ct_strategy_id t]), lb_seq := Suc (lb_seq b)\<rparr>"
  have b1: "armed_from b [] ?b1" "cooldown_of E ?b1 t = cooldown_of E b t"
    by (simp add: armed_from_def same_rules_def) (rule same_rules_cooldown, simp add: same_rules_def)
  obtain b2 cool where step: "cooldown_step E t ?b1 = (b2, Inr cool)"
    using assms by (auto simp: on_close_def Let_def split: if_splits prod.splits sum.splits)
  note cd = cooldown_step_armed [OF step]
  then have cool: "armed_from b cool b2" using armed_from_trans [OF b1(1)] by fastforce
  show ?thesis
  proof (cases "is_stop_out t")
    case False
    then show ?thesis using assms step cd cool b1 by (auto simp: on_close_def Let_def split: if_splits)
  next
    case True
    let ?b3 = "b2\<lparr>lb_stops := lb_stops b2 @ [\<lparr>se_seq = lb_seq b2, se_strategy_id = ct_strategy_id t,
                   se_instrument = ct_instrument t, se_exit_time = ct_exit_time t\<rparr>]\<rparr>"
    have "evaluate_streaks E t (streak_declarers ?b3 t) ?b3 cool = (b', Inr armed)"
      using assms step True by (auto simp: on_close_def Let_def split: if_splits)
    from evaluate_streaks_armed [OF this] obtain ls where ls: "armed = cool @ ls" "armed_from ?b3 ls b'" "list_all streak_lock ls" by blast
    moreover have "armed_from b2 [] ?b3" by (simp add: armed_from_def same_rules_def)
    ultimately have "armed_from b armed b'" using armed_from_trans [OF cool, of "[] @ ls"] armed_from_trans [of b2 "[]" ?b3 ls b'] by simp
    then show ?thesis using ls cd b1 by simp
  qed
qed

text \<open>After a replay the active locks are the latest of the history per key, and the cooldowns of the history are those of the closes, in
  order.\<close>

abbreviation is_cooldown :: "lock_reason \<Rightarrow> bool" where
  "is_cooldown l \<equiv> lo_rule l = ''cooldown''"

lemma cooldown_of_cooldown: "cooldown_of E b t = Some l \<Longrightarrow> is_cooldown l \<and> clock_known (lo_clock l)"
  by (auto simp: cooldown_of_def rbind_eq_Inr cooldown_lock_def for_instrument_known split: option.splits if_splits sum.splits)

lemma filter_streaks: "list_all streak_lock ls \<Longrightarrow> filter is_cooldown ls = []"
  by (auto simp: streak_lock_def list_all_iff filter_empty_conv)

lemma replay_armed:
  assumes "replay_closes E ts b = Inr b'"
  shows "\<exists>armed. armed_from b armed b' \<and> filter is_cooldown armed = List.map_filter (cooldown_of E b) ts \<and> list_all (\<lambda>l. clock_known (lo_clock l)) armed"
  using assms
proof (induction ts arbitrary: b)
  case (Cons t ts)
  then obtain b1 a1 where step: "on_close E t b = (b1, Inr a1)" and rest: "replay_closes E ts b1 = Inr b'" by (auto split: prod.splits sum.splits)
  from Cons.IH [OF rest] obtain a2 where a2: "armed_from b1 a2 b'" "filter is_cooldown a2 = List.map_filter (cooldown_of E b1) ts"
      "list_all (\<lambda>l. clock_known (lo_clock l)) a2" by blast
  from on_close_armed [OF step] obtain ss where a1: "armed_from b a1 b1" "a1 = (case cooldown_of E b t of Some l \<Rightarrow> [l] | None \<Rightarrow> []) @ ss"
      "list_all streak_lock ss" by blast
  have "cooldown_of E b1 = cooldown_of E b" using a1(1) by (auto simp: armed_from_def same_rules_cooldown)
  moreover have "list_all (\<lambda>l. clock_known (lo_clock l)) ss" using a1(3) by (auto simp: streak_lock_def list_all_iff)
  ultimately show ?case using a1 a2 filter_streaks [OF a1(3)] armed_from_trans [OF a1(1) a2(1)]
    by (intro exI [of _ "a1 @ a2"]) (auto simp: List.map_filter_simps dest: cooldown_of_cooldown split: option.splits)
qed (auto intro: armed_from_refl exI [of _ "[]"] simp: List.map_filter_simps)

section \<open>The latest lock per key decides\<close>

lemma map_of_fold_put_lock:
  "map_of (fold put_lock hs acc) k = (if filter (\<lambda>l. lock_key_of l = k) hs = [] then map_of acc k else Some (last (filter (\<lambda>l. lock_key_of l = k) hs)))"
  by (induction hs rule: rev_induct) (auto simp: put_lock_def map_of_dict_put)

lemma set_active_locks: "set (active_locks b) = snd ` set (lb_active b)"
  by (simp add: active_locks_def)

lemma first_lock_SomeD: "first_lock E symb sid bar ls = Inr (Some l) \<Longrightarrow> l \<in> set ls \<and> applies_to l symb sid \<and> lock_covers E l bar = Inr True"
  by (induction ls) (auto simp: rbind_eq_Inr split: if_splits)

lemma first_lock_hit: "l \<in> set ls \<Longrightarrow> applies_to l symb sid \<Longrightarrow> lock_covers E l bar = Inr True \<Longrightarrow> first_lock E symb sid bar ls \<noteq> Inr None"
  by (induction ls) (auto simp: rbind_eq_Inr split: if_splits)

lemma first_lock_total: "list_all (\<lambda>l. \<exists>c. lock_covers E l bar = Inr c) ls \<Longrightarrow> \<exists>r. first_lock E symb sid bar ls = Inr r"
  by (induction ls) auto

lemma set_fold_put_lock: "snd ` set (fold put_lock hs acc) \<subseteq> set hs \<union> snd ` set acc"
proof (induction hs rule: rev_induct)
  case (snoc h hs)
  have "snd ` set (put_lock h (fold put_lock hs acc)) \<subseteq> insert h (snd ` set (fold put_lock hs acc))"
    using image_mono [OF set_dict_put [of "lock_key_of h" h "fold put_lock hs acc"], of snd] by (simp add: put_lock_def)
  with snoc show ?case by (simp add: subset_iff) blast
qed simp

lemma clock_known_index: "clock_known ck \<Longrightarrow> ANCHOR \<le> n \<Longrightarrow> \<exists>i. clock_index E ck (utc n) = Inr i"
  using clock_index_open by (fastforce simp: clock_known_def)

lemma last_filter_map_filter:
  assumes "sorted (map f ts)" "t \<in> set ts" "g t = Some l" "P l"
  shows "filter P (List.map_filter g ts) \<noteq> [] \<and> (\<exists>t' \<in> set ts. g t' = Some (last (filter P (List.map_filter g ts))) \<and> f t \<le> f t')"
  using assms
proof (induction ts rule: rev_induct)
  case (snoc u us)
  show ?case
  proof (cases "\<exists>x. g u = Some x \<and> P x")
    case True
    then show ?thesis using snoc.prems by (auto simp: List.map_filter_def sorted_append)
  next
    case False
    then have "t \<in> set us" "filter P (List.map_filter g (us @ [u])) = filter P (List.map_filter g us)"
      using snoc.prems by (auto simp: List.map_filter_def)
    then show ?thesis using snoc by (auto simp: sorted_append)
  qed
qed simp

lemma cooldown_ofD:
  assumes "cooldown_of E b t = Some l"
  obtains own ck idx where "registration_for b (ct_strategy_id t) = Some own" "0 < lp_cooldown (lr_policy own)"
    "for_instrument E (ct_instrument t) (lr_timeframe own) = Inr ck" "clock_index E ck (ct_exit_time t) = Inr idx"
    "l = cooldown_lock t ck idx (lp_cooldown (lr_policy own))"
  using assms by (auto simp: cooldown_of_def rbind_eq_Inr split: option.splits if_splits sum.splits)

definition real_symbol :: "string \<Rightarrow> bool" where
  "real_symbol s \<longleftrightarrow> s \<noteq> [] \<and> s \<noteq> ''*''"

lemma cooldown_key_inj:
  assumes "lock_key_of (cooldown_lock t ck i n) = lock_key_of (cooldown_lock t' ck' i' n')" "real_symbol (ct_instrument t)"
  shows "ct_strategy_id t' = ct_strategy_id t" "ct_instrument t' = ct_instrument t"
  using assms by (auto simp: lock_key_of_def cooldown_lock_def or_star_def real_symbol_def split: if_splits)

text \<open>While the cooldown of a close runs, the active lock of its key is the cooldown of a close at least as late.\<close>

lemma cooldown_kept:
  assumes "replay_closes E ts (book_new regs dflt) = Inr b" "sorted (map (ns \<circ> ct_exit_time) ts)"
    and "t \<in> set ts" "cooldown_of E b t = Some l" "real_symbol (ct_instrument t)"
  obtains t' l' where "t' \<in> set ts" "cooldown_of E b t' = Some l'" "l' \<in> set (active_locks b)"
    "ct_strategy_id t' = ct_strategy_id t" "ct_instrument t' = ct_instrument t" "ns (ct_exit_time t) \<le> ns (ct_exit_time t')"
proof -
  obtain h where h: "armed_from (book_new regs dflt) h b" "filter is_cooldown h = List.map_filter (cooldown_of E (book_new regs dflt)) ts"
    using replay_armed [OF assms(1)] by blast
  have co: "cooldown_of E (book_new regs dflt) = cooldown_of E b" using h(1) by (auto simp: armed_from_def same_rules_cooldown)
  let ?P = "\<lambda>x. lock_key_of x = lock_key_of l"
  have rule: "?P x \<Longrightarrow> is_cooldown x" for x using cooldown_of_cooldown [OF assms(4)] by (auto simp: lock_key_of_def split: if_splits)
  have same: "filter ?P h = filter ?P (List.map_filter (cooldown_of E b) ts)"
    using rule by (subst co [symmetric], subst h(2) [symmetric]) (auto intro!: filter_cong)
  from last_filter_map_filter [where g = "cooldown_of E b" and P = ?P, OF assms(2-4) refl, folded same] obtain t' where
    t': "t' \<in> set ts" "cooldown_of E b t' = Some (last (filter ?P h))" "ns (ct_exit_time t) \<le> ns (ct_exit_time t')" "filter ?P h \<noteq> []" by auto
  have "map_of (lb_active b) (lock_key_of l) = Some (last (filter ?P h))"
    using h(1) t'(4) map_of_fold_put_lock [of h "[]" "lock_key_of l"] by (simp add: armed_from_def book_new_def)
  then have "last (filter ?P h) \<in> set (active_locks b)" by (force simp: set_active_locks dest: map_of_SomeD)
  moreover have "?P (last (filter ?P h))" using t'(4) last_in_set [of "filter ?P h"] by simp
  then have "ct_strategy_id t' = ct_strategy_id t" "ct_instrument t' = ct_instrument t"
    using assms(4,5) t'(2) by (auto elim!: cooldown_ofD dest: cooldown_key_inj [OF sym])
  ultimately show ?thesis using t' that by blast
qed

text \<open>Hence it covers every bar the cooldown of the earlier close covers.\<close>

lemma cooldown_refuses:
  assumes "replay_closes E ts (book_new regs dflt) = Inr b" "sorted (map (ns \<circ> ct_exit_time) ts)"
    and "t \<in> set ts" "cooldown_of E b t = Some l" "real_symbol (ct_instrument t)"
    and "list_all (\<lambda>t. ns (ct_exit_time t) \<le> n) ts" "lock_covers E l (utc n) = Inr True" "upper symb = ct_instrument t"
  shows "is_locked E b symb (ct_strategy_id t) (utc n) \<noteq> Inr None"
proof -
  from cooldown_kept [OF assms(1-5)] obtain t' l' where t': "t' \<in> set ts" "cooldown_of E b t' = Some l'" "l' \<in> set (active_locks b)"
    "ct_strategy_id t' = ct_strategy_id t" "ct_instrument t' = ct_instrument t" "ns (ct_exit_time t) \<le> ns (ct_exit_time t')" by blast
  from assms(4) obtain own ck idx where l: "registration_for b (ct_strategy_id t) = Some own"
    "for_instrument E (ct_instrument t) (lr_timeframe own) = Inr ck" "clock_index E ck (ct_exit_time t) = Inr idx"
    "l = cooldown_lock t ck idx (lp_cooldown (lr_policy own))" by (rule cooldown_ofD)
  from t'(2) l t'(4,5) obtain idx' where l': "clock_index E ck (ct_exit_time t') = Inr idx'"
    "l' = cooldown_lock t' ck idx' (lp_cooldown (lr_policy own))" by (auto elim!: cooldown_ofD)
  obtain key where key: "SESSION_CLOSURES (ck_trading_hours ck) = Some key" using for_instrument_known [OF l(2)] by (auto simp: clock_known_def)
  from assms(7) l(4) obtain i where i: "clock_index E ck (utc n) = Inr i" "idx \<le> i" "i \<le> idx + lp_cooldown (lr_policy own) - 1"
    by (auto simp: lock_covers_def rbind_eq_Inr cooldown_lock_def)
  have n: "ns (ct_exit_time t') \<le> n" using assms(6) t'(1) by (simp add: list_all_iff)
  have "idx \<le> idx'" "idx' \<le> i"
    using l(3) l'(1) i(1) t'(6) n
    by (metis clock_index_InrD clock_index_mono key)+
  with i l'(2) have "lock_covers E l' (utc n) = Inr True" by (simp add: lock_covers_def cooldown_lock_def)
  moreover have "applies_to l' (ct_instrument t) (ct_strategy_id t)" using l'(2) t'(4,5) by (simp add: applies_to_def cooldown_lock_def)
  ultimately show ?thesis using first_lock_hit [OF t'(3)] assms(8) by (simp add: is_locked_def)
qed

section \<open>Properties of the clock\<close>

lemma clock_index_cached_keeps:
  assumes "cache_ok E cache"
  shows "cache_ok E (fst (clock_index_cached E ck ts cache))"
  using assms open_slots_before_cached(1) [OF assms]
  by (auto simp: clock_index_cached_def Let_def split: option.splits sum.splits prod.splits) (metis fst_conv)+

text \<open>C33: the session clock is a pure function of the timestamp, the number of slots of its calendar that are open and start
  at or before it, less one: whatever sums earlier calls have left behind, as long as they are sums of the open slots
  per week, the index with them is the index without, and the sums left afterwards are such sums again.\<close>

theorem clock_counts_open_bars:
  assumes "cache_ok E cache" "SESSION_CLOSURES (ck_trading_hours ck) = Some key" "ANCHOR \<le> t"
  shows "snd (clock_index_cached E ck (utc t) cache) = clock_index E ck (utc t)
    \<and> clock_index E ck (utc t) = Inr (int (open_count E key (tf_minutes (ck_timeframe ck)) (Suc (nat (slot_of (tf_minutes (ck_timeframe ck)) (utc t))))) - 1)
    \<and> cache_ok E (fst (clock_index_cached E ck (utc t) cache))"
  using clock_index_counts [OF assms] clock_index_open [OF assms(2,3), of E] clock_index_cached_keeps [OF assms(1)] by simp

definition sample_locks :: lock_env where
  "sample_locks =
     \<lparr>lk_registry = [''EURUSD'' \<mapsto> eurusd, ''BTCUSD'' \<mapsto> eurusd\<lparr>i_symbol := ''BTCUSD'', i_trading_hours := ''crypto_24_7''\<rparr>],
      lk_utc = (\<lambda>tz day hour. 1440 * day + 60 * (hour + 5)), lk_iso = (\<lambda>_. ''t''), lk_str = (\<lambda>_. ''v'')\<rparr>"

text \<open>Friday 20:00 UTC of the first week on the H4 clock: the half-open last slot of the week, number 29 of the week's 31.\<close>

definition H4_clock :: session_clock where
  "H4_clock = \<lparr>ck_trading_hours = ''fx_24_5'', ck_timeframe = H4\<rparr>"

theorem clock_counts_open_bars_witness:
  "snd (clock_index_cached sample_locks H4_clock (utc (ANCHOR + 116 * 60 * MINUTE_NS)) (\<lambda>_. None)) = Inr 29
   \<and> open_count sample_locks (Zoned ''America/New_York'' 17 17) 240 30 = 30"
proof -
  have key: "SESSION_CLOSURES (ck_trading_hours H4_clock) = Some (Zoned ''America/New_York'' 17 17)"
    by (simp add: SESSION_CLOSURES_def H4_clock_def Let_def)
  have n: "open_count sample_locks (Zoned ''America/New_York'' 17 17) 240 30 = 30"
    by (simp add: open_count_def open_at_def upt_rec slots_per_week_def WEEK_MINUTES_def week_closure_def sample_locks_def slot_open_def)
  with clock_counts_open_bars [OF cache_ok_empty key, of "ANCHOR + 116 * 60 * MINUTE_NS"] show ?thesis
    by (simp add: H4_clock_def slot_of_def MINUTE_NS_def)
qed

section \<open>Rebuilding\<close>

lemma rebuild_sorted:
  assumes "rebuild E ts regs dflt = Inr b"
  obtains us where "replay_closes E us (book_new regs dflt) = Inr b" "sorted (map (ns \<circ> ct_exit_time) us)" "mset us = mset ts"
proof -
  have "replay_closes E (sort_key (\<lambda>t. ns (ct_exit_time t)) ts) (book_new regs dflt) = Inr b"
    using assms by (auto simp: rebuild_def sort_closes_def split: if_splits)
  then show ?thesis using that [of "sort_key (\<lambda>t. ns (ct_exit_time t)) ts"] by (simp add: comp_def)
qed

text \<open>A process restarted with the ledger of closes holds the book of the process that saw the closes one by one, whatever
  the order of the ledger's rows, as long as no two closes fall on the same instant.\<close>

theorem restart_rebuilds_the_book:
  assumes "list_all (tz_aware \<circ> ct_exit_time) ts" "sorted_wrt (<) (map (ns \<circ> ct_exit_time) ts)" "mset ledger = mset ts"
  shows "rebuild E ledger regs dflt = replay_closes E ts (book_new regs dflt)"
proof -
  let ?f = "\<lambda>t. ns (ct_exit_time t)"
  have sort: "sorted (map ?f ts)" "distinct (map ?f ts)" using assms(2) by (simp_all add: strict_sorted_iff comp_def)
  have "sort_key ?f ledger = ts"
  proof (rule properties_for_sort_key)
    fix k assume "k \<in> set ts"
    then have "inj_on ?f (set ts)" using sort(2) by (simp add: distinct_map)
    then have one: "filter (\<lambda>x. ?f k = ?f x) xs = filter (\<lambda>x. k = x) xs" if "set xs \<subseteq> set ts" for xs
      using that \<open>k \<in> set ts\<close> by (intro filter_cong) (auto simp: inj_on_def subset_iff)
    have "filter (\<lambda>x. k = x) xs = replicate (count (mset xs) k) k" for xs
      by (induction xs) auto
    then show "filter (\<lambda>x. ?f k = ?f x) ts = filter (\<lambda>x. ?f k = ?f x) ledger"
      using one [of ts] one [of ledger] mset_eq_setD [OF assms(3)] assms(3) by simp
  qed (use assms sort in auto)
  moreover have "list_all (tz_aware \<circ> ct_exit_time) ledger" using assms(1) mset_eq_setD [OF assms(3)] by (simp add: list_all_iff)
  ultimately show ?thesis by (simp add: rebuild_def sort_closes_def comp_def)
qed

text \<open>Fewer than N session bars have passed since a close of the strategy on the instrument.\<close>

definition in_cooldown :: "lock_env \<Rightarrow> lock_registration \<Rightarrow> closed_trade list \<Rightarrow> string \<Rightarrow> string \<Rightarrow> tstamp \<Rightarrow> bool" where
  "in_cooldown E own ts symb sid bar \<longleftrightarrow>
     list_ex (\<lambda>t. ct_strategy_id t = sid \<and> ct_instrument t = symb \<and>
       (case rbind (for_instrument E symb (lr_timeframe own)) (\<lambda>ck. bars_between E ck (ct_exit_time t) bar) of
          Inr d \<Rightarrow> 0 \<le> d \<and> d < lp_cooldown (lr_policy own) | Inl _ \<Rightarrow> False)) ts"

lemma in_cooldown_iff:
  assumes "map_of (lb_registrations b) sid = Some own"
  shows "in_cooldown E own ts symb sid bar \<longleftrightarrow>
    (\<exists>t l. t \<in> set ts \<and> ct_strategy_id t = sid \<and> ct_instrument t = symb \<and> cooldown_of E b t = Some l \<and> lock_covers E l bar = Inr True)"
proof -
  have "(case rbind (for_instrument E symb (lr_timeframe own)) (\<lambda>ck. bars_between E ck (ct_exit_time t) bar) of
          Inr d \<Rightarrow> 0 \<le> d \<and> d < lp_cooldown (lr_policy own) | Inl _ \<Rightarrow> False)
      \<longleftrightarrow> (\<exists>l. cooldown_of E b t = Some l \<and> lock_covers E l bar = Inr True)"
    if "ct_strategy_id t = sid" "ct_instrument t = symb" for t
    using that assms
    by (auto simp: cooldown_of_def registration_for_def bars_between_def lock_covers_def cooldown_lock_def rbind_eq_Inr split: sum.splits)
  then show ?thesis unfolding in_cooldown_def list_ex_iff by blast
qed

lemma replay_rules: "replay_closes E ts b = Inr b' \<Longrightarrow> same_rules b b'"
  using replay_armed by (auto simp: armed_from_def)

lemma replay_active:
  assumes "replay_closes E ts (book_new regs dflt) = Inr b" "l \<in> set (active_locks b)"
  shows "clock_known (lo_clock l)" "is_cooldown l \<Longrightarrow> \<exists>t \<in> set ts. cooldown_of E b t = Some l"
proof -
  obtain h where h: "armed_from (book_new regs dflt) h b" "filter is_cooldown h = List.map_filter (cooldown_of E (book_new regs dflt)) ts"
      "list_all (\<lambda>l. clock_known (lo_clock l)) h"
    using replay_armed [OF assms(1)] by blast
  have "l \<in> set h" using assms(2) h(1) set_fold_put_lock [of h "[]"] by (auto simp: set_active_locks armed_from_def book_new_def)
  then show "clock_known (lo_clock l)" using h(3) by (simp add: list_all_iff)
  have "cooldown_of E (book_new regs dflt) = cooldown_of E b" using h(1) by (auto simp: armed_from_def same_rules_cooldown)
  moreover assume "is_cooldown l"
  moreover have "l \<in> set (filter is_cooldown h)" if "is_cooldown l" using \<open>l \<in> set h\<close> that by simp
  ultimately have "l \<in> set (List.map_filter (cooldown_of E b) ts)" using h(2) by simp
  then show "\<exists>t \<in> set ts. cooldown_of E b t = Some l" by (auto simp: List.map_filter_def)
qed

lemma is_locked_total:
  assumes "replay_closes E ts (book_new regs dflt) = Inr b" "ANCHOR \<le> n"
  shows "\<exists>r. is_locked E b symb sid (utc n) = Inr r"
  unfolding is_locked_def
proof (rule first_lock_total, unfold list_all_iff, rule ballI)
  fix l assume "l \<in> set (active_locks b)"
  from clock_known_index [OF replay_active(1) [OF assms(1) this] assms(2), of E] show "\<exists>c. lock_covers E l (utc n) = Inr c"
    by (auto simp: lock_covers_def)
qed

lemma rebuild_cooldown_refuses:
  assumes "rebuild E ts regs dflt = Inr b" "list_all (\<lambda>t. ns (ct_exit_time t) \<le> n) ts"
    and "map_of regs sid = Some own" "real_symbol (upper symb)" "in_cooldown E own ts (upper symb) sid (utc n)"
  shows "is_locked E b symb sid (utc n) \<noteq> Inr None"
proof -
  obtain us where us: "replay_closes E us (book_new regs dflt) = Inr b" "sorted (map (ns \<circ> ct_exit_time) us)" "mset us = mset ts"
    using rebuild_sorted [OF assms(1)] .
  note set_us = mset_eq_setD [OF us(3)]
  have reg: "map_of (lb_registrations b) sid = Some own"
    using replay_rules [OF us(1)] assms(3) by (simp add: same_rules_def book_new_def)
  from assms(5) obtain t l where t: "t \<in> set us" "ct_strategy_id t = sid" "ct_instrument t = upper symb" "cooldown_of E b t = Some l"
    "lock_covers E l (utc n) = Inr True" unfolding in_cooldown_iff [OF reg] set_us by blast
  have "real_symbol (ct_instrument t)" unfolding t(3) by (rule assms(4))
  moreover have "list_all (\<lambda>t. ns (ct_exit_time t) \<le> n) us" using assms(2) unfolding list_all_iff set_us .
  ultimately show ?thesis using cooldown_refuses [OF us(1,2) t(1,4), of n symb] t(2,3,5) by metis
qed

text \<open>C32: a cooldown of N bars refuses the N session bars that begin with the bar of the close, no fewer and no more. Over a book rebuilt
  from a ledger none of whose closes is later than the bar asked about, the answer never raises; it is a lock whenever
  fewer than N session bars have passed since a close of this strategy on this instrument (also when later locks were
  armed meanwhile, since only the latest per key is kept); and a cooldown is the answer only then.\<close>

theorem cooldown_is_exact:
  assumes "rebuild E ts regs dflt = Inr b" "list_all (\<lambda>t. ns (ct_exit_time t) \<le> n) ts" "ANCHOR \<le> n"
    and "map_of regs sid = Some own" "real_symbol (upper symb)"
  shows "\<exists>r. is_locked E b symb sid (utc n) = Inr r \<and> (in_cooldown E own ts (upper symb) sid (utc n) \<longrightarrow> r \<noteq> None)
    \<and> (\<forall>l. r = Some l \<and> lo_rule l = ''cooldown'' \<longrightarrow> in_cooldown E own ts (upper symb) sid (utc n))"
proof -
  obtain us where us: "replay_closes E us (book_new regs dflt) = Inr b" "sorted (map (ns \<circ> ct_exit_time) us)" "mset us = mset ts"
    using rebuild_sorted [OF assms(1)] .
  note set_us = mset_eq_setD [OF us(3)]
  have reg: "map_of (lb_registrations b) sid = Some own"
    using replay_rules [OF us(1)] assms(4) by (simp add: same_rules_def book_new_def)
  obtain r where r: "is_locked E b symb sid (utc n) = Inr r" using is_locked_total [OF us(1) assms(3)] by blast
  have "r \<noteq> None" if "in_cooldown E own ts (upper symb) sid (utc n)"
    using rebuild_cooldown_refuses [OF assms(1,2,4,5) that] r by auto
  moreover have "in_cooldown E own ts (upper symb) sid (utc n)" if some: "r = Some l" "is_cooldown l" for l
  proof -
    from first_lock_SomeD [of E "upper symb" sid "utc n" "active_locks b" l] r some have
      l: "l \<in> set (active_locks b)" "applies_to l (upper symb) sid" "lock_covers E l (utc n) = Inr True" by (simp_all add: is_locked_def)
    then obtain t where "t \<in> set ts" "cooldown_of E b t = Some l" using replay_active(2) [OF us(1) _ some(2)] set_us by auto
    moreover from this(2) l(2) have "ct_strategy_id t = sid" "ct_instrument t = upper symb"
      by (auto elim!: cooldown_ofD simp: applies_to_def cooldown_lock_def split: if_splits)
    ultimately show ?thesis using in_cooldown_iff [OF reg] l(3) by blast
  qed
  ultimately show ?thesis using r by blast
qed

lemma open_count_continuous: "0 < m \<Longrightarrow> open_count E Continuous m n = n"
  by (simp add: open_count_def open_at_def week_closure_def slot_open_def)

lemma clock_index_continuous:
  assumes "SESSION_CLOSURES (ck_trading_hours ck) = Some Continuous" "ANCHOR \<le> t"
  shows "clock_index E ck (utc t) = Inr (slot_of (tf_minutes (ck_timeframe ck)) (utc t))"
  using clock_index_open [OF assms, of E] assms(2)
  by (simp add: open_count_continuous slot_of_def MINUTE_NS_def pos_imp_zdiv_nonneg_iff)

definition day :: "int \<Rightarrow> tstamp" where
  "day n = utc (ANCHOR + 1440 * MINUTE_NS * n)"

definition D1_clock :: session_clock where
  "D1_clock = \<lparr>ck_trading_hours = ''crypto_24_7'', ck_timeframe = D1\<rparr>"

lemma day_index [simp]: "0 \<le> n \<Longrightarrow> clock_index E D1_clock (day n) = Inr n"
  unfolding day_def by (subst clock_index_continuous) (simp_all add: D1_clock_def SESSION_CLOSURES_def Let_def slot_of_def MINUTE_NS_def)

lemma day_aware [simp]: "tz_aware (day n)" "ns (day n) = ANCHOR + 1440 * MINUTE_NS * n"
  by (simp_all add: day_def)

lemma btc_clock [simp]: "for_instrument sample_locks ''BTCUSD'' D1 = Inr D1_clock"
  by (simp add: for_instrument_def get_instrument_def sample_locks_def upper_char_def SESSION_CLOSURES_def Let_def D1_clock_def)

definition btc_close :: "string \<Rightarrow> int \<Rightarrow> closed_trade" where
  "btc_close sid n = \<lparr>ct_strategy_id = sid, ct_instrument = ''BTCUSD'', ct_exit_time = day n, ct_exit_reason = Some ''stop_loss''\<rparr>"

lemma btc_close_simps [simp]: "ct_strategy_id (btc_close s n) = s" "ct_instrument (btc_close s n) = ''BTCUSD''" "ct_exit_time (btc_close s n) = day n"
  "is_stop_out (btc_close s n)" by (simp_all add: btc_close_def is_stop_out_def)

lemmas locks_eval = rebuild_def sort_closes_def book_new_def on_close_def cooldown_step_def registration_for_def streak_declarers_def
  streak_candidates_def evaluate_streak_def consume_key_def counts_for_def arm_def lock_key_of_def or_star_def cooldown_lock_def Let_def MINUTE_NS_def

definition cooldown_regs :: "(string \<times> lock_registration) list" where
  "cooldown_regs = [(''A'', \<lparr>lr_policy = \<lparr>lp_cooldown = 3, lp_stop_streak = None\<rparr>, lr_timeframe = D1\<rparr>)]"

theorem restart_rebuilds_the_book_witness:
  "rebuild sample_locks [btc_close ''A'' 12, btc_close ''A'' 10] cooldown_regs None
     = replay_closes sample_locks [btc_close ''A'' 10, btc_close ''A'' 12] (book_new cooldown_regs None)"
  by (rule restart_rebuilds_the_book) (simp_all add: MINUTE_NS_def)

theorem cooldown_is_exact_witness:
  "\<exists>b l. rebuild sample_locks [btc_close ''A'' 12, btc_close ''A'' 10] cooldown_regs None = Inr b
     \<and> is_locked sample_locks b ''BTCUSD'' ''A'' (day 14) = Inr (Some l)"
proof -
  obtain b where b: "rebuild sample_locks [btc_close ''A'' 12, btc_close ''A'' 10] cooldown_regs None = Inr b"
    by (simp add: locks_eval cooldown_regs_def)
  have up: "upper ''BTCUSD'' = ''BTCUSD''" by (simp add: upper_char_def)
  have "in_cooldown sample_locks (snd (hd cooldown_regs)) [btc_close ''A'' 12, btc_close ''A'' 10] (upper ''BTCUSD'') ''A'' (day 14)"
    by (simp only: up) (simp add: in_cooldown_def cooldown_regs_def bars_between_def)
  moreover have "real_symbol (upper ''BTCUSD'')" by (simp only: up) (simp add: real_symbol_def)
  ultimately show ?thesis
    using cooldown_is_exact [OF b, of "ns (day 14)" "''A''" "snd (hd cooldown_regs)" "''BTCUSD''"] b
    by (simp add: cooldown_regs_def day_def MINUTE_NS_def del: list.map) blast
qed

definition streak_policy :: "int \<Rightarrow> int \<Rightarrow> int \<Rightarrow> lock_registration" where
  "streak_policy n_stops lookback bars =
     \<lparr>lr_policy = \<lparr>lp_cooldown = 0, lp_stop_streak = Some \<lparr>ss_n_stops = n_stops, ss_lookback_bars = lookback, ss_lock_bars = bars, ss_scope = Scope_global\<rparr>\<rparr>,
      lr_timeframe = D1\<rparr>"

definition global_regs :: "(string \<times> lock_registration) list" where
  "global_regs = [(''A'', streak_policy 3 100 50), (''B'', streak_policy 2 1 1)]"

text \<open>A lock on the whole book can be cut short. All global locks share one key, whoever declared them: the daily stop-outs
  of days 0, 10 and 20 arm strategy A's lock for 50 bars; two more on day 30 arm strategy B's lock of one bar in its place; on
  day 40, inside A's lock, the book answers that nothing is locked.\<close>

theorem global_lock_is_cut_short:
  "\<exists>b. rebuild sample_locks (map (btc_close ''A'') [0, 10, 20, 30, 30]) global_regs None = Inr b
     \<and> list_ex (\<lambda>l. applies_to l ''BTCUSD'' ''A'' \<and> lock_covers sample_locks l (day 40) = Inr True) (lb_history b)
     \<and> is_locked sample_locks b ''BTCUSD'' ''A'' (day 40) = Inr None"
  by (simp add: locks_eval global_regs_def streak_policy_def is_locked_def active_locks_def applies_to_def lock_covers_def upper_char_def)

text \<open>The stop-outs among the closes, numbered as the book numbers them.\<close>

fun stop_events :: "nat \<Rightarrow> closed_trade list \<Rightarrow> stop_event list" where
  "stop_events n [] = []"
| "stop_events n (t # ts) =
     (if is_stop_out t then [\<lparr>se_seq = Suc n, se_strategy_id = ct_strategy_id t, se_instrument = ct_instrument t, se_exit_time = ct_exit_time t\<rparr>] else [])
     @ stop_events (Suc n) ts"

lemma evaluate_streak_stops: "evaluate_streak E sid reg rule t b = Inr (b', l) \<Longrightarrow> lb_stops b' = lb_stops b \<and> lb_seq b' = lb_seq b"
  by (auto simp: evaluate_streak_def rbind_eq_Inr arm_def Let_def split: if_splits)

lemma evaluate_streaks_stops: "evaluate_streaks E t ds b armed = (b', r) \<Longrightarrow> lb_stops b' = lb_stops b \<and> lb_seq b' = lb_seq b"
proof (induction E t ds b armed rule: evaluate_streaks.induct)
  case (2 E t sid reg rule ds b armed)
  show ?case
  proof (cases "evaluate_streak E sid reg rule t b")
    case (Inr p)
    then obtain b1 l where one: "evaluate_streak E sid reg rule t b = Inr (b1, l)" by (cases p) simp
    with "2.IH" [OF one refl] "2.prems" evaluate_streak_stops [OF one] show ?thesis by simp
  qed (use "2.prems" in simp)
qed simp

lemma cooldown_step_stops: "cooldown_step E t b = (b', r) \<Longrightarrow> lb_stops b' = lb_stops b \<and> lb_seq b' = lb_seq b"
  by (auto simp: cooldown_step_def arm_def split: option.splits if_splits sum.splits)

lemma on_close_stops: "on_close E t b = (b', Inr a) \<Longrightarrow> lb_stops b' = lb_stops b @ stop_events (lb_seq b) [t] \<and> lb_seq b' = Suc (lb_seq b)"
  by (auto simp: on_close_def Let_def split: if_splits prod.splits sum.splits dest!: cooldown_step_stops evaluate_streaks_stops)

lemma replay_stops: "replay_closes E ts b = Inr b' \<Longrightarrow> lb_stops b' = lb_stops b @ stop_events (lb_seq b) ts"
proof (induction ts arbitrary: b)
  case (Cons t ts)
  then obtain b1 a where "on_close E t b = (b1, Inr a)" "replay_closes E ts b1 = Inr b'" by (auto split: prod.splits sum.splits)
  with Cons.IH [of b1] on_close_stops [of E t b b1 a] show ?case by simp
qed simp

definition later :: "stop_event \<Rightarrow> stop_event \<Rightarrow> bool" where
  "later e e' \<longleftrightarrow> se_seq e' < se_seq e \<and> ns (se_exit_time e') \<le> ns (se_exit_time e)"

lemma stop_events_bounds: "e \<in> set (stop_events n ts) \<Longrightarrow> n < se_seq e \<and> (\<exists>t \<in> set ts. se_exit_time e = ct_exit_time t)"
  by (induction n ts rule: stop_events.induct) (auto split: if_splits)

lemma stop_events_ordered: "sorted (map (ns \<circ> ct_exit_time) ts) \<Longrightarrow> sorted_wrt later (rev (stop_events n ts))"
  by (induction n ts rule: stop_events.induct) (auto simp: sorted_wrt_append later_def dest!: stop_events_bounds)

definition on_clock :: "lock_env \<Rightarrow> session_clock \<Rightarrow> stop_event \<Rightarrow> int \<Rightarrow> bool" where
  "on_clock E ck e floor' \<longleftrightarrow> (case clock_index E ck (se_exit_time e) of Inr i \<Rightarrow> floor' < i | Inl _ \<Rightarrow> False)"

definition recent_stops ::
  "lock_env \<Rightarrow> session_clock \<Rightarrow> stop_streak_rule \<Rightarrow> string \<Rightarrow> closed_trade \<Rightarrow> nat \<Rightarrow> int \<Rightarrow> stop_event list \<Rightarrow> stop_event list" where
  "recent_stops E ck rule declarer t consumed floor' es =
     filter (\<lambda>e. consumed < se_seq e \<and> on_clock E ck e floor' \<and> counts_for rule declarer t e) es"

lemma count_stops_recent:
  assumes "clock_known ck" "sorted_wrt later es" "list_all (\<lambda>e. tz_aware (se_exit_time e) \<and> ANCHOR \<le> ns (se_exit_time e)) es"
  shows "count_stops E ck rule d t consumed floor' es n = Inr (n + int (length (recent_stops E ck rule d t consumed floor' es)))"
  using assms(2,3)
proof (induction es arbitrary: n)
  case (Cons e es)
  obtain key where key: "SESSION_CLOSURES (ck_trading_hours ck) = Some key" using assms(1) by (auto simp: clock_known_def)
  have utc: "se_exit_time e' = utc (ns (se_exit_time e'))" if "e' \<in> set (e # es)" for e'
    using that Cons.prems(2) by (cases "se_exit_time e'") (auto simp: list_all_iff)
  obtain i where i: "clock_index E ck (se_exit_time e) = Inr i"
    using clock_known_index [OF assms(1), of "ns (se_exit_time e)" E] utc [of e] Cons.prems(2) by auto
  have "recent_stops E ck rule d t consumed floor' es = []" if "se_seq e \<le> consumed \<or> i \<le> floor'"
  proof -
    have "\<not> (consumed < se_seq e' \<and> on_clock E ck e' floor')" if e': "e' \<in> set es" for e'
    proof -
      have "j \<le> i" if "clock_index E ck (se_exit_time e') = Inr j" for j
        using clock_index_mono [OF key, of E "ns (se_exit_time e')" j "ns (se_exit_time e)" i] that i utc [of e] utc [of e'] e' Cons.prems
        by (auto simp: list_all_iff later_def)
      then show ?thesis using \<open>se_seq e \<le> consumed \<or> i \<le> floor'\<close> Cons.prems(1) e'
        by (force simp: on_clock_def later_def split: sum.splits)
    qed
    then show ?thesis by (auto simp: recent_stops_def filter_empty_conv)
  qed
  then show ?case using Cons i by (auto simp: recent_stops_def on_clock_def)
qed (simp add: recent_stops_def)

text \<open>C35: a stop streak is armed exactly when enough stop-outs count. The loop walks back over the stop-outs and breaks at the
  first one already consumed or outside the lookback; on a book whose closes came in order of time it counts every
  unconsumed stop-out of the rule's scope in the last \<open>lookback_bars\<close> bars. The lock armed starts at the bar of the close,
  lasts \<open>lock_bars\<close> bars, and consumes the stop-outs that armed it.\<close>

theorem streak_arms_exactly:
  assumes "lb_stops b = stop_events 0 ts" "sorted (map (ns \<circ> ct_exit_time) ts)"
    and "list_all (\<lambda>t. tz_aware (ct_exit_time t) \<and> ANCHOR \<le> ns (ct_exit_time t)) ts"
    and "for_instrument E (ct_instrument t) (lr_timeframe reg) = Inr ck" "clock_index E ck (ct_exit_time t) = Inr i"
  shows "\<exists>b' l. evaluate_streak E d reg rule t b = Inr (b', l)
    \<and> (l \<noteq> None \<longleftrightarrow> ss_n_stops rule \<le> int (length (recent_stops E ck rule d t
          (case map_of (lb_consumed b) (consume_key rule d t) of Some n \<Rightarrow> n | None \<Rightarrow> 0) (i - ss_lookback_bars rule) (stop_events 0 ts))))
    \<and> (case l of None \<Rightarrow> b' = b
       | Some x \<Rightarrow> lo_armed_index x = i \<and> lock_bars x = ss_lock_bars rule \<and> lo_clock x = ck \<and> map_of (lb_consumed b') (consume_key rule d t) = Some (lb_seq b))"
proof -
  have "list_all (\<lambda>e. tz_aware (se_exit_time e) \<and> ANCHOR \<le> ns (se_exit_time e)) (rev (stop_events 0 ts))"
    using assms(3) by (auto simp: list_all_iff dest!: stop_events_bounds)
  note count = count_stops_recent [OF for_instrument_known [OF assms(4)] stop_events_ordered [OF assms(2)] this]
  have len: "length (recent_stops E ck rule d t c f (rev es)) = length (recent_stops E ck rule d t c f es)" for c f es
    by (simp add: recent_stops_def flip: rev_filter)
  show ?thesis
    by (simp add: evaluate_streak_def assms count len Let_def arm_def lock_bars_def map_of_dict_put)
qed

theorem streak_arms_exactly_witness:
  "\<exists>b' l. evaluate_streak sample_locks ''A'' (streak_policy 2 100 5) (the (lp_stop_streak (lr_policy (streak_policy 2 100 5)))) (btc_close ''A'' 10)
      ((book_new [] None)\<lparr>lb_stops := stop_events 0 [btc_close ''A'' 0, btc_close ''A'' 10], lb_seq := 2\<rparr>) = Inr (b', Some l)
    \<and> lo_armed_index l = 10 \<and> lock_bars l = 5"
proof -
  let ?ts = "[btc_close ''A'' 0, btc_close ''A'' 10]" let ?rule = "the (lp_stop_streak (lr_policy (streak_policy 2 100 5)))"
  let ?b = "(book_new [] None)\<lparr>lb_stops := stop_events 0 ?ts, lb_seq := 2\<rparr>"
  have ck: "for_instrument sample_locks (ct_instrument (btc_close ''A'' 10)) (lr_timeframe (streak_policy 2 100 5)) = Inr D1_clock"
    "clock_index sample_locks D1_clock (ct_exit_time (btc_close ''A'' 10)) = Inr 10" by (simp_all add: streak_policy_def)
  have "\<exists>b' l. evaluate_streak sample_locks ''A'' (streak_policy 2 100 5) ?rule (btc_close ''A'' 10) ?b = Inr (b', l)
    \<and> (l \<noteq> None \<longleftrightarrow> ss_n_stops ?rule \<le> int (length (recent_stops sample_locks D1_clock ?rule ''A'' (btc_close ''A'' 10)
          (case map_of (lb_consumed ?b) (consume_key ?rule ''A'' (btc_close ''A'' 10)) of Some n \<Rightarrow> n | None \<Rightarrow> 0)
          (10 - ss_lookback_bars ?rule) (stop_events 0 ?ts))))
    \<and> (case l of None \<Rightarrow> b' = ?b
       | Some x \<Rightarrow> lo_armed_index x = 10 \<and> lock_bars x = ss_lock_bars ?rule \<and> lo_clock x = D1_clock
           \<and> map_of (lb_consumed b') (consume_key ?rule ''A'' (btc_close ''A'' 10)) = Some (lb_seq ?b))"
    by (rule streak_arms_exactly [OF _ _ _ ck]) (simp_all add: MINUTE_NS_def)
  then show ?thesis
    by (auto simp: recent_stops_def on_clock_def streak_policy_def counts_for_def book_new_def split: option.splits)
qed

end
