(* ===== verification/Cost_Profiles.thy ===== *)
theory Cost_Profiles
  imports Core_Types
begin

text \<open>
  The execution profiles of \<open>sim/profiles.py\<close>: spread, slippage, commission and financing models, the minimum stop
  rules, the profile record with its validation and derived prices, the published profiles and the check that a
  profile prices the product it is asked about.

  A numpy generator is an argument: \<open>gn_random k\<close> is what its \<open>k\<close>th call returns when that call is \<open>random()\<close>, \<open>gn_integer k lo hi\<close>
  when it is \<open>integers(lo, hi)\<close>. Fingerprints and notes are left out.
\<close>

section \<open>Spread and slippage\<close>

definition CRYPTO_VENUE :: string where
  "CRYPTO_VENUE = ''coinbase''"

definition is_spot :: "instrument \<Rightarrow> bool" where
  "is_spot i \<longleftrightarrow> i_venue i = CRYPTO_VENUE"

definition is_fx :: "instrument \<Rightarrow> bool" where
  "is_fx i \<longleftrightarrow> i_asset_class i \<in> {FX_MAJOR, FX_CROSS}"

fun asset_class_value :: "asset_class \<Rightarrow> string" where
  "asset_class_value FX_MAJOR = ''fx_major''"
| "asset_class_value FX_CROSS = ''fx_cross''"
| "asset_class_value METAL = ''metal''"
| "asset_class_value ENERGY = ''energy''"
| "asset_class_value INDEX = ''index''"
| "asset_class_value CRYPTO = ''crypto''"
| "asset_class_value EQUITY = ''equity''"
| "asset_class_value BOND = ''bond''"
| "asset_class_value COMMODITY = ''commodity''"

text \<open>One basis point.\<close>

definition BPS :: flt where
  "BPS = Fin (1 / 10 ^ 4)"

datatype spread_model =
    FixedPipSpread flt
  | TypicalMultiplierSpread flt flt
  | BpsOfMidSpread flt flt
  | TimeOfDayWideningSpread spread_model "(int \<times> int \<times> flt) list"

fun spread_post_init :: "spread_model \<Rightarrow> pyexn + spread_model" where
  "spread_post_init (BpsOfMidSpread factor fl) =
     (if factor \<le> Fin 0 \<or> fl < Fin 0 then Inl (ValueError (lit ''BpsOfMidSpread needs multiplier > 0 and floor_bps >= 0''))
      else Inr (BpsOfMidSpread factor fl))"
| "spread_post_init m = Inr m"

definition in_window :: "int \<Rightarrow> int \<Rightarrow> int \<Rightarrow> bool" where
  "in_window start fin hour = (if start < fin then start \<le> hour \<and> hour < fin else hour \<ge> start \<or> hour < fin)"

fun widen :: "(int \<times> int \<times> flt) list \<Rightarrow> int \<Rightarrow> flt \<Rightarrow> flt" where
  "widen [] hour base = base"
| "widen ((start, fin, factor) # ws) hour base = (if in_window start fin hour then base * factor else widen ws hour base)"

fun model_spread :: "spread_model \<Rightarrow> instrument \<Rightarrow> int \<Rightarrow> flt \<Rightarrow> pyexn + flt" where
  "model_spread (FixedPipSpread p) i hour mid = Inr (p * i_pip_size i)"
| "model_spread (TypicalMultiplierSpread factor fl) i hour mid = Inr (py_max (i_typical_spread_pips i * factor) fl * i_pip_size i)"
| "model_spread (BpsOfMidSpread factor fl) i hour mid =
     (case i_typical_spread_bps i of
        None \<Rightarrow> Inl (ValueError [Lit (i_symbol i), Lit '' has no typical_spread_bps''])
      | Some bps \<Rightarrow>
          if \<not> mid > Fin 0 then Inl (ValueError [Lit (i_symbol i), Lit '': a bps spread needs a positive mid, got '', Repr mid])
          else Inr (py_max (bps * factor) fl * BPS * mid))"
| "model_spread (TimeOfDayWideningSpread base ws) i hour mid =
     rbind (model_spread base i hour mid) (\<lambda>b. Inr (widen ws hour b))"

record generator =
  gn_random :: "nat \<Rightarrow> flt"
  gn_integer :: "nat \<Rightarrow> int \<Rightarrow> int \<Rightarrow> int"

datatype slippage_model =
    NoSlippage
  | FixedPointsSlippage flt
  | AdverseTickSlippage flt flt int
  | BpsSlippage flt

fun slippage_post_init :: "slippage_model \<Rightarrow> pyexn + slippage_model" where
  "slippage_post_init (FixedPointsSlippage p) =
     (if p < Fin 0 then Inl (ValueError (lit ''Slippage pips must be >= 0; negative means price improvement''))
      else Inr (FixedPointsSlippage p))"
| "slippage_post_init (AdverseTickSlippage prob tick ticks) =
     (if \<not> (Fin 0 \<le> prob \<and> prob \<le> Fin 1) then Inl (ValueError (lit ''probability must be in [0, 1]''))
      else if ticks < 1 then Inl (ValueError (lit ''max_ticks must be >= 1''))
      else if tick < Fin 0 then Inl (ValueError (lit ''tick_pips must be >= 0''))
      else Inr (AdverseTickSlippage prob tick ticks))"
| "slippage_post_init (BpsSlippage b) =
     (if b < Fin 0 then Inl (ValueError (lit ''Slippage bps must be >= 0; negative means price improvement'')) else Inr (BpsSlippage b))"
| "slippage_post_init NoSlippage = Inr NoSlippage"

text \<open>\<open>k\<close> is the number of calls the generator has answered before.\<close>

fun slippage_price :: "slippage_model \<Rightarrow> instrument \<Rightarrow> flt \<Rightarrow> generator \<Rightarrow> nat \<Rightarrow> flt" where
  "slippage_price NoSlippage i mid rng k = Fin 0"
| "slippage_price (FixedPointsSlippage p) i mid rng k = p * i_pip_size i"
| "slippage_price (AdverseTickSlippage prob tick ticks) i mid rng k =
     (if gn_random rng k \<ge> prob then Fin 0
      else Fin (of_int (gn_integer rng (Suc k) 1 (ticks + 1))) * tick * i_pip_size i)"
| "slippage_price (BpsSlippage b) i mid rng k = b * BPS * mid"

fun expected_slippage :: "slippage_model \<Rightarrow> instrument \<Rightarrow> flt option \<Rightarrow> pyexn + flt" where
  "expected_slippage (BpsSlippage b) i mid =
     (case mid of
        Some m \<Rightarrow> if \<not> m > Fin 0 then Inl (ValueError [Lit (i_symbol i), Lit '': BpsSlippage needs the price it is a proportion of''])
                   else Inr (b * BPS * m)
      | None \<Rightarrow> Inl (ValueError [Lit (i_symbol i), Lit '': BpsSlippage needs the price it is a proportion of'']))"
| "expected_slippage NoSlippage i mid = Inr (Fin 0)"
| "expected_slippage (FixedPointsSlippage p) i mid = Inr (p * i_pip_size i)"
| "expected_slippage (AdverseTickSlippage prob tick ticks) i mid =
     Inr (prob * Fin ((of_int ticks + 1) / 2) * tick * i_pip_size i)"


section \<open>Commission, financing and minimum stops\<close>

record commission_model =
  cm_per_trade :: flt
  cm_per_unit :: flt
  cm_bps_of_notional :: flt
  cm_minimum :: flt
  cm_currency :: string

definition no_commission :: commission_model where
  "no_commission = \<lparr>cm_per_trade = Fin 0, cm_per_unit = Fin 0, cm_bps_of_notional = Fin 0, cm_minimum = Fin 0, cm_currency = ''quote''\<rparr>"

definition notional_of :: "instrument \<Rightarrow> flt \<Rightarrow> flt \<Rightarrow> flt" where
  "notional_of i sz price = \<bar>price\<bar> * sz * i_contract_size i"

definition commission :: "commission_model \<Rightarrow> instrument \<Rightarrow> flt \<Rightarrow> flt \<Rightarrow> flt" where
  "commission m i sz price =
     (if sz \<le> Fin 0 then Fin 0
      else py_max (cm_per_trade m + cm_per_unit m * sz + cm_bps_of_notional m * BPS * notional_of i sz price) (cm_minimum m))"

definition commission_currency :: "commission_model \<Rightarrow> instrument \<Rightarrow> string" where
  "commission_currency m i = (if cm_currency m = ''quote'' then i_quote i else upper (cm_currency m))"

record financing_model =
  fn_annual_bps_long :: flt
  fn_annual_bps_short :: flt
  fn_basis_days :: flt
  fn_currency :: string

definition no_financing :: financing_model where
  "no_financing = \<lparr>fn_annual_bps_long = Fin 0, fn_annual_bps_short = Fin 0, fn_basis_days = Fin 365, fn_currency = ''quote''\<rparr>"

definition nightly_charge :: "financing_model \<Rightarrow> instrument \<Rightarrow> direction \<Rightarrow> flt \<Rightarrow> flt \<Rightarrow> pyexn + flt" where
  "nightly_charge m i d sz price =
     (if sz \<le> Fin 0 then Inr (Fin 0)
      else py_div (notional_of i sz price * ((if d = LONG then fn_annual_bps_long m else fn_annual_bps_short m) * BPS)) (fn_basis_days m))"

datatype min_stop_policy = MS_REJECT | MS_WIDEN | MS_ALLOW

record min_stop_rule =
  mr_floor_pips :: flt
  mr_typical_spread_multiple :: flt

definition min_stop_post_init :: "min_stop_rule \<Rightarrow> pyexn + min_stop_rule" where
  "min_stop_post_init r =
     (if mr_floor_pips r < Fin 0 \<or> mr_typical_spread_multiple r < Fin 0
      then Inl (ValueError (lit ''a minimum stop rule cannot be negative'')) else Inr r)"

definition distance_pips :: "min_stop_rule \<Rightarrow> instrument \<Rightarrow> flt" where
  "distance_pips r i = py_max (mr_floor_pips r) (mr_typical_spread_multiple r * i_typical_spread_pips i)"


section \<open>Profiles\<close>

record profile =
  pf_name :: string
  pf_spread :: spread_model
  pf_slippage :: slippage_model
  pf_commission :: commission_model
  pf_financing :: financing_model
  pf_min_deal_size :: flt
  pf_min_stop_distance_pips :: flt
  pf_min_stop_by_asset_class :: "(string \<times> min_stop_rule) list"
  pf_min_stop_policy :: min_stop_policy
  pf_guaranteed_stop_premium_pips :: flt
  pf_use_guaranteed_stops :: bool
  pf_partial_fill_probability :: flt
  pf_partial_fill_min_fraction :: flt
  pf_rejection_probability :: flt
  pf_latency_bars :: int
  pf_stale_price_max_gap_multiple :: flt
  pf_seed :: int

definition profile_post_init :: "profile \<Rightarrow> pyexn + profile" where
  "profile_post_init p =
     (if \<not> (Fin 0 \<le> pf_partial_fill_probability p \<and> pf_partial_fill_probability p \<le> Fin 1)
        then Inl (ValueError [Lit ''partial_fill_probability must be in [0, 1], got '', Repr (pf_partial_fill_probability p)])
      else if \<not> (Fin 0 \<le> pf_rejection_probability p \<and> pf_rejection_probability p \<le> Fin 1)
        then Inl (ValueError [Lit ''rejection_probability must be in [0, 1], got '', Repr (pf_rejection_probability p)])
      else if \<not> (Fin 0 < pf_partial_fill_min_fraction p \<and> pf_partial_fill_min_fraction p \<le> Fin 1)
        then Inl (ValueError (lit ''partial_fill_min_fraction must be in (0, 1]''))
      else if pf_latency_bars p < 0 then Inl (ValueError (lit ''latency_bars must be >= 0''))
      else if pf_stale_price_max_gap_multiple p \<le> Fin 1 then Inl (ValueError (lit ''stale_price_max_gap_multiple must exceed 1.0''))
      else Inr p)"

definition spread_price :: "profile \<Rightarrow> instrument \<Rightarrow> int \<Rightarrow> flt \<Rightarrow> pyexn + flt" where
  "spread_price p i hour mid =
     rbind (model_spread (pf_spread p) i hour mid) (\<lambda>s.
       if s < Fin 0 then Inl (ValueError [Lit ''Profile '', Lit (pf_name p), Lit '' produced a negative spread '', Repr s]) else Inr s)"

definition half_spread_price :: "profile \<Rightarrow> instrument \<Rightarrow> int \<Rightarrow> flt \<Rightarrow> pyexn + flt" where
  "half_spread_price p i hour mid = rbind (spread_price p i hour mid) (\<lambda>s. py_div s (Fin 2))"

definition min_stop_distance_price :: "profile \<Rightarrow> instrument \<Rightarrow> pyexn + flt" where
  "min_stop_distance_price p i =
     (if pf_min_stop_by_asset_class p \<noteq> [] then
        (case map_of (pf_min_stop_by_asset_class p) (asset_class_value (i_asset_class i)) of
           None \<Rightarrow> Inl (KeyError [Lit ''profile '', Lit (pf_name p), Lit '' declares per-class minimum stops but none for this class''])
         | Some r \<Rightarrow> Inr (distance_pips r i * i_pip_size i))
      else Inr (pf_min_stop_distance_pips p * i_pip_size i))"

definition profile_stop_out_cost :: "profile \<Rightarrow> instrument \<Rightarrow> int \<Rightarrow> flt \<Rightarrow> pyexn + flt" where
  "profile_stop_out_cost p i hour price =
     rbind (spread_price p i hour price) (\<lambda>spread.
     rbind (expected_slippage (pf_slippage p) i (Some price)) (\<lambda>slip.
       let cost = spread + Fin 2 * slip; bps = cm_bps_of_notional (pf_commission p) in
       Inr (if is_spot i \<and> truthy bps then cost + Fin 2 * bps * BPS * \<bar>price\<bar> else cost)))"

definition guaranteed_stop_premium_price :: "profile \<Rightarrow> instrument \<Rightarrow> flt" where
  "guaranteed_stop_premium_price p i = pf_guaranteed_stop_premium_pips p * i_pip_size i"


section \<open>The published profiles\<close>

definition per_class_min_stop :: "flt \<Rightarrow> flt \<Rightarrow> (string \<times> min_stop_rule) list" where
  "per_class_min_stop fx_floor factor =
     (let fx = \<lparr>mr_floor_pips = fx_floor, mr_typical_spread_multiple = Fin 0\<rparr>;
          other = \<lparr>mr_floor_pips = Fin 0, mr_typical_spread_multiple = factor\<rparr>
      in [(''bond'', other), (''commodity'', other), (''crypto'', other), (''energy'', other), (''equity'', other),
          (''fx_cross'', fx), (''fx_major'', fx), (''index'', other), (''metal'', other)])"

definition base_profile :: "string \<Rightarrow> spread_model \<Rightarrow> slippage_model \<Rightarrow> commission_model \<Rightarrow> financing_model \<Rightarrow> profile" where
  "base_profile name spread slip comm fin =
     \<lparr>pf_name = name, pf_spread = spread, pf_slippage = slip, pf_commission = comm, pf_financing = fin, pf_min_deal_size = Fin 0,
      pf_min_stop_distance_pips = Fin 0, pf_min_stop_by_asset_class = [], pf_min_stop_policy = MS_REJECT,
      pf_guaranteed_stop_premium_pips = Fin 0, pf_use_guaranteed_stops = False, pf_partial_fill_probability = Fin 0,
      pf_partial_fill_min_fraction = Fin 1, pf_rejection_probability = Fin 0, pf_latency_bars = 0,
      pf_stale_price_max_gap_multiple = Fin 3, pf_seed = 20260919\<rparr>"

definition IDEALISED_RESEARCH :: profile where
  "IDEALISED_RESEARCH = (base_profile ''IDEALISED_RESEARCH'' (FixedPipSpread (Fin 0)) NoSlippage no_commission no_financing)
     \<lparr>pf_min_stop_policy := MS_ALLOW\<rparr>"

definition IG_REALISTIC :: profile where
  "IG_REALISTIC =
     (base_profile ''IG_REALISTIC''
        (TimeOfDayWideningSpread (TypicalMultiplierSpread (Fin 1) (Fin (6 / 10))) [(21, 23, Fin 3), (23, 6, Fin (18 / 10))])
        (AdverseTickSlippage (Fin (3 / 10)) (Fin (4 / 10)) 3) no_commission
        \<lparr>fn_annual_bps_long = Fin 290, fn_annual_bps_short = Fin 110, fn_basis_days = Fin 365, fn_currency = ''quote''\<rparr>)
     \<lparr>pf_min_stop_distance_pips := Fin 4, pf_min_stop_by_asset_class := per_class_min_stop (Fin 4) (Fin 3),
      pf_guaranteed_stop_premium_pips := Fin 3, pf_rejection_probability := Fin (5 / 1000)\<rparr>"

definition OANDA_REALISTIC :: profile where
  "OANDA_REALISTIC =
     (base_profile ''OANDA_REALISTIC''
        (TimeOfDayWideningSpread (TypicalMultiplierSpread (Fin (85 / 100)) (Fin (4 / 10))) [(21, 23, Fin (25 / 10)), (23, 6, Fin (15 / 10))])
        (AdverseTickSlippage (Fin (25 / 100)) (Fin (3 / 10)) 3) no_commission
        \<lparr>fn_annual_bps_long = Fin 250, fn_annual_bps_short = Fin 90, fn_basis_days = Fin 365, fn_currency = ''quote''\<rparr>)
     \<lparr>pf_min_deal_size := Fin 1, pf_min_stop_policy := MS_ALLOW, pf_partial_fill_probability := Fin (2 / 100),
      pf_partial_fill_min_fraction := Fin (5 / 10), pf_rejection_probability := Fin (3 / 1000)\<rparr>"

definition IBKR_REALISTIC :: profile where
  "IBKR_REALISTIC =
     (base_profile ''IBKR_REALISTIC''
        (TimeOfDayWideningSpread (TypicalMultiplierSpread (Fin (45 / 100)) (Fin (2 / 10))) [(21, 23, Fin 2), (23, 6, Fin (13 / 10))])
        (AdverseTickSlippage (Fin (20 / 100)) (Fin (2 / 10)) 2)
        (no_commission\<lparr>cm_bps_of_notional := Fin (20 / 100), cm_minimum := Fin 2, cm_currency := ''USD''\<rparr>)
        \<lparr>fn_annual_bps_long = Fin 150, fn_annual_bps_short = Fin 40, fn_basis_days = Fin 360, fn_currency = ''quote''\<rparr>)
     \<lparr>pf_min_deal_size := Fin 1, pf_min_stop_policy := MS_ALLOW, pf_partial_fill_probability := Fin (5 / 100),
      pf_partial_fill_min_fraction := Fin (25 / 100), pf_rejection_probability := Fin (2 / 1000)\<rparr>"

definition SEVERE_STRESS :: profile where
  "SEVERE_STRESS =
     (base_profile ''SEVERE_STRESS''
        (TimeOfDayWideningSpread (TypicalMultiplierSpread (Fin 3) (Fin 2)) [(21, 23, Fin 5), (23, 6, Fin 3)])
        (AdverseTickSlippage (Fin (70 / 100)) (Fin 1) 5)
        (no_commission\<lparr>cm_bps_of_notional := Fin (50 / 100), cm_minimum := Fin 3, cm_currency := ''USD''\<rparr>)
        \<lparr>fn_annual_bps_long = Fin 500, fn_annual_bps_short = Fin 350, fn_basis_days = Fin 360, fn_currency = ''quote''\<rparr>)
     \<lparr>pf_min_deal_size := Fin 1, pf_min_stop_distance_pips := Fin 10, pf_min_stop_by_asset_class := per_class_min_stop (Fin 10) (Fin 6),
      pf_guaranteed_stop_premium_pips := Fin 6, pf_partial_fill_probability := Fin (15 / 100),
      pf_partial_fill_min_fraction := Fin (30 / 100), pf_rejection_probability := Fin (3 / 100), pf_latency_bars := 1\<rparr>"

definition COINBASE_UK_SPOT :: profile where
  "COINBASE_UK_SPOT =
     (base_profile ''COINBASE_UK_SPOT'' (BpsOfMidSpread (Fin 1) (Fin 2)) (BpsSlippage (Fin 5))
        (no_commission\<lparr>cm_bps_of_notional := Fin 60\<rparr>) no_financing)
     \<lparr>pf_min_stop_policy := MS_ALLOW, pf_seed := 20261010\<rparr>"

definition COINBASE_UK_SPOT_STRESS :: profile where
  "COINBASE_UK_SPOT_STRESS =
     (base_profile ''COINBASE_UK_SPOT_STRESS'' (BpsOfMidSpread (Fin 3) (Fin 6)) (BpsSlippage (Fin 25))
        (no_commission\<lparr>cm_bps_of_notional := Fin 80\<rparr>) no_financing)
     \<lparr>pf_min_stop_policy := MS_ALLOW, pf_latency_bars := 1, pf_seed := 20261010\<rparr>"

definition SPOT_CRYPTO_PROFILES :: "string list" where
  "SPOT_CRYPTO_PROFILES = [''COINBASE_UK_SPOT'', ''COINBASE_UK_SPOT_STRESS'', ''IDEALISED_RESEARCH'']"

definition PROFILES :: "(string \<times> profile) list" where
  "PROFILES = map (\<lambda>p. (pf_name p, p))
     [IDEALISED_RESEARCH, IG_REALISTIC, OANDA_REALISTIC, IBKR_REALISTIC, SEVERE_STRESS, COINBASE_UK_SPOT, COINBASE_UK_SPOT_STRESS]"

definition assert_profile_covers :: "profile \<Rightarrow> instrument \<Rightarrow> pyexn + unit" where
  "assert_profile_covers p i =
     (if is_spot i then
        if pf_name p \<notin> set SPOT_CRYPTO_PROFILES
        then Inl (PyExn ''ProfileMismatch'' [Lit (i_symbol i), Lit '' is spot crypto; profile '', Lit (pf_name p), Lit '' models CFDs''])
        else Inr ()
      else if pf_name p \<in> set SPOT_CRYPTO_PROFILES - {pf_name IDEALISED_RESEARCH}
      then Inl (PyExn ''ProfileMismatch'' [Lit (pf_name p), Lit '' models spot crypto''])
      else Inr ())"

definition get_profile :: "string \<Rightarrow> pyexn + profile" where
  "get_profile name =
     (case map_of PROFILES (upper name) of
        Some p \<Rightarrow> Inr p | None \<Rightarrow> Inl (KeyError [Lit ''Unknown execution profile '', Lit name]))"

end
