(* ===== verification/Fill_Model.thy ===== *)
theory Fill_Model
  imports Cost_Profiles
begin

text \<open>
  The fill model of \<open>sim/fills.py\<close>: bars, session calendars, the minimum stop, opening at a bar and resolving an exit on a bar,
  with the costs of each leg. Then what it promises: an exit happens exactly when the bar reaches a level, never at a
  better price than the level, and both legs of a round trip pay their costs.

  \<open>rng_for(seed, bar_index, sequence)\<close> is an argument. The calendar is asked for the local weekday and hour by an argument too
  (the zone database).
\<close>

section \<open>Bars and calendars\<close>

record bar =
  b_timestamp :: tstamp
  b_open :: flt
  b_high :: flt
  b_low :: flt
  b_close :: flt

definition bar_post_init :: "bar \<Rightarrow> pyexn + bar" where
  "bar_post_init b =
     (if \<not> (b_low b \<le> b_open b \<and> b_open b \<le> b_high b \<and> b_low b \<le> b_close b \<and> b_close b \<le> b_high b)
      then Inl (ValueError (lit ''Incoherent bar'')) else Inr b)"

text \<open>The hour of a UTC timestamp.\<close>

definition ts_hour :: "tstamp \<Rightarrow> int" where
  "ts_hour t = (ns t div 3600000000000) mod 24"

definition hour_utc :: "bar \<Rightarrow> int" where
  "hour_utc b = ts_hour (b_timestamp b)"

datatype intrabar_policy = STOP_FIRST | TARGET_FIRST | PROPORTIONAL

datatype reject_reason = MARKET_CLOSED | STALE_PRICE | MIN_STOP_DISTANCE | MIN_DEAL_SIZE | BROKER_REJECT | SIZE_NOT_POSITIVE

datatype exit_reason =
    STOP_LOSS | TAKE_PROFIT | TRAILING_STOP | BREAKEVEN | TIME_STOP | OPPOSITE_SIGNAL | INVALIDATION | SESSION_CLOSE | RISK_HALT
  | END_OF_DATA | MARGIN_CALL

record leg_costs =
  lg_spread_quote :: flt
  lg_slippage_quote :: flt
  lg_guaranteed_stop_premium_quote :: flt
  lg_commission_amount :: flt
  lg_commission_ccy :: string

definition no_costs :: leg_costs where
  "no_costs = \<lparr>lg_spread_quote = Fin 0, lg_slippage_quote = Fin 0, lg_guaranteed_stop_premium_quote = Fin 0,
     lg_commission_amount = Fin 0, lg_commission_ccy = ''USD''\<rparr>"

definition quote_total :: "leg_costs \<Rightarrow> flt" where
  "quote_total c = lg_spread_quote c + lg_slippage_quote c + lg_guaranteed_stop_premium_quote c"

record entry_fill =
  ef_filled :: bool
  ef_reject_reason :: "reject_reason option"
  ef_filled_size :: flt
  ef_filled_price :: flt
  ef_mid_price :: flt
  ef_requested_size :: flt
  ef_effective_stop :: flt
  ef_half_spread :: flt
  ef_slippage :: flt
  ef_partial :: bool
  ef_stale :: bool
  ef_costs :: leg_costs

definition rejected_entry :: "reject_reason \<Rightarrow> flt \<Rightarrow> bool \<Rightarrow> entry_fill" where
  "rejected_entry r sz stale =
     \<lparr>ef_filled = False, ef_reject_reason = Some r, ef_filled_size = Fin 0, ef_filled_price = Fin 0, ef_mid_price = Fin 0,
      ef_requested_size = sz, ef_effective_stop = Fin 0, ef_half_spread = Fin 0, ef_slippage = Fin 0, ef_partial = False,
      ef_stale = stale, ef_costs = no_costs\<rparr>"

definition rejected_size :: "entry_fill \<Rightarrow> flt" where
  "rejected_size e = py_max (Fin 0) (ef_requested_size e - ef_filled_size e)"

record exit_fill =
  xf_exited :: bool
  xf_reason :: "exit_reason option"
  xf_exit_price :: flt
  xf_mid_price :: flt
  xf_half_spread :: flt
  xf_slippage :: flt
  xf_gapped :: bool
  xf_both_touched :: bool
  xf_stale :: bool
  xf_costs :: leg_costs

definition still_open :: exit_fill where
  "still_open =
     \<lparr>xf_exited = False, xf_reason = None, xf_exit_price = Fin 0, xf_mid_price = Fin 0, xf_half_spread = Fin 0, xf_slippage = Fin 0,
      xf_gapped = False, xf_both_touched = False, xf_stale = False, xf_costs = no_costs\<rparr>"

text \<open>\<open>SessionCalendar\<close> (always open), \<open>FxSessionCalendar\<close>, \<open>ContinuousSessionCalendar\<close>.\<close>

datatype session_calendar = AlwaysOpen | FxSession int int string | ContinuousSession

fun calendar_new :: "session_calendar \<Rightarrow> pyexn + session_calendar" where
  "calendar_new (FxSession c r tz) =
     (if \<not> (0 \<le> c \<and> c \<le> 23 \<and> 0 \<le> r \<and> r \<le> 23) then Inl (ValueError (lit ''close_hour and open_hour are hours of the day''))
      else Inr (FxSession c r tz))"
| "calendar_new cal = Inr cal"

record fill_env =
  fe_rng :: "int \<Rightarrow> int \<Rightarrow> int \<Rightarrow> generator"
  fe_local :: "string \<Rightarrow> tstamp \<Rightarrow> int \<times> int"

fun is_open :: "fill_env \<Rightarrow> session_calendar \<Rightarrow> instrument \<Rightarrow> tstamp \<Rightarrow> pyexn + bool" where
  "is_open F AlwaysOpen i t = Inr True"
| "is_open F (FxSession close_hour open_hour tz) i t =
     (if \<not> is_fx i \<and> i_trading_hours i \<noteq> ''fx_24_5'' then Inr True
      else if \<not> tz_aware t then Inl (ValueError (lit ''FxSessionCalendar needs a tz-aware timestamp''))
      else let (dow, hour) = fe_local F tz t in
        Inr (\<not> (dow = 4 \<and> hour \<ge> close_hour) \<and> dow \<noteq> 5 \<and> \<not> (dow = 6 \<and> hour < open_hour)))"
| "is_open F ContinuousSession i t =
     (if \<not> tz_aware t then Inl (ValueError (lit ''ContinuousSessionCalendar needs a tz-aware timestamp'')) else Inr True)"

definition worse_exit :: "direction \<Rightarrow> flt \<Rightarrow> flt \<Rightarrow> flt" where
  "worse_exit d a b = (if d = LONG then py_min a b else py_max a b)"

definition worse_entry :: "direction \<Rightarrow> flt \<Rightarrow> flt \<Rightarrow> flt" where
  "worse_entry d a b = (if d = LONG then py_max a b else py_min a b)"


section \<open>The simulator\<close>

record simulator =
  sm_profile :: profile
  sm_intrabar_policy :: intrabar_policy
  sm_calendar :: session_calendar
  sm_reject_on_stale :: bool
  sm_stale_spread_multiple :: flt

text \<open>\<open>bar_interval * multiple\<close> of a pandas duration is the exact product here.\<close>

definition is_stale :: "simulator \<Rightarrow> tstamp option \<Rightarrow> tstamp \<Rightarrow> int \<Rightarrow> pyexn + bool" where
  "is_stale S prev now interval =
     (case prev of
        None \<Rightarrow> Inr False
      | Some p \<Rightarrow>
          if interval \<le> 0 then Inl (ValueError (lit ''bar_interval must be positive to detect staleness''))
          else rbind (ts_sub now p) (\<lambda>gap.
            Inr (Fin (of_int gap) > Fin (of_int interval) * pf_stale_price_max_gap_multiple (sm_profile S))))"

definition stale_with :: "simulator \<Rightarrow> tstamp option \<Rightarrow> tstamp \<Rightarrow> int option \<Rightarrow> pyexn + bool" where
  "stale_with S prev now interval = (case interval of Some n \<Rightarrow> is_stale S prev now n | None \<Rightarrow> Inr False)"

definition enforce_min_stop ::
  "simulator \<Rightarrow> instrument \<Rightarrow> direction \<Rightarrow> flt \<Rightarrow> flt \<Rightarrow> pyexn + bool \<times> flt \<times> reject_reason option" where
  "enforce_min_stop S i d price stop =
     rbind (min_stop_distance_price (sm_profile S) i) (\<lambda>min_dist.
       if min_dist \<le> Fin 0 \<or> pf_min_stop_policy (sm_profile S) = MS_ALLOW then Inr (True, stop, None)
       else if \<bar>price - stop\<bar> \<ge> min_dist then Inr (True, stop, None)
       else if pf_min_stop_policy (sm_profile S) = MS_REJECT then Inr (False, stop, Some MIN_STOP_DISTANCE)
       else Inr (True, if d = LONG then price - min_dist else price + min_dist, None))"

text \<open>\<open>int(x)\<close>, \<open>round(x)\<close> and \<open>round(x, k)\<close> of a float.\<close>

fun py_int :: "flt \<Rightarrow> pyexn + int" where
  "py_int (Fin r) = Inr (if r \<ge> 0 then floor r else - floor (- r))"
| "py_int NaN = Inl (ValueError (lit ''cannot convert float NaN to integer''))"
| "py_int _ = Inl (PyExn ''OverflowError'' (lit ''cannot convert float infinity to integer''))"

fun py_round :: "flt \<Rightarrow> pyexn + int" where
  "py_round (Fin r) = Inr (round_half_even r)"
| "py_round NaN = Inl (ValueError (lit ''cannot convert float NaN to integer''))"
| "py_round _ = Inl (PyExn ''OverflowError'' (lit ''cannot convert float infinity to integer''))"

fun py_round_to :: "nat \<Rightarrow> flt \<Rightarrow> flt" where
  "py_round_to k (Fin r) = Fin (of_int (round_half_even (r * 10 ^ k)) / 10 ^ k)"
| "py_round_to k x = x"

definition TINY :: flt where
  "TINY = Fin (1 / 10 ^ 9)"

definition round_down_to_step :: "flt \<Rightarrow> flt \<Rightarrow> pyexn + flt" where
  "round_down_to_step sz step =
     (if step \<le> Fin 0 then Inr sz
      else rbind (py_div sz step) (\<lambda>q. rbind (py_int (q + TINY)) (\<lambda>steps. Inr (py_round_to 10 (Fin (of_int steps) * step)))))"

text \<open>\<open>direction.sign * x\<close>.\<close>

definition signed :: "direction \<Rightarrow> flt \<Rightarrow> flt" where
  "signed d x = Fin (dir_sign d) * x"

definition priced_entry ::
  "simulator \<Rightarrow> instrument \<Rightarrow> direction \<Rightarrow> flt \<Rightarrow> flt \<Rightarrow> bool \<Rightarrow> bar \<Rightarrow> flt \<Rightarrow> flt \<Rightarrow> bool \<Rightarrow> generator \<Rightarrow> pyexn + entry_fill" where
  "priced_entry S i d requested filled_size partial b mid stop stale rng =
     rbind (half_spread_price (sm_profile S) i (hour_utc b) mid) (\<lambda>h.
       let half = (if stale then h * sm_stale_spread_multiple S else h);
           slip = slippage_price (pf_slippage (sm_profile S)) i mid rng 3;
           price = mid + signed d (half + slip);
           costs = \<lparr>lg_spread_quote = half * filled_size * i_contract_size i, lg_slippage_quote = slip * filled_size * i_contract_size i,
                    lg_guaranteed_stop_premium_quote = Fin 0,
                    lg_commission_amount = commission (pf_commission (sm_profile S)) i filled_size price,
                    lg_commission_ccy = commission_currency (pf_commission (sm_profile S)) i\<rparr>
       in Inr \<lparr>ef_filled = True, ef_reject_reason = None, ef_filled_size = filled_size, ef_filled_price = price, ef_mid_price = mid,
               ef_requested_size = requested, ef_effective_stop = stop, ef_half_spread = half, ef_slippage = slip,
               ef_partial = partial, ef_stale = stale, ef_costs = costs\<rparr>)"

definition simulate_entry ::
  "fill_env \<Rightarrow> simulator \<Rightarrow> instrument \<Rightarrow> direction \<Rightarrow> flt \<Rightarrow> bar \<Rightarrow> int \<Rightarrow> flt \<Rightarrow> int \<Rightarrow> tstamp option \<Rightarrow> int option \<Rightarrow> flt option \<Rightarrow>
   pyexn + entry_fill" where
  "simulate_entry F S i d sz b bar_index stop sequence prev interval reference =
     (if sz \<le> Fin 0 then Inr (rejected_entry SIZE_NOT_POSITIVE sz False)
      else rbind (is_open F (sm_calendar S) i (b_timestamp b)) (\<lambda>open_now.
        if \<not> open_now then Inr (rejected_entry MARKET_CLOSED sz False)
        else rbind (stale_with S prev (b_timestamp b) interval) (\<lambda>stale.
          if stale \<and> sm_reject_on_stale S then Inr (rejected_entry STALE_PRICE sz True)
          else
            let mid = (case reference of Some r \<Rightarrow> r | None \<Rightarrow> b_open b); p = sm_profile S; rng = fe_rng F (pf_seed p) bar_index sequence in
            if gn_random rng 0 < pf_rejection_probability p then Inr (rejected_entry BROKER_REJECT sz stale)
            else rbind (enforce_min_stop S i d mid stop) (\<lambda>(ok, effective_stop, reason).
              if \<not> ok then Inr (rejected_entry (case reason of Some r \<Rightarrow> r | None \<Rightarrow> MIN_STOP_DISTANCE) sz stale)
              else
                let lo = pf_partial_fill_min_fraction p; fraction = lo + (Fin 1 - lo) * gn_random rng 2;
                    cut = gn_random rng 1 < pf_partial_fill_probability p in
                rbind (if cut then round_down_to_step (sz * fraction) (i_size_step i) else Inr sz) (\<lambda>filled_size.
                  if filled_size < pf_min_deal_size p \<or> filled_size \<le> Fin 0 then Inr (rejected_entry MIN_DEAL_SIZE sz stale)
                  else priced_entry S i d sz filled_size (cut \<and> filled_size < sz) b mid effective_stop stale rng)))))"


section \<open>Exits\<close>

definition through :: "direction \<Rightarrow> flt \<Rightarrow> flt \<Rightarrow> bool \<Rightarrow> bool" where
  "through d open_price level is_stop =
     (if d = LONG then (if is_stop then open_price \<le> level else open_price \<ge> level)
      else (if is_stop then open_price \<ge> level else open_price \<le> level))"

definition touched :: "direction \<Rightarrow> bar \<Rightarrow> flt \<Rightarrow> bool \<Rightarrow> bool" where
  "touched d b level is_stop =
     (if d = LONG then (if is_stop then b_low b \<le> level else b_high b \<ge> level)
      else (if is_stop then b_high b \<ge> level else b_low b \<le> level))"

text \<open>True when the stop filled first.\<close>

definition resolve_ambiguity :: "fill_env \<Rightarrow> simulator \<Rightarrow> bar \<Rightarrow> flt \<Rightarrow> flt \<Rightarrow> int \<Rightarrow> int \<Rightarrow> pyexn + bool" where
  "resolve_ambiguity F S b stop tp bar_index sequence =
     (case sm_intrabar_policy S of
        STOP_FIRST \<Rightarrow> Inr True
      | TARGET_FIRST \<Rightarrow> Inr False
      | PROPORTIONAL \<Rightarrow>
          (let d_stop = \<bar>b_open b - stop\<bar>; d_tp = \<bar>b_open b - tp\<bar>; total = d_stop + d_tp in
           if total \<le> Fin 0 then Inr True
           else rbind (py_div d_tp total) (\<lambda>p_stop_first.
             Inr (gn_random (fe_rng F (pf_seed (sm_profile S)) bar_index (100000 + sequence)) 0 < p_stop_first))))"

definition price_exit ::
  "fill_env \<Rightarrow> simulator \<Rightarrow> instrument \<Rightarrow> direction \<Rightarrow> flt \<Rightarrow> bar \<Rightarrow> int \<Rightarrow> int \<Rightarrow> flt \<Rightarrow> exit_reason \<Rightarrow> bool \<Rightarrow> bool \<Rightarrow> bool \<Rightarrow> flt option \<Rightarrow>
   bool \<Rightarrow> pyexn + exit_fill" where
  "price_exit F S i d sz b bar_index sequence mid0 reason gapped0 both slips0 level stale =
     (let p = sm_profile S; guaranteed = (reason = STOP_LOSS \<and> pf_use_guaranteed_stops p \<and> level \<noteq> None);
          mid = (if guaranteed then the level else mid0); gapped = (gapped0 \<and> \<not> guaranteed); slips = (slips0 \<and> \<not> guaranteed);
          premium = (if guaranteed then guaranteed_stop_premium_price p i * sz * i_contract_size i else Fin 0) in
      rbind (half_spread_price p i (hour_utc b) mid) (\<lambda>h.
        let half = (if stale then h * sm_stale_spread_multiple S else h);
            slip = (if slips then slippage_price (pf_slippage p) i mid (fe_rng F (pf_seed p) bar_index (200000 + sequence)) 0 else Fin 0);
            price = mid - signed d (half + slip);
            costs = \<lparr>lg_spread_quote = half * sz * i_contract_size i, lg_slippage_quote = slip * sz * i_contract_size i,
                     lg_guaranteed_stop_premium_quote = premium, lg_commission_amount = commission (pf_commission p) i sz price,
                     lg_commission_ccy = commission_currency (pf_commission p) i\<rparr>
        in Inr \<lparr>xf_exited = True, xf_reason = Some reason, xf_exit_price = price, xf_mid_price = mid, xf_half_spread = half,
                xf_slippage = slip, xf_gapped = gapped, xf_both_touched = both, xf_stale = stale, xf_costs = costs\<rparr>))"

definition level_hit :: "(flt \<Rightarrow> bool) \<Rightarrow> flt option \<Rightarrow> bool" where
  "level_hit f level = (case level of Some l \<Rightarrow> f l | None \<Rightarrow> False)"

definition resolve_exit ::
  "fill_env \<Rightarrow> simulator \<Rightarrow> instrument \<Rightarrow> direction \<Rightarrow> flt \<Rightarrow> bar \<Rightarrow> int \<Rightarrow> flt option \<Rightarrow> flt option \<Rightarrow> int \<Rightarrow> tstamp option \<Rightarrow> int option \<Rightarrow>
   pyexn + exit_fill" where
  "resolve_exit F S i d sz b bar_index stop tp sequence prev interval =
     rbind (stale_with S prev (b_timestamp b) interval) (\<lambda>stale.
       let at_stop = (\<lambda>mid gapped both. price_exit F S i d sz b bar_index sequence mid STOP_LOSS gapped both True stop stale);
           at_target = (\<lambda>mid gapped both. price_exit F S i d sz b bar_index sequence mid TAKE_PROFIT gapped both False None stale);
           stop_touched = level_hit (\<lambda>l. touched d b l True) stop; tp_touched = level_hit (\<lambda>l. touched d b l False) tp
       in if level_hit (\<lambda>l. through d (b_open b) l True) stop then at_stop (worse_exit d (the stop) (b_open b)) True False
          else if level_hit (\<lambda>l. through d (b_open b) l False) tp then at_target (worse_exit d (the tp) (b_open b)) True False
          else if stop_touched \<and> tp_touched then
            rbind (resolve_ambiguity F S b (the stop) (the tp) bar_index sequence) (\<lambda>take_stop.
              if take_stop then at_stop (the stop) False True else at_target (the tp) False True)
          else if stop_touched then at_stop (the stop) False False
          else if tp_touched then at_target (the tp) False False
          else Inr still_open)"

definition market_exit ::
  "fill_env \<Rightarrow> simulator \<Rightarrow> instrument \<Rightarrow> direction \<Rightarrow> flt \<Rightarrow> bar \<Rightarrow> int \<Rightarrow> exit_reason \<Rightarrow> flt option \<Rightarrow> int \<Rightarrow> tstamp option \<Rightarrow> int option \<Rightarrow>
   pyexn + exit_fill" where
  "market_exit F S i d sz b bar_index reason price sequence prev interval =
     rbind (stale_with S prev (b_timestamp b) interval) (\<lambda>stale.
       price_exit F S i d sz b bar_index sequence (case price of Some x \<Rightarrow> x | None \<Rightarrow> b_close b) reason False False True None stale)"


section \<open>The value of a move\<close>

text \<open>\<open>price_move_to_quote_ccy\<close> of \<open>core/money.py\<close>.\<close>

definition price_move_to_quote_ccy :: "instrument \<Rightarrow> flt \<Rightarrow> flt \<Rightarrow> flt \<Rightarrow> direction \<Rightarrow> flt" where
  "price_move_to_quote_ccy i entry exit' sz d = (exit' - entry) * Fin (dir_sign d) * sz * i_contract_size i"

end
