(* ===== verification/Sizing.thy ===== *)
theory Sizing
  imports Fill_Model
begin

text \<open>
  From a signal to a size. The currency arithmetic of \<open>core/money.py\<close> (as-of conversion rates from historical series, rounding
  down to the size step), the sizing rule of \<open>portfolio/sizing.py\<close> that makes a trade plan, and the sizer of
  \<open>backtest/engine.py\<close> that the backtest uses in its place.

  The \<open>detail\<close> dictionary of an outcome and the tally of conversion routes are diagnostics and are left out; the plan's
  identifier, which is random, is an argument.
\<close>

section \<open>Conversion rates\<close>

type_synonym fx_series = "(tstamp \<times> flt) list"

record fx_source =
  fx_series :: "(string \<times> fx_series) list"
  fx_max_staleness :: int
  fx_pivot :: "string option"
  fx_fallback_via_pivot :: bool

datatype fx_route = Route_identity | Route_direct | Route_inverse | Route_via string

definition identity_rate :: "bool \<Rightarrow> string \<Rightarrow> string \<Rightarrow> pyexn + flt" where
  "identity_rate allow_mismatch f t =
     (if upper f = upper t then Inr (Fin 1) else if allow_mismatch then Inr (Fin 1)
      else Inl (ValueError [Lit ''IdentityFxSource asked to convert '', Lit f, Lit ''->'', Lit t]))"

text \<open>\<open>searchsorted(when, side="right")\<close> on a sorted index: the observations at or before \<open>when\<close> come first.\<close>

fun known_at :: "tstamp \<Rightarrow> fx_series \<Rightarrow> pyexn + fx_series" where
  "known_at t [] = Inr []"
| "known_at t ((k, v) # s) = rbind (ts_le k t) (\<lambda>le. if le then rbind (known_at t s) (\<lambda>r. Inr ((k, v) # r)) else Inr [])"

definition asof :: "fx_source \<Rightarrow> fx_series \<Rightarrow> tstamp \<Rightarrow> string \<Rightarrow> pyexn + flt" where
  "asof X s t name =
     rbind (known_at t s) (\<lambda>known.
       if known = [] then Inl (KeyError [Lit ''FX series '', Lit name, Lit '' has no observation at or before '', Iso t])
       else rbind (ts_sub t (fst (last known))) (\<lambda>age.
         if age > fx_max_staleness X then Inl (KeyError [Lit ''FX series '', Lit name, Lit '' is stale at '', Iso t])
         else Inr (snd (last known))))"

definition fx_direct :: "fx_source \<Rightarrow> string \<Rightarrow> string \<Rightarrow> tstamp \<Rightarrow> pyexn + (flt \<times> fx_route) option" where
  "fx_direct X f t when =
     (case map_of (fx_series X) (f @ t) of
        Some s \<Rightarrow> rbind (asof X s when (f @ t)) (\<lambda>v. Inr (Some (v, Route_direct)))
      | None \<Rightarrow>
          (case map_of (fx_series X) (t @ f) of
             None \<Rightarrow> Inr None
           | Some s \<Rightarrow> rbind (asof X s when (t @ f)) (\<lambda>v.
               if flt_eq v (Fin 0) \<or> \<not> is_finite v then Inl (ValueError [Lit ''Non-invertible rate '', Repr v, Lit '' for '', Lit (t @ f)])
               else rbind (py_div (Fin 1) v) (\<lambda>r. Inr (Some (r, Route_inverse))))))"

definition is_KeyError :: "pyexn \<Rightarrow> bool" where
  "is_KeyError e \<longleftrightarrow> exn_class e = ''KeyError''"

text \<open>The two legs through the pivot; a \<open>KeyError\<close> of either is joined to that of the direct pair.\<close>

definition fx_via_pivot :: "fx_source \<Rightarrow> string \<Rightarrow> string \<Rightarrow> string \<Rightarrow> tstamp \<Rightarrow> pyexn option \<Rightarrow> pyexn + (flt \<times> fx_route) option" where
  "fx_via_pivot X f t pivot when direct_error =
     (case rbind (fx_direct X f pivot when) (\<lambda>a. rbind (fx_direct X pivot t when) (\<lambda>b. Inr (a, b))) of
        Inl e \<Rightarrow>
          (case direct_error of
             Some d \<Rightarrow> if is_KeyError e then Inl (KeyError (exn_text d @ [Lit ''; the '', Lit pivot, Lit '' fallback could not answer either: ''] @ exn_text e))
                       else Inl e
           | None \<Rightarrow> Inl e)
      | Inr (Some (a, _), Some (b, _)) \<Rightarrow> Inr (Some (a * b, Route_via (lower pivot)))
      | Inr _ \<Rightarrow> Inr None)"

definition rate_with_route :: "fx_source \<Rightarrow> string \<Rightarrow> string \<Rightarrow> tstamp \<Rightarrow> pyexn + flt \<times> fx_route" where
  "rate_with_route X from_ccy to_ccy when =
     (let f = upper from_ccy; t = upper to_ccy; pivot = (case fx_pivot X of Some p \<Rightarrow> upper p | None \<Rightarrow> []);
          missing = (\<lambda>direct_error. case direct_error of Some d \<Rightarrow> Inl d
                       | None \<Rightarrow> Inl (KeyError [Lit ''No FX series for '', Lit f, Lit ''->'', Lit t]));
          after_direct = (\<lambda>direct_error.
            if pivot \<noteq> [] \<and> pivot \<noteq> f \<and> pivot \<noteq> t then
              rbind (fx_via_pivot X f t pivot when direct_error) (\<lambda>r. case r of Some x \<Rightarrow> Inr x | None \<Rightarrow> missing direct_error)
            else missing direct_error)
      in if f = t then Inr (Fin 1, Route_identity)
         else case fx_direct X f t when of
           Inl e \<Rightarrow> if is_KeyError e \<and> fx_fallback_via_pivot X then after_direct (Some e) else Inl e
         | Inr (Some x) \<Rightarrow> Inr x
         | Inr None \<Rightarrow> after_direct None)"

definition has_route :: "fx_source \<Rightarrow> string \<Rightarrow> string \<Rightarrow> bool" where
  "has_route X from_ccy to_ccy =
     (let f = upper from_ccy; t = upper to_ccy; pivot = (case fx_pivot X of Some p \<Rightarrow> upper p | None \<Rightarrow> []);
          one = (\<lambda>a b. map_of (fx_series X) (a @ b) \<noteq> None \<or> map_of (fx_series X) (b @ a) \<noteq> None)
      in f = t \<or> one f t \<or> (pivot \<noteq> [] \<and> pivot \<noteq> f \<and> pivot \<noteq> t \<and> one f pivot \<and> one pivot t))"

definition to_account_ccy :: "(string \<Rightarrow> string \<Rightarrow> tstamp \<Rightarrow> pyexn + flt) \<Rightarrow> flt \<Rightarrow> instrument \<Rightarrow> string \<Rightarrow> tstamp \<Rightarrow> pyexn + flt" where
  "to_account_ccy rate amount i ccy when =
     (if flt_eq amount (Fin 0) then Inr (Fin 0) else rbind (rate (i_quote i) ccy when) (\<lambda>r. Inr (amount * r)))"

definition round_size :: "instrument \<Rightarrow> flt \<Rightarrow> pyexn + flt" where
  "round_size i sz =
     (if sz \<le> Fin 0 then Inr (Fin 0)
      else rbind (py_div sz (i_size_step i)) (\<lambda>q. rbind (py_int (q + TINY)) (\<lambda>steps. Inr (py_round_to 10 (Fin (of_int steps) * i_size_step i)))))"


section \<open>The sizing rule\<close>

definition SIZING_POLICY_V1 :: string where
  "SIZING_POLICY_V1 = ''fixed_fractional_v1''"

definition SIZING_POLICY_V2 :: string where
  "SIZING_POLICY_V2 = ''fixed_fractional_v2''"

definition SIZING_POLICIES :: "string list" where
  "SIZING_POLICIES = [SIZING_POLICY_V1, SIZING_POLICY_V2]"

definition expected_entry_time :: "signal \<Rightarrow> tstamp" where
  "expected_entry_time s =
     (case tf_of_value (sg_timeframe s) of
        None \<Rightarrow> sg_bar_time s
      | Some tf \<Rightarrow> (sg_bar_time s)\<lparr>ns := ns (sg_bar_time s) + tf_minutes tf * 60000000000\<rparr>)"

definition stop_out_cost_per_unit :: "profile \<Rightarrow> instrument \<Rightarrow> signal \<Rightarrow> pyexn + flt" where
  "stop_out_cost_per_unit p i s = profile_stop_out_cost p i (ts_hour (expected_entry_time s)) (sg_reference_price s)"

record sizing_policy =
  sp_risk_fraction :: flt
  sp_max_leverage :: "flt option"
  sp_policy_id :: string
  sp_cost_profile :: "profile option"

definition policy_valid :: "sizing_policy \<Rightarrow> pyexn + sizing_policy" where
  "policy_valid p =
     (if sp_policy_id p \<notin> set SIZING_POLICIES then Inl (ValueError [Lit ''unknown sizing policy '', Lit (sp_policy_id p)])
      else if \<not> (Fin 0 < sp_risk_fraction p \<and> sp_risk_fraction p \<le> Fin 1)
        then Inl (ValueError [Lit ''risk_fraction must be in (0, 1], got '', Repr (sp_risk_fraction p)])
      else if (case sp_max_leverage p of Some l \<Rightarrow> l \<le> Fin 0 | None \<Rightarrow> False)
        then Inl (ValueError (lit ''max_leverage must be positive when set''))
      else Inr p)"

definition resolved_cost_profile :: "string \<Rightarrow> profile option \<Rightarrow> profile option" where
  "resolved_cost_profile policy_id p =
     (if policy_id = SIZING_POLICY_V1 then None else Some (case p of Some x \<Rightarrow> x | None \<Rightarrow> IG_REALISTIC))"

definition cost_per_unit :: "sizing_policy \<Rightarrow> instrument \<Rightarrow> signal \<Rightarrow> pyexn + flt" where
  "cost_per_unit p i s =
     (case resolved_cost_profile (sp_policy_id p) (sp_cost_profile p) of
        None \<Rightarrow> Inr (Fin 0) | Some pf \<Rightarrow> stop_out_cost_per_unit pf i s)"

definition sizing_basis :: "sizing_policy \<Rightarrow> string" where
  "sizing_basis p =
     (case resolved_cost_profile (sp_policy_id p) (sp_cost_profile p) of
        None \<Rightarrow> sp_policy_id p | Some pf \<Rightarrow> sp_policy_id p @ '':'' @ pf_name pf)"

definition leverage_for :: "flt option \<Rightarrow> instrument \<Rightarrow> flt" where
  "leverage_for asked i = (case asked of None \<Rightarrow> i_retail_leverage i | Some l \<Rightarrow> py_min l (i_retail_leverage i))"

record sizing_outcome =
  zo_plan :: "trade_plan option"
  zo_reason :: "string option"

definition sizing_post_init :: "sizing_outcome \<Rightarrow> pyexn + sizing_outcome" where
  "sizing_post_init z =
     (if (zo_plan z = None) = (zo_reason z = None) then Inl (ValueError (lit ''SizingOutcome carries exactly one of plan or reason'')) else Inr z)"

definition require_plan :: "sizing_outcome \<Rightarrow> pyexn + trade_plan" where
  "require_plan z = (case zo_plan z of Some p \<Rightarrow> Inr p | None \<Rightarrow> Inl (ValueError (lit ''Signal was not sized'')))"

abbreviation unsized :: "string \<Rightarrow> pyexn + sizing_outcome" where
  "unsized why \<equiv> Inr \<lparr>zo_plan = None, zo_reason = Some why\<rparr>"

definition snap_to_step :: "flt \<Rightarrow> flt \<Rightarrow> pyexn + flt" where
  "snap_to_step sz step =
     (if step \<le> Fin 0 \<or> sz \<le> Fin 0 then Inr sz
      else rbind (py_div sz step) (\<lambda>q. rbind (py_round q) (\<lambda>nearest.
        let snapped = Fin (of_int nearest) * step in
        Inr (if nearest > 0 \<and> \<bar>sz - snapped\<bar> \<le> TINY * py_max sz step then snapped else sz))))"

text \<open>The last steps, shared by the two sizers: the leverage cap and the rounding.\<close>

definition capped_size :: "flt \<Rightarrow> flt \<Rightarrow> flt \<Rightarrow> flt \<Rightarrow> pyexn + flt" where
  "capped_size raw equity leverage notional_per_unit =
     (if notional_per_unit > Fin 0 then rbind (py_div (equity * leverage) notional_per_unit) (\<lambda>cap. Inr (py_min raw cap)) else Inr raw)"

definition final_size :: "instrument \<Rightarrow> flt \<Rightarrow> pyexn + flt" where
  "final_size i sz = rbind (snap_to_step sz (i_size_step i)) (round_size i)"

definition size_trade ::
  "signal \<Rightarrow> instrument \<Rightarrow> account_state \<Rightarrow> flt \<Rightarrow> sizing_policy \<Rightarrow> flt \<Rightarrow> string option \<Rightarrow> string \<Rightarrow> pyexn + sizing_outcome" where
  "size_trade s i a fx p weight account_ccy plan_id =
     (let ccy = (case account_ccy of Some c \<Rightarrow> if c = [] then ac_currency a else c | None \<Rightarrow> ac_currency a);
          stop = stop_distance s; risk_account = ac_equity a * sp_risk_fraction p * weight in
      if ac_equity a \<le> Fin 0 then unsized ''non_positive_equity''
      else if \<not> fx > Fin 0 \<or> \<not> flt_eq fx fx then unsized ''invalid_fx_rate''
      else if weight \<le> Fin 0 then unsized ''zero_portfolio_weight''
      else if stop \<le> Fin 0 then unsized ''non_positive_stop_distance''
      else if risk_account \<le> Fin 0 then unsized ''non_positive_risk_budget''
      else rbind (cost_per_unit p i s) (\<lambda>cost.
        let per_unit_price = stop + cost; risk_per_unit = per_unit_price * i_contract_size i * fx in
        if risk_per_unit \<le> Fin 0 then unsized ''non_positive_risk_per_unit''
        else rbind (py_div risk_account risk_per_unit) (\<lambda>raw.
          let leverage = leverage_for (sp_max_leverage p) i; notional_per_unit = sg_reference_price s * i_contract_size i * fx in
          rbind (capped_size raw (ac_equity a) leverage notional_per_unit) (\<lambda>capped.
          rbind (final_size i capped) (\<lambda>sz.
            if sz \<le> Fin 0 then unsized ''rounded_to_zero''
            else if sz < i_min_size i then unsized ''below_min_size''
            else rbind (plan_post_init
                \<lparr>pl_signal = s, pl_size = sz, pl_account_ccy = ccy, pl_risk_amount = per_unit_price * sz * i_contract_size i * fx,
                 pl_sizing_basis = sizing_basis p, pl_max_leverage_applied = leverage, pl_portfolio_weight = weight, pl_plan_id = plan_id\<rparr>)
              (\<lambda>plan. Inr \<lparr>zo_plan = Some plan, zo_reason = None\<rparr>))))))"

definition portfolio_size_for :: "sizing_policy \<Rightarrow> flt \<Rightarrow> string \<Rightarrow> signal \<Rightarrow> instrument \<Rightarrow> account_state \<Rightarrow> flt \<Rightarrow> pyexn + flt" where
  "portfolio_size_for p weight plan_id s i a fx =
     rbind (size_trade s i a fx p weight None plan_id) (\<lambda>z. Inr (case zo_plan z of Some plan \<Rightarrow> pl_size plan | None \<Rightarrow> Fin 0))"


section \<open>The backtest's sizer\<close>

record fractional_sizer =
  ff_risk_fraction :: flt
  ff_max_leverage :: "flt option"
  ff_policy_id :: string
  ff_cost_profile :: "profile option"
  ff_portfolio_weight :: flt

definition sizer_post_init :: "fractional_sizer \<Rightarrow> pyexn + fractional_sizer" where
  "sizer_post_init z =
     (if ff_policy_id z \<notin> set SIZING_POLICIES then Inl (ValueError [Lit ''unknown sizing policy '', Lit (ff_policy_id z)])
      else if \<not> (Fin 0 \<le> ff_portfolio_weight z \<and> ff_portfolio_weight z \<le> Fin 1)
        then Inl (ValueError [Lit ''portfolio_weight must lie in [0, 1], got '', Repr (ff_portfolio_weight z)])
      else Inr z)"

definition sizer_allocated :: "flt \<Rightarrow> flt \<Rightarrow> fractional_sizer \<Rightarrow> pyexn + fractional_sizer" where
  "sizer_allocated fraction weight z = sizer_post_init (z\<lparr>ff_risk_fraction := fraction, ff_portfolio_weight := weight\<rparr>)"

definition fractional_size_for :: "fractional_sizer \<Rightarrow> signal \<Rightarrow> instrument \<Rightarrow> account_state \<Rightarrow> flt \<Rightarrow> pyexn + flt" where
  "fractional_size_for z s i a fx =
     (let stop = stop_distance s; risk_account = ac_equity a * ff_risk_fraction z * ff_portfolio_weight z in
      if stop \<le> Fin 0 then Inr (Fin 0)
      else if risk_account \<le> Fin 0 then Inr (Fin 0)
      else rbind (case resolved_cost_profile (ff_policy_id z) (ff_cost_profile z) of
          None \<Rightarrow> Inr stop
        | Some pf \<Rightarrow> rbind (stop_out_cost_per_unit pf i s) (\<lambda>c. Inr (stop + c))) (\<lambda>per_unit_price.
        let risk_per_unit = per_unit_price * i_contract_size i * fx in
        if risk_per_unit \<le> Fin 0 then Inr (Fin 0)
        else rbind (py_div risk_account risk_per_unit) (\<lambda>raw.
          rbind (capped_size raw (ac_equity a) (leverage_for (ff_max_leverage z) i) (sg_reference_price s * i_contract_size i * fx)) (\<lambda>capped.
            final_size i capped))))"

end
