(* ===== verification/Fill_Safety.thy ===== *)
theory Fill_Safety
  imports Fill_Model Gateway_Safety
begin

text \<open>
  What the fill model guarantees: costs are never in the trader's favour, an exit is no better than its level, a bar closes a position
  exactly when it reaches a level and the stop wins inside the bar, and the spread and slippage of a round trip are paid on both legs.
\<close>

section \<open>Costs are adverse\<close>

definition nonneg :: "flt \<Rightarrow> bool" where
  "nonneg x = (case x of Fin r \<Rightarrow> r \<ge> 0 | _ \<Rightarrow> False)"

lemma nonneg_Fin [simp]: "nonneg (Fin r) \<longleftrightarrow> 0 \<le> r"
  by (simp add: nonneg_def)

lemma nonnegE: assumes "nonneg x" obtains r where "x = Fin r" "0 \<le> r"
  using assms by (cases x) (auto simp: nonneg_def)

lemma nonneg_arith: "nonneg a \<Longrightarrow> nonneg b \<Longrightarrow> nonneg (a * b)" "nonneg a \<Longrightarrow> nonneg b \<Longrightarrow> nonneg (a + b)" "nonneg a \<Longrightarrow> nonneg b \<Longrightarrow> nonneg (py_max a b)"
  by (auto elim!: nonnegE simp: py_max_def)

fun sane_spread :: "spread_model \<Rightarrow> bool" where
  "sane_spread (FixedPipSpread p) = nonneg p"
| "sane_spread (TypicalMultiplierSpread m f) = (nonneg m \<and> nonneg f)"
| "sane_spread (BpsOfMidSpread m f) = (nonneg m \<and> nonneg f)"
| "sane_spread (TimeOfDayWideningSpread base ws) = (sane_spread base \<and> list_all (\<lambda>(_, _, m). nonneg m) ws)"

fun sane_slippage :: "slippage_model \<Rightarrow> bool" where
  "sane_slippage NoSlippage = True"
| "sane_slippage (FixedPointsSlippage p) = nonneg p"
| "sane_slippage (AdverseTickSlippage prob tick ticks) = (nonneg tick \<and> 1 \<le> ticks)"
| "sane_slippage (BpsSlippage b) = nonneg b"

definition sane_instrument :: "instrument \<Rightarrow> bool" where
  "sane_instrument i \<longleftrightarrow> nonneg (i_pip_size i) \<and> nonneg (i_typical_spread_pips i) \<and> nonneg (i_contract_size i)
     \<and> (case i_typical_spread_bps i of Some b \<Rightarrow> nonneg b | None \<Rightarrow> True)"

definition sane_simulator :: "simulator \<Rightarrow> bool" where
  "sane_simulator S \<longleftrightarrow> sane_spread (pf_spread (sm_profile S)) \<and> sane_slippage (pf_slippage (sm_profile S)) \<and> nonneg (sm_stale_spread_multiple S)"

text \<open>What numpy documents of \<open>integers(lo, hi)\<close>.\<close>

definition integers_in_range :: "fill_env \<Rightarrow> bool" where
  "integers_in_range F \<longleftrightarrow> (\<forall>s b q k lo hi. lo < hi \<longrightarrow> lo \<le> gn_integer (fe_rng F s b q) k lo hi \<and> gn_integer (fe_rng F s b q) k lo hi < hi)"

lemma widen_nonneg: "nonneg base \<Longrightarrow> list_all (\<lambda>(_, _, m). nonneg m) ws \<Longrightarrow> nonneg (widen ws hour base)"
  by (induction ws hour base rule: widen.induct) (auto simp: nonneg_arith)

lemma model_spread_nonneg:
  "sane_spread m \<Longrightarrow> sane_instrument i \<Longrightarrow> nonneg mid \<Longrightarrow> model_spread m i hour mid = Inr s \<Longrightarrow> nonneg s"
proof (induction m arbitrary: s)
  case (TimeOfDayWideningSpread base ws)
  then show ?case by (auto simp: rbind_eq_Inr widen_nonneg)
qed (auto simp: sane_instrument_def BPS_def nonneg_arith split: option.splits if_splits)

lemma half_spread_nonneg:
  assumes "sane_spread (pf_spread p)" "sane_instrument i" "nonneg mid" "half_spread_price p i hour mid = Inr h"
  shows "nonneg h"
proof -
  from assms(4) obtain s where s: "model_spread (pf_spread p) i hour mid = Inr s" "py_div s (Fin 2) = Inr h"
    by (auto simp: half_spread_price_def spread_price_def rbind_eq_Inr split: if_splits)
  from model_spread_nonneg [OF assms(1-3) s(1)] s(2) show ?thesis by (auto elim!: nonnegE)
qed

lemma slippage_nonneg:
  assumes "sane_slippage m" "sane_instrument i" "nonneg mid" "integers_in_range F"
  shows "nonneg (slippage_price m i mid (fe_rng F s b q) k)"
proof (cases m)
  case (AdverseTickSlippage prob tick ticks)
  then have "1 \<le> gn_integer (fe_rng F s b q) (Suc k) 1 (ticks + 1)" using assms(1,4) by (simp add: integers_in_range_def)
  then have "nonneg (Fin (of_int (gn_integer (fe_rng F s b q) (Suc k) 1 (ticks + 1))))" by simp
  then show ?thesis using AdverseTickSlippage assms(1,2) by (auto simp: sane_instrument_def intro!: nonneg_arith)
qed (use assms in \<open>auto simp: sane_instrument_def BPS_def nonneg_arith\<close>)

text \<open>The published profiles are of this kind.\<close>

lemma published_profiles_sane: "list_all (\<lambda>(_, p). sane_spread (pf_spread p) \<and> sane_slippage (pf_slippage p) \<and> profile_post_init p = Inr p) PROFILES"
  by (simp add: PROFILES_def IDEALISED_RESEARCH_def IG_REALISTIC_def OANDA_REALISTIC_def IBKR_REALISTIC_def SEVERE_STRESS_def COINBASE_UK_SPOT_def
      COINBASE_UK_SPOT_STRESS_def base_profile_def profile_post_init_def)


section \<open>Exits\<close>

definition no_better :: "direction \<Rightarrow> flt \<Rightarrow> flt \<Rightarrow> bool" where
  "no_better d price level = (if d = LONG then price \<le> level else level \<le> price)"

definition finite_bar :: "bar \<Rightarrow> bool" where
  "finite_bar b \<longleftrightarrow> nonneg (b_open b) \<and> nonneg (b_high b) \<and> nonneg (b_low b) \<and> nonneg (b_close b) \<and> bar_post_init b = Inr b"

lemma no_better_trans: "no_better d a b \<Longrightarrow> no_better d b c \<Longrightarrow> no_better d a c"
  by (cases a; cases b; cases c) (auto simp: no_better_def split: if_splits)

lemma price_exit_adverse:
  assumes "sane_simulator S" "sane_instrument i" "integers_in_range F" "nonneg mid" "level_hit nonneg level \<or> level = None"
    and "price_exit F S i d sz b k q mid reason g both slips level stale = Inr x"
  shows "xf_exited x \<and> xf_reason x = Some reason \<and> nonneg (xf_half_spread x) \<and> nonneg (xf_slippage x) \<and> nonneg (xf_mid_price x)
    \<and> xf_exit_price x = xf_mid_price x - signed d (xf_half_spread x + xf_slippage x)
    \<and> (xf_mid_price x = mid \<or> reason = STOP_LOSS \<and> level = Some (xf_mid_price x))"
proof -
  define mid' where "mid' = (if reason = STOP_LOSS \<and> pf_use_guaranteed_stops (sm_profile S) \<and> level \<noteq> None then the level else mid)"
  have mid': "nonneg mid'" using assms(4,5) by (auto simp: mid'_def level_hit_def split: option.splits)
  obtain h where h: "half_spread_price (sm_profile S) i (hour_utc b) mid' = Inr h"
    using assms(6) by (auto simp: price_exit_def Let_def mid'_def rbind_eq_Inr)
  have "nonneg h" using half_spread_nonneg [OF _ assms(2) mid' h] assms(1) by (simp add: sane_simulator_def)
  then have half: "nonneg (if stale then h * sm_stale_spread_multiple S else h)" using assms(1) by (simp add: sane_simulator_def nonneg_arith)
  have slip: "nonneg (slippage_price (pf_slippage (sm_profile S)) i mid' (fe_rng F s b q) k)" for s b q k
    using slippage_nonneg [OF _ assms(2) mid' assms(3)] assms(1) by (simp add: sane_simulator_def)
  show ?thesis using assms(6) h half slip mid' by (auto simp: price_exit_def Let_def mid'_def [symmetric] mid'_def split: if_splits)
qed

lemma exit_price_adverse:
  assumes "nonneg mid" "nonneg half" "nonneg slip"
  shows "no_better d (mid - signed d (half + slip)) mid"
  using assms by (cases d) (auto elim!: nonnegE simp: no_better_def signed_def dir_sign_def)

lemma worse_exit_no_better: "nonneg a \<Longrightarrow> nonneg b \<Longrightarrow> no_better d (worse_exit d a b) a" "nonneg a \<Longrightarrow> nonneg b \<Longrightarrow> nonneg (worse_exit d a b)"
  by (auto elim!: nonnegE simp: no_better_def worse_exit_def py_min_def py_max_def)

lemma no_better_refl: "nonneg a \<Longrightarrow> no_better d a a"
  by (auto elim!: nonnegE simp: no_better_def)


lemma touched_through: "finite_bar b \<Longrightarrow> nonneg l \<Longrightarrow> through d (b_open b) l is_stop \<Longrightarrow> touched d b l is_stop"
  by (auto elim!: nonnegE simp: finite_bar_def bar_post_init_def through_def touched_def split: if_splits)

lemma ambiguity_target: "resolve_ambiguity F S b s t k q = Inr False \<Longrightarrow> sm_intrabar_policy S \<noteq> STOP_FIRST"
  by (auto simp: resolve_ambiguity_def)

text \<open>The branches of \<open>resolve_exit\<close>: how each exit was priced.\<close>

lemma resolve_exit_cases:
  assumes "resolve_exit F S i d sz b k stop tp q prev interval = Inr x"
  obtains (gap_stop) s stale where "stop = Some s" "through d (b_open b) s True"
      "price_exit F S i d sz b k q (worse_exit d s (b_open b)) STOP_LOSS True False True stop stale = Inr x"
  | (gap_target) t stale where "tp = Some t" "through d (b_open b) t False" "\<not> level_hit (\<lambda>l. through d (b_open b) l True) stop"
      "price_exit F S i d sz b k q (worse_exit d t (b_open b)) TAKE_PROFIT True False False None stale = Inr x"
  | (stop) s both stale where "stop = Some s" "touched d b s True" "\<not> level_hit (\<lambda>l. through d (b_open b) l False) tp"
      "price_exit F S i d sz b k q s STOP_LOSS False both True stop stale = Inr x"
  | (target) t both stale where "tp = Some t" "touched d b t False" "\<not> level_hit (\<lambda>l. through d (b_open b) l True) stop"
      "sm_intrabar_policy S = STOP_FIRST \<longrightarrow> \<not> level_hit (\<lambda>l. touched d b l True) stop"
      "price_exit F S i d sz b k q t TAKE_PROFIT False both False None stale = Inr x"
  | (none) "x = still_open" "\<not> level_hit (\<lambda>l. touched d b l True) stop" "\<not> level_hit (\<lambda>l. touched d b l False) tp"
proof -
  from assms obtain stale where "stale_with S prev (b_timestamp b) interval = Inr stale" by (auto simp: resolve_exit_def rbind_eq_Inr)
  with assms that show thesis
    by (auto simp: resolve_exit_def Let_def rbind_eq_Inr level_hit_def split: option.splits if_splits)
      (metis (full_types) ambiguity_target)+
qed

text \<open>C30: an exit is never better than its level. On a coherent bar, with cost models whose parameters are not negative, a
  position stopped out never gets a better price than its stop, and one that takes profit never a better one than its
  target, also when the bar opens through the level.\<close>

theorem exit_no_better_than_level:
  assumes "sane_simulator S" "sane_instrument i" "integers_in_range F" "finite_bar b"
    and "level_hit nonneg stop \<or> stop = None" "level_hit nonneg tp \<or> tp = None"
    and "resolve_exit F S i d sz b k stop tp q prev interval = Inr x" "xf_exited x"
  shows "(xf_reason x = Some STOP_LOSS \<and> level_hit (\<lambda>l. no_better d (xf_exit_price x) l) stop)
    \<or> (xf_reason x = Some TAKE_PROFIT \<and> level_hit (\<lambda>l. no_better d (xf_exit_price x) l) tp)"
proof -
  have op: "nonneg (b_open b)" using assms(4) by (simp add: finite_bar_def)
  have priced: "xf_reason x = Some reason \<and> no_better d (xf_exit_price x) l"
    if p: "price_exit F S i d sz b k q mid reason g both slips level stale = Inr x" and mid: "nonneg mid" "no_better d mid l" "nonneg l"
      and level: "level = Some l \<or> level = None" for mid l reason g both slips level stale
  proof -
    from price_exit_adverse [OF assms(1-3) mid(1) _ p] level mid(3) have x: "xf_reason x = Some reason" "nonneg (xf_half_spread x)" "nonneg (xf_slippage x)"
      "nonneg (xf_mid_price x)" "xf_exit_price x = xf_mid_price x - signed d (xf_half_spread x + xf_slippage x)" "xf_mid_price x = mid \<or> xf_mid_price x = l"
      by (auto simp: level_hit_def)
    from exit_price_adverse [OF x(4,2,3), of d] x(5) have "no_better d (xf_exit_price x) (xf_mid_price x)" by simp
    moreover have "no_better d (xf_mid_price x) l" using x(6) mid no_better_refl by auto
    ultimately show ?thesis using x(1) no_better_trans by blast
  qed
  from assms(7) show ?thesis
  proof (cases rule: resolve_exit_cases)
    case (gap_stop s stale)
    then show ?thesis using priced [OF gap_stop(3)] worse_exit_no_better [of s "b_open b" d] op assms(5) by (auto simp: level_hit_def)
  next
    case (gap_target t stale)
    then show ?thesis using priced [OF gap_target(4)] worse_exit_no_better [of t "b_open b" d] op assms(6) by (auto simp: level_hit_def)
  next
    case (stop s both stale)
    then show ?thesis using priced [OF stop(4)] no_better_refl [of s d] assms(5) by (auto simp: level_hit_def)
  next
    case (target t both stale)
    then show ?thesis using priced [OF target(5)] no_better_refl [of t d] assms(6) by (auto simp: level_hit_def)
  next
    case none
    then show ?thesis using assms(8) by (simp add: still_open_def)
  qed
qed


text \<open>A bar closes a position exactly when its range reaches a level, and under the default policy a bar that reaches the
  stop is a stop-out: the target wins only when the bar opens through the target and not through the stop.\<close>

theorem exit_exactly_when_reached:
  assumes "finite_bar b" "level_hit nonneg stop \<or> stop = None" "level_hit nonneg tp \<or> tp = None"
    and "resolve_exit F S i d sz b k stop tp q prev interval = Inr x"
  shows "(xf_exited x \<longleftrightarrow> level_hit (\<lambda>l. touched d b l True) stop \<or> level_hit (\<lambda>l. touched d b l False) tp)
    \<and> (sm_intrabar_policy S = STOP_FIRST \<longrightarrow>
        (xf_reason x = Some STOP_LOSS \<longleftrightarrow> level_hit (\<lambda>l. touched d b l True) stop
           \<and> (level_hit (\<lambda>l. through d (b_open b) l True) stop \<or> \<not> level_hit (\<lambda>l. through d (b_open b) l False) tp)))"
proof -
  have exited: "xf_exited x \<and> xf_reason x = Some reason" if "price_exit F S i d sz b k q mid reason g both slips level stale = Inr x"
    for mid reason g both slips level stale
    using that by (auto simp: price_exit_def Let_def rbind_eq_Inr)
  have reach: "level_hit (\<lambda>l. touched d b l is_stop) lv" if "level_hit nonneg lv \<or> lv = None" "level_hit (\<lambda>l. through d (b_open b) l is_stop) lv" for lv is_stop
    using that touched_through [OF assms(1)] by (auto simp: level_hit_def split: option.splits)
  from assms(4) show ?thesis
  proof (cases rule: resolve_exit_cases)
    case (gap_stop s stale)
    then show ?thesis using exited [OF gap_stop(3)] reach [OF assms(2), of True] by (auto simp: level_hit_def)
  next
    case (gap_target t stale)
    then show ?thesis using exited [OF gap_target(4)] reach [OF assms(3), of False] by (auto simp: level_hit_def)
  next
    case (stop s both stale)
    then show ?thesis using exited [OF stop(4)] by (auto simp: level_hit_def)
  next
    case (target t both stale)
    then show ?thesis using exited [OF target(5)] by (auto simp: level_hit_def)
  next
    case none
    then show ?thesis by (simp add: still_open_def)
  qed
qed


section \<open>Round trips\<close>

lemma priced_entry_fields:
  assumes "sane_simulator S" "sane_instrument i" "integers_in_range F" "nonneg mid"
    and "priced_entry S i d requested sz partial b mid stop stale (fe_rng F s k q) = Inr e"
  shows "ef_mid_price e = mid \<and> ef_filled_size e = sz \<and> nonneg (ef_half_spread e) \<and> nonneg (ef_slippage e)
    \<and> ef_filled_price e = mid + signed d (ef_half_spread e + ef_slippage e)
    \<and> lg_spread_quote (ef_costs e) = ef_half_spread e * sz * i_contract_size i \<and> lg_slippage_quote (ef_costs e) = ef_slippage e * sz * i_contract_size i"
proof -
  obtain h where h: "half_spread_price (sm_profile S) i (hour_utc b) mid = Inr h"
    using assms(5) by (auto simp: priced_entry_def rbind_eq_Inr Let_def)
  have "nonneg h" using half_spread_nonneg [OF _ assms(2,4) h] assms(1) by (simp add: sane_simulator_def)
  then have "nonneg (if stale then h * sm_stale_spread_multiple S else h)" using assms(1) by (simp add: sane_simulator_def nonneg_arith)
  moreover have "nonneg (slippage_price (pf_slippage (sm_profile S)) i mid (fe_rng F s k q) 3)"
    using slippage_nonneg [OF _ assms(2,4,3)] assms(1) by (simp add: sane_simulator_def)
  ultimately show ?thesis using assms(5) h by (auto simp: priced_entry_def Let_def)
qed

lemma simulate_entry_priced:
  assumes "simulate_entry F S i d sz b k stop q prev interval reference = Inr e" "ef_filled e"
  obtains filled partial stop' stale where
    "priced_entry S i d sz filled partial b (case reference of Some r \<Rightarrow> r | None \<Rightarrow> b_open b) stop' stale (fe_rng F (pf_seed (sm_profile S)) k q) = Inr e"
    "\<not> filled \<le> Fin 0" "\<not> filled < pf_min_deal_size (sm_profile S)"
  using assms by (auto simp: simulate_entry_def rejected_entry_def rbind_eq_Inr Let_def split: if_splits)

text \<open>Both legs pay. The result of a round trip at the dealt prices is the move between the two mid prices less the
  spread and the slippage recorded on the entry leg and on the exit leg, whatever the exit was.\<close>

theorem both_legs_pay:
  assumes "sane_simulator S" "sane_instrument i" "integers_in_range F" "nonneg (ef_mid_price e)" "nonneg mid" "nonneg (ef_filled_size e)"
    and "level_hit nonneg level \<or> level = None"
    and "simulate_entry F S i d sz b k stop q prev interval reference = Inr e" "ef_filled e"
    and "price_exit F S i d (ef_filled_size e) b' k' q' mid reason g both slips level stale = Inr x"
  shows "price_move_to_quote_ccy i (ef_filled_price e) (xf_exit_price x) (ef_filled_size e) d
      + (lg_spread_quote (ef_costs e) + lg_slippage_quote (ef_costs e)) + (lg_spread_quote (xf_costs x) + lg_slippage_quote (xf_costs x))
    = price_move_to_quote_ccy i (ef_mid_price e) (xf_mid_price x) (ef_filled_size e) d"
proof -
  obtain filled partial stop' stale' where "priced_entry S i d sz filled partial b (case reference of Some r \<Rightarrow> r | None \<Rightarrow> b_open b) stop' stale'
      (fe_rng F (pf_seed (sm_profile S)) k q) = Inr e"
    by (rule simulate_entry_priced [OF assms(8,9)])
  moreover from this have "ef_mid_price e = (case reference of Some r \<Rightarrow> r | None \<Rightarrow> b_open b)"
    by (auto simp: priced_entry_def Let_def rbind_eq_Inr)
  ultimately have pe: "priced_entry S i d sz filled partial b (ef_mid_price e) stop' stale' (fe_rng F (pf_seed (sm_profile S)) k q) = Inr e" by simp
  note e = priced_entry_fields [OF assms(1-4) pe]
  note x = price_exit_adverse [OF assms(1-3,5,7,10)]
  have xc: "lg_spread_quote (xf_costs x) = xf_half_spread x * ef_filled_size e * i_contract_size i"
    "lg_slippage_quote (xf_costs x) = xf_slippage x * ef_filled_size e * i_contract_size i"
    using assms(10) by (auto simp: price_exit_def Let_def rbind_eq_Inr)
  obtain c where c: "i_contract_size i = Fin c" using assms(2) by (auto simp: sane_instrument_def elim!: nonnegE)
  obtain m h s n where "ef_mid_price e = Fin m" "ef_half_spread e = Fin h" "ef_slippage e = Fin s" "ef_filled_size e = Fin n"
    using assms(4,6) e by (auto elim!: nonnegE)
  moreover obtain m' h' s' where "xf_mid_price x = Fin m'" "xf_half_spread x = Fin h'" "xf_slippage x = Fin s'"
    using x by (auto elim!: nonnegE)
  ultimately show ?thesis using e x xc c
    by (cases d) (simp_all add: price_move_to_quote_ccy_def signed_def dir_sign_def algebra_simps)
qed



section \<open>A gap through the stop\<close>

text \<open>EURUSD under IG's costs, with a generator that always draws 0 and the least integer: the bar opens at 1.0800, below the
  long's stop at 1.0950.\<close>

definition sample_fills :: fill_env where
  "sample_fills = \<lparr>fe_rng = (\<lambda>_ _ _. \<lparr>gn_random = (\<lambda>_. Fin (1 / 100)), gn_integer = (\<lambda>_ lo _. lo)\<rparr>), fe_local = (\<lambda>_ _. (1, 12))\<rparr>"

definition ig_simulator :: simulator where
  "ig_simulator = \<lparr>sm_profile = IG_REALISTIC, sm_intrabar_policy = STOP_FIRST, sm_calendar = FxSession 17 17 ''America/New_York'',
     sm_reject_on_stale = False, sm_stale_spread_multiple = Fin 2\<rparr>"

definition gap_bar :: bar where
  "gap_bar = \<lparr>b_timestamp = utc (12 * 3600 * 10 ^ 9), b_open = Fin (108 / 100), b_high = Fin (11 / 10), b_low = Fin (107 / 100),
     b_close = Fin (109 / 100)\<rparr>"

lemma sample_fills_sane:
  "integers_in_range sample_fills" "sane_simulator ig_simulator" "sane_instrument eurusd" "finite_bar gap_bar"
  by (simp_all add: integers_in_range_def sample_fills_def sane_simulator_def ig_simulator_def IG_REALISTIC_def base_profile_def
      sane_instrument_def eurusd_def finite_bar_def gap_bar_def bar_post_init_def)

lemma gap_exit:
  "\<exists>x. resolve_exit sample_fills ig_simulator eurusd LONG (Fin 500) gap_bar 7 (Some (Fin (1095 / 1000))) None 0 None None = Inr x
    \<and> xf_exited x \<and> xf_reason x = Some STOP_LOSS \<and> xf_mid_price x = Fin (108 / 100)"
  by (simp add: resolve_exit_def stale_with_def level_hit_def through_def gap_bar_def worse_exit_def py_min_def price_exit_def Let_def
      ig_simulator_def IG_REALISTIC_def base_profile_def half_spread_price_def spread_price_def eurusd_def hour_utc_def ts_hour_def py_max_def in_window_def)

theorem exit_no_better_than_level_witness:
  "\<exists>x. resolve_exit sample_fills ig_simulator eurusd LONG (Fin 500) gap_bar 7 (Some (Fin (1095 / 1000))) None 0 None None = Inr x
    \<and> xf_exit_price x \<le> Fin (1095 / 1000)"
proof -
  obtain x where x: "resolve_exit sample_fills ig_simulator eurusd LONG (Fin 500) gap_bar 7 (Some (Fin (1095 / 1000))) None 0 None None = Inr x"
    "xf_exited x" "xf_reason x = Some STOP_LOSS" using gap_exit by blast
  from exit_no_better_than_level [OF sample_fills_sane(2,3,1,4) _ _ x(1,2)] x show ?thesis by (auto simp: level_hit_def no_better_def)
qed

theorem exit_exactly_when_reached_witness:
  "\<exists>x. resolve_exit sample_fills ig_simulator eurusd LONG (Fin 500) gap_bar 7 (Some (Fin (1095 / 1000))) None 0 None None = Inr x \<and> xf_exited x"
proof -
  obtain x where x: "resolve_exit sample_fills ig_simulator eurusd LONG (Fin 500) gap_bar 7 (Some (Fin (1095 / 1000))) None 0 None None = Inr x"
    using gap_exit by blast
  from exit_exactly_when_reached [OF sample_fills_sane(4) _ _ x] x show ?thesis by (auto simp: level_hit_def touched_def gap_bar_def)
qed

lemma sample_entry:
  "\<exists>e. simulate_entry sample_fills ig_simulator eurusd LONG (Fin 500) gap_bar 6 (Fin (1 / 2)) 0 None None None = Inr e
    \<and> ef_filled e \<and> ef_mid_price e = Fin (108 / 100) \<and> ef_filled_size e = Fin 500"
  by (simp add: simulate_entry_def stale_with_def gap_bar_def ig_simulator_def IG_REALISTIC_def base_profile_def eurusd_def is_fx_def sample_fills_def
      enforce_min_stop_def min_stop_distance_price_def per_class_min_stop_def distance_pips_def Let_def py_max_def priced_entry_def half_spread_price_def
      spread_price_def hour_utc_def ts_hour_def in_window_def)

theorem both_legs_pay_witness:
  "\<exists>e (x :: exit_fill). simulate_entry sample_fills ig_simulator eurusd LONG (Fin 500) gap_bar 6 (Fin (1 / 2)) 0 None None None = Inr e
    \<and> price_exit sample_fills ig_simulator eurusd LONG (Fin 500) gap_bar 9 0 (Fin (11 / 10)) TIME_STOP False False True None False = Inr x
    \<and> price_move_to_quote_ccy eurusd (ef_filled_price e) (xf_exit_price x) (Fin 500) LONG
      + (lg_spread_quote (ef_costs e) + lg_slippage_quote (ef_costs e)) + (lg_spread_quote (xf_costs x) + lg_slippage_quote (xf_costs x)) = Fin 10"
proof -
  obtain e where e: "simulate_entry sample_fills ig_simulator eurusd LONG (Fin 500) gap_bar 6 (Fin (1 / 2)) 0 None None None = Inr e"
    "ef_filled e" "ef_mid_price e = Fin (108 / 100)" "ef_filled_size e = Fin 500" using sample_entry by blast
  have "\<exists>x. price_exit sample_fills ig_simulator eurusd LONG (ef_filled_size e) gap_bar 9 0 (Fin (11 / 10)) TIME_STOP False False True None False = Inr x
      \<and> xf_mid_price x = Fin (11 / 10)"
    by (simp add: price_exit_def Let_def ig_simulator_def IG_REALISTIC_def base_profile_def half_spread_price_def spread_price_def
        eurusd_def hour_utc_def ts_hour_def py_max_def in_window_def gap_bar_def)
  then obtain x where x: "price_exit sample_fills ig_simulator eurusd LONG (ef_filled_size e) gap_bar 9 0 (Fin (11 / 10)) TIME_STOP False False True None False = Inr x"
    "xf_mid_price x = Fin (11 / 10)" by blast
  have "price_move_to_quote_ccy eurusd (Fin (108 / 100)) (Fin (11 / 10)) (Fin 500) LONG = Fin 10"
    by (simp add: price_move_to_quote_ccy_def dir_sign_def eurusd_def)
  with both_legs_pay [OF sample_fills_sane(2,3,1) _ _ _ _ e(1,2) x(1)] x e show ?thesis by auto
qed

end
