(* ===== verification/Sizing_Safety.thy ===== *)
theory Sizing_Safety
  imports Sizing Fill_Safety
begin

text \<open>
  What the sizing rule guarantees: a conversion rate is the latest one known and is fresh, a sized plan stays inside its risk budget
  and its leverage cap up to the stated rounding, and the backtest's sizer gives the same sizes as the portfolio's.
\<close>


section \<open>Rates are current and known\<close>

lemma known_at_props:
  "known_at t s = Inr r \<Longrightarrow> prefix r s \<and> list_all (\<lambda>(k, _). tz_aware k = tz_aware t \<and> ns k \<le> ns t) r"
  by (induction t s arbitrary: r rule: known_at.induct) (auto simp: rbind_eq_Inr ts_le_def split: if_splits)

lemma known_at_latest:
  "known_at t s = Inr r \<Longrightarrow> sorted (map (ns \<circ> fst) s) \<Longrightarrow> (k, v) \<in> set s \<Longrightarrow> ns k \<le> ns t \<Longrightarrow> (k, v) \<in> set r"
  by (induction t s arbitrary: r rule: known_at.induct) (fastforce simp: rbind_eq_Inr ts_le_def split: if_splits)+

text \<open>An observation that is in the series, not in the future of \<open>t\<close>, not older than the staleness, and the latest such one.\<close>

definition current_rate :: "fx_source \<Rightarrow> fx_series \<Rightarrow> tstamp \<Rightarrow> flt \<Rightarrow> bool" where
  "current_rate X s t v \<longleftrightarrow> (\<exists>k. (k, v) \<in> set s \<and> ns k \<le> ns t \<and> ns t - ns k \<le> fx_max_staleness X
     \<and> (\<forall>k' v'. (k', v') \<in> set s \<longrightarrow> ns k' \<le> ns t \<longrightarrow> ns k' \<le> ns k))"

lemma asof_current:
  assumes "asof X s t name = Inr v" "sorted (map (ns \<circ> fst) s)"
  shows "current_rate X s t v"
proof -
  obtain r where r: "known_at t s = Inr r" "r \<noteq> []" "ns t - ns (fst (last r)) \<le> fx_max_staleness X" "v = snd (last r)"
    using assms(1) by (auto simp: asof_def rbind_eq_Inr ts_sub_def split: if_splits)
  note props = known_at_props [OF r(1)]
  have last: "last r \<in> set r" using r(2) by simp
  then have "(fst (last r), v) \<in> set s" "ns (fst (last r)) \<le> ns t"
    using props r(4) by (auto simp: list_all_iff dest: set_mono_prefix)
  moreover have "ns k' \<le> ns (fst (last r))" if "(k', v') \<in> set s" "ns k' \<le> ns t" for k' v'
  proof -
    have "(k', v') \<in> set r" using known_at_latest [OF r(1) assms(2) that] .
    moreover have "sorted (map (ns \<circ> fst) r)" using props assms(2) by (auto elim!: prefixE simp: sorted_append)
    ultimately show ?thesis using r(2) by (cases r rule: rev_cases) (auto simp: sorted_append)
  qed
  ultimately show ?thesis using r(3) unfolding current_rate_def by blast
qed

definition series_sorted :: "fx_source \<Rightarrow> bool" where
  "series_sorted X \<longleftrightarrow> list_all (\<lambda>(_, s). sorted (map (ns \<circ> fst) s)) (fx_series X)"

text \<open>A leg: the current rate of the pair, or the inverse of the current rate of the reversed pair.\<close>

definition leg_rate :: "fx_source \<Rightarrow> string \<Rightarrow> string \<Rightarrow> tstamp \<Rightarrow> flt \<Rightarrow> bool" where
  "leg_rate X f t when v \<longleftrightarrow> (\<exists>s. map_of (fx_series X) (f @ t) = Some s \<and> current_rate X s when v)
     \<or> (\<exists>s r. map_of (fx_series X) (f @ t) = None \<and> map_of (fx_series X) (t @ f) = Some s \<and> current_rate X s when (Fin r) \<and> r \<noteq> 0 \<and> v = Fin (1 / r))"

lemma fx_direct_leg:
  assumes "fx_direct X f t when = Inr (Some (v, route))" "series_sorted X"
  shows "leg_rate X f t when v \<and> route \<in> {Route_direct, Route_inverse}"
proof -
  have sorted: "sorted (map (ns \<circ> fst) s)" if "map_of (fx_series X) k = Some s" for k s
    using assms(2) map_of_SomeD [OF that] by (auto simp: series_sorted_def list_all_iff)
  show ?thesis
    using assms(1) sorted asof_current
    by (auto simp: fx_direct_def leg_rate_def rbind_eq_Inr is_finite_def split: option.splits if_splits flt.splits)
qed

lemma rate_with_route_cases:
  assumes "rate_with_route X f t when = Inr (v, route)" "upper f \<noteq> upper t"
  obtains (direct) "fx_direct X (upper f) (upper t) when = Inr (Some (v, route))"
  | (pivot) p err where "fx_pivot X = Some p" "fx_via_pivot X (upper f) (upper t) (upper p) when err = Inr (Some (v, route))"
      "fx_direct X (upper f) (upper t) when = Inr None \<or> (fx_fallback_via_pivot X \<and> (\<exists>e. fx_direct X (upper f) (upper t) when = Inl e))"
  using assms
  by (auto simp: rate_with_route_def Let_def rbind_eq_Inr split: if_splits sum.splits option.splits)

text \<open>A conversion uses only rates that were known and are fresh. Whatever route answers, each leg is the latest
  observation at or before the time asked about, no older than the staleness allows; a pair that is loaded and
  answers is used before the pivot, and between two different currencies no rate is invented.\<close>

theorem rates_are_known_and_fresh:
  assumes "series_sorted X" "rate_with_route X f t when = Inr (v, route)"
  shows "(upper f = upper t \<and> v = Fin 1 \<and> route = Route_identity)
    \<or> (upper f \<noteq> upper t \<and> leg_rate X (upper f) (upper t) when v \<and> route \<in> {Route_direct, Route_inverse})
    \<or> (upper f \<noteq> upper t \<and> (\<exists>p a b. fx_pivot X = Some p \<and> route = Route_via (lower (upper p)) \<and> v = a * b
         \<and> leg_rate X (upper f) (upper p) when a \<and> leg_rate X (upper p) (upper t) when b
         \<and> (fx_direct X (upper f) (upper t) when = Inr None \<or> (fx_fallback_via_pivot X \<and> (\<exists>e. fx_direct X (upper f) (upper t) when = Inl e)))))"
proof -
  have via: "\<exists>a b. route = Route_via (lower p) \<and> v = a * b \<and> leg_rate X g p when a \<and> leg_rate X p h when b"
    if "fx_via_pivot X g h p when err = Inr (Some (v, route))" for g h p err
    using that fx_direct_leg [OF _ assms(1)]
    by (auto simp: fx_via_pivot_def rbind_eq_Inr split: sum.splits option.splits prod.splits if_splits) blast
  show ?thesis
  proof (cases "upper f = upper t")
    case True
    then show ?thesis using assms(2) by (simp add: rate_with_route_def Let_def)
  next
    case False
    from assms(2) this show ?thesis
    proof (cases rule: rate_with_route_cases)
      case direct
      then show ?thesis using False fx_direct_leg [OF direct assms(1)] by blast
    next
      case (pivot p err)
      then show ?thesis using False via [OF pivot(2)] by blast
    qed
  qed
qed



section \<open>The size\<close>

lemma round_half_even_bound: "\<bar>of_int (round_half_even r) - r\<bar> \<le> 1 / 2"
proof -
  have "of_int (floor r) \<le> r" "r < of_int (floor r) + 1" by linarith+
  then show ?thesis by (auto simp: round_half_even_def Let_def)
qed

lemma py_round_to_bound: "py_round_to 10 (Fin r) = Fin z \<Longrightarrow> z \<le> r + 5 / 10 ^ 11"
proof -
  assume "py_round_to 10 (Fin r) = Fin z"
  then have z: "z = of_int (round_half_even (r * 10 ^ 10)) / 10 ^ 10" by simp
  have "of_int (round_half_even (r * 10 ^ 10)) \<le> r * 10 ^ 10 + 1 / 2" using round_half_even_bound [of "r * 10 ^ 10"] by (simp only: abs_le_iff) linarith
  then have "z \<le> (r * 10 ^ 10 + 1 / 2) / 10 ^ 10" unfolding z by (rule divide_right_mono) simp
  then show ?thesis by (simp add: field_simps)
qed

lemma snap_bound:
  assumes "0 < s" "0 < st" "snap_to_step (Fin s) (Fin st) = Inr y"
  obtains z where "y = Fin z" "0 < z" "z \<le> s + (s + st) / 10 ^ 9"
proof -
  let ?k = "round_half_even (s / st)"
  have mx: "py_max (Fin s) (Fin st) = Fin (max s st)" by (auto simp: py_max_def max_def)
  have "snap_to_step (Fin s) (Fin st) = Inr (if ?k > 0 \<and> \<bar>s - of_int ?k * st\<bar> \<le> 1 / 10 ^ 9 * max s st then Fin (of_int ?k * st) else Fin s)"
    using assms(1,2) by (simp add: snap_to_step_def TINY_def mx Let_def)
  then have y: "y = (if ?k > 0 \<and> \<bar>s - of_int ?k * st\<bar> \<le> 1 / 10 ^ 9 * max s st then Fin (of_int ?k * st) else Fin s)"
    using assms(3) by (simp only: sum.inject)
  have tol: "1 / 10 ^ 9 * max s st \<le> (s + st) / 10 ^ 9" "0 \<le> (s + st) / 10 ^ 9" using assms by simp_all
  show ?thesis
  proof (cases "?k > 0 \<and> \<bar>s - of_int ?k * st\<bar> \<le> 1 / 10 ^ 9 * max s st")
    case True
    then have "of_int ?k * st \<le> s + (s + st) / 10 ^ 9" using tol(1) by linarith
    moreover have "0 < of_int ?k * st" using True assms(2) by simp
    ultimately show ?thesis using that y True by auto
  next
    case False
    then show ?thesis using that y assms(1) tol(2) by auto
  qed
qed

text \<open>Rounding down to the step, with the tolerance of a billionth of a step and the final rounding to ten decimals.\<close>

lemma round_size_bound:
  assumes "0 < s" "i_size_step i = Fin st" "0 < st" "round_size i (Fin s) = Inr y"
  obtains k :: nat and z where "y = Fin z" "y = py_round_to 10 (Fin (of_nat k * st))" "z \<le> s + st / 10 ^ 9 + 5 / 10 ^ 11" "0 \<le> z"
proof -
  let ?k = "floor (s / st + 1 / 10 ^ 9)"
  have k: "0 \<le> ?k" "of_int ?k \<le> s / st + 1 / 10 ^ 9" using assms(1,3) by (simp, linarith)
  have y: "y = py_round_to 10 (Fin (of_int ?k * st))" using assms k(1) by (auto simp: round_size_def TINY_def split: if_splits)
  define z where "z = real_of_int (round_half_even (of_int ?k * st * 10 ^ 10)) / 10 ^ 10"
  have z: "y = Fin z" using y by (simp add: z_def)
  have "of_int ?k * st \<le> (s / st + 1 / 10 ^ 9) * st" using k(2) assms(3) by (intro mult_right_mono) simp_all
  also have "\<dots> = s + st / 10 ^ 9" using assms(3) by (simp add: field_simps)
  finally have "z \<le> s + st / 10 ^ 9 + 5 / 10 ^ 11" using py_round_to_bound [OF trans [OF sym [OF y] z]] by linarith
  moreover have "0 \<le> z"
  proof -
    have "0 \<le> of_int ?k * st * 10 ^ 10" using k(1) assms(3) by simp
    then have "0 \<le> round_half_even (of_int ?k * st * 10 ^ 10)" by (auto simp: round_half_even_def Let_def)
    then show ?thesis by (simp add: z_def)
  qed
  moreover have "y = py_round_to 10 (Fin (of_nat (nat ?k) * st))" using y k(1) by simp
  ultimately show ?thesis using that [of z "nat ?k"] z by blast
qed

lemma final_size_bound:
  assumes "0 < s" "i_size_step i = Fin st" "0 < st" "final_size i (Fin s) = Inr y"
  obtains k :: nat and z where "y = Fin z" "y = py_round_to 10 (Fin (of_nat k * st))" "z \<le> s * (1 + 1 / 10 ^ 9) + st * 2 / 10 ^ 9 + 5 / 10 ^ 11" "0 \<le> z"
proof -
  obtain x where x: "snap_to_step (Fin s) (Fin st) = Inr x" "round_size i x = Inr y"
    using assms(2,4) by (auto simp: final_size_def rbind_eq_Inr)
  obtain w where w: "x = Fin w" "0 < w" "w \<le> s + (s + st) / 10 ^ 9" using snap_bound [OF assms(1,3) x(1)] .
  obtain k :: nat and z where z: "y = Fin z" "y = py_round_to 10 (Fin (of_nat k * st))" "z \<le> w + st / 10 ^ 9 + 5 / 10 ^ 11" "0 \<le> z"
    using round_size_bound [OF w(2) assms(2,3)] x(2) w(1) by blast
  have "s + (s + st) / 10 ^ 9 + st / 10 ^ 9 = s * (1 + 1 / 10 ^ 9) + st * 2 / 10 ^ 9" by (simp add: field_simps)
  then show ?thesis using that [OF z(1,2) _ z(4)] w(3) z(3) by linarith
qed

text \<open>How much the two tolerances of the rounding can add, in units.\<close>

definition units_slack :: "real \<Rightarrow> real" where
  "units_slack step = step * 2 / 10 ^ 9 + 5 / 10 ^ 11"

lemma size_trade_plan:
  assumes "size_trade s i a fx p weight ccy pid = Inr z" "zo_plan z = Some plan"
  obtains cost raw capped sz where "cost_per_unit p i s = Inr cost" "\<not> (stop_distance s + cost) * i_contract_size i * fx \<le> Fin 0"
    "\<not> ac_equity a * sp_risk_fraction p * weight \<le> Fin 0" "\<not> ac_equity a \<le> Fin 0"
    "py_div (ac_equity a * sp_risk_fraction p * weight) ((stop_distance s + cost) * i_contract_size i * fx) = Inr raw"
    "capped_size raw (ac_equity a) (leverage_for (sp_max_leverage p) i) (sg_reference_price s * i_contract_size i * fx) = Inr capped"
    "final_size i capped = Inr sz" "\<not> sz \<le> Fin 0" "\<not> sz < i_min_size i" "pl_size plan = sz"
    "pl_risk_amount plan = (stop_distance s + cost) * sz * i_contract_size i * fx"
  using assms by (auto simp: size_trade_def Let_def rbind_eq_Inr plan_post_init_def split: if_splits)

text \<open>C17: a sized plan stays inside its budget. On finite inputs the size is a positive number of steps (rounded to ten decimals)
  not below the minimum, the recorded risk is the loss at the stop with its costs for that size, and neither the risk budget
  \<open>equity * risk_fraction * weight\<close> nor the leverage cap is exceeded by more than a billionth of itself and the risk (or
  notional) of two billionths of a step and half the last of the ten decimals.\<close>

theorem sized_within_budget:
  assumes "size_trade s i a fx p weight ccy pid = Inr z" "zo_plan z = Some plan"
    and "ac_equity a = Fin eq" "sp_risk_fraction p = Fin fr" "weight = Fin w" "fx = Fin f" "i_contract_size i = Fin c"
    and "i_size_step i = Fin st" "0 < st" "sg_reference_price s = Fin rf" "sg_stop_price s = Fin sp" "cost_per_unit p i s = Inr (Fin cost)"
    and "leverage_for (sp_max_leverage p) i = Fin lv" "0 < lv"
    and "per_unit = (\<bar>rf - sp\<bar> + cost) * c * f" "npu = rf * c * f"
  shows "\<exists>sz (k :: nat). pl_size plan = Fin sz \<and> Fin sz = py_round_to 10 (Fin (of_nat k * st)) \<and> 0 < sz \<and> \<not> Fin sz < i_min_size i
    \<and> pl_risk_amount plan = Fin (per_unit * sz) \<and> per_unit * sz \<le> eq * fr * w * (1 + 1 / 10 ^ 9) + per_unit * units_slack st
    \<and> (0 < npu \<longrightarrow> npu * sz \<le> eq * lv * (1 + 1 / 10 ^ 9) + npu * units_slack st)"
proof -
  have fin: "(stop_distance s + Fin cost) * i_contract_size i * fx = Fin per_unit" "ac_equity a * sp_risk_fraction p * weight = Fin (eq * fr * w)"
    "sg_reference_price s * i_contract_size i * fx = Fin npu"
    by (simp_all add: assms(3-16) stop_distance_def)
  obtain cost' raw capped szf where c: "cost_per_unit p i s = Inr cost'"
    and t: "\<not> (stop_distance s + cost') * i_contract_size i * fx \<le> Fin 0" "\<not> ac_equity a * sp_risk_fraction p * weight \<le> Fin 0" "\<not> ac_equity a \<le> Fin 0"
      "py_div (ac_equity a * sp_risk_fraction p * weight) ((stop_distance s + cost') * i_contract_size i * fx) = Inr raw"
      "capped_size raw (ac_equity a) (leverage_for (sp_max_leverage p) i) (sg_reference_price s * i_contract_size i * fx) = Inr capped"
      "final_size i capped = Inr szf" "\<not> szf \<le> Fin 0" "\<not> szf < i_min_size i" "pl_size plan = szf"
      "pl_risk_amount plan = (stop_distance s + cost') * szf * i_contract_size i * fx"
    by (rule size_trade_plan [OF assms(1,2)])
  have cost': "cost' = Fin cost" using c assms(12) by simp
  note t = t [unfolded cost' fin, unfolded assms(3,13)]
  have pos: "0 < per_unit" "0 < eq * fr * w" "0 < eq" using t(1-3) by simp_all
  have raw: "raw = Fin (eq * fr * w / per_unit)" using t(4) pos(1) by simp
  define cap where "cap = (if 0 < npu then min (eq * fr * w / per_unit) (eq * lv / npu) else eq * fr * w / per_unit)"
  have capped: "capped = Fin cap" using t(5) raw by (auto simp: capped_size_def cap_def py_min_def min_def split: if_splits)
  have cap: "0 < cap" "cap \<le> eq * fr * w / per_unit" "0 < npu \<Longrightarrow> cap \<le> eq * lv / npu"
    using pos assms(14) by (simp_all add: cap_def)
  obtain k :: nat and sz where sz: "szf = Fin sz" "szf = py_round_to 10 (Fin (of_nat k * st))"
      "sz \<le> cap * (1 + 1 / 10 ^ 9) + st * 2 / 10 ^ 9 + 5 / 10 ^ 11"
    using final_size_bound [OF cap(1) assms(8,9)] t(6) capped by blast
  have bound: "x * sz \<le> y * (1 + 1 / 10 ^ 9) + x * units_slack st" if "0 < x" "cap \<le> y / x" for x y
  proof -
    have "sz \<le> y / x * (1 + 1 / 10 ^ 9) + units_slack st"
      using sz(3) mult_right_mono [OF that(2), of "1 + 1 / 10 ^ 9"] by (simp add: units_slack_def)
    from mult_left_mono [OF this, of x] that(1) show ?thesis by (simp add: algebra_simps)
  qed
  have "0 < sz" using t(7) sz(1) by simp
  moreover have "pl_risk_amount plan = Fin (per_unit * sz)" using t(10) sz(1) by (simp add: assms stop_distance_def algebra_simps)
  ultimately show ?thesis
    using bound [OF pos(1) cap(2)] bound [OF _ cap(3)] t(8,9) sz(1,2) by (intro exI [of _ sz] exI [of _ k]) auto
qed


section \<open>The two sizers\<close>

definition same_sizing :: "sizing_policy \<Rightarrow> flt \<Rightarrow> fractional_sizer \<Rightarrow> bool" where
  "same_sizing p weight z \<longleftrightarrow> ff_risk_fraction z = sp_risk_fraction p \<and> ff_max_leverage z = sp_max_leverage p
     \<and> ff_policy_id z = sp_policy_id p \<and> ff_cost_profile z = sp_cost_profile p \<and> ff_portfolio_weight z = weight"

lemma per_unit_price_shared:
  "(case resolved_cost_profile (sp_policy_id p) (sp_cost_profile p) of None \<Rightarrow> Inr (Fin d)
      | Some pf \<Rightarrow> rbind (stop_out_cost_per_unit pf i s) (\<lambda>c. Inr (Fin d + c)))
   = rbind (cost_per_unit p i s) (\<lambda>c. Inr (Fin d + c))"
  by (simp add: cost_per_unit_def split: option.split)

lemma rbind_cong_cont: "(\<And>x. m = Inr x \<Longrightarrow> f x = g x) \<Longrightarrow> rbind m f = rbind m g"
  by (cases m) simp_all

lemma rbind_assoc: "rbind (rbind m f) g = rbind m (\<lambda>x. rbind (f x) g)"
  by (cases m) simp_all

text \<open>The backtest and the portfolio size alike. On an account with positive equity, a positive rate and a positive weight,
  the two sizers with the same parameters raise the same error or give the same size, except that the portfolio's
  answers zero for a size below the instrument's minimum.\<close>

theorem sizers_agree:
  assumes "same_sizing p weight z" "Fin 0 < ac_equity a" "Fin 0 < fx" "Fin 0 < weight" "stop_distance s = Fin d"
  shows "portfolio_size_for p weight pid s i a fx
    = rbind (fractional_size_for z s i a fx) (\<lambda>sz. Inr (if sz \<le> Fin 0 \<or> sz < i_min_size i then Fin 0 else sz))"
proof -
  have guards: "\<not> ac_equity a \<le> Fin 0" "flt_eq fx fx" "\<not> weight \<le> Fin 0"
    using assms(2-4) by (cases "ac_equity a"; cases fx; cases weight; simp)+
  show ?thesis
    using assms(1) guards assms(3)
    by (simp add: same_sizing_def portfolio_size_for_def size_trade_def fractional_size_for_def assms(5) per_unit_price_shared Let_def)
      (auto simp: rbind_assoc plan_post_init_def Let_def intro!: rbind_cong_cont)
qed



section \<open>Samples\<close>

text \<open>Ten thousand at half a percent of risk: a stop 0.1 away gives five hundred units.\<close>

definition half_percent :: sizing_policy where
  "half_percent = \<lparr>sp_risk_fraction = Fin (1 / 200), sp_max_leverage = None, sp_policy_id = SIZING_POLICY_V1, sp_cost_profile = None\<rparr>"

definition half_percent_sizer :: fractional_sizer where
  "half_percent_sizer = \<lparr>ff_risk_fraction = Fin (1 / 200), ff_max_leverage = None, ff_policy_id = SIZING_POLICY_V1, ff_cost_profile = None,
     ff_portfolio_weight = Fin 1\<rparr>"

definition ten_thousand :: account_state where
  "ten_thousand = \<lparr>ac_balance = Fin 10000, ac_equity = Fin 10000, ac_currency = ''USD'', ac_margin_used = Fin 0, ac_open_positions = 0,
     ac_realised_pnl = Fin 0, ac_unrealised_pnl = Fin 0, ac_peak_equity = Fin 10000\<rparr>"

lemmas sizing_sample = half_percent_def half_percent_sizer_def ten_thousand_def eurusd_def sample_signal_def

lemma half_percent_final: "final_size eurusd (Fin 500) = Inr (Fin 500)"
proof -
  have "floor (500 + 1 / 10 ^ 9 :: real) = 500" by (simp add: floor_eq_iff)
  then show ?thesis
    by (simp add: final_size_def snap_to_step_def round_size_def eurusd_def TINY_def py_max_def round_half_even_def Let_def)
qed

lemma half_percent_cost: "cost_per_unit half_percent i s = Inr (Fin 0)"
  by (simp add: cost_per_unit_def resolved_cost_profile_def half_percent_def)

lemma half_percent_plan:
  "\<exists>z plan. size_trade sample_signal eurusd ten_thousand (Fin 1) half_percent (Fin 1) None ''p'' = Inr z \<and> zo_plan z = Some plan \<and> pl_size plan = Fin 500"
proof -
  have "capped_size (Fin 500) (Fin 10000) (leverage_for None eurusd) (Fin (11 / 10)) = Inr (Fin 500)"
    by (simp add: capped_size_def leverage_for_def eurusd_def py_min_def)
  then show ?thesis
    using half_percent_final half_percent_cost
    by (simp add: size_trade_def Let_def stop_distance_def sizing_sample plan_post_init_def)
qed

theorem sized_within_budget_witness:
  "\<exists>z plan sz. size_trade sample_signal eurusd ten_thousand (Fin 1) half_percent (Fin 1) None ''p'' = Inr z \<and> zo_plan z = Some plan
     \<and> pl_risk_amount plan = Fin (1 / 10 * sz) \<and> 1 / 10 * sz \<le> 50 * (1 + 1 / 10 ^ 9) + 1 / 10 * units_slack 1"
proof -
  obtain z plan where p: "size_trade sample_signal eurusd ten_thousand (Fin 1) half_percent (Fin 1) None ''p'' = Inr z" "zo_plan z = Some plan"
    using half_percent_plan by blast
  from sized_within_budget [OF p, where eq = 10000 and fr = "1 / 200" and w = 1 and f = 1 and c = 1 and st = 1 and rf = "11 / 10" and sp = 1
      and cost = 0 and lv = 30 and per_unit = "1 / 10" and npu = "11 / 10"] p half_percent_cost
  show ?thesis by (auto simp: sizing_sample leverage_for_def)
qed

theorem sizers_agree_witness:
  "portfolio_size_for half_percent (Fin 1) ''p'' sample_signal eurusd ten_thousand (Fin 1) = Inr (Fin 500)
    \<and> fractional_size_for half_percent_sizer sample_signal eurusd ten_thousand (Fin 1) = Inr (Fin 500)"
proof -
  have "capped_size (Fin 500) (Fin 10000) (leverage_for None eurusd) (Fin (11 / 10)) = Inr (Fin 500)"
    by (simp add: capped_size_def leverage_for_def eurusd_def py_min_def)
  then have f: "fractional_size_for half_percent_sizer sample_signal eurusd ten_thousand (Fin 1) = Inr (Fin 500)"
    using half_percent_final
    by (simp add: fractional_size_for_def Let_def stop_distance_def sizing_sample resolved_cost_profile_def)
  have "portfolio_size_for half_percent (Fin 1) ''p'' sample_signal eurusd ten_thousand (Fin 1)
    = rbind (fractional_size_for half_percent_sizer sample_signal eurusd ten_thousand (Fin 1)) (\<lambda>sz. Inr (if sz \<le> Fin 0 \<or> sz < i_min_size eurusd then Fin 0 else sz))"
    by (rule sizers_agree [where d = "1 / 10"]) (simp_all add: same_sizing_def sizing_sample stop_distance_def)
  then show ?thesis using f by (simp add: eurusd_def)
qed

text \<open>Euros to pounds through the dollar: the pound's series quotes the dollar, so its leg is inverted.\<close>

definition dollar_rates :: fx_source where
  "dollar_rates = \<lparr>fx_series = [(''EURUSD'', [(utc 0, Fin (11 / 10)), (utc 90, Fin 2)]), (''GBPUSD'', [(utc 5, Fin (5 / 4))])],
     fx_max_staleness = 100, fx_pivot = Some ''USD'', fx_fallback_via_pivot = False\<rparr>"

lemma ccy_chars:
  "upper_char CHR ''E'' = CHR ''E''" "upper_char CHR ''U'' = CHR ''U''" "upper_char CHR ''R'' = CHR ''R''" "upper_char CHR ''G'' = CHR ''G''" "upper_char CHR ''B'' = CHR ''B''" "upper_char CHR ''P'' = CHR ''P''" "upper_char CHR ''S'' = CHR ''S''" "upper_char CHR ''D'' = CHR ''D''"
  "lower_char CHR ''U'' = CHR ''u''" "lower_char CHR ''S'' = CHR ''s''" "lower_char CHR ''D'' = CHR ''d''"
  by code_simp+

theorem rates_are_known_and_fresh_witness:
  "\<exists>a b. rate_with_route dollar_rates ''EUR'' ''GBP'' (utc 50) = Inr (a * b, Route_via ''usd'')
    \<and> leg_rate dollar_rates ''EUR'' ''USD'' (utc 50) a \<and> leg_rate dollar_rates ''USD'' ''GBP'' (utc 50) b"
proof -
  have r: "\<exists>v. rate_with_route dollar_rates ''EUR'' ''GBP'' (utc 50) = Inr (v, Route_via ''usd'')"
    by (simp add: rate_with_route_def ccy_chars Let_def fx_direct_def fx_via_pivot_def dollar_rates_def asof_def ts_le_def ts_sub_def is_finite_def)
  then obtain v where v: "rate_with_route dollar_rates ''EUR'' ''GBP'' (utc 50) = Inr (v, Route_via ''usd'')" ..
  have "series_sorted dollar_rates" by (simp add: series_sorted_def dollar_rates_def)
  from rates_are_known_and_fresh [OF this v] v show ?thesis by (auto simp: ccy_chars dollar_rates_def)
qed

end
