(* ===== verification/Exit_Policy.thy ===== *)
theory Exit_Policy
  imports Sizing Instrument_Locks
begin

text \<open>
  The exit vocabulary of \<open>backtest/exits.py\<close>: trailing rules, reversal modes, event blackouts and the policy that collects
  them, with their constructor checks. The builder that reads a strategy document and the fingerprints are left out.

  The calendar behind a blackout and the calendar arithmetic of pandas (the last day of a month) are arguments.
\<close>

section \<open>Trailing\<close>

datatype trail_kind = TRAIL_NONE | ATR_CHANDELIER | FIXED_DISTANCE | PERCENT | INDICATOR_LINE | BREAKEVEN_AFTER_R

record trail_spec =
  tp_kind :: trail_kind
  tp_value :: flt
  tp_activate_after_r :: flt
  tp_atr_column :: "string option"
  tp_level_column :: "string option"

definition column_missing :: "string option \<Rightarrow> bool" where
  "column_missing c \<longleftrightarrow> c = None \<or> c = Some []"

definition trail_post_init :: "trail_spec \<Rightarrow> pyexn + trail_spec" where
  "trail_post_init t =
     (if tp_value t < Fin 0 then Inl (ValueError (lit ''TrailSpec.value must be >= 0''))
      else if tp_activate_after_r t < Fin 0 then Inl (ValueError (lit ''TrailSpec.activate_after_r must be >= 0''))
      else if tp_kind t = ATR_CHANDELIER \<and> column_missing (tp_atr_column t)
        then Inl (ValueError (lit ''atr_chandelier trailing needs an atr_column''))
      else if tp_kind t = ATR_CHANDELIER \<and> tp_value t \<le> Fin 0
        then Inl (ValueError (lit ''atr_chandelier trailing needs value > 0''))
      else if tp_kind t = INDICATOR_LINE \<and> column_missing (tp_level_column t)
        then Inl (ValueError (lit ''indicator_line trailing needs a level_column''))
      else if tp_kind t \<in> {FIXED_DISTANCE, PERCENT} \<and> tp_value t \<le> Fin 0
        then Inl (ValueError (lit ''trailing needs value > 0''))
      else Inr t)"

definition trail_active :: "trail_spec \<Rightarrow> bool" where
  "trail_active t \<longleftrightarrow> tp_kind t \<noteq> TRAIL_NONE"

definition trail_columns :: "trail_spec \<Rightarrow> string list" where
  "trail_columns t = [the c. c \<leftarrow> [tp_atr_column t, tp_level_column t], \<not> column_missing c]"

text \<open>The level a rule proposes on a closed bar; \<open>None\<close> leaves the stop alone. \<open>sg\<close> is 1 for a long and -1 for a short.\<close>

definition trail_candidate :: "trail_spec \<Rightarrow> real \<Rightarrow> flt \<Rightarrow> flt \<Rightarrow> flt \<Rightarrow> flt \<Rightarrow> flt option" where
  "trail_candidate t sg extreme cls atr level =
     (case tp_kind t of
        ATR_CHANDELIER \<Rightarrow> if \<not> is_finite atr \<or> atr \<le> Fin 0 then None else Some (extreme - Fin sg * tp_value t * atr)
      | FIXED_DISTANCE \<Rightarrow> Some (extreme - Fin sg * tp_value t)
      | PERCENT \<Rightarrow> Some (extreme * (Fin 1 - Fin sg * tp_value t * Fin (1 / 100)))
      | INDICATOR_LINE \<Rightarrow> if \<not> is_finite level then None else Some level
      | _ \<Rightarrow> None)"

definition NO_TRAIL :: trail_spec where
  "NO_TRAIL = \<lparr>tp_kind = TRAIL_NONE, tp_value = Fin 0, tp_activate_after_r = Fin 0, tp_atr_column = None, tp_level_column = None\<rparr>"


section \<open>Reversals and events\<close>

datatype reversal_mode = REV_IGNORE | REV_CLOSE_ONLY | REV_REVERSE

record event_blackout =
  eb_minutes_before :: int
  eb_minutes_after :: int
  eb_blocked_event_tags :: "string list"
  eb_avoid_month_end :: bool
  eb_avoid_rollover_hour :: bool
  eb_min_impact :: string

definition blackout_post_init :: "event_blackout \<Rightarrow> pyexn + event_blackout" where
  "blackout_post_init e =
     (if eb_minutes_before e < 0 \<or> eb_minutes_after e < 0 then Inl (ValueError (lit ''blackout margins must be non-negative'')) else Inr e)"

definition queries_calendar :: "event_blackout \<Rightarrow> bool" where
  "queries_calendar e \<longleftrightarrow> eb_minutes_before e > 0 \<or> eb_minutes_after e > 0"

definition blackout_active :: "event_blackout \<Rightarrow> bool" where
  "blackout_active e \<longleftrightarrow> queries_calendar e \<or> eb_avoid_month_end e \<or> eb_avoid_rollover_hour e"

text \<open>\<open>BlackoutSource.in_blackout\<close>: instrument, time, minutes before, minutes after, least impact.\<close>

type_synonym blackout_source = "string \<Rightarrow> tstamp \<Rightarrow> int \<Rightarrow> int \<Rightarrow> string \<Rightarrow> pyexn + bool"

definition blocks :: "(tstamp \<Rightarrow> bool) \<Rightarrow> event_blackout \<Rightarrow> string \<Rightarrow> tstamp \<Rightarrow> int \<Rightarrow> blackout_source option \<Rightarrow> pyexn + string option" where
  "blocks is_month_end e instr t rollover_hour calendar =
     (if eb_avoid_rollover_hour e \<and> ts_hour t = rollover_hour then Inr (Some ''rollover_hour'')
      else if eb_avoid_month_end e \<and> is_month_end t then Inr (Some ''month_end'')
      else case calendar of
        Some cal \<Rightarrow>
          if queries_calendar e then
            rbind (cal instr t (eb_minutes_before e) (eb_minutes_after e) (eb_min_impact e)) (\<lambda>blocked.
              Inr (if blocked then Some ''event_blackout'' else None))
          else Inr None
      | None \<Rightarrow> Inr None)"


section \<open>The policy\<close>

record exit_policy =
  ep_allocations :: "flt list"
  ep_trailing :: trail_spec
  ep_breakeven_at_r :: "flt option"
  ep_max_bars_in_trade :: "int option"
  ep_cooldown_bars_after_exit :: int
  ep_reversal :: reversal_mode
  ep_events :: "event_blackout option"
  ep_locks :: "lock_policy option"

definition exit_policy_post_init :: "exit_policy \<Rightarrow> pyexn + exit_policy" where
  "exit_policy_post_init p =
     (if list_ex (\<lambda>a. a \<le> Fin 0 \<or> a > Fin 1) (ep_allocations p) then Inl (ValueError (lit ''every allocation must lie in (0, 1]''))
      else if flt_sum (ep_allocations p) > Fin 1 + TINY then Inl (ValueError (lit ''allocations sum to more than 1.0''))
      else if (case ep_breakeven_at_r p of Some r \<Rightarrow> r < Fin 0 | None \<Rightarrow> False) then Inl (ValueError (lit ''breakeven_at_r must be >= 0''))
      else if (case ep_max_bars_in_trade p of Some n \<Rightarrow> n < 1 | None \<Rightarrow> False) then Inl (ValueError (lit ''max_bars_in_trade must be >= 1''))
      else if ep_cooldown_bars_after_exit p < 0 then Inl (ValueError (lit ''cooldown_bars_after_exit must be >= 0''))
      else Inr p)"

definition needs_series :: "exit_policy \<Rightarrow> string list" where
  "needs_series p = trail_columns (ep_trailing p)"

definition DEFAULT_EXIT_POLICY :: exit_policy where
  "DEFAULT_EXIT_POLICY =
     \<lparr>ep_allocations = [], ep_trailing = NO_TRAIL, ep_breakeven_at_r = None, ep_max_bars_in_trade = None, ep_cooldown_bars_after_exit = 0,
      ep_reversal = REV_IGNORE, ep_events = None, ep_locks = None\<rparr>"

end
