(* ===== verification/Position_Book.thy ===== *)
theory Position_Book
  imports Exit_Policy
begin

text \<open>
  The position book of \<open>backtest/position.py\<close>, which the backtest, the paper venue and the live position manager share: scale-out
  legs, financing nights, the four phases of a bar (financing, scheduled closes, entries, exits), flattening and marking.

  What the constructor stores and nothing changes is \<open>book_env\<close>, with the rate source, the blackout calendar and the random part of
  a position identifier as arguments; what changes is \<open>book\<close>. A managed position is an object the code mutates in place; it is known
  by its sequence number. A raise leaves no book: what the code leaves half done at a raise is not modelled. \<open>Trade.trade_id\<close>,
  a random identifier, is left out. The encoding of a book for a restart is in \<open>Book_State\<close>.
\<close>

section \<open>Scale-out legs\<close>

record take_profit_leg =
  tl_price :: flt
  tl_size :: flt

definition DUST :: flt where
  "DUST = Fin (1 / 10 ^ 12)"

text \<open>The loop of \<open>plan_legs\<close>; \<open>zip(..., strict=True)\<close> raises where one list ends before the other.\<close>

fun plan_loop :: "instrument \<Rightarrow> flt \<Rightarrow> bool \<Rightarrow> flt \<Rightarrow> flt list \<Rightarrow> flt list \<Rightarrow> pyexn + take_profit_leg list" where
  "plan_loop i filled closes_everything allocated [] [] = Inr []"
| "plan_loop i filled closes_everything allocated (p # ps) (a # as) =
     rbind (if ps = [] \<and> closes_everything then Inr (filled - allocated)
            else rbind (snap_to_step (filled * a) (i_size_step i)) (round_size i)) (\<lambda>wanted.
       let sz = py_min wanted (filled - allocated) in
       if sz \<le> Fin 0 then plan_loop i filled closes_everything allocated ps as
       else if allocated + sz \<ge> filled - DUST then Inr [\<lparr>tl_price = p, tl_size = sz\<rparr>]
       else rbind (plan_loop i filled closes_everything (allocated + sz) ps as) (\<lambda>legs. Inr (\<lparr>tl_price = p, tl_size = sz\<rparr> # legs)))"
| "plan_loop i filled closes_everything allocated _ _ = Inl (ValueError (lit ''zip() arguments differ in length''))"

definition plan_legs :: "instrument \<Rightarrow> flt \<Rightarrow> flt list \<Rightarrow> flt list \<Rightarrow> pyexn + take_profit_leg list" where
  "plan_legs i filled prices allocations =
     (if prices = [] then Inr []
      else if allocations = [] then Inr [\<lparr>tl_price = hd prices, tl_size = filled\<rparr>]
      else plan_loop i filled (flt_sum allocations \<ge> Fin 1 - TINY) (Fin 0) prices allocations)"


section \<open>Financing nights\<close>

definition DAY_NS :: int where
  "DAY_NS = 86400000000000"

definition HOUR_NS :: int where
  "HOUR_NS = 3600000000000"

text \<open>The first crossing of the rollover hour after \<open>last\<close>.\<close>

definition first_rollover :: "tstamp \<Rightarrow> int \<Rightarrow> int" where
  "first_rollover t rollover_hour =
     (let anchor = ns t div DAY_NS * DAY_NS + rollover_hour * HOUR_NS in if anchor \<le> ns t then anchor + DAY_NS else anchor)"

definition nights_between :: "tstamp \<Rightarrow> tstamp \<Rightarrow> int \<Rightarrow> pyexn + int" where
  "nights_between last' now rollover_hour =
     rbind (ts_le now last') (\<lambda>le.
       if le then Inr 0
       else let anchor = first_rollover last' rollover_hour in
         if anchor > ns now then Inr 0 else Inr ((ns now - anchor) div DAY_NS + 1))"

text \<open>\<open>Timestamp.dayofweek\<close> of an instant in nanoseconds: Monday is 0; the epoch was a Thursday.\<close>

definition day_of_week :: "int \<Rightarrow> int" where
  "day_of_week n = (n div DAY_NS + 3) mod 7"

fun triple_rollover_weekday :: "asset_class \<Rightarrow> int option" where
  "triple_rollover_weekday FX_MAJOR = Some 2"
| "triple_rollover_weekday FX_CROSS = Some 2"
| "triple_rollover_weekday METAL = Some 2"
| "triple_rollover_weekday INDEX = Some 4"
| "triple_rollover_weekday ENERGY = Some 4"
| "triple_rollover_weekday EQUITY = Some 4"
| "triple_rollover_weekday CRYPTO = None"
| "triple_rollover_weekday BOND = None"
| "triple_rollover_weekday COMMODITY = None"

definition night_weight :: "int \<Rightarrow> int \<Rightarrow> int" where
  "night_weight triple dow = (if dow \<ge> 5 then 0 else if dow = triple then 3 else 1)"

fun weigh_nights :: "int \<Rightarrow> int \<Rightarrow> nat \<Rightarrow> int" where
  "weigh_nights triple first_dow 0 = 0"
| "weigh_nights triple first_dow (Suc k) = weigh_nights triple first_dow k + night_weight triple ((first_dow + int k) mod 7)"

definition financing_nights :: "tstamp \<Rightarrow> tstamp \<Rightarrow> int \<Rightarrow> asset_class \<Rightarrow> pyexn + int" where
  "financing_nights last' now rollover_hour cls =
     rbind (nights_between last' now rollover_hour) (\<lambda>count.
       if count = 0 then Inr 0
       else case triple_rollover_weekday cls of
         None \<Rightarrow> Inr count
       | Some triple \<Rightarrow> Inr (weigh_nights triple (day_of_week (first_rollover last' rollover_hour)) (nat count)))"


section \<open>Ledger shapes\<close>

record cost_breakdown =
  cb_spread :: flt
  cb_commission :: flt
  cb_slippage :: flt
  cb_financing :: flt
  cb_guaranteed_stop_premium :: flt
  cb_entry_leg_spread :: flt
  cb_exit_leg_spread :: flt

definition cost_total :: "cost_breakdown \<Rightarrow> flt" where
  "cost_total c = cb_spread c + cb_commission c + cb_slippage c + cb_financing c + cb_guaranteed_stop_premium c"

definition no_breakdown :: cost_breakdown where
  "no_breakdown = \<lparr>cb_spread = Fin 0, cb_commission = Fin 0, cb_slippage = Fin 0, cb_financing = Fin 0, cb_guaranteed_stop_premium = Fin 0,
     cb_entry_leg_spread = Fin 0, cb_exit_leg_spread = Fin 0\<rparr>"

text \<open>The dictionary of \<open>_costs_to_account\<close>.\<close>

record account_costs =
  at_spread :: flt
  at_commission :: flt
  at_slippage :: flt
  at_premium :: flt

definition no_account_costs :: account_costs where
  "no_account_costs = \<lparr>at_spread = Fin 0, at_commission = Fin 0, at_slippage = Fin 0, at_premium = Fin 0\<rparr>"

fun exit_reason_value :: "exit_reason \<Rightarrow> string" where
  "exit_reason_value STOP_LOSS = ''stop_loss''"
| "exit_reason_value TAKE_PROFIT = ''take_profit''"
| "exit_reason_value TRAILING_STOP = ''trailing_stop''"
| "exit_reason_value BREAKEVEN = ''breakeven''"
| "exit_reason_value TIME_STOP = ''time_stop''"
| "exit_reason_value OPPOSITE_SIGNAL = ''opposite_signal''"
| "exit_reason_value INVALIDATION = ''invalidation''"
| "exit_reason_value SESSION_CLOSE = ''session_close''"
| "exit_reason_value RISK_HALT = ''risk_halt''"
| "exit_reason_value END_OF_DATA = ''end_of_data''"
| "exit_reason_value MARGIN_CALL = ''margin_call''"

fun reject_reason_value :: "reject_reason \<Rightarrow> string" where
  "reject_reason_value MARKET_CLOSED = ''market_closed''"
| "reject_reason_value STALE_PRICE = ''stale_price''"
| "reject_reason_value MIN_STOP_DISTANCE = ''min_stop_distance''"
| "reject_reason_value MIN_DEAL_SIZE = ''min_deal_size''"
| "reject_reason_value BROKER_REJECT = ''broker_reject''"
| "reject_reason_value SIZE_NOT_POSITIVE = ''size_not_positive''"

record exit_leg =
  xl_position_seq :: int
  xl_instrument :: string
  xl_direction :: string
  xl_ordinal :: int
  xl_size :: flt
  xl_exit_price :: flt
  xl_exit_time :: tstamp
  xl_exit_reason :: string
  xl_gross_pnl :: flt
  xl_spread_cost :: flt
  xl_commission :: flt
  xl_slippage_cost :: flt
  xl_financing_cost :: flt
  xl_net_pnl :: flt
  xl_final :: bool

datatype provenance = PV_BACKTEST | PV_WALKFORWARD | PV_OUT_OF_SAMPLE | PV_HOLDOUT | PV_PAPER | PV_SHADOW | PV_BROKER_DEMO

record trade =
  td_instrument :: string
  td_direction :: direction
  td_size :: flt
  td_entry_price :: flt
  td_exit_price :: flt
  td_entry_time :: tstamp
  td_exit_time :: tstamp
  td_exit_reason :: exit_reason
  td_gross_pnl :: flt
  td_spread_cost :: flt
  td_commission :: flt
  td_slippage_cost :: flt
  td_financing_cost :: flt
  td_net_pnl :: flt
  td_account_ccy :: string
  td_strategy_id :: string
  td_bars_held :: int
  td_max_adverse_excursion :: flt
  td_max_favourable_excursion :: flt
  td_provenance :: provenance
  td_fx_rate_used :: flt
  td_initial_stop :: "flt option"
  td_final_stop :: "flt option"
  td_take_profit_targets :: "flt list"
  td_stop_moved_by :: string


section \<open>Positions and orders\<close>

text \<open>What the caller attached: nothing, a broker reference, or another object.\<close>

datatype caller_ref = Ref_none | Ref_str string | Ref_object nat

record managed =
  mp_seq :: int
  mp_position :: position
  mp_instrument :: instrument
  mp_entry_mid :: flt
  mp_entry_bar_index :: int
  mp_take_profit :: "flt option"
  mp_entry_costs_account :: account_costs
  mp_financing_account :: flt
  mp_last_financing_time :: "tstamp option"
  mp_entry_fx :: flt
  mp_entry_size :: flt
  mp_legs :: "take_profit_leg list"
  mp_next_leg :: nat
  mp_risk_per_unit :: flt
  mp_initial_stop :: flt
  mp_extreme :: flt
  mp_breakeven_done :: bool
  mp_stop_trailed :: bool
  mp_stop_moved_by :: string
  mp_reversal_pending :: bool
  mp_realised_gross :: flt
  mp_realised_spread :: flt
  mp_realised_commission :: flt
  mp_realised_slippage :: flt
  mp_realised_financing :: flt
  mp_realised_net :: flt
  mp_exit_value :: flt
  mp_n_legs_closed :: int
  mp_single_leg_exit_mid :: flt
  mp_ref :: caller_ref

abbreviation mp_size :: "managed \<Rightarrow> flt" where "mp_size op \<equiv> ps_size (mp_position op)"
abbreviation mp_symbol :: "managed \<Rightarrow> string" where "mp_symbol op \<equiv> ps_instrument (mp_position op)"
abbreviation mp_direction :: "managed \<Rightarrow> direction" where "mp_direction op \<equiv> ps_direction (mp_position op)"
abbreviation mp_stop :: "managed \<Rightarrow> flt option" where "mp_stop op \<equiv> ps_stop_loss (mp_position op)"

definition update_extreme :: "bar \<Rightarrow> managed \<Rightarrow> managed" where
  "update_extreme b op =
     (let best = (if mp_direction op = LONG then b_high b else b_low b) in
      op\<lparr>mp_extreme := (if \<not> is_finite (mp_extreme op) then best
         else if mp_direction op = LONG then py_max (mp_extreme op) best else py_min (mp_extreme op) best)\<rparr>)"

definition active_target :: "managed \<Rightarrow> flt option" where
  "active_target op = (if mp_next_leg op \<ge> length (mp_legs op) then None else Some (tl_price (mp_legs op ! mp_next_leg op)))"

definition r_multiple :: "managed \<Rightarrow> pyexn + flt" where
  "r_multiple op = (if mp_risk_per_unit op \<le> Fin 0 then Inr (Fin 0) else py_div (ps_mfe (mp_position op)) (mp_risk_per_unit op))"

record pending_entry =
  pn_seq :: int
  pn_instrument :: instrument
  pn_direction :: direction
  pn_size :: flt
  pn_stop_price :: flt
  pn_take_profit_prices :: "flt list"
  pn_take_profit_allocations :: "flt list"
  pn_strategy_id :: string
  pn_actionable_index :: int
  pn_created_index :: int
  pn_ref :: caller_ref

record pending_close =
  pc_seq :: int
  pc_position_seq :: int
  pc_instrument :: string
  pc_actionable_index :: int

record bar_slice =
  sl_index :: int
  sl_timestamp :: tstamp
  sl_bars :: "string \<rightharpoonup> bar"
  sl_previous_timestamp :: "tstamp option"
  sl_previous_times :: "string \<rightharpoonup> tstamp"
  sl_intervals :: "string \<rightharpoonup> int"
  sl_last_closes :: "string \<rightharpoonup> flt"
  sl_carried_bars :: "string \<rightharpoonup> bar"
  sl_series :: "string \<rightharpoonup> (string \<rightharpoonup> flt)"

definition bar_or_last :: "bar_slice \<Rightarrow> string \<Rightarrow> bar option" where
  "bar_or_last s symb = (case sl_bars s symb of Some b \<Rightarrow> Some b | None \<Rightarrow> sl_carried_bars s symb)"

definition slice_mark :: "bar_slice \<Rightarrow> string \<Rightarrow> pyexn + flt" where
  "slice_mark s symb =
     (case sl_bars s symb of
        Some b \<Rightarrow> Inr (b_close b)
      | None \<Rightarrow>
          (case sl_last_closes s symb of
             Some v \<Rightarrow> Inr v
           | None \<Rightarrow> Inl (KeyError [Lit ''No mark available for '', Lit symb, Lit '' at '', Iso (sl_timestamp s)])))"

definition slice_value :: "bar_slice \<Rightarrow> string \<Rightarrow> string option \<Rightarrow> flt" where
  "slice_value s symb column =
     (if column_missing column then NaN
      else case sl_series s symb of
        None \<Rightarrow> NaN
      | Some columns \<Rightarrow> (case columns (the column) of None \<Rightarrow> NaN | Some v \<Rightarrow> v))"

record entry_event =
  ee_pending :: pending_entry
  ee_filled :: bool
  ee_reason :: string
  ee_fill :: "entry_fill option"
  ee_managed :: "managed option"

record advance_result =
  ar_entries :: "entry_event list"
  ar_legs :: "exit_leg list"
  ar_fills :: "exit_fill list"
  ar_trades :: "trade list"
  ar_realised_delta :: flt

definition no_result :: advance_result where
  "no_result = \<lparr>ar_entries = [], ar_legs = [], ar_fills = [], ar_trades = [], ar_realised_delta = Fin 0\<rparr>"

record book_config =
  bg_account_ccy :: string
  bg_max_concurrent :: int
  bg_max_per_instrument :: int
  bg_charge_financing :: bool
  bg_financing_rollover_hour_utc :: int
  bg_strategy_id :: string
  bg_provenance :: provenance

record book_env =
  be_fills :: fill_env
  be_sim :: simulator
  be_fx :: "string \<Rightarrow> string \<Rightarrow> tstamp \<Rightarrow> pyexn + flt"
  be_config :: book_config
  be_policy :: exit_policy
  be_blackout :: "blackout_source option"
  be_is_month_end :: "tstamp \<Rightarrow> bool"
  be_latency_bars :: int
  be_financing :: "financing_model option"
  be_position_id :: "int \<Rightarrow> string"

record book =
  bk_balance :: flt
  bk_realised :: flt
  bk_costs :: cost_breakdown
  bk_trades :: "trade list"
  bk_exit_legs :: "exit_leg list"
  bk_rejections :: "(string \<times> int) list"
  bk_seq :: int
  bk_open :: "managed list"
  bk_pending :: "pending_entry list"
  bk_pending_closes :: "pending_close list"
  bk_cooldown_until :: "(string \<times> int) list"

definition position_book_new :: "flt \<Rightarrow> book" where
  "position_book_new initial_balance =
     \<lparr>bk_balance = initial_balance, bk_realised = Fin 0, bk_costs = no_breakdown, bk_trades = [], bk_exit_legs = [], bk_rejections = [],
      bk_seq = 0, bk_open = [], bk_pending = [], bk_pending_closes = [], bk_cooldown_until = []\<rparr>"


section \<open>The money\<close>

definition financing_currency :: "financing_model \<Rightarrow> instrument \<Rightarrow> string" where
  "financing_currency m i = (if fn_currency m = ''quote'' then i_quote i else upper (fn_currency m))"

definition book_rate :: "book_env \<Rightarrow> string \<Rightarrow> tstamp \<Rightarrow> pyexn + flt" where
  "book_rate E from_ccy t = be_fx E from_ccy (bg_account_ccy (be_config E)) t"

definition costs_to_account :: "book_env \<Rightarrow> instrument \<Rightarrow> leg_costs \<Rightarrow> tstamp \<Rightarrow> pyexn + account_costs" where
  "costs_to_account E i c t =
     rbind (book_rate E (i_quote i) t) (\<lambda>quote_rate. rbind (book_rate E (lg_commission_ccy c) t) (\<lambda>comm_rate.
       Inr \<lparr>at_spread = lg_spread_quote c * quote_rate, at_commission = lg_commission_amount c * comm_rate,
            at_slippage = lg_slippage_quote c * quote_rate, at_premium = lg_guaranteed_stop_premium_quote c * quote_rate\<rparr>))"

definition exit_reason_of :: "managed \<Rightarrow> exit_fill \<Rightarrow> exit_reason" where
  "exit_reason_of op x =
     (let reason = (case xf_reason x of Some r \<Rightarrow> r | None \<Rightarrow> END_OF_DATA) in
      if reason = STOP_LOSS \<and> mp_stop_trailed op then (if mp_stop_moved_by op = ''breakeven'' then BREAKEVEN else TRAILING_STOP)
      else reason)"

definition add_exit_costs :: "account_costs \<Rightarrow> flt \<Rightarrow> cost_breakdown \<Rightarrow> cost_breakdown" where
  "add_exit_costs a financing c =
     c\<lparr>cb_spread := cb_spread c + at_spread a, cb_exit_leg_spread := cb_exit_leg_spread c + at_spread a,
       cb_commission := cb_commission c + at_commission a, cb_slippage := cb_slippage c + at_slippage a,
       cb_guaranteed_stop_premium := cb_guaranteed_stop_premium c + at_premium a, cb_financing := cb_financing c + financing\<rparr>"

definition add_entry_costs :: "account_costs \<Rightarrow> cost_breakdown \<Rightarrow> cost_breakdown" where
  "add_entry_costs a c =
     c\<lparr>cb_spread := cb_spread c + at_spread a, cb_entry_leg_spread := cb_entry_leg_spread c + at_spread a,
       cb_commission := cb_commission c + at_commission a, cb_slippage := cb_slippage c + at_slippage a,
       cb_guaranteed_stop_premium := cb_guaranteed_stop_premium c + at_premium a\<rparr>"

definition share_of :: "flt \<Rightarrow> account_costs \<Rightarrow> account_costs" where
  "share_of share a =
     \<lparr>at_spread = at_spread a * share, at_commission = at_commission a * share, at_slippage = at_slippage a * share,
      at_premium = at_premium a * share\<rparr>"

definition pool_after :: "bool \<Rightarrow> account_costs \<Rightarrow> account_costs \<Rightarrow> account_costs" where
  "pool_after final pool taken =
     (if final then no_account_costs
      else \<lparr>at_spread = at_spread pool - at_spread taken, at_commission = at_commission pool - at_commission taken,
            at_slippage = at_slippage pool - at_slippage taken, at_premium = at_premium pool - at_premium taken\<rparr>)"

text \<open>\<open>_close_fill\<close>: the cost totals, the position and the leg of one closing fill.\<close>

definition close_fill ::
  "book_env \<Rightarrow> cost_breakdown \<Rightarrow> managed \<Rightarrow> exit_fill \<Rightarrow> tstamp \<Rightarrow> flt \<Rightarrow> bool \<Rightarrow> pyexn + cost_breakdown \<times> managed \<times> exit_leg" where
  "close_fill E costs op x t sz final =
     rbind (costs_to_account E (mp_instrument op) (xf_costs x) t) (\<lambda>exit_costs.
     rbind (if final then Inr (Fin 1) else if mp_size op > Fin 0 then py_div sz (mp_size op) else Inr (Fin 1)) (\<lambda>share.
     rbind (book_rate E (i_quote (mp_instrument op)) t) (\<lambda>fx_rate.
       let taken = share_of share (mp_entry_costs_account op);
           financing = (if final then mp_financing_account op else mp_financing_account op * share);
           gross = ((xf_mid_price x - mp_entry_mid op) * Fin (dir_sign (mp_direction op)) * sz * i_contract_size (mp_instrument op)) * fx_rate;
           spread_cost = at_spread taken + at_spread exit_costs;
           commission = (at_commission taken + at_commission exit_costs) + (at_premium taken + at_premium exit_costs);
           slippage_cost = at_slippage taken + at_slippage exit_costs;
           net = gross - spread_cost - commission - slippage_cost - financing;
           op' = op\<lparr>mp_entry_costs_account := pool_after final (mp_entry_costs_account op) taken,
             mp_financing_account := mp_financing_account op - financing, mp_realised_gross := mp_realised_gross op + gross,
             mp_realised_spread := mp_realised_spread op + spread_cost, mp_realised_commission := mp_realised_commission op + commission,
             mp_realised_slippage := mp_realised_slippage op + slippage_cost, mp_realised_financing := mp_realised_financing op + financing,
             mp_realised_net := mp_realised_net op + net, mp_exit_value := mp_exit_value op + xf_mid_price x * sz,
             mp_n_legs_closed := mp_n_legs_closed op + 1, mp_single_leg_exit_mid := xf_mid_price x,
             mp_position := (mp_position op)\<lparr>ps_size := (if final then Fin 0 else mp_size op - sz)\<rparr>\<rparr>
       in Inr (add_exit_costs exit_costs financing costs, op',
            \<lparr>xl_position_seq = mp_seq op, xl_instrument = mp_symbol op, xl_direction = dir_value (mp_direction op),
             xl_ordinal = mp_n_legs_closed op, xl_size = sz, xl_exit_price = xf_mid_price x, xl_exit_time = t,
             xl_exit_reason = exit_reason_value (exit_reason_of op x), xl_gross_pnl = gross, xl_spread_cost = spread_cost,
             xl_commission = commission, xl_slippage_cost = slippage_cost, xl_financing_cost = financing, xl_net_pnl = net,
             xl_final = final\<rparr>))))"

definition finalise :: "book_env \<Rightarrow> managed \<Rightarrow> tstamp \<Rightarrow> exit_reason \<Rightarrow> pyexn + trade" where
  "finalise E op t reason =
     rbind (book_rate E (i_quote (mp_instrument op)) t) (\<lambda>fx_rate.
     rbind (if mp_n_legs_closed op = 1 then Inr (mp_single_leg_exit_mid op) else py_div (mp_exit_value op) (mp_entry_size op)) (\<lambda>exit_price.
       let unit_to_account = mp_entry_size op * i_contract_size (mp_instrument op) * fx_rate; cfg = be_config E; pos = mp_position op in
       Inr \<lparr>td_instrument = mp_symbol op, td_direction = mp_direction op, td_size = mp_entry_size op, td_entry_price = mp_entry_mid op,
         td_exit_price = exit_price, td_entry_time = ps_entry_time pos, td_exit_time = t, td_exit_reason = reason,
         td_gross_pnl = mp_realised_gross op, td_spread_cost = mp_realised_spread op, td_commission = mp_realised_commission op,
         td_slippage_cost = mp_realised_slippage op, td_financing_cost = mp_realised_financing op, td_net_pnl = mp_realised_net op,
         td_account_ccy = bg_account_ccy cfg, td_strategy_id = (if ps_strategy_id pos = [] then bg_strategy_id cfg else ps_strategy_id pos),
         td_bars_held = ps_bars_held pos, td_max_adverse_excursion = ps_mae pos * unit_to_account,
         td_max_favourable_excursion = ps_mfe pos * unit_to_account, td_provenance = bg_provenance cfg, td_fx_rate_used = fx_rate,
         td_initial_stop = Some (mp_initial_stop op), td_final_stop = ps_stop_loss pos,
         td_take_profit_targets = map tl_price (mp_legs op), td_stop_moved_by = mp_stop_moved_by op\<rparr>))"

text \<open>What every closing fill does to the book and to the result of the step; and what the last one of a position does.\<close>

definition realise ::
  "book_env \<Rightarrow> managed \<Rightarrow> exit_fill \<Rightarrow> tstamp \<Rightarrow> flt \<Rightarrow> bool \<Rightarrow> book \<times> advance_result \<Rightarrow> pyexn + managed \<times> book \<times> advance_result" where
  "realise E op x t sz final br =
     rbind (close_fill E (bk_costs (fst br)) op x t sz final) (\<lambda>(costs, op', leg).
       let b = fst br; r = snd br in
       Inr (op',
         b\<lparr>bk_costs := costs, bk_exit_legs := bk_exit_legs b @ [leg], bk_balance := bk_balance b + xl_net_pnl leg,
           bk_realised := bk_realised b + xl_net_pnl leg\<rparr>,
         r\<lparr>ar_legs := ar_legs r @ [leg], ar_fills := ar_fills r @ [x]\<rparr>))"

definition record_trade :: "book_env \<Rightarrow> managed \<Rightarrow> tstamp \<Rightarrow> exit_reason \<Rightarrow> book \<times> advance_result \<Rightarrow> pyexn + book \<times> advance_result" where
  "record_trade E op t reason br =
     rbind (finalise E op t reason) (\<lambda>tr.
       Inr ((fst br)\<lparr>bk_trades := bk_trades (fst br) @ [tr]\<rparr>, (snd br)\<lparr>ar_trades := ar_trades (snd br) @ [tr]\<rparr>))"


section \<open>Queueing\<close>

definition next_seq :: "book \<Rightarrow> book" where
  "next_seq b = b\<lparr>bk_seq := bk_seq b + 1\<rparr>"

definition queue_entry :: "pending_entry \<Rightarrow> book \<Rightarrow> book" where
  "queue_entry e b = b\<lparr>bk_pending := bk_pending b @ [e]\<rparr>"

definition bump :: "string \<Rightarrow> book \<Rightarrow> book" where
  "bump key b = b\<lparr>bk_rejections := dict_put key ((case map_of (bk_rejections b) key of Some n \<Rightarrow> n | None \<Rightarrow> 0) + 1) (bk_rejections b)\<rparr>"

definition to_reverse :: "string \<Rightarrow> direction \<Rightarrow> managed \<Rightarrow> bool" where
  "to_reverse instr d op \<longleftrightarrow> mp_symbol op = instr \<and> mp_direction op \<noteq> d \<and> \<not> mp_reversal_pending op"

fun schedule_loop :: "string \<Rightarrow> direction \<Rightarrow> int \<Rightarrow> int \<Rightarrow> managed list \<Rightarrow> managed list \<times> pending_close list \<times> int" where
  "schedule_loop instr d actionable sq [] = ([], [], sq)"
| "schedule_loop instr d actionable sq (op # ops) =
     (if to_reverse instr d op then
        (let (ops', closes, sq') = schedule_loop instr d actionable (sq + 1) ops in
         (op\<lparr>mp_reversal_pending := True\<rparr> # ops',
          \<lparr>pc_seq = sq + 1, pc_position_seq = mp_seq op, pc_instrument = instr, pc_actionable_index = actionable\<rparr> # closes, sq'))
      else (let (ops', closes, sq') = schedule_loop instr d actionable sq ops in (op # ops', closes, sq')))"

definition schedule_reversal :: "book_env \<Rightarrow> string \<Rightarrow> direction \<Rightarrow> int \<Rightarrow> book \<Rightarrow> book \<times> pending_close list" where
  "schedule_reversal E instr d index b =
     (if ep_reversal (be_policy E) = REV_IGNORE then (b, [])
      else let (ops, closes, sq) = schedule_loop instr d (index + 1 + be_latency_bars E) (bk_seq b) (bk_open b) in
        (b\<lparr>bk_open := ops, bk_seq := sq, bk_pending_closes := bk_pending_closes b @ closes\<rparr>, closes))"


section \<open>The phases of a bar\<close>

text \<open>Financing.\<close>

definition charge_one :: "book_env \<Rightarrow> financing_model \<Rightarrow> bar_slice \<Rightarrow> managed \<Rightarrow> pyexn + managed" where
  "charge_one E m s op =
     (let t = sl_timestamp s; since = (case mp_last_financing_time op of Some l \<Rightarrow> l | None \<Rightarrow> ps_entry_time (mp_position op)) in
      rbind (financing_nights since t (bg_financing_rollover_hour_utc (be_config E)) (i_asset_class (mp_instrument op))) (\<lambda>nights.
        if nights = 0 then Inr op
        else rbind (slice_mark s (mp_symbol op)) (\<lambda>mark.
          rbind (nightly_charge m (mp_instrument op) (mp_direction op) (mp_size op) mark) (\<lambda>nightly.
          rbind (book_rate E (financing_currency m (mp_instrument op)) t) (\<lambda>rate.
            let charge = nightly * Fin (of_int nights) * rate in
            Inr (op\<lparr>mp_financing_account := mp_financing_account op + charge,
                   mp_position := (mp_position op)\<lparr>ps_financing_accrued := ps_financing_accrued (mp_position op) + charge\<rparr>,
                   mp_last_financing_time := Some t\<rparr>))))))"

definition charge_financing :: "book_env \<Rightarrow> bar_slice \<Rightarrow> book \<Rightarrow> pyexn + book" where
  "charge_financing E s b =
     (if \<not> bg_charge_financing (be_config E) \<or> sl_previous_timestamp s = None then Inr b
      else case be_financing E of
        None \<Rightarrow> Inr b
      | Some m \<Rightarrow> rbind (rmap (charge_one E m s) (bk_open b)) (\<lambda>ops. Inr (b\<lparr>bk_open := ops\<rparr>)))"

text \<open>Scheduled closes. \<open>by_seq\<close> is made once and holds the objects of the book, so a close changes it too.\<close>

fun close_loop ::
  "book_env \<Rightarrow> bar_slice \<Rightarrow> pending_close list \<Rightarrow> (int \<rightharpoonup> managed) \<Rightarrow> book \<times> advance_result \<Rightarrow>
   pyexn + (book \<times> advance_result) \<times> pending_close list" where
  "close_loop E s [] by_seq br = Inr (br, [])"
| "close_loop E s (c # cs) by_seq br =
     (if pc_actionable_index c > sl_index s then rbind (close_loop E s cs by_seq br) (\<lambda>(br', still). Inr (br', c # still))
      else case by_seq (pc_position_seq c) of
        None \<Rightarrow> close_loop E s cs by_seq br
      | Some op \<Rightarrow>
          (case sl_bars s (pc_instrument c) of
             None \<Rightarrow> rbind (close_loop E s cs by_seq br) (\<lambda>(br', still). Inr (br', c # still))
           | Some bar \<Rightarrow>
               rbind (market_exit (be_fills E) (be_sim E) (mp_instrument op) (mp_direction op) (mp_size op) bar (sl_index s) OPPOSITE_SIGNAL
                   (Some (b_open bar)) (mp_seq op) (sl_previous_times s (pc_instrument c)) (sl_intervals s (pc_instrument c))) (\<lambda>x.
               rbind (realise E op x (sl_timestamp s) (mp_size op) True br) (\<lambda>(op', br1).
               rbind (record_trade E op' (sl_timestamp s) OPPOSITE_SIGNAL br1) (\<lambda>(b2, r2).
                 close_loop E s cs (by_seq(pc_position_seq c \<mapsto> op'))
                   (b2\<lparr>bk_open := filter (\<lambda>p. mp_seq p \<noteq> mp_seq op) (bk_open b2)\<rparr>, r2))))))"

definition run_pending_closes :: "book_env \<Rightarrow> bar_slice \<Rightarrow> book \<times> advance_result \<Rightarrow> pyexn + book \<times> advance_result" where
  "run_pending_closes E s br =
     (let b = fst br in
      if bk_pending_closes b = [] then Inr br
      else rbind (close_loop E s (bk_pending_closes b) (map_of (rev (map (\<lambda>op. (mp_seq op, op)) (bk_open b)))) br) (\<lambda>((b', r'), still).
        Inr (b'\<lparr>bk_pending_closes := still\<rparr>, r')))"

text \<open>Entries.\<close>

definition allocations_for :: "book_env \<Rightarrow> pending_entry \<Rightarrow> flt list" where
  "allocations_for E order =
     (if pn_take_profit_allocations order \<noteq> [] then pn_take_profit_allocations order
      else let allocations = ep_allocations (be_policy E) in
        if allocations \<noteq> [] \<and> length allocations \<ge> length (pn_take_profit_prices order)
        then take (length (pn_take_profit_prices order)) allocations else [])"

definition event_block :: "book_env \<Rightarrow> string \<Rightarrow> tstamp \<Rightarrow> pyexn + string option" where
  "event_block E instr t =
     (case ep_events (be_policy E) of
        None \<Rightarrow> Inr None
      | Some e \<Rightarrow> blocks (be_is_month_end E) e instr t (bg_financing_rollover_hour_utc (be_config E)) (be_blackout E))"

definition entry_refusal :: "book_env \<Rightarrow> bar_slice \<Rightarrow> pending_entry \<Rightarrow> book \<Rightarrow> pyexn + string option" where
  "entry_refusal E s order b =
     (let symb = i_symbol (pn_instrument order) in
      if sl_index s \<le> (case map_of (bk_cooldown_until b) symb of Some n \<Rightarrow> n | None \<Rightarrow> -1) then Inr (Some ''cooldown'')
      else rbind (event_block E symb (sl_timestamp s)) (\<lambda>blocked.
        case blocked of
          Some reason \<Rightarrow> Inr (Some reason)
        | None \<Rightarrow>
            if int (length (bk_open b)) \<ge> bg_max_concurrent (be_config E) then Inr (Some ''max_concurrent'')
            else if int (length (filter (\<lambda>p. mp_symbol p = symb) (bk_open b))) \<ge> bg_max_per_instrument (be_config E)
              then Inr (Some ''max_per_instrument'')
            else Inr None))"

definition new_managed ::
  "book_env \<Rightarrow> bar_slice \<Rightarrow> pending_entry \<Rightarrow> entry_fill \<Rightarrow> flt \<Rightarrow> account_costs \<Rightarrow> take_profit_leg list \<Rightarrow> int \<Rightarrow> managed" where
  "new_managed E s order fill fx_rate entry_costs legs sq =
     \<lparr>mp_seq = sq,
      mp_position = \<lparr>ps_instrument = i_symbol (pn_instrument order), ps_direction = pn_direction order, ps_size = ef_filled_size fill,
        ps_entry_price = ef_mid_price fill, ps_entry_time = sl_timestamp s, ps_stop_loss = Some (ef_effective_stop fill),
        ps_take_profit_targets = map tl_price legs,
        ps_strategy_id = (if pn_strategy_id order = [] then bg_strategy_id (be_config E) else pn_strategy_id order),
        ps_bars_held = 0, ps_mfe = Fin 0, ps_mae = Fin 0, ps_financing_accrued = Fin 0,
        ps_venue_ref = (case pn_ref order of Ref_str r \<Rightarrow> Some r | _ \<Rightarrow> None), ps_position_id = be_position_id E sq\<rparr>,
      mp_instrument = pn_instrument order, mp_entry_mid = ef_mid_price fill, mp_entry_bar_index = sl_index s,
      mp_take_profit = (case legs of [] \<Rightarrow> None | leg # _ \<Rightarrow> Some (tl_price leg)), mp_entry_costs_account = entry_costs,
      mp_financing_account = Fin 0, mp_last_financing_time = Some (sl_timestamp s), mp_entry_fx = fx_rate,
      mp_entry_size = ef_filled_size fill, mp_legs = legs, mp_next_leg = 0,
      mp_risk_per_unit = \<bar>ef_mid_price fill - ef_effective_stop fill\<bar>, mp_initial_stop = ef_effective_stop fill, mp_extreme = NaN,
      mp_breakeven_done = False, mp_stop_trailed = False, mp_stop_moved_by = [], mp_reversal_pending = False,
      mp_realised_gross = Fin 0, mp_realised_spread = Fin 0, mp_realised_commission = Fin 0, mp_realised_slippage = Fin 0,
      mp_realised_financing = Fin 0, mp_realised_net = Fin 0, mp_exit_value = Fin 0, mp_n_legs_closed = 0, mp_single_leg_exit_mid = Fin 0,
      mp_ref = pn_ref order\<rparr>"

definition refuse_entry :: "pending_entry \<Rightarrow> string \<Rightarrow> entry_fill option \<Rightarrow> book \<times> advance_result \<Rightarrow> book \<times> advance_result" where
  "refuse_entry order reason fill br =
     (bump reason (fst br),
      (snd br)\<lparr>ar_entries := ar_entries (snd br) @
        [\<lparr>ee_pending = order, ee_filled = False, ee_reason = reason, ee_fill = fill, ee_managed = None\<rparr>]\<rparr>)"

definition open_entry :: "book_env \<Rightarrow> bar_slice \<Rightarrow> pending_entry \<Rightarrow> entry_fill \<Rightarrow> book \<times> advance_result \<Rightarrow> pyexn + book \<times> advance_result" where
  "open_entry E s order fill br =
     rbind (book_rate E (i_quote (pn_instrument order)) (sl_timestamp s)) (\<lambda>fx_rate.
     rbind (costs_to_account E (pn_instrument order) (ef_costs fill) (sl_timestamp s)) (\<lambda>entry_costs.
     rbind (plan_legs (pn_instrument order) (ef_filled_size fill) (pn_take_profit_prices order) (allocations_for E order)) (\<lambda>legs.
       let b = next_seq (fst br); op = new_managed E s order fill fx_rate entry_costs legs (bk_seq b) in
       Inr (b\<lparr>bk_costs := add_entry_costs entry_costs (bk_costs b), bk_open := bk_open b @ [op]\<rparr>,
         (snd br)\<lparr>ar_entries := ar_entries (snd br) @
           [\<lparr>ee_pending = order, ee_filled = True, ee_reason = [], ee_fill = Some fill, ee_managed = Some op\<rparr>]\<rparr>))))"

definition decide_entry :: "book_env \<Rightarrow> bar_slice \<Rightarrow> bar \<Rightarrow> pending_entry \<Rightarrow> book \<times> advance_result \<Rightarrow> pyexn + book \<times> advance_result" where
  "decide_entry E s bar order br =
     (let symb = i_symbol (pn_instrument order) in
      rbind (entry_refusal E s order (fst br)) (\<lambda>refused.
        case refused of
          Some reason \<Rightarrow> Inr (refuse_entry order reason None br)
        | None \<Rightarrow>
            rbind (simulate_entry (be_fills E) (be_sim E) (pn_instrument order) (pn_direction order) (pn_size order) bar (sl_index s)
                (pn_stop_price order) (pn_seq order) (sl_previous_times s symb) (sl_intervals s symb) None) (\<lambda>fill.
              if \<not> ef_filled fill then
                Inr (refuse_entry order (case ef_reject_reason fill of Some r \<Rightarrow> reject_reason_value r | None \<Rightarrow> ''unknown'') (Some fill) br)
              else open_entry E s order fill br)))"

fun fill_loop :: "book_env \<Rightarrow> bar_slice \<Rightarrow> pending_entry list \<Rightarrow> book \<times> advance_result \<Rightarrow> pyexn + (book \<times> advance_result) \<times> pending_entry list" where
  "fill_loop E s [] br = Inr (br, [])"
| "fill_loop E s (order # orders) br =
     (case sl_bars s (i_symbol (pn_instrument order)) of
        Some bar \<Rightarrow>
          if pn_actionable_index order > sl_index s then rbind (fill_loop E s orders br) (\<lambda>(br', still). Inr (br', order # still))
          else rbind (decide_entry E s bar order br) (fill_loop E s orders)
      | None \<Rightarrow> rbind (fill_loop E s orders br) (\<lambda>(br', still). Inr (br', order # still)))"

definition fill_entries :: "book_env \<Rightarrow> bar_slice \<Rightarrow> book \<times> advance_result \<Rightarrow> pyexn + book \<times> advance_result" where
  "fill_entries E s br =
     rbind (fill_loop E s (bk_pending (fst br)) br) (\<lambda>((b, r), still). Inr (b\<lparr>bk_pending := still\<rparr>, r))"

text \<open>Exits.\<close>

definition size_for_exit :: "managed \<Rightarrow> exit_fill \<Rightarrow> flt \<times> bool" where
  "size_for_exit op x =
     (let remaining = mp_size op in
      if xf_reason x \<noteq> Some TAKE_PROFIT \<or> mp_next_leg op \<ge> length (mp_legs op) then (remaining, True)
      else let sz = py_min (tl_size (mp_legs op ! mp_next_leg op)) remaining; residue = remaining - sz in
        if residue > Fin 0 \<and> residue < i_min_size (mp_instrument op) - DUST then (remaining, True)
        else if sz \<le> Fin 0 then (remaining, True)
        else (sz, residue \<le> DUST))"

definition decide_exit :: "book_env \<Rightarrow> bar_slice \<Rightarrow> bar \<Rightarrow> managed \<Rightarrow> flt \<Rightarrow> pyexn + exit_fill" where
  "decide_exit E s bar op sz =
     resolve_exit (be_fills E) (be_sim E) (mp_instrument op) (mp_direction op) sz bar (sl_index s) (mp_stop op) (active_target op) (mp_seq op)
       (sl_previous_times s (mp_symbol op)) (sl_intervals s (mp_symbol op))"

fun exit_loop ::
  "nat \<Rightarrow> book_env \<Rightarrow> bar_slice \<Rightarrow> bar \<Rightarrow> managed \<Rightarrow> book \<times> advance_result \<Rightarrow>
   pyexn + managed \<times> (book \<times> advance_result) \<times> exit_reason option" where
  "exit_loop 0 E s bar op br = Inr (op, br, None)"
| "exit_loop (Suc n) E s bar op br =
     rbind (decide_exit E s bar op (mp_size op)) (\<lambda>decision.
       if \<not> xf_exited decision then Inr (op, br, None)
       else let (close_size, final) = size_for_exit op decision in
         rbind (if final then Inr decision else decide_exit E s bar op close_size) (\<lambda>leg_fill.
         rbind (realise E op leg_fill (sl_timestamp s) close_size final br) (\<lambda>(op1, br1).
           let op2 = (if xf_reason leg_fill = Some TAKE_PROFIT then op1\<lparr>mp_next_leg := mp_next_leg op1 + 1\<rparr> else op1) in
           if final then Inr (op2, br1, Some (exit_reason_of op leg_fill))
           else exit_loop n E s bar op2 br1)))"

definition time_stop_hit :: "book_env \<Rightarrow> managed \<Rightarrow> bool" where
  "time_stop_hit E op = (case ep_max_bars_in_trade (be_policy E) of Some n \<Rightarrow> ps_bars_held (mp_position op) \<ge> n | None \<Rightarrow> False)"

text \<open>The protective stop: first the breakeven rule, then the trail, each only where it improves the stop.\<close>

definition breakeven_reached :: "exit_policy \<Rightarrow> flt \<Rightarrow> managed \<Rightarrow> bool" where
  "breakeven_reached p r_now op =
     (case ep_breakeven_at_r p of Some x \<Rightarrow> \<not> mp_breakeven_done op \<and> r_now \<ge> x | None \<Rightarrow> False)"

definition improves :: "direction \<Rightarrow> flt \<Rightarrow> flt \<Rightarrow> bool" where
  "improves d level current \<longleftrightarrow> (level - current) * Fin (dir_sign d) > Fin 0"

definition proposed_stop :: "exit_policy \<Rightarrow> bar_slice \<Rightarrow> string \<Rightarrow> bar \<Rightarrow> flt \<Rightarrow> managed \<Rightarrow> flt \<Rightarrow> flt \<times> string" where
  "proposed_stop p s symb bar r_now op current =
     (let d = mp_direction op;
          first = (if breakeven_reached p r_now op \<and> improves d (mp_entry_mid op) current then (mp_entry_mid op, ''breakeven'') else (current, []));
          t = ep_trailing p
      in if trail_active t \<and> r_now \<ge> tp_activate_after_r t then
           (case trail_candidate t (dir_sign d) (mp_extreme op) (b_close bar) (slice_value s symb (tp_atr_column t))
               (slice_value s symb (tp_level_column t)) of
              Some c \<Rightarrow> if improves d c (fst first) then (c, ''trailing'') else first
            | None \<Rightarrow> first)
         else first)"

definition update_protective_stop :: "book_env \<Rightarrow> bar_slice \<Rightarrow> string \<Rightarrow> bar \<Rightarrow> managed \<Rightarrow> pyexn + managed" where
  "update_protective_stop E s symb bar op =
     (if mp_risk_per_unit op \<le> Fin 0 then Inr op
      else rbind (r_multiple op) (\<lambda>r_now.
        case mp_stop op of
          None \<Rightarrow> Inl (TypeError (lit ''unsupported operand type(s) for -: float and NoneType''))
        | Some current \<Rightarrow>
            let (proposed, moved_by) = proposed_stop (be_policy E) s symb bar r_now op current;
                op1 = op\<lparr>mp_breakeven_done := mp_breakeven_done op \<or> breakeven_reached (be_policy E) r_now op\<rparr>
            in Inr (if improves (mp_direction op) proposed current
                    then op1\<lparr>mp_position := (mp_position op1)\<lparr>ps_stop_loss := Some proposed\<rparr>, mp_stop_trailed := True,
                             mp_stop_moved_by := (if moved_by \<noteq> [] \<and> mp_stop_moved_by op \<noteq> ''trailing'' then moved_by else mp_stop_moved_by op)\<rparr>
                    else op1)))"

definition see_bar :: "int \<Rightarrow> bar \<Rightarrow> managed \<Rightarrow> managed" where
  "see_bar index bar op =
     (let op1 = update_extreme bar (op\<lparr>mp_position := update_excursion (mp_position op) (b_high bar) (b_low bar)\<rparr>) in
      if index > mp_entry_bar_index op then op1\<lparr>mp_position := (mp_position op1)\<lparr>ps_bars_held := ps_bars_held (mp_position op1) + 1\<rparr>\<rparr>
      else op1)"

definition time_stop :: "book_env \<Rightarrow> bar_slice \<Rightarrow> bar \<Rightarrow> managed \<Rightarrow> book \<times> advance_result \<Rightarrow> pyexn + managed \<times> (book \<times> advance_result)" where
  "time_stop E s bar op br =
     rbind (market_exit (be_fills E) (be_sim E) (mp_instrument op) (mp_direction op) (mp_size op) bar (sl_index s) TIME_STOP None (mp_seq op)
         (sl_previous_times s (mp_symbol op)) (sl_intervals s (mp_symbol op))) (\<lambda>x.
       rbind (realise E op x (sl_timestamp s) (mp_size op) True br) (\<lambda>(op', br'). Inr (op', br')))"

definition arm_cooldown :: "book_env \<Rightarrow> bar_slice \<Rightarrow> string \<Rightarrow> book \<Rightarrow> book" where
  "arm_cooldown E s symb b =
     (let n = ep_cooldown_bars_after_exit (be_policy E) in
      if n > 0 then b\<lparr>bk_cooldown_until := dict_put symb (sl_index s + n) (bk_cooldown_until b)\<rparr> else b)"

definition resolve_one :: "book_env \<Rightarrow> bar_slice \<Rightarrow> bar \<Rightarrow> managed \<Rightarrow> book \<times> advance_result \<Rightarrow> pyexn + managed option \<times> (book \<times> advance_result)" where
  "resolve_one E s bar op0 br =
     (let op = see_bar (sl_index s) bar op0; symb = mp_symbol op in
      rbind (exit_loop (length (mp_legs op) + 1) E s bar op br) (\<lambda>(op1, br1, reason1).
      rbind (if reason1 = None \<and> time_stop_hit E op1
             then rbind (time_stop E s bar op1 br1) (\<lambda>(op2, br2). Inr (op2, br2, Some TIME_STOP))
             else Inr (op1, br1, reason1)) (\<lambda>(op2, br2, reason2).
        case reason2 of
          None \<Rightarrow> rbind (update_protective_stop E s symb bar op2) (\<lambda>op3. Inr (Some op3, br2))
        | Some reason \<Rightarrow>
            rbind (record_trade E op2 (sl_timestamp s) reason br2) (\<lambda>(b3, r3). Inr (None, arm_cooldown E s symb b3, r3)))))"

fun exits_loop :: "book_env \<Rightarrow> bar_slice \<Rightarrow> managed list \<Rightarrow> book \<times> advance_result \<Rightarrow> pyexn + managed list \<times> (book \<times> advance_result)" where
  "exits_loop E s [] br = Inr ([], br)"
| "exits_loop E s (op # ops) br =
     rbind (case sl_bars s (mp_symbol op) of
              None \<Rightarrow> Inr (Some op, br)
            | Some bar \<Rightarrow> resolve_one E s bar op br) (\<lambda>(kept, br1).
       rbind (exits_loop E s ops br1) (\<lambda>(survivors, br2). Inr (case kept of Some op' \<Rightarrow> op' # survivors | None \<Rightarrow> survivors, br2)))"

definition resolve_exits :: "book_env \<Rightarrow> bar_slice \<Rightarrow> book \<times> advance_result \<Rightarrow> pyexn + book \<times> advance_result" where
  "resolve_exits E s br =
     rbind (exits_loop E s (bk_open (fst br)) br) (\<lambda>(survivors, b, r). Inr (b\<lparr>bk_open := survivors\<rparr>, r))"

definition advance :: "book_env \<Rightarrow> bar_slice \<Rightarrow> book \<Rightarrow> pyexn + book \<times> advance_result" where
  "advance E s b =
     rbind (charge_financing E s b) (\<lambda>b1.
     rbind (run_pending_closes E s (b1, no_result)) (\<lambda>br2.
     rbind (fill_entries E s br2) (\<lambda>br3.
     rbind (resolve_exits E s br3) (\<lambda>(b4, r4).
       Inr (b4, r4\<lparr>ar_realised_delta := bk_realised b4 - bk_realised b\<rparr>)))))"


section \<open>Flattening and marking\<close>

text \<open>\<open>self.open.remove(op)\<close>. The positions handed to \<open>flatten\<close> are different objects.\<close>

fun remove_seq :: "int \<Rightarrow> managed list \<Rightarrow> managed list" where
  "remove_seq q [] = []"
| "remove_seq q (op # ops) = (if mp_seq op = q then ops else op # remove_seq q ops)"

fun flatten_loop :: "book_env \<Rightarrow> bar_slice \<Rightarrow> exit_reason \<Rightarrow> managed list \<Rightarrow> book \<times> advance_result \<Rightarrow> pyexn + book \<times> advance_result" where
  "flatten_loop E s reason [] br = Inr br"
| "flatten_loop E s reason (op # ops) br =
     (case bar_or_last s (mp_symbol op) of
        None \<Rightarrow> flatten_loop E s reason ops br
      | Some bar \<Rightarrow>
          rbind (market_exit (be_fills E) (be_sim E) (mp_instrument op) (mp_direction op) (mp_size op) bar (sl_index s) reason None (mp_seq op)
              (sl_previous_times s (mp_symbol op)) (sl_intervals s (mp_symbol op))) (\<lambda>x.
          rbind (realise E op x (sl_timestamp s) (mp_size op) True br) (\<lambda>(op', br1).
          rbind (record_trade E op' (sl_timestamp s) reason br1) (\<lambda>(b2, r2).
            flatten_loop E s reason ops (b2\<lparr>bk_open := remove_seq (mp_seq op) (bk_open b2)\<rparr>, r2)))))"

definition book_flatten :: "book_env \<Rightarrow> bar_slice \<Rightarrow> exit_reason \<Rightarrow> managed list option \<Rightarrow> book \<Rightarrow> pyexn + book \<times> advance_result" where
  "book_flatten E s reason positions b =
     rbind (flatten_loop E s reason (case positions of Some ps \<Rightarrow> ps | None \<Rightarrow> bk_open b) (b, no_result)) (\<lambda>(b', r).
       Inr (b', r\<lparr>ar_realised_delta := bk_realised b' - bk_realised b\<rparr>))"

fun mark_loop :: "book_env \<Rightarrow> bar_slice \<Rightarrow> managed list \<Rightarrow> flt \<Rightarrow> flt \<Rightarrow> pyexn + flt \<times> flt" where
  "mark_loop E s [] unrealised exposure = Inr (unrealised, exposure)"
| "mark_loop E s (op # ops) unrealised exposure =
     rbind (slice_mark s (mp_symbol op)) (\<lambda>mark.
     rbind (book_rate E (i_quote (mp_instrument op)) (sl_timestamp s)) (\<lambda>rate.
       mark_loop E s ops
         (unrealised + unrealised_quote (mp_position op) mark (i_contract_size (mp_instrument op)) * rate - mp_financing_account op)
         (exposure + \<bar>mark * mp_size op * i_contract_size (mp_instrument op) * rate\<bar>)))"

definition mark_to_market :: "book_env \<Rightarrow> bar_slice \<Rightarrow> book \<Rightarrow> pyexn + flt \<times> flt" where
  "mark_to_market E s b = mark_loop E s (bk_open b) (Fin 0) (Fin 0)"

end
