(* ===== verification/Venue_Driver.thy ===== *)
theory Venue_Driver
  imports Position_Book Execution_Service
begin

text \<open>
  The parts of \<open>broker/position_manager.py\<close> that do not instruct a venue: the driver that turns bars into steps of the book, the
  queueing of an entry, the one stop and one limit a venue can hold, the retry policy, the shapes of telemetry, divergence and
  exposure, and the gate that asks whether an exit policy can rest at a venue at all.

  Dictionaries are association lists. The instrument table is an argument. The time an instruction took and the rows for display are
  left out.
\<close>

section \<open>The driver of the book\<close>

record driver =
  dr_bar_index :: int
  dr_now :: "tstamp option"
  dr_last_bars :: "(string \<times> bar) list"
  dr_previous_times :: "(string \<times> tstamp) list"
  dr_intervals :: "(string \<times> int) list"

definition driver_new :: driver where
  "driver_new = \<lparr>dr_bar_index = -1, dr_now = None, dr_last_bars = [], dr_previous_times = [], dr_intervals = []\<rparr>"

definition set_bar_interval :: "string \<Rightarrow> int \<Rightarrow> driver \<Rightarrow> driver" where
  "set_bar_interval symb interval d = d\<lparr>dr_intervals := dict_put symb interval (dr_intervals d)\<rparr>"

type_synonym column_values = "string \<rightharpoonup> (string \<rightharpoonup> flt)"

definition slice_for ::
  "(string \<times> bar) list \<Rightarrow> int option \<Rightarrow> tstamp option \<Rightarrow> tstamp option \<Rightarrow> column_values \<Rightarrow> driver \<Rightarrow> pyexn + bar_slice" where
  "slice_for bars bar_index timestamp previous series d =
     (case (case timestamp of Some t \<Rightarrow> Some t | None \<Rightarrow> dr_now d) of
        None \<Rightarrow> Inl (ValueError (lit ''slice_for needs a timestamp; no bar has arrived yet''))
      | Some ts \<Rightarrow>
          Inr \<lparr>sl_index = (case bar_index of Some k \<Rightarrow> k | None \<Rightarrow> dr_bar_index d), sl_timestamp = ts, sl_bars = map_of bars,
               sl_previous_timestamp = previous, sl_previous_times = map_of (dr_previous_times d), sl_intervals = map_of (dr_intervals d),
               sl_last_closes = map_option b_close \<circ> map_of (dr_last_bars d), sl_carried_bars = map_of (dr_last_bars d),
               sl_series = series\<rparr>)"

definition roll_bar :: "string \<times> bar \<Rightarrow> driver \<Rightarrow> driver" where
  "roll_bar sb d =
     (let d1 = (case map_of (dr_last_bars d) (fst sb) of
                  Some old \<Rightarrow> d\<lparr>dr_previous_times := dict_put (fst sb) (b_timestamp old) (dr_previous_times d)\<rparr>
                | None \<Rightarrow> d)
      in d1\<lparr>dr_last_bars := dict_put (fst sb) (snd sb) (dr_last_bars d1)\<rparr>)"

definition driver_advance ::
  "book_env \<Rightarrow> (string \<times> bar) list \<Rightarrow> int \<Rightarrow> tstamp option \<Rightarrow> column_values \<Rightarrow> driver \<Rightarrow> book \<Rightarrow>
   pyexn + driver \<times> book \<times> advance_result \<times> bar_slice" where
  "driver_advance E bars bar_index timestamp series d b =
     (if bar_index \<le> dr_bar_index d then Inl (ValueError (lit ''bars must advance monotonically''))
      else
        rbind (case timestamp of
                 Some t \<Rightarrow> Inr t
               | None \<Rightarrow> (case bars of
                            [] \<Rightarrow> Inl (ValueError (lit ''advance needs either bars or an explicit timestamp''))
                          | sb # _ \<Rightarrow> Inr (b_timestamp (snd sb)))) (\<lambda>ts.
          let d1 = fold roll_bar bars (d\<lparr>dr_bar_index := bar_index, dr_now := Some ts\<rparr>) in
          rbind (slice_for bars (Some bar_index) (Some ts) (dr_now d) series d1) (\<lambda>view.
          rbind (advance E view b) (\<lambda>(b', r). Inr (d1, b', r, view)))))"

definition queue_pending_entry ::
  "registry \<Rightarrow> string \<Rightarrow> direction \<Rightarrow> flt \<Rightarrow> flt option \<Rightarrow> flt list \<Rightarrow> flt list \<Rightarrow> flt option \<Rightarrow> int \<Rightarrow> int \<Rightarrow> string \<Rightarrow> caller_ref \<Rightarrow> int option \<Rightarrow>
   book \<Rightarrow> pyexn + book \<times> pending_entry" where
  "queue_pending_entry reg instr dirn sz stop prices allocations take_profit bar_index latency_bars strategy_id ref sq b =
     (let prices' = (case take_profit of Some t \<Rightarrow> if prices = [] then [t] else prices | None \<Rightarrow> prices);
          (b1, n) = (case sq of None \<Rightarrow> (next_seq b, bk_seq (next_seq b)) | Some n \<Rightarrow> (b, n))
      in rbind (get_instrument reg instr) (\<lambda>i.
           let entry = \<lparr>pn_seq = n, pn_instrument = i, pn_direction = dirn, pn_size = sz,
                 pn_stop_price = (case stop of Some x \<Rightarrow> x | None \<Rightarrow> Fin 0), pn_take_profit_prices = prices',
                 pn_take_profit_allocations = allocations, pn_strategy_id = strategy_id,
                 pn_actionable_index = bar_index + 1 + latency_bars, pn_created_index = bar_index, pn_ref = ref\<rparr>
           in Inr (queue_entry entry b1, entry)))"

definition queue_entry_for_order ::
  "registry \<Rightarrow> order \<Rightarrow> int \<Rightarrow> int \<Rightarrow> string \<Rightarrow> caller_ref \<Rightarrow> int option \<Rightarrow> book \<Rightarrow> pyexn + book \<times> pending_entry" where
  "queue_entry_for_order reg ord bar_index latency_bars strategy_id ref sq b =
     queue_pending_entry reg (o_instrument ord) (o_direction ord) (o_size ord) (o_stop_loss ord) (o_take_profit_prices ord)
       (o_take_profit_allocations ord) (o_take_profit ord) bar_index latency_bars strategy_id ref sq b"


section \<open>What a venue can hold\<close>

record venue_intent =
  vi_stop_loss :: "flt option"
  vi_take_profit :: "flt option"

fun levels_close :: "flt option \<Rightarrow> flt option \<Rightarrow> flt \<Rightarrow> bool" where
  "levels_close (Some a) (Some b) tolerance = (\<bar>a - b\<bar> \<le> tolerance)"
| "levels_close a b tolerance = (a = None \<and> b = None)"

definition intent_matches :: "venue_intent \<Rightarrow> venue_intent option \<Rightarrow> flt \<Rightarrow> bool" where
  "intent_matches v other tolerance =
     (case other of
        None \<Rightarrow> False
      | Some w \<Rightarrow> levels_close (vi_stop_loss v) (vi_stop_loss w) tolerance \<and> levels_close (vi_take_profit v) (vi_take_profit w) tolerance)"

datatype amend_kind = AK_ATTACH | AK_TRAIL | AK_BREAKEVEN | AK_NEXT_LEG | AK_SCALE_OUT | AK_CLOSE | AK_REATTACH | AK_CORRECTION

fun amend_kind_value :: "amend_kind \<Rightarrow> string" where
  "amend_kind_value AK_ATTACH = ''attach''"
| "amend_kind_value AK_TRAIL = ''trail''"
| "amend_kind_value AK_BREAKEVEN = ''breakeven''"
| "amend_kind_value AK_NEXT_LEG = ''next_leg''"
| "amend_kind_value AK_SCALE_OUT = ''scale_out''"
| "amend_kind_value AK_CLOSE = ''close''"
| "amend_kind_value AK_REATTACH = ''reattach''"
| "amend_kind_value AK_CORRECTION = ''correction''"

record retry_policy =
  rt_attempts :: int
  rt_initial_backoff_seconds :: flt
  rt_multiplier :: flt
  rt_max_backoff_seconds :: flt

definition retry_post_init :: "retry_policy \<Rightarrow> pyexn + retry_policy" where
  "retry_post_init p =
     (if rt_attempts p < 1 then Inl (ValueError (lit ''RetryPolicy.attempts must be at least 1''))
      else if rt_initial_backoff_seconds p < Fin 0 \<or> rt_max_backoff_seconds p < Fin 0
        then Inl (ValueError (lit ''backoff seconds must not be negative''))
      else Inr p)"

definition DEFAULT_RETRY :: retry_policy where
  "DEFAULT_RETRY = \<lparr>rt_attempts = 3, rt_initial_backoff_seconds = Fin (1 / 2), rt_multiplier = Fin 2, rt_max_backoff_seconds = Fin 8\<rparr>"

fun flt_power :: "flt \<Rightarrow> nat \<Rightarrow> flt" where
  "flt_power x 0 = Fin 1"
| "flt_power x (Suc n) = x * flt_power x n"

definition backoff :: "retry_policy \<Rightarrow> int \<Rightarrow> flt" where
  "backoff p attempt = py_min (rt_initial_backoff_seconds p * flt_power (rt_multiplier p) (nat (attempt - 1))) (rt_max_backoff_seconds p)"


section \<open>Telemetry, divergence and exposure\<close>

record amend_telemetry =
  tm_at :: tstamp
  tm_position_id :: string
  tm_broker_ref :: "string option"
  tm_instrument :: string
  tm_strategy_id :: string
  tm_kind :: amend_kind
  tm_applied :: bool
  tm_skipped :: bool
  tm_attempts :: int
  tm_intended_stop :: "flt option"
  tm_intended_take_profit :: "flt option"
  tm_venue_stop_before :: "flt option"
  tm_venue_stop_after :: "flt option"
  tm_venue_take_profit_before :: "flt option"
  tm_venue_take_profit_after :: "flt option"
  tm_modelled_entry :: "flt option"
  tm_venue_entry :: "flt option"
  tm_size :: flt
  tm_client_ref :: string
  tm_error :: ftext
  tm_mode :: exec_mode

definition entry_divergence :: "amend_telemetry \<Rightarrow> flt option" where
  "entry_divergence t =
     (case (tm_modelled_entry t, tm_venue_entry t) of (Some m, Some v) \<Rightarrow> Some (v - m) | _ \<Rightarrow> None)"

record intent_divergence =
  dv_kind :: string
  dv_position_id :: string
  dv_broker_ref :: "string option"
  dv_instrument :: string
  dv_intended_stop :: "flt option"
  dv_venue_stop :: "flt option"
  dv_intended_take_profit :: "flt option"
  dv_venue_take_profit :: "flt option"
  dv_detail :: ftext

record exit_exposure =
  xx_at :: tstamp
  xx_amount :: flt
  xx_positions :: int
  xx_exposed_positions :: int
  xx_account_ccy :: string
  xx_per_instrument :: "(string \<times> flt) list"
  xx_per_strategy :: "(string \<times> flt) list"


section \<open>Can a venue hold this policy?\<close>

abbreviation DegradedModeRefused :: "ftext \<Rightarrow> pyexn" where
  "DegradedModeRefused \<equiv> PyExn ''DegradedModeRefused''"

fun trail_kind_value :: "trail_kind \<Rightarrow> string" where
  "trail_kind_value TRAIL_NONE = ''none''"
| "trail_kind_value ATR_CHANDELIER = ''atr_chandelier''"
| "trail_kind_value FIXED_DISTANCE = ''fixed_distance''"
| "trail_kind_value PERCENT = ''percent''"
| "trail_kind_value INDICATOR_LINE = ''indicator_line''"
| "trail_kind_value BREAKEVEN_AFTER_R = ''breakeven_after_r''"

record realisability =
  rl_realisable :: bool
  rl_features :: "ftext list"
  rl_note :: ftext

definition policy_features :: "exit_policy \<Rightarrow> int option \<Rightarrow> ftext list" where
  "policy_features p take_profit_legs =
     (let legs = (case take_profit_legs of Some n \<Rightarrow> n | None \<Rightarrow> int (length (ep_allocations p))) in
      (if legs > 1 then [[Lit ''multi_leg_take_profit:'', Lit (show_int legs), Lit ''_legs'']] else [])
      @ (if trail_active (ep_trailing p) then [[Lit ''trailing_stop:'', Lit (trail_kind_value (tp_kind (ep_trailing p)))]] else [])
      @ (case ep_breakeven_at_r p of Some r \<Rightarrow> [[Lit ''breakeven_at_r:'', Repr r]] | None \<Rightarrow> [])
      @ (case ep_max_bars_in_trade p of Some n \<Rightarrow> [[Lit ''time_stop:'', Lit (show_int n), Lit ''_bars'']] | None \<Rightarrow> []))"

definition assess_policy :: "exit_policy \<Rightarrow> int option \<Rightarrow> realisability" where
  "assess_policy p take_profit_legs =
     (let features = policy_features p take_profit_legs in
      if features = [] then \<lparr>rl_realisable = True, rl_features = [], rl_note = lit ''one stop and at most one target''\<rparr>
      else \<lparr>rl_realisable = False, rl_features = features,
            rl_note = lit ''these exit rules are managed in our process and freeze if it dies''\<rparr>)"

definition require_venue_realisable :: "exit_policy \<Rightarrow> string \<Rightarrow> bool \<Rightarrow> int option \<Rightarrow> string \<Rightarrow> pyexn + realisability" where
  "require_venue_realisable p strategy_id accepted take_profit_legs operator =
     (let assessment = assess_policy p take_profit_legs in
      if rl_realisable assessment then Inr assessment
      else if \<not> accepted
        then Inl (DegradedModeRefused [Lit strategy_id, Lit '' declares exit rules a venue cannot hold''])
      else if operator = []
        then Inl (DegradedModeRefused [Lit strategy_id, Lit '': managed-exit exposure was accepted with no operator named''])
      else Inr \<lparr>rl_realisable = False, rl_features = rl_features assessment,
                rl_note = [Lit ''accepted by '', Lit operator, Lit '': ''] @ rl_note assessment\<rparr>)"

end
