(* ===== verification/Position_Manager.thy ===== *)
theory Position_Manager
  imports Venue_Driver
begin

text \<open>
  \<open>VenuePositionManager\<close> of \<open>broker/position_manager.py\<close>: the shared position book driven against a venue that holds one stop and
  one limit. The book decides on each bar; closes and amendments then go through the execution service.

  Arguments: the execution service's environment and adapter, the factory of exit contexts, the rate source, the clock, the random
  identifiers of positions and the rendering of a message as text (the code looks for a word in it). The alert sink is the list of
  alerts sent; the telemetry sink receives what the cycle holds. A \<open>Position\<close> the venue side keeps is a value under its broker
  reference. A raise of the context factory or of the rate source leaves no manager.
\<close>

section \<open>State\<close>

record manager_cycle =
  mc_at :: tstamp
  mc_advance :: advance_result
  mc_telemetry :: "amend_telemetry list"
  mc_divergences :: "intent_divergence list"
  mc_alerts :: "ftext list"
  mc_exposure :: "exit_exposure option"

definition new_cycle :: "tstamp \<Rightarrow> advance_result \<Rightarrow> manager_cycle" where
  "new_cycle t r = \<lparr>mc_at = t, mc_advance = r, mc_telemetry = [], mc_divergences = [], mc_alerts = [], mc_exposure = None\<rparr>"

definition amends_applied :: "manager_cycle \<Rightarrow> int" where
  "amends_applied c = int (length (filter (\<lambda>t. tm_applied t \<and> \<not> tm_skipped t) (mc_telemetry c)))"

definition amends_failed :: "manager_cycle \<Rightarrow> amend_telemetry list" where
  "amends_failed c = filter (\<lambda>t. \<not> tm_applied t) (mc_telemetry c)"

record 'v manager =
  vm_service :: "'v service"
  vm_book :: book
  vm_driver :: driver
  vm_venue_state :: "(string \<times> venue_intent) list"
  vm_venue_positions :: "(string \<times> position) list"
  vm_venue_entry :: "(string \<times> flt) list"
  vm_cycles :: "manager_cycle list"
  vm_unrealised :: "intent_divergence list"
  vm_pending_orders :: "(int \<times> string \<times> string) list"
  vm_ref_by_seq :: "(int \<times> string) list"
  vm_pending_closes :: "(string \<times> position \<times> string) list"
  vm_peak_equity :: "flt option"
  vm_last_exposure :: "exit_exposure option"
  vm_alerts :: "(ftext \<times> ftext) list"

record 'v manager_env =
  me_exec :: exec_env
  me_adapter :: "'v adapter"
  me_book :: book_env
  me_registry :: registry
  me_context :: "position \<Rightarrow> string \<Rightarrow> pyexn + exit_context"
  me_retry :: retry_policy
  me_clock :: tstamp
  me_fx :: "(string \<Rightarrow> string \<Rightarrow> tstamp \<Rightarrow> pyexn + flt) option"
  me_account_ccy :: string
  me_latency_bars :: int
  me_price_tolerance :: flt
  me_venue_position_id :: "int \<Rightarrow> string"
  me_text :: "ftext \<Rightarrow> string"

definition manager_new :: "'v service \<Rightarrow> book \<Rightarrow> 'v manager" where
  "manager_new s b =
     \<lparr>vm_service = s, vm_book = b, vm_driver = driver_new, vm_venue_state = [], vm_venue_positions = [], vm_venue_entry = [], vm_cycles = [],
      vm_unrealised = [], vm_pending_orders = [], vm_ref_by_seq = [], vm_pending_closes = [], vm_peak_equity = None, vm_last_exposure = None,
      vm_alerts = []\<rparr>"

text \<open>\<open>d.pop(k, None)\<close>.\<close>

definition dict_pop :: "'k \<Rightarrow> ('k \<times> 'a) list \<Rightarrow> ('k \<times> 'a) list" where
  "dict_pop k d = filter (\<lambda>kv. fst kv \<noteq> k) d"

text \<open>\<open>str(ref or "")\<close>, and \<open>str(ref)\<close>, which spells a missing reference.\<close>

definition ref_or_empty :: "string option \<Rightarrow> string" where
  "ref_or_empty r = (case r of Some x \<Rightarrow> x | None \<Rightarrow> [])"

definition ref_str :: "string option \<Rightarrow> string" where
  "ref_str r = (case r of Some x \<Rightarrow> x | None \<Rightarrow> ''None'')"

definition manager_now :: "'v manager_env \<Rightarrow> 'v manager \<Rightarrow> tstamp" where
  "manager_now M m = (case dr_now (vm_driver m) of Some t \<Rightarrow> t | None \<Rightarrow> me_clock M)"

definition desired_levels :: "managed \<Rightarrow> venue_intent" where
  "desired_levels op = \<lparr>vi_stop_loss = mp_stop op, vi_take_profit = active_target op\<rparr>"

definition venue_levels :: "position \<Rightarrow> venue_intent" where
  "venue_levels p = \<lparr>vi_stop_loss = or_level (ps_stop_loss p) None,
     vi_take_profit = (case ps_take_profit_targets p of [] \<Rightarrow> None | t # _ \<Rightarrow> Some t)\<rparr>"


section \<open>Marking\<close>

definition manager_mark :: "'v manager_env \<Rightarrow> 'v manager \<Rightarrow> pyexn + flt \<times> flt" where
  "manager_mark M m =
     (if dr_now (vm_driver m) = None then Inr (Fin 0, Fin 0)
      else rbind (slice_for [] None None None Map.empty (vm_driver m)) (\<lambda>view. mark_to_market (me_book M) view (vm_book m)))"

definition modelled_equity :: "'v manager_env \<Rightarrow> 'v manager \<Rightarrow> pyexn + flt" where
  "modelled_equity M m = rbind (manager_mark M m) (\<lambda>(unrealised, _). Inr (bk_balance (vm_book m) + unrealised))"

definition manager_account :: "'v manager_env \<Rightarrow> 'v manager \<Rightarrow> pyexn + 'v manager \<times> account_state" where
  "manager_account M m =
     rbind (manager_mark M m) (\<lambda>(unrealised, _).
       let equity = bk_balance (vm_book m) + unrealised;
           peak = py_max (case vm_peak_equity m of Some x \<Rightarrow> x | None \<Rightarrow> equity) equity
       in Inr (m\<lparr>vm_peak_equity := Some peak\<rparr>,
            \<lparr>ac_balance = bk_balance (vm_book m), ac_equity = equity, ac_currency = me_account_ccy M, ac_margin_used = Fin 0,
             ac_open_positions = int (length (bk_open (vm_book m))), ac_realised_pnl = bk_realised (vm_book m), ac_unrealised_pnl = unrealised,
             ac_peak_equity = peak\<rparr>))"


section \<open>Alerts and telemetry\<close>

definition emit :: "amend_telemetry \<Rightarrow> manager_cycle \<Rightarrow> manager_cycle" where
  "emit t c = c\<lparr>mc_telemetry := mc_telemetry c @ [t]\<rparr>"

definition send_alert :: "ftext \<Rightarrow> ftext \<Rightarrow> 'v manager \<Rightarrow> 'v manager" where
  "send_alert key message m = m\<lparr>vm_alerts := vm_alerts m @ [(key, message)]\<rparr>"

definition divergence_key :: "intent_divergence \<Rightarrow> ftext" where
  "divergence_key v = [Lit (dv_kind v), Lit '':'', Lit (if given (dv_broker_ref v) then the (dv_broker_ref v) else dv_position_id v)]"

definition raise_unrealised :: "intent_divergence \<Rightarrow> ftext \<Rightarrow> 'v manager \<times> manager_cycle \<Rightarrow> 'v manager \<times> manager_cycle" where
  "raise_unrealised v message mc =
     (let m = fst mc; c = snd mc in
      (send_alert (divergence_key v) message (m\<lparr>vm_unrealised := vm_unrealised m @ [v]\<rparr>),
       c\<lparr>mc_divergences := mc_divergences c @ [v], mc_alerts := mc_alerts c @ [message]\<rparr>))"

text \<open>What an instruction reports back; a raise of the service is an instruction that failed.\<close>

record heard =
  hd_accepted :: bool
  hd_reason :: ftext
  hd_attempts :: int
  hd_skipped :: bool
  hd_client_ref :: string

definition intent_ref :: "order_intent option \<Rightarrow> string" where
  "intent_ref i = (case i of Some x \<Rightarrow> oi_client_ref x | None \<Rightarrow> [])"

definition failed_instruction :: "pyexn \<Rightarrow> heard" where
  "failed_instruction e =
     \<lparr>hd_accepted = False, hd_reason = [Lit (exn_class e), Lit '':''] @ exn_text e, hd_attempts = 1, hd_skipped = False, hd_client_ref = []\<rparr>"

definition hear_submit :: "pyexn + submit_outcome \<Rightarrow> heard" where
  "hear_submit r =
     (case r of
        Inl e \<Rightarrow> failed_instruction e
      | Inr out \<Rightarrow> \<lparr>hd_accepted = so_accepted out, hd_reason = so_reason out, hd_attempts = 1, hd_skipped = False,
                    hd_client_ref = intent_ref (so_intent out)\<rparr>)"

definition hear_amend :: "pyexn + amend_outcome \<Rightarrow> heard" where
  "hear_amend r =
     (case r of
        Inl e \<Rightarrow> failed_instruction e
      | Inr out \<Rightarrow> \<lparr>hd_accepted = so_accepted out, hd_reason = so_reason out, hd_attempts = ao_attempts out, hd_skipped = ao_skipped out,
                    hd_client_ref = intent_ref (so_intent out)\<rparr>)"


section \<open>Instructions\<close>

definition send_close :: "'v manager_env \<Rightarrow> position \<Rightarrow> flt \<Rightarrow> bool \<Rightarrow> exit_context \<Rightarrow> string \<Rightarrow> 'v service \<Rightarrow> 'v service \<times> heard" where
  "send_close M pos sz final xc reason s =
     (if final then (case close (me_exec M) (me_adapter M) pos xc s of (s', r) \<Rightarrow> (s', hear_submit r))
      else (case close_partial (me_exec M) (me_adapter M) pos sz xc reason s of (s', r) \<Rightarrow> (s', hear_amend r)))"

definition says_already_flat :: "'v manager_env \<Rightarrow> heard \<Rightarrow> bool" where
  "says_already_flat M h \<longleftrightarrow> sublist ''already_flat'' (me_text M (hd_reason h))"

definition close_record :: "'v manager_env \<Rightarrow> 'v manager \<Rightarrow> position \<Rightarrow> flt \<Rightarrow> amend_kind \<Rightarrow> heard \<Rightarrow> amend_telemetry" where
  "close_record M m pos sz kind h =
     (let flat = says_already_flat M h; done' = hd_accepted h \<or> flat in
      \<lparr>tm_at = manager_now M m, tm_position_id = ps_position_id pos, tm_broker_ref = ps_venue_ref pos, tm_instrument = ps_instrument pos,
       tm_strategy_id = ps_strategy_id pos, tm_kind = kind, tm_applied = done', tm_skipped = flat, tm_attempts = hd_attempts h,
       tm_intended_stop = None, tm_intended_take_profit = None, tm_venue_stop_before = None, tm_venue_stop_after = None,
       tm_venue_take_profit_before = None, tm_venue_take_profit_after = None, tm_modelled_entry = Some (ps_entry_price pos),
       tm_venue_entry = map_of (vm_venue_entry m) (ref_str (ps_venue_ref pos)), tm_size = sz, tm_client_ref = hd_client_ref h,
       tm_error = (if done' then [] else hd_reason h), tm_mode = xs_mode (vm_service m)\<rparr>)"

definition instruct_close ::
  "'v manager_env \<Rightarrow> position \<Rightarrow> flt \<Rightarrow> bool \<Rightarrow> amend_kind \<Rightarrow> string \<Rightarrow> 'v manager \<times> manager_cycle \<Rightarrow>
   pyexn + ('v manager \<times> manager_cycle) \<times> bool" where
  "instruct_close M pos sz final kind reason mc =
     (let m = fst mc; c = snd mc in
      rbind (me_context M pos (if final then ''close'' else ''reduce'')) (\<lambda>xc.
        let (s', h) = send_close M pos sz final xc reason (vm_service m);
            m1 = m\<lparr>vm_service := s'\<rparr>; t = close_record M m1 pos sz kind h; mc1 = (m1, emit t c)
        in Inr (if tm_applied t then mc1
                else raise_unrealised
                  \<lparr>dv_kind = ''close_not_realised'', dv_position_id = ps_position_id pos, dv_broker_ref = ps_venue_ref pos,
                   dv_instrument = ps_instrument pos, dv_intended_stop = None, dv_venue_stop = None, dv_intended_take_profit = None,
                   dv_venue_take_profit = None, dv_detail = tm_error t\<rparr>
                  [Lit (ps_instrument pos), Lit '': the book closed '', Repr sz, Lit '' but the venue did not''] mc1,
             tm_applied t)))"

text \<open>The levels of a position of the book, found by its number.\<close>

fun set_first :: "int \<Rightarrow> (position \<Rightarrow> position) \<Rightarrow> managed list \<Rightarrow> managed list" where
  "set_first sq f [] = []"
| "set_first sq f (op # ops) = (if mp_seq op = sq then op\<lparr>mp_position := f (mp_position op)\<rparr> # ops else op # set_first sq f ops)"

definition set_position :: "int \<Rightarrow> (position \<Rightarrow> position) \<Rightarrow> book \<Rightarrow> book" where
  "set_position sq f b = b\<lparr>bk_open := set_first sq f (bk_open b)\<rparr>"

definition apply_levels :: "venue_intent \<Rightarrow> position \<Rightarrow> position" where
  "apply_levels v p =
     p\<lparr>ps_stop_loss := (case vi_stop_loss v of Some x \<Rightarrow> Some x | None \<Rightarrow> ps_stop_loss p),
       ps_take_profit_targets := (case vi_take_profit v of Some x \<Rightarrow> [x] | None \<Rightarrow> [])\<rparr>"

definition amend_record ::
  "'v manager_env \<Rightarrow> 'v manager \<Rightarrow> managed \<Rightarrow> position \<Rightarrow> venue_intent \<Rightarrow> venue_intent option \<Rightarrow> amend_kind \<Rightarrow> heard \<Rightarrow> amend_telemetry" where
  "amend_record M m op pos desired resting kind h =
     (let stop0 = (case resting of Some v \<Rightarrow> vi_stop_loss v | None \<Rightarrow> None);
          target0 = (case resting of Some v \<Rightarrow> vi_take_profit v | None \<Rightarrow> None)
      in \<lparr>tm_at = manager_now M m, tm_position_id = ps_position_id pos, tm_broker_ref = ps_venue_ref pos, tm_instrument = ps_instrument pos,
       tm_strategy_id = ps_strategy_id pos, tm_kind = kind, tm_applied = hd_accepted h, tm_skipped = hd_skipped h, tm_attempts = hd_attempts h,
       tm_intended_stop = vi_stop_loss desired, tm_intended_take_profit = vi_take_profit desired, tm_venue_stop_before = stop0,
       tm_venue_stop_after = (if hd_accepted h then vi_stop_loss desired else stop0), tm_venue_take_profit_before = target0,
       tm_venue_take_profit_after = (if hd_accepted h then vi_take_profit desired else target0), tm_modelled_entry = Some (mp_entry_mid op),
       tm_venue_entry = map_of (vm_venue_entry m) (ref_or_empty (ps_venue_ref (mp_position op))), tm_size = ps_size pos,
       tm_client_ref = hd_client_ref h, tm_error = (if hd_accepted h then [] else hd_reason h), tm_mode = xs_mode (vm_service m)\<rparr>)"

definition instruct_amend ::
  "'v manager_env \<Rightarrow> managed \<Rightarrow> venue_intent \<Rightarrow> amend_kind \<Rightarrow> 'v manager \<times> manager_cycle \<Rightarrow> pyexn + 'v manager \<times> manager_cycle" where
  "instruct_amend M op desired kind mc =
     (let m = fst mc; c = snd mc; ref = ref_or_empty (ps_venue_ref (mp_position op)); kept = map_of (vm_venue_positions m) ref;
          pos = (case kept of Some p \<Rightarrow> p | None \<Rightarrow> mp_position op); resting = map_of (vm_venue_state m) ref
      in rbind (me_context M pos ''amend'') (\<lambda>xc.
        let (s', r) = amend (me_exec M) (me_adapter M) pos (vi_stop_loss desired) (vi_take_profit desired) xc (Some (rt_attempts (me_retry M)))
              (amend_kind_value kind) (vm_service m);
            h = hear_amend r; m1 = m\<lparr>vm_service := s'\<rparr>;
            m2 = (if hd_accepted h then
                    (case kept of
                       Some p \<Rightarrow> m1\<lparr>vm_venue_positions := dict_put ref (apply_levels desired p) (vm_venue_positions m1)\<rparr>
                     | None \<Rightarrow> m1\<lparr>vm_book := set_position (mp_seq op) (apply_levels desired) (vm_book m1)\<rparr>)
                      \<lparr>vm_venue_state := dict_put ref desired (vm_venue_state m1)\<rparr>
                  else m1);
            t = amend_record M m2 op pos desired resting kind h; mc1 = (m2, emit t c)
        in Inr (if tm_applied t then mc1
                else raise_unrealised
                  \<lparr>dv_kind = ''amend_not_realised'', dv_position_id = ps_position_id pos, dv_broker_ref = ps_venue_ref pos,
                   dv_instrument = ps_instrument pos, dv_intended_stop = vi_stop_loss desired, dv_venue_stop = tm_venue_stop_before t,
                   dv_intended_take_profit = vi_take_profit desired, dv_venue_take_profit = tm_venue_take_profit_before t,
                   dv_detail = tm_error t\<rparr>
                  [Lit (ps_instrument pos), Lit '': could not move the stop of the venue''] mc1)))"


section \<open>Entries\<close>

definition precheck_reason :: "'v manager_env \<Rightarrow> string \<Rightarrow> 'v manager \<Rightarrow> string option" where
  "precheck_reason M instr m =
     (let b = vm_book m; cfg = be_config (me_book M); actionable = dr_bar_index (vm_driver m) + 1 + me_latency_bars M in
      if actionable \<le> (case map_of (bk_cooldown_until b) instr of Some n \<Rightarrow> n | None \<Rightarrow> -1) then Some ''cooldown''
      else
        let closing = map pc_position_seq (filter (\<lambda>c. pc_actionable_index c \<le> actionable) (bk_pending_closes b));
            surviving = filter (\<lambda>op. mp_seq op \<notin> set closing) (bk_open b)
        in if int (length surviving) \<ge> bg_max_concurrent cfg then Some ''max_concurrent''
           else if int (length (filter (\<lambda>op. mp_symbol op = instr) surviving)) \<ge> bg_max_per_instrument cfg then Some ''max_per_instrument''
           else None)"

definition precheck_entry :: "'v manager_env \<Rightarrow> string \<Rightarrow> bool \<Rightarrow> 'v manager \<Rightarrow> 'v manager \<times> string option" where
  "precheck_entry M instr do_bump m =
     (case precheck_reason M instr m of
        None \<Rightarrow> (m, None)
      | Some reason \<Rightarrow> ((if do_bump then m\<lparr>vm_book := next_seq (bump reason (vm_book m))\<rparr> else m), Some reason))"

definition venue_position ::
  "'v manager_env \<Rightarrow> 'v manager \<Rightarrow> string \<Rightarrow> direction \<Rightarrow> flt \<Rightarrow> flt option \<Rightarrow> flt option \<Rightarrow> string \<Rightarrow> string \<Rightarrow> int \<Rightarrow> order_ack \<Rightarrow> position" where
  "venue_position M m instr dirn sz stop attached strategy_id ref sq ack =
     \<lparr>ps_instrument = instr, ps_direction = dirn, ps_size = (case oa_fill ack of Some f \<Rightarrow> f_filled_size f | None \<Rightarrow> sz),
      ps_entry_price = (case oa_fill ack of Some f \<Rightarrow> f_filled_price f | None \<Rightarrow> Fin 0),
      ps_entry_time = (case oa_fill ack of Some f \<Rightarrow> f_filled_at f | None \<Rightarrow> manager_now M m),
      ps_stop_loss = Some (case stop of Some x \<Rightarrow> x | None \<Rightarrow> Fin 0),
      ps_take_profit_targets = (case attached of Some x \<Rightarrow> [x] | None \<Rightarrow> []), ps_strategy_id = strategy_id, ps_bars_held = 0, ps_mfe = Fin 0,
      ps_mae = Fin 0, ps_financing_accrued = Fin 0, ps_venue_ref = Some ref, ps_position_id = me_venue_position_id M sq\<rparr>"

definition adopt_ack ::
  "'v manager_env \<Rightarrow> order_ack \<Rightarrow> string \<Rightarrow> direction \<Rightarrow> flt \<Rightarrow> flt option \<Rightarrow> flt list \<Rightarrow> flt list \<Rightarrow> string \<Rightarrow> flt option \<Rightarrow> 'v manager \<Rightarrow>
   pyexn + 'v manager \<times> pending_entry" where
  "adopt_ack M ack instr dirn sz stop prices allocations strategy_id take_profit m =
     (if \<not> given (oa_broker_ref ack) then Inl (ValueError (lit ''cannot manage: the ack carries no broker reference''))
      else if dr_bar_index (vm_driver m) < 0 then Inl (ValueError (lit ''adopt before the first bar''))
      else let ref = the (oa_broker_ref ack) in
        rbind (queue_pending_entry (me_registry M) instr dirn sz stop prices allocations take_profit (dr_bar_index (vm_driver m))
            (me_latency_bars M) strategy_id (Ref_str ref) None (vm_book m)) (\<lambda>(b, entry).
          let attached = (case pn_take_profit_prices entry of [] \<Rightarrow> None | t # _ \<Rightarrow> Some t) in
          Inr (m\<lparr>vm_book := b, vm_pending_orders := dict_put (pn_seq entry) (ref, instr) (vm_pending_orders m),
                 vm_venue_state := dict_put ref \<lparr>vi_stop_loss = stop, vi_take_profit = attached\<rparr> (vm_venue_state m),
                 vm_venue_entry := (case oa_fill ack of Some f \<Rightarrow> dict_put ref (f_filled_price f) (vm_venue_entry m) | None \<Rightarrow> vm_venue_entry m),
                 vm_venue_positions := dict_put ref (venue_position M m instr dirn sz stop attached strategy_id ref (pn_seq entry) ack)
                   (vm_venue_positions m)\<rparr>,
               entry)))"

definition adopt :: "'v manager_env \<Rightarrow> order \<Rightarrow> order_ack \<Rightarrow> string \<Rightarrow> 'v manager \<Rightarrow> pyexn + 'v manager \<times> pending_entry" where
  "adopt M ord ack strategy_id m =
     adopt_ack M ack (o_instrument ord) (o_direction ord) (o_size ord) (o_stop_loss ord) (o_take_profit_prices ord) (o_take_profit_allocations ord)
       (if strategy_id \<noteq> [] then strategy_id else o_plan_id ord) (o_take_profit ord) m"

text \<open>The order may have been dealt when adopting it raises, so the manager after a raise is kept here.\<close>

definition manager_submit ::
  "'v manager_env \<Rightarrow> string \<Rightarrow> trade_plan \<Rightarrow> risk_context \<Rightarrow> string \<Rightarrow> 'v manager \<Rightarrow> 'v manager \<times> (pyexn + submit_outcome)" where
  "manager_submit M oid p rc strategy_id m =
     (case submit (me_exec M) (me_adapter M) oid p rc (vm_service m) of
        (s', Inl e) \<Rightarrow> (m\<lparr>vm_service := s'\<rparr>, Inl e)
      | (s', Inr out) \<Rightarrow>
          let m1 = m\<lparr>vm_service := s'\<rparr> in
          (case so_ack out of
             None \<Rightarrow> (m1, Inr out)
           | Some ack \<Rightarrow>
               if \<not> so_accepted out \<or> \<not> given (oa_broker_ref ack) then (m1, Inr out)
               else let sg = pl_signal p in
                 (case adopt_ack M ack (pl_instrument p) (pl_direction p) (pl_size p) (Some (sg_stop_price sg)) (sg_take_profit_prices sg)
                    (sg_take_profit_allocations sg) (if strategy_id \<noteq> [] then strategy_id else sg_strategy_id sg) None m1 of
                    Inl e \<Rightarrow> (m1, Inl e)
                  | Inr (m2, _) \<Rightarrow> (m2, Inr out))))"


section \<open>Exposure to a dead worker\<close>

definition manager_rate :: "'v manager_env \<Rightarrow> string \<Rightarrow> tstamp \<Rightarrow> pyexn + flt" where
  "manager_rate M from_ccy t = (case me_fx M of None \<Rightarrow> Inr (Fin 1) | Some fx \<Rightarrow> fx from_ccy (me_account_ccy M) t)"

definition resting_size :: "venue_intent option \<Rightarrow> managed \<Rightarrow> flt" where
  "resting_size attached op =
     (if (case attached of Some v \<Rightarrow> vi_take_profit v \<noteq> None | None \<Rightarrow> False)
      then if mp_next_leg op < length (mp_legs op) then py_min (tl_size (mp_legs op ! mp_next_leg op)) (mp_size op) else mp_size op
      else Fin 0)"

definition exposure_mark :: "bar_slice option \<Rightarrow> managed \<Rightarrow> flt" where
  "exposure_mark view op =
     (case view of
        None \<Rightarrow> mp_entry_mid op
      | Some v \<Rightarrow>
          (case bar_or_last v (mp_symbol op) of
             Some bar \<Rightarrow> b_close bar
           | None \<Rightarrow> (case sl_last_closes v (mp_symbol op) of Some x \<Rightarrow> x | None \<Rightarrow> mp_entry_mid op)))"

definition add_amount :: "string \<Rightarrow> flt \<Rightarrow> (string \<times> flt) list \<Rightarrow> (string \<times> flt) list" where
  "add_amount k x d = dict_put k ((case map_of d k of Some y \<Rightarrow> y | None \<Rightarrow> Fin 0) + x) d"

fun exposure_loop :: "'v manager_env \<Rightarrow> bar_slice option \<Rightarrow> 'v manager \<Rightarrow> managed list \<Rightarrow> exit_exposure \<Rightarrow> pyexn + exit_exposure" where
  "exposure_loop M view m [] acc = Inr acc"
| "exposure_loop M view m (op # ops) acc =
     (let attached = map_of (vm_venue_state m) (ref_or_empty (ps_venue_ref (mp_position op)));
          unattached = py_max (Fin 0) (mp_size op - resting_size attached op)
      in if unattached \<le> Fin 0 then exposure_loop M view m ops acc
         else let stop = or_level (case attached of Some v \<Rightarrow> vi_stop_loss v | None \<Rightarrow> None) (mp_stop op);
                  mark = exposure_mark view op;
                  risk = \<bar>mark - (case or_level stop None of Some x \<Rightarrow> x | None \<Rightarrow> mark)\<bar>
              in rbind (manager_rate M (i_quote (mp_instrument op)) (xx_at acc)) (\<lambda>rate.
                   let amount = unattached * risk * i_contract_size (mp_instrument op) * rate;
                       sid = (if ps_strategy_id (mp_position op) = [] then ''unattributed'' else ps_strategy_id (mp_position op))
                   in if amount \<le> Fin 0 then exposure_loop M view m ops acc
                      else exposure_loop M view m ops
                        (acc\<lparr>xx_exposed_positions := xx_exposed_positions acc + 1, xx_amount := xx_amount acc + amount,
                             xx_per_instrument := add_amount (mp_symbol op) amount (xx_per_instrument acc),
                             xx_per_strategy := add_amount sid amount (xx_per_strategy acc)\<rparr>)))"

definition measure_exposure :: "'v manager_env \<Rightarrow> bar_slice option \<Rightarrow> 'v manager \<Rightarrow> pyexn + exit_exposure" where
  "measure_exposure M view m =
     exposure_loop M view m (bk_open (vm_book m))
       \<lparr>xx_at = (case view of Some v \<Rightarrow> sl_timestamp v | None \<Rightarrow> manager_now M m), xx_amount = Fin 0,
        xx_positions = int (length (bk_open (vm_book m))), xx_exposed_positions = 0, xx_account_ccy = me_account_ccy M,
        xx_per_instrument = [], xx_per_strategy = []\<rparr>"

definition managed_exit_exposure :: "'v manager \<Rightarrow> flt" where
  "managed_exit_exposure m = (case vm_last_exposure m of None \<Rightarrow> Fin 0 | Some x \<Rightarrow> xx_amount x)"


section \<open>The bar\<close>

fun retry_loop ::
  "'v manager_env \<Rightarrow> (string \<times> position \<times> string) list \<Rightarrow> 'v manager \<times> manager_cycle \<Rightarrow> pyexn + 'v manager \<times> manager_cycle" where
  "retry_loop M [] mc = Inr mc"
| "retry_loop M ((ref, pos, reason) # rest) mc =
     rbind (instruct_close M pos (ps_size pos) True AK_CLOSE (''retry:'' @ reason) mc) (\<lambda>((m, c), applied).
       retry_loop M rest (if applied then m\<lparr>vm_pending_closes := dict_pop ref (vm_pending_closes m)\<rparr> else m, c))"

definition retry_pending_closes :: "'v manager_env \<Rightarrow> 'v manager \<times> manager_cycle \<Rightarrow> pyexn + 'v manager \<times> manager_cycle" where
  "retry_pending_closes M mc = retry_loop M (sort_key fst (vm_pending_closes (fst mc))) mc"

definition push_final ::
  "'v manager_env \<Rightarrow> string \<Rightarrow> position \<Rightarrow> exit_leg \<Rightarrow> 'v manager \<times> manager_cycle \<Rightarrow> pyexn + 'v manager \<times> manager_cycle" where
  "push_final M ref pos leg mc =
     rbind (instruct_close M pos (ps_size pos) True AK_CLOSE (xl_exit_reason leg) mc) (\<lambda>((m, c), applied).
       Inr (m\<lparr>vm_venue_state := dict_pop ref (vm_venue_state m), vm_venue_positions := dict_pop ref (vm_venue_positions m),
              vm_ref_by_seq := dict_pop (xl_position_seq leg) (vm_ref_by_seq m),
              vm_pending_closes := (if applied then vm_pending_closes m else dict_put ref (pos, xl_exit_reason leg) (vm_pending_closes m))\<rparr>, c))"

definition push_scale_out ::
  "'v manager_env \<Rightarrow> string \<Rightarrow> position \<Rightarrow> exit_leg \<Rightarrow> 'v manager \<times> manager_cycle \<Rightarrow> pyexn + 'v manager \<times> manager_cycle" where
  "push_scale_out M ref pos leg mc =
     rbind (instruct_close M pos (py_min (xl_size leg) (ps_size pos)) False AK_SCALE_OUT (xl_exit_reason leg) mc) (\<lambda>((m, c), _).
       let m1 = m\<lparr>vm_venue_positions := dict_put ref (pos\<lparr>ps_size := py_max (Fin 0) (ps_size pos - xl_size leg)\<rparr>) (vm_venue_positions m)\<rparr> in
       case find (\<lambda>op. mp_seq op = xl_position_seq leg) (bk_open (vm_book m1)) of
         None \<Rightarrow> Inr (m1, c)
       | Some op \<Rightarrow> instruct_amend M op (desired_levels op) AK_NEXT_LEG (m1, c))"

fun push_closes ::
  "'v manager_env \<Rightarrow> int list \<Rightarrow> exit_leg list \<Rightarrow> 'v manager \<times> manager_cycle \<Rightarrow> pyexn + 'v manager \<times> manager_cycle" where
  "push_closes M open_seqs [] mc = Inr mc"
| "push_closes M open_seqs (leg # legs) mc =
     rbind (case map_of (vm_ref_by_seq (fst mc)) (xl_position_seq leg) of
              None \<Rightarrow> Inr mc
            | Some ref \<Rightarrow>
                if ref = [] then Inr mc
                else (case map_of (vm_venue_positions (fst mc)) ref of
                        None \<Rightarrow> Inr mc
                      | Some pos \<Rightarrow>
                          if xl_final leg \<or> xl_position_seq leg \<notin> set open_seqs then push_final M ref pos leg mc
                          else push_scale_out M ref pos leg mc)) (push_closes M open_seqs legs)"

definition level_kind :: "managed \<Rightarrow> amend_kind" where
  "level_kind op =
     (if mp_breakeven_done op \<and> \<not> mp_stop_trailed op then AK_BREAKEVEN else if mp_stop_trailed op then AK_TRAIL else AK_ATTACH)"

fun push_levels :: "'v manager_env \<Rightarrow> managed list \<Rightarrow> 'v manager \<times> manager_cycle \<Rightarrow> pyexn + 'v manager \<times> manager_cycle" where
  "push_levels M [] mc = Inr mc"
| "push_levels M (op # ops) mc =
     (let ref = ref_or_empty (ps_venue_ref (mp_position op)) in
      rbind (if ref = [] \<or> map_of (vm_venue_positions (fst mc)) ref = None
               \<or> intent_matches (desired_levels op) (map_of (vm_venue_state (fst mc)) ref) (me_price_tolerance M)
             then Inr mc else instruct_amend M op (desired_levels op) (level_kind op) mc) (push_levels M ops))"

text \<open>The entries of a step: an entry the book opened is linked to its reference, one it refused is closed at the venue.\<close>

definition stray_entry ::
  "'v manager_env \<Rightarrow> string \<Rightarrow> entry_event \<Rightarrow> 'v manager \<times> manager_cycle \<Rightarrow> pyexn + 'v manager \<times> manager_cycle" where
  "stray_entry M ref ev mc =
     (let m = fst mc; stray = map_of (vm_venue_positions m) ref; reason = ''entry_not_modelled:'' @ ee_reason ev;
          symb = i_symbol (pn_instrument (ee_pending ev));
          m1 = m\<lparr>vm_venue_positions := dict_pop ref (vm_venue_positions m), vm_venue_state := dict_pop ref (vm_venue_state m)\<rparr>
      in rbind (case stray of
                  None \<Rightarrow> Inr (m1, snd mc)
                | Some pos \<Rightarrow>
                    rbind (instruct_close M pos (ps_size pos) True AK_CORRECTION reason (m1, snd mc)) (\<lambda>((m2, c2), applied).
                      Inr (if applied then m2 else m2\<lparr>vm_pending_closes := dict_put ref (pos, reason) (vm_pending_closes m2)\<rparr>, c2))) (\<lambda>mc2.
           Inr (raise_unrealised
             \<lparr>dv_kind = ''entry_not_modelled'', dv_position_id = (case stray of None \<Rightarrow> [] | Some pos \<Rightarrow> ps_position_id pos),
              dv_broker_ref = Some ref, dv_instrument = symb, dv_intended_stop = None, dv_venue_stop = None, dv_intended_take_profit = None,
              dv_venue_take_profit = None, dv_detail = [Lit ''book refused the entry: '', Lit (ee_reason ev)]\<rparr>
             [Lit symb, Lit '': the venue filled an order the position book refused''] mc2)))"

fun link_entries ::
  "'v manager_env \<Rightarrow> entry_event list \<Rightarrow> 'v manager \<times> manager_cycle \<Rightarrow> pyexn + 'v manager \<times> manager_cycle" where
  "link_entries M [] mc = Inr mc"
| "link_entries M (ev # evs) mc =
     (let m = fst mc; sq = pn_seq (ee_pending ev) in
      case map_of (vm_pending_orders m) sq of
        None \<Rightarrow> link_entries M evs mc
      | Some (ref, _) \<Rightarrow>
          let m1 = m\<lparr>vm_pending_orders := dict_pop sq (vm_pending_orders m)\<rparr> in
          rbind (case ee_managed ev of
                   Some op \<Rightarrow>
                     if ee_filled ev
                     then Inr (m1\<lparr>vm_book := set_position (mp_seq op) (\<lambda>p. p\<lparr>ps_venue_ref := Some ref\<rparr>) (vm_book m1),
                                  vm_ref_by_seq := dict_put (mp_seq op) ref (vm_ref_by_seq m1)\<rparr>, snd mc)
                     else stray_entry M ref ev (m1, snd mc)
                 | None \<Rightarrow> stray_entry M ref ev (m1, snd mc)) (link_entries M evs))"

definition finish_cycle :: "'v manager_env \<Rightarrow> bar_slice \<Rightarrow> 'v manager \<times> manager_cycle \<Rightarrow> pyexn + 'v manager \<times> manager_cycle" where
  "finish_cycle M view mc =
     rbind (measure_exposure M (Some view) (fst mc)) (\<lambda>x.
       let c = (snd mc)\<lparr>mc_exposure := Some x\<rparr> in
       Inr ((fst mc)\<lparr>vm_last_exposure := Some x, vm_cycles := vm_cycles (fst mc) @ [c]\<rparr>, c))"

definition push_legs :: "'v manager_env \<Rightarrow> advance_result \<Rightarrow> 'v manager \<times> manager_cycle \<Rightarrow> pyexn + 'v manager \<times> manager_cycle" where
  "push_legs M r mc = push_closes M (map mp_seq (bk_open (vm_book (fst mc)))) (ar_legs r) mc"

definition on_bar ::
  "'v manager_env \<Rightarrow> (string \<times> bar) list \<Rightarrow> int \<Rightarrow> tstamp option \<Rightarrow> column_values \<Rightarrow> 'v manager \<Rightarrow> pyexn + 'v manager \<times> manager_cycle" where
  "on_bar M bars bar_index timestamp series m =
     rbind (driver_advance (me_book M) bars bar_index timestamp series (vm_driver m) (vm_book m)) (\<lambda>(d, b, r, view).
     rbind (link_entries M (ar_entries r) (m\<lparr>vm_driver := d, vm_book := b\<rparr>, new_cycle (sl_timestamp view) r)) (\<lambda>mc1.
     rbind (retry_pending_closes M mc1) (\<lambda>mc2.
     rbind (push_legs M r mc2) (\<lambda>mc3.
     rbind (push_levels M (bk_open (vm_book (fst mc3))) mc3) (finish_cycle M view)))))"

definition manager_flatten ::
  "'v manager_env \<Rightarrow> (string \<times> bar) list \<Rightarrow> exit_reason \<Rightarrow> managed list option \<Rightarrow> 'v manager \<Rightarrow> pyexn + 'v manager \<times> manager_cycle" where
  "manager_flatten M bars reason positions m =
     rbind (slice_for bars None None None Map.empty (vm_driver m)) (\<lambda>view.
     rbind (book_flatten (me_book M) view reason positions (vm_book m)) (\<lambda>(b, r).
     rbind (retry_pending_closes M (m\<lparr>vm_book := b\<rparr>, new_cycle (sl_timestamp view) r)) (\<lambda>mc2.
     rbind (push_legs M r mc2) (finish_cycle M view))))"

definition manager_finish ::
  "'v manager_env \<Rightarrow> (string \<times> bar) list \<Rightarrow> 'v manager \<Rightarrow> pyexn + 'v manager \<times> manager_cycle option" where
  "manager_finish M bars m =
     (if bk_open (vm_book m) = [] then Inr (m, None)
      else rbind (manager_flatten M bars END_OF_DATA None m) (\<lambda>(m', c). Inr (m', Some c)))"


section \<open>Reconciliation\<close>

definition divergence :: "string \<Rightarrow> string \<Rightarrow> string \<Rightarrow> string \<Rightarrow> ftext \<Rightarrow> intent_divergence" where
  "divergence kind position_id ref instr detail =
     \<lparr>dv_kind = kind, dv_position_id = position_id, dv_broker_ref = Some ref, dv_instrument = instr, dv_intended_stop = None,
      dv_venue_stop = None, dv_intended_take_profit = None, dv_venue_take_profit = None, dv_detail = detail\<rparr>"

definition managed_by_ref :: "book \<Rightarrow> (string \<times> managed) list" where
  "managed_by_ref b =
     fold (\<lambda>op d. dict_put (the (ps_venue_ref (mp_position op))) op d) (filter (\<lambda>op. given (ps_venue_ref (mp_position op))) (bk_open b)) []"

definition positions_by_ref :: "position list \<Rightarrow> (string \<times> position) list" where
  "positions_by_ref ps = fold (\<lambda>p d. dict_put (the (ps_venue_ref p)) p d) (filter (\<lambda>p. given (ps_venue_ref p)) ps) []"

definition compare_position ::
  "'v manager_env \<Rightarrow> (string \<times> position) list \<Rightarrow> bool \<Rightarrow> string \<Rightarrow> managed \<Rightarrow> 'v manager \<times> manager_cycle \<Rightarrow>
   pyexn + ('v manager \<times> manager_cycle) \<times> intent_divergence list" where
  "compare_position M by_ref repair ref op mc =
     (let m = fst mc; intended = desired_levels op; pid = ps_position_id (mp_position op); symb = mp_symbol op in
      case map_of by_ref ref of
        None \<Rightarrow>
          Inr ((m\<lparr>vm_venue_positions := dict_pop ref (vm_venue_positions m)\<rparr>, snd mc),
            [(divergence ''missing_at_venue'' pid ref symb (lit ''we are managing a position the venue does not have''))
               \<lparr>dv_intended_stop := vi_stop_loss intended\<rparr>])
      | Some venue \<Rightarrow>
          let held = venue_levels venue;
              venue' = (if ps_strategy_id venue = [] then venue\<lparr>ps_strategy_id := ps_strategy_id (mp_position op)\<rparr> else venue);
              m1 = m\<lparr>vm_venue_state := dict_put ref held (vm_venue_state m), vm_venue_positions := dict_put ref venue' (vm_venue_positions m)\<rparr>
          in if intent_matches intended (Some held) (me_price_tolerance M) then Inr ((m1, snd mc), [])
             else
               let v = (divergence ''stop_mismatch'' pid ref symb (lit ''the resting levels of the venue are not the ones we intend''))
                     \<lparr>dv_intended_stop := vi_stop_loss intended, dv_venue_stop := vi_stop_loss held,
                      dv_intended_take_profit := vi_take_profit intended, dv_venue_take_profit := vi_take_profit held\<rparr>;
                   m2 = send_alert [Lit ''stop_mismatch:'', Lit ref] [Lit symb, Lit '': the stop of the venue is not the intended one''] m1
               in rbind (if repair then instruct_amend M op intended AK_CORRECTION (m2, snd mc) else Inr (m2, snd mc)) (\<lambda>mc'. Inr (mc', [v])))"

fun compare_all ::
  "'v manager_env \<Rightarrow> (string \<times> position) list \<Rightarrow> bool \<Rightarrow> (string \<times> managed) list \<Rightarrow> 'v manager \<times> manager_cycle \<Rightarrow>
   pyexn + ('v manager \<times> manager_cycle) \<times> intent_divergence list" where
  "compare_all M by_ref repair [] mc = Inr (mc, [])"
| "compare_all M by_ref repair ((ref, op) # rest) mc =
     rbind (compare_position M by_ref repair ref op mc) (\<lambda>(mc1, vs). rbind (compare_all M by_ref repair rest mc1) (\<lambda>(mc2, ws). Inr (mc2, vs @ ws)))"

definition unmanaged_divergence ::
  "(string \<times> managed) list \<Rightarrow> (string \<times> position \<times> string) list \<Rightarrow> string \<times> position \<Rightarrow> intent_divergence list" where
  "unmanaged_divergence managed_refs pending_closes rp =
     (let ref = fst rp; venue = snd rp in
      if map_of managed_refs ref \<noteq> None then []
      else case map_of pending_closes ref of
        Some (_, why) \<Rightarrow>
          [(divergence ''close_pending'' (ps_position_id venue) ref (ps_instrument venue)
              [Lit ''the book closed this position and the venue has not confirmed ('', Lit why, Lit '')''])
             \<lparr>dv_venue_stop := or_level (ps_stop_loss venue) None\<rparr>]
      | None \<Rightarrow>
          [(divergence ''unmanaged_at_venue'' (ps_position_id venue) ref (ps_instrument venue)
              (lit ''a REAL position at the venue that this manager is not managing''))
             \<lparr>dv_venue_stop := or_level (ps_stop_loss venue) None\<rparr>])"

definition keep_cycle :: "'v manager \<times> manager_cycle \<Rightarrow> 'v manager" where
  "keep_cycle mc = (if mc_telemetry (snd mc) \<noteq> [] then (fst mc)\<lparr>vm_cycles := vm_cycles (fst mc) @ [snd mc]\<rparr> else fst mc)"

definition reconcile_with ::
  "'v manager_env \<Rightarrow> position list \<Rightarrow> bool \<Rightarrow> 'v manager \<Rightarrow> pyexn + 'v manager \<times> intent_divergence list" where
  "reconcile_with M venue_positions repair m =
     (let by_ref = positions_by_ref venue_positions; managed_refs = managed_by_ref (vm_book m) in
      rbind (compare_all M by_ref repair (sort_key fst managed_refs) (m, new_cycle (manager_now M m) no_result)) (\<lambda>((m1, c1), vs).
        let m2 = m1\<lparr>vm_pending_closes := filter (\<lambda>kv. map_of by_ref (fst kv) \<noteq> None) (vm_pending_closes m1)\<rparr> in
        Inr (keep_cycle (m2, c1),
             vs @ concat (map (unmanaged_divergence managed_refs (vm_pending_closes m2)) (sort_key fst by_ref)))))"

definition manager_reconcile ::
  "'v manager_env \<Rightarrow> position list option \<Rightarrow> bool \<Rightarrow> 'v manager \<Rightarrow> pyexn + 'v manager \<times> intent_divergence list" where
  "manager_reconcile M venue_positions repair m =
     (case venue_positions of
        Some ps \<Rightarrow> reconcile_with M ps repair m
      | None \<Rightarrow>
          (case ad_positions (me_adapter M) (xs_venue (vm_service m)) of
             (v, Inl e) \<Rightarrow> Inl e
           | (v, Inr ps) \<Rightarrow> reconcile_with M ps repair (m\<lparr>vm_service := (vm_service m)\<lparr>xs_venue := v\<rparr>\<rparr>)))"


section \<open>After a crash\<close>

definition json_number :: "(jval \<Rightarrow> pyexn + flt) \<Rightarrow> jval \<Rightarrow> pyexn + flt" where
  "json_number F v =
     (case v of JFloat x \<Rightarrow> Inr x | JInt i \<Rightarrow> Inr (Fin (of_int i)) | JBool b \<Rightarrow> Inr (Fin (of_bool b)) | _ \<Rightarrow> F v)"

definition json_numbers :: "(jval \<Rightarrow> pyexn + flt) \<Rightarrow> jval option \<Rightarrow> pyexn + flt list" where
  "json_numbers F v =
     (case v of
        None \<Rightarrow> Inr []
      | Some x \<Rightarrow>
          if \<not> jtruthy x then Inr []
          else (case x of JList vs \<Rightarrow> rmap (json_number F) vs
                | JDict kvs \<Rightarrow> rmap (\<lambda>kv. json_number F (JStr (fst kv))) kvs
                | JStr s \<Rightarrow> rmap (\<lambda>ch. json_number F (JStr [ch])) s
                | _ \<Rightarrow> Inl (TypeError (lit ''object is not iterable''))))"

definition rebuild_managed ::
  "'v manager_env \<Rightarrow> int \<Rightarrow> position \<Rightarrow> order_intent \<Rightarrow> int \<Rightarrow> pyexn + managed" where
  "rebuild_managed M bar_index pos i sq =
     rbind (get_instrument (me_registry M) (ps_instrument pos)) (\<lambda>instr.
     rbind (json_numbers (xe_float (me_exec M)) (map_of (oi_extra i) ''take_profit_prices'')) (\<lambda>prices0.
     rbind (json_numbers (xe_float (me_exec M)) (map_of (oi_extra i) ''take_profit_allocations'')) (\<lambda>allocations.
     rbind (if jtruthy (oi_filled_price i) then json_number (xe_float (me_exec M)) (oi_filled_price i) else Inr (ps_entry_price pos)) (\<lambda>entry_price.
       let prices = (case oi_take_profit i of Some t \<Rightarrow> if prices0 = [] then [t] else prices0 | None \<Rightarrow> prices0);
           original_stop = (case or_level (oi_stop_loss i) (or_level (ps_stop_loss pos) None) of Some x \<Rightarrow> x | None \<Rightarrow> Fin 0)
       in rbind (plan_legs instr (ps_size pos) prices allocations) (\<lambda>legs.
         let modelled = pos\<lparr>ps_entry_price := entry_price,
               ps_strategy_id := (if ps_strategy_id pos = [] then oi_strategy_id i else ps_strategy_id pos), ps_bars_held := 0, ps_mfe := Fin 0,
               ps_mae := Fin 0, ps_financing_accrued := Fin 0, ps_position_id := be_position_id (me_book M) sq\<rparr>;
             improved = (case or_level (ps_stop_loss pos) None of
                 Some st \<Rightarrow> truthy original_stop \<and> (st - original_stop) * Fin (dir_sign (ps_direction pos)) > Fin 0 | None \<Rightarrow> False)
         in Inr
           \<lparr>mp_seq = sq, mp_position = modelled, mp_instrument = instr, mp_entry_mid = entry_price, mp_entry_bar_index = bar_index,
            mp_take_profit = (case legs of [] \<Rightarrow> None | leg # _ \<Rightarrow> Some (tl_price leg)), mp_entry_costs_account = no_account_costs,
            mp_financing_account = Fin 0, mp_last_financing_time = None, mp_entry_fx = Fin 1, mp_entry_size = ps_size pos, mp_legs = legs,
            mp_next_leg = 0, mp_risk_per_unit = \<bar>entry_price - original_stop\<bar>, mp_initial_stop = original_stop, mp_extreme = NaN,
            mp_breakeven_done = False, mp_stop_trailed = improved, mp_stop_moved_by = [], mp_reversal_pending = False,
            mp_realised_gross = Fin 0, mp_realised_spread = Fin 0, mp_realised_commission = Fin 0, mp_realised_slippage = Fin 0,
            mp_realised_financing = Fin 0, mp_realised_net = Fin 0, mp_exit_value = Fin 0, mp_n_legs_closed = 0,
            mp_single_leg_exit_mid = Fin 0,
            mp_ref = (case ps_venue_ref pos of Some r \<Rightarrow> Ref_str r | None \<Rightarrow> Ref_none)\<rparr>)))))"

definition resume_position ::
  "'v manager_env \<Rightarrow> int \<Rightarrow> bool \<Rightarrow> recovered_position \<Rightarrow> 'v manager \<times> manager_cycle \<Rightarrow> pyexn + ('v manager \<times> manager_cycle) \<times> intent_divergence list" where
  "resume_position M bar_index reattach rp mc =
     (let m = fst mc; pos = rp_position rp; ref = (if rp_broker_ref rp \<noteq> [] then rp_broker_ref rp else ref_or_empty (ps_venue_ref pos)) in
      if ref = [] then Inr (mc, [])
      else case rp_intent rp of
        None \<Rightarrow>
          Inr ((send_alert [Lit ''orphan_unmanageable:'', Lit ref] [Lit (ps_instrument pos), Lit '': recovered a real position with no local record''] m,
                snd mc),
            [(divergence ''orphan_unmanageable'' (ps_position_id pos) ref (ps_instrument pos) (lit ''a real position with NO local order intent''))
               \<lparr>dv_venue_stop := or_level (ps_stop_loss pos) None\<rparr>])
      | Some i \<Rightarrow>
          let b = next_seq (vm_book m) in
          rbind (rebuild_managed M bar_index pos i (bk_seq b)) (\<lambda>op.
          rbind (if jtruthy (oi_filled_price i)
                 then rbind (json_number (xe_float (me_exec M)) (oi_filled_price i)) (\<lambda>x. Inr (dict_put ref x (vm_venue_entry m)))
                 else Inr (vm_venue_entry m)) (\<lambda>entries.
            let held = venue_levels pos; desired = desired_levels op;
                m1 = m\<lparr>vm_book := b\<lparr>bk_open := bk_open b @ [op]\<rparr>, vm_ref_by_seq := dict_put (mp_seq op) ref (vm_ref_by_seq m),
                       vm_venue_positions := dict_put ref pos (vm_venue_positions m), vm_venue_state := dict_put ref held (vm_venue_state m),
                       vm_venue_entry := entries\<rparr>;
                v = (divergence ''recovered'' (ps_position_id pos) ref (ps_instrument pos) (lit ''intent re-derived from the durable order record''))
                      \<lparr>dv_intended_stop := vi_stop_loss desired, dv_venue_stop := vi_stop_loss held,
                       dv_intended_take_profit := vi_take_profit desired, dv_venue_take_profit := vi_take_profit held\<rparr>
            in rbind (if reattach \<and> \<not> intent_matches desired (Some held) (me_price_tolerance M)
                      then instruct_amend M op desired AK_REATTACH (m1, snd mc) else Inr (m1, snd mc)) (\<lambda>mc'. Inr (mc', [v])))))"

fun resume_all ::
  "'v manager_env \<Rightarrow> int \<Rightarrow> bool \<Rightarrow> recovered_position list \<Rightarrow> 'v manager \<times> manager_cycle \<Rightarrow> pyexn + ('v manager \<times> manager_cycle) \<times> intent_divergence list" where
  "resume_all M bar_index reattach [] mc = Inr (mc, [])"
| "resume_all M bar_index reattach (rp # rps) mc =
     rbind (resume_position M bar_index reattach rp mc) (\<lambda>(mc1, vs).
       rbind (resume_all M bar_index reattach rps mc1) (\<lambda>(mc2, ws). Inr (mc2, vs @ ws)))"

definition resume ::
  "'v manager_env \<Rightarrow> recovery_report \<Rightarrow> int \<Rightarrow> tstamp option \<Rightarrow> bool \<Rightarrow> 'v manager \<Rightarrow> pyexn + 'v manager \<times> intent_divergence list" where
  "resume M rec bar_index now reattach m =
     rbind (resume_all M bar_index reattach (rv_positions rec) (m, new_cycle (case now of Some t \<Rightarrow> t | None \<Rightarrow> me_clock M) no_result)) (\<lambda>(mc, vs).
       Inr (keep_cycle mc, vs))"

end
