(* ===== verification/Book_State.thy ===== *)
theory Book_State
  imports Position_Book Intent_Log
begin

text \<open>
  The state of a position book as plain JSON values, written by \<open>export_state\<close> and loaded by \<open>restore_state\<close> of
  \<open>backtest/position.py\<close> when a forward paper book is carried across a restart.

  \<open>isoformat\<close> and \<open>pd.Timestamp\<close>, the instrument table and the random default of a missing position identifier are arguments.
  An aware timestamp is its instant, so the conversion to UTC after a read changes nothing.
  A field that a constructor takes over without conversion is read with the type it is written with, and the cost pool with its four
  keys; a state holding something else there, which \<open>export_state\<close> never writes, is an error in the model.
\<close>

record state_env =
  se_iso :: "tstamp \<Rightarrow> string"
  se_timestamp :: "string \<Rightarrow> pyexn + tstamp"
  se_registry :: registry
  se_fresh_id :: string

section \<open>Writing\<close>

definition ts_to_state :: "state_env \<Rightarrow> tstamp option \<Rightarrow> jval" where
  "ts_to_state S t = (case t of None \<Rightarrow> JNull | Some x \<Rightarrow> JStr (se_iso S x))"

definition ref_to_state :: "caller_ref \<Rightarrow> pyexn + jval" where
  "ref_to_state ref =
     (case ref of
        Ref_none \<Rightarrow> Inr JNull
      | Ref_str s \<Rightarrow> Inr (JStr s)
      | Ref_object _ \<Rightarrow> Inl (TypeError (lit ''a position reference cannot be carried across a restart'')))"

definition position_to_state :: "state_env \<Rightarrow> position \<Rightarrow> jdict" where
  "position_to_state S p =
     [(''instrument'', JStr (ps_instrument p)), (''direction'', JStr (dir_value (ps_direction p))), (''size'', JFloat (ps_size p)),
      (''entry_price'', JFloat (ps_entry_price p)), (''entry_time'', ts_to_state S (Some (ps_entry_time p))),
      (''stop_loss'', opt_float (ps_stop_loss p)), (''take_profit_targets'', JList (map JFloat (ps_take_profit_targets p))),
      (''strategy_id'', JStr (ps_strategy_id p)), (''bars_held'', JInt (ps_bars_held p)),
      (''max_favourable_excursion'', JFloat (ps_mfe p)), (''max_adverse_excursion'', JFloat (ps_mae p)),
      (''financing_accrued'', JFloat (ps_financing_accrued p)), (''venue_ref'', opt_str (ps_venue_ref p)),
      (''position_id'', JStr (ps_position_id p))]"

definition costs_to_state :: "account_costs \<Rightarrow> jdict" where
  "costs_to_state a =
     [(''spread'', JFloat (at_spread a)), (''commission'', JFloat (at_commission a)), (''slippage'', JFloat (at_slippage a)),
      (''premium'', JFloat (at_premium a))]"

definition managed_to_state :: "state_env \<Rightarrow> managed \<Rightarrow> pyexn + jdict" where
  "managed_to_state S op =
     rbind (ref_to_state (mp_ref op)) (\<lambda>ref.
       Inr [(''seq'', JInt (mp_seq op)), (''position'', JDict (position_to_state S (mp_position op))),
         (''instrument'', JStr (i_symbol (mp_instrument op))), (''entry_mid'', JFloat (mp_entry_mid op)),
         (''entry_bar_index'', JInt (mp_entry_bar_index op)), (''take_profit'', opt_float (mp_take_profit op)),
         (''entry_costs_account'', JDict (costs_to_state (mp_entry_costs_account op))),
         (''financing_account'', JFloat (mp_financing_account op)),
         (''last_financing_time'', ts_to_state S (mp_last_financing_time op)), (''entry_fx'', JFloat (mp_entry_fx op)),
         (''entry_size'', JFloat (mp_entry_size op)),
         (''legs'', JList (map (\<lambda>l. JList [JFloat (tl_price l), JFloat (tl_size l)]) (mp_legs op))),
         (''next_leg'', JInt (int (mp_next_leg op))), (''risk_per_unit'', JFloat (mp_risk_per_unit op)),
         (''initial_stop'', JFloat (mp_initial_stop op)), (''extreme'', JFloat (mp_extreme op)),
         (''breakeven_done'', JBool (mp_breakeven_done op)), (''stop_trailed'', JBool (mp_stop_trailed op)),
         (''stop_moved_by'', JStr (mp_stop_moved_by op)), (''reversal_pending'', JBool (mp_reversal_pending op)),
         (''realised_gross'', JFloat (mp_realised_gross op)), (''realised_spread'', JFloat (mp_realised_spread op)),
         (''realised_commission'', JFloat (mp_realised_commission op)), (''realised_slippage'', JFloat (mp_realised_slippage op)),
         (''realised_financing'', JFloat (mp_realised_financing op)), (''realised_net'', JFloat (mp_realised_net op)),
         (''exit_value'', JFloat (mp_exit_value op)), (''n_legs_closed'', JInt (mp_n_legs_closed op)),
         (''single_leg_exit_mid'', JFloat (mp_single_leg_exit_mid op)), (''ref'', ref)])"

definition pending_to_state :: "pending_entry \<Rightarrow> pyexn + jdict" where
  "pending_to_state e =
     rbind (ref_to_state (pn_ref e)) (\<lambda>ref.
       Inr [(''seq'', JInt (pn_seq e)), (''instrument'', JStr (i_symbol (pn_instrument e))),
         (''direction'', JStr (dir_value (pn_direction e))), (''size'', JFloat (pn_size e)), (''stop_price'', JFloat (pn_stop_price e)),
         (''take_profit_prices'', JList (map JFloat (pn_take_profit_prices e))),
         (''take_profit_allocations'', JList (map JFloat (pn_take_profit_allocations e))),
         (''strategy_id'', JStr (pn_strategy_id e)), (''actionable_index'', JInt (pn_actionable_index e)),
         (''created_index'', JInt (pn_created_index e)), (''ref'', ref)])"

definition pending_close_to_state :: "pending_close \<Rightarrow> jdict" where
  "pending_close_to_state c =
     [(''seq'', JInt (pc_seq c)), (''position_seq'', JInt (pc_position_seq c)), (''instrument'', JStr (pc_instrument c)),
      (''actionable_index'', JInt (pc_actionable_index c))]"

definition breakdown_to_state :: "cost_breakdown \<Rightarrow> jdict" where
  "breakdown_to_state c =
     [(''spread'', JFloat (cb_spread c)), (''commission'', JFloat (cb_commission c)), (''slippage'', JFloat (cb_slippage c)),
      (''financing'', JFloat (cb_financing c)), (''guaranteed_stop_premium'', JFloat (cb_guaranteed_stop_premium c)),
      (''entry_leg_spread'', JFloat (cb_entry_leg_spread c)), (''exit_leg_spread'', JFloat (cb_exit_leg_spread c))]"

definition counts_to_state :: "(string \<times> int) list \<Rightarrow> jdict" where
  "counts_to_state kvs = map (\<lambda>kv. (fst kv, JInt (snd kv))) (sort_key fst kvs)"

definition STATE_VERSION :: int where
  "STATE_VERSION = 1"

definition export_state :: "state_env \<Rightarrow> book \<Rightarrow> pyexn + jdict" where
  "export_state S b =
     rbind (rmap (managed_to_state S) (bk_open b)) (\<lambda>ops.
     rbind (rmap pending_to_state (bk_pending b)) (\<lambda>pending.
       Inr [(''version'', JInt STATE_VERSION), (''balance'', JFloat (bk_balance b)), (''realised'', JFloat (bk_realised b)),
         (''costs'', JDict (breakdown_to_state (bk_costs b))), (''rejections'', JDict (counts_to_state (bk_rejections b))),
         (''seq'', JInt (bk_seq b)), (''open'', JList (map JDict ops)), (''pending'', JList (map JDict pending)),
         (''pending_closes'', JList (map (\<lambda>c. JDict (pending_close_to_state c)) (bk_pending_closes b))),
         (''cooldown_until'', JDict (counts_to_state (bk_cooldown_until b)))]))"


section \<open>Reading\<close>

definition as_int :: "string \<Rightarrow> jval \<Rightarrow> pyexn + int" where
  "as_int k v = (case v of JInt n \<Rightarrow> Inr n | _ \<Rightarrow> bad_field k)"

definition as_bool :: "string \<Rightarrow> jval \<Rightarrow> pyexn + bool" where
  "as_bool k v = (case v of JBool b \<Rightarrow> Inr b | _ \<Rightarrow> bad_field k)"

definition as_values :: "string \<Rightarrow> jval \<Rightarrow> pyexn + jval list" where
  "as_values k v = (case v of JList xs \<Rightarrow> Inr xs | _ \<Rightarrow> bad_field k)"

definition as_floats :: "string \<Rightarrow> jval \<Rightarrow> pyexn + flt list" where
  "as_floats k v = rbind (as_values k v) (rmap (as_float k))"

definition as_object :: "string \<Rightarrow> jval \<Rightarrow> pyexn + jdict" where
  "as_object k v = (case v of JDict d \<Rightarrow> Inr d | _ \<Rightarrow> bad_field k)"

definition field_of :: "jdict \<Rightarrow> string \<Rightarrow> (string \<Rightarrow> jval \<Rightarrow> pyexn + 'a) \<Rightarrow> pyexn + 'a" where
  "field_of d k reader = rbind (item d k) (reader k)"

definition field_or :: "jdict \<Rightarrow> string \<Rightarrow> jval \<Rightarrow> (string \<Rightarrow> jval \<Rightarrow> pyexn + 'a) \<Rightarrow> pyexn + 'a" where
  "field_or d k dflt reader = reader k (item_or d k dflt)"

definition ts_from_state :: "state_env \<Rightarrow> string \<Rightarrow> jval \<Rightarrow> pyexn + tstamp option" where
  "ts_from_state S k v =
     (case v of JNull \<Rightarrow> Inr None | JStr s \<Rightarrow> rbind (se_timestamp S s) (\<lambda>t. Inr (Some t)) | _ \<Rightarrow> bad_field k)"

definition ts_required :: "state_env \<Rightarrow> string \<Rightarrow> jval \<Rightarrow> pyexn + tstamp" where
  "ts_required S k v = rbind (ts_from_state S k v) (\<lambda>t. case t of Some x \<Rightarrow> Inr x | None \<Rightarrow> bad_field k)"

definition ref_from_state :: "string \<Rightarrow> jval \<Rightarrow> pyexn + caller_ref" where
  "ref_from_state k v = (case v of JNull \<Rightarrow> Inr Ref_none | JStr s \<Rightarrow> Inr (Ref_str s) | _ \<Rightarrow> bad_field k)"

definition instrument_named :: "state_env \<Rightarrow> string \<Rightarrow> jval \<Rightarrow> pyexn + instrument" where
  "instrument_named S k v = rbind (as_str k v) (get_instrument (se_registry S))"

definition direction_named :: "string \<Rightarrow> jval \<Rightarrow> pyexn + direction" where
  "direction_named k v = as_enum dir_of_value v"

definition position_fields :: "string list" where
  "position_fields =
     [''instrument'', ''direction'', ''size'', ''entry_price'', ''entry_time'', ''stop_loss'', ''take_profit_targets'', ''strategy_id'',
      ''bars_held'', ''max_favourable_excursion'', ''max_adverse_excursion'', ''financing_accrued'', ''venue_ref'', ''position_id'']"

definition no_unknown :: "string list \<Rightarrow> jdict \<Rightarrow> pyexn + unit" where
  "no_unknown known d =
     (if list_all (\<lambda>kv. fst kv \<in> set known) d then Inr () else Inl (ValueError (lit ''state has unknown field(s)'')))"

definition position_from_state :: "state_env \<Rightarrow> string \<Rightarrow> jval \<Rightarrow> pyexn + position" where
  "position_from_state S key v =
     rbind (as_object key v) (\<lambda>d. rbind (no_unknown position_fields d) (\<lambda>_.
     rbind (field_of d ''direction'' direction_named) (\<lambda>direction. rbind (field_of d ''entry_time'' (ts_required S)) (\<lambda>entry_time.
     rbind (field_or d ''take_profit_targets'' (JList []) as_floats) (\<lambda>targets.
     rbind (field_of d ''instrument'' as_str) (\<lambda>instr. rbind (field_of d ''size'' as_float) (\<lambda>sz. rbind (field_of d ''entry_price'' as_float) (\<lambda>entry_price.
     rbind (field_of d ''stop_loss'' as_opt_float) (\<lambda>stop. rbind (field_or d ''strategy_id'' (JStr []) as_str) (\<lambda>strategy_id.
     rbind (field_or d ''bars_held'' (JInt 0) as_int) (\<lambda>bars_held.
     rbind (field_or d ''max_favourable_excursion'' (JFloat (Fin 0)) as_float) (\<lambda>mfe.
     rbind (field_or d ''max_adverse_excursion'' (JFloat (Fin 0)) as_float) (\<lambda>mae.
     rbind (field_or d ''financing_accrued'' (JFloat (Fin 0)) as_float) (\<lambda>financing.
     rbind (field_or d ''venue_ref'' JNull as_opt_str) (\<lambda>venue_ref.
     rbind (field_or d ''position_id'' (JStr (se_fresh_id S)) as_str) (\<lambda>position_id.
       Inr \<lparr>ps_instrument = instr, ps_direction = direction, ps_size = sz, ps_entry_price = entry_price, ps_entry_time = entry_time,
         ps_stop_loss = stop, ps_take_profit_targets = targets, ps_strategy_id = strategy_id, ps_bars_held = bars_held, ps_mfe = mfe,
         ps_mae = mae, ps_financing_accrued = financing, ps_venue_ref = venue_ref, ps_position_id = position_id\<rparr>))))))))))))))))"

definition costs_from_state :: "string \<Rightarrow> jval \<Rightarrow> pyexn + account_costs" where
  "costs_from_state key v =
     rbind (as_object key v) (\<lambda>d. rbind (field_of d ''spread'' as_float) (\<lambda>spread. rbind (field_of d ''commission'' as_float) (\<lambda>commission.
     rbind (field_of d ''slippage'' as_float) (\<lambda>slippage. rbind (field_of d ''premium'' as_float) (\<lambda>premium.
       Inr \<lparr>at_spread = spread, at_commission = commission, at_slippage = slippage, at_premium = premium\<rparr>)))))"

definition leg_from_state :: "string \<Rightarrow> jval \<Rightarrow> pyexn + take_profit_leg" where
  "leg_from_state key v =
     rbind (as_floats key v) (\<lambda>xs. case xs of [p, z] \<Rightarrow> Inr \<lparr>tl_price = p, tl_size = z\<rparr>
       | _ \<Rightarrow> Inl (ValueError (lit ''not enough or too many values to unpack'')))"

definition legs_from_state :: "string \<Rightarrow> jval \<Rightarrow> pyexn + take_profit_leg list" where
  "legs_from_state key v = rbind (as_values key v) (rmap (leg_from_state key))"

definition extreme_from_state :: "string \<Rightarrow> jval \<Rightarrow> pyexn + flt" where
  "extreme_from_state key v = (case v of JNull \<Rightarrow> Inr NaN | _ \<Rightarrow> as_float key v)"

definition managed_fields :: "string list" where
  "managed_fields =
     [''seq'', ''position'', ''instrument'', ''entry_mid'', ''entry_bar_index'', ''take_profit'', ''entry_costs_account'',
      ''financing_account'', ''last_financing_time'', ''entry_fx'', ''entry_size'', ''legs'', ''next_leg'', ''risk_per_unit'',
      ''initial_stop'', ''extreme'', ''breakeven_done'', ''stop_trailed'', ''stop_moved_by'', ''reversal_pending'', ''realised_gross'',
      ''realised_spread'', ''realised_commission'', ''realised_slippage'', ''realised_financing'', ''realised_net'', ''exit_value'',
      ''n_legs_closed'', ''single_leg_exit_mid'', ''ref'']"

definition managed_from_state :: "state_env \<Rightarrow> string \<Rightarrow> jval \<Rightarrow> pyexn + managed" where
  "managed_from_state S key v =
     (let zero = JFloat (Fin 0) in
     rbind (as_object key v) (\<lambda>d. rbind (no_unknown managed_fields d) (\<lambda>_.
     rbind (field_of d ''position'' (position_from_state S)) (\<lambda>pos. rbind (field_of d ''instrument'' (instrument_named S)) (\<lambda>instr.
     rbind (field_or d ''legs'' (JList []) legs_from_state) (\<lambda>legs.
     rbind (field_or d ''last_financing_time'' JNull (ts_from_state S)) (\<lambda>financed.
     rbind (field_of d ''entry_costs_account'' costs_from_state) (\<lambda>costs. rbind (field_or d ''extreme'' JNull extreme_from_state) (\<lambda>extreme.
     rbind (field_of d ''seq'' as_int) (\<lambda>sq. rbind (field_of d ''entry_mid'' as_float) (\<lambda>entry_mid.
     rbind (field_of d ''entry_bar_index'' as_int) (\<lambda>entry_bar. rbind (field_of d ''take_profit'' as_opt_float) (\<lambda>take_profit.
     rbind (field_or d ''financing_account'' zero as_float) (\<lambda>financing. rbind (field_or d ''entry_fx'' (JFloat (Fin 1)) as_float) (\<lambda>entry_fx.
     rbind (field_or d ''entry_size'' zero as_float) (\<lambda>entry_size. rbind (field_or d ''next_leg'' (JInt 0) as_count) (\<lambda>next_leg.
     rbind (field_or d ''risk_per_unit'' zero as_float) (\<lambda>risk. rbind (field_or d ''initial_stop'' zero as_float) (\<lambda>initial_stop.
     rbind (field_or d ''breakeven_done'' (JBool False) as_bool) (\<lambda>breakeven. rbind (field_or d ''stop_trailed'' (JBool False) as_bool) (\<lambda>trailed.
     rbind (field_or d ''stop_moved_by'' (JStr []) as_str) (\<lambda>moved_by. rbind (field_or d ''reversal_pending'' (JBool False) as_bool) (\<lambda>reversing.
     rbind (field_or d ''realised_gross'' zero as_float) (\<lambda>r_gross. rbind (field_or d ''realised_spread'' zero as_float) (\<lambda>r_spread.
     rbind (field_or d ''realised_commission'' zero as_float) (\<lambda>r_commission. rbind (field_or d ''realised_slippage'' zero as_float) (\<lambda>r_slippage.
     rbind (field_or d ''realised_financing'' zero as_float) (\<lambda>r_financing. rbind (field_or d ''realised_net'' zero as_float) (\<lambda>r_net.
     rbind (field_or d ''exit_value'' zero as_float) (\<lambda>exit_value. rbind (field_or d ''n_legs_closed'' (JInt 0) as_int) (\<lambda>n_closed.
     rbind (field_or d ''single_leg_exit_mid'' zero as_float) (\<lambda>single_mid. rbind (field_or d ''ref'' JNull ref_from_state) (\<lambda>ref.
       Inr \<lparr>mp_seq = sq, mp_position = pos, mp_instrument = instr, mp_entry_mid = entry_mid, mp_entry_bar_index = entry_bar,
         mp_take_profit = take_profit, mp_entry_costs_account = costs, mp_financing_account = financing, mp_last_financing_time = financed,
         mp_entry_fx = entry_fx, mp_entry_size = entry_size, mp_legs = legs, mp_next_leg = next_leg, mp_risk_per_unit = risk,
         mp_initial_stop = initial_stop, mp_extreme = extreme, mp_breakeven_done = breakeven, mp_stop_trailed = trailed,
         mp_stop_moved_by = moved_by, mp_reversal_pending = reversing, mp_realised_gross = r_gross, mp_realised_spread = r_spread,
         mp_realised_commission = r_commission, mp_realised_slippage = r_slippage, mp_realised_financing = r_financing,
         mp_realised_net = r_net, mp_exit_value = exit_value, mp_n_legs_closed = n_closed, mp_single_leg_exit_mid = single_mid,
         mp_ref = ref\<rparr>)))))))))))))))))))))))))))))))))"

definition pending_from_state :: "state_env \<Rightarrow> string \<Rightarrow> jval \<Rightarrow> pyexn + pending_entry" where
  "pending_from_state S key v =
     rbind (as_object key v) (\<lambda>d. rbind (field_of d ''seq'' as_int) (\<lambda>sq. rbind (field_of d ''instrument'' (instrument_named S)) (\<lambda>instr.
     rbind (field_of d ''direction'' direction_named) (\<lambda>direction. rbind (field_of d ''size'' as_float) (\<lambda>sz.
     rbind (field_of d ''stop_price'' as_float) (\<lambda>stop. rbind (field_of d ''take_profit_prices'' as_floats) (\<lambda>prices.
     rbind (field_of d ''take_profit_allocations'' as_floats) (\<lambda>allocations. rbind (field_of d ''strategy_id'' as_str) (\<lambda>strategy_id.
     rbind (field_of d ''actionable_index'' as_int) (\<lambda>actionable. rbind (field_of d ''created_index'' as_int) (\<lambda>created.
     rbind (field_or d ''ref'' JNull ref_from_state) (\<lambda>ref.
       Inr \<lparr>pn_seq = sq, pn_instrument = instr, pn_direction = direction, pn_size = sz, pn_stop_price = stop, pn_take_profit_prices = prices,
         pn_take_profit_allocations = allocations, pn_strategy_id = strategy_id, pn_actionable_index = actionable,
         pn_created_index = created, pn_ref = ref\<rparr>))))))))))))"

definition pending_close_from_state :: "string \<Rightarrow> jval \<Rightarrow> pyexn + pending_close" where
  "pending_close_from_state key v =
     rbind (as_object key v) (\<lambda>d. rbind (field_of d ''seq'' as_int) (\<lambda>sq. rbind (field_of d ''position_seq'' as_int) (\<lambda>pos.
     rbind (field_of d ''instrument'' as_str) (\<lambda>instr. rbind (field_of d ''actionable_index'' as_int) (\<lambda>actionable.
       Inr \<lparr>pc_seq = sq, pc_position_seq = pos, pc_instrument = instr, pc_actionable_index = actionable\<rparr>)))))"

definition breakdown_fields :: "string list" where
  "breakdown_fields =
     [''spread'', ''commission'', ''slippage'', ''financing'', ''guaranteed_stop_premium'', ''entry_leg_spread'', ''exit_leg_spread'']"

text \<open>A keyword the constructor does not have.\<close>

definition no_unexpected :: "string list \<Rightarrow> jdict \<Rightarrow> pyexn + unit" where
  "no_unexpected known d =
     (if list_all (\<lambda>kv. fst kv \<in> set known) d then Inr () else Inl (TypeError (lit ''got an unexpected keyword argument'')))"

definition breakdown_from_state :: "string \<Rightarrow> jval \<Rightarrow> pyexn + cost_breakdown" where
  "breakdown_from_state key v =
     (let zero = JFloat (Fin 0) in
     rbind (as_object key v) (\<lambda>d. rbind (field_or d ''spread'' zero as_float) (\<lambda>spread. rbind (field_or d ''commission'' zero as_float) (\<lambda>commission.
     rbind (field_or d ''slippage'' zero as_float) (\<lambda>slippage. rbind (field_or d ''financing'' zero as_float) (\<lambda>financing.
     rbind (field_or d ''guaranteed_stop_premium'' zero as_float) (\<lambda>premium. rbind (field_or d ''entry_leg_spread'' zero as_float) (\<lambda>entry_spread.
     rbind (field_or d ''exit_leg_spread'' zero as_float) (\<lambda>exit_spread. rbind (no_unexpected breakdown_fields d) (\<lambda>_.
       Inr \<lparr>cb_spread = spread, cb_commission = commission, cb_slippage = slippage, cb_financing = financing,
         cb_guaranteed_stop_premium = premium, cb_entry_leg_spread = entry_spread, cb_exit_leg_spread = exit_spread\<rparr>))))))))))"

definition counts_from_state :: "string \<Rightarrow> jval \<Rightarrow> pyexn + (string \<times> int) list" where
  "counts_from_state key v =
     rbind (as_object key v) (rmap (\<lambda>kv. rbind (as_int (fst kv) (snd kv)) (\<lambda>n. Inr (fst kv, n))))"

text \<open>The bar of a forward book's last slice.\<close>

definition bar_to_state :: "state_env \<Rightarrow> bar \<Rightarrow> jval list" where
  "bar_to_state S b =
     [ts_to_state S (Some (b_timestamp b)), JFloat (b_open b), JFloat (b_high b), JFloat (b_low b), JFloat (b_close b)]"

definition bar_from_state :: "state_env \<Rightarrow> jval list \<Rightarrow> pyexn + bar" where
  "bar_from_state S xs =
     (case xs of
        [t, o', h, l, c] \<Rightarrow>
          rbind (ts_required S ''timestamp'' t) (\<lambda>t. rbind (as_float ''open'' o') (\<lambda>o'. rbind (as_float ''high'' h) (\<lambda>h.
          rbind (as_float ''low'' l) (\<lambda>l. rbind (as_float ''close'' c) (\<lambda>c.
            Inr \<lparr>b_timestamp = t, b_open = o', b_high = h, b_low = l, b_close = c\<rparr>)))))
      | _ \<Rightarrow> Inl (ValueError (lit ''not enough or too many values to unpack'')))"

definition book_used :: "book \<Rightarrow> bool" where
  "book_used b \<longleftrightarrow> bk_open b \<noteq> [] \<or> bk_pending b \<noteq> [] \<or> bk_pending_closes b \<noteq> [] \<or> bk_seq b \<noteq> 0 \<or> bk_trades b \<noteq> []"

definition restore_state :: "state_env \<Rightarrow> jdict \<Rightarrow> book \<Rightarrow> pyexn + book" where
  "restore_state S d b =
     rbind (field_or d ''version'' (JInt (-1)) as_int) (\<lambda>version.
     if version \<noteq> STATE_VERSION then Inl (ValueError (lit ''book state version is not the current one''))
     else if book_used b then Inl (ValueError (lit ''restore_state needs a fresh book; this one has already traded''))
     else
     rbind (field_of d ''balance'' as_float) (\<lambda>balance. rbind (field_of d ''realised'' as_float) (\<lambda>realised.
     rbind (field_of d ''costs'' breakdown_from_state) (\<lambda>costs. rbind (field_of d ''rejections'' counts_from_state) (\<lambda>rejections.
     rbind (field_of d ''seq'' as_int) (\<lambda>sq.
     rbind (rbind (field_of d ''open'' as_values) (rmap (managed_from_state S ''open''))) (\<lambda>ops.
     rbind (rbind (field_of d ''pending'' as_values) (rmap (pending_from_state S ''pending''))) (\<lambda>pending.
     rbind (rbind (field_of d ''pending_closes'' as_values) (rmap (pending_close_from_state ''pending_closes''))) (\<lambda>closes.
     rbind (field_of d ''cooldown_until'' counts_from_state) (\<lambda>cooldown.
       Inr (b\<lparr>bk_balance := balance, bk_realised := realised, bk_costs := costs, bk_rejections := rejections, bk_seq := sq, bk_open := ops,
         bk_pending := pending, bk_pending_closes := closes, bk_cooldown_until := cooldown\<rparr>)))))))))))"



section \<open>What is read is what was written\<close>

lemma rmap_inverse:
  assumes "rmap f xs = Inr ys" and "\<And>x y. x \<in> set xs \<Longrightarrow> f x = Inr y \<Longrightarrow> g (wrap y) = Inr x"
  shows "rmap g (map wrap ys) = Inr xs"
  using assms by (induction xs arbitrary: ys) (auto simp: rbind_eq_Inr)

lemma rmap_all:
  assumes "\<And>x. x \<in> set xs \<Longrightarrow> f (wrap x) = Inr x"
  shows "rmap f (map wrap xs) = Inr xs"
  using rmap_map [of xs f wrap "\<lambda>x. x"] assms by simp

lemmas readers =
  field_of_def field_or_def item_def item_or_def as_str_def as_int_def as_bool_def as_values_def as_object_def as_float_def as_count_def

lemma reads_floats [simp]: "as_floats k (JList (map JFloat xs)) = Inr xs"
  by (simp add: as_floats_def as_values_def rmap_all as_float_def)

lemma reads_counts [simp]: "counts_from_state k (JDict (counts_to_state kvs)) = Inr (sort_key fst kvs)"
  by (auto simp: counts_from_state_def counts_to_state_def as_object_def as_int_def intro!: rmap_all)

lemma reads_ref: "ref_to_state r = Inr v \<Longrightarrow> ref_from_state k v = Inr r"
  by (auto simp: ref_to_state_def ref_from_state_def split: caller_ref.splits)

lemma reads_direction [simp]: "direction_named k (JStr (dir_value d)) = Inr d"
  by (cases d) (simp_all add: direction_named_def as_enum_def dir_of_value_def)

lemma reads_costs [simp]: "costs_from_state k (JDict (costs_to_state a)) = Inr a"
  by (simp add: costs_from_state_def costs_to_state_def readers)

lemma reads_legs [simp]: "legs_from_state k (JList (map (\<lambda>l. JList [JFloat (tl_price l), JFloat (tl_size l)]) ls)) = Inr ls"
  by (auto simp: legs_from_state_def as_values_def leg_from_state_def as_floats_def as_float_def intro!: rmap_all)

lemma reads_breakdown [simp]: "breakdown_from_state k (JDict (breakdown_to_state c)) = Inr c"
  by (simp add: breakdown_from_state_def breakdown_to_state_def readers no_unexpected_def breakdown_fields_def)

lemma reads_pending_close [simp]: "pending_close_from_state k (JDict (pending_close_to_state c)) = Inr c"
  by (simp add: pending_close_from_state_def pending_close_to_state_def readers)

text \<open>What the encoding relies on: \<open>pd.Timestamp\<close> reads back what \<open>isoformat\<close> wrote, and the instrument table has the
  instrument under its symbol.\<close>

definition clock_reads_back :: "state_env \<Rightarrow> bool" where
  "clock_reads_back S \<longleftrightarrow> (\<forall>t. se_timestamp S (se_iso S t) = Inr t)"

definition registered :: "state_env \<Rightarrow> instrument \<Rightarrow> bool" where
  "registered S i \<longleftrightarrow> get_instrument (se_registry S) (i_symbol i) = Inr i"

lemma reads_ts [simp]:
  assumes "clock_reads_back S"
  shows "ts_from_state S k (ts_to_state S t) = Inr t" "ts_required S k (ts_to_state S (Some u)) = Inr u"
  using assms by (simp_all add: clock_reads_back_def ts_required_def ts_from_state_def ts_to_state_def split: option.splits)

lemma reads_position [simp]:
  assumes "clock_reads_back S"
  shows "position_from_state S k (JDict (position_to_state S p)) = Inr p"
  using assms
  by (simp add: position_from_state_def position_to_state_def readers no_unknown_def position_fields_def)

lemma reads_bar:
  assumes "clock_reads_back S"
  shows "bar_from_state S (bar_to_state S b) = Inr b"
  using assms by (simp add: bar_from_state_def bar_to_state_def as_float_def)

lemma reads_managed:
  assumes "clock_reads_back S" and "registered S (mp_instrument op)" and "managed_to_state S op = Inr d"
  shows "managed_from_state S k (JDict d) = Inr op"
proof -
  obtain v where v: "ref_to_state (mp_ref op) = Inr v" using assms(3) by (auto simp: managed_to_state_def rbind_eq_Inr)
  from assms(3) have d: "Inr d = managed_to_state S op" by simp
  have [simp]: "extreme_from_state x (JFloat y) = Inr y" for x y by (simp add: extreme_from_state_def as_float_def)
  have [simp]: "instrument_named S x (JStr (i_symbol (mp_instrument op))) = Inr (mp_instrument op)" for x
    using assms(2) by (simp add: instrument_named_def as_str_def registered_def)
  have [simp]: "ref_from_state x v = Inr (mp_ref op)" for x by (rule reads_ref [OF v])
  show ?thesis
    using d assms(1)
    by (simp add: managed_to_state_def v managed_from_state_def readers no_unknown_def managed_fields_def)
qed

lemma reads_pending:
  assumes "registered S (pn_instrument e)" and "pending_to_state e = Inr d"
  shows "pending_from_state S k (JDict d) = Inr e"
proof -
  obtain v where v: "ref_to_state (pn_ref e) = Inr v" using assms(2) by (auto simp: pending_to_state_def rbind_eq_Inr)
  from assms(2) have d: "Inr d = pending_to_state e" by simp
  have [simp]: "instrument_named S x (JStr (i_symbol (pn_instrument e))) = Inr (pn_instrument e)" for x
    using assms(1) by (simp add: instrument_named_def as_str_def registered_def)
  have [simp]: "ref_from_state x v = Inr (pn_ref e)" for x by (rule reads_ref [OF v])
  show ?thesis using d by (simp add: pending_to_state_def v pending_from_state_def readers)
qed

definition carried_over :: "book \<Rightarrow> book" where
  "carried_over b =
     b\<lparr>bk_trades := [], bk_exit_legs := [], bk_rejections := sort_key fst (bk_rejections b),
       bk_cooldown_until := sort_key fst (bk_cooldown_until b)\<rparr>"

lemma restore_inverts_export:
  assumes clock: "clock_reads_back S" and ops: "\<forall>op\<in>set (bk_open b). registered S (mp_instrument op)"
    and orders: "\<forall>e\<in>set (bk_pending b). registered S (pn_instrument e)" and exported: "export_state S b = Inr d"
  shows "restore_state S d (position_book_new initial) = Inr (carried_over b)"
proof -
  obtain os ps where os: "rmap (managed_to_state S) (bk_open b) = Inr os" and ps: "rmap pending_to_state (bk_pending b) = Inr ps"
    using exported by (auto simp: export_state_def rbind_eq_Inr)
  from exported have d: "Inr d = export_state S b" by simp
  have [simp]: "rmap (managed_from_state S k) (map JDict os) = Inr (bk_open b)" for k
    by (rule rmap_inverse [OF os]) (use ops clock in \<open>simp add: reads_managed\<close>)
  have [simp]: "rmap (pending_from_state S k) (map JDict ps) = Inr (bk_pending b)" for k
    by (rule rmap_inverse [OF ps]) (use orders in \<open>simp add: reads_pending\<close>)
  have [simp]: "rmap (pending_close_from_state k) (map (\<lambda>c. JDict (pending_close_to_state c)) cs) = Inr cs" for k cs
    by (rule rmap_all) simp
  show ?thesis
    using d by (simp add: export_state_def os ps restore_state_def readers STATE_VERSION_def book_used_def position_book_new_def carried_over_def)
qed

end
