(* ===== verification/Book_Invariant.thy ===== *)
theory Book_Invariant
  imports Position_Book
begin

text \<open>
  The ledger invariant of the position book and the life of a book.

  \<open>book_ok\<close> relates what a book keeps three times over: the running totals of each open position, the closing fills and the ledger
  rows. Every phase of \<open>advance\<close>, \<open>flatten\<close> and \<open>schedule_reversal\<close> keeps it, with the positions that still owe a row as an
  argument; \<open>book_next\<close> is what a caller may do to a book, and \<open>book_run_ok\<close> carries the invariant over any run.
\<close>

section \<open>The books balance\<close>

text \<open>Six running totals of a position, of a ledger row and of a list of closing fills.\<close>

type_synonym totals = "flt \<times> flt \<times> flt \<times> flt \<times> flt \<times> flt"

definition mp_totals :: "managed \<Rightarrow> totals" where
  "mp_totals op = (mp_realised_gross op, mp_realised_spread op, mp_realised_commission op, mp_realised_slippage op,
     mp_realised_financing op, mp_realised_net op)"

definition td_totals :: "trade \<Rightarrow> totals" where
  "td_totals t = (td_gross_pnl t, td_spread_cost t, td_commission t, td_slippage_cost t, td_financing_cost t, td_net_pnl t)"

definition add_up :: "(exit_leg \<Rightarrow> flt) \<Rightarrow> flt \<Rightarrow> exit_leg list \<Rightarrow> flt" where
  "add_up f x ls = foldl (\<lambda>acc l. acc + f l) x ls"

definition leg_totals :: "exit_leg list \<Rightarrow> totals" where
  "leg_totals ls = (add_up xl_gross_pnl (Fin 0) ls, add_up xl_spread_cost (Fin 0) ls, add_up xl_commission (Fin 0) ls,
     add_up xl_slippage_cost (Fin 0) ls, add_up xl_financing_cost (Fin 0) ls, add_up xl_net_pnl (Fin 0) ls)"

definition legs_of :: "int \<Rightarrow> exit_leg list \<Rightarrow> exit_leg list" where
  "legs_of q ls = filter (\<lambda>l. xl_position_seq l = q) ls"

lemma add_up_simps [simp]: "add_up f x [] = x" "add_up f x (ls @ [l]) = add_up f x ls + f l"
  by (simp_all add: add_up_def)

lemma legs_of_simps [simp]:
  "legs_of q [] = []" "legs_of q (ls @ [l]) = legs_of q ls @ (if xl_position_seq l = q then [l] else [])"
  by (simp_all add: legs_of_def)

text \<open>The invariant. \<open>ops\<close> are the open positions, \<open>owed\<close> those whose last leg is written and whose ledger row is not yet.\<close>

definition ledger_ok :: "flt \<Rightarrow> book \<Rightarrow> bool" where
  "ledger_ok start b \<longleftrightarrow> bk_realised b = add_up xl_net_pnl (Fin 0) (bk_exit_legs b) \<and> bk_balance b = add_up xl_net_pnl start (bk_exit_legs b)
     \<and> list_all (\<lambda>l. xl_net_pnl l = xl_gross_pnl l - xl_spread_cost l - xl_commission l - xl_slippage_cost l - xl_financing_cost l) (bk_exit_legs b)"

definition accounted :: "exit_leg list \<Rightarrow> managed \<Rightarrow> bool" where
  "accounted ls op \<longleftrightarrow> mp_totals op = leg_totals (legs_of (mp_seq op) ls) \<and> list_all (\<lambda>l. \<not> xl_final l) (legs_of (mp_seq op) ls)"

definition rows_ok :: "exit_leg list \<Rightarrow> totals list \<Rightarrow> bool" where
  "rows_ok ls rows \<longleftrightarrow> rows = map (\<lambda>l. leg_totals (legs_of (xl_position_seq l) ls)) (filter xl_final ls)"

definition numbered :: "managed list \<Rightarrow> book \<Rightarrow> bool" where
  "numbered ops b \<longleftrightarrow> distinct (map mp_seq ops) \<and> list_all (\<lambda>op. mp_seq op \<le> bk_seq b) ops
     \<and> list_all (\<lambda>l. xl_position_seq l \<le> bk_seq b) (bk_exit_legs b) \<and> distinct (map xl_position_seq (filter xl_final (bk_exit_legs b)))
     \<and> list_all (\<lambda>f. xl_final (last (legs_of (xl_position_seq f) (bk_exit_legs b)))) (filter xl_final (bk_exit_legs b))"

definition scheduled :: "managed list \<Rightarrow> pending_close list \<Rightarrow> int \<Rightarrow> bool" where
  "scheduled ops cs sq \<longleftrightarrow> distinct (map pc_position_seq cs) \<and> list_all (\<lambda>c. pc_position_seq c \<le> sq) cs
     \<and> list_all (\<lambda>op. mp_seq op \<in> set (map pc_position_seq cs) \<longrightarrow> mp_reversal_pending op) ops"

definition book_ok :: "flt \<Rightarrow> managed list \<Rightarrow> managed list \<Rightarrow> book \<Rightarrow> bool" where
  "book_ok start owed ops b \<longleftrightarrow> ledger_ok start b \<and> numbered ops b \<and> list_all (accounted (bk_exit_legs b)) ops
     \<and> rows_ok (bk_exit_legs b) (map td_totals (bk_trades b) @ map mp_totals owed) \<and> scheduled ops (bk_pending_closes b) (bk_seq b)"

text \<open>Steps that leave a position's account alone.\<close>

definition same_account :: "managed \<Rightarrow> managed \<Rightarrow> bool" where
  "same_account op op' \<longleftrightarrow> mp_seq op' = mp_seq op \<and> mp_totals op' = mp_totals op \<and> mp_reversal_pending op' = mp_reversal_pending op"

lemma same_account_refl [simp]: "same_account op op"
  by (simp add: same_account_def)

lemma same_account_trans: "same_account a b \<Longrightarrow> same_account b c \<Longrightarrow> same_account a c"
  by (simp add: same_account_def)

lemma book_ok_same_account:
  assumes "book_ok start owed (pre @ op # post) b" "same_account op op'"
  shows "book_ok start owed (pre @ op' # post) b"
  using assms by (auto simp: book_ok_def numbered_def same_account_def accounted_def scheduled_def)

lemma realise_cases:
  assumes "realise E op x t sz final br = Inr (op', b', r')"
  obtains costs leg where "close_fill E (bk_costs (fst br)) op x t sz final = Inr (costs, op', leg)"
    "b' = (fst br)\<lparr>bk_costs := costs, bk_exit_legs := bk_exit_legs (fst br) @ [leg], bk_balance := bk_balance (fst br) + xl_net_pnl leg,
       bk_realised := bk_realised (fst br) + xl_net_pnl leg\<rparr>"
    "r' = (snd br)\<lparr>ar_legs := ar_legs (snd br) @ [leg], ar_fills := ar_fills (snd br) @ [x]\<rparr>"
  using assms by (auto simp: realise_def Let_def rbind_eq_Inr)

lemma close_fill_leg:
  assumes "close_fill E costs op x t sz final = Inr (costs', op', leg)"
  shows "xl_position_seq leg = mp_seq op" "xl_final leg = final" "mp_seq op' = mp_seq op" "mp_reversal_pending op' = mp_reversal_pending op"
    "xl_net_pnl leg = xl_gross_pnl leg - xl_spread_cost leg - xl_commission leg - xl_slippage_cost leg - xl_financing_cost leg"
    "mp_totals op' = (case mp_totals op of (g, s, c, p, f, n) \<Rightarrow>
       (g + xl_gross_pnl leg, s + xl_spread_cost leg, c + xl_commission leg, p + xl_slippage_cost leg, f + xl_financing_cost leg, n + xl_net_pnl leg))"
  using assms by (auto simp: close_fill_def Let_def rbind_eq_Inr mp_totals_def)

lemma realise_numbers:
  assumes "realise E op x t sz final (b, r) = Inr (op', b', r')" "book_ok start owed (pre @ op # post) b"
  obtains leg where "bk_exit_legs b' = bk_exit_legs b @ [leg]" "xl_position_seq leg = mp_seq op" "xl_final leg = final"
    "mp_seq op' = mp_seq op" "bk_seq b' = bk_seq b" "bk_trades b' = bk_trades b" "bk_open b' = bk_open b"
    "bk_pending_closes b' = bk_pending_closes b" "mp_reversal_pending op' = mp_reversal_pending op"
    "mp_totals op' = leg_totals (legs_of (mp_seq op) (bk_exit_legs b'))" "ledger_ok start b'"
proof -
  obtain costs leg where c: "close_fill E (bk_costs b) op x t sz final = Inr (costs, op', leg)"
    "b' = b\<lparr>bk_costs := costs, bk_exit_legs := bk_exit_legs b @ [leg], bk_balance := bk_balance b + xl_net_pnl leg,
       bk_realised := bk_realised b + xl_net_pnl leg\<rparr>"
    using realise_cases [OF assms(1)] by (metis fst_conv)
  note leg = close_fill_leg [OF c(1)]
  show ?thesis
    using that [of leg] c(2) leg assms(2) by (auto simp: book_ok_def ledger_ok_def accounted_def leg_totals_def)
qed

lemma accounted_other: "mp_seq op \<noteq> xl_position_seq leg \<Longrightarrow> accounted (ls @ [leg]) op = accounted ls op"
  by (simp add: accounted_def)

lemma final_leg_closed:
  assumes "book_ok start owed (pre @ op # post) b" "f \<in> set (bk_exit_legs b)" "xl_final f"
  shows "xl_position_seq f \<noteq> mp_seq op"
  using assms by (auto simp: book_ok_def accounted_def legs_of_def list_all_iff)

lemma rows_ok_snoc:
  assumes "rows_ok ls rows" "\<And>f. f \<in> set ls \<Longrightarrow> xl_final f \<Longrightarrow> xl_position_seq f \<noteq> xl_position_seq leg"
  shows "rows_ok (ls @ [leg]) (rows @ (if xl_final leg then [leg_totals (legs_of (xl_position_seq leg) (ls @ [leg]))] else []))"
proof -
  have "map (\<lambda>l. leg_totals (legs_of (xl_position_seq l) (ls @ [leg]))) (filter xl_final ls)
      = map (\<lambda>l. leg_totals (legs_of (xl_position_seq l) ls)) (filter xl_final ls)"
    by (rule map_cong) (use assms(2) in fastforce)+
  then show ?thesis using assms(1) by (simp add: rows_ok_def)
qed

lemma realise_book_ok:
  assumes "realise E op x t sz final (b, r) = Inr (op', b', r')" "book_ok start [] (pre @ op # post) b"
  shows "if final then book_ok start [op'] (pre @ post) b' else book_ok start [] (pre @ op' # post) b'"
proof -
  obtain leg where l: "bk_exit_legs b' = bk_exit_legs b @ [leg]" "xl_position_seq leg = mp_seq op" "xl_final leg = final"
    "mp_seq op' = mp_seq op" "bk_seq b' = bk_seq b" "bk_trades b' = bk_trades b"
    "mp_totals op' = leg_totals (legs_of (mp_seq op) (bk_exit_legs b'))" "ledger_ok start b'"
    "bk_pending_closes b' = bk_pending_closes b" "mp_reversal_pending op' = mp_reversal_pending op"
    using realise_numbers [OF assms] by metis
  note fresh = final_leg_closed [OF assms(2)]
  have "rows_ok (bk_exit_legs b') (map td_totals (bk_trades b') @ (if final then [mp_totals op'] else []))"
    using rows_ok_snoc [of "bk_exit_legs b" "map td_totals (bk_trades b)" leg] fresh assms(2) l by (auto simp: book_ok_def)
  moreover have "list_all (accounted (bk_exit_legs b')) (pre @ post)"
    using assms(2) l(1,2) by (auto simp: book_ok_def numbered_def accounted_other list_all_iff image_iff)
  moreover have "\<not> final \<Longrightarrow> accounted (bk_exit_legs b') op'"
    using l assms(2) by (auto simp: accounted_def book_ok_def)
  moreover have "mp_seq op \<notin> xl_position_seq ` set (filter xl_final (bk_exit_legs b))" using fresh by force
  moreover have "list_all (\<lambda>f. xl_final (last (legs_of (xl_position_seq f) (bk_exit_legs b')))) (filter xl_final (bk_exit_legs b'))"
    using assms(2) l(1-3) by (auto simp: book_ok_def numbered_def list_all_iff dest: fresh)
  ultimately show ?thesis using l assms(2) by (auto simp: book_ok_def numbered_def scheduled_def)
qed

lemmas book_ok_partial = realise_book_ok [of _ _ _ _ _ False, simplified]
lemmas book_ok_final = realise_book_ok [of _ _ _ _ _ True, simplified]

lemma book_ok_row:
  assumes "record_trade E op t reason (b, r) = Inr (b', r')" "book_ok start [op] ops b"
  shows "book_ok start [] ops b'"
  using assms by (auto simp: record_trade_def rbind_eq_Inr finalise_def Let_def book_ok_def ledger_ok_def numbered_def td_totals_def mp_totals_def)


lemma rmap_all2: "rmap f xs = Inr ys \<Longrightarrow> list_all2 (\<lambda>x y. f x = Inr y) xs ys"
  by (induction xs arbitrary: ys) (auto simp: rbind_eq_Inr)

lemma book_ok_same_accounts:
  assumes "book_ok start owed ops b" "list_all2 same_account ops ops'"
  shows "book_ok start owed ops' b"
proof -
  have "map mp_seq ops' = map mp_seq ops" "map mp_totals ops' = map mp_totals ops"
    using assms(2) by (induction) (auto simp: same_account_def)
  moreover have "list_all (accounted ls) ops'" if "list_all (accounted ls) ops" for ls
    using assms(2) that by (induction) (auto simp: same_account_def accounted_def)
  moreover have "list_all (\<lambda>op. mp_seq op \<le> k) ops'" if "list_all (\<lambda>op. mp_seq op \<le> k) ops" for k
    using assms(2) that by (induction) (auto simp: same_account_def)
  moreover have "scheduled ops' cs k" if "scheduled ops cs k" for cs k
    using assms(2) that by (induction) (auto simp: same_account_def scheduled_def)
  ultimately show ?thesis using assms(1) by (simp add: book_ok_def numbered_def)
qed

lemma book_ok_open_update: "book_ok start owed ops (b\<lparr>bk_open := x\<rparr>) = book_ok start owed ops b"
  "book_ok start owed ops (b\<lparr>bk_pending := p\<rparr>) = book_ok start owed ops b"
  "book_ok start owed ops (b\<lparr>bk_cooldown_until := d\<rparr>) = book_ok start owed ops b"
  "book_ok start owed ops (b\<lparr>bk_rejections := e\<rparr>) = book_ok start owed ops b"
  "book_ok start owed ops (b\<lparr>bk_costs := f\<rparr>) = book_ok start owed ops b"
  by (simp_all add: book_ok_def ledger_ok_def numbered_def)

lemma book_ok_arm: "book_ok start owed ops (arm_cooldown E s symb b) = book_ok start owed ops b"
  by (simp add: arm_cooldown_def Let_def book_ok_open_update)

section \<open>Phases\<close>

lemma charge_same_account: "charge_one E m s op = Inr op' \<Longrightarrow> same_account op op'"
  by (auto simp: charge_one_def Let_def rbind_eq_Inr same_account_def mp_totals_def split: if_splits)

lemma see_bar_same_account: "same_account op (see_bar i bar op)"
  by (simp add: see_bar_def update_extreme_def same_account_def mp_totals_def Let_def)

lemma protective_stop_cases:
  assumes "update_protective_stop E s symb bar op = Inr op'"
  obtains (kept) bd where "op' = op\<lparr>mp_breakeven_done := bd\<rparr>"
  | (moved) bd level m current where "mp_stop op = Some current" "improves (mp_direction op) level current"
      "op' = op\<lparr>mp_breakeven_done := bd, mp_position := (mp_position op)\<lparr>ps_stop_loss := Some level\<rparr>, mp_stop_trailed := True, mp_stop_moved_by := m\<rparr>"
proof (cases "mp_risk_per_unit op \<le> Fin 0")
  case True
  then have "op' = op\<lparr>mp_breakeven_done := mp_breakeven_done op\<rparr>" using assms by (simp add: update_protective_stop_def)
  then show ?thesis by (rule kept)
next
  case False
  then obtain r current where r: "r_multiple op = Inr r" "mp_stop op = Some current"
    using assms by (auto simp: update_protective_stop_def rbind_eq_Inr split: option.splits)
  let ?bd = "mp_breakeven_done op \<or> breakeven_reached (be_policy E) r op"
  let ?p = "proposed_stop (be_policy E) s symb bar r op current"
  show ?thesis
  proof (cases "improves (mp_direction op) (fst ?p) current")
    case True
    then have "op' = op\<lparr>mp_breakeven_done := ?bd, mp_position := (mp_position op)\<lparr>ps_stop_loss := Some (fst ?p)\<rparr>, mp_stop_trailed := True,
        mp_stop_moved_by := (if snd ?p \<noteq> [] \<and> mp_stop_moved_by op \<noteq> ''trailing'' then snd ?p else mp_stop_moved_by op)\<rparr>"
      using assms False r by (simp add: update_protective_stop_def case_prod_beta Let_def)
    from moved [OF r(2) True this] show ?thesis .
  next
    case False
    then show ?thesis using kept [of ?bd] assms \<open>\<not> mp_risk_per_unit op \<le> Fin 0\<close> r
      by (simp add: update_protective_stop_def case_prod_beta Let_def)
  qed
qed

lemma stop_same_account: "update_protective_stop E s symb bar op = Inr op' \<Longrightarrow> same_account op op'"
  by (elim protective_stop_cases) (simp_all add: same_account_def mp_totals_def)

lemma financing_book_ok:
  assumes "charge_financing E s b = Inr b'" "book_ok start [] (bk_open b) b"
  shows "book_ok start [] (bk_open b') b'"
proof -
  have "book_ok start [] ops (b\<lparr>bk_open := ops\<rparr>)" if "rmap (charge_one E m s) (bk_open b) = Inr ops" for m ops
    using book_ok_same_accounts [OF assms(2)] list_all2_mono [OF rmap_all2 [OF that]] charge_same_account
    by (metis book_ok_open_update(1))
  then show ?thesis
    using assms by (auto simp: charge_financing_def rbind_eq_Inr split: if_splits option.splits)
qed

lemma same_account_next_leg: "same_account op (op\<lparr>mp_next_leg := k\<rparr>)"
  by (simp add: same_account_def mp_totals_def)

lemma book_ok_owed_next_leg: "book_ok start [op\<lparr>mp_next_leg := k\<rparr>] ops b = book_ok start [op] ops b"
  by (simp add: book_ok_def mp_totals_def)

text \<open>One round of the loop over the legs of a position.\<close>

lemma exit_loop_Suc_cases:
  assumes "exit_loop (Suc n) E s bar op (b, r) = Inr (op', (b', r'), reason)"
  obtains (quiet) d where "decide_exit E s bar op (mp_size op) = Inr d" "\<not> xf_exited d" "op' = op" "b' = b" "r' = r" "reason = None"
  | (final) d op1 where "decide_exit E s bar op (mp_size op) = Inr d" "xf_exited d" "snd (size_for_exit op d)"
      "realise E op d (sl_timestamp s) (fst (size_for_exit op d)) True (b, r) = Inr (op1, b', r')" "reason = Some (exit_reason_of op d)"
      "op' = (if xf_reason d = Some TAKE_PROFIT then op1\<lparr>mp_next_leg := mp_next_leg op1 + 1\<rparr> else op1)"
  | (partial) d x op1 b1 r1 where "decide_exit E s bar op (mp_size op) = Inr d" "xf_exited d" "\<not> snd (size_for_exit op d)"
      "decide_exit E s bar op (fst (size_for_exit op d)) = Inr x"
      "realise E op x (sl_timestamp s) (fst (size_for_exit op d)) False (b, r) = Inr (op1, b1, r1)"
      "exit_loop n E s bar (if xf_reason x = Some TAKE_PROFIT then op1\<lparr>mp_next_leg := mp_next_leg op1 + 1\<rparr> else op1) (b1, r1) = Inr (op', (b', r'), reason)"
proof -
  obtain d where d: "decide_exit E s bar op (mp_size op) = Inr d" using assms by (auto simp: rbind_eq_Inr)
  show ?thesis
  proof (cases "xf_exited d")
    case False
    then show ?thesis using quiet d assms by simp
  next
    case True
    show ?thesis
    proof (cases "snd (size_for_exit op d)")
      case final': True
      then show ?thesis using final [OF d True final'] assms d True by (auto simp: case_prod_beta rbind_eq_Inr Let_def)
    next
      case False
      then show ?thesis using partial [OF d True False] assms d True
        by (auto simp: case_prod_beta rbind_eq_Inr Let_def split: if_splits)
    qed
  qed
qed

lemma exit_loop_book_ok:
  assumes "exit_loop n E s bar op (b, r) = Inr (op', (b', r'), reason)" "book_ok start [] (pre @ op # post) b"
  shows "case reason of None \<Rightarrow> book_ok start [] (pre @ op' # post) b' | Some _ \<Rightarrow> book_ok start [op'] (pre @ post) b'"
  using assms
proof (induction n arbitrary: op b r)
  case 0
  then show ?case by auto
next
  case (Suc n)
  from Suc.prems(1) show ?case
  proof (cases rule: exit_loop_Suc_cases)
    case quiet
    then show ?thesis using Suc.prems(2) by simp
  next
    case (final d op1)
    then show ?thesis using book_ok_final [OF final(4) Suc.prems(2)] by (simp add: book_ok_owed_next_leg)
  next
    case (partial d x op1 b1 r1)
    have "book_ok start [] (pre @ (if xf_reason x = Some TAKE_PROFIT then op1\<lparr>mp_next_leg := mp_next_leg op1 + 1\<rparr> else op1) # post) b1"
      using book_ok_partial [OF partial(5) Suc.prems(2)] book_ok_same_account [OF _ same_account_next_leg] by simp
    then show ?thesis using Suc.IH [OF partial(6)] by simp
  qed
qed

declare exit_loop.simps(2) [simp del]

lemma resolve_one_cases:
  assumes "resolve_one E s bar op0 (b, r) = Inr (kept, (b', r'))"
  obtains (stays) op1 op' where "exit_loop (length (mp_legs op0) + 1) E s bar (see_bar (sl_index s) bar op0) (b, r) = Inr (op1, (b', r'), None)"
      "\<not> time_stop_hit E op1" "update_protective_stop E s (mp_symbol op0) bar op1 = Inr op'" "kept = Some op'"
  | (timed) op1 b1 r1 x op2 b2 r2 b3 where "exit_loop (length (mp_legs op0) + 1) E s bar (see_bar (sl_index s) bar op0) (b, r) = Inr (op1, (b1, r1), None)"
      "time_stop_hit E op1" "realise E op1 x (sl_timestamp s) (mp_size op1) True (b1, r1) = Inr (op2, b2, r2)"
      "record_trade E op2 (sl_timestamp s) TIME_STOP (b2, r2) = Inr (b3, r')" "kept = None"
      "b' = arm_cooldown E s (mp_symbol op0) b3"
  | (closed) op1 b1 r1 reason b3 where "exit_loop (length (mp_legs op0) + 1) E s bar (see_bar (sl_index s) bar op0) (b, r) = Inr (op1, (b1, r1), Some reason)"
      "record_trade E op1 (sl_timestamp s) reason (b1, r1) = Inr (b3, r')" "kept = None"
      "b' = arm_cooldown E s (mp_symbol op0) b3"
proof -
  have see: "mp_legs (see_bar i bar op0) = mp_legs op0" "mp_symbol (see_bar i bar op0) = mp_symbol op0" for i
    by (simp_all add: see_bar_def update_extreme_def update_excursion_def Let_def)
  obtain op1 b1 r1 reason1 where l: "exit_loop (length (mp_legs op0) + 1) E s bar (see_bar (sl_index s) bar op0) (b, r) = Inr (op1, (b1, r1), reason1)"
    using assms by (auto simp: resolve_one_def Let_def rbind_eq_Inr see)
  show ?thesis
  proof (cases reason1)
    case (Some reason)
    then show ?thesis using closed [of op1 b1 r1 reason] assms l Some by (auto simp: resolve_one_def Let_def rbind_eq_Inr see split: if_splits)
  next
    case None
    show ?thesis
    proof (cases "time_stop_hit E op1")
      case True
      then show ?thesis using timed [of op1 b1 r1] assms l None
        by (auto simp: resolve_one_def time_stop_def Let_def rbind_eq_Inr see split: if_splits)
    next
      case False
      then show ?thesis using stays [of op1] assms l None by (auto simp: resolve_one_def Let_def rbind_eq_Inr see)
    qed
  qed
qed

lemma resolve_one_book_ok:
  assumes "resolve_one E s bar op (b, r) = Inr (kept, (b', r'))" "book_ok start [] (pre @ op # post) b"
  shows "book_ok start [] (pre @ (case kept of Some op' \<Rightarrow> [op'] | None \<Rightarrow> []) @ post) b'"
proof -
  have seen: "book_ok start [] (pre @ see_bar (sl_index s) bar op # post) b"
    by (rule book_ok_same_account [OF assms(2) see_bar_same_account])
  from assms(1) show ?thesis
  proof (cases rule: resolve_one_cases)
    case (stays op1 op')
    then show ?thesis using exit_loop_book_ok [OF stays(1) seen] book_ok_same_account [OF _ stop_same_account [OF stays(3)]] by simp
  next
    case (timed op1 b1 r1 x op2 b2 r2 b3)
    then show ?thesis
      using exit_loop_book_ok [OF timed(1) seen] book_ok_row [OF timed(4) book_ok_final [OF timed(3)]] by (simp add: book_ok_arm)
  next
    case (closed op1 b1 r1 reason b3)
    then show ?thesis using exit_loop_book_ok [OF closed(1) seen] book_ok_row [OF closed(2)] by (simp add: book_ok_arm)
  qed
qed

lemma exits_loop_book_ok:
  "exits_loop E s ops (b, r) = Inr (survivors, (b', r')) \<Longrightarrow> book_ok start [] (pre @ ops) b \<Longrightarrow> book_ok start [] (pre @ survivors) b'"
proof (induction ops arbitrary: b r survivors pre)
  case Nil
  then show ?case by simp
next
  case (Cons op ops)
  obtain kept b1 r1 surv where k: "(case sl_bars s (mp_symbol op) of None \<Rightarrow> Inr (Some op, (b, r)) | Some bar \<Rightarrow> resolve_one E s bar op (b, r)) = Inr (kept, (b1, r1))"
      "exits_loop E s ops (b1, r1) = Inr (surv, (b', r'))" "survivors = (case kept of Some op' \<Rightarrow> op' # surv | None \<Rightarrow> surv)"
    using Cons.prems(1) by (auto simp: rbind_eq_Inr)
  have "book_ok start [] (pre @ (case kept of Some op' \<Rightarrow> [op'] | None \<Rightarrow> []) @ ops) b1"
  proof (cases "sl_bars s (mp_symbol op)")
    case None
    then show ?thesis using k(1) Cons.prems(2) by auto
  next
    case (Some bar)
    then show ?thesis using k(1) resolve_one_book_ok [OF _ Cons.prems(2)] by auto
  qed
  then show ?case using Cons.IH [OF k(2), of "pre @ (case kept of Some op' \<Rightarrow> [op'] | None \<Rightarrow> [])"] k(3) by (auto split: option.splits)
qed


text \<open>Scheduled closes.\<close>

lemma filter_seq_split:
  assumes "distinct (map mp_seq ops)" "op \<in> set ops"
  obtains pre post where "ops = pre @ op # post" "filter (\<lambda>p. mp_seq p \<noteq> mp_seq op) ops = pre @ post"
proof -
  obtain pre post where ops: "ops = pre @ op # post" using split_list [OF assms(2)] by blast
  have "filter (\<lambda>p. mp_seq p \<noteq> mp_seq op) ops = pre @ post"
    using assms(1) unfolding ops by (auto simp: image_iff intro!: arg_cong2 [where f = append] filter_True)
  then show ?thesis using that ops by blast
qed

lemma close_loop_Cons_cases:
  assumes "close_loop E s (c # cs) by_seq (b, r) = Inr ((b', r'), still)"
  obtains (waits) still' where "close_loop E s cs by_seq (b, r) = Inr ((b', r'), still')" "still = c # still'"
  | (gone) "close_loop E s cs by_seq (b, r) = Inr ((b', r'), still)" "by_seq (pc_position_seq c) = None"
  | (closed) op bar x op' b1 r1 b2 r2 where "by_seq (pc_position_seq c) = Some op" "sl_bars s (pc_instrument c) = Some bar"
      "realise E op x (sl_timestamp s) (mp_size op) True (b, r) = Inr (op', b1, r1)"
      "record_trade E op' (sl_timestamp s) OPPOSITE_SIGNAL (b1, r1) = Inr (b2, r2)"
      "close_loop E s cs (by_seq(pc_position_seq c \<mapsto> op')) (b2\<lparr>bk_open := filter (\<lambda>p. mp_seq p \<noteq> mp_seq op) (bk_open b2)\<rparr>, r2) = Inr ((b', r'), still)"
  using assms by (auto simp: rbind_eq_Inr split: if_splits option.splits prod.splits)

definition reaches :: "(int \<rightharpoonup> managed) \<Rightarrow> pending_close list \<Rightarrow> managed list \<Rightarrow> bool" where
  "reaches by_seq cs ops \<longleftrightarrow> (\<forall>c \<in> set cs. \<forall>op. by_seq (pc_position_seq c) = Some op \<longrightarrow> op \<in> set ops \<and> mp_seq op = pc_position_seq c)"

lemma record_trade_open:
  "record_trade E op t reason (b, r) = Inr (b', r') \<Longrightarrow> bk_open b' = bk_open b \<and> bk_pending_closes b' = bk_pending_closes b"
  by (auto simp: record_trade_def rbind_eq_Inr)

lemma realise_open:
  "realise E op x t sz final (b, r) = Inr (op', b', r') \<Longrightarrow> bk_open b' = bk_open b \<and> bk_pending_closes b' = bk_pending_closes b"
  by (elim realise_cases) simp

lemma close_loop_book_ok:
  "close_loop E s cs by_seq (b, r) = Inr ((b', r'), still) \<Longrightarrow> book_ok start [] (bk_open b) b \<Longrightarrow> distinct (map pc_position_seq cs) \<Longrightarrow>
   reaches by_seq cs (bk_open b) \<Longrightarrow> book_ok start [] (bk_open b') b' \<and> subseq still cs"
proof (induction cs arbitrary: by_seq b r still)
  case Nil
  then show ?case by simp
next
  case (Cons c cs)
  have rest: "distinct (map pc_position_seq cs)" "reaches by_seq cs (bk_open b)" using Cons.prems(3,4) by (auto simp: reaches_def)
  from Cons.prems(1) show ?case
  proof (cases rule: close_loop_Cons_cases)
    case (waits still')
    then show ?thesis using Cons.IH [OF waits(1) Cons.prems(2) rest] by simp
  next
    case gone
    then show ?thesis using Cons.IH [OF gone(1) Cons.prems(2) rest] by (simp add: list_emb_Cons)
  next
    case (closed op bar x op' b1 r1 b2 r2)
    have op: "op \<in> set (bk_open b)" "mp_seq op = pc_position_seq c" using Cons.prems(4) closed(1) by (auto simp: reaches_def)
    obtain pre post where split: "bk_open b = pre @ op # post" "filter (\<lambda>p. mp_seq p \<noteq> mp_seq op) (bk_open b) = pre @ post"
      using filter_seq_split [OF _ op(1)] Cons.prems(2) by (auto simp: book_ok_def numbered_def)
    have opens: "bk_open b2 = bk_open b" using record_trade_open [OF closed(4)] realise_open [OF closed(3)] by simp
    have "book_ok start [] (pre @ post) b2"
      using book_ok_row [OF closed(4) book_ok_final [OF closed(3)]] Cons.prems(2) split(1) by simp
    then have ok: "book_ok start [] (filter (\<lambda>p. mp_seq p \<noteq> mp_seq op) (bk_open b2)) (b2\<lparr>bk_open := filter (\<lambda>p. mp_seq p \<noteq> mp_seq op) (bk_open b2)\<rparr>)"
      using split(2) opens by (simp add: book_ok_open_update)
    have "reaches (by_seq(pc_position_seq c \<mapsto> op')) cs (filter (\<lambda>p. mp_seq p \<noteq> mp_seq op) (bk_open b2))"
      using Cons.prems(3,4) op(2) opens by (auto simp: reaches_def image_iff)
    from Cons.IH [OF closed(5) _ rest(1)] this ok show ?thesis by (simp del: fun_upd_apply add: list_emb_Cons)
  qed
qed

lemma subseq_distinctD: "subseq xs ys \<Longrightarrow> distinct ys \<Longrightarrow> distinct xs"
  by (induction xs ys rule: list_emb.induct) (auto dest: list_emb_set)

lemma book_ok_fewer_closes:
  assumes "book_ok start owed ops b" "subseq still (bk_pending_closes b)"
  shows "book_ok start owed ops (b\<lparr>bk_pending_closes := still\<rparr>)"
proof -
  have "subseq (map pc_position_seq still) (map pc_position_seq (bk_pending_closes b))" using assms(2) by (rule subseq_map)
  from subseq_distinctD [OF this]
  have "distinct (map pc_position_seq (bk_pending_closes b)) \<Longrightarrow> distinct (map pc_position_seq still)" .
  moreover have "set still \<subseteq> set (bk_pending_closes b)" by (auto elim: list_emb_set [OF assms(2)])
  ultimately show ?thesis
    using assms(1) by (auto simp: book_ok_def ledger_ok_def numbered_def scheduled_def list_all_iff)
qed

lemma closes_keep:
  "close_loop E s cs by_seq (b, r) = Inr ((b', r'), still) \<Longrightarrow> bk_pending_closes b' = bk_pending_closes b"
proof (induction cs arbitrary: by_seq b r still)
  case (Cons c cs)
  from Cons.prems show ?case
  proof (cases rule: close_loop_Cons_cases)
    case (closed op bar x op' b1 r1 b2 r2)
    then show ?thesis using Cons.IH [OF closed(5)] realise_open [OF closed(3)] record_trade_open [OF closed(4)] by simp
  qed (use Cons.IH in blast)+
qed simp

lemma closes_book_ok:
  assumes "run_pending_closes E s (b, r) = Inr (b', r')" "book_ok start [] (bk_open b) b"
  shows "book_ok start [] (bk_open b') b'"
proof (cases "bk_pending_closes b = []")
  case True
  then show ?thesis using assms by (simp add: run_pending_closes_def)
next
  case False
  let ?by = "map_of (rev (map (\<lambda>op. (mp_seq op, op)) (bk_open b)))"
  obtain b1 still where l: "close_loop E s (bk_pending_closes b) ?by (b, r) = Inr ((b1, r'), still)" "b' = b1\<lparr>bk_pending_closes := still\<rparr>"
    using assms(1) False by (auto simp: run_pending_closes_def rbind_eq_Inr)
  have "reaches ?by (bk_pending_closes b) (bk_open b)" by (auto simp: reaches_def dest!: map_of_SomeD)
  moreover have "distinct (map pc_position_seq (bk_pending_closes b))" using assms(2) by (simp add: book_ok_def scheduled_def)
  ultimately have "book_ok start [] (bk_open b1) b1" "subseq still (bk_pending_closes b)" using close_loop_book_ok [OF l(1) assms(2)] by simp_all
  then show ?thesis using book_ok_fewer_closes l(2) closes_keep [OF l(1)] by simp
qed

text \<open>Entries.\<close>

lemma open_entry_book_ok:
  assumes "open_entry E s order fill (b, r) = Inr (b', r')" "book_ok start [] (bk_open b) b"
  shows "book_ok start [] (bk_open b') b'"
proof -
  obtain op costs legs fx where b': "b' = b\<lparr>bk_seq := bk_seq b + 1, bk_costs := costs, bk_open := bk_open b @ [op]\<rparr>" "mp_seq op = bk_seq b + 1"
    "mp_totals op = (Fin 0, Fin 0, Fin 0, Fin 0, Fin 0, Fin 0)"
    using assms(1) by (auto simp: open_entry_def next_seq_def rbind_eq_Inr Let_def new_managed_def mp_totals_def)
  have none: "legs_of (bk_seq b + 1) (bk_exit_legs b) = []"
    using assms(2) by (auto simp: legs_of_def book_ok_def numbered_def list_all_iff filter_empty_conv)
  have fresh: "bk_seq b + 1 \<notin> mp_seq ` set (bk_open b)" using assms(2) by (auto simp: book_ok_def numbered_def list_all_iff)
  show ?thesis
    using assms(2) b' none fresh
    by (auto simp: book_ok_def ledger_ok_def numbered_def scheduled_def accounted_def leg_totals_def list_all_iff)
qed

lemma refuse_entry_book_ok:
  "refuse_entry order reason fill (b, r) = (b', r') \<Longrightarrow> book_ok start owed ops b \<Longrightarrow> book_ok start owed ops b' \<and> bk_open b' = bk_open b"
  by (auto simp: refuse_entry_def bump_def book_ok_open_update)

lemma decide_entry_cases:
  assumes "decide_entry E s bar order br = Inr br'"
  obtains (refused) reason fill where "br' = refuse_entry order reason fill br"
  | (opened) fill where "entry_refusal E s order (fst br) = Inr None" "open_entry E s order fill br = Inr br'"
proof -
  obtain refusal where r: "entry_refusal E s order (fst br) = Inr refusal" using assms by (auto simp: decide_entry_def Let_def rbind_eq_Inr)
  show ?thesis
  proof (cases refusal)
    case (Some reason)
    then show ?thesis using refused [of reason None] assms r by (simp add: decide_entry_def Let_def)
  next
    case None
    then show ?thesis using assms r refused opened by (auto simp: decide_entry_def Let_def rbind_eq_Inr split: if_splits)
  qed
qed

lemma fill_loop_book_ok:
  "fill_loop E s orders (b, r) = Inr ((b', r'), still) \<Longrightarrow> book_ok start [] (bk_open b) b \<Longrightarrow> book_ok start [] (bk_open b') b'"
proof (induction orders arbitrary: b r still)
  case Nil
  then show ?case by simp
next
  case (Cons order orders)
  show ?case
  proof (cases "\<exists>bar. sl_bars s (i_symbol (pn_instrument order)) = Some bar \<and> \<not> pn_actionable_index order > sl_index s")
    case False
    then obtain still' where "fill_loop E s orders (b, r) = Inr ((b', r'), still')"
      using Cons.prems(1) by (auto simp: rbind_eq_Inr split: option.splits if_splits)
    then show ?thesis using Cons.IH Cons.prems(2) by blast
  next
    case True
    then obtain bar b1 r1 where d: "decide_entry E s bar order (b, r) = Inr (b1, r1)" "fill_loop E s orders (b1, r1) = Inr ((b', r'), still)"
      using Cons.prems(1) by (auto simp: rbind_eq_Inr)
    from d(1) have "book_ok start [] (bk_open b1) b1"
    proof (cases rule: decide_entry_cases)
      case (refused reason fill)
      then show ?thesis using refuse_entry_book_ok [OF refused [symmetric] Cons.prems(2)] by simp
    next
      case (opened fill)
      then show ?thesis using open_entry_book_ok [OF opened(2) Cons.prems(2)] by simp
    qed
    then show ?thesis using Cons.IH [OF d(2)] by simp
  qed
qed


lemma schedule_loop_spec:
  "schedule_loop instr d a sq ops = (ops', cs, sq') \<Longrightarrow>
   ops' = map (\<lambda>op. if to_reverse instr d op then op\<lparr>mp_reversal_pending := True\<rparr> else op) ops
   \<and> map pc_position_seq cs = map mp_seq (filter (to_reverse instr d) ops) \<and> sq' = sq + int (length cs)"
  by (induction instr d a sq ops arbitrary: ops' cs sq' rule: schedule_loop.induct) (auto simp: Let_def split: if_splits prod.splits)

lemma schedule_book_ok:
  assumes "schedule_reversal E instr d index b = (b', cs)" "book_ok start [] (bk_open b) b"
  shows "book_ok start [] (bk_open b') b'"
proof (cases "ep_reversal (be_policy E) = REV_IGNORE")
  case True
  then show ?thesis using assms by (simp add: schedule_reversal_def)
next
  case False
  let ?mark = "\<lambda>op. if to_reverse instr d op then op\<lparr>mp_reversal_pending := True\<rparr> else op"
  obtain ops sq where l: "schedule_loop instr d (index + 1 + be_latency_bars E) (bk_seq b) (bk_open b) = (ops, cs, sq)"
    "b' = b\<lparr>bk_open := ops, bk_seq := sq, bk_pending_closes := bk_pending_closes b @ cs\<rparr>"
    using assms(1) False by (auto simp: schedule_reversal_def split: prod.splits)
  note spec = schedule_loop_spec [OF l(1)]
  have ops: "map mp_seq ops = map mp_seq (bk_open b)" "map mp_totals ops = map mp_totals (bk_open b)"
    using spec by (simp_all add: mp_totals_def)
  have acc: "list_all (accounted ls) ops" if "list_all (accounted ls) (bk_open b)" for ls
    using that spec by (auto simp: list_all_iff accounted_def mp_totals_def)
  have num: "list_all (\<lambda>op. mp_seq op \<le> sq) ops" if "list_all (\<lambda>op. mp_seq op \<le> bk_seq b) (bk_open b)"
    using that spec by (force simp: list_all_iff)
  have s: "scheduled (bk_open b) (bk_pending_closes b) (bk_seq b)" "distinct (map mp_seq (bk_open b))"
    "list_all (\<lambda>op. mp_seq op \<le> bk_seq b) (bk_open b)"
    using assms(2) by (auto simp: book_ok_def numbered_def)
  have seqs: "map pc_position_seq cs = map mp_seq (filter (to_reverse instr d) (bk_open b))" using spec by blast
  have new: "distinct (map pc_position_seq cs)" "set (map pc_position_seq cs) = mp_seq ` set (filter (to_reverse instr d) (bk_open b))"
    unfolding seqs using s(2) by (simp_all add: distinct_map_filter)
  have disjoint: "set (map pc_position_seq (bk_pending_closes b)) \<inter> set (map pc_position_seq cs) = {}"
    using s(1) unfolding new(2) by (fastforce simp: scheduled_def list_all_iff to_reverse_def image_iff)
  have flags: "mp_reversal_pending (?mark op)"
    if "op \<in> set (bk_open b)" "mp_seq op \<in> set (map pc_position_seq (bk_pending_closes b @ cs))" for op
  proof (cases "mp_seq op \<in> set (map pc_position_seq cs)")
    case True
    then obtain op' where "op' \<in> set (bk_open b)" "to_reverse instr d op'" "mp_seq op' = mp_seq op" unfolding new(2) by auto
    then show ?thesis using s(2) that(1) by (auto simp: distinct_map dest: inj_onD)
  next
    case False
    then have "mp_seq op \<in> set (map pc_position_seq (bk_pending_closes b))" using that(2) by simp
    then show ?thesis using s(1) that(1) by (auto simp: scheduled_def list_all_iff)
  qed
  have low: "list_all (\<lambda>c. pc_position_seq c \<le> sq) (bk_pending_closes b @ cs)"
  proof -
    have "k \<le> bk_seq b" if "k \<in> set (map pc_position_seq (bk_pending_closes b @ cs))" for k
    proof (cases "k \<in> set (map pc_position_seq cs)")
      case True
      then show ?thesis using s(3) unfolding new(2) by (auto simp: list_all_iff)
    next
      case False
      then show ?thesis using that s(1) by (auto simp: scheduled_def list_all_iff)
    qed
    then have "pc_position_seq c \<le> bk_seq b" if "c \<in> set (bk_pending_closes b @ cs)" for c using that by auto
    moreover have "bk_seq b \<le> sq" using spec by simp
    ultimately show ?thesis unfolding list_all_iff by (meson order_trans)
  qed
  have "list_all (\<lambda>op. mp_seq op \<in> set (map pc_position_seq (bk_pending_closes b @ cs)) \<longrightarrow> mp_reversal_pending op) ops"
    unfolding list_all_iff
  proof (intro ballI impI)
    fix op' assume a: "op' \<in> set ops" "mp_seq op' \<in> set (map pc_position_seq (bk_pending_closes b @ cs))"
    then obtain op where op: "op \<in> set (bk_open b)" "op' = ?mark op" using spec by auto
    then show "mp_reversal_pending op'" using flags [OF op(1)] a(2) by (cases "to_reverse instr d op") auto
  qed
  moreover have "distinct (map pc_position_seq (bk_pending_closes b @ cs))"
    using disjoint new(1) s(1) by (simp add: scheduled_def)
  ultimately have "scheduled ops (bk_pending_closes b @ cs) sq" using low by (simp only: scheduled_def)
  moreover have "ledger_ok start b'" using assms(2) l(2) by (simp add: book_ok_def ledger_ok_def)
  moreover have "numbered ops b'"
  proof -
    have "list_all (\<lambda>x. xl_position_seq x \<le> sq) (bk_exit_legs b)"
      using assms(2) spec by (auto simp: book_ok_def numbered_def elim!: list.pred_mono_strong)
    then show ?thesis using assms(2) ops(1) num [OF s(3)] l(2) by (simp add: book_ok_def numbered_def)
  qed
  ultimately show ?thesis using assms(2) acc l(2) by (simp add: book_ok_def)
qed

lemma remove_seq_filter: "distinct (map mp_seq ops) \<Longrightarrow> remove_seq q ops = filter (\<lambda>p. mp_seq p \<noteq> q) ops"
  by (induction q ops rule: remove_seq.induct) (auto simp: image_iff intro!: filter_True [symmetric])

lemma flatten_loop_Cons_cases:
  assumes "flatten_loop E s reason (op # ops) (b, r) = Inr br"
  obtains (unpriced) "bar_or_last s (mp_symbol op) = None" "flatten_loop E s reason ops (b, r) = Inr br"
  | (closed) bar x op' b1 r1 b2 r2 where "bar_or_last s (mp_symbol op) = Some bar"
      "realise E op x (sl_timestamp s) (mp_size op) True (b, r) = Inr (op', b1, r1)"
      "record_trade E op' (sl_timestamp s) reason (b1, r1) = Inr (b2, r2)"
      "flatten_loop E s reason ops (b2\<lparr>bk_open := remove_seq (mp_seq op) (bk_open b2)\<rparr>, r2) = Inr br"
  using assms by (auto simp: rbind_eq_Inr split: option.splits)

lemma flatten_loop_book_ok:
  "flatten_loop E s reason ops (b, r) = Inr (b', r') \<Longrightarrow> book_ok start [] (bk_open b) b \<Longrightarrow> distinct (map mp_seq ops) \<Longrightarrow>
   set ops \<subseteq> set (bk_open b) \<Longrightarrow> book_ok start [] (bk_open b') b'"
proof (induction ops arbitrary: b r)
  case Nil
  then show ?case by simp
next
  case (Cons op ops)
  from Cons.prems(1) show ?case
  proof (cases rule: flatten_loop_Cons_cases)
    case unpriced
    then show ?thesis using Cons.IH [OF unpriced(2) Cons.prems(2)] Cons.prems(3,4) by simp
  next
    case (closed bar x op' b1 r1 b2 r2)
    have d: "distinct (map mp_seq (bk_open b))" using Cons.prems(2) by (simp add: book_ok_def numbered_def)
    obtain pre post where split: "bk_open b = pre @ op # post" "filter (\<lambda>p. mp_seq p \<noteq> mp_seq op) (bk_open b) = pre @ post"
      using filter_seq_split [OF d, of op] Cons.prems(4) by auto
    have opens: "remove_seq (mp_seq op) (bk_open b2) = filter (\<lambda>p. mp_seq p \<noteq> mp_seq op) (bk_open b)"
      using record_trade_open [OF closed(3)] realise_open [OF closed(2)] remove_seq_filter [OF d] by simp
    have "book_ok start [] (pre @ post) b2"
      using book_ok_row [OF closed(3) book_ok_final [OF closed(2)]] Cons.prems(2) split(1) by simp
    then have "book_ok start [] (bk_open (b2\<lparr>bk_open := remove_seq (mp_seq op) (bk_open b2)\<rparr>)) (b2\<lparr>bk_open := remove_seq (mp_seq op) (bk_open b2)\<rparr>)"
      using split(2) opens by (simp add: book_ok_open_update)
    moreover have "set ops \<subseteq> set (remove_seq (mp_seq op) (bk_open b2))" using Cons.prems(3,4) opens by (auto simp: image_iff)
    ultimately show ?thesis using Cons.IH [OF closed(4)] Cons.prems(3) by simp
  qed
qed

lemma advance_book_ok:
  assumes "advance E s b = Inr (b', r')" "book_ok start [] (bk_open b) b"
  shows "book_ok start [] (bk_open b') b'"
proof -
  obtain b1 b2 r2 b3 r3 r4 still survivors b3' b4 where p: "charge_financing E s b = Inr b1" "run_pending_closes E s (b1, no_result) = Inr (b2, r2)"
    "fill_loop E s (bk_pending b2) (b2, r2) = Inr ((b3', r3), still)" "b3 = b3'\<lparr>bk_pending := still\<rparr>"
    "exits_loop E s (bk_open b3) (b3, r3) = Inr (survivors, (b4, r4))" "b' = b4\<lparr>bk_open := survivors\<rparr>"
    using assms(1) by (auto simp: advance_def fill_entries_def resolve_exits_def rbind_eq_Inr)
  have "book_ok start [] (bk_open b2) b2" using closes_book_ok [OF p(2) financing_book_ok [OF p(1) assms(2)]] .
  from fill_loop_book_ok [OF p(3) this] have "book_ok start [] (bk_open b3) b3" using p(4) by (simp add: book_ok_open_update)
  then show ?thesis using exits_loop_book_ok [OF p(5), of start "[]"] p(6) by (simp add: book_ok_open_update)
qed

text \<open>The life of a book: what its callers do to it.\<close>

inductive book_next :: "book_env \<Rightarrow> book \<Rightarrow> book \<Rightarrow> bool" for E where
  number: "book_next E b (next_seq b)"
| queue: "book_next E b (queue_entry e b)"
| count: "book_next E b (bump key b)"
| reverse: "schedule_reversal E instr d index b = (b', cs) \<Longrightarrow> book_next E b b'"
| step: "advance E s b = Inr (b', r) \<Longrightarrow> book_next E b b'"
| close_out: "(case positions of Some ps \<Rightarrow> subseq ps (bk_open b) | None \<Rightarrow> True) \<Longrightarrow>
    book_flatten E s reason positions b = Inr (b', r) \<Longrightarrow> book_next E b b'"

abbreviation book_run :: "book_env \<Rightarrow> book \<Rightarrow> book \<Rightarrow> bool" where
  "book_run E \<equiv> rtranclp (book_next E)"

lemma subseq_distinct_seqs: "subseq ps ops \<Longrightarrow> distinct (map mp_seq ops) \<Longrightarrow> distinct (map mp_seq ps)"
  using subseq_distinctD subseq_map by blast

lemma book_flatten_loop:
  assumes "book_flatten E s reason positions b = Inr (b', r)" "case positions of Some ps \<Rightarrow> subseq ps (bk_open b) | None \<Rightarrow> True"
  obtains ps r' where "flatten_loop E s reason ps (b, no_result) = Inr (b', r')" "subseq ps (bk_open b)"
proof -
  let ?ps = "case positions of Some ps \<Rightarrow> ps | None \<Rightarrow> bk_open b"
  have "subseq ?ps (bk_open b)" using assms(2) by (auto split: option.splits)
  then show ?thesis using that [of ?ps] assms(1) by (auto simp: book_flatten_def rbind_eq_Inr)
qed

lemma flatten_book_ok:
  assumes "book_flatten E s reason positions b = Inr (b', r)" "case positions of Some ps \<Rightarrow> subseq ps (bk_open b) | None \<Rightarrow> True"
    and "book_ok start [] (bk_open b) b"
  shows "book_ok start [] (bk_open b') b'"
proof -
  obtain ps r' where l: "flatten_loop E s reason ps (b, no_result) = Inr (b', r')" "subseq ps (bk_open b)"
    using book_flatten_loop [OF assms(1,2)] .
  have "distinct (map mp_seq ps)" using subseq_distinct_seqs [OF l(2)] assms(3) by (simp add: book_ok_def numbered_def)
  moreover have "set ps \<subseteq> set (bk_open b)" by (auto elim: list_emb_set [OF l(2)])
  ultimately show ?thesis using flatten_loop_book_ok [OF l(1) assms(3)] by blast
qed

lemma book_next_ok: "book_next E b b' \<Longrightarrow> book_ok start [] (bk_open b) b \<Longrightarrow> book_ok start [] (bk_open b') b'"
proof (induction rule: book_next.induct)
  case (number b)
  then show ?case by (auto simp: next_seq_def book_ok_def ledger_ok_def numbered_def scheduled_def list_all_iff)
qed (auto simp: queue_entry_def bump_def book_ok_open_update schedule_book_ok advance_book_ok flatten_book_ok)

lemma book_new_ok: "book_ok start [] (bk_open (position_book_new start)) (position_book_new start)"
  by (simp add: position_book_new_def book_ok_def ledger_ok_def numbered_def rows_ok_def scheduled_def)

lemma book_run_ok: "book_run E b b' \<Longrightarrow> book_ok start [] (bk_open b) b \<Longrightarrow> book_ok start [] (bk_open b') b'"
  by (induction rule: rtranclp_induct) (auto intro: book_next_ok)

end
