(* ===== verification/Book_Safety.thy ===== *)
theory Book_Safety
  imports Book_Invariant Fill_Safety
begin

text \<open>
  What the position book promises: a ledger that adds up, one row for a position, limits on the number of positions, stops that
  only tighten, scale-out legs that fit, and financing that charges every rollover once.

  What a position keeps from one phase to the next is a relation with the laws of \<open>position_relation\<close>; one that also keeps the
  number of the position (\<open>tracked_relation\<close>) follows it through any run. The relation \<open>tightened\<close> is the instance of the book.
\<close>

section \<open>What a position keeps\<close>

text \<open>A relation between a position and what later phases make of it.\<close>

locale position_relation =
  fixes R :: "managed \<Rightarrow> managed \<Rightarrow> bool"
  assumes refl: "R op op"
    and trans: "R op1 op2 \<Longrightarrow> R op2 op3 \<Longrightarrow> R op1 op3"
    and charged: "charge_one E m s op = Inr op' \<Longrightarrow> R op op'"
    and seen: "R op (see_bar i bar op)"
    and part_closed: "close_fill E c op x t sz False = Inr (c', op', l) \<Longrightarrow> R op op'"
    and next_leg: "R op (op\<lparr>mp_next_leg := k\<rparr>)"
    and stop_moved: "update_protective_stop E s symb bar op = Inr op' \<Longrightarrow> R op op'"
    and reversing: "R op (op\<lparr>mp_reversal_pending := True\<rparr>)"
begin

abbreviation kept :: "managed list \<Rightarrow> managed list \<Rightarrow> bool" where
  "kept ops ops' \<equiv> list_emb (\<lambda>op' op. R op op') ops' ops"

lemma kept_refl: "kept ops ops"
  by (induction ops) (auto intro: refl)

lemma kept_trans: "kept a b \<Longrightarrow> kept b c \<Longrightarrow> kept a c"
  by (rule list_emb_trans) (auto intro: trans)

lemma kept_subseq: "subseq ops' ops \<Longrightarrow> kept ops ops'"
  by (rule list_emb_mono [THEN mp]) (auto intro: refl)

lemma kept_charge: "charge_financing E s b = Inr b' \<Longrightarrow> kept (bk_open b) (bk_open b')"
proof -
  have "rmap (charge_one E m s) ops = Inr ops' \<Longrightarrow> kept ops ops'" for m ops ops'
    by (induction ops arbitrary: ops') (auto simp: rbind_eq_Inr intro: charged)
  then show "charge_financing E s b = Inr b' \<Longrightarrow> kept (bk_open b) (bk_open b')"
    by (auto simp: charge_financing_def rbind_eq_Inr intro: kept_refl split: if_splits option.splits)
qed

lemma exit_loop_kept: "exit_loop n E s bar op br = Inr (op', br', None) \<Longrightarrow> R op op'"
proof (induction n arbitrary: op br br')
  case 0
  then show ?case by (simp add: refl)
next
  case (Suc n)
  obtain b r b' r' where br: "br = (b, r)" "br' = (b', r')" by (cases br; cases br')
  from Suc.prems [unfolded br] show ?case
  proof (cases rule: exit_loop_Suc_cases)
    case (partial d x op1 b1 r1)
    obtain c l where "close_fill E (bk_costs b) op x (sl_timestamp s) (fst (size_for_exit op d)) False = Inr (c, op1, l)"
      using realise_cases [OF partial(5)] by (metis fst_conv)
    then have "R op op1" by (rule part_closed)
    then show ?thesis using Suc.IH [OF partial(6)] next_leg [of op1] trans by (metis (full_types))
  qed (auto intro: refl)
qed

lemma resolve_one_kept: "resolve_one E s bar op br = Inr (Some op', br') \<Longrightarrow> R op op'"
proof -
  assume a: "resolve_one E s bar op br = Inr (Some op', br')"
  obtain b r b' r' where br: "br = (b, r)" "br' = (b', r')" by (cases br; cases br')
  from a [unfolded br] show ?thesis
    by (cases rule: resolve_one_cases) (auto dest!: exit_loop_kept stop_moved intro: trans seen)
qed

lemma exits_loop_kept: "exits_loop E s ops br = Inr (ops', br') \<Longrightarrow> kept ops ops'"
proof (induction ops arbitrary: br ops')
  case (Cons op ops)
  obtain k br1 surv where k: "(case sl_bars s (mp_symbol op) of None \<Rightarrow> Inr (Some op, br) | Some bar \<Rightarrow> resolve_one E s bar op br) = Inr (k, br1)"
      "exits_loop E s ops br1 = Inr (surv, br')" "ops' = (case k of Some o' \<Rightarrow> o' # surv | None \<Rightarrow> surv)"
    using Cons.prems by (auto simp: rbind_eq_Inr)
  have "R op o'" if "k = Some o'" for o'
    using k(1) that resolve_one_kept by (auto simp: refl split: option.splits)
  then show ?case using Cons.IH [OF k(2)] k(3) by (auto split: option.splits intro: list_emb_Cons)
qed simp

lemma schedule_kept: "schedule_reversal E instr d index b = (b', cs) \<Longrightarrow> kept (bk_open b) (bk_open b')"
proof -
  have "kept ops (map (\<lambda>op. if to_reverse instr d op then op\<lparr>mp_reversal_pending := True\<rparr> else op) ops)" for ops
    by (induction ops) (auto intro: refl reversing)
  then show "schedule_reversal E instr d index b = (b', cs) \<Longrightarrow> kept (bk_open b) (bk_open b')"
    by (auto simp: schedule_reversal_def kept_refl dest!: schedule_loop_spec split: if_splits prod.splits)
qed

end

lemma close_loop_subseq: "close_loop E s cs by_seq (b, r) = Inr ((b', r'), still) \<Longrightarrow> subseq (bk_open b') (bk_open b)"
proof (induction cs arbitrary: by_seq b r still)
  case (Cons c cs)
  from Cons.prems show ?case
  proof (cases rule: close_loop_Cons_cases)
    case (closed op bar x op' b1 r1 b2 r2)
    then have "subseq (bk_open b') (filter (\<lambda>p. mp_seq p \<noteq> mp_seq op) (bk_open b))"
      using Cons.IH [OF closed(5)] realise_open [OF closed(3)] record_trade_open [OF closed(4)] by simp
    then show ?thesis using subseq_filter_left subseq_order.trans by blast
  qed (use Cons.IH in blast)+
qed simp

lemma closes_subseq: "run_pending_closes E s (b, r) = Inr (b', r') \<Longrightarrow> subseq (bk_open b') (bk_open b)"
  by (auto simp: run_pending_closes_def Let_def rbind_eq_Inr split: if_splits dest!: close_loop_subseq)

lemma remove_seq_subseq: "subseq (remove_seq q ops) ops"
  by (induction q ops rule: remove_seq.induct) (auto intro: list_emb_Cons)

lemma flatten_loop_subseq: "flatten_loop E s reason ops (b, r) = Inr (b', r') \<Longrightarrow> subseq (bk_open b') (bk_open b)"
proof (induction ops arbitrary: b r)
  case (Cons op ops)
  from Cons.prems show ?case
  proof (cases rule: flatten_loop_Cons_cases)
    case (closed bar x op' b1 r1 b2 r2)
    then have "subseq (bk_open b') (remove_seq (mp_seq op) (bk_open b))"
      using Cons.IH [OF closed(4)] realise_open [OF closed(2)] record_trade_open [OF closed(3)] by simp
    then show ?thesis using remove_seq_subseq subseq_order.trans by blast
  qed (use Cons.IH in blast)
qed simp


lemma advance_phases:
  assumes "advance E s b = Inr (b', r')"
  obtains b1 b2 r2 b3 r3 still survivors b4 r4 where "charge_financing E s b = Inr b1" "run_pending_closes E s (b1, no_result) = Inr (b2, r2)"
    "fill_loop E s (bk_pending b2) (b2, r2) = Inr ((b3, r3), still)"
    "exits_loop E s (bk_open b3) (b3\<lparr>bk_pending := still\<rparr>, r3) = Inr (survivors, (b4, r4))" "b' = b4\<lparr>bk_open := survivors\<rparr>"
    "r' = r4\<lparr>ar_realised_delta := bk_realised b4 - bk_realised b\<rparr>"
  using assms by (auto simp: advance_def fill_entries_def resolve_exits_def rbind_eq_Inr)

lemma realise_seq: "realise E op x t sz final (b, r) = Inr (op', b', r') \<Longrightarrow> bk_seq b' = bk_seq b"
  by (elim realise_cases) simp

lemma record_trade_seq: "record_trade E op t reason (b, r) = Inr (b', r') \<Longrightarrow> bk_seq b' = bk_seq b"
  by (auto simp: record_trade_def rbind_eq_Inr)

lemma arm_cooldown_seq [simp]: "bk_seq (arm_cooldown E s symb b) = bk_seq b"
  by (simp add: arm_cooldown_def Let_def)

lemma exit_loop_seq: "exit_loop n E s bar op (b, r) = Inr (op', (b', r'), reason) \<Longrightarrow> bk_seq b' = bk_seq b"
proof (induction n arbitrary: op b r)
  case (Suc n)
  from Suc.prems show ?case by (cases rule: exit_loop_Suc_cases) (auto dest!: realise_seq Suc.IH)
qed simp

lemma resolve_one_seq: "resolve_one E s bar op (b, r) = Inr (kept, (b', r')) \<Longrightarrow> bk_seq b' = bk_seq b"
  by (elim resolve_one_cases) (auto dest!: exit_loop_seq realise_seq record_trade_seq)

lemma exits_loop_seq: "exits_loop E s ops (b, r) = Inr (ops', (b', r')) \<Longrightarrow> bk_seq b' = bk_seq b"
proof (induction ops arbitrary: b r ops')
  case (Cons op ops)
  obtain k b1 r1 surv where k: "(case sl_bars s (mp_symbol op) of None \<Rightarrow> Inr (Some op, (b, r)) | Some bar \<Rightarrow> resolve_one E s bar op (b, r)) = Inr (k, (b1, r1))"
      "exits_loop E s ops (b1, r1) = Inr (surv, (b', r'))"
    using Cons.prems by (auto simp: rbind_eq_Inr)
  have "bk_seq b1 = bk_seq b" using k(1) resolve_one_seq by (auto split: option.splits)
  then show ?case using Cons.IH [OF k(2)] by simp
qed simp

lemma close_loop_seq: "close_loop E s cs by_seq (b, r) = Inr ((b', r'), still) \<Longrightarrow> bk_seq b' = bk_seq b"
proof (induction cs arbitrary: by_seq b r still)
  case (Cons c cs)
  from Cons.prems show ?case by (cases rule: close_loop_Cons_cases) (auto dest!: realise_seq record_trade_seq Cons.IH)
qed simp

lemma flatten_loop_seq: "flatten_loop E s reason ops (b, r) = Inr (b', r') \<Longrightarrow> bk_seq b' = bk_seq b"
proof (induction ops arbitrary: b r)
  case (Cons op ops)
  from Cons.prems show ?case by (cases rule: flatten_loop_Cons_cases) (auto dest!: realise_seq record_trade_seq Cons.IH)
qed simp

lemma charge_seq: "charge_financing E s b = Inr b' \<Longrightarrow> bk_seq b' = bk_seq b"
  by (auto simp: charge_financing_def rbind_eq_Inr split: if_splits option.splits)

lemma closes_seq: "run_pending_closes E s (b, r) = Inr (b', r') \<Longrightarrow> bk_seq b' = bk_seq b"
  by (auto simp: run_pending_closes_def Let_def rbind_eq_Inr split: if_splits dest!: close_loop_seq)

text \<open>The limits on the number of positions.\<close>

definition positions_within :: "book_config \<Rightarrow> managed list \<Rightarrow> bool" where
  "positions_within g ops \<longleftrightarrow> int (length ops) \<le> max 0 (bg_max_concurrent g)
     \<and> (\<forall>symb. int (length (filter (\<lambda>op. mp_symbol op = symb) ops)) \<le> max 0 (bg_max_per_instrument g))"

definition grows :: "book \<Rightarrow> book \<Rightarrow> bool" where
  "grows b b' \<longleftrightarrow> (\<exists>new. bk_open b' = bk_open b @ new \<and> list_all (\<lambda>op. mp_seq op > bk_seq b) new) \<and> bk_seq b \<le> bk_seq b'"

lemma grows_trans: "grows a b \<Longrightarrow> grows b c \<Longrightarrow> grows a c"
  by (fastforce simp: grows_def list_all_iff)

lemma open_entry_op:
  assumes "open_entry E s order fill (b, r) = Inr (b', r')"
  obtains op where "bk_open b' = bk_open b @ [op]" "mp_seq op = bk_seq b + 1" "bk_seq b' = bk_seq b + 1" "mp_symbol op = i_symbol (pn_instrument order)"
  using assms by (auto simp: open_entry_def next_seq_def rbind_eq_Inr Let_def new_managed_def)

lemma decide_entry_grows:
  assumes "decide_entry E s bar order (b, r) = Inr (b', r')"
  shows "grows b b' \<and> (positions_within (be_config E) (bk_open b) \<longrightarrow> positions_within (be_config E) (bk_open b'))"
  using assms
proof (cases rule: decide_entry_cases)
  case (refused reason fill)
  then show ?thesis by (auto simp: refuse_entry_def bump_def grows_def)
next
  case (opened fill)
  let ?symb = "i_symbol (pn_instrument order)"
  obtain op where op: "bk_open b' = bk_open b @ [op]" "mp_seq op = bk_seq b + 1" "bk_seq b' = bk_seq b + 1" "mp_symbol op = ?symb"
    using open_entry_op [OF opened(2)] .
  have "int (length (bk_open b)) < bg_max_concurrent (be_config E)"
    "int (length (filter (\<lambda>p. mp_symbol p = ?symb) (bk_open b))) < bg_max_per_instrument (be_config E)"
    using opened(1) by (auto simp: entry_refusal_def Let_def rbind_eq_Inr split: if_splits option.splits)
  then show ?thesis using op by (auto simp: grows_def positions_within_def)
qed

lemma fill_loop_grows:
  "fill_loop E s orders (b, r) = Inr ((b', r'), still) \<Longrightarrow>
   grows b b' \<and> (positions_within (be_config E) (bk_open b) \<longrightarrow> positions_within (be_config E) (bk_open b'))"
proof (induction orders arbitrary: b r still)
  case Nil
  then show ?case by (simp add: grows_def)
next
  case (Cons order orders)
  show ?case
  proof (cases "\<exists>bar. sl_bars s (i_symbol (pn_instrument order)) = Some bar \<and> \<not> pn_actionable_index order > sl_index s")
    case False
    then obtain still' where "fill_loop E s orders (b, r) = Inr ((b', r'), still')"
      using Cons.prems by (auto simp: rbind_eq_Inr split: option.splits if_splits)
    then show ?thesis using Cons.IH by blast
  next
    case True
    then obtain bar b1 r1 where d: "decide_entry E s bar order (b, r) = Inr (b1, r1)" "fill_loop E s orders (b1, r1) = Inr ((b', r'), still)"
      using Cons.prems by (auto simp: rbind_eq_Inr)
    then show ?thesis using decide_entry_grows [OF d(1)] Cons.IH [OF d(2)] grows_trans by blast
  qed
qed

lemma within_limits_emb:
  assumes "list_emb (\<lambda>op' op. mp_symbol op' = mp_symbol op) ops' ops" "positions_within g ops"
  shows "positions_within g ops'"
proof -
  have "length (filter (\<lambda>op. P (mp_symbol op)) ops') \<le> length (filter (\<lambda>op. P (mp_symbol op)) ops)" for P
    using assms(1) by (induction rule: list_emb.induct) auto
  from this [of "\<lambda>_. True"] this have "length ops' \<le> length ops"
    "length (filter (\<lambda>op. mp_symbol op = symb) ops') \<le> length (filter (\<lambda>op. mp_symbol op = symb) ops)" for symb by simp_all
  then show ?thesis using assms(2) unfolding positions_within_def by (meson of_nat_mono order_trans)
qed


text \<open>A relation that also keeps the number of a position follows it through any run.\<close>

locale tracked_relation = position_relation +
  assumes same_seq: "R op op' \<Longrightarrow> mp_seq op' = mp_seq op"
begin

definition derives :: "book \<Rightarrow> book \<Rightarrow> bool" where
  "derives b b' \<longleftrightarrow> bk_seq b \<le> bk_seq b' \<and> (\<forall>op' \<in> set (bk_open b'). mp_seq op' > bk_seq b \<or> (\<exists>op \<in> set (bk_open b). R op op'))"

lemma derives_refl: "derives b b"
  using refl by (auto simp: derives_def)

lemma derives_trans: "derives a b \<Longrightarrow> derives b c \<Longrightarrow> derives a c"
  unfolding derives_def by (smt (verit) same_seq trans)

lemma kept_derives: "kept (bk_open b) (bk_open b') \<Longrightarrow> bk_seq b \<le> bk_seq b' \<Longrightarrow> derives b b'"
  unfolding derives_def by (metis list_emb_set)

lemma grows_derives: "grows b b' \<Longrightarrow> derives b b'"
  unfolding derives_def grows_def list_all_iff using refl by fastforce

lemma advance_derives: "advance E s b = Inr (b', r') \<Longrightarrow> derives b b'"
proof (elim advance_phases)
  fix b1 b2 r2 b3 r3 still survivors b4 r4
  assume p: "charge_financing E s b = Inr b1" "run_pending_closes E s (b1, no_result) = Inr (b2, r2)"
    "fill_loop E s (bk_pending b2) (b2, r2) = Inr ((b3, r3), still)"
    "exits_loop E s (bk_open b3) (b3\<lparr>bk_pending := still\<rparr>, r3) = Inr (survivors, (b4, r4))" "b' = b4\<lparr>bk_open := survivors\<rparr>"
  have "derives b b1" using kept_derives kept_charge [OF p(1)] charge_seq [OF p(1)] by simp
  moreover have "derives b1 b2" using kept_derives kept_subseq [OF closes_subseq [OF p(2)]] closes_seq [OF p(2)] by simp
  moreover have "derives b2 b3" using grows_derives fill_loop_grows [OF p(3)] by blast
  moreover have "derives b3 b'" using kept_derives exits_loop_kept [OF p(4)] exits_loop_seq [OF p(4)] p(5) by simp
  ultimately show ?thesis using derives_trans by blast
qed

lemma next_derives: "book_next E b b' \<Longrightarrow> derives b b'"
proof (induction rule: book_next.induct)
  case (reverse instr d index b b' cs)
  have "bk_seq b \<le> bk_seq b'" using reverse by (auto simp: schedule_reversal_def split: if_splits prod.splits dest!: schedule_loop_spec)
  then show ?case using kept_derives schedule_kept [OF reverse] by simp
next
  case (step s b b' r)
  then show ?case by (rule advance_derives)
next
  case (close_out positions b s reason b' r)
  then obtain ps r' where l: "flatten_loop E s reason ps (b, no_result) = Inr (b', r')" by (elim book_flatten_loop)
  then show ?case using kept_derives kept_subseq [OF flatten_loop_subseq [OF l]] flatten_loop_seq [OF l] by simp
qed (auto simp: derives_def next_seq_def queue_entry_def bump_def intro: refl)

lemma run_derives: "book_run E b b' \<Longrightarrow> derives b b'"
  by (induction rule: rtranclp_induct) (auto intro: derives_refl derives_trans next_derives)

lemma run_tracks:
  assumes "book_run E b b'" "book_ok start [] (bk_open b) b" "op \<in> set (bk_open b)" "op' \<in> set (bk_open b')" "mp_seq op' = mp_seq op"
  shows "R op op'"
proof -
  have "mp_seq op \<le> bk_seq b" using assms(2,3) by (auto simp: book_ok_def numbered_def list_all_iff)
  then obtain o1 where "o1 \<in> set (bk_open b)" "R o1 op'" using run_derives [OF assms(1)] assms(4,5) by (auto simp: derives_def)
  moreover have "o1 = op"
    using calculation assms(2,3,5) same_seq [of o1 op'] by (auto simp: book_ok_def numbered_def distinct_map dest: inj_onD)
  ultimately show ?thesis by simp
qed

end

text \<open>The terms of the deal, and the stop.\<close>

definition same_deal :: "managed \<Rightarrow> managed \<Rightarrow> bool" where
  "same_deal op op' \<longleftrightarrow> mp_seq op' = mp_seq op \<and> mp_symbol op' = mp_symbol op \<and> mp_direction op' = mp_direction op
     \<and> mp_instrument op' = mp_instrument op \<and> mp_entry_mid op' = mp_entry_mid op \<and> mp_entry_size op' = mp_entry_size op
     \<and> mp_initial_stop op' = mp_initial_stop op \<and> mp_legs op' = mp_legs op \<and> ps_entry_time (mp_position op') = ps_entry_time (mp_position op)"

definition tighter :: "direction \<Rightarrow> flt \<Rightarrow> flt \<Rightarrow> bool" where
  "tighter d level current \<longleftrightarrow> (case d of LONG \<Rightarrow> current < level | SHORT \<Rightarrow> level < current)"

definition no_looser :: "direction \<Rightarrow> flt option \<Rightarrow> flt option \<Rightarrow> bool" where
  "no_looser d st st' \<longleftrightarrow> st' = st \<or> (\<exists>c l. st = Some c \<and> st' = Some l \<and> tighter d l c)"

lemma improves_tighter: "improves d l c \<Longrightarrow> tighter d l c"
  by (cases d; cases l; cases c) (auto simp: improves_def tighter_def dir_sign_def minus_flt_def split: if_splits)

lemma tighter_trans: "tighter d l c \<Longrightarrow> tighter d m l \<Longrightarrow> tighter d m c"
  by (cases d; cases l; cases c; cases m) (auto simp: tighter_def)

lemma no_looser_trans: "no_looser d a b \<Longrightarrow> no_looser d b c \<Longrightarrow> no_looser d a c"
  unfolding no_looser_def using tighter_trans by blast

definition tightened :: "managed \<Rightarrow> managed \<Rightarrow> bool" where
  "tightened op op' \<longleftrightarrow> same_deal op op' \<and> no_looser (mp_direction op) (mp_stop op) (mp_stop op')"

interpretation deal: tracked_relation tightened
proof
  show "charge_one E m s op = Inr op' \<Longrightarrow> tightened op op'" for E m s op op'
    by (auto simp: charge_one_def Let_def rbind_eq_Inr tightened_def same_deal_def no_looser_def split: if_splits)
  show "close_fill E c op x t sz False = Inr (c', op', l) \<Longrightarrow> tightened op op'" for E c op x t sz c' op' l
    by (auto simp: close_fill_def Let_def rbind_eq_Inr tightened_def same_deal_def no_looser_def)
  show "update_protective_stop E s symb bar op = Inr op' \<Longrightarrow> tightened op op'" for E s symb bar op op'
    by (elim protective_stop_cases) (auto simp: tightened_def same_deal_def no_looser_def improves_tighter)
  show "tightened op1 op2 \<Longrightarrow> tightened op2 op3 \<Longrightarrow> tightened op1 op3" for op1 op2 op3
    using no_looser_trans by (auto simp: tightened_def same_deal_def)
qed (auto simp: tightened_def same_deal_def no_looser_def see_bar_def update_extreme_def update_excursion_def Let_def)

lemma advance_within_limits:
  assumes "advance E s b = Inr (b', r')" "positions_within (be_config E) (bk_open b)"
  shows "positions_within (be_config E) (bk_open b')"
  using assms(1)
proof (elim advance_phases)
  fix b1 b2 r2 b3 r3 still survivors b4 r4
  assume p: "charge_financing E s b = Inr b1" "run_pending_closes E s (b1, no_result) = Inr (b2, r2)"
    "fill_loop E s (bk_pending b2) (b2, r2) = Inr ((b3, r3), still)"
    "exits_loop E s (bk_open b3) (b3\<lparr>bk_pending := still\<rparr>, r3) = Inr (survivors, (b4, r4))" "b' = b4\<lparr>bk_open := survivors\<rparr>"
  have emb: "positions_within (be_config E) ops'" if "deal.kept ops ops'" "positions_within (be_config E) ops" for ops ops'
    by (rule within_limits_emb [OF list_emb_mono [THEN mp, OF _ that(1)] that(2)]) (simp add: tightened_def same_deal_def)
  have "positions_within (be_config E) (bk_open b2)"
    using emb [OF deal.kept_subseq [OF closes_subseq [OF p(2)]]] emb [OF deal.kept_charge [OF p(1)] assms(2)] by blast
  then show ?thesis using emb [OF deal.exits_loop_kept [OF p(4)]] fill_loop_grows [OF p(3)] p(5) by simp
qed

lemma next_within_limits: "book_next E b b' \<Longrightarrow> positions_within (be_config E) (bk_open b) \<Longrightarrow> positions_within (be_config E) (bk_open b')"
proof (induction rule: book_next.induct)
  case (reverse instr d index b b' cs)
  have "list_emb (\<lambda>op' op. mp_symbol op' = mp_symbol op) (bk_open b') (bk_open b)"
    by (rule list_emb_mono [THEN mp, OF _ deal.schedule_kept [OF reverse.hyps]]) (simp add: tightened_def same_deal_def)
  then show ?case using within_limits_emb reverse.prems by blast
next
  case (step s b b' r)
  then show ?case by (blast intro: advance_within_limits)
next
  case (close_out positions b s reason b' r)
  then obtain ps r' where l: "flatten_loop E s reason ps (b, no_result) = Inr (b', r')" by (elim book_flatten_loop)
  have "list_emb (\<lambda>op' op. mp_symbol op' = mp_symbol op) (bk_open b') (bk_open b)"
    by (rule list_emb_mono [THEN mp, OF _ flatten_loop_subseq [OF l]]) simp
  then show ?case using within_limits_emb close_out.prems by blast
qed (auto simp: next_seq_def queue_entry_def bump_def)


section \<open>Scale-out legs fit the position\<close>

lemma round_size_Fin:
  assumes "i_size_step i = Fin st" "round_size i x = Inr y"
  obtains z where "y = Fin z"
  using assms by (auto simp: round_size_def rbind_eq_Inr split: if_splits)

lemma plan_loop_fits:
  assumes "i_size_step i = Fin st" "plan_loop i (Fin F) ce (Fin A) ps as = Inr legs" "A < F - 1 / 10 ^ 12 \<or> ps = []" "A \<le> F"
  shows "\<exists>zs. map tl_size legs = map Fin zs \<and> list_all (\<lambda>z. 0 < z) zs \<and> A + sum_list zs \<le> F
    \<and> (ce \<and> ps \<noteq> [] \<longrightarrow> F - 1 / 10 ^ 12 \<le> A + sum_list zs) \<and> length legs \<le> length ps"
  using assms(2-)
proof (induction ps arbitrary: A as legs)
  case Nil
  then show ?case by (cases as) auto
next
  case (Cons p ps)
  from Cons.prems(1) obtain a as' where as: "as = a # as'" by (cases as) auto
  from Cons.prems(1) obtain w where w: "(if ps = [] \<and> ce then Inr (Fin F - Fin A)
      else rbind (snap_to_step (Fin F * a) (i_size_step i)) (round_size i)) = Inr w" unfolding as by (auto simp: rbind_eq_Inr simp del: times_flt.simps)
  obtain v where v: "w = Fin v" "ps = [] \<and> ce \<Longrightarrow> v = F - A"
  proof (cases "ps = [] \<and> ce")
    case True
    then show ?thesis using that w by auto
  next
    case False
    then obtain x where "round_size i x = Inr w" using w by (auto simp: rbind_eq_Inr simp del: times_flt.simps)
    from round_size_Fin [OF assms(1) this] that False show ?thesis by blast
  qed
  define m where "m = min v (F - A)"
  have sz: "py_min w (Fin (F - A)) = Fin m" using v(1) by (auto simp: m_def py_min_def min_def)
  have m: "m \<le> F - A" "ps = [] \<and> ce \<Longrightarrow> m = F - A" using v(2) by (auto simp: m_def)
  have step: "(if Fin (m) \<le> Fin 0 then plan_loop i (Fin F) ce (Fin A) ps as'
      else if Fin A + Fin (m) \<ge> Fin F - DUST then Inr [\<lparr>tl_price = p, tl_size = Fin (m)\<rparr>]
      else rbind (plan_loop i (Fin F) ce (Fin A + Fin (m)) ps as') (\<lambda>ls. Inr (\<lparr>tl_price = p, tl_size = Fin (m)\<rparr> # ls))) = Inr legs"
    using Cons.prems(1) unfolding as by (simp add: w sz Let_def del: times_flt.simps split: if_splits)
  have room: "A < F - 1 / 10 ^ 12" using Cons.prems(2) by simp
  consider (skip) "m \<le> 0" | (last) "m > 0" "A + m \<ge> F - 1 / 10 ^ 12"
    | (more) "m > 0" "A + m < F - 1 / 10 ^ 12" by linarith
  then show ?case
  proof cases
    case skip
    then have "\<not> (ps = [] \<and> ce)" using m(2) room by auto
    then show ?thesis using Cons.IH [of A as' legs] step skip room Cons.prems(3) by auto
  next
    case last
    then have "legs = [\<lparr>tl_price = p, tl_size = Fin (m)\<rparr>]" using step by (simp add: DUST_def)
    then show ?thesis using last m(1) by (intro exI [of _ "[m]"]) auto
  next
    case more
    then obtain ls where ls: "plan_loop i (Fin F) ce (Fin (A + m)) ps as' = Inr ls" "legs = \<lparr>tl_price = p, tl_size = Fin (m)\<rparr> # ls"
      using step by (auto simp: DUST_def rbind_eq_Inr)
    have ne: "\<not> (ps = [] \<and> ce)" using m(2) more(2) by auto
    obtain zs where "map tl_size ls = map Fin zs" "list_all (\<lambda>z. 0 < z) zs" "A + m + sum_list zs \<le> F"
      "ce \<and> ps \<noteq> [] \<longrightarrow> F - 1 / 10 ^ 12 \<le> A + m + sum_list zs" "length ls \<le> length ps"
      using Cons.IH [OF ls(1)] more by auto
    then show ?thesis using ls(2) more(1) ne by (intro exI [of _ "m # zs"]) auto
  qed
qed

text \<open>The scale-out legs of a position fit it. Each leg has a positive size, together they close no more than was dealt, and
  when the allocations make up the whole (or none are given) they leave no more than dust.\<close>

theorem legs_fit_the_position:
  assumes "plan_legs i (Fin F) prices allocations = Inr legs" "i_size_step i = Fin st" "1 / 10 ^ 12 < F"
  shows "\<exists>zs. map tl_size legs = map Fin zs \<and> list_all (\<lambda>z. 0 < z) zs \<and> sum_list zs \<le> F \<and> length legs \<le> length prices
    \<and> (prices \<noteq> [] \<and> (allocations = [] \<or> flt_sum allocations \<ge> Fin 1 - TINY) \<longrightarrow> F - 1 / 10 ^ 12 \<le> sum_list zs)"
proof (cases "prices = [] \<or> allocations = []")
  case True
  then show ?thesis
    using assms(1,3) by (cases prices) (auto simp: plan_legs_def intro: exI [of _ "[]"] exI [of _ "[F]"])
next
  case False
  then show ?thesis
    using plan_loop_fits [OF assms(2), of F "flt_sum allocations \<ge> Fin 1 - TINY" 0 prices allocations legs] assms(1,3)
    by (auto simp: plan_legs_def)
qed

section \<open>Financing nights\<close>

definition rollover :: "int \<Rightarrow> int \<Rightarrow> int" where
  "rollover h day = day * DAY_NS + h * HOUR_NS"

definition weight_of :: "asset_class \<Rightarrow> int \<Rightarrow> int" where
  "weight_of cls day = (case triple_rollover_weekday cls of None \<Rightarrow> 1 | Some triple \<Rightarrow> night_weight triple ((day + 3) mod 7))"

definition rollovers_in :: "int \<Rightarrow> tstamp \<Rightarrow> tstamp \<Rightarrow> int set" where
  "rollovers_in h a b = {day. ns a < rollover h day \<and> rollover h day \<le> ns b}"

lemma first_rollover_day:
  assumes "0 \<le> h" "h < 24"
  shows "first_rollover t h = rollover h (first_rollover t h div DAY_NS)"
    and "ns t < rollover h day \<longleftrightarrow> first_rollover t h div DAY_NS \<le> day"
proof -
  let ?q = "ns t div DAY_NS"
  have q: "?q * DAY_NS \<le> ns t" "ns t < (?q + 1) * DAY_NS" by (simp_all add: DAY_NS_def, presburger?)
  have h: "0 \<le> h * HOUR_NS" "h * HOUR_NS < DAY_NS" using assms by (simp_all add: HOUR_NS_def DAY_NS_def)
  define d where "d = (if rollover h ?q \<le> ns t then ?q + 1 else ?q)"
  have f: "first_rollover t h = rollover h d" by (simp add: first_rollover_def rollover_def d_def Let_def algebra_simps)
  have "rollover h d div DAY_NS = d" using h by (simp add: rollover_def DAY_NS_def)
  then have d: "first_rollover t h div DAY_NS = d" using f by simp
  then show "first_rollover t h = rollover h (first_rollover t h div DAY_NS)" using f by simp
  show "ns t < rollover h day \<longleftrightarrow> first_rollover t h div DAY_NS \<le> day"
  proof -
    have mono: "a \<le> b \<longleftrightarrow> rollover h a \<le> rollover h b" for a b by (simp add: rollover_def DAY_NS_def)
    have "ns t < rollover h d" using q h by (auto simp: d_def rollover_def algebra_simps split: if_splits)
    moreover have "rollover h (d - 1) \<le> ns t" using q h by (auto simp: d_def rollover_def algebra_simps split: if_splits)
    ultimately show ?thesis unfolding d using mono [of d day] mono [of day "d - 1"] by (cases "d \<le> day") auto
  qed
qed

lemma le_div_iff_mult: "0 < (c :: int) \<Longrightarrow> a * c \<le> b \<longleftrightarrow> a \<le> b div c"
proof
  assume c: "0 < c" and "a * c \<le> b"
  then have "a * c div c \<le> b div c" by (intro zdiv_mono1)
  then show "a \<le> b div c" using c by simp
next
  assume c: "0 < c" and "a \<le> b div c"
  then have "a * c \<le> b div c * c" by (intro mult_right_mono) simp_all
  moreover have "b div c * c \<le> b" using c by (simp add: minus_mod_eq_div_mult [symmetric])
  ultimately show "a * c \<le> b" by linarith
qed

lemma rollovers_interval:
  assumes "0 \<le> h" "h < 24" "first_rollover a h \<le> ns b"
  shows "rollovers_in h a b = {first_rollover a h div DAY_NS ..< first_rollover a h div DAY_NS + ((ns b - first_rollover a h) div DAY_NS + 1)}"
proof -
  let ?d = "first_rollover a h div DAY_NS"
  have "rollover h day \<le> ns b \<longleftrightarrow> day - ?d \<le> (ns b - first_rollover a h) div DAY_NS" for day
  proof -
    have "rollover h day \<le> ns b \<longleftrightarrow> (day - ?d) * DAY_NS \<le> ns b - first_rollover a h"
      using first_rollover_day(1) [OF assms(1,2), of a] unfolding rollover_def left_diff_distrib by linarith
    also have "\<dots> \<longleftrightarrow> day - ?d \<le> (ns b - first_rollover a h) div DAY_NS"
      by (rule le_div_iff_mult) (simp add: DAY_NS_def)
    finally show ?thesis .
  qed
  then show ?thesis using first_rollover_day(2) [OF assms(1,2)] by (auto simp: rollovers_in_def)
qed

lemma weigh_nights_sum: "weigh_nights triple (d mod 7) k = (\<Sum>j < k. night_weight triple ((d + int j) mod 7))"
  by (induction k) (simp_all add: mod_add_left_eq)

lemma sum_int_interval: "(\<Sum>j < n. f (d + int j)) = sum f {d ..< d + int n}"
  by (rule sum.reindex_bij_witness [where i = "\<lambda>x. nat (x - d)" and j = "\<lambda>j. d + int j"]) auto

text \<open>Financing charges every rollover once. The nights between two times are the weights of the rollover instants after the
  first and up to the second, whatever bars lie between: so charging in pieces charges the same as charging at once.\<close>

theorem financing_counts_rollovers:
  assumes "tz_aware a = tz_aware b" "0 \<le> h" "h < 24"
  shows "financing_nights a b h cls = Inr (\<Sum>day \<in> rollovers_in h a b. weight_of cls day)"
proof -
  let ?f = "first_rollover a h" let ?d = "first_rollover a h div DAY_NS"
  have later: "ns a < ?f" using first_rollover_day [OF assms(2,3), of a] by (metis order_refl)
  show ?thesis
  proof (cases "?f \<le> ns b")
    case False
    then have "rollovers_in h a b = {}"
      using first_rollover_day [OF assms(2,3), of a] by (fastforce simp: rollovers_in_def rollover_def DAY_NS_def)
    then show ?thesis using False assms(1) by (auto simp: financing_nights_def nights_between_def ts_le_def Let_def)
  next
    case True
    define k where "k = (ns b - ?f) div DAY_NS + 1"
    have k: "0 < k" using True by (simp add: k_def DAY_NS_def pos_imp_zdiv_nonneg_iff)
    have n: "nights_between a b h = Inr k" using True later assms(1) by (auto simp: nights_between_def ts_le_def Let_def k_def)
    have set: "rollovers_in h a b = {?d ..< ?d + int (nat k)}" using rollovers_interval [OF assms(2,3) True] k by (simp add: k_def)
    have "weigh_nights triple (day_of_week ?f) (nat k) = (\<Sum>day \<in> rollovers_in h a b. night_weight triple ((day + 3) mod 7))" for triple
    proof -
      have "(\<Sum>j < nat k. night_weight triple ((?d + 3 + int j) mod 7)) = (\<Sum>j < nat k. night_weight triple (((?d + int j) + 3) mod 7))"
        by (simp add: ac_simps)
      also have "\<dots> = (\<Sum>day \<in> rollovers_in h a b. night_weight triple ((day + 3) mod 7))"
        unfolding set by (rule sum_int_interval)
      finally show ?thesis by (simp add: day_of_week_def weigh_nights_sum)
    qed
    then show ?thesis
      using k set by (auto simp: financing_nights_def n weight_of_def split: option.split)
  qed
qed


section \<open>A run\<close>

text \<open>A paper book without costs: a long of 1000 at 1.0800 with its stop at 1.0500 and a trail of 0.0100, closed in two halves at
  1.0900 and 1.1000 on the third bar.\<close>

definition plain_simulator :: simulator where
  "plain_simulator = \<lparr>sm_profile = IDEALISED_RESEARCH, sm_intrabar_policy = STOP_FIRST, sm_calendar = AlwaysOpen,
     sm_reject_on_stale = False, sm_stale_spread_multiple = Fin 2\<rparr>"

definition trailing_policy :: exit_policy where
  "trailing_policy = DEFAULT_EXIT_POLICY\<lparr>ep_trailing := NO_TRAIL\<lparr>tp_kind := FIXED_DISTANCE, tp_value := Fin (1 / 100)\<rparr>,
     ep_cooldown_bars_after_exit := 3\<rparr>"

definition sample_book_env :: book_env where
  "sample_book_env = \<lparr>be_fills = sample_fills, be_sim = plain_simulator, be_fx = (\<lambda>_ _ _. Inr (Fin 1)),
     be_config = \<lparr>bg_account_ccy = ''USD'', bg_max_concurrent = 1, bg_max_per_instrument = 1, bg_charge_financing = False,
       bg_financing_rollover_hour_utc = 21, bg_strategy_id = ''s1'', bg_provenance = PV_PAPER\<rparr>,
     be_policy = trailing_policy, be_blackout = None, be_is_month_end = (\<lambda>_. False), be_latency_bars = 0, be_financing = None,
     be_position_id = (\<lambda>_. ''p'')\<rparr>"

definition sample_order :: pending_entry where
  "sample_order = \<lparr>pn_seq = 1, pn_instrument = eurusd, pn_direction = LONG, pn_size = Fin 1000, pn_stop_price = Fin (105 / 100),
     pn_take_profit_prices = [Fin (109 / 100), Fin (110 / 100)], pn_take_profit_allocations = [Fin (1 / 2), Fin (1 / 2)], pn_strategy_id = ''s1'',
     pn_actionable_index = 0, pn_created_index = 0, pn_ref = Ref_str ''D1''\<rparr>"

definition sample_slice :: "int \<Rightarrow> real \<Rightarrow> real \<Rightarrow> bar_slice" where
  "sample_slice k hi lo = \<lparr>sl_index = k, sl_timestamp = utc (k * HOUR_NS),
     sl_bars = [''EURUSD'' \<mapsto> \<lparr>b_timestamp = utc (k * HOUR_NS), b_open = Fin (108 / 100), b_high = Fin hi, b_low = Fin lo, b_close = Fin (108 / 100)\<rparr>],
     sl_previous_timestamp = None, sl_previous_times = Map.empty, sl_intervals = Map.empty, sl_last_closes = Map.empty,
     sl_carried_bars = Map.empty, sl_series = Map.empty\<rparr>"

definition advanced :: "bar_slice \<Rightarrow> book \<Rightarrow> book" where
  "advanced s b = fst (projr (advance sample_book_env s b))"

definition sample_queued :: book where
  "sample_queued = queue_entry sample_order (next_seq (position_book_new (Fin 10000)))"

definition sample_opened :: book where
  "sample_opened = advanced (sample_slice 0 (1085 / 1000) (1079 / 1000)) sample_queued"

definition sample_trailed :: book where
  "sample_trailed = advanced (sample_slice 1 (1088 / 1000) (1079 / 1000)) sample_opened"

definition sample_closed :: book where
  "sample_closed = advanced (sample_slice 2 (110 / 100) (1079 / 1000)) sample_trailed"

lemma advanced_step: "\<not> isl (advance sample_book_env s b) \<Longrightarrow> book_next sample_book_env b (advanced s b)"
  by (cases "advance sample_book_env s b") (auto simp: advanced_def intro: book_next.step)

text \<open>The three bars evaluated in one go, with what the witnesses need of each book.\<close>

lemma sample_story:
  "case advance sample_book_env (sample_slice 0 (1085 / 1000) (1079 / 1000)) sample_queued of
     Inl _ \<Rightarrow> False
   | Inr (b1, _) \<Rightarrow> (map mp_stop (bk_open b1), map mp_direction (bk_open b1), map mp_instrument (bk_open b1), bk_pending b1)
         = ([Some (Fin (1075 / 1000))], [LONG], [eurusd], [])
       \<and> (case advance sample_book_env (sample_slice 1 (1088 / 1000) (1079 / 1000)) b1 of
             Inl _ \<Rightarrow> False
           | Inr (b2, _) \<Rightarrow> (map mp_stop (bk_open b2), map mp_seq (bk_open b2)) = ([Some (Fin (1078 / 1000))], map mp_seq (bk_open b1))
               \<and> (case advance sample_book_env (sample_slice 2 (110 / 100) (1079 / 1000)) b2 of
                     Inl _ \<Rightarrow> False
                   | Inr (b3, _) \<Rightarrow> (map xl_final (bk_exit_legs b3), bk_balance b3) = ([False, True], Fin 10015)))"
  by code_simp

lemma sample_books:
  "\<not> isl (advance sample_book_env (sample_slice 0 (1085 / 1000) (1079 / 1000)) sample_queued)"
  "\<not> isl (advance sample_book_env (sample_slice 1 (1088 / 1000) (1079 / 1000)) sample_opened)"
  "\<not> isl (advance sample_book_env (sample_slice 2 (110 / 100) (1079 / 1000)) sample_trailed)"
  "map mp_stop (bk_open sample_opened) = [Some (Fin (1075 / 1000))]" "map mp_seq (bk_open sample_trailed) = map mp_seq (bk_open sample_opened)"
  "map mp_direction (bk_open sample_opened) = [LONG]" "map mp_instrument (bk_open sample_opened) = [eurusd]" "bk_pending sample_opened = []"
  "map mp_stop (bk_open sample_trailed) = [Some (Fin (1078 / 1000))]"
  "map xl_final (bk_exit_legs sample_closed) = [False, True]" "bk_balance sample_closed = Fin 10015"
  using sample_story
  by (auto simp: sample_opened_def sample_trailed_def sample_closed_def advanced_def simp del: map_eq_Cons_conv split: sum.splits prod.splits)

lemma sample_run:
  "book_run sample_book_env (position_book_new (Fin 10000)) sample_queued" "book_next sample_book_env sample_queued sample_opened"
  "book_next sample_book_env sample_opened sample_trailed" "book_next sample_book_env sample_trailed sample_closed"
proof -
  show "book_run sample_book_env (position_book_new (Fin 10000)) sample_queued"
    unfolding sample_queued_def by (rule rtranclp.rtrancl_into_rtrancl [OF r_into_rtranclp]) (rule book_next.number, rule book_next.queue)
  show "book_next sample_book_env sample_queued sample_opened"
    unfolding sample_opened_def by (rule advanced_step) (rule sample_books)
  show "book_next sample_book_env sample_opened sample_trailed"
    unfolding sample_trailed_def by (rule advanced_step) (rule sample_books)
  show "book_next sample_book_env sample_trailed sample_closed"
    unfolding sample_closed_def by (rule advanced_step) (rule sample_books)
qed

lemma sample_runs:
  "book_run sample_book_env (position_book_new (Fin 10000)) sample_opened" "book_run sample_book_env sample_opened sample_trailed"
  "book_run sample_book_env (position_book_new (Fin 10000)) sample_closed"
  using sample_run by (auto intro: rtranclp.rtrancl_into_rtrancl)


section \<open>What the book promises\<close>

text \<open>C18: the books add up. After any run the realised profit and the change of the balance are the sum of the net results of the
  closing fills, each net result is the gross result less its spread, commission, slippage and financing, and each ledger row carries
  the sums of the closing fills of its position, in the order in which the positions closed.\<close>

theorem book_ledger_adds_up:
  assumes "book_run E (position_book_new start) b"
  shows "bk_realised b = add_up xl_net_pnl (Fin 0) (bk_exit_legs b) \<and> bk_balance b = add_up xl_net_pnl start (bk_exit_legs b)
    \<and> list_all (\<lambda>l. xl_net_pnl l = xl_gross_pnl l - xl_spread_cost l - xl_commission l - xl_slippage_cost l - xl_financing_cost l) (bk_exit_legs b)
    \<and> map td_totals (bk_trades b) = map (\<lambda>l. leg_totals (legs_of (xl_position_seq l) (bk_exit_legs b))) (filter xl_final (bk_exit_legs b))"
  using book_run_ok [OF assms book_new_ok] by (simp add: book_ok_def ledger_ok_def rows_ok_def)

theorem book_ledger_adds_up_witness:
  "length (bk_exit_legs sample_closed) = 2 \<and> bk_balance sample_closed = Fin 10015
   \<and> bk_balance sample_closed = add_up xl_net_pnl (Fin 10000) (bk_exit_legs sample_closed)
   \<and> map td_totals (bk_trades sample_closed) =
     map (\<lambda>l. leg_totals (legs_of (xl_position_seq l) (bk_exit_legs sample_closed))) (filter xl_final (bk_exit_legs sample_closed))"
proof -
  have "length (bk_exit_legs sample_closed) = 2" "bk_balance sample_closed = Fin 10015"
    using arg_cong [OF sample_books(10), of length] sample_books(11) by simp_all
  then show ?thesis using book_ledger_adds_up [OF sample_runs(3)] by blast
qed



text \<open>C31: the position limits hold in every book a run can reach: no more positions than the configured number at once, and no more
  on one instrument than the number configured for one.\<close>

theorem positions_never_exceed_limits:
  assumes "book_run E (position_book_new start) b"
  shows "int (length (bk_open b)) \<le> max 0 (bg_max_concurrent (be_config E))
    \<and> int (length (filter (\<lambda>op. mp_symbol op = symb) (bk_open b))) \<le> max 0 (bg_max_per_instrument (be_config E))"
proof -
  have "positions_within (be_config E) (bk_open b)"
    using assms by (induction rule: rtranclp_induct) (simp add: positions_within_def position_book_new_def, rule next_within_limits)
  then show ?thesis by (simp add: positions_within_def)
qed

theorem positions_never_exceed_limits_witness:
  "length (bk_open sample_opened) = 1 \<and> int (length (bk_open sample_opened)) \<le> max 0 (bg_max_concurrent (be_config sample_book_env))"
proof -
  have "length (bk_open sample_opened) = 1" using arg_cong [OF sample_books(4), of length] by simp
  then show ?thesis using positions_never_exceed_limits [OF sample_runs(1)] by blast
qed

text \<open>C24: a stop only tightens. Whatever happens to a book between two moments at which a position is open, the position is the same
  deal (instrument, direction, size dealt, entry, targets, initial stop), and its stop is where it was or further in its favour.\<close>

theorem stops_only_tighten:
  assumes "book_run E (position_book_new start) b" and "book_run E b b'"
    and "op \<in> set (bk_open b)" and "op' \<in> set (bk_open b')" and "mp_seq op' = mp_seq op"
  shows "same_deal op op' \<and> no_looser (mp_direction op) (mp_stop op) (mp_stop op')"
  using deal.run_tracks [OF assms(2) book_run_ok [OF assms(1) book_new_ok] assms(3-)] by (simp add: tightened_def)

theorem stops_only_tighten_witness:
  "map mp_stop (bk_open sample_opened) = [Some (Fin (1075 / 1000))] \<and> map mp_stop (bk_open sample_trailed) = [Some (Fin (1078 / 1000))]
   \<and> no_looser LONG (mp_stop (hd (bk_open sample_opened))) (mp_stop (hd (bk_open sample_trailed)))"
proof -
  have m: "map mp_stop (bk_open sample_opened) = [Some (Fin (1075 / 1000))]" "map mp_stop (bk_open sample_trailed) = [Some (Fin (1078 / 1000))]"
    "mp_seq (hd (bk_open sample_trailed)) = mp_seq (hd (bk_open sample_opened))" "mp_direction (hd (bk_open sample_opened)) = LONG"
    using sample_books(4-6,9) by auto
  then have "hd (bk_open sample_opened) \<in> set (bk_open sample_opened)" "hd (bk_open sample_trailed) \<in> set (bk_open sample_trailed)" by auto
  from stops_only_tighten [OF sample_runs(1,2) this m(3)] m show ?thesis by simp
qed

theorem legs_fit_the_position_witness:
  "map tl_size (projr (plan_legs eurusd (Fin 1000) [Fin 1, Fin 2] [Fin (1 / 2), Fin (1 / 2)])) = [Fin 500, Fin 500]
   \<and> (\<exists>zs. map tl_size (projr (plan_legs eurusd (Fin 1000) [Fin 1, Fin 2] [Fin (1 / 2), Fin (1 / 2)])) = map Fin zs \<and> sum_list zs \<le> 1000)"
proof -
  let ?p = "plan_legs eurusd (Fin 1000) [Fin 1, Fin 2] [Fin (1 / 2), Fin (1 / 2)]"
  have p: "?p = Inr (projr ?p)" "map tl_size (projr ?p) = [Fin 500, Fin 500]" by code_simp+
  have "i_size_step eurusd = Fin 1" by (simp add: eurusd_def)
  with legs_fit_the_position [OF p(1) this] p(2) show ?thesis by fastforce
qed

theorem financing_counts_rollovers_witness:
  "financing_nights (utc 0) (utc (7 * DAY_NS)) 21 FX_MAJOR = Inr 7
   \<and> (\<Sum>day \<in> rollovers_in 21 (utc 0) (utc (7 * DAY_NS)). weight_of FX_MAJOR day) = 7"
proof -
  have "financing_nights (utc 0) (utc (7 * DAY_NS)) 21 FX_MAJOR = Inr 7" by code_simp
  then show ?thesis using financing_counts_rollovers [of "utc 0" "utc (7 * DAY_NS)" 21 FX_MAJOR] by simp
qed

end
