(* ===== verification/Book_Restart.thy ===== *)
theory Book_Restart
  imports Book_State Book_Safety
begin

text \<open>
  A book restored from its exported state decides like the one that was never interrupted: two books that differ only in what
  is not carried over go through every operation in step (\<open>alike\<close>).
\<close>

section \<open>Two books that decide alike\<close>

text \<open>Equal but for the closed trades and legs, and for the order of the two dictionaries, which have each key once.\<close>

definition alike :: "book \<Rightarrow> book \<Rightarrow> bool" where
  "alike b c \<longleftrightarrow> bk_balance b = bk_balance c \<and> bk_realised b = bk_realised c \<and> bk_costs b = bk_costs c \<and> bk_seq b = bk_seq c
     \<and> bk_open b = bk_open c \<and> bk_pending b = bk_pending c \<and> bk_pending_closes b = bk_pending_closes c
     \<and> map_of (bk_rejections b) = map_of (bk_rejections c) \<and> map_of (bk_cooldown_until b) = map_of (bk_cooldown_until c)
     \<and> distinct (map fst (bk_rejections b)) \<and> distinct (map fst (bk_rejections c))
     \<and> distinct (map fst (bk_cooldown_until b)) \<and> distinct (map fst (bk_cooldown_until c))"

text \<open>The same error, or results in a relation.\<close>

abbreviation both :: "('a \<Rightarrow> 'b \<Rightarrow> bool) \<Rightarrow> pyexn + 'a \<Rightarrow> pyexn + 'b \<Rightarrow> bool" where
  "both \<equiv> rel_sum (=)"

abbreviation steps_alike :: "book \<times> advance_result \<Rightarrow> book \<times> advance_result \<Rightarrow> bool" where
  "steps_alike \<equiv> rel_prod alike (=)"

lemma both_refl: "(\<And>x. R x x) \<Longrightarrow> both R m m"
  by (cases m) simp_all

lemma both_rbind [intro]:
  assumes "both R m n" and "\<And>x y. R x y \<Longrightarrow> both Q (f x) (g y)"
  shows "both Q (rbind m f) (rbind n g)"
  using assms by (cases m; cases n) auto

lemma both_bind_same:
  assumes "\<And>x. m = Inr x \<Longrightarrow> both Q (f x) (g x)"
  shows "both Q (rbind m f) (rbind m g)"
  using assms by (cases m) auto

lemma alike_bump: "alike b c \<Longrightarrow> alike (bump key b) (bump key c)"
  by (simp add: alike_def bump_def map_of_dict_put distinct_dict_put)

lemma alike_arm_cooldown: "alike b c \<Longrightarrow> alike (arm_cooldown E s symb b) (arm_cooldown E s symb c)"
  by (simp add: alike_def arm_cooldown_def Let_def map_of_dict_put distinct_dict_put)

lemma alike_queue: "alike b c \<Longrightarrow> alike (queue_entry e b) (queue_entry e c)"
  by (simp add: alike_def queue_entry_def)

lemma alike_next_seq: "alike b c \<Longrightarrow> alike (next_seq b) (next_seq c)"
  by (simp add: alike_def next_seq_def)

lemma alike_schedule:
  "alike b c \<Longrightarrow> rel_prod alike (=) (schedule_reversal E instr d index b) (schedule_reversal E instr d index c)"
  by (auto simp: alike_def schedule_reversal_def Let_def split: prod.splits)

lemma alike_realise:
  assumes "steps_alike br cr"
  shows "both (rel_prod (=) steps_alike) (realise E op x t sz final br) (realise E op x t sz final cr)"
proof -
  have "bk_costs (fst br) = bk_costs (fst cr)" "snd br = snd cr" using assms by (auto simp: alike_def rel_prod_sel)
  then show ?thesis
    unfolding realise_def using assms by (auto simp: alike_def rel_prod_sel Let_def intro!: both_bind_same)
qed

lemma alike_record_trade:
  assumes "steps_alike br cr"
  shows "both steps_alike (record_trade E op t reason br) (record_trade E op t reason cr)"
  unfolding record_trade_def using assms by (auto simp: alike_def rel_prod_sel intro!: both_bind_same)

lemma alike_charge_financing:
  assumes "alike b c"
  shows "both alike (charge_financing E s b) (charge_financing E s c)"
proof -
  have "bk_open b = bk_open c" using assms by (simp add: alike_def)
  then show ?thesis
    unfolding charge_financing_def using assms
    by (auto simp: alike_def split: option.splits intro!: both_bind_same)
qed

lemma alike_close_loop:
  "steps_alike br cr \<Longrightarrow> both (rel_prod steps_alike (=)) (close_loop E s cs by_seq br) (close_loop E s cs by_seq cr)"
proof (induction cs arbitrary: by_seq br cr)
  case Nil
  then show ?case by simp
next
  case (Cons c cs)
  have later: "both (rel_prod steps_alike (=)) (rbind (close_loop E s cs by_seq br) (\<lambda>(br', still). Inr (br', c # still)))
      (rbind (close_loop E s cs by_seq cr) (\<lambda>(br', still). Inr (br', c # still)))"
    by (rule both_rbind [OF Cons.IH [OF Cons.prems]]) (auto simp: rel_prod_sel)
  have closing: "both (rel_prod steps_alike (=))
      (rbind m (\<lambda>x. rbind (realise E op x t sz True br) (\<lambda>(op', br1). rbind (record_trade E op' t reason br1) (\<lambda>(b2, r2).
         close_loop E s cs (h op') (b2\<lparr>bk_open := filter P (bk_open b2)\<rparr>, r2)))))
      (rbind m (\<lambda>x. rbind (realise E op x t sz True cr) (\<lambda>(op', br1). rbind (record_trade E op' t reason br1) (\<lambda>(b2, r2).
         close_loop E s cs (h op') (b2\<lparr>bk_open := filter P (bk_open b2)\<rparr>, r2)))))" for m op t sz reason h P
    by (intro both_bind_same both_rbind [OF alike_realise [OF Cons.prems]])
      (auto intro!: both_rbind [OF alike_record_trade] Cons.IH simp: alike_def)
  show ?case
    using later closing Cons.IH [OF Cons.prems] by (simp split: option.splits)
qed

lemma alike_pending_closes:
  assumes "steps_alike br cr"
  shows "both steps_alike (run_pending_closes E s br) (run_pending_closes E s cr)"
proof -
  have eq: "bk_pending_closes (fst br) = bk_pending_closes (fst cr)" "bk_open (fst br) = bk_open (fst cr)"
    using assms by (auto simp: alike_def rel_prod_sel)
  have "both steps_alike (rbind (close_loop E s cs by_seq br) (\<lambda>((b', r'), still). Inr (b'\<lparr>bk_pending_closes := still\<rparr>, r')))
      (rbind (close_loop E s cs by_seq cr) (\<lambda>((b', r'), still). Inr (b'\<lparr>bk_pending_closes := still\<rparr>, r')))" for cs by_seq
    by (rule both_rbind [OF alike_close_loop [OF assms]]) (auto simp: alike_def)
  then show ?thesis using assms by (simp add: run_pending_closes_def eq Let_def)
qed

lemma alike_decide_entry:
  assumes "steps_alike br cr"
  shows "both steps_alike (decide_entry E s bar order br) (decide_entry E s bar order cr)"
proof -
  have refusal: "entry_refusal E s order (fst br) = entry_refusal E s order (fst cr)"
  proof -
    have "map_of (bk_cooldown_until (fst br)) = map_of (bk_cooldown_until (fst cr))" "bk_open (fst br) = bk_open (fst cr)"
      using assms by (auto simp: alike_def rel_prod_sel)
    then show ?thesis unfolding entry_refusal_def by (simp only:)
  qed
  have refuse: "steps_alike (refuse_entry order reason fill br) (refuse_entry order reason fill cr)" for reason fill
    using assms by (simp add: refuse_entry_def rel_prod_sel alike_bump)
  have opened: "both steps_alike (open_entry E s order fill br) (open_entry E s order fill cr)" for fill
    unfolding open_entry_def using assms
    by (intro both_bind_same) (simp add: rel_prod_sel alike_def next_seq_def Let_def)
  show ?thesis
    unfolding decide_entry_def refusal Let_def
    by (intro both_bind_same) (auto split: option.splits simp: refuse opened intro!: both_bind_same)
qed

lemma alike_fill_loop:
  "steps_alike br cr \<Longrightarrow> both (rel_prod steps_alike (=)) (fill_loop E s orders br) (fill_loop E s orders cr)"
proof (induction orders arbitrary: br cr)
  case Nil
  then show ?case by simp
next
  case (Cons order orders)
  have later: "both (rel_prod steps_alike (=)) (rbind (fill_loop E s orders br) (\<lambda>(br', still). Inr (br', order # still)))
      (rbind (fill_loop E s orders cr) (\<lambda>(br', still). Inr (br', order # still)))"
    by (rule both_rbind [OF Cons.IH [OF Cons.prems]]) (auto simp: rel_prod_sel)
  have now: "both (rel_prod steps_alike (=)) (rbind (decide_entry E s bar order br) (fill_loop E s orders))
      (rbind (decide_entry E s bar order cr) (fill_loop E s orders))" for bar
    by (rule both_rbind [OF alike_decide_entry [OF Cons.prems]]) (rule Cons.IH)
  show ?case using later now by (simp split: option.splits)
qed

lemma alike_fill_entries:
  assumes "steps_alike br cr"
  shows "both steps_alike (fill_entries E s br) (fill_entries E s cr)"
proof -
  have eq: "bk_pending (fst br) = bk_pending (fst cr)" using assms by (simp add: alike_def rel_prod_sel)
  show ?thesis
    unfolding fill_entries_def eq by (rule both_rbind [OF alike_fill_loop [OF assms]]) (auto simp: alike_def)
qed

lemma alike_exit_loop:
  "steps_alike br cr \<Longrightarrow> both (rel_prod (=) (rel_prod steps_alike (=))) (exit_loop n E s bar op br) (exit_loop n E s bar op cr)"
proof (induction n arbitrary: op br cr)
  case 0
  then show ?case by simp
next
  case (Suc n)
  show ?case
    using Suc.prems unfolding exit_loop.simps
    by (intro both_bind_same)
      (auto simp: case_prod_beta Let_def intro!: both_bind_same both_rbind [OF alike_realise] Suc.IH)
qed

lemma alike_resolve_one:
  assumes "steps_alike br cr"
  shows "both (rel_prod (=) steps_alike) (resolve_one E s bar op br) (resolve_one E s bar op cr)"
proof -
  let ?R = "rel_prod (=) (rel_prod steps_alike (=))"
  have stop: "both ?R (if reason1 = None \<and> time_stop_hit E op1 then rbind (time_stop E s bar op1 br1) (\<lambda>(op2, br2). Inr (op2, br2, Some TIME_STOP))
        else Inr (op1, br1, reason1))
      (if reason1 = None \<and> time_stop_hit E op1 then rbind (time_stop E s bar op1 cr1) (\<lambda>(op2, br2). Inr (op2, br2, Some TIME_STOP))
        else Inr (op1, cr1, reason1))" if "steps_alike br1 cr1" for op1 br1 cr1 reason1
  proof -
    have "both (rel_prod (=) steps_alike) (time_stop E s bar op1 br1) (time_stop E s bar op1 cr1)"
      unfolding time_stop_def by (intro both_bind_same) (auto intro!: both_rbind [OF alike_realise [OF that]])
    then show ?thesis using that by (auto intro!: both_rbind)
  qed
  have last': "both (rel_prod (=) steps_alike)
      (case reason2 of None \<Rightarrow> rbind m (\<lambda>op3. Inr (Some op3, br2))
        | Some reason \<Rightarrow> rbind (record_trade E op2 t reason br2) (\<lambda>(b3, r3). Inr (None, arm_cooldown E s symb b3, r3)))
      (case reason2 of None \<Rightarrow> rbind m (\<lambda>op3. Inr (Some op3, cr2))
        | Some reason \<Rightarrow> rbind (record_trade E op2 t reason cr2) (\<lambda>(b3, r3). Inr (None, arm_cooldown E s symb b3, r3)))"
    if "steps_alike br2 cr2" for reason2 m op2 br2 cr2 t symb
    using that
    by (auto split: option.splits intro!: both_bind_same both_rbind [OF alike_record_trade [OF that]] alike_arm_cooldown)
  show ?thesis
    unfolding resolve_one_def Let_def
  proof (rule both_rbind [OF alike_exit_loop [OF assms]], goal_cases)
    case (1 x y)
    then show ?case
      by (cases x; cases y) (auto simp only: rel_prod_inject prod.case intro!: both_rbind [OF stop] last' elim!: rel_prod.cases)
  qed
qed

lemma alike_exits_loop:
  "steps_alike br cr \<Longrightarrow> both (rel_prod (=) steps_alike) (exits_loop E s ops br) (exits_loop E s ops cr)"
proof (induction ops arbitrary: br cr)
  case Nil
  then show ?case by simp
next
  case (Cons op ops)
  have one: "both (rel_prod (=) steps_alike) (case sl_bars s (mp_symbol op) of None \<Rightarrow> Inr (Some op, br) | Some bar \<Rightarrow> resolve_one E s bar op br)
      (case sl_bars s (mp_symbol op) of None \<Rightarrow> Inr (Some op, cr) | Some bar \<Rightarrow> resolve_one E s bar op cr)"
    using Cons.prems alike_resolve_one [OF Cons.prems] by (simp split: option.splits)
  show ?case
    unfolding exits_loop.simps
    by (rule both_rbind [OF one]) (auto intro!: both_rbind [OF Cons.IH])
qed

lemma alike_advance:
  assumes "alike b c"
  shows "both steps_alike (advance E s b) (advance E s c)"
proof -
  have eq: "bk_realised b = bk_realised c" using assms by (simp add: alike_def)
  have exits: "both steps_alike (resolve_exits E s br) (resolve_exits E s cr)" if "steps_alike br cr" for br cr
  proof -
    have "bk_open (fst br) = bk_open (fst cr)" using that by (simp add: alike_def rel_prod_sel)
    then show ?thesis
      unfolding resolve_exits_def by (auto intro!: both_rbind [OF alike_exits_loop [OF that]] simp: alike_def)
  qed
  have start: "steps_alike (b1, no_result) (c1, no_result)" if "alike b1 c1" for b1 c1 using that by simp
  show ?thesis
    unfolding advance_def eq
    by (rule both_rbind [OF alike_charge_financing [OF assms]], drule start, rule both_rbind [OF alike_pending_closes], assumption,
        rule both_rbind [OF alike_fill_entries], assumption, rule both_rbind [OF exits], assumption) (auto simp: alike_def)
qed

lemma alike_flatten_loop:
  "steps_alike br cr \<Longrightarrow> both steps_alike (flatten_loop E s reason ops br) (flatten_loop E s reason ops cr)"
proof (induction ops arbitrary: br cr)
  case Nil
  then show ?case by simp
next
  case (Cons op ops)
  have closing: "both steps_alike
      (rbind m (\<lambda>x. rbind (realise E op x t sz True br) (\<lambda>(op', br1). rbind (record_trade E op' t reason br1) (\<lambda>(b2, r2).
         flatten_loop E s reason ops (b2\<lparr>bk_open := remove_seq q (bk_open b2)\<rparr>, r2)))))
      (rbind m (\<lambda>x. rbind (realise E op x t sz True cr) (\<lambda>(op', br1). rbind (record_trade E op' t reason br1) (\<lambda>(b2, r2).
         flatten_loop E s reason ops (b2\<lparr>bk_open := remove_seq q (bk_open b2)\<rparr>, r2)))))" for m t sz q
    by (intro both_bind_same both_rbind [OF alike_realise [OF Cons.prems]])
      (auto intro!: both_rbind [OF alike_record_trade] Cons.IH simp: alike_def)
  show ?case using closing Cons.IH [OF Cons.prems] by (simp split: option.splits)
qed

lemma alike_flatten:
  assumes "alike b c"
  shows "both steps_alike (book_flatten E s reason positions b) (book_flatten E s reason positions c)"
proof -
  have eq: "bk_realised b = bk_realised c" "bk_open b = bk_open c" using assms by (simp_all add: alike_def)
  show ?thesis
    unfolding book_flatten_def eq by (rule both_rbind [OF alike_flatten_loop]) (use assms in \<open>auto simp: alike_def\<close>)
qed

lemma alike_mark: "alike b c \<Longrightarrow> mark_to_market E s b = mark_to_market E s c"
  by (simp add: mark_to_market_def alike_def)

lemma alike_carried_over:
  assumes "alike b b"
  shows "alike b (carried_over b)"
proof -
  have "map_of (sort_key fst kvs) = map_of kvs" if "distinct (map fst kvs)" for kvs :: "(string \<times> int) list"
    by (subst map_of_inject_set) (use that in \<open>simp_all add: distinct_map\<close>)
  then show ?thesis using assms by (simp add: alike_def carried_over_def distinct_map)
qed

lemma alike_new: "alike (position_book_new x) (position_book_new x)"
  by (simp add: alike_def position_book_new_def)

lemma alike_next: "book_next E b b' \<Longrightarrow> alike b b \<Longrightarrow> alike b' b'"
proof (induction rule: book_next.induct)
  case (reverse instr d index b b' cs)
  then show ?case using alike_schedule [OF reverse.prems, of E instr d index] by simp
next
  case (step s b b' r)
  then show ?case using alike_advance [OF step.prems, of E s] by simp
next
  case (close_out positions b s reason b' r)
  then show ?case using alike_flatten [OF close_out.prems, of E s reason positions] by simp
qed (auto intro: alike_next_seq alike_queue alike_bump)

lemma alike_run: "book_run E b b' \<Longrightarrow> alike b b \<Longrightarrow> alike b' b'"
  by (induction rule: rtranclp_induct) (auto intro: alike_next)


section \<open>The calls of a caller\<close>

datatype book_call = Next_seq | Queue pending_entry | Count string | Reverse string direction int | Advance bar_slice
  | Flatten bar_slice exit_reason | Mark bar_slice

datatype book_answer = Nothing | Number int | Closes "pending_close list" | Result advance_result | Marked "flt \<times> flt"

fun call :: "book_env \<Rightarrow> book_call \<Rightarrow> book \<Rightarrow> pyexn + book \<times> book_answer" where
  "call E Next_seq b = Inr (next_seq b, Number (bk_seq (next_seq b)))"
| "call E (Queue e) b = Inr (queue_entry e b, Nothing)"
| "call E (Count key) b = Inr (bump key b, Nothing)"
| "call E (Reverse instr d index) b = (case schedule_reversal E instr d index b of (b', cs) \<Rightarrow> Inr (b', Closes cs))"
| "call E (Advance s) b = rbind (advance E s b) (\<lambda>(b', r). Inr (b', Result r))"
| "call E (Flatten s reason) b = rbind (book_flatten E s reason None b) (\<lambda>(b', r). Inr (b', Result r))"
| "call E (Mark s) b = rbind (mark_to_market E s b) (\<lambda>m. Inr (b, Marked m))"

fun calls :: "book_env \<Rightarrow> book_call list \<Rightarrow> book \<Rightarrow> pyexn + book \<times> book_answer list" where
  "calls E [] b = Inr (b, [])"
| "calls E (c # cs) b = rbind (call E c b) (\<lambda>(b1, a). rbind (calls E cs b1) (\<lambda>(b2, as). Inr (b2, a # as)))"

lemma alike_call:
  assumes "alike b c"
  shows "both (rel_prod alike (=)) (call E k b) (call E k c)"
proof (cases k)
  case Next_seq
  then show ?thesis using alike_next_seq [OF assms] by (simp add: alike_def)
next
  case (Reverse instr d index)
  then show ?thesis using alike_schedule [OF assms, of E instr d index] by (auto simp: rel_prod_sel split: prod.splits)
next
  case (Advance s)
  then show ?thesis by (auto intro!: both_rbind [OF alike_advance [OF assms]])
next
  case (Flatten s reason)
  then show ?thesis by (auto intro!: both_rbind [OF alike_flatten [OF assms]])
next
  case (Mark s)
  then show ?thesis using alike_mark [OF assms] assms by (auto intro!: both_bind_same)
qed (use assms in \<open>simp_all add: alike_queue alike_bump\<close>)

lemma alike_calls: "alike b c \<Longrightarrow> both (rel_prod alike (=)) (calls E cs b) (calls E cs c)"
proof (induction cs arbitrary: b c)
  case (Cons k cs)
  show ?case
    unfolding calls.simps by (rule both_rbind [OF alike_call [OF Cons.prems]]) (auto intro!: both_rbind [OF Cons.IH])
qed simp

text \<open>C20: a restart changes no decision. The state a book exports after any run loads into a fresh book, and from there on every
  sequence of calls gives the same answers and the same errors as on the book that was never interrupted, and ends in a book with the
  same money, costs, counter, positions, orders and cooldowns.\<close>

theorem restart_changes_no_decision:
  assumes "clock_reads_back S" and "book_run E (position_book_new start) b" and "\<forall>op\<in>set (bk_open b). registered S (mp_instrument op)"
    and "\<forall>e\<in>set (bk_pending b). registered S (pn_instrument e)" and "export_state S b = Inr d"
  shows "\<exists>b'. restore_state S d (position_book_new fresh) = Inr b' \<and> rel_sum (=) (rel_prod alike (=)) (calls E cs b) (calls E cs b')"
proof (intro exI conjI)
  show "restore_state S d (position_book_new fresh) = Inr (carried_over b)"
    using restore_inverts_export assms by blast
  have "alike b (carried_over b)" by (rule alike_carried_over [OF alike_run [OF assms(2) alike_new]])
  then show "rel_sum (=) (rel_prod alike (=)) (calls E cs b) (calls E cs (carried_over b))" by (rule alike_calls)
qed


text \<open>A clock that writes an instant in unary, and the position of the sample run carried over.\<close>

definition sample_state_env :: state_env where
  "sample_state_env = \<lparr>se_iso = (\<lambda>t. (if tz_aware t then CHR ''U'' else CHR ''N'') # (if ns t < 0 then CHR ''-'' else CHR ''+'') # replicate (nat \<bar>ns t\<bar>) (CHR ''I'')),
     se_timestamp = (\<lambda>s. case s of z # sg # is \<Rightarrow> Inr \<lparr>tz_aware = (z = CHR ''U''), ns = (if sg = CHR ''-'' then - int (length is) else int (length is))\<rparr>
        | _ \<Rightarrow> Inl (ValueError [])),
     se_registry = [''EURUSD'' \<mapsto> eurusd], se_fresh_id = ''p''\<rparr>"

lemma unary_clock_reads_back: "clock_reads_back sample_state_env"
  by (simp add: clock_reads_back_def sample_state_env_def)

theorem restart_changes_no_decision_witness:
  "\<exists>d b'. export_state sample_state_env sample_opened = Inr d \<and> restore_state sample_state_env d (position_book_new (Fin 0)) = Inr b'
    \<and> rel_sum (=) (rel_prod alike (=)) (calls sample_book_env [Advance (sample_slice 1 (110 / 100) (1079 / 1000))] sample_opened)
      (calls sample_book_env [Advance (sample_slice 1 (110 / 100) (1079 / 1000))] b')"
proof -
  have "\<not> isl (export_state sample_state_env sample_opened)" by code_simp
  then obtain d where d: "export_state sample_state_env sample_opened = Inr d" by (cases "export_state sample_state_env sample_opened") auto
  have r: "map mp_instrument (bk_open sample_opened) = [eurusd]" "bk_pending sample_opened = []" by (rule sample_books)+
  have "registered sample_state_env eurusd" by code_simp
  then have "\<forall>op\<in>set (bk_open sample_opened). registered sample_state_env (mp_instrument op)"
    "\<forall>e\<in>set (bk_pending sample_opened). registered sample_state_env (pn_instrument e)" using r by auto
  from restart_changes_no_decision [OF unary_clock_reads_back sample_runs(1) this d] d show ?thesis by blast
qed

end
