(* ===== verification/Manager_Invariant.thy ===== *)
theory Manager_Invariant
  imports Position_Manager Execution_Safety Book_Restart
begin

text \<open>
  What every instruction of the position manager keeps, and what a bar keeps because its instructions do.

  A property that each instruction keeps (the locale \<open>manager_invariant\<close>) holds after \<open>on_bar\<close> and \<open>flatten\<close>. It is interpreted three
  times: the divergences of a cycle only grow, every broker reference stays on record until its close is applied, and the book is
  the one its own step decided.
\<close>

lemmas py_result = rbind_eq_Inr Let_def case_prod_beta

lemma map_of_dict_pop: "map_of (dict_pop k d) = (map_of d)(k := None)"
  by (induction d) (auto simp: dict_pop_def)

section \<open>One instruction\<close>

lemma raise_unrealised_simps [simp]:
  "vm_book (fst (raise_unrealised v t mc)) = vm_book (fst mc)"
  "vm_driver (fst (raise_unrealised v t mc)) = vm_driver (fst mc)"
  "vm_venue_state (fst (raise_unrealised v t mc)) = vm_venue_state (fst mc)"
  "vm_venue_positions (fst (raise_unrealised v t mc)) = vm_venue_positions (fst mc)"
  "vm_pending_closes (fst (raise_unrealised v t mc)) = vm_pending_closes (fst mc)"
  "vm_pending_orders (fst (raise_unrealised v t mc)) = vm_pending_orders (fst mc)"
  "vm_ref_by_seq (fst (raise_unrealised v t mc)) = vm_ref_by_seq (fst mc)"
  "mc_advance (snd (raise_unrealised v t mc)) = mc_advance (snd mc)"
  "mc_telemetry (snd (raise_unrealised v t mc)) = mc_telemetry (snd mc)"
  "mc_divergences (snd (raise_unrealised v t mc)) = mc_divergences (snd mc) @ [v]"
  by (simp_all add: raise_unrealised_def send_alert_def Let_def)

lemma emit_simps [simp]:
  "mc_advance (emit t c) = mc_advance c" "mc_telemetry (emit t c) = mc_telemetry c @ [t]" "mc_divergences (emit t c) = mc_divergences c"
  by (simp_all add: emit_def)

lemma instruct_close_spec:
  assumes "instruct_close M pos sz final kind reason mc = Inr (mc', applied)"
  obtains t where "mc_telemetry (snd mc') = mc_telemetry (snd mc) @ [t]" "tm_applied t = applied" "tm_broker_ref t = ps_venue_ref pos"
    "tm_kind t = kind" "mc_divergences (snd mc') = mc_divergences (snd mc) \<longleftrightarrow> applied" "mc_advance (snd mc') = mc_advance (snd mc)"
    "\<exists>vs. mc_divergences (snd mc') = mc_divergences (snd mc) @ vs"
    "vm_book (fst mc') = vm_book (fst mc)" "vm_driver (fst mc') = vm_driver (fst mc)" "vm_venue_state (fst mc') = vm_venue_state (fst mc)"
    "vm_venue_positions (fst mc') = vm_venue_positions (fst mc)" "vm_pending_closes (fst mc') = vm_pending_closes (fst mc)"
    "vm_pending_orders (fst mc') = vm_pending_orders (fst mc)" "vm_ref_by_seq (fst mc') = vm_ref_by_seq (fst mc)"
proof -
  obtain xc where xc: "me_context M pos (if final then ''close'' else ''reduce'') = Inr xc"
    using assms by (auto simp: instruct_close_def py_result)
  let ?s = "send_close M pos sz final xc reason (vm_service (fst mc))"
  let ?m = "(fst mc)\<lparr>vm_service := fst ?s\<rparr>"
  let ?t = "close_record M ?m pos sz kind (snd ?s)"
  have mc': "mc' = (if tm_applied ?t then (?m, emit ?t (snd mc))
      else raise_unrealised
        \<lparr>dv_kind = ''close_not_realised'', dv_position_id = ps_position_id pos, dv_broker_ref = ps_venue_ref pos,
         dv_instrument = ps_instrument pos, dv_intended_stop = None, dv_venue_stop = None, dv_intended_take_profit = None,
         dv_venue_take_profit = None, dv_detail = tm_error ?t\<rparr>
        [Lit (ps_instrument pos), Lit '': the book closed '', Repr sz, Lit '' but the venue did not''] (?m, emit ?t (snd mc)))"
    and applied: "applied = tm_applied ?t"
    using assms [symmetric] by (simp_all add: instruct_close_def xc Let_def case_prod_beta)
  have "tm_broker_ref ?t = ps_venue_ref pos" "tm_kind ?t = kind" by (simp_all add: close_record_def Let_def)
  then show ?thesis using that [of ?t] unfolding mc' applied by (cases "tm_applied ?t") simp_all
qed

lemma instruct_amend_spec:
  assumes "instruct_amend M op desired kind mc = Inr mc'"
  obtains (applied) t where "map_of (vm_venue_state (fst mc')) = (map_of (vm_venue_state (fst mc)))(ref_or_empty (ps_venue_ref (mp_position op)) \<mapsto> desired)"
    "mc_telemetry (snd mc') = mc_telemetry (snd mc) @ [t]" "mc_divergences (snd mc') = mc_divergences (snd mc)"
    "case map_of (vm_venue_positions (fst mc)) (ref_or_empty (ps_venue_ref (mp_position op))) of
       Some p \<Rightarrow> vm_book (fst mc') = vm_book (fst mc)
         \<and> vm_venue_positions (fst mc') = dict_put (ref_or_empty (ps_venue_ref (mp_position op))) (apply_levels desired p) (vm_venue_positions (fst mc))
     | None \<Rightarrow> vm_book (fst mc') = set_position (mp_seq op) (apply_levels desired) (vm_book (fst mc))
         \<and> vm_venue_positions (fst mc') = vm_venue_positions (fst mc)"
    "mc_advance (snd mc') = mc_advance (snd mc)" "vm_driver (fst mc') = vm_driver (fst mc)" "vm_pending_closes (fst mc') = vm_pending_closes (fst mc)"
    "vm_pending_orders (fst mc') = vm_pending_orders (fst mc)" "vm_ref_by_seq (fst mc') = vm_ref_by_seq (fst mc)"
  | (failed) t v where "vm_venue_state (fst mc') = vm_venue_state (fst mc)" "mc_telemetry (snd mc') = mc_telemetry (snd mc) @ [t]"
    "mc_divergences (snd mc') = mc_divergences (snd mc) @ [v]" "vm_book (fst mc') = vm_book (fst mc)"
    "vm_venue_positions (fst mc') = vm_venue_positions (fst mc)" "mc_advance (snd mc') = mc_advance (snd mc)" "vm_driver (fst mc') = vm_driver (fst mc)"
    "vm_pending_closes (fst mc') = vm_pending_closes (fst mc)" "vm_pending_orders (fst mc') = vm_pending_orders (fst mc)"
    "vm_ref_by_seq (fst mc') = vm_ref_by_seq (fst mc)"
proof -
  define m where "m = fst mc"
  define ref where "ref = ref_or_empty (ps_venue_ref (mp_position op))"
  define pos where "pos = (case map_of (vm_venue_positions m) ref of Some p \<Rightarrow> p | None \<Rightarrow> mp_position op)"
  obtain xc where xc: "me_context M pos ''amend'' = Inr xc"
    using assms by (auto simp: instruct_amend_def py_result m_def ref_def pos_def)
  define ans where "ans = amend (me_exec M) (me_adapter M) pos (vi_stop_loss desired) (vi_take_profit desired) xc (Some (rt_attempts (me_retry M)))
      (amend_kind_value kind) (vm_service m)"
  note unfolded = assms [unfolded instruct_amend_def Let_def, folded m_def, folded ref_def, folded pos_def, unfolded xc rbind_simps, folded ans_def]
  show ?thesis
  proof (cases "hd_accepted (hear_amend (snd ans))")
    case True
    then show ?thesis
      using unfolded applied [folded m_def ref_def]
      by (auto simp: case_prod_beta amend_record_def Let_def map_of_dict_put m_def split: option.splits)
  next
    case False
    then show ?thesis
      using unfolded failed [folded m_def ref_def] by (auto simp: case_prod_beta amend_record_def Let_def m_def)
  qed
qed


section \<open>What a cycle keeps\<close>

lemma on_bar_phases:
  assumes "on_bar M bars k t series m = Inr mc'"
    and "driver_advance (me_book M) bars k t series (vm_driver m) (vm_book m) = Inr (d, b, r, view)"
  obtains mc1 mc2 mc3 mc4 where
    "link_entries M (ar_entries r) (m\<lparr>vm_driver := d, vm_book := b\<rparr>, new_cycle (sl_timestamp view) r) = Inr mc1"
    "retry_pending_closes M mc1 = Inr mc2" "push_legs M r mc2 = Inr mc3" "push_levels M (bk_open (vm_book (fst mc3))) mc3 = Inr mc4"
    "finish_cycle M view mc4 = Inr mc'"
  using assms(1) unfolding on_bar_def assms(2) by (auto simp: rbind_eq_Inr)

text \<open>A property of the manager and its cycle that every instruction of the manager keeps. \<open>Q\<close> says what it knows of the closes still to
  be sent.\<close>

locale manager_invariant =
  fixes M :: "'v manager_env" and P :: "'v manager \<times> manager_cycle \<Rightarrow> bool" and Q :: "string \<Rightarrow> position \<Rightarrow> bool"
  assumes linked: "P (m, c) \<Longrightarrow>
      P (m\<lparr>vm_pending_orders := po, vm_book := set_position sq (\<lambda>p. p\<lparr>ps_venue_ref := Some ref\<rparr>) (vm_book m), vm_ref_by_seq := rs\<rparr>, c)"
    and unqueued: "P (m, c) \<Longrightarrow> P (m\<lparr>vm_pending_orders := po\<rparr>, c)"
    and stray: "P mc \<Longrightarrow> stray_entry M ref ev mc = Inr mc' \<Longrightarrow> P mc'"
    and queued: "P (m, c) \<Longrightarrow> (ref, pos, why) \<in> set (vm_pending_closes m) \<Longrightarrow> Q ref pos"
    and retried: "P mc \<Longrightarrow> Q ref pos \<Longrightarrow> instruct_close M pos (ps_size pos) True AK_CLOSE why mc = Inr ((m, c), applied) \<Longrightarrow>
      P (if applied then m\<lparr>vm_pending_closes := dict_pop ref (vm_pending_closes m)\<rparr> else m, c)"
    and closed: "P mc \<Longrightarrow> map_of (vm_venue_positions (fst mc)) ref = Some pos \<Longrightarrow> push_final M ref pos leg mc = Inr mc' \<Longrightarrow> P mc'"
    and scaled_out: "P mc \<Longrightarrow> map_of (vm_venue_positions (fst mc)) ref = Some pos \<Longrightarrow> push_scale_out M ref pos leg mc = Inr mc' \<Longrightarrow> P mc'"
    and amended: "P mc \<Longrightarrow> map_of (vm_venue_positions (fst mc)) (ref_or_empty (ps_venue_ref (mp_position op))) \<noteq> None \<Longrightarrow>
      instruct_amend M op desired kind mc = Inr mc' \<Longrightarrow> P mc'"
    and measured: "P (m, c) \<Longrightarrow> P (m\<lparr>vm_last_exposure := x, vm_cycles := cs\<rparr>, c\<lparr>mc_exposure := y\<rparr>)"
begin

lemma link_entries_keep: "link_entries M evs mc = Inr mc' \<Longrightarrow> P mc \<Longrightarrow> P mc'"
proof (induction evs arbitrary: mc)
  case (Cons ev evs)
  show ?case
  proof (cases "map_of (vm_pending_orders (fst mc)) (pn_seq (ee_pending ev))")
    case None
    then show ?thesis using Cons by (simp add: Let_def)
  next
    case (Some rs)
    obtain ref symb where rs: "rs = (ref, symb)" by (cases rs)
    define m1 where "m1 = (fst mc)\<lparr>vm_pending_orders := dict_pop (pn_seq (ee_pending ev)) (vm_pending_orders (fst mc))\<rparr>"
    have P1: "P (m1, snd mc)" using unqueued [of "fst mc" "snd mc"] Cons.prems(2) by (simp add: m1_def)
    obtain mc1 where step: "(case ee_managed ev of
          Some op \<Rightarrow> if ee_filled ev
            then Inr (m1\<lparr>vm_book := set_position (mp_seq op) (\<lambda>p. p\<lparr>ps_venue_ref := Some ref\<rparr>) (vm_book m1),
                         vm_ref_by_seq := dict_put (mp_seq op) ref (vm_ref_by_seq m1)\<rparr>, snd mc)
            else stray_entry M ref ev (m1, snd mc)
        | None \<Rightarrow> stray_entry M ref ev (m1, snd mc)) = Inr mc1" and rest: "link_entries M evs mc1 = Inr mc'"
      using Cons.prems(1) by (simp only: link_entries.simps Let_def Some rs option.case prod.case m1_def [symmetric] rbind_eq_Inr) blast
    have "P mc1"
      using step P1 linked [OF P1, where po = "vm_pending_orders m1"] stray [OF P1] by (auto split: option.splits if_splits)
    then show ?thesis using Cons.IH rest by blast
  qed
qed simp

lemma retry_loop_keep:
  "retry_loop M items mc = Inr mc' \<Longrightarrow> P mc \<Longrightarrow> list_all (\<lambda>it. Q (fst it) (fst (snd it))) items \<Longrightarrow> P mc'"
proof (induction items arbitrary: mc)
  case (Cons it items)
  obtain ref pos why where it: "it = (ref, pos, why)" by (cases it)
  obtain m c applied where "instruct_close M pos (ps_size pos) True AK_CLOSE (''retry:'' @ why) mc = Inr ((m, c), applied)"
    "retry_loop M items (if applied then m\<lparr>vm_pending_closes := dict_pop ref (vm_pending_closes m)\<rparr> else m, c) = Inr mc'"
    using Cons.prems(1) it by (auto simp: rbind_eq_Inr)
  moreover have "Q ref pos" "list_all (\<lambda>it. Q (fst it) (fst (snd it))) items" using Cons.prems(3) it by simp_all
  ultimately show ?case using retried [OF Cons.prems(2)] Cons.IH by blast
qed simp

lemma retry_keep: "retry_pending_closes M mc = Inr mc' \<Longrightarrow> P mc \<Longrightarrow> P mc'"
proof -
  assume a: "retry_pending_closes M mc = Inr mc'" "P mc"
  have "list_all (\<lambda>it. Q (fst it) (fst (snd it))) (vm_pending_closes (fst mc))"
    using queued [of "fst mc" "snd mc"] a(2) by (auto simp: list_all_iff)
  then show "P mc'" using retry_loop_keep a by (simp add: retry_pending_closes_def list_all_iff)
qed

lemma push_closes_keep: "push_closes M qs legs mc = Inr mc' \<Longrightarrow> P mc \<Longrightarrow> P mc'"
proof (induction legs arbitrary: mc)
  case (Cons leg legs)
  obtain mc1 where "(case map_of (vm_ref_by_seq (fst mc)) (xl_position_seq leg) of None \<Rightarrow> Inr mc
      | Some ref \<Rightarrow> if ref = [] then Inr mc
          else (case map_of (vm_venue_positions (fst mc)) ref of None \<Rightarrow> Inr mc
                | Some pos \<Rightarrow> if xl_final leg \<or> xl_position_seq leg \<notin> set qs then push_final M ref pos leg mc
                              else push_scale_out M ref pos leg mc)) = Inr mc1" "push_closes M qs legs mc1 = Inr mc'"
    using Cons.prems(1) by (auto simp: rbind_eq_Inr)
  moreover from this(1) have "P mc1"
    by (simp split: option.splits if_splits) (use Cons.prems(2) closed scaled_out in blast)+
  ultimately show ?case using Cons.IH by blast
qed simp

lemma push_levels_keep: "push_levels M ops mc = Inr mc' \<Longrightarrow> P mc \<Longrightarrow> P mc'"
proof (induction ops arbitrary: mc)
  case (Cons op ops)
  let ?ref = "ref_or_empty (ps_venue_ref (mp_position op))"
  obtain mc1 where "(if ?ref = [] \<or> map_of (vm_venue_positions (fst mc)) ?ref = None
        \<or> intent_matches (desired_levels op) (map_of (vm_venue_state (fst mc)) ?ref) (me_price_tolerance M)
      then Inr mc else instruct_amend M op (desired_levels op) (level_kind op) mc) = Inr mc1" "push_levels M ops mc1 = Inr mc'"
    using Cons.prems(1) by (auto simp: rbind_eq_Inr Let_def)
  moreover from this(1) have "P mc1" using Cons.prems(2) amended [OF Cons.prems(2), of op] by (metis Inr_inject)
  ultimately show ?case using Cons.IH by blast
qed simp

lemma finish_keep: "finish_cycle M view mc = Inr mc' \<Longrightarrow> P mc \<Longrightarrow> P mc'"
  using measured [of "fst mc" "snd mc"] by (auto simp: finish_cycle_def rbind_eq_Inr Let_def)

lemma on_bar_keep:
  assumes "on_bar M bars k t series m = Inr mc'"
    and "driver_advance (me_book M) bars k t series (vm_driver m) (vm_book m) = Inr (d, b, r, view)"
    and "P (m\<lparr>vm_driver := d, vm_book := b\<rparr>, new_cycle (sl_timestamp view) r)"
  shows "P mc'"
proof -
  obtain mc1 mc2 mc3 mc4 where
    s: "link_entries M (ar_entries r) (m\<lparr>vm_driver := d, vm_book := b\<rparr>, new_cycle (sl_timestamp view) r) = Inr mc1"
    "retry_pending_closes M mc1 = Inr mc2" "push_legs M r mc2 = Inr mc3" "push_levels M (bk_open (vm_book (fst mc3))) mc3 = Inr mc4"
    "finish_cycle M view mc4 = Inr mc'"
    using on_bar_phases [OF assms(1,2)] .
  have "P mc2" using retry_keep [OF s(2) link_entries_keep [OF s(1) assms(3)]] .
  then have "P mc3" using push_closes_keep s(3) by (simp add: push_legs_def)
  then show ?thesis using finish_keep [OF s(5) push_levels_keep [OF s(4)]] by blast
qed

lemma flatten_keep:
  assumes "manager_flatten M bars reason positions m = Inr mc'"
    and "slice_for bars None None None Map.empty (vm_driver m) = Inr view"
    and "book_flatten (me_book M) view reason positions (vm_book m) = Inr (b, r)"
    and "P (m\<lparr>vm_book := b\<rparr>, new_cycle (sl_timestamp view) r)"
  shows "P mc'"
proof -
  obtain mc2 mc3 where s: "retry_pending_closes M (m\<lparr>vm_book := b\<rparr>, new_cycle (sl_timestamp view) r) = Inr mc2" "push_legs M r mc2 = Inr mc3"
    "finish_cycle M view mc3 = Inr mc'"
    using assms(1) by (auto simp: manager_flatten_def assms(2,3) rbind_eq_Inr)
  then show ?thesis using finish_keep [OF s(3)] push_closes_keep [OF s(2) [unfolded push_legs_def]] retry_keep [OF s(1) assms(4)] by blast
qed

end


text \<open>The composite instructions, each as one closing instruction and what follows it.\<close>

lemma push_final_spec:
  assumes "push_final M ref pos leg mc = Inr mc'"
  obtains m c applied where "instruct_close M pos (ps_size pos) True AK_CLOSE (xl_exit_reason leg) mc = Inr ((m, c), applied)"
    "mc' = (m\<lparr>vm_venue_state := dict_pop ref (vm_venue_state m), vm_venue_positions := dict_pop ref (vm_venue_positions m),
              vm_ref_by_seq := dict_pop (xl_position_seq leg) (vm_ref_by_seq m),
              vm_pending_closes := (if applied then vm_pending_closes m else dict_put ref (pos, xl_exit_reason leg) (vm_pending_closes m))\<rparr>, c)"
  using assms by (auto simp: push_final_def rbind_eq_Inr)

lemma push_scale_out_spec:
  assumes "push_scale_out M ref pos leg mc = Inr mc'"
  obtains m c applied m1 where
    "instruct_close M pos (py_min (xl_size leg) (ps_size pos)) False AK_SCALE_OUT (xl_exit_reason leg) mc = Inr ((m, c), applied)"
    "m1 = m\<lparr>vm_venue_positions := dict_put ref (pos\<lparr>ps_size := py_max (Fin 0) (ps_size pos - xl_size leg)\<rparr>) (vm_venue_positions m)\<rparr>"
    "mc' = (m1, c) \<or> (\<exists>op. find (\<lambda>op. mp_seq op = xl_position_seq leg) (bk_open (vm_book m1)) = Some op
       \<and> instruct_amend M op (desired_levels op) AK_NEXT_LEG (m1, c) = Inr mc')"
  using assms by (auto simp: push_scale_out_def rbind_eq_Inr Let_def split: option.splits)

lemma stray_entry_spec:
  assumes "stray_entry M ref ev mc = Inr mc'"
  obtains m1 mc2 v msg where
    "m1 = (fst mc)\<lparr>vm_venue_positions := dict_pop ref (vm_venue_positions (fst mc)), vm_venue_state := dict_pop ref (vm_venue_state (fst mc))\<rparr>"
    "map_of (vm_venue_positions (fst mc)) ref = None \<and> mc2 = (m1, snd mc) \<or>
     (\<exists>pos m2 c2 applied why. map_of (vm_venue_positions (fst mc)) ref = Some pos
        \<and> instruct_close M pos (ps_size pos) True AK_CORRECTION why (m1, snd mc) = Inr ((m2, c2), applied)
        \<and> mc2 = (if applied then m2 else m2\<lparr>vm_pending_closes := dict_put ref (pos, why) (vm_pending_closes m2)\<rparr>, c2))"
    "mc' = raise_unrealised v msg mc2"
proof -
  define m1 where "m1 = (fst mc)\<lparr>vm_venue_positions := dict_pop ref (vm_venue_positions (fst mc)), vm_venue_state := dict_pop ref (vm_venue_state (fst mc))\<rparr>"
  define why where "why = ''entry_not_modelled:'' @ ee_reason ev"
  note found = assms [unfolded stray_entry_def Let_def, folded m1_def why_def]
  show ?thesis
  proof (cases "map_of (vm_venue_positions (fst mc)) ref")
    case None
    with found show ?thesis by (auto intro: that [OF m1_def])
  next
    case (Some pos)
    with found obtain m2 c2 applied where
      c: "instruct_close M pos (ps_size pos) True AK_CORRECTION why (m1, snd mc) = Inr ((m2, c2), applied)"
      by (auto simp: rbind_eq_Inr)
    then have "\<exists>v msg. mc' = raise_unrealised v msg (if applied then m2 else m2\<lparr>vm_pending_closes := dict_put ref (pos, why) (vm_pending_closes m2)\<rparr>, c2)"
      using found by (simp only: Some option.case c rbind_simps prod.case sum.inject) blast
    then obtain v msg where "mc' = raise_unrealised v msg (if applied then m2 else m2\<lparr>vm_pending_closes := dict_put ref (pos, why) (vm_pending_closes m2)\<rparr>, c2)"
      by blast
    then show ?thesis by (intro that [OF m1_def] disjI2 exI conjI) (rule Some, rule c, rule refl)
  qed
qed

text \<open>A cycle only adds to its divergences.\<close>

definition diverged_from :: "intent_divergence list \<Rightarrow> 'v manager \<times> manager_cycle \<Rightarrow> bool" where
  "diverged_from vs mc \<longleftrightarrow> prefix vs (mc_divergences (snd mc))"

lemma close_diverges:
  "instruct_close M pos sz final kind why mc = Inr (mc', applied) \<Longrightarrow> diverged_from vs mc \<Longrightarrow> diverged_from vs mc'"
  by (elim instruct_close_spec) (auto simp: diverged_from_def)

lemma amend_diverges: "instruct_amend M op desired kind mc = Inr mc' \<Longrightarrow> diverged_from vs mc \<Longrightarrow> diverged_from vs mc'"
  by (elim instruct_amend_spec) (auto simp: diverged_from_def)

interpretation diverging: manager_invariant M "diverged_from vs" "\<lambda>_ _. True" for M vs
proof
  show "diverged_from vs mc'" if "diverged_from vs mc" "stray_entry M ref ev mc = Inr mc'" for mc ref ev mc' and M :: "'v manager_env"
    using stray_entry_spec [OF that(2)]
  proof cases
    case (1 m1 mc2 v msg)
    have "diverged_from vs (m1, snd mc)" using that(1) by (simp add: diverged_from_def)
    then have "diverged_from vs mc2" using 1(2) close_diverges by (auto simp: diverged_from_def)
    then show ?thesis using 1(3) by (auto simp: diverged_from_def)
  qed
  show "diverged_from vs mc'" if "diverged_from vs mc" "push_final M ref pos leg mc = Inr mc'" for mc ref pos leg mc' and M :: "'v manager_env"
    using push_final_spec [OF that(2)] close_diverges [OF _ that(1)] by (metis diverged_from_def snd_conv)
  show "diverged_from vs mc'" if "diverged_from vs mc" "push_scale_out M ref pos leg mc = Inr mc'" for mc ref pos leg mc' and M :: "'v manager_env"
    using push_scale_out_spec [OF that(2)]
  proof cases
    case (1 m c applied m1)
    have "diverged_from vs (m1, c)" using close_diverges [OF 1(1) that(1)] by (simp add: diverged_from_def)
    then show ?thesis using 1(3) amend_diverges by blast
  qed
  show "diverged_from vs (if applied then m\<lparr>vm_pending_closes := dict_pop ref (vm_pending_closes m)\<rparr> else m, c)"
    if "diverged_from vs mc" "instruct_close M pos (ps_size pos) True AK_CLOSE why mc = Inr ((m, c), applied)"
    for mc ref pos why m c applied and M :: "'v manager_env"
    using close_diverges [OF that(2,1)] by (simp add: diverged_from_def)
qed (auto simp: diverged_from_def intro: amend_diverges [unfolded diverged_from_def])


section \<open>No position is dropped\<close>

definition filed :: "'v manager \<Rightarrow> bool" where
  "filed m \<longleftrightarrow> list_all (\<lambda>kv. ps_venue_ref (snd kv) = Some (fst kv)) (vm_venue_positions m)
     \<and> list_all (\<lambda>kv. ps_venue_ref (fst (snd kv)) = Some (fst kv)) (vm_pending_closes m)"

definition on_record :: "string \<Rightarrow> 'v manager \<Rightarrow> bool" where
  "on_record ref m \<longleftrightarrow> map_of (vm_venue_positions m) ref \<noteq> None \<or> map_of (vm_pending_closes m) ref \<noteq> None"

definition closed_at_venue :: "string \<Rightarrow> manager_cycle \<Rightarrow> bool" where
  "closed_at_venue ref c \<longleftrightarrow>
     list_ex (\<lambda>t. tm_applied t \<and> tm_broker_ref t = Some ref \<and> tm_kind t \<in> {AK_CLOSE, AK_CORRECTION}) (mc_telemetry c)"

definition accounted_for :: "string \<Rightarrow> 'v manager \<times> manager_cycle \<Rightarrow> bool" where
  "accounted_for ref mc \<longleftrightarrow> filed (fst mc) \<and> (on_record ref (fst mc) \<or> closed_at_venue ref (snd mc))"

lemma filed_put:
  assumes "list_all (\<lambda>kv. P (fst kv) (snd kv)) d" "P k v"
  shows "list_all (\<lambda>kv. P (fst kv) (snd kv)) (dict_put k v d)"
  using assms set_dict_put [of k v d] by (auto simp: list_all_iff)

lemmas filed_put_position [simp] = filed_put [where P = "\<lambda>k v. ps_venue_ref v = Some k"]
lemmas filed_put_close [simp] = filed_put [where P = "\<lambda>k v. ps_venue_ref (fst v) = Some k"]

lemma filed_pop: "list_all P d \<Longrightarrow> list_all P (dict_pop k d)"
  by (auto simp: list_all_iff dict_pop_def)

lemma filed_lookup: "filed m \<Longrightarrow> map_of (vm_venue_positions m) ref = Some pos \<Longrightarrow> ps_venue_ref pos = Some ref"
  by (auto simp: filed_def list_all_iff dest!: map_of_SomeD)

lemma closing_accounts:
  assumes "instruct_close M pos sz final kind why mc = Inr ((m, c), applied)" "ps_venue_ref pos = Some ref" "kind \<in> {AK_CLOSE, AK_CORRECTION}"
  shows "vm_venue_positions m = vm_venue_positions (fst mc)" "vm_pending_closes m = vm_pending_closes (fst mc)" "filed m = filed (fst mc)"
    "applied \<Longrightarrow> closed_at_venue ref c" "closed_at_venue r (snd mc) \<Longrightarrow> closed_at_venue r c"
  using assms by (auto elim!: instruct_close_spec simp: closed_at_venue_def filed_def)

lemma close_accounts:
  assumes "instruct_close M pos sz final kind why mc = Inr (mc', applied)" "accounted_for r mc"
  shows "accounted_for r mc'"
  using assms by (auto elim!: instruct_close_spec simp: accounted_for_def closed_at_venue_def filed_def on_record_def)

lemma amend_accounts:
  assumes "instruct_amend M op desired kind mc = Inr mc'" "accounted_for r mc"
  shows "accounted_for r mc'"
  using assms(1)
proof (cases rule: instruct_amend_spec)
  case (applied t)
  let ?ref = "ref_or_empty (ps_venue_ref (mp_position op))"
  have f: "filed (fst mc)" using assms(2) by (simp add: accounted_for_def)
  have "filed (fst mc')"
  proof (cases "map_of (vm_venue_positions (fst mc)) ?ref")
    case (Some p)
    then have "ps_venue_ref (apply_levels desired p) = Some ?ref" using filed_lookup [OF f] by (simp add: apply_levels_def)
    then show ?thesis using f applied(4,7) Some by (simp add: filed_def)
  qed (use f applied(4,7) in \<open>simp add: filed_def\<close>)
  moreover have "on_record r (fst mc) \<longrightarrow> on_record r (fst mc')"
    using applied(4,7) by (auto simp: on_record_def map_of_dict_put split: option.splits)
  ultimately show ?thesis using assms(2) applied(2) by (auto simp: accounted_for_def closed_at_venue_def)
qed (use assms(2) in \<open>auto simp: accounted_for_def closed_at_venue_def filed_def on_record_def\<close>)

lemma final_accounts:
  assumes "accounted_for r mc" "map_of (vm_venue_positions (fst mc)) ref = Some pos" "push_final M ref pos leg mc = Inr mc'"
  shows "accounted_for r mc'"
  using push_final_spec [OF assms(3)]
proof cases
  case (1 m c applied)
  have f: "filed (fst mc)" using assms(1) by (simp add: accounted_for_def)
  note k = closing_accounts [OF 1(1) filed_lookup [OF f assms(2)]]
  have "filed (fst mc')"
    using f k(1,2) filed_lookup [OF f assms(2)]
    unfolding 1(2) by (simp add: filed_def filed_pop)
  moreover have "on_record r (fst mc') \<or> closed_at_venue r (snd mc')"
    using assms(1) k unfolding 1(2) by (cases "r = ref"; cases applied) (auto simp: accounted_for_def on_record_def map_of_dict_put map_of_dict_pop)
  ultimately show ?thesis by (simp add: accounted_for_def)
qed

lemma stray_accounts:
  assumes "accounted_for r mc" "stray_entry M ref ev mc = Inr mc'"
  shows "accounted_for r mc'"
  using stray_entry_spec [OF assms(2)]
proof cases
  case (1 m1 mc2 v msg)
  have f: "filed (fst mc)" using assms(1) by (simp add: accounted_for_def)
  have f1: "filed m1" using f unfolding 1(1) by (simp add: filed_def filed_pop)
  have "accounted_for r mc2"
    using 1(2)
  proof
    assume a: "map_of (vm_venue_positions (fst mc)) ref = None \<and> mc2 = (m1, snd mc)"
    then show ?thesis using assms(1) f1 unfolding 1(1)
      by (auto simp: accounted_for_def on_record_def map_of_dict_pop)
  next
    assume "\<exists>pos m2 c2 applied why. map_of (vm_venue_positions (fst mc)) ref = Some pos
        \<and> instruct_close M pos (ps_size pos) True AK_CORRECTION why (m1, snd mc) = Inr ((m2, c2), applied)
        \<and> mc2 = (if applied then m2 else m2\<lparr>vm_pending_closes := dict_put ref (pos, why) (vm_pending_closes m2)\<rparr>, c2)"
    then obtain pos m2 c2 applied why where p: "map_of (vm_venue_positions (fst mc)) ref = Some pos"
      "instruct_close M pos (ps_size pos) True AK_CORRECTION why (m1, snd mc) = Inr ((m2, c2), applied)"
      "mc2 = (if applied then m2 else m2\<lparr>vm_pending_closes := dict_put ref (pos, why) (vm_pending_closes m2)\<rparr>, c2)" by blast
    note k = closing_accounts [OF p(2) filed_lookup [OF f p(1)]]
    have "filed (fst mc2)"
      using f1 k(1-3) filed_lookup [OF f p(1)] unfolding p(3)
      by (simp add: filed_def)
    moreover have "on_record r (fst mc2) \<or> closed_at_venue r (snd mc2)"
      using assms(1) k unfolding p(3) 1(1)
      by (cases "r = ref"; cases applied) (auto simp: accounted_for_def on_record_def map_of_dict_put map_of_dict_pop)
    ultimately show ?thesis by (simp add: accounted_for_def)
  qed
  then show ?thesis unfolding 1(3) by (simp add: accounted_for_def on_record_def filed_def closed_at_venue_def)
qed

lemma scale_out_accounts:
  assumes "accounted_for r mc" "map_of (vm_venue_positions (fst mc)) ref = Some pos" "push_scale_out M ref pos leg mc = Inr mc'"
  shows "accounted_for r mc'"
  using push_scale_out_spec [OF assms(3)]
proof cases
  case (1 m c applied m1)
  have f: "filed (fst mc)" using assms(1) by (simp add: accounted_for_def)
  have a: "accounted_for r (m, c)" using close_accounts [OF 1(1) assms(1)] .
  have "accounted_for r (m1, c)"
    using a filed_lookup [OF f assms(2)] unfolding 1(2)
    by (auto simp: accounted_for_def filed_def on_record_def map_of_dict_put)
  then show ?thesis using 1(3) amend_accounts by blast
qed

lemma retry_accounts:
  assumes "accounted_for r mc" "ps_venue_ref pos = Some ref"
    and "instruct_close M pos (ps_size pos) True AK_CLOSE why mc = Inr ((m, c), applied)"
  shows "accounted_for r (if applied then m\<lparr>vm_pending_closes := dict_pop ref (vm_pending_closes m)\<rparr> else m, c)"
proof -
  have a: "accounted_for r (m, c)" using close_accounts [OF assms(3,1)] .
  note k = closing_accounts [OF assms(3,2)]
  show ?thesis
    using a k by (cases "r = ref"; cases applied) (auto simp: accounted_for_def filed_def filed_pop on_record_def map_of_dict_pop)
qed

interpretation accounting: manager_invariant M "accounted_for r" "\<lambda>ref pos. ps_venue_ref pos = Some ref" for M r
proof
  show "ps_venue_ref pos = Some ref" if "accounted_for r (m, c)" "(ref, pos, why) \<in> set (vm_pending_closes m)"
    for m :: "'v manager" and c ref pos why
    using that by (auto simp: accounted_for_def filed_def list_all_iff)
  show "accounted_for r mc'" if "accounted_for r mc" "stray_entry M ref ev mc = Inr mc'" for mc :: "'v manager \<times> manager_cycle" and M ref ev mc'
    using stray_accounts [OF that] .
  show "accounted_for r mc'" if "accounted_for r mc" "map_of (vm_venue_positions (fst mc)) ref = Some pos" "push_final M ref pos leg mc = Inr mc'"
    for mc :: "'v manager \<times> manager_cycle" and M ref pos leg mc'
    using final_accounts [OF that] .
  show "accounted_for r mc'" if "accounted_for r mc" "map_of (vm_venue_positions (fst mc)) ref = Some pos" "push_scale_out M ref pos leg mc = Inr mc'"
    for mc :: "'v manager \<times> manager_cycle" and M ref pos leg mc'
    using scale_out_accounts [OF that] .
  show "accounted_for r mc'" if "accounted_for r mc" "instruct_amend M op desired kind mc = Inr mc'"
    for mc :: "'v manager \<times> manager_cycle" and M op desired kind mc'
    using amend_accounts [OF that(2,1)] .
  show "accounted_for r (if applied then m\<lparr>vm_pending_closes := dict_pop ref (vm_pending_closes m)\<rparr> else m, c)"
    if "accounted_for r mc" "ps_venue_ref pos = Some ref" "instruct_close M pos (ps_size pos) True AK_CLOSE why mc = Inr ((m, c), applied)"
    for mc :: "'v manager \<times> manager_cycle" and M ref pos why m c applied
    using retry_accounts [OF that] .
qed (simp_all add: accounted_for_def filed_def on_record_def closed_at_venue_def)


section \<open>The venue does not lead the book\<close>

text \<open>A book without what links it to the venue: the references of its positions and their resting targets, which no rule of the book reads.\<close>

definition unlinked :: "managed \<Rightarrow> managed" where
  "unlinked op = op\<lparr>mp_position := (mp_position op)\<lparr>ps_venue_ref := None, ps_take_profit_targets := []\<rparr>\<rparr>"

definition unlinked_book :: "book \<Rightarrow> book" where
  "unlinked_book b = b\<lparr>bk_open := map unlinked (bk_open b)\<rparr>"

definition decided :: "book \<Rightarrow> driver \<Rightarrow> advance_result \<Rightarrow> 'v manager \<times> manager_cycle \<Rightarrow> bool" where
  "decided b d r mc \<longleftrightarrow> unlinked_book (vm_book (fst mc)) = unlinked_book b \<and> vm_driver (fst mc) = d \<and> mc_advance (snd mc) = r"

lemma unlinked_set_ref: "map unlinked (set_first q (\<lambda>p. p\<lparr>ps_venue_ref := v\<rparr>) ops) = map unlinked ops"
  by (induction ops) (simp_all add: unlinked_def)

lemma unlinked_set_own_levels:
  "find (\<lambda>op. mp_seq op = q) ops = Some op \<Longrightarrow> map unlinked (set_first q (apply_levels (desired_levels op)) ops) = map unlinked ops"
  by (induction ops) (auto simp: unlinked_def apply_levels_def desired_levels_def split: if_splits option.splits)

lemma unlinked_book_ref [simp]: "unlinked_book (set_position q (\<lambda>p. p\<lparr>ps_venue_ref := v\<rparr>) b) = unlinked_book b"
  by (simp add: unlinked_book_def set_position_def unlinked_set_ref)

lemma close_decided: "instruct_close M pos sz final kind why mc = Inr (mc', applied) \<Longrightarrow> decided b d r mc \<Longrightarrow> decided b d r mc'"
  by (elim instruct_close_spec) (simp add: decided_def)

lemma amend_decided:
  assumes "instruct_amend M op desired kind mc = Inr mc'" "decided b d r mc"
    and "map_of (vm_venue_positions (fst mc)) (ref_or_empty (ps_venue_ref (mp_position op))) \<noteq> None
      \<or> desired = desired_levels op \<and> find (\<lambda>o'. mp_seq o' = mp_seq op) (bk_open (vm_book (fst mc))) = Some op"
  shows "decided b d r mc'"
  using assms(1)
proof (cases rule: instruct_amend_spec)
  case (applied t)
  have "unlinked_book (vm_book (fst mc')) = unlinked_book (vm_book (fst mc))"
    using applied(4) assms(3) unlinked_set_own_levels
    by (auto simp: unlinked_book_def set_position_def split: option.splits)
  then show ?thesis using applied(5,6) assms(2) by (simp add: decided_def)
qed (use assms(2) in \<open>simp add: decided_def\<close>)

lemma scale_out_decided:
  assumes "decided b d r mc" "push_scale_out M ref pos leg mc = Inr mc'"
  shows "decided b d r mc'"
  using push_scale_out_spec [OF assms(2)]
proof cases
  case (1 m c applied m1)
  have "decided b d r (m1, c)" using close_decided [OF 1(1) assms(1)] unfolding 1(2) by (simp add: decided_def)
  moreover have "mp_seq op = q" if "find (\<lambda>op. mp_seq op = q) ops = Some op" for q op ops
    using that by (auto simp: find_Some_iff)
  ultimately show ?thesis using 1(3) amend_decided by (metis fst_conv)
qed

lemma stray_decided:
  assumes "decided b d r mc" "stray_entry M ref ev mc = Inr mc'"
  shows "decided b d r mc'"
  using stray_entry_spec [OF assms(2)]
proof cases
  case (1 m1 mc2 v msg)
  have "decided b d r (m1, snd mc)" using assms(1) unfolding 1(1) by (simp add: decided_def)
  then have "decided b d r mc2" using 1(2) close_decided by (fastforce simp: decided_def)
  then show ?thesis unfolding 1(3) by (simp add: decided_def)
qed

interpretation deciding: manager_invariant M "decided b d r" "\<lambda>_ _. True" for M b d r
proof
  show "decided b d r mc'" if "decided b d r mc" "stray_entry M ref ev mc = Inr mc'" for mc :: "'v manager \<times> manager_cycle" and M ref ev mc'
    using stray_decided [OF that] .
  show "decided b d r mc'" if "decided b d r mc" "push_final M ref pos leg mc = Inr mc'"
    for mc :: "'v manager \<times> manager_cycle" and M ref pos leg mc'
    using push_final_spec [OF that(2)]
  proof cases
    case (1 m c applied)
    then show ?thesis using close_decided [OF 1(1) that(1)] by (simp add: decided_def)
  qed
  show "decided b d r mc'" if "decided b d r mc" "push_scale_out M ref pos leg mc = Inr mc'"
    for mc :: "'v manager \<times> manager_cycle" and M ref pos leg mc'
    using scale_out_decided [OF that] .
  show "decided b d r mc'" if "decided b d r mc" "map_of (vm_venue_positions (fst mc)) (ref_or_empty (ps_venue_ref (mp_position op))) \<noteq> None"
    "instruct_amend M op desired kind mc = Inr mc'"
    for mc :: "'v manager \<times> manager_cycle" and M op desired kind mc'
    using amend_decided [OF that(3,1)] that(2) by blast
  show "decided b d r (if applied then m\<lparr>vm_pending_closes := dict_pop ref (vm_pending_closes m)\<rparr> else m, c)"
    if "decided b d r mc" "instruct_close M pos (ps_size pos) True AK_CLOSE why mc = Inr ((m, c), applied)"
    for mc :: "'v manager \<times> manager_cycle" and M ref pos why m c applied
    using close_decided [OF that(2,1)] by (simp add: decided_def)
qed (simp_all add: decided_def)


section \<open>Silence means agreement\<close>

definition agreed :: "'v manager_env \<Rightarrow> 'v manager \<Rightarrow> managed \<Rightarrow> bool" where
  "agreed M m op \<longleftrightarrow>
     (let held = map_of (vm_venue_state m) (ref_or_empty (ps_venue_ref (mp_position op))) in
      held = Some (desired_levels op) \<or> intent_matches (desired_levels op) held (me_price_tolerance M))"

abbreviation op_ref :: "managed \<Rightarrow> string" where
  "op_ref op \<equiv> ref_or_empty (ps_venue_ref (mp_position op))"

lemma push_levels_frame:
  "push_levels M ops mc = Inr mc' \<Longrightarrow>
   vm_book (fst mc') = vm_book (fst mc) \<and> (map_of (vm_venue_positions (fst mc')) ref = None \<longleftrightarrow> map_of (vm_venue_positions (fst mc)) ref = None)
   \<and> (ref \<notin> set (map op_ref ops) \<longrightarrow> map_of (vm_venue_state (fst mc')) ref = map_of (vm_venue_state (fst mc)) ref)"
proof (induction ops arbitrary: mc)
  case (Cons op ops)
  obtain mc1 where s: "(if op_ref op = [] \<or> map_of (vm_venue_positions (fst mc)) (op_ref op) = None
        \<or> intent_matches (desired_levels op) (map_of (vm_venue_state (fst mc)) (op_ref op)) (me_price_tolerance M)
      then Inr mc else instruct_amend M op (desired_levels op) (level_kind op) mc) = Inr mc1" "push_levels M ops mc1 = Inr mc'"
    using Cons.prems by (auto simp: rbind_eq_Inr Let_def)
  have "vm_book (fst mc1) = vm_book (fst mc) \<and> (map_of (vm_venue_positions (fst mc1)) ref = None \<longleftrightarrow> map_of (vm_venue_positions (fst mc)) ref = None)
    \<and> (ref \<noteq> op_ref op \<longrightarrow> map_of (vm_venue_state (fst mc1)) ref = map_of (vm_venue_state (fst mc)) ref)"
    using s(1) by (auto split: if_splits elim!: instruct_amend_spec simp: map_of_dict_put)
  then show ?case using Cons.IH [OF s(2)] by auto
qed simp

lemma push_levels_agree:
  assumes "push_levels M ops mc = Inr mc'" "mc_divergences (snd mc') = []" "distinct (map op_ref (filter (\<lambda>op. op_ref op \<noteq> []) ops))"
    and "op \<in> set ops" "op_ref op \<noteq> []" "map_of (vm_venue_positions (fst mc')) (op_ref op) \<noteq> None"
  shows "agreed M (fst mc') op"
  using assms
proof (induction ops arbitrary: mc)
  case (Cons o1 ops)
  obtain mc1 where s: "(if op_ref o1 = [] \<or> map_of (vm_venue_positions (fst mc)) (op_ref o1) = None
        \<or> intent_matches (desired_levels o1) (map_of (vm_venue_state (fst mc)) (op_ref o1)) (me_price_tolerance M)
      then Inr mc else instruct_amend M o1 (desired_levels o1) (level_kind o1) mc) = Inr mc1" "push_levels M ops mc1 = Inr mc'"
    using Cons.prems(1) by (auto simp: rbind_eq_Inr Let_def)
  show ?case
  proof (cases "op \<in> set ops")
    case True
    then show ?thesis using Cons.IH [OF s(2)] Cons.prems by (auto split: if_splits)
  next
    case False
    then have op: "op = o1" using Cons.prems(4) by simp
    have later: "op_ref op \<notin> set (map op_ref ops)" using Cons.prems(3,5) op by auto
    have "mc_divergences (snd mc1) = []"
      using diverging.push_levels_keep [OF s(2), of "mc_divergences (snd mc1)"] Cons.prems(2) by (simp add: diverged_from_def)
    moreover have "map_of (vm_venue_positions (fst mc)) (op_ref op) \<noteq> None"
      using push_levels_frame [OF Cons.prems(1), of "op_ref op"] Cons.prems(6) by simp
    ultimately have "agreed M (fst mc1) op"
      using s(1) Cons.prems(5) unfolding op by (auto split: if_splits elim!: instruct_amend_spec simp: agreed_def Let_def)
    then show ?thesis using push_levels_frame [OF s(2), of "op_ref op"] later by (simp add: agreed_def)
  qed
qed simp

end
