(* ===== verification/Manager_Safety.thy ===== *)
theory Manager_Safety
  imports Manager_Invariant
begin

text \<open>What the position manager promises, proved from the invariants of its bar in \<open>Manager_Invariant\<close>: silence means that the
  venue holds the book's levels, no position goes off the record unless it was closed, and the venue never decides anything for the
  book. The last two theorems show two weaknesses: a refused scale-out is not kept, and the pre-trade check does not count orders that
  wait. A sample account with two bars, an adopted order and a venue that refuses carries the witnesses.\<close>

section \<open>A managed position\<close>

text \<open>The sample account with a plain exit policy and room for one position: two bars, and one adopted order between them.\<close>

definition rendered :: "ftext \<Rightarrow> string" where
  "rendered t = concat (map (\<lambda>p. case p of Lit s \<Rightarrow> s | _ \<Rightarrow> []) t)"

definition sample_manager_env :: "exec_env \<Rightarrow> 'v adapter \<Rightarrow> exit_context \<Rightarrow> 'v manager_env" where
  "sample_manager_env X A xc = \<lparr>me_exec = X, me_adapter = A, me_book = sample_book_env\<lparr>be_policy := DEFAULT_EXIT_POLICY\<rparr>,
     me_registry = [''EURUSD'' \<mapsto> eurusd], me_context = (\<lambda>_ _. Inr xc), me_retry = DEFAULT_RETRY, me_clock = utc 0, me_fx = None,
     me_account_ccy = ''USD'', me_latency_bars = 0, me_price_tolerance = Fin (1 / 10 ^ 9), me_venue_position_id = (\<lambda>_. ''pos1''), me_text = rendered\<rparr>"

definition sample_bars :: "int \<Rightarrow> (string \<times> bar) list" where
  "sample_bars k = [(''EURUSD'', \<lparr>b_timestamp = utc (k * HOUR_NS), b_open = Fin (108 / 100), b_high = Fin (1085 / 1000), b_low = Fin (1079 / 1000),
     b_close = Fin (108 / 100)\<rparr>)]"

definition bar_step :: "'v manager_env \<Rightarrow> int \<Rightarrow> 'v manager \<Rightarrow> 'v manager \<times> manager_cycle" where
  "bar_step M k m = projr (on_bar M (sample_bars k) k None Map.empty m)"

definition sample_venue_ack :: order_ack where
  "sample_venue_ack = \<lparr>oa_status = OS_FILLED, oa_broker_ref = Some ''D1'', oa_client_ref = ''c1'', oa_order_id = ''o1'',
     oa_submitted_at = utc 0, oa_acked_at = None, oa_fill = None, oa_message = [], oa_raw = []\<rparr>"

definition adopt_sample :: "'v manager_env \<Rightarrow> 'v manager \<Rightarrow> 'v manager" where
  "adopt_sample M m =
     fst (projr (adopt_ack M sample_venue_ack ''EURUSD'' LONG (Fin 1000) (Some (Fin (105 / 100)))
       [Fin (109 / 100), Fin (110 / 100)] [Fin (1 / 2), Fin (1 / 2)] ''s1'' None m))"

definition sample_adopted :: "'v manager_env \<Rightarrow> 'v service \<Rightarrow> 'v manager" where
  "sample_adopted M s = adopt_sample M (fst (bar_step M 0 (manager_new s (position_book_new (Fin 10000)))))"

definition sample_managed :: "'v manager_env \<Rightarrow> 'v service \<Rightarrow> 'v manager" where
  "sample_managed M s = fst (bar_step M 1 (sample_adopted M s))"

definition sample_cycle :: "'v manager_env \<Rightarrow> 'v service \<Rightarrow> manager_cycle" where
  "sample_cycle M s = snd (bar_step M 1 (sample_adopted M s))"

text \<open>No instruction is due on these bars, so what happens depends neither on the service nor on the venue.\<close>

lemma sample_second_bar:
  "case on_bar (sample_manager_env X A xc) (sample_bars 1) 1 None Map.empty (sample_adopted (sample_manager_env X A xc) s) of
     Inl _ \<Rightarrow> False
   | Inr (m, c) \<Rightarrow> mc_divergences c = [] \<and> map fst (vm_venue_positions m) = [''D1'']
       \<and> map (\<lambda>op. (op_ref op, desired_levels op)) (bk_open (vm_book m))
         = [(''D1'', \<lparr>vi_stop_loss = Some (Fin (105 / 100)), vi_take_profit = Some (Fin (109 / 100))\<rparr>)]"
  by code_simp

lemma sample_steps:
  "\<not> isl (on_bar (sample_manager_env X A xc) (sample_bars 1) 1 None Map.empty (sample_adopted (sample_manager_env X A xc) s))"
  and sample_silent: "mc_divergences (sample_cycle (sample_manager_env X A xc) s) = []"
  and sample_held: "map fst (vm_venue_positions (sample_managed (sample_manager_env X A xc) s)) = [''D1'']"
  and sample_levels: "map (\<lambda>op. (op_ref op, desired_levels op)) (bk_open (vm_book (sample_managed (sample_manager_env X A xc) s)))
   = [(''D1'', \<lparr>vi_stop_loss = Some (Fin (105 / 100)), vi_take_profit = Some (Fin (109 / 100))\<rparr>)]"
  using sample_second_bar [of X A xc s]
  by (auto simp: sample_cycle_def sample_managed_def bar_step_def simp del: map_eq_Cons_conv split: sum.splits prod.splits)

definition second_order :: "'v manager_env \<Rightarrow> 'v manager \<Rightarrow> pyexn + string list" where
  "second_order M m =
     rbind (driver_advance (me_book M) (sample_bars 1) 1 None Map.empty (vm_driver (adopt_sample M m)) (vm_book (adopt_sample M m)))
       (\<lambda>x. Inr (map ee_reason (ar_entries (fst (snd (snd x))))))"

definition adopted_view :: "'v manager_env \<Rightarrow> 'v manager \<Rightarrow> string list \<times> bool \<times> string option \<times> (pyexn + string list)" where
  "adopted_view M m = (map fst (vm_venue_positions m), filed m, precheck_reason M ''EURUSD'' m, second_order M m)"

lemma sample_adopted_view:
  "adopted_view (sample_manager_env X A xc) (sample_adopted (sample_manager_env X A xc) s) = ([''D1''], True, None, Inr [[], ''max_concurrent''])"
  by code_simp

lemma sample_filed:
  "map fst (vm_venue_positions (sample_adopted (sample_manager_env X A xc) s)) = [''D1'']" "filed (sample_adopted (sample_manager_env X A xc) s)"
  and sample_unobjected: "precheck_reason (sample_manager_env X A xc) ''EURUSD'' (sample_adopted (sample_manager_env X A xc) s) = None"
  using sample_adopted_view [of X A xc s] unfolding adopted_view_def by (simp_all only: prod.inject)

lemma sample_second_refused:
  "\<not> isl (driver_advance (me_book (sample_manager_env X A xc)) (sample_bars 1) 1 None Map.empty
     (vm_driver (adopt_sample (sample_manager_env X A xc) (sample_adopted (sample_manager_env X A xc) s)))
     (vm_book (adopt_sample (sample_manager_env X A xc) (sample_adopted (sample_manager_env X A xc) s))))"
  "map ee_reason (ar_entries (fst (snd (snd (projr (driver_advance (me_book (sample_manager_env X A xc)) (sample_bars 1) 1 None Map.empty
     (vm_driver (adopt_sample (sample_manager_env X A xc) (sample_adopted (sample_manager_env X A xc) s)))
     (vm_book (adopt_sample (sample_manager_env X A xc) (sample_adopted (sample_manager_env X A xc) s))))))))) = [[], ''max_concurrent'']"
proof -
  have "second_order (sample_manager_env X A xc) (sample_adopted (sample_manager_env X A xc) s) = Inr [[], ''max_concurrent'']"
    using sample_adopted_view [of X A xc s] unfolding adopted_view_def by (simp only: prod.inject)
  then show
    "\<not> isl (driver_advance (me_book (sample_manager_env X A xc)) (sample_bars 1) 1 None Map.empty
     (vm_driver (adopt_sample (sample_manager_env X A xc) (sample_adopted (sample_manager_env X A xc) s)))
     (vm_book (adopt_sample (sample_manager_env X A xc) (sample_adopted (sample_manager_env X A xc) s))))"
    "map ee_reason (ar_entries (fst (snd (snd (projr (driver_advance (me_book (sample_manager_env X A xc)) (sample_bars 1) 1 None Map.empty
     (vm_driver (adopt_sample (sample_manager_env X A xc) (sample_adopted (sample_manager_env X A xc) s)))
     (vm_book (adopt_sample (sample_manager_env X A xc) (sample_adopted (sample_manager_env X A xc) s))))))))) = [[], ''max_concurrent'']"
    unfolding second_order_def by (auto simp del: map_eq_Cons_conv simp: rbind_eq_Inr)
qed

definition paper_env :: "flt list manager_env" where
  "paper_env = sample_manager_env sample_X lossy sample_exit"

lemma sample_step:
  "on_bar paper_env (sample_bars 1) 1 None Map.empty (sample_adopted paper_env sample_service)
   = Inr (sample_managed paper_env sample_service, sample_cycle paper_env sample_service)"
  using sample_steps [of sample_X lossy sample_exit sample_service]
  unfolding sample_managed_def sample_cycle_def bar_step_def paper_env_def
  by (cases "on_bar (sample_manager_env sample_X lossy sample_exit) (sample_bars 1) 1 None Map.empty
      (sample_adopted (sample_manager_env sample_X lossy sample_exit) sample_service)") auto


section \<open>What the manager promises\<close>



text \<open>C21: no position is dropped. A broker reference that the manager had on record, as a position it manages or as a close still to be
  confirmed, is on record after a bar, unless the bar closed it: then a close under that reference was applied, or found the venue
  flat. Positions are filed under their own reference, and stay so.\<close>

theorem no_position_is_dropped:
  assumes "on_bar M bars k t series m = Inr (m', c)" and "filed m"
    and "map_of (vm_venue_positions m) ref \<noteq> None \<or> map_of (vm_pending_closes m) ref \<noteq> None"
  shows "filed m' \<and> (map_of (vm_venue_positions m') ref \<noteq> None \<or> map_of (vm_pending_closes m') ref \<noteq> None
    \<or> list_ex (\<lambda>t. tm_applied t \<and> tm_broker_ref t = Some ref \<and> tm_kind t \<in> {AK_CLOSE, AK_CORRECTION}) (mc_telemetry c))"
proof -
  obtain d b r view where da: "driver_advance (me_book M) bars k t series (vm_driver m) (vm_book m) = Inr (d, b, r, view)"
    using assms(1) by (auto simp: on_bar_def rbind_eq_Inr)
  have "accounted_for ref (m\<lparr>vm_driver := d, vm_book := b\<rparr>, new_cycle (sl_timestamp view) r)"
    using assms(2,3) by (simp add: accounted_for_def filed_def on_record_def)
  from accounting.on_bar_keep [OF assms(1) da this] show ?thesis
    by (auto simp: accounted_for_def on_record_def closed_at_venue_def)
qed

theorem no_position_is_dropped_witness:
  "''D1'' \<in> set (map fst (vm_venue_positions (sample_adopted paper_env sample_service))) \<and> filed (sample_managed paper_env sample_service)
   \<and> (''D1'' \<in> set (map fst (vm_venue_positions (sample_managed paper_env sample_service)))
      \<or> ''D1'' \<in> set (map fst (vm_pending_closes (sample_managed paper_env sample_service)))
      \<or> list_ex (\<lambda>t. tm_applied t \<and> tm_broker_ref t = Some ''D1'' \<and> tm_kind t \<in> {AK_CLOSE, AK_CORRECTION})
          (mc_telemetry (sample_cycle paper_env sample_service)))"
proof -
  have held: "''D1'' \<in> set (map fst (vm_venue_positions (sample_adopted paper_env sample_service)))" and
    f: "filed (sample_adopted paper_env sample_service)"
    using sample_filed [of sample_X lossy sample_exit sample_service] by (simp_all add: paper_env_def del: set_map)
  then have "map_of (vm_venue_positions (sample_adopted paper_env sample_service)) ''D1'' \<noteq> None
      \<or> map_of (vm_pending_closes (sample_adopted paper_env sample_service)) ''D1'' \<noteq> None"
    by (simp add: map_of_eq_None_iff)
  from no_position_is_dropped [OF sample_step f this] held show ?thesis by (simp add: map_of_eq_None_iff)
qed

text \<open>C23: the venue does not lead the book. Whatever the venue, the gateway and the service answer, a bar leaves the book that the book's own
  step decided on that bar, up to the references and resting targets that link its positions to the venue; the reported step is that step.\<close>

theorem venue_never_leads_the_book:
  assumes "on_bar M bars k t series m = Inr (m', c)"
  shows "\<exists>d b r view. driver_advance (me_book M) bars k t series (vm_driver m) (vm_book m) = Inr (d, b, r, view)
    \<and> vm_driver m' = d \<and> mc_advance c = r \<and> unlinked_book (vm_book m') = unlinked_book b"
proof -
  obtain d b r view where da: "driver_advance (me_book M) bars k t series (vm_driver m) (vm_book m) = Inr (d, b, r, view)"
    using assms by (auto simp: on_bar_def rbind_eq_Inr)
  have "decided b d r (m\<lparr>vm_driver := d, vm_book := b\<rparr>, new_cycle (sl_timestamp view) r)" by (simp add: decided_def new_cycle_def)
  from deciding.on_bar_keep [OF assms da this] da show ?thesis by (auto simp: decided_def)
qed

theorem venue_never_leads_the_book_witness:
  "\<exists>d b r view. driver_advance (me_book paper_env) (sample_bars 1) 1 None Map.empty (vm_driver (sample_adopted paper_env sample_service))
        (vm_book (sample_adopted paper_env sample_service)) = Inr (d, b, r, view)
    \<and> mc_advance (sample_cycle paper_env sample_service) = r \<and> unlinked_book (vm_book (sample_managed paper_env sample_service)) = unlinked_book b"
  using venue_never_leads_the_book [OF sample_step] by blast

text \<open>A policy that one stop and one target cannot express reaches the demo account only with an acceptance and a name on it: the gate passes
  exactly the policies with at most one leg, no trail, no breakeven move and no time stop, and those an operator accepted.\<close>

theorem degraded_mode_needs_a_name:
  "\<not> isl (require_venue_realisable p strategy_id accepted take_profit_legs operator) \<longleftrightarrow>
     (case take_profit_legs of Some n \<Rightarrow> n | None \<Rightarrow> int (length (ep_allocations p))) \<le> 1 \<and> tp_kind (ep_trailing p) = TRAIL_NONE
       \<and> ep_breakeven_at_r p = None \<and> ep_max_bars_in_trade p = None
     \<or> accepted \<and> operator \<noteq> []"
  by (auto simp: require_venue_realisable_def assess_policy_def policy_features_def trail_active_def Let_def split: option.splits)

text \<open>A stop that moved is always marked as trailed, so the instruction that carries a breakeven move to the venue is filed as
  a trail.\<close>

lemma breakeven_move_is_filed_as_trail:
  assumes "update_protective_stop E s symb bar op = Inr op'" and "mp_stop op' \<noteq> mp_stop op"
  shows "level_kind op' = AK_TRAIL"
proof -
  have "\<not> mp_risk_per_unit op \<le> Fin 0" using assms by (auto simp: update_protective_stop_def)
  moreover obtain current where "mp_stop op = Some current"
    using assms by (cases "mp_stop op") (simp_all add: update_protective_stop_def rbind_eq_Inr split: if_splits)
  ultimately obtain r_now where moved: "op' = (case proposed_stop (be_policy E) s symb bar r_now op current of (proposed, moved_by) \<Rightarrow>
      let op1 = op\<lparr>mp_breakeven_done := mp_breakeven_done op \<or> breakeven_reached (be_policy E) r_now op\<rparr>
      in if improves (mp_direction op) proposed current
         then op1\<lparr>mp_position := (mp_position op1)\<lparr>ps_stop_loss := Some proposed\<rparr>, mp_stop_trailed := True,
                  mp_stop_moved_by := (if moved_by \<noteq> [] \<and> mp_stop_moved_by op \<noteq> ''trailing'' then moved_by else mp_stop_moved_by op)\<rparr>
         else op1)"
    using assms(1) by (simp add: update_protective_stop_def rbind_eq_Inr case_prod_beta Let_def) metis
  obtain proposed moved_by where q: "proposed_stop (be_policy E) s symb bar r_now op current = (proposed, moved_by)" by fastforce
  show ?thesis
    using assms(2) unfolding moved q by (cases "improves (mp_direction op) proposed current") (simp_all add: level_kind_def)
qed

text \<open>C40: a refused scale-out is forgotten. When the venue does not take a partial close, the size on record for the position is reduced
  all the same and no close is kept to be sent again, so the closes that follow leave that part of the position standing.\<close>

theorem refused_scale_out_is_forgotten:
  assumes "push_scale_out M ref pos leg mc = Inr mc'"
    and "instruct_close M pos (py_min (xl_size leg) (ps_size pos)) False AK_SCALE_OUT (xl_exit_reason leg) mc = Inr (mc1, False)"
  shows "vm_pending_closes (fst mc') = vm_pending_closes (fst mc)
    \<and> map_option ps_size (map_of (vm_venue_positions (fst mc')) ref) = Some (py_max (Fin 0) (ps_size pos - xl_size leg))"
  using push_scale_out_spec [OF assms(1)]
proof cases
  case (1 m c applied m1)
  have keep: "vm_pending_closes m1 = vm_pending_closes (fst mc)" using 1(1,2) by (auto elim!: instruct_close_spec)
  have size1: "map_option ps_size (map_of (vm_venue_positions m1) ref) = Some (py_max (Fin 0) (ps_size pos - xl_size leg))"
    unfolding 1(2) by (simp add: map_of_dict_put)
  from 1(3) show ?thesis
  proof
    assume "mc' = (m1, c)"
    then show ?thesis using keep size1 by simp
  next
    assume "\<exists>op. find (\<lambda>op. mp_seq op = xl_position_seq leg) (bk_open (vm_book m1)) = Some op
       \<and> instruct_amend M op (desired_levels op) AK_NEXT_LEG (m1, c) = Inr mc'"
    then obtain op where "instruct_amend M op (desired_levels op) AK_NEXT_LEG (m1, c) = Inr mc'" by blast
    then show ?thesis
    proof (cases rule: instruct_amend_spec)
      case (applied t)
      then show ?thesis using keep size1 by (auto simp: map_of_dict_put apply_levels_def split: option.splits)
    qed (use keep size1 in simp)
  qed
qed

definition refusing :: "flt list adapter" where
  "refusing = lossy\<lparr>ad_close_partial := (\<lambda>_ _ _ _ v. (v, Inl (BrokerRejected (lit ''MARKET_CLOSED''))))\<rparr>"

definition sample_leg :: exit_leg where
  "sample_leg = \<lparr>xl_position_seq = 1, xl_instrument = ''EURUSD'', xl_direction = ''LONG'', xl_ordinal = 0, xl_size = Fin 200,
     xl_exit_price = Fin (11 / 10), xl_exit_time = utc 0, xl_exit_reason = ''take_profit'', xl_gross_pnl = Fin 20, xl_spread_cost = Fin 0,
     xl_commission = Fin 0, xl_slippage_cost = Fin 0, xl_financing_cost = Fin 0, xl_net_pnl = Fin 20, xl_final = False\<rparr>"

definition sample_open :: "flt list manager \<times> manager_cycle" where
  "sample_open = ((manager_new sample_service (position_book_new (Fin 10000)))\<lparr>vm_venue_positions := [(''D1'', sample_position)]\<rparr>,
     new_cycle (utc 0) no_result)"

lemma sample_partial_refused:
  "\<exists>s' h. send_close (sample_manager_env sample_X refusing sample_exit) sample_position sz False sample_exit why sample_service = (s', h)
     \<and> \<not> hd_accepted h \<and> hd_reason h = lit ''MARKET_CLOSED''"
proof -
  obtain g d where "evaluate_exit sample_env sample_gateway sample_exit = (g, Inr d)" "rd_allowed d"
    using sample_exit_allowed [of sample_gateway] by blast
  then show ?thesis
    by (simp add: send_close_def hear_amend_def close_partial_def sample_manager_env_def refusing_def dispatch_def live_intent_def store_get_def Let_def)
qed

lemma refusal_is_not_flat: "\<not> sublist ''already_flat'' ''MARKET_CLOSED''"
proof
  assume "sublist ''already_flat'' ''MARKET_CLOSED''"
  from set_mono_sublist [OF this] show False by simp
qed

lemma sample_close_refused:
  "\<exists>mc1. instruct_close (sample_manager_env sample_X refusing sample_exit) sample_position (Fin 200) False AK_SCALE_OUT why sample_open = Inr (mc1, False)
     \<and> bk_open (vm_book (fst mc1)) = []"
proof -
  let ?M = "sample_manager_env sample_X refusing sample_exit"
  obtain s' h where h: "send_close ?M sample_position (Fin 200) False sample_exit why sample_service = (s', h)" "\<not> hd_accepted h"
      "hd_reason h = lit ''MARKET_CLOSED''"
    using sample_partial_refused by blast
  have "me_context ?M = (\<lambda>_ _. Inr sample_exit)" "me_text ?M = rendered" by (simp_all add: sample_manager_env_def)
  then show ?thesis
    using h by (simp add: instruct_close_def sample_open_def manager_new_def position_book_new_def close_record_def says_already_flat_def
        rendered_def refusal_is_not_flat raise_unrealised_def send_alert_def Let_def)
qed

theorem refused_scale_out_is_forgotten_witness:
  "\<exists>mc'. push_scale_out (sample_manager_env sample_X refusing sample_exit) ''D1'' sample_position sample_leg sample_open = Inr mc'
    \<and> vm_pending_closes (fst mc') = [] \<and> map_option ps_size (map_of (vm_venue_positions (fst mc')) ''D1'') = Some (Fin 300)"
proof -
  let ?M = "sample_manager_env sample_X refusing sample_exit"
  have sz: "py_min (xl_size sample_leg) (ps_size sample_position) = Fin 200" by code_simp
  have left: "py_max (Fin 0) (ps_size sample_position - xl_size sample_leg) = Fin 300" by code_simp
  obtain mc1 where c: "instruct_close ?M sample_position (Fin 200) False AK_SCALE_OUT (xl_exit_reason sample_leg) sample_open = Inr (mc1, False)"
      "bk_open (vm_book (fst mc1)) = []" using sample_close_refused by blast
  then obtain mc' where p: "push_scale_out ?M ''D1'' sample_position sample_leg sample_open = Inr mc'"
    by (simp add: push_scale_out_def sz case_prod_beta Let_def)
  have "vm_pending_closes (fst sample_open) = []" by (simp add: sample_open_def manager_new_def)
  then show ?thesis using refused_scale_out_is_forgotten [OF p, unfolded sz, OF c(1)] p left by simp
qed

text \<open>The pre-trade check does not see the entries that wait. With room for one position and one order already taken to the venue, the
  check still finds no objection to another, and on the next bar the book fills the first and refuses the second.\<close>

theorem precheck_misses_waiting_entries:
  "precheck_reason paper_env ''EURUSD'' (sample_adopted paper_env sample_service) = None
   \<and> (\<exists>d b r view. driver_advance (me_book paper_env) (sample_bars 1) 1 None Map.empty
        (vm_driver (adopt_sample paper_env (sample_adopted paper_env sample_service)))
        (vm_book (adopt_sample paper_env (sample_adopted paper_env sample_service))) = Inr (d, b, r, view)
      \<and> map ee_reason (ar_entries r) = [[], ''max_concurrent''])"
proof -
  let ?a = "driver_advance (me_book paper_env) (sample_bars 1) 1 None Map.empty (vm_driver (adopt_sample paper_env (sample_adopted paper_env sample_service)))
        (vm_book (adopt_sample paper_env (sample_adopted paper_env sample_service)))"
  have "precheck_reason paper_env ''EURUSD'' (sample_adopted paper_env sample_service) = None"
    by (simp add: paper_env_def sample_unobjected)
  moreover have "\<not> isl ?a" "map ee_reason (ar_entries (fst (snd (snd (projr ?a))))) = [[], ''max_concurrent'']"
    by (simp_all add: paper_env_def sample_second_refused)
  ultimately show ?thesis by (cases ?a) auto
qed

end
