(* ===== verification/Promotion_Gates.thy ===== *)
theory Promotion_Gates
  imports Lifecycle
begin

text \<open>
  Promotion gates as data, \<open>validation/gates.py\<close>: comparisons, gates and their verdicts, gate sets with their fingerprint payload,
  overrides, the published sets and the trade floor a set implies. And the part of \<open>validation/report.py\<close> that a promotion reads:
  rungs, the verdict derived from rungs and gates, and the binding constraint. Rationale and description texts are left out; a
  set's digest is the digest of the lifecycle log.
\<close>

section \<open>JSON with sorted keys\<close>

text \<open>\<open>json.dumps(..., sort_keys=True)\<close> on a JSON value: every dict in the order of its keys.\<close>

primrec sorted_json :: "jval \<Rightarrow> jval" where
  "sorted_json JNull = JNull"
| "sorted_json (JBool b) = JBool b"
| "sorted_json (JInt i) = JInt i"
| "sorted_json (JFloat x) = JFloat x"
| "sorted_json (JStr s) = JStr s"
| "sorted_json (JList vs) = JList (map sorted_json vs)"
| "sorted_json (JDict kvs) = JDict (sort_key fst (map (map_prod id sorted_json) kvs))"

definition json_digest :: "lc_env \<Rightarrow> jdict \<Rightarrow> string" where
  "json_digest E d = le_sha E (sorted_json (JDict d))"


section \<open>Gates\<close>

datatype gate_comparison = CMP_GT | CMP_GTE | CMP_LT | CMP_LTE

fun comparison_value :: "gate_comparison \<Rightarrow> string" where
  "comparison_value CMP_GT = ''gt''"
| "comparison_value CMP_GTE = ''gte''"
| "comparison_value CMP_LT = ''lt''"
| "comparison_value CMP_LTE = ''lte''"

definition comparison_holds :: "gate_comparison \<Rightarrow> flt \<Rightarrow> flt \<Rightarrow> bool" where
  "comparison_holds c v threshold =
     (if \<not> is_finite v then False
      else case c of
        CMP_GT \<Rightarrow> v > threshold
      | CMP_GTE \<Rightarrow> v \<ge> threshold
      | CMP_LT \<Rightarrow> v < threshold
      | CMP_LTE \<Rightarrow> v \<le> threshold)"

definition wants_larger :: "gate_comparison \<Rightarrow> bool" where
  "wants_larger c \<longleftrightarrow> c \<in> {CMP_GT, CMP_GTE}"

datatype gate_status = GATE_PASS | GATE_FAIL | GATE_NOT_APPLICABLE | GATE_NOT_EVALUATED

fun gate_status_value :: "gate_status \<Rightarrow> string" where
  "gate_status_value GATE_PASS = ''pass''"
| "gate_status_value GATE_FAIL = ''fail''"
| "gate_status_value GATE_NOT_APPLICABLE = ''not_applicable''"
| "gate_status_value GATE_NOT_EVALUATED = ''not_evaluated''"

definition status_blocks :: "gate_status \<Rightarrow> bool" where
  "status_blocks s \<longleftrightarrow> s \<in> {GATE_FAIL, GATE_NOT_EVALUATED}"

record gate =
  gt_name :: string
  gt_metric :: string
  gt_comparison :: gate_comparison
  gt_threshold :: flt
  gt_rung :: int
  gt_boolean :: bool
  gt_units :: string

abbreviation mk_gate :: "string \<Rightarrow> string \<Rightarrow> gate_comparison \<Rightarrow> flt \<Rightarrow> int \<Rightarrow> bool \<Rightarrow> string \<Rightarrow> gate" where
  "mk_gate name metric c threshold rung bool units \<equiv>
     \<lparr>gt_name = name, gt_metric = metric, gt_comparison = c, gt_threshold = threshold, gt_rung = rung, gt_boolean = bool,
      gt_units = units\<rparr>"

record gate_result =
  gr_gate :: gate
  gr_value :: "flt option"
  gr_status :: gate_status

definition gate_evaluate :: "gate \<Rightarrow> flt option \<Rightarrow> bool \<Rightarrow> gate_result" where
  "gate_evaluate g value applicable =
     (if \<not> applicable then \<lparr>gr_gate = g, gr_value = None, gr_status = GATE_NOT_APPLICABLE\<rparr>
      else case value of
        None \<Rightarrow> \<lparr>gr_gate = g, gr_value = None, gr_status = GATE_NOT_EVALUATED\<rparr>
      | Some v \<Rightarrow>
          if \<not> is_finite v then \<lparr>gr_gate = g, gr_value = Some v, gr_status = GATE_NOT_EVALUATED\<rparr>
          else \<lparr>gr_gate = g, gr_value = Some v,
                 gr_status = (if comparison_holds (gt_comparison g) v (gt_threshold g) then GATE_PASS else GATE_FAIL)\<rparr>)"

definition shortfall :: "gate_result \<Rightarrow> flt option" where
  "shortfall r =
     (case gr_value r of
        None \<Rightarrow> None
      | Some v \<Rightarrow>
          if \<not> is_finite v then None
          else Some (py_max (Fin 0)
            (if wants_larger (gt_comparison (gr_gate r)) then gt_threshold (gr_gate r) - v else v - gt_threshold (gr_gate r))))"

definition gate_to_dict :: "gate \<Rightarrow> jdict" where
  "gate_to_dict g =
     [(''name'', JStr (gt_name g)), (''metric'', JStr (gt_metric g)), (''comparison'', JStr (comparison_value (gt_comparison g))),
      (''threshold'', JFloat (gt_threshold g)), (''rung'', JInt (gt_rung g)), (''boolean'', JBool (gt_boolean g)),
      (''units'', JStr (gt_units g))]"

record gate_set =
  gs_version :: string
  gs_gates :: "gate list"

definition gate_set_post_init :: "gate_set \<Rightarrow> pyexn + gate_set" where
  "gate_set_post_init G =
     (if distinct (map gt_name (gs_gates G)) then Inr G
      else Inl (ValueError (lit ''gate names must be unique within a GateSet'')))"

definition by_name :: "string \<Rightarrow> gate_set \<Rightarrow> pyexn + gate" where
  "by_name name G =
     (case List.find (\<lambda>g. gt_name g = name) (gs_gates G) of None \<Rightarrow> Inl (KeyError (lit name)) | Some g \<Rightarrow> Inr g)"

text \<open>A metric mapping: an absent key and a key bound to \<open>None\<close> read the same.\<close>

type_synonym metric_values = "(string \<times> flt option) list"

definition metric_of :: "metric_values \<Rightarrow> string \<Rightarrow> flt option" where
  "metric_of values m = (case map_of values m of Some (Some v) \<Rightarrow> Some v | _ \<Rightarrow> None)"

definition gate_set_evaluate :: "gate_set \<Rightarrow> metric_values \<Rightarrow> string list \<Rightarrow> gate_result list" where
  "gate_set_evaluate G values waived =
     map (\<lambda>g. gate_evaluate g (metric_of values (gt_metric g)) (gt_name g \<notin> set waived)) (gs_gates G)"

text \<open>The blocking result on the lowest rung, the first of them in declaration order.\<close>

fun lowest_rung :: "gate_result \<Rightarrow> gate_result list \<Rightarrow> gate_result" where
  "lowest_rung best [] = best"
| "lowest_rung best (r # rs) = lowest_rung (if gt_rung (gr_gate r) < gt_rung (gr_gate best) then r else best) rs"

definition binding_gate :: "gate_result list \<Rightarrow> gate_result option" where
  "binding_gate results =
     (case filter (\<lambda>r. status_blocks (gr_status r)) results of [] \<Rightarrow> None | r # rs \<Rightarrow> Some (lowest_rung r rs))"

definition gate_set_payload :: "gate_set \<Rightarrow> jdict" where
  "gate_set_payload G =
     [(''version'', JStr (gs_version G)), (''gates'', JList (map (JDict \<circ> gate_to_dict) (gs_gates G)))]"

definition gate_set_fingerprint :: "lc_env \<Rightarrow> gate_set \<Rightarrow> string" where
  "gate_set_fingerprint E G = json_digest E (gate_set_payload G)"

definition with_overrides :: "string \<Rightarrow> (string \<times> flt) list \<Rightarrow> gate_set \<Rightarrow> pyexn + gate_set" where
  "with_overrides version thresholds G =
     (if list_ex (\<lambda>k. k \<notin> gt_name ` set (gs_gates G)) (map fst thresholds)
      then Inl (KeyError (lit ''unknown gate(s)''))
      else gate_set_post_init
        \<lparr>gs_version = version,
         gs_gates = map (\<lambda>g. g\<lparr>gt_threshold := (case map_of thresholds (gt_name g) of Some x \<Rightarrow> x | None \<Rightarrow> gt_threshold g)\<rparr>)
           (gs_gates G)\<rparr>)"


section \<open>The published gate sets\<close>

definition GATE_SET_V2 :: gate_set where
  "GATE_SET_V2 = \<lparr>gs_version = ''v2.0.0-audit'', gs_gates = [
     mk_gate ''min_trades'' ''n_trades'' CMP_GTE (Fin 400) 0 False ''trades'',
     mk_gate ''walk_forward_efficiency'' ''walk_forward_efficiency'' CMP_GTE (Fin 50) 2 False ''%'',
     mk_gate ''oos_window_hit_rate'' ''oos_profitable_fraction'' CMP_GTE (Fin (6 / 10)) 2 False ''fraction'',
     mk_gate ''deflated_sharpe'' ''deflated_sharpe_ratio'' CMP_GT (Fin (95 / 100)) 5 False ''probability'',
     mk_gate ''pbo'' ''pbo'' CMP_LT (Fin (2 / 10)) 5 False ''probability'',
     mk_gate ''spa_consistent_p'' ''spa_p_consistent'' CMP_LT (Fin (5 / 100)) 5 False ''p-value'',
     mk_gate ''stepm_survivor'' ''stepm_member'' CMP_GTE (Fin 1) 5 True [],
     mk_gate ''survives_2x_spread'' ''net_profit_at_2x_spread'' CMP_GT (Fin 0) 4 False ''account ccy'',
     mk_gate ''parameter_plateau'' ''point_plateau_ratio'' CMP_LTE (Fin (125 / 100)) 4 False ''ratio'']\<rparr>"

definition CANDIDATE_REPLACEMENTS :: "(string \<times> gate list) list" where
  "CANDIDATE_REPLACEMENTS = [
    (''min_trades'', [
     mk_gate ''min_track_record'' ''n_trades_over_min_trl'' CMP_GTE (Fin 1) 0 False ''ratio'']),
    (''walk_forward_efficiency'', [
     mk_gate ''walk_forward_min_oos_trades'' ''walk_forward_min_oos_trades'' CMP_GTE (Fin 30) 2 False ''trades'',
     mk_gate ''walk_forward_efficiency_log_growth'' ''walk_forward_efficiency_log_growth'' CMP_GTE (Fin 50) 2 False ''%'']),
    (''oos_window_hit_rate'', [
     mk_gate ''oos_window_hit_rate_wilson'' ''oos_profitable_fraction_wilson_lower'' CMP_GT (Fin (5 / 10)) 2 False ''fraction'']),
    (''parameter_plateau'', [
     mk_gate ''plateau_neighbourhood_median'' ''plateau_neighbourhood_median_ratio'' CMP_GTE (Fin (6 / 10)) 4 False ''ratio'',
     mk_gate ''plateau_neighbourhood_min'' ''plateau_neighbourhood_min'' CMP_GT (Fin 0) 4 False ''score'']),
    (''deflated_sharpe'', [
     mk_gate ''deflated_sharpe_family_n'' ''deflated_sharpe_ratio_family_n'' CMP_GT (Fin (95 / 100)) 5 False ''probability''])]"

definition CANDIDATE_VERSION_PREFIX :: string where
  "CANDIDATE_VERSION_PREFIX = ''v2.1.0-candidate:''"

definition candidate_set :: "string \<Rightarrow> string list \<Rightarrow> gate_set" where
  "candidate_set name replaced =
     \<lparr>gs_version = CANDIDATE_VERSION_PREFIX @ name,
      gs_gates = concat (map (\<lambda>g. if gt_name g \<in> set replaced
        then (case map_of CANDIDATE_REPLACEMENTS (gt_name g) of Some gs \<Rightarrow> gs | None \<Rightarrow> []) else [g]) (gs_gates GATE_SET_V2))\<rparr>"

definition GATE_SET_V2_1_CALIBRATED :: gate_set where
  "GATE_SET_V2_1_CALIBRATED =
     \<lparr>gs_version = ''v2.1.0-calibrated'',
      gs_gates = gs_gates (candidate_set ''calibrated'' [''min_trades'', ''walk_forward_efficiency'', ''parameter_plateau''])\<rparr>"

definition PRODUCTION_GATE_SET :: gate_set where
  "PRODUCTION_GATE_SET = GATE_SET_V2_1_CALIBRATED"

definition GATE_SET_V2_1_CANDIDATES :: "(string \<times> gate_set) list" where
  "GATE_SET_V2_1_CANDIDATES =
     [(''c_min_trl'', candidate_set ''c_min_trl'' [''min_trades'']),
      (''c_wfe_log'', candidate_set ''c_wfe_log'' [''walk_forward_efficiency'']),
      (''c_hit_wilson'', candidate_set ''c_hit_wilson'' [''oos_window_hit_rate'']),
      (''c_plateau_median'', candidate_set ''c_plateau_median'' [''parameter_plateau'']),
      (''c_dsr_family'', candidate_set ''c_dsr_family'' [''deflated_sharpe'']),
      (''c_all'', candidate_set ''c_all'' (map fst CANDIDATE_REPLACEMENTS)),
      (''c_hit_8fold'', projr (with_overrides (CANDIDATE_VERSION_PREFIX @ ''c_hit_8fold'')
         [(''oos_window_hit_rate'', Fin (625 / 1000))] GATE_SET_V2))]"

definition MIN_TRL_FLOOR_TRADES :: int where
  "MIN_TRL_FLOOR_TRADES = 150"

definition uses_min_trl_gate :: "gate_set \<Rightarrow> bool" where
  "uses_min_trl_gate G \<longleftrightarrow>
     \<not> (case by_name ''min_trades'' G of Inr g \<Rightarrow> gt_metric g = ''n_trades'' | Inl _ \<Rightarrow> False)
     \<and> list_ex (\<lambda>g. gt_metric g = ''n_trades_over_min_trl'') (gs_gates G)"

text \<open>\<open>int(threshold)\<close> truncates, and raises on an infinity or a NaN.\<close>

fun int_of_flt :: "flt \<Rightarrow> pyexn + int" where
  "int_of_flt (Fin r) = Inr (if r < 0 then \<lceil>r\<rceil> else \<lfloor>r\<rfloor>)"
| "int_of_flt NaN = Inl (ValueError (lit ''cannot convert float NaN to integer''))"
| "int_of_flt _ = Inl (PyExn ''OverflowError'' (lit ''cannot convert float infinity to integer''))"

definition sanity_trade_floor :: "gate_set \<Rightarrow> pyexn + int" where
  "sanity_trade_floor G =
     (if uses_min_trl_gate G then Inr MIN_TRL_FLOOR_TRADES
      else rbind (by_name ''min_trades'' G) (\<lambda>g. int_of_flt (gt_threshold g)))"


section \<open>The validation report\<close>

datatype rung_outcome = RUNG_PASS | RUNG_FAIL | RUNG_NOT_REACHED | RUNG_ERROR

record rung_result =
  rr_index :: int
  rr_name :: string
  rr_outcome :: rung_outcome
  rr_reason :: ftext

definition rung_post_init :: "rung_result \<Rightarrow> pyexn + rung_result" where
  "rung_post_init r =
     (if rr_outcome r \<in> {RUNG_FAIL, RUNG_ERROR} \<and> rr_reason r = []
      then Inl (ValueError [Lit ''rung '', Lit (show_int (rr_index r)), Lit '' rejected without a reason'']) else Inr r)"

definition rung_label :: "rung_result \<Rightarrow> string" where
  "rung_label r = ''RUNG '' @ show_int (rr_index r) @ '' '' @ rr_name r"

datatype verdict = VERDICT_PROMOTE | VERDICT_REJECT | VERDICT_INCOMPLETE

fun verdict_value :: "verdict \<Rightarrow> string" where
  "verdict_value VERDICT_PROMOTE = ''promote''"
| "verdict_value VERDICT_REJECT = ''reject''"
| "verdict_value VERDICT_INCOMPLETE = ''incomplete''"

definition promotable :: "verdict \<Rightarrow> bool" where
  "promotable v \<longleftrightarrow> v = VERDICT_PROMOTE"

record binding_constraint =
  bc_kind :: string
  bc_name :: string
  bc_rung_index :: int
  bc_reason :: ftext
  bc_observed :: "flt option"
  bc_required :: "flt option"
  bc_comparison :: string
  bc_shortfall :: "flt option"

definition no_binding :: binding_constraint where
  "no_binding =
     \<lparr>bc_kind = ''none'', bc_name = [], bc_rung_index = -1, bc_reason = lit ''no gate or rung blocked'', bc_observed = None,
      bc_required = None, bc_comparison = [], bc_shortfall = None\<rparr>"

definition gate_text :: "gate_result \<Rightarrow> ftext" where
  "gate_text r =
     (case gr_value r of
        None \<Rightarrow> [Lit (gt_name (gr_gate r)), Lit '': '', Lit (gate_status_value (gr_status r))]
      | Some v \<Rightarrow> [Lit (gt_name (gr_gate r)), Lit '': '', Repr v, Lit '' -> '', Lit (gate_status_value (gr_status r))])"

definition binding_from_gate :: "gate_result \<Rightarrow> ftext \<Rightarrow> binding_constraint" where
  "binding_from_gate r reason =
     \<lparr>bc_kind = ''gate'', bc_name = gt_name (gr_gate r), bc_rung_index = gt_rung (gr_gate r),
      bc_reason = (if reason = [] then gate_text r else reason), bc_observed = gr_value r,
      bc_required = Some (gt_threshold (gr_gate r)), bc_comparison = comparison_value (gt_comparison (gr_gate r)),
      bc_shortfall = shortfall r\<rparr>"

definition binding_from_rung :: "rung_result \<Rightarrow> binding_constraint" where
  "binding_from_rung r =
     no_binding\<lparr>bc_kind := ''rung'', bc_name := rung_label r, bc_rung_index := rr_index r, bc_reason := rr_reason r\<rparr>"

record validation_report =
  vr_strategy_id :: string
  vr_strategy_content_hash :: string
  vr_gate_set_version :: string
  vr_gate_set_fingerprint :: string
  vr_gate_results :: "gate_result list"
  vr_rungs :: "rung_result list"
  vr_verdict :: verdict
  vr_binding :: binding_constraint
  vr_recommendation :: lifecycle

text \<open>The verdict of a report is derived from its rungs and gates: the failing rung first, then the binding gate, then the rungs
  never run.\<close>

definition first_failing :: "rung_result list \<Rightarrow> rung_result option" where
  "first_failing rungs = List.find (\<lambda>r. rr_outcome r \<in> {RUNG_FAIL, RUNG_ERROR}) (sort_key rr_index rungs)"

definition derive_verdict :: "gate_result list \<Rightarrow> rung_result list \<Rightarrow> verdict \<times> binding_constraint" where
  "derive_verdict gates rungs =
     (case first_failing rungs of
        Some r \<Rightarrow>
          (VERDICT_REJECT,
           case List.find (\<lambda>g. gt_rung (gr_gate g) = rr_index r \<and> status_blocks (gr_status g)) gates of
             Some g \<Rightarrow> binding_from_gate g (rr_reason r)
           | None \<Rightarrow> binding_from_rung r)
      | None \<Rightarrow>
          (case binding_gate gates of
             Some g \<Rightarrow> (if gr_status g = GATE_NOT_EVALUATED then VERDICT_INCOMPLETE else VERDICT_REJECT, binding_from_gate g [])
           | None \<Rightarrow>
               (case sort_key rr_index (filter (\<lambda>r. rr_outcome r = RUNG_NOT_REACHED) rungs) of
                  r # _ \<Rightarrow> (VERDICT_INCOMPLETE, (binding_from_rung r)\<lparr>bc_reason := lit ''the ladder did not run every rung''\<rparr>)
                | [] \<Rightarrow> (VERDICT_PROMOTE, no_binding))))"

definition build_report ::
  "lc_env \<Rightarrow> string \<Rightarrow> string \<Rightarrow> gate_set \<Rightarrow> gate_result list \<Rightarrow> rung_result list \<Rightarrow> validation_report" where
  "build_report E sid h G gates rungs =
     (let (v, b) = derive_verdict gates rungs in
      \<lparr>vr_strategy_id = sid, vr_strategy_content_hash = h, vr_gate_set_version = gs_version G,
       vr_gate_set_fingerprint = gate_set_fingerprint E G, vr_gate_results = gates, vr_rungs = rungs, vr_verdict = v,
       vr_binding = b, vr_recommendation = (if promotable v then LC_CANDIDATE else LC_RESEARCH)\<rparr>)"


section \<open>What the gates decide\<close>

lemma not_blocked_iff:
  "\<not> status_blocks (gr_status (gate_evaluate g v applicable)) \<longleftrightarrow>
     \<not> applicable \<or> (\<exists>x. v = Some x \<and> is_finite x \<and> comparison_holds (gt_comparison g) x (gt_threshold g))"
  by (auto simp: gate_evaluate_def status_blocks_def split: option.splits)

text \<open>No gate of a set blocks exactly when every gate that is not waived has a finite value on the right side of its threshold.\<close>

lemma none_blocks_iff:
  "list_all (\<lambda>r. \<not> status_blocks (gr_status r)) (gate_set_evaluate G values waived) \<longleftrightarrow>
     (\<forall>g \<in> set (gs_gates G). gt_name g \<in> set waived
        \<or> (\<exists>x. metric_of values (gt_metric g) = Some x \<and> is_finite x \<and> comparison_holds (gt_comparison g) x (gt_threshold g)))"
  by (auto simp: gate_set_evaluate_def list_all_iff not_blocked_iff)

lemma binding_gate_None: "binding_gate rs = None \<longleftrightarrow> list_all (\<lambda>r. \<not> status_blocks (gr_status r)) rs"
  by (auto simp: binding_gate_def list_all_iff filter_empty_conv split: list.splits dest: filter_eq_ConsD)

lemma first_failing_None: "first_failing rungs = None \<longleftrightarrow> list_all (\<lambda>r. rr_outcome r \<notin> {RUNG_FAIL, RUNG_ERROR}) rungs"
  by (auto simp: first_failing_def find_None_iff list_all_iff)

text \<open>A report promotes exactly when every rung ran and passed and no gate blocks.\<close>

lemma verdict_promotes_iff:
  "fst (derive_verdict gates rungs) = VERDICT_PROMOTE \<longleftrightarrow>
     list_all (\<lambda>r. rr_outcome r = RUNG_PASS) rungs \<and> list_all (\<lambda>g. \<not> status_blocks (gr_status g)) gates"
proof (cases "first_failing rungs")
  case (Some r)
  then obtain i where i: "i < length (sort_key rr_index rungs)" "r = sort_key rr_index rungs ! i" and out: "rr_outcome r \<in> {RUNG_FAIL, RUNG_ERROR}"
    unfolding first_failing_def find_Some_iff by blast
  have "r \<in> set rungs" using nth_mem [OF i(1)] i(2) by simp
  then have "\<exists>r \<in> set rungs. rr_outcome r \<noteq> RUNG_PASS" using out by (intro bexI [of _ r]) auto
  then have "\<not> list_all (\<lambda>r. rr_outcome r = RUNG_PASS) rungs" by (simp add: list_all_iff)
  then show ?thesis using Some by (simp add: derive_verdict_def)
next
  case None
  have known: "rr_outcome r = RUNG_PASS \<or> rr_outcome r = RUNG_NOT_REACHED" if "r \<in> set rungs" for r
  proof -
    have "rr_outcome r \<notin> {RUNG_FAIL, RUNG_ERROR}" using None first_failing_None [of rungs] that by (simp add: list_all_iff)
    then show ?thesis by (cases "rr_outcome r") simp_all
  qed
  have empty: "sort_key rr_index (filter (\<lambda>r. rr_outcome r = RUNG_NOT_REACHED) rungs) = [] \<longleftrightarrow>
      (\<forall>r \<in> set rungs. rr_outcome r \<noteq> RUNG_NOT_REACHED)"
  proof -
    have "length (sort_key rr_index xs) = length xs" for xs :: "rung_result list" by simp
    then have "sort_key rr_index xs = [] \<longleftrightarrow> xs = []" for xs :: "rung_result list" by (metis length_0_conv)
    then show ?thesis by (simp add: filter_empty_conv)
  qed
  have passed: "(\<forall>r \<in> set rungs. rr_outcome r \<noteq> RUNG_NOT_REACHED) \<longleftrightarrow> list_all (\<lambda>r. rr_outcome r = RUNG_PASS) rungs"
    using known by (auto simp: list_all_iff)
  show ?thesis
  proof (cases "binding_gate gates")
    case None
    show ?thesis
      using \<open>first_failing rungs = None\<close> None binding_gate_None [of gates] empty passed
      by (cases "sort_key rr_index (filter (\<lambda>r. rr_outcome r = RUNG_NOT_REACHED) rungs)") (simp_all add: derive_verdict_def)
  next
    case (Some g)
    then show ?thesis
      using \<open>first_failing rungs = None\<close> binding_gate_None [of gates] by (simp add: derive_verdict_def)
  qed
qed

end
