(* ===== verification/Promotion.thy ===== *)
theory Promotion
  imports Promotion_Gates
begin

text \<open>
  Promotion criteria, \<open>lifecycle/promotion.py\<close>: the evidence a caller brings, one rule per step of the ladder (a gate set and what
  must exist besides numbers), the versioned rule set, the decision, and the published rules. Texts are abbreviated; the clock is an
  argument.
\<close>

abbreviation UnknownPromotion :: "ftext \<Rightarrow> pyexn" where
  "UnknownPromotion \<equiv> PyExn ''UnknownPromotion''"

record promotion_evidence =
  pe_metrics :: metric_values
  pe_validation_report :: "validation_report option"
  pe_holdout_consumption_count :: "int option"
  pe_human_authorisation :: "human_auth option"
  pe_not_applicable :: "string list"

record promotion_rule =
  pr_from :: lifecycle
  pr_to :: lifecycle
  pr_requires_validation_report :: bool
  pr_requires_holdout_consumed_once :: bool
  pr_requires_human_authorisation :: bool
  pr_gate_set :: gate_set

abbreviation pr_key :: "promotion_rule \<Rightarrow> lifecycle \<times> lifecycle" where
  "pr_key r \<equiv> (pr_from r, pr_to r)"

definition pr_label :: "promotion_rule \<Rightarrow> string" where
  "pr_label r = lc_value (pr_from r) @ ''->'' @ lc_value (pr_to r)"

definition promotion_rule_to_dict :: "lc_env \<Rightarrow> promotion_rule \<Rightarrow> jdict" where
  "promotion_rule_to_dict E r =
     [(''from'', JStr (lc_value (pr_from r))), (''to'', JStr (lc_value (pr_to r))),
      (''requires_validation_report'', JBool (pr_requires_validation_report r)),
      (''requires_holdout_consumed_once'', JBool (pr_requires_holdout_consumed_once r)),
      (''requires_human_authorisation'', JBool (pr_requires_human_authorisation r)),
      (''gate_set'', JDict (gate_set_payload (pr_gate_set r) @
         [(''fingerprint'', JStr (gate_set_fingerprint E (pr_gate_set r)))]))]"

record promotion_rule_set =
  ps_version :: string
  ps_rules :: "promotion_rule list"

definition rule_set_post_init :: "promotion_rule_set \<Rightarrow> pyexn + promotion_rule_set" where
  "rule_set_post_init R =
     (if distinct (map pr_key (ps_rules R)) then Inr R
      else Inl (ValueError (lit ''a PromotionRuleSet may hold at most one rule per transition'')))"

definition promotion_rule_for :: "promotion_rule_set \<Rightarrow> lifecycle \<Rightarrow> lifecycle \<Rightarrow> pyexn + promotion_rule" where
  "promotion_rule_for R f t =
     (case List.find (\<lambda>r. pr_key r = (f, t)) (ps_rules R) of
        Some r \<Rightarrow> Inr r
      | None \<Rightarrow> Inl (UnknownPromotion [Lit ''no promotion rule for '', Lit (lc_value f), Lit '' -> '', Lit (lc_value t)]))"

definition has_rule :: "promotion_rule_set \<Rightarrow> lifecycle \<Rightarrow> lifecycle \<Rightarrow> bool" where
  "has_rule R f t \<longleftrightarrow> list_ex (\<lambda>r. pr_key r = (f, t)) (ps_rules R)"

definition rule_set_fingerprint :: "lc_env \<Rightarrow> promotion_rule_set \<Rightarrow> string" where
  "rule_set_fingerprint E R =
     json_digest E [(''version'', JStr (ps_version R)), (''rules'', JList (map (JDict \<circ> promotion_rule_to_dict E) (ps_rules R)))]"

definition uncovered_promotions :: "promotion_rule_set \<Rightarrow> lifecycle_transition list \<Rightarrow> string list" where
  "uncovered_promotions R ts =
     sort (map (\<lambda>e. lc_value (lt_from e) @ ''->'' @ lc_value (lt_to e))
       (filter (\<lambda>e. lt_kind e = PROMOTION \<and> \<not> has_rule R (lt_from e) (lt_to e)) ts))"

record promotion_decision =
  pd_rule :: promotion_rule
  pd_ruleset_version :: string
  pd_ruleset_fingerprint :: string
  pd_gate_results :: "gate_result list"
  pd_structural_failures :: "ftext list"
  pd_evaluated_at :: tstamp

definition failed_gates :: "promotion_decision \<Rightarrow> gate_result list" where
  "failed_gates d = filter (\<lambda>g. status_blocks (gr_status g)) (pd_gate_results d)"

definition pd_allowed :: "promotion_decision \<Rightarrow> bool" where
  "pd_allowed d \<longleftrightarrow> pd_structural_failures d = [] \<and> failed_gates d = []"

definition pd_binding :: "promotion_decision \<Rightarrow> ftext" where
  "pd_binding d =
     (case pd_structural_failures d of
        f # _ \<Rightarrow> f
      | [] \<Rightarrow> (case binding_gate (pd_gate_results d) of None \<Rightarrow> [] | Some g \<Rightarrow> gate_text g))"

definition decision_text :: "promotion_decision \<Rightarrow> ftext" where
  "decision_text d =
     [Lit (pr_label (pd_rule d)), Lit '' under '', Lit (pd_ruleset_version d)]
     @ (if pd_allowed d then lit '': ALLOWED'' else Lit '': REFUSED -- '' # pd_binding d)"

definition check_report :: "lc_env \<Rightarrow> promotion_rule \<Rightarrow> promotion_evidence \<Rightarrow> ftext list" where
  "check_report E rule ev =
     (case pe_validation_report ev of
        None \<Rightarrow> [[Lit (pr_label rule), Lit '' requires a ValidationReport and none was supplied'']]
      | Some report \<Rightarrow>
          (if promotable (vr_verdict report) then []
           else [[Lit ''the ValidationReport verdict is '', Lit (upper (verdict_value (vr_verdict report)))]])
          @ (if vr_gate_set_fingerprint report = gate_set_fingerprint E PRODUCTION_GATE_SET then []
             else [[Lit ''the ValidationReport was produced under gate set '', Lit (vr_gate_set_version report),
                    Lit '', not the production set '', Lit (gs_version PRODUCTION_GATE_SET)]])
          @ (if list_ex (\<lambda>g. gr_status g = GATE_NOT_EVALUATED) (vr_gate_results report)
             then [lit ''the ValidationReport has unevaluated gates''] else []))"

definition check_holdout :: "promotion_evidence \<Rightarrow> ftext list" where
  "check_holdout ev =
     (case pe_holdout_consumption_count ev of
        None \<Rightarrow> [lit ''holdout consumption was never checked'']
      | Some n \<Rightarrow>
          if n = 0 then [lit ''the holdout has not been consumed'']
          else if n > 1 then [[Lit ''the holdout was consumed '', Lit (show_int n), Lit '' times; it may be consumed exactly once'']]
          else [])"

definition check_step_authorisation :: "promotion_rule \<Rightarrow> string \<Rightarrow> lifecycle \<Rightarrow> promotion_evidence \<Rightarrow> ftext list" where
  "check_step_authorisation rule h t ev =
     (case pe_human_authorisation ev of
        None \<Rightarrow> [[Lit (pr_label rule), Lit '' requires a written human authorisation; none supplied'']]
      | Some a \<Rightarrow>
          if h \<noteq> [] \<and> \<not> auth_matches a h t
          then [[Lit ''the supplied human authorisation names '', Lit (take 12 (ha_strategy_content_hash a)), Lit '' -> '',
                 Lit (lc_value (ha_to_state a))]]
          else [])"

definition evaluate_promotion ::
  "lc_env \<Rightarrow> promotion_rule_set \<Rightarrow> lifecycle \<Rightarrow> lifecycle \<Rightarrow> promotion_evidence \<Rightarrow> string \<Rightarrow> tstamp \<Rightarrow> pyexn + promotion_decision" where
  "evaluate_promotion E R f t ev h now =
     rbind (promotion_rule_for R f t) (\<lambda>rule.
       Inr \<lparr>pd_rule = rule, pd_ruleset_version = ps_version R, pd_ruleset_fingerprint = rule_set_fingerprint E R,
            pd_gate_results = gate_set_evaluate (pr_gate_set rule) (pe_metrics ev) (pe_not_applicable ev),
            pd_structural_failures =
              (if pr_requires_validation_report rule then check_report E rule ev else [])
              @ (if pr_requires_holdout_consumed_once rule then check_holdout ev else [])
              @ (if pr_requires_human_authorisation rule then check_step_authorisation rule h t ev else []),
            pd_evaluated_at = now\<rparr>)"


section \<open>The published rules\<close>

definition DISCOVERY_TO_RESEARCH :: promotion_rule where
  "DISCOVERY_TO_RESEARCH =
     \<lparr>pr_from = LC_DISCOVERY, pr_to = LC_RESEARCH, pr_requires_validation_report = False, pr_requires_holdout_consumed_once = False,
      pr_requires_human_authorisation = False,
      pr_gate_set = \<lparr>gs_version = ''lifecycle_discovery_research_v1'', gs_gates = [
     mk_gate ''hypothesis_states_evidence_against'' ''hypothesis_states_evidence_against'' CMP_GTE (Fin 1) (-1) True [],
     mk_gate ''structurally_novel'' ''structurally_novel'' CMP_GTE (Fin 1) (-1) True []]\<rparr>\<rparr>"

definition RESEARCH_TO_VALIDATING :: promotion_rule where
  "RESEARCH_TO_VALIDATING =
     \<lparr>pr_from = LC_RESEARCH, pr_to = LC_VALIDATING, pr_requires_validation_report = False, pr_requires_holdout_consumed_once = False,
      pr_requires_human_authorisation = False,
      pr_gate_set = \<lparr>gs_version = ''lifecycle_research_validating_v1'', gs_gates = [
     mk_gate ''screen_trades'' ''in_sample_trades'' CMP_GTE (Fin 100) (-1) False ''trades'',
     mk_gate ''screen_sharpe'' ''in_sample_sharpe'' CMP_GTE (Fin (3 / 10)) (-1) False [],
     mk_gate ''parameter_count'' ''parameter_count'' CMP_LTE (Fin 8) (-1) False ''parameters'']\<rparr>\<rparr>"

definition VALIDATING_TO_CANDIDATE :: promotion_rule where
  "VALIDATING_TO_CANDIDATE =
     \<lparr>pr_from = LC_VALIDATING, pr_to = LC_CANDIDATE, pr_requires_validation_report = True, pr_requires_holdout_consumed_once = True,
      pr_requires_human_authorisation = False,
      pr_gate_set = \<lparr>gs_version = ''lifecycle_validating_candidate_v1'', gs_gates = [
     mk_gate ''external_trial_count_declared'' ''external_trial_count'' CMP_GTE (Fin 1) (-1) False ''trials'']\<rparr>\<rparr>"

definition CANDIDATE_TO_PAPER :: promotion_rule where
  "CANDIDATE_TO_PAPER =
     \<lparr>pr_from = LC_CANDIDATE, pr_to = LC_PAPER, pr_requires_validation_report = False, pr_requires_holdout_consumed_once = False,
      pr_requires_human_authorisation = False,
      pr_gate_set = \<lparr>gs_version = ''lifecycle_candidate_paper_v1'', gs_gates = [
     mk_gate ''live_execution_disabled'' ''live_execution_disabled'' CMP_GTE (Fin 1) (-1) True [],
     mk_gate ''risk_limits_reviewed'' ''risk_limits_reviewed'' CMP_GTE (Fin 1) (-1) True [],
     mk_gate ''stopping_rules_pre_registered'' ''stopping_rules_pre_registered'' CMP_GTE (Fin 3) (-1) False ''rules'']\<rparr>\<rparr>"

definition FORWARD_AGREEMENT :: "gate list" where
  "FORWARD_AGREEMENT = [
     mk_gate ''forward_sharpe_agreement'' ''forward_to_backtest_sharpe_ratio'' CMP_GTE (Fin (5 / 10)) (-1) False ''ratio'',
     mk_gate ''no_divergent_dimensions'' ''divergence_dimensions_flagged'' CMP_LTE (Fin 0) (-1) False ''dimensions'']"

definition PAPER_TO_SHADOW :: promotion_rule where
  "PAPER_TO_SHADOW =
     \<lparr>pr_from = LC_PAPER, pr_to = LC_SHADOW, pr_requires_validation_report = False, pr_requires_holdout_consumed_once = False,
      pr_requires_human_authorisation = False,
      pr_gate_set = \<lparr>gs_version = ''lifecycle_paper_shadow_v1'', gs_gates = [
     mk_gate ''min_days_in_paper'' ''days_in_state'' CMP_GTE (Fin 30) (-1) False ''days'',
     mk_gate ''min_paper_trades'' ''forward_trades'' CMP_GTE (Fin 40) (-1) False ''trades'',
     mk_gate ''max_heartbeat_gap'' ''max_unexplained_heartbeat_gap_hours'' CMP_LTE (Fin 1) (-1) False ''hours''] @ FORWARD_AGREEMENT\<rparr>\<rparr>"

definition SHADOW_TO_DEMO :: promotion_rule where
  "SHADOW_TO_DEMO =
     \<lparr>pr_from = LC_SHADOW, pr_to = LC_DEMO, pr_requires_validation_report = False, pr_requires_holdout_consumed_once = False,
      pr_requires_human_authorisation = False,
      pr_gate_set = \<lparr>gs_version = ''lifecycle_shadow_demo_v1'', gs_gates = [
     mk_gate ''min_days_in_shadow'' ''days_in_state'' CMP_GTE (Fin 14) (-1) False ''days'',
     mk_gate ''min_shadow_trades'' ''forward_trades'' CMP_GTE (Fin 20) (-1) False ''trades'',
     mk_gate ''worker_kill_alert_proven'' ''worker_kill_alert_proven'' CMP_GTE (Fin 1) (-1) True [],
     mk_gate ''reconciliation_clean_days'' ''reconciliation_clean_days'' CMP_GTE (Fin 7) (-1) False ''days''] @ FORWARD_AGREEMENT\<rparr>\<rparr>"

definition DEMO_TO_APPROVED :: promotion_rule where
  "DEMO_TO_APPROVED =
     \<lparr>pr_from = LC_DEMO, pr_to = LC_APPROVED, pr_requires_validation_report = False, pr_requires_holdout_consumed_once = False,
      pr_requires_human_authorisation = False,
      pr_gate_set = \<lparr>gs_version = ''lifecycle_demo_approved_v1'', gs_gates = [
     mk_gate ''min_days_in_demo'' ''days_in_state'' CMP_GTE (Fin 90) (-1) False ''days'',
     mk_gate ''min_demo_trades'' ''forward_trades'' CMP_GTE (Fin 100) (-1) False ''trades'',
     mk_gate ''sharpe_inside_backtest_ci'' ''sharpe_inside_backtest_bootstrap_ci'' CMP_GTE (Fin 1) (-1) True [],
     mk_gate ''realised_cost_ratio'' ''realised_cost_to_modelled_ratio'' CMP_LTE (Fin (15 / 10)) (-1) False ''ratio'',
     mk_gate ''unreconciled_fills'' ''unreconciled_fills'' CMP_LTE (Fin 0) (-1) False ''fills''] @ FORWARD_AGREEMENT\<rparr>\<rparr>"

definition APPROVED_TO_LIVE :: promotion_rule where
  "APPROVED_TO_LIVE =
     \<lparr>pr_from = LC_APPROVED, pr_to = LC_LIVE, pr_requires_validation_report = False, pr_requires_holdout_consumed_once = False,
      pr_requires_human_authorisation = True,
      pr_gate_set = \<lparr>gs_version = ''lifecycle_approved_live_v1'', gs_gates = [
     mk_gate ''min_days_in_approved'' ''days_in_state'' CMP_GTE (Fin 14) (-1) False ''days'',
     mk_gate ''kill_switch_drill_completed'' ''kill_switch_drill_completed'' CMP_GTE (Fin 1) (-1) True [],
     mk_gate ''approximations_accepted_in_writing'' ''approximations_accepted_in_writing'' CMP_GTE (Fin 1) (-1) True [],
     mk_gate ''stopping_rules_pre_registered'' ''stopping_rules_pre_registered'' CMP_GTE (Fin 3) (-1) False ''rules'',
     mk_gate ''stopping_rules_registered_before_forward_data'' ''stopping_rules_registered_before_forward_data'' CMP_GTE (Fin 1) (-1) True []] @ FORWARD_AGREEMENT\<rparr>\<rparr>"

definition PROMOTION_RULES_V1 :: promotion_rule_set where
  "PROMOTION_RULES_V1 =
     \<lparr>ps_version = ''lifecycle_promotion_v1'',
      ps_rules = [DISCOVERY_TO_RESEARCH, RESEARCH_TO_VALIDATING, VALIDATING_TO_CANDIDATE, CANDIDATE_TO_PAPER, PAPER_TO_SHADOW,
                  SHADOW_TO_DEMO, DEMO_TO_APPROVED, APPROVED_TO_LIVE]\<rparr>"

lemmas promotion_rule_defs =
  DISCOVERY_TO_RESEARCH_def RESEARCH_TO_VALIDATING_def VALIDATING_TO_CANDIDATE_def CANDIDATE_TO_PAPER_def PAPER_TO_SHADOW_def
  SHADOW_TO_DEMO_def DEMO_TO_APPROVED_def APPROVED_TO_LIVE_def

text \<open>The assertion made at import: one rule for each step of the ladder, and none besides.\<close>

lemma published_rules_cover_the_ladder:
  "map pr_key (ps_rules PROMOTION_RULES_V1) = zip LADDER (tl LADDER)"
  by (simp add: PROMOTION_RULES_V1_def promotion_rule_defs LADDER_def)

lemma published_rule_sets_valid:
  "rule_set_post_init PROMOTION_RULES_V1 = Inr PROMOTION_RULES_V1"
  by (simp add: rule_set_post_init_def PROMOTION_RULES_V1_def promotion_rule_defs)


section \<open>What a decision proves\<close>

lemma pd_allowed_iff:
  assumes "evaluate_promotion E R f t ev h now = Inr d"
  shows "pd_allowed d \<longleftrightarrow>
    (pr_requires_validation_report (pd_rule d) \<longrightarrow> check_report E (pd_rule d) ev = [])
    \<and> (pr_requires_holdout_consumed_once (pd_rule d) \<longrightarrow> pe_holdout_consumption_count ev = Some 1 \<or> (\<exists>n<0. pe_holdout_consumption_count ev = Some n))
    \<and> (pr_requires_human_authorisation (pd_rule d) \<longrightarrow> check_step_authorisation (pd_rule d) h t ev = [])
    \<and> (\<forall>g \<in> set (gs_gates (pr_gate_set (pd_rule d))). gt_name g \<in> set (pe_not_applicable ev)
         \<or> (\<exists>x. metric_of (pe_metrics ev) (gt_metric g) = Some x \<and> is_finite x \<and> comparison_holds (gt_comparison g) x (gt_threshold g)))"
proof -
  obtain rule where d: "d = \<lparr>pd_rule = rule, pd_ruleset_version = ps_version R, pd_ruleset_fingerprint = rule_set_fingerprint E R,
            pd_gate_results = gate_set_evaluate (pr_gate_set rule) (pe_metrics ev) (pe_not_applicable ev),
            pd_structural_failures =
              (if pr_requires_validation_report rule then check_report E rule ev else [])
              @ (if pr_requires_holdout_consumed_once rule then check_holdout ev else [])
              @ (if pr_requires_human_authorisation rule then check_step_authorisation rule h t ev else []),
            pd_evaluated_at = now\<rparr>"
    using assms by (auto simp: evaluate_promotion_def rbind_eq_Inr)
  have held: "check_holdout ev = [] \<longleftrightarrow> pe_holdout_consumption_count ev = Some 1 \<or> (\<exists>n<0. pe_holdout_consumption_count ev = Some n)"
    by (auto simp: check_holdout_def split: option.splits)
  have gates: "filter (\<lambda>g. status_blocks (gr_status g)) rs = [] \<longleftrightarrow> list_all (\<lambda>r. \<not> status_blocks (gr_status r)) rs" for rs
    by (simp add: filter_empty_conv list_all_iff)
  show ?thesis
    unfolding d pd_allowed_def failed_gates_def by (simp add: gates none_blocks_iff held)
qed

lemma rule_for_in:
  assumes "promotion_rule_for R f t = Inr r"
  shows "r \<in> set (ps_rules R)" "pr_key r = (f, t)"
  using assms by (auto simp: promotion_rule_for_def find_Some_iff split: option.splits)

end
