(* ===== verification/Stopping_Rules.thy ===== *)
theory Stopping_Rules
  imports Promotion_Gates
begin

text \<open>
  The pre-registered stopping rules, \<open>lifecycle/stopping_rules.py\<close>, with \<open>max_drawdown\<close> of \<open>lifecycle/monitor.py\<close>: the parameters of
  the three rules with their checks, the hash-chained store of registrations (in memory or JSON lines), the evaluation of a
  forward record, and the registry of halts. The estimators of \<open>stats/sharpe.py\<close> are arguments, calibration by simulation is left
  out. A line of the registration file is the JSON value it holds, a line of the halt journal is its event; the fields of a stored
  parameter object are numbers, as the store writes them. The detail rows of an evaluation are left out.
\<close>

section \<open>Parameters\<close>

abbreviation StoppingRuleError :: "ftext \<Rightarrow> pyexn" where
  "StoppingRuleError \<equiv> PyExn ''StoppingRuleError''"
abbreviation HaltNotReleasable :: "ftext \<Rightarrow> pyexn" where
  "HaltNotReleasable \<equiv> PyExn ''HaltNotReleasable''"

datatype rule_kind = PSR_FLOOR | BOOTSTRAP_DRAWDOWN | CUSUM_EXCESS_RETURN

fun rule_kind_value :: "rule_kind \<Rightarrow> string" where
  "rule_kind_value PSR_FLOOR = ''psr_floor''"
| "rule_kind_value BOOTSTRAP_DRAWDOWN = ''bootstrap_drawdown''"
| "rule_kind_value CUSUM_EXCESS_RETURN = ''cusum_excess_return''"

definition ALL_RULE_KINDS :: "rule_kind list" where
  "ALL_RULE_KINDS = [PSR_FLOOR, BOOTSTRAP_DRAWDOWN, CUSUM_EXCESS_RETURN]"

record psr_parameters =
  pp_backtest_sharpe :: flt
  pp_benchmark_fraction :: flt
  pp_floor :: flt
  pp_min_observations :: int

definition psr_post_init :: "psr_parameters \<Rightarrow> pyexn + psr_parameters" where
  "psr_post_init p =
     (if \<not> pp_backtest_sharpe p > Fin 0 then Inl (ValueError (lit ''a PSR floor needs a positive backtested Sharpe to halve''))
      else if \<not> (Fin 0 < pp_benchmark_fraction p \<and> pp_benchmark_fraction p \<le> Fin 1)
        then Inl (ValueError (lit ''benchmark_fraction must be in (0, 1]''))
      else if \<not> (Fin 0 < pp_floor p \<and> pp_floor p < Fin 1)
        then Inl (ValueError (lit ''floor is a probability and must be in (0, 1)''))
      else if pp_min_observations p < 2 then Inl (ValueError (lit ''a Sharpe needs at least 2 observations''))
      else Inr p)"

definition benchmark_sharpe :: "psr_parameters \<Rightarrow> flt" where
  "benchmark_sharpe p = pp_backtest_sharpe p * pp_benchmark_fraction p"

record drawdown_parameters =
  dp_threshold :: flt
  dp_quantile :: flt
  dp_n_boot :: int
  dp_block_length :: flt
  dp_calibration_seed :: int
  dp_calibration_n_observations :: int
  dp_min_observations :: int

definition drawdown_post_init :: "drawdown_parameters \<Rightarrow> pyexn + drawdown_parameters" where
  "drawdown_post_init p =
     (if \<not> (Fin 0 < dp_threshold p \<and> dp_threshold p < Fin 1)
        then Inl (ValueError (lit ''threshold is a fractional drawdown and must be in (0, 1)''))
      else if \<not> (Fin (5 / 10) < dp_quantile p \<and> dp_quantile p < Fin 1)
        then Inl (ValueError (lit ''quantile must be in (0.5, 1)''))
      else Inr p)"

record cusum_parameters =
  cp_mu_expected :: flt
  cp_h :: flt
  cp_sigma :: flt
  cp_target_arl_observations :: flt
  cp_simulated_arl_observations :: flt
  cp_observations_per_year :: flt
  cp_calibration_seed :: int
  cp_calibration_n_paths :: int
  cp_censoring_multiple :: flt
  cp_censored_fraction :: flt
  cp_median_run_length :: flt
  cp_false_alarm_first_year :: flt
  cp_min_observations :: int

definition cusum_post_init :: "cusum_parameters \<Rightarrow> pyexn + cusum_parameters" where
  "cusum_post_init p =
     (if \<not> cp_h p > Fin 0 then Inl (ValueError (lit ''the CUSUM threshold h must be positive''))
      else if \<not> cp_sigma p > Fin 0 then Inl (ValueError (lit ''the in-control sigma must be positive''))
      else Inr p)"

definition arl_years :: "cusum_parameters \<Rightarrow> flt \<Rightarrow> flt" where
  "arl_years p observations =
     (if cp_observations_per_year p \<le> Fin 0 then NaN
      else case py_div observations (cp_observations_per_year p) of Inr y \<Rightarrow> y | Inl _ \<Rightarrow> NaN)"

datatype rule_parameters =
    PsrFloor psr_parameters
  | BootstrapDrawdown drawdown_parameters
  | CusumExcess cusum_parameters

fun parameter_kind :: "rule_parameters \<Rightarrow> rule_kind" where
  "parameter_kind (PsrFloor _) = PSR_FLOOR"
| "parameter_kind (BootstrapDrawdown _) = BOOTSTRAP_DRAWDOWN"
| "parameter_kind (CusumExcess _) = CUSUM_EXCESS_RETURN"

fun parameters_post_init :: "rule_parameters \<Rightarrow> pyexn + rule_parameters" where
  "parameters_post_init (PsrFloor p) = rbind (psr_post_init p) (\<lambda>q. Inr (PsrFloor q))"
| "parameters_post_init (BootstrapDrawdown p) = rbind (drawdown_post_init p) (\<lambda>q. Inr (BootstrapDrawdown q))"
| "parameters_post_init (CusumExcess p) = rbind (cusum_post_init p) (\<lambda>q. Inr (CusumExcess q))"

text \<open>\<open>asdict\<close> and the derived values.\<close>

fun parameters_to_dict :: "rule_parameters \<Rightarrow> jdict" where
  "parameters_to_dict (PsrFloor p) =
     [(''backtest_sharpe'', JFloat (pp_backtest_sharpe p)), (''benchmark_fraction'', JFloat (pp_benchmark_fraction p)),
      (''floor'', JFloat (pp_floor p)), (''min_observations'', JInt (pp_min_observations p)),
      (''benchmark_sharpe'', JFloat (benchmark_sharpe p))]"
| "parameters_to_dict (BootstrapDrawdown p) =
     [(''threshold'', JFloat (dp_threshold p)), (''quantile'', JFloat (dp_quantile p)), (''n_boot'', JInt (dp_n_boot p)),
      (''block_length'', JFloat (dp_block_length p)), (''calibration_seed'', JInt (dp_calibration_seed p)),
      (''calibration_n_observations'', JInt (dp_calibration_n_observations p)), (''min_observations'', JInt (dp_min_observations p))]"
| "parameters_to_dict (CusumExcess p) =
     [(''mu_expected'', JFloat (cp_mu_expected p)), (''h'', JFloat (cp_h p)), (''sigma'', JFloat (cp_sigma p)),
      (''target_arl_observations'', JFloat (cp_target_arl_observations p)),
      (''simulated_arl_observations'', JFloat (cp_simulated_arl_observations p)),
      (''observations_per_year'', JFloat (cp_observations_per_year p)), (''calibration_seed'', JInt (cp_calibration_seed p)),
      (''calibration_n_paths'', JInt (cp_calibration_n_paths p)), (''censoring_multiple'', JFloat (cp_censoring_multiple p)),
      (''censored_fraction'', JFloat (cp_censored_fraction p)), (''median_run_length'', JFloat (cp_median_run_length p)),
      (''false_alarm_probability_first_year'', JFloat (cp_false_alarm_first_year p)),
      (''min_observations'', JInt (cp_min_observations p)),
      (''target_arl_years'', JFloat (arl_years p (cp_target_arl_observations p))),
      (''simulated_arl_years'', JFloat (arl_years p (cp_simulated_arl_observations p)))]"

text \<open>A field of the stored object: what the row holds, or the field's default, or the TypeError of a missing argument.\<close>

fun number_of :: "jval \<Rightarrow> pyexn + flt" where
  "number_of (JFloat x) = Inr x"
| "number_of (JInt i) = Inr (Fin (of_int i))"
| "number_of _ = Inl (TypeError (lit ''not a number''))"

fun integer_of :: "jval \<Rightarrow> pyexn + int" where
  "integer_of (JInt i) = Inr i"
| "integer_of _ = Inl (TypeError (lit ''not an integer''))"

definition field :: "(jval \<Rightarrow> pyexn + 'a) \<Rightarrow> 'a option \<Rightarrow> jdict \<Rightarrow> string \<Rightarrow> pyexn + 'a" where
  "field read dflt raw k =
     (case map_of raw k of
        Some v \<Rightarrow> read v
      | None \<Rightarrow> (case dflt of Some d \<Rightarrow> Inr d | None \<Rightarrow> Inl (TypeError [Lit ''missing required argument '', Lit k])))"

fun parameters_from_dict :: "rule_kind \<Rightarrow> jdict \<Rightarrow> pyexn + rule_parameters" where
  "parameters_from_dict PSR_FLOOR raw =
     rbind (field number_of None raw ''backtest_sharpe'') (\<lambda>s.
     rbind (field number_of (Some (Fin (5 / 10))) raw ''benchmark_fraction'') (\<lambda>f.
     rbind (field number_of (Some (Fin (5 / 10))) raw ''floor'') (\<lambda>l.
     rbind (field integer_of (Some 30) raw ''min_observations'') (\<lambda>m.
       parameters_post_init (PsrFloor
         \<lparr>pp_backtest_sharpe = s, pp_benchmark_fraction = f, pp_floor = l, pp_min_observations = m\<rparr>)))))"
| "parameters_from_dict BOOTSTRAP_DRAWDOWN raw =
     rbind (field number_of None raw ''threshold'') (\<lambda>t.
     rbind (field number_of (Some (Fin (95 / 100))) raw ''quantile'') (\<lambda>q.
     rbind (field integer_of (Some 2000) raw ''n_boot'') (\<lambda>n.
     rbind (field number_of (Some (Fin 1)) raw ''block_length'') (\<lambda>b.
     rbind (field integer_of (Some 0) raw ''calibration_seed'') (\<lambda>sd.
     rbind (field integer_of (Some 0) raw ''calibration_n_observations'') (\<lambda>no.
     rbind (field integer_of (Some 20) raw ''min_observations'') (\<lambda>m.
       parameters_post_init (BootstrapDrawdown
         \<lparr>dp_threshold = t, dp_quantile = q, dp_n_boot = n, dp_block_length = b, dp_calibration_seed = sd,
          dp_calibration_n_observations = no, dp_min_observations = m\<rparr>))))))))"
| "parameters_from_dict CUSUM_EXCESS_RETURN raw =
     rbind (field number_of None raw ''mu_expected'') (\<lambda>mu. rbind (field number_of None raw ''h'') (\<lambda>h.
     rbind (field number_of None raw ''sigma'') (\<lambda>sg. rbind (field number_of None raw ''target_arl_observations'') (\<lambda>ta.
     rbind (field number_of None raw ''simulated_arl_observations'') (\<lambda>sa.
     rbind (field number_of None raw ''observations_per_year'') (\<lambda>oy.
     rbind (field integer_of None raw ''calibration_seed'') (\<lambda>sd. rbind (field integer_of None raw ''calibration_n_paths'') (\<lambda>np.
     rbind (field number_of None raw ''censoring_multiple'') (\<lambda>cm. rbind (field number_of None raw ''censored_fraction'') (\<lambda>cf.
     rbind (field number_of (Some (Fin 0)) raw ''median_run_length'') (\<lambda>ml.
     rbind (field number_of (Some NaN) raw ''false_alarm_probability_first_year'') (\<lambda>fa.
     rbind (field integer_of (Some 20) raw ''min_observations'') (\<lambda>m.
       parameters_post_init (CusumExcess
         \<lparr>cp_mu_expected = mu, cp_h = h, cp_sigma = sg, cp_target_arl_observations = ta, cp_simulated_arl_observations = sa,
          cp_observations_per_year = oy, cp_calibration_seed = sd, cp_calibration_n_paths = np, cp_censoring_multiple = cm,
          cp_censored_fraction = cf, cp_median_run_length = ml, cp_false_alarm_first_year = fa, cp_min_observations = m\<rparr>))))))))))))))"


section \<open>Pre-registration\<close>

record rule_registration =
  rg_registration_id :: string
  rg_sequence :: int
  rg_strategy_content_hash :: string
  rg_kind :: rule_kind
  rg_parameters_json :: jdict
  rg_parameters_fingerprint :: string
  rg_registered_at :: tstamp
  rg_registered_by :: string
  rg_reason :: string
  rg_supersedes :: string
  rg_previous_hash :: string
  rg_record_hash :: string

definition rg_parameters :: "rule_registration \<Rightarrow> pyexn + rule_parameters" where
  "rg_parameters r = parameters_from_dict (rg_kind r) (rg_parameters_json r)"

definition registration_payload :: "lc_env \<Rightarrow> rule_registration \<Rightarrow> jdict" where
  "registration_payload E r =
     [(''registration_id'', JStr (rg_registration_id r)), (''sequence'', JInt (rg_sequence r)),
      (''strategy_content_hash'', JStr (rg_strategy_content_hash r)), (''kind'', JStr (rule_kind_value (rg_kind r))),
      (''parameters'', JDict (rg_parameters_json r)), (''parameters_fingerprint'', JStr (rg_parameters_fingerprint r)),
      (''registered_at'', JStr (le_iso E (rg_registered_at r))), (''registered_by'', JStr (rg_registered_by r)),
      (''reason'', JStr (rg_reason r)), (''supersedes'', JStr (rg_supersedes r)), (''previous_hash'', JStr (rg_previous_hash r))]"

definition registration_hash :: "lc_env \<Rightarrow> rule_registration \<Rightarrow> string" where
  "registration_hash E r = json_digest E (registration_payload E r)"

definition registration_to_dict :: "lc_env \<Rightarrow> rule_registration \<Rightarrow> jdict" where
  "registration_to_dict E r = registration_payload E r @ [(''record_hash'', JStr (rg_record_hash r))]"

definition registration_from_dict :: "lc_env \<Rightarrow> jdict \<Rightarrow> pyexn + rule_registration" where
  "registration_from_dict E raw =
     rbind (jget raw ''registration_id'') (\<lambda>i. rbind (jget raw ''sequence'') (\<lambda>qv. rbind (py_int E qv) (\<lambda>q.
     rbind (jget raw ''strategy_content_hash'') (\<lambda>h.
     rbind (jget raw ''kind'') (\<lambda>kv. rbind (enum_of rule_kind_value ALL_RULE_KINDS kv) (\<lambda>k.
     rbind (jget raw ''parameters'') (\<lambda>pv. rbind (py_dict E pv) (\<lambda>p.
     rbind (jget raw ''parameters_fingerprint'') (\<lambda>f.
     rbind (jget raw ''registered_at'') (\<lambda>w. rbind (le_parse E (py_str E w)) (\<lambda>dt.
     rbind (jget raw ''registered_by'') (\<lambda>b.
       Inr \<lparr>rg_registration_id = py_str E i, rg_sequence = q, rg_strategy_content_hash = py_str E h, rg_kind = k,
            rg_parameters_json = p, rg_parameters_fingerprint = py_str E f, rg_registered_at = dt, rg_registered_by = py_str E b,
            rg_reason = py_str E (jget_default raw ''reason'' (JStr [])),
            rg_supersedes = py_str E (jget_default raw ''supersedes'' (JStr [])),
            rg_previous_hash = py_str E (jget_default raw ''previous_hash'' (JStr GENESIS_HASH)),
            rg_record_hash = py_str E (jget_default raw ''record_hash'' (JStr []))\<rparr>))))))))))))"

datatype registration_store = MemRegistrations "rule_registration list" | FileRegistrations "jval list"

fun registrations_append :: "lc_env \<Rightarrow> rule_registration \<Rightarrow> registration_store \<Rightarrow> registration_store" where
  "registrations_append E r (MemRegistrations rs) = MemRegistrations (rs @ [r])"
| "registrations_append E r (FileRegistrations ls) = FileRegistrations (ls @ [sorted_json (JDict (registration_to_dict E r))])"

fun registrations_rows :: "lc_env \<Rightarrow> registration_store \<Rightarrow> pyexn + rule_registration list" where
  "registrations_rows E (MemRegistrations rs) = Inr rs"
| "registrations_rows E (FileRegistrations ls) = rmap (\<lambda>v. rbind (as_mapping v) (registration_from_dict E)) ls"

definition active_in :: "string \<Rightarrow> rule_kind \<Rightarrow> rule_registration list \<Rightarrow> rule_registration option" where
  "active_in h k rows =
     (let matching = filter (\<lambda>r. rg_strategy_content_hash r = h \<and> rg_kind r = k) rows in
      if matching = [] then None else Some (last matching))"

definition active_registration :: "lc_env \<Rightarrow> string \<Rightarrow> rule_kind \<Rightarrow> registration_store \<Rightarrow> pyexn + rule_registration option" where
  "active_registration E h k st = rbind (registrations_rows E st) (\<lambda>rows. Inr (active_in h k rows))"

definition registration_history ::
  "lc_env \<Rightarrow> string \<Rightarrow> rule_kind option \<Rightarrow> registration_store \<Rightarrow> pyexn + rule_registration list" where
  "registration_history E h k st =
     rbind (registrations_rows E st) (\<lambda>rows.
       Inr (filter (\<lambda>r. rg_strategy_content_hash r = h \<and> (case k of None \<Rightarrow> True | Some kd \<Rightarrow> rg_kind r = kd)) rows))"

definition active_rules :: "lc_env \<Rightarrow> string \<Rightarrow> registration_store \<Rightarrow> pyexn + (rule_kind \<times> rule_registration) list" where
  "active_rules E h st =
     rbind (registrations_rows E st) (\<lambda>rows.
       Inr (concat (map (\<lambda>k. case active_in h k rows of None \<Rightarrow> [] | Some r \<Rightarrow> [(k, r)]) ALL_RULE_KINDS)))"

definition missing_rules :: "lc_env \<Rightarrow> string \<Rightarrow> registration_store \<Rightarrow> pyexn + rule_kind list" where
  "missing_rules E h st =
     rbind (active_rules E h st) (\<lambda>found. Inr (filter (\<lambda>k. k \<notin> fst ` set found) ALL_RULE_KINDS))"

text \<open>\<open>all(r.registered_at < t for r in ...)\<close>: the first late row ends it, a row of the other kind of time raises.\<close>

fun all_before :: "tstamp \<Rightarrow> rule_registration list \<Rightarrow> pyexn + bool" where
  "all_before t [] = Inr True"
| "all_before t (r # rs) = rbind (ts_lt (rg_registered_at r) t) (\<lambda>early. if early then all_before t rs else Inr False)"

definition is_pre_registered :: "lc_env \<Rightarrow> string \<Rightarrow> tstamp \<Rightarrow> registration_store \<Rightarrow> pyexn + bool" where
  "is_pre_registered E h t st =
     rbind (active_rules E h st) (\<lambda>found.
       if set (map fst found) \<noteq> set ALL_RULE_KINDS then Inr False else all_before t (map snd found))"

definition new_registration ::
  "lc_env \<Rightarrow> string \<Rightarrow> rule_parameters \<Rightarrow> string \<Rightarrow> string \<Rightarrow> tstamp \<Rightarrow> string \<Rightarrow> rule_registration list \<Rightarrow> rule_registration" where
  "new_registration E h p by_whom reason when supersedes rows =
     (let k = parameter_kind p;
          draft = \<lparr>rg_registration_id = ''reg_'' @ take 12 h @ ''_'' @ rule_kind_value k @ ''_'' @ show_nat (length rows),
            rg_sequence = int (length rows), rg_strategy_content_hash = h, rg_kind = k, rg_parameters_json = parameters_to_dict p,
            rg_parameters_fingerprint = json_digest E [(''kind'', JStr (rule_kind_value k)), (''parameters'', JDict (parameters_to_dict p))],
            rg_registered_at = when, rg_registered_by = by_whom, rg_reason = reason, rg_supersedes = supersedes,
            rg_previous_hash = (if rows = [] then GENESIS_HASH else rg_record_hash (last rows)), rg_record_hash = []\<rparr>
      in draft\<lparr>rg_record_hash := registration_hash E draft\<rparr>)"

definition register_rule ::
  "lc_env \<Rightarrow> tstamp \<Rightarrow> string \<Rightarrow> rule_kind \<Rightarrow> rule_parameters \<Rightarrow> string \<Rightarrow> string \<Rightarrow> tstamp option \<Rightarrow> registration_store \<Rightarrow>
   pyexn + registration_store \<times> rule_registration" where
  "register_rule E now h kind p by_whom reason at_time st =
     (if strip by_whom = [] then Inl (StoppingRuleError (lit ''a registration must name who made it''))
      else if strip reason = [] then Inl (StoppingRuleError (lit ''a registration must say why these parameters''))
      else if parameter_kind p \<noteq> kind then Inl (StoppingRuleError [Lit (rule_kind_value kind), Lit '' expects other parameters''])
      else rbind (registrations_rows E st) (\<lambda>rows.
        let previous = active_in h kind rows;
            fingerprint = json_digest E [(''kind'', JStr (rule_kind_value kind)), (''parameters'', JDict (parameters_to_dict p))]
        in case previous of
             Some r \<Rightarrow>
               if rg_parameters_fingerprint r = fingerprint then Inr (st, r)
               else let x = new_registration E h p by_whom reason (case at_time of Some t \<Rightarrow> t | None \<Rightarrow> now) (rg_registration_id r) rows
                    in Inr (registrations_append E x st, x)
           | None \<Rightarrow>
               let x = new_registration E h p by_whom reason (case at_time of Some t \<Rightarrow> t | None \<Rightarrow> now) [] rows
               in Inr (registrations_append E x st, x)))"

fun verify_registrations_from :: "lc_env \<Rightarrow> nat \<Rightarrow> string \<Rightarrow> rule_registration list \<Rightarrow> bool \<times> nat option \<times> string" where
  "verify_registrations_from E i previous [] = (True, None, ''chain intact'')"
| "verify_registrations_from E i previous (r # rs) =
     (if rg_sequence r \<noteq> int i then (False, Some i, ''sequence '' @ show_int (rg_sequence r) @ '' at position '' @ show_nat i)
      else if rg_previous_hash r \<noteq> previous then (False, Some i, ''previous_hash does not match its predecessor'')
      else if registration_hash E r \<noteq> rg_record_hash r then (False, Some i, ''record_hash does not match the payload'')
      else verify_registrations_from E (Suc i) (rg_record_hash r) rs)"

definition verify_registrations :: "lc_env \<Rightarrow> registration_store \<Rightarrow> pyexn + bool \<times> nat option \<times> string" where
  "verify_registrations E st = rbind (registrations_rows E st) (\<lambda>rows. Inr (verify_registrations_from E 0 GENESIS_HASH rows))"


section \<open>Evaluation of a forward record\<close>

definition clean_series :: "flt list \<Rightarrow> flt list" where
  "clean_series xs = filter is_finite xs"

text \<open>numpy: a division by zero gives an infinity or a NaN, a maximum with a NaN is NaN.\<close>

fun np_div :: "flt \<Rightarrow> flt \<Rightarrow> flt" where
  "np_div (Fin a) (Fin b) = (if b \<noteq> 0 then Fin (a / b) else if a > 0 then PInf else if a < 0 then NInf else NaN)"
| "np_div x y = (case py_div x y of Inr z \<Rightarrow> z | Inl _ \<Rightarrow> NaN)"

definition np_maximum :: "flt \<Rightarrow> flt \<Rightarrow> flt" where
  "np_maximum x y = (if x = NaN \<or> y = NaN then NaN else if x < y then y else x)"

definition np_max :: "flt list \<Rightarrow> flt" where
  "np_max xs = foldl np_maximum (hd xs) (tl xs)"

text \<open>The drawdown after each return: the compounded equity against the highest equity so far. The first equity is its own peak.\<close>

fun drawdowns :: "flt \<Rightarrow> flt \<Rightarrow> flt list \<Rightarrow> flt list" where
  "drawdowns equity peak [] = []"
| "drawdowns equity peak (r # rs) =
     (let e = equity * (Fin 1 + r); p = np_maximum peak e in (Fin 1 - np_div e p) # drawdowns e p rs)"

definition max_drawdown :: "flt list \<Rightarrow> flt" where
  "max_drawdown returns =
     (case clean_series returns of
        [] \<Rightarrow> Fin 0
      | r # rs \<Rightarrow> let e = Fin 1 + r in np_max ((Fin 1 - np_div e e) # drawdowns e e rs))"

fun cusum_from :: "flt \<Rightarrow> flt \<Rightarrow> flt list \<Rightarrow> flt list" where
  "cusum_from mu s [] = []"
| "cusum_from mu s (r # rs) = (let t = py_max (Fin 0) (s + (mu - r)) in t # cusum_from mu t rs)"

definition cusum_path :: "flt list \<Rightarrow> flt \<Rightarrow> flt list" where
  "cusum_path returns mu = cusum_from mu (Fin 0) (clean_series returns)"

datatype rule_status = RULE_CLEAR | RULE_FIRED | RULE_NOT_EVALUATED

record rule_observation =
  ro_strategy_content_hash :: string
  ro_returns :: "flt list"
  ro_at :: tstamp

definition rule_observation_new :: "string \<Rightarrow> flt list option \<Rightarrow> tstamp \<Rightarrow> rule_observation" where
  "rule_observation_new h returns t =
     \<lparr>ro_strategy_content_hash = h, ro_returns = (case returns of None \<Rightarrow> [] | Some xs \<Rightarrow> clean_series xs), ro_at = t\<rparr>"

definition ro_n :: "rule_observation \<Rightarrow> int" where
  "ro_n o' = int (length (ro_returns o'))"

record rule_evaluation =
  ev_kind :: rule_kind
  ev_status :: rule_status
  ev_strategy_content_hash :: string
  ev_registration_id :: string
  ev_parameters_fingerprint :: string
  ev_statistic :: "flt option"
  ev_threshold :: "flt option"
  ev_comparison :: string
  ev_n_observations :: int
  ev_reason :: ftext
  ev_at :: tstamp

definition ev_fired :: "rule_evaluation \<Rightarrow> bool" where
  "ev_fired e \<longleftrightarrow> ev_status e = RULE_FIRED"

definition evaluation_text :: "rule_evaluation \<Rightarrow> ftext" where
  "evaluation_text e =
     (case (ev_statistic e, ev_threshold e) of
        (Some x, Some y) \<Rightarrow>
          [Lit (rule_kind_value (ev_kind e)), Lit '': '', Repr x, Lit (ev_comparison e), Repr y, Lit '' -> '',
           Lit (if ev_fired e then ''FIRED'' else ''clear'')] @ ev_reason e
      | _ \<Rightarrow> [Lit (rule_kind_value (ev_kind e)), Lit '': NOT EVALUATED -- ''] @ ev_reason e)"

definition not_evaluated :: "rule_registration \<Rightarrow> rule_observation \<Rightarrow> ftext \<Rightarrow> rule_evaluation" where
  "not_evaluated r o' reason =
     \<lparr>ev_kind = rg_kind r, ev_status = RULE_NOT_EVALUATED, ev_strategy_content_hash = ro_strategy_content_hash o',
      ev_registration_id = rg_registration_id r, ev_parameters_fingerprint = rg_parameters_fingerprint r, ev_statistic = None,
      ev_threshold = None, ev_comparison = [], ev_n_observations = ro_n o', ev_reason = reason, ev_at = ro_at o'\<rparr>"

definition rule_verdict :: "rule_registration \<Rightarrow> rule_observation \<Rightarrow> bool \<Rightarrow> flt \<Rightarrow> flt \<Rightarrow> string \<Rightarrow> ftext \<Rightarrow> rule_evaluation" where
  "rule_verdict r o' fired statistic threshold comparison reason =
     \<lparr>ev_kind = rg_kind r, ev_status = (if fired then RULE_FIRED else RULE_CLEAR), ev_strategy_content_hash = ro_strategy_content_hash o',
      ev_registration_id = rg_registration_id r, ev_parameters_fingerprint = rg_parameters_fingerprint r, ev_statistic = Some statistic,
      ev_threshold = Some threshold, ev_comparison = comparison, ev_n_observations = ro_n o', ev_reason = reason, ev_at = ro_at o'\<rparr>"

text \<open>The estimators the PSR rule calls.\<close>

record sharpe_moments =
  sm_sr_hat :: flt
  sm_n_obs :: int
  sm_skew :: flt
  sm_kurtosis :: flt

record rule_env =
  re_sharpe_moments :: "flt list \<Rightarrow> pyexn + sharpe_moments"
  re_probabilistic_sharpe :: "sharpe_moments \<Rightarrow> flt \<Rightarrow> pyexn + flt"

definition too_few :: "int \<Rightarrow> rule_observation \<Rightarrow> ftext" where
  "too_few needed o' = [Lit (show_int (ro_n o')), Lit '' forward returns, '', Lit (show_int needed), Lit '' required'']"

definition evaluate_psr :: "rule_env \<Rightarrow> rule_registration \<Rightarrow> psr_parameters \<Rightarrow> rule_observation \<Rightarrow> pyexn + rule_evaluation" where
  "evaluate_psr S r p o' =
     (if ro_n o' < pp_min_observations p then Inr (not_evaluated r o' (too_few (pp_min_observations p) o'))
      else case rbind (re_sharpe_moments S (ro_returns o')) (\<lambda>m. rbind (re_probabilistic_sharpe S m (benchmark_sharpe p)) (\<lambda>psr. Inr (m, psr))) of
        Inl e \<Rightarrow> if exn_class e = ''ValueError'' then Inr (not_evaluated r o' (Lit ''PSR undefined: '' # exn_text e)) else Inl e
      | Inr (m, psr) \<Rightarrow>
          if \<not> (is_finite psr \<and> is_finite (sm_sr_hat m) \<and> is_finite (sm_skew m) \<and> is_finite (sm_kurtosis m))
          then Inr (not_evaluated r o' (lit ''PSR undefined: the forward returns have no usable dispersion''))
          else Inr (rule_verdict r o' (psr \<le> pp_floor p) psr (pp_floor p) ''<='' [Lit ''forward Sharpe '', Repr (sm_sr_hat m)]))"

definition evaluate_drawdown :: "rule_registration \<Rightarrow> drawdown_parameters \<Rightarrow> rule_observation \<Rightarrow> pyexn + rule_evaluation" where
  "evaluate_drawdown r p o' =
     (if ro_n o' < dp_min_observations p then Inr (not_evaluated r o' (too_few (dp_min_observations p) o'))
      else let observed = max_drawdown (ro_returns o')
           in Inr (rule_verdict r o' (observed > dp_threshold p) observed (dp_threshold p) ''>'' [Lit ''forward max drawdown '', Repr observed]))"

definition evaluate_cusum :: "rule_registration \<Rightarrow> cusum_parameters \<Rightarrow> rule_observation \<Rightarrow> pyexn + rule_evaluation" where
  "evaluate_cusum r p o' =
     (if ro_n o' < cp_min_observations p then Inr (not_evaluated r o' (too_few (cp_min_observations p) o'))
      else let path = cusum_path (ro_returns o') (cp_mu_expected p) in
           if path = [] then Inl (ValueError (lit ''zero-size array to reduction operation maximum which has no identity''))
           else Inr (rule_verdict r o' (list_ex (\<lambda>s. s > cp_h p) path) (np_max path) (cp_h p) ''>''
                  [Lit ''accumulated shortfall against an expected '', Repr (cp_mu_expected p)]))"

text \<open>Building the rule of a registration reads its parameters; the rule refuses the record of another strategy.\<close>

definition evaluate_rule :: "rule_env \<Rightarrow> rule_registration \<Rightarrow> rule_observation \<Rightarrow> pyexn + rule_evaluation" where
  "evaluate_rule S r o' =
     rbind (rg_parameters r) (\<lambda>p.
       if ro_strategy_content_hash o' \<noteq> rg_strategy_content_hash r
       then Inl (StoppingRuleError [Lit ''this rule is registered for strategy '', Lit (take 12 (rg_strategy_content_hash r))])
       else case p of
         PsrFloor q \<Rightarrow> evaluate_psr S r q o'
       | BootstrapDrawdown q \<Rightarrow> evaluate_drawdown r q o'
       | CusumExcess q \<Rightarrow> evaluate_cusum r q o')"


section \<open>Halts\<close>

record halt_event =
  he_action :: string
  he_strategy_content_hash :: string
  he_kind :: rule_kind
  he_at :: tstamp
  he_operator :: string
  he_reason :: ftext

type_synonym halt_journal = "halt_event list"

definition halt_step :: "(string \<times> rule_kind \<rightharpoonup> halt_event) \<Rightarrow> halt_event \<Rightarrow> (string \<times> rule_kind \<rightharpoonup> halt_event)" where
  "halt_step latched e =
     (let key = (he_strategy_content_hash e, he_kind e) in
      if he_action e = ''halt'' then latched(key \<mapsto> e)
      else if he_action e = ''release'' then latched(key := None)
      else latched)"

definition halt_state :: "halt_journal \<Rightarrow> (string \<times> rule_kind \<rightharpoonup> halt_event)" where
  "halt_state j = foldl halt_step Map.empty j"

definition record_firing :: "rule_evaluation \<Rightarrow> halt_journal \<Rightarrow> halt_journal \<times> halt_event option" where
  "record_firing e j =
     (if \<not> ev_fired e then (j, None)
      else if halt_state j (ev_strategy_content_hash e, ev_kind e) \<noteq> None then (j, None)
      else let h = \<lparr>he_action = ''halt'', he_strategy_content_hash = ev_strategy_content_hash e, he_kind = ev_kind e, he_at = ev_at e,
                    he_operator = [], he_reason = evaluation_text e\<rparr>
           in (j @ [h], Some h))"

definition release_halt :: "tstamp \<Rightarrow> string \<Rightarrow> rule_kind \<Rightarrow> string \<Rightarrow> string \<Rightarrow> tstamp option \<Rightarrow> halt_journal \<Rightarrow> pyexn + halt_journal \<times> halt_event" where
  "release_halt now h k operator reason at_time j =
     (if strip operator = [] \<or> strip reason = []
      then Inl (HaltNotReleasable (lit ''releasing a halt requires a named operator and a written reason''))
      else if halt_state j (h, k) = None
      then Inl (HaltNotReleasable [Lit (rule_kind_value k), Lit '' is not latched for '', Lit (take 12 h)])
      else let e = \<lparr>he_action = ''release'', he_strategy_content_hash = h, he_kind = k,
                    he_at = (case at_time of Some t \<Rightarrow> t | None \<Rightarrow> now), he_operator = operator, he_reason = lit reason\<rparr>
           in Inr (j @ [e], e))"

definition is_halted_by :: "string \<Rightarrow> rule_kind option \<Rightarrow> halt_journal \<Rightarrow> bool" where
  "is_halted_by h k j =
     (case k of Some kd \<Rightarrow> halt_state j (h, kd) \<noteq> None | None \<Rightarrow> list_ex (\<lambda>kd. halt_state j (h, kd) \<noteq> None) ALL_RULE_KINDS)"

definition latched_kinds :: "string \<Rightarrow> halt_journal \<Rightarrow> rule_kind list" where
  "latched_kinds h j = sort_key rule_kind_value (filter (\<lambda>k. halt_state j (h, k) \<noteq> None) ALL_RULE_KINDS)"

end
