(* ===== verification/Degradation.thy ===== *)
theory Degradation
  imports Stopping_Rules
begin

text \<open>
  The degradation score and its hysteresis, \<open>lifecycle/degradation.py\<close>, over the divergence report of \<open>lifecycle/monitor.py\<close>: the
  verdicts on the eleven dimensions with the severity they contribute, the fold of a report and the rule evaluations into one score,
  the bands, and the tracker that moves between them. How the monitor arrives at a verdict is numerical and left out, as are the
  display rows.
\<close>

section \<open>The divergence report\<close>

datatype dimension =
    DIM_RETURN | DIM_SHARPE | DIM_WIN_RATE | DIM_TRADE_FREQUENCY | DIM_RETURN_DISTRIBUTION | DIM_SPREAD | DIM_SLIPPAGE | DIM_LATENCY
  | DIM_DRAWDOWN | DIM_REJECTED_ORDERS | DIM_REGIME

definition larger_is_better :: "dimension \<Rightarrow> bool" where
  "larger_is_better d \<longleftrightarrow> d \<in> {DIM_RETURN, DIM_SHARPE, DIM_WIN_RATE, DIM_REGIME}"

definition is_cost :: "dimension \<Rightarrow> bool" where
  "is_cost d \<longleftrightarrow> d \<in> {DIM_SPREAD, DIM_SLIPPAGE, DIM_LATENCY, DIM_REJECTED_ORDERS}"

datatype divergence_status = DIV_AGREES | DIV_DIVERGED | DIV_NOT_EVALUATED

record dimension_verdict =
  dg_dimension :: dimension
  dg_status :: divergence_status
  dg_expected :: "flt option"
  dg_observed :: "flt option"
  dg_p_value :: "flt option"
  dg_adjusted_p_value :: "flt option"

definition dg_confidence :: "dimension_verdict \<Rightarrow> flt option" where
  "dg_confidence d =
     (case dg_adjusted_p_value d of
        Some p \<Rightarrow> Some (Fin 1 - p)
      | None \<Rightarrow> (case dg_p_value d of Some p \<Rightarrow> Some (Fin 1 - p) | None \<Rightarrow> None))"

text \<open>The division is by a positive number.\<close>

definition relative_gap :: "dimension_verdict \<Rightarrow> flt option" where
  "relative_gap d =
     (case (dg_expected d, dg_observed d) of
        (Some e, Some x) \<Rightarrow>
          if \<bar>e\<bar> \<le> Fin 0 then None
          else (case py_div (e - x) \<bar>e\<bar> of
                  Inr raw \<Rightarrow> Some (if larger_is_better (dg_dimension d) then raw else - raw)
                | Inl _ \<Rightarrow> None)
      | _ \<Rightarrow> None)"

definition severity :: "dimension_verdict \<Rightarrow> flt" where
  "severity d =
     (if dg_status d \<noteq> DIV_DIVERGED then Fin 0
      else let magnitude = (case relative_gap d of None \<Rightarrow> Fin 1 | Some g \<Rightarrow> py_min (Fin 1) (py_max (Fin 0) g));
               conf = (case dg_confidence d of Some c \<Rightarrow> c | None \<Rightarrow> Fin 1)
           in py_min (Fin 1) (Fin (5 / 10) * magnitude + Fin (5 / 10) * py_max (Fin 0) conf))"

record divergence_report =
  mr_strategy_content_hash :: string
  mr_at :: tstamp
  mr_divergences :: "dimension_verdict list"

definition dimension_of :: "divergence_report \<Rightarrow> dimension \<Rightarrow> dimension_verdict option" where
  "dimension_of r d = List.find (\<lambda>x. dg_dimension x = d) (mr_divergences r)"

definition diverged_dimensions :: "divergence_report \<Rightarrow> dimension_verdict list" where
  "diverged_dimensions r = filter (\<lambda>d. dg_status d = DIV_DIVERGED) (mr_divergences r)"

definition report_coverage :: "divergence_report \<Rightarrow> flt" where
  "report_coverage r =
     (if mr_divergences r = [] then Fin 0
      else Fin (1 - real (length (filter (\<lambda>d. dg_status d = DIV_NOT_EVALUATED) (mr_divergences r))) / real (length (mr_divergences r))))"

definition cost_divergence :: "divergence_report \<Rightarrow> bool" where
  "cost_divergence r \<longleftrightarrow> list_ex (\<lambda>d. is_cost (dg_dimension d)) (diverged_dimensions r)"


section \<open>Bands and their configuration\<close>

datatype band = HEALTHY | BAND_WATCH | BAND_DEGRADED | BAND_QUARANTINED

fun depth :: "band \<Rightarrow> int" where
  "depth HEALTHY = 0"
| "depth BAND_WATCH = 1"
| "depth BAND_DEGRADED = 2"
| "depth BAND_QUARANTINED = 3"

fun band_value :: "band \<Rightarrow> string" where
  "band_value HEALTHY = ''healthy''"
| "band_value BAND_WATCH = ''watch''"
| "band_value BAND_DEGRADED = ''degraded''"
| "band_value BAND_QUARANTINED = ''quarantined''"

fun band_lifecycle :: "band \<Rightarrow> lifecycle option" where
  "band_lifecycle HEALTHY = None"
| "band_lifecycle BAND_WATCH = Some LC_WATCH"
| "band_lifecycle BAND_DEGRADED = Some LC_DEGRADED"
| "band_lifecycle BAND_QUARANTINED = Some LC_QUARANTINED"

definition band_of_lifecycle :: "lifecycle \<Rightarrow> band" where
  "band_of_lifecycle s =
     (if s = LC_WATCH then BAND_WATCH else if s = LC_DEGRADED then BAND_DEGRADED else if s = LC_QUARANTINED then BAND_QUARANTINED
      else HEALTHY)"

definition COMPONENTS :: "(string \<times> dimension list) list" where
  "COMPONENTS =
     [(''return'', [DIM_RETURN, DIM_SHARPE, DIM_WIN_RATE, DIM_RETURN_DISTRIBUTION]),
      (''cost'', [DIM_SPREAD, DIM_SLIPPAGE, DIM_LATENCY, DIM_REJECTED_ORDERS]),
      (''risk'', [DIM_DRAWDOWN, DIM_TRADE_FREQUENCY]),
      (''regime'', [DIM_REGIME])]"

record degradation_config =
  dc_version :: string
  dc_weights :: "(string \<times> flt) list"
  dc_watch_enter :: flt
  dc_watch_exit :: flt
  dc_degraded_enter :: flt
  dc_degraded_exit :: flt
  dc_quarantine_enter :: flt
  dc_quarantine_exit :: flt
  dc_consecutive_to_worsen :: int
  dc_consecutive_to_recover :: int
  dc_allow_automatic_recovery :: bool
  dc_min_confidence :: flt

definition DEGRADATION_CONFIG_V1 :: degradation_config where
  "DEGRADATION_CONFIG_V1 =
     \<lparr>dc_version = ''lifecycle_degradation_v1'',
      dc_weights = [(''return'', Fin (32 / 100)), (''cost'', Fin (26 / 100)), (''risk'', Fin (20 / 100)), (''regime'', Fin (10 / 100)),
                    (''rules'', Fin (12 / 100))],
      dc_watch_enter = Fin (20 / 100), dc_watch_exit = Fin (12 / 100), dc_degraded_enter = Fin (40 / 100),
      dc_degraded_exit = Fin (28 / 100), dc_quarantine_enter = Fin (65 / 100), dc_quarantine_exit = Fin (50 / 100),
      dc_consecutive_to_worsen = 2, dc_consecutive_to_recover = 3, dc_allow_automatic_recovery = False,
      dc_min_confidence = Fin (30 / 100)\<rparr>"

definition total_of :: "flt list \<Rightarrow> flt" where
  "total_of xs = foldl (+) (Fin 0) xs"

definition config_post_init :: "degradation_config \<Rightarrow> pyexn + degradation_config" where
  "config_post_init c =
     (let gap = (\<lambda>(enter, exit). Fin 0 < exit \<and> exit < enter \<and> enter < Fin (10001 / 10000)) in
      if \<not> list_all gap [(dc_watch_enter c, dc_watch_exit c), (dc_degraded_enter c, dc_degraded_exit c),
                         (dc_quarantine_enter c, dc_quarantine_exit c)]
        then Inl (ValueError (lit ''the gap between enter and exit is the hysteresis''))
      else if \<not> (dc_watch_enter c < dc_degraded_enter c \<and> dc_degraded_enter c < dc_quarantine_enter c)
        then Inl (ValueError (lit ''band entry thresholds must increase with depth''))
      else if dc_consecutive_to_worsen c < 1 \<or> dc_consecutive_to_recover c < 1
        then Inl (ValueError (lit ''dwell times must be at least 1 evaluation''))
      else if \<bar>total_of (map snd (dc_weights c)) - Fin 1\<bar> > Fin (1 / 10 ^ 9)
        then Inl (ValueError (lit ''weights must sum to 1.0''))
      else Inr c)"

text \<open>The thresholds of a band; HEALTHY has none (a KeyError the tracker never meets).\<close>

fun enter_threshold :: "degradation_config \<Rightarrow> band \<Rightarrow> pyexn + flt" where
  "enter_threshold c BAND_WATCH = Inr (dc_watch_enter c)"
| "enter_threshold c BAND_DEGRADED = Inr (dc_degraded_enter c)"
| "enter_threshold c BAND_QUARANTINED = Inr (dc_quarantine_enter c)"
| "enter_threshold c HEALTHY = Inl (KeyError (lit ''healthy''))"

fun exit_threshold :: "degradation_config \<Rightarrow> band \<Rightarrow> pyexn + flt" where
  "exit_threshold c BAND_WATCH = Inr (dc_watch_exit c)"
| "exit_threshold c BAND_DEGRADED = Inr (dc_degraded_exit c)"
| "exit_threshold c BAND_QUARANTINED = Inr (dc_quarantine_exit c)"
| "exit_threshold c HEALTHY = Inl (KeyError (lit ''healthy''))"


section \<open>The score\<close>

record degradation_score =
  sc_score :: flt
  sc_confidence :: flt
  sc_components :: "(string \<times> flt option) list"
  sc_config_version :: string
  sc_forced_band :: "band option"

definition component_score :: "divergence_report option \<Rightarrow> dimension list \<Rightarrow> flt option" where
  "component_score report dims =
     (case report of
        None \<Rightarrow> None
      | Some r \<Rightarrow>
          (let severities = concat (map (\<lambda>d. case dimension_of r d of
                 None \<Rightarrow> []
               | Some x \<Rightarrow> if dg_status x = DIV_NOT_EVALUATED then [] else [severity x]) dims)
           in if severities = [] then None
              else case py_div (total_of severities) (Fin (real (length severities))) of Inr x \<Rightarrow> Some x | Inl _ \<Rightarrow> None))"

definition rules_score :: "rule_evaluation list \<Rightarrow> nat \<Rightarrow> flt option" where
  "rules_score evs latched_halts =
     (let evaluated = filter (\<lambda>e. ev_status e \<noteq> RULE_NOT_EVALUATED) evs in
      if evaluated \<noteq> [] \<or> latched_halts \<noteq> 0
      then Some (if list_ex ev_fired evaluated \<or> latched_halts \<noteq> 0 then Fin 1 else Fin 0) else None)"

definition config_weight :: "degradation_config \<Rightarrow> string \<Rightarrow> flt" where
  "config_weight c k = (case map_of (dc_weights c) k of Some w \<Rightarrow> w | None \<Rightarrow> Fin 0)"

definition observed_components :: "(string \<times> flt option) list \<Rightarrow> (string \<times> flt) list" where
  "observed_components cs = concat (map (\<lambda>(k, v). case v of Some x \<Rightarrow> [(k, x)] | None \<Rightarrow> []) cs)"

definition score_degradation ::
  "degradation_config \<Rightarrow> divergence_report option \<Rightarrow> rule_evaluation list \<Rightarrow> nat \<Rightarrow> pyexn + degradation_score" where
  "score_degradation c report evs latched_halts =
     (let components = map (\<lambda>(name, dims). (name, component_score report dims)) COMPONENTS @ [(''rules'', rules_score evs latched_halts)];
          seen = observed_components components;
          observed_weight = total_of (map (\<lambda>(k, _). config_weight c k) seen);
          total_weight = total_of (map snd (dc_weights c));
          fired = list_ex ev_fired (filter (\<lambda>e. ev_status e \<noteq> RULE_NOT_EVALUATED) evs)
      in if observed_weight \<le> Fin 0
         then Inr \<lparr>sc_score = Fin 0, sc_confidence = Fin 0, sc_components = components, sc_config_version = dc_version c,
                   sc_forced_band = None\<rparr>
         else rbind (py_div (total_of (map (\<lambda>(k, x). config_weight c k * x) seen)) observed_weight) (\<lambda>mean.
              rbind (py_div observed_weight total_weight) (\<lambda>confidence.
                Inr \<lparr>sc_score = py_min (Fin 1) (py_max (Fin 0) mean), sc_confidence = confidence, sc_components = components,
                     sc_config_version = dc_version c,
                     sc_forced_band = (if fired \<or> latched_halts \<noteq> 0 then Some BAND_QUARANTINED else None)\<rparr>)))"


section \<open>The tracker\<close>

record degradation_verdict =
  vd_band :: band
  vd_previous_band :: band
  vd_score :: degradation_score
  vd_changed :: bool
  vd_pending_band :: "band option"
  vd_consecutive :: int
  vd_reason :: ftext
  vd_recommended_band :: "band option"

definition worsened :: "degradation_verdict \<Rightarrow> bool" where
  "worsened v \<longleftrightarrow> depth (vd_band v) > depth (vd_previous_band v)"

definition target_state :: "degradation_verdict \<Rightarrow> lifecycle option" where
  "target_state v = band_lifecycle (vd_band v)"

record tracker =
  tk_band :: band
  tk_pending_band :: "band option"
  tk_consecutive :: int
  tk_history :: "flt list"

definition tracker_new :: "band \<Rightarrow> tracker" where
  "tracker_new b = \<lparr>tk_band = b, tk_pending_band = None, tk_consecutive = 0, tk_history = []\<rparr>"

definition tracker_reset :: "band \<Rightarrow> tracker \<Rightarrow> tracker" where
  "tracker_reset b t = t\<lparr>tk_band := b, tk_pending_band := None, tk_consecutive := 0\<rparr>"

text \<open>The band one step less deep.\<close>

fun band_above :: "band \<Rightarrow> band" where
  "band_above BAND_QUARANTINED = BAND_DEGRADED"
| "band_above BAND_DEGRADED = BAND_WATCH"
| "band_above _ = HEALTHY"

definition passes_threshold :: "(degradation_config \<Rightarrow> band \<Rightarrow> pyexn + flt) \<Rightarrow> degradation_config \<Rightarrow> band \<Rightarrow> (flt \<Rightarrow> bool) \<Rightarrow> bool" where
  "passes_threshold threshold c b P = (case threshold c b of Inr x \<Rightarrow> P x | Inl _ \<Rightarrow> False)"

definition supported_band :: "degradation_config \<Rightarrow> band \<Rightarrow> flt \<Rightarrow> band" where
  "supported_band c current score =
     (case filter (\<lambda>b. depth b > depth current \<and> passes_threshold enter_threshold c b (\<lambda>x. score \<ge> x))
             [BAND_QUARANTINED, BAND_DEGRADED, BAND_WATCH] of
        b # _ \<Rightarrow> b
      | [] \<Rightarrow>
          if current = HEALTHY then current
          else if passes_threshold exit_threshold c current (\<lambda>x. score \<le> x) then band_above current
          else current)"

abbreviation unmoved :: "band \<Rightarrow> degradation_score \<Rightarrow> band option \<Rightarrow> int \<Rightarrow> ftext \<Rightarrow> degradation_verdict" where
  "unmoved b sc pending n reason \<equiv>
     \<lparr>vd_band = b, vd_previous_band = b, vd_score = sc, vd_changed = False, vd_pending_band = pending, vd_consecutive = n,
      vd_reason = reason, vd_recommended_band = None\<rparr>"

definition observe :: "degradation_config \<Rightarrow> degradation_score \<Rightarrow> tracker \<Rightarrow> tracker \<times> degradation_verdict" where
  "observe c sc t =
     (let previous = tk_band t;
          t1 = t\<lparr>tk_history := tk_history t @ [sc_score sc]\<rparr>;
          idle = t1\<lparr>tk_pending_band := None, tk_consecutive := 0\<rparr>;
          forced = (case sc_forced_band sc of Some b \<Rightarrow> if depth b > depth previous then Some b else None | None \<Rightarrow> None)
      in case forced of
           Some b \<Rightarrow>
             (idle\<lparr>tk_band := b\<rparr>,
              \<lparr>vd_band = b, vd_previous_band = previous, vd_score = sc, vd_changed = True, vd_pending_band = None, vd_consecutive = 0,
               vd_reason = lit ''a pre-registered stopping rule fired; quarantine is immediate'', vd_recommended_band = None\<rparr>)
         | None \<Rightarrow>
             if sc_confidence sc < dc_min_confidence c
             then (idle, unmoved previous sc None 0 [Lit ''confidence '', Repr (sc_confidence sc), Lit '' below the floor''])
             else
               let target = supported_band c previous (sc_score sc) in
               if target = previous
               then (idle, unmoved previous sc None 0 [Lit ''score '', Repr (sc_score sc), Lit '' sits inside the hysteresis gap''])
               else
                 let worsening = depth target > depth previous;
                     needed = (if worsening then dc_consecutive_to_worsen c else dc_consecutive_to_recover c);
                     n = (if tk_pending_band t = Some target then tk_consecutive t + 1 else 1);
                     pending = t1\<lparr>tk_pending_band := Some target, tk_consecutive := n\<rparr>
                 in if n < needed
                    then (pending, unmoved previous sc (Some target) n [Lit (band_value target), Lit '' pending''])
                    else if \<not> worsening \<and> \<not> dc_allow_automatic_recovery c
                    then (pending, (unmoved previous sc (Some target) n (lit ''recovery requires an explicit operator action''))
                           \<lparr>vd_recommended_band := Some target\<rparr>)
                    else (idle\<lparr>tk_band := target\<rparr>,
                          \<lparr>vd_band = target, vd_previous_band = previous, vd_score = sc, vd_changed = True, vd_pending_band = None,
                           vd_consecutive = 0, vd_reason = [Lit ''score '', Repr (sc_score sc), Lit '' held the threshold''],
                           vd_recommended_band = None\<rparr>))"

end
