(* ===== verification/Lifecycle_Service.thy ===== *)
theory Lifecycle_Service
  imports Promotion Degradation
begin

text \<open>
  The service above the lifecycle machine, \<open>lifecycle/service.py\<close>: registration, pre-registration of the stopping rules, promotion on
  evidence, the monitoring tick with its automatic demotion, release of a halt, and the status other components read.

  Arguments stand for the comparison of expectation and observation (a bootstrap over numpy's generator), the estimators of the
  PSR rule, the rendering of messages, the display rows attached to evidence and the digest of a report. An alert is what the service
  hands to the dispatcher; notes are left out. A step that raises keeps what was written before the exception.
\<close>

section \<open>Inputs\<close>

record expectation =
  ex_strategy_content_hash :: string
  ex_returns :: "flt list"
  ex_mean_return :: "flt option"
  ex_sharpe :: "flt option"
  ex_win_rate :: "flt option"
  ex_max_drawdown :: "flt option"
  ex_trades_per_day :: "flt option"
  ex_spread_pips :: "flt option"
  ex_slippage_pips :: "flt option"
  ex_latency_ms :: "flt option"
  ex_reject_rate :: "flt option"
  ex_regime_mean_return :: "(string \<times> flt) list"
  ex_source :: string

record observation =
  ob_strategy_content_hash :: string
  ob_returns :: "flt list"
  ob_observed_at :: tstamp
  ob_elapsed_days :: flt
  ob_spread_pips :: "flt list"
  ob_slippage_pips :: "flt list"
  ob_latency_ms :: "flt list"
  ob_orders_submitted :: int
  ob_orders_rejected :: int
  ob_regime_returns :: "(string \<times> flt list) list"

text \<open>Every regime key must be readable.\<close>

definition expectation_post_init :: "(string \<Rightarrow> bool) \<Rightarrow> expectation \<Rightarrow> pyexn + expectation" where
  "expectation_post_init regime_ok x =
     (if list_all (\<lambda>kv. regime_ok (fst kv)) (ex_regime_mean_return x) then Inr x
      else Inl (ValueError (lit ''regime expectation key is not a RegimeVector key'')))"

text \<open>The series of an observation keep their finite values; a regime key must be readable.\<close>

definition observation_post_init :: "(string \<Rightarrow> bool) \<Rightarrow> observation \<Rightarrow> pyexn + observation" where
  "observation_post_init regime_ok x =
     (if list_all (\<lambda>kv. regime_ok (fst kv)) (ob_regime_returns x)
      then Inr (x\<lparr>ob_returns := clean_series (ob_returns x), ob_spread_pips := clean_series (ob_spread_pips x),
                 ob_slippage_pips := clean_series (ob_slippage_pips x), ob_latency_ms := clean_series (ob_latency_ms x)\<rparr>)
      else Inl (ValueError (lit ''observed regime key is not a RegimeVector key'')))"

record service_env =
  se_lifecycle :: lc_env
  se_rules :: rule_env
  se_compare :: "expectation \<Rightarrow> observation \<Rightarrow> tstamp \<Rightarrow> pyexn + divergence_report"
  se_config :: degradation_config
  se_promotions :: promotion_rule_set
  se_text :: "ftext \<Rightarrow> string"
  se_report_hash :: "validation_report \<Rightarrow> string"
  se_decision_row :: "promotion_decision \<Rightarrow> jdict"
  se_verdict_row :: "degradation_verdict \<Rightarrow> jdict"
  se_divergence_row :: "divergence_report \<Rightarrow> jdict"
  se_evaluation_row :: "rule_evaluation \<Rightarrow> jdict"

datatype alert_event = STRATEGY_DEGRADED | STRATEGY_HALTED | STRATEGY_QUARANTINED
datatype alert_severity = SEV_WARNING | SEV_ERROR | SEV_CRITICAL

record lifecycle_alert =
  al_event :: alert_event
  al_severity :: alert_severity
  al_strategy_content_hash :: string
  al_message :: ftext

record lifecycle_evaluation =
  lv_strategy_content_hash :: string
  lv_at :: tstamp
  lv_state_before :: lifecycle
  lv_state_after :: lifecycle
  lv_divergence :: "divergence_report option"
  lv_rule_evaluations :: "rule_evaluation list"
  lv_degradation :: degradation_score
  lv_verdict :: degradation_verdict
  lv_transitions :: "transition_record list"
  lv_alerts :: "lifecycle_alert list"
  lv_latched_halts :: "rule_kind list"

record lifecycle_service =
  lf_machine :: machine
  lf_registrations :: registration_store
  lf_halts :: halt_journal
  lf_trackers :: "string \<rightharpoonup> tracker"
  lf_last :: "string \<rightharpoonup> lifecycle_evaluation"

definition lifecycle_service_new :: "machine \<Rightarrow> registration_store \<Rightarrow> halt_journal \<Rightarrow> lifecycle_service" where
  "lifecycle_service_new m rs j =
     \<lparr>lf_machine = m, lf_registrations = rs, lf_halts = j, lf_trackers = Map.empty, lf_last = Map.empty\<rparr>"

definition DEGRADATION_ACTOR :: actor where
  "DEGRADATION_ACTOR = \<lparr>ar_kind = AUTOMATED_RULE, ar_name = ''lifecycle:degradation''\<rparr>"


section \<open>Registration and promotion\<close>

definition register_strategy ::
  "service_env \<Rightarrow> tstamp \<Rightarrow> string \<Rightarrow> string \<Rightarrow> actor \<Rightarrow> string \<Rightarrow> tstamp option \<Rightarrow> lifecycle_service \<Rightarrow>
   pyexn + lifecycle_service \<times> strategy_record" where
  "register_strategy V now sid h who reason at_time s =
     rbind (register (se_lifecycle V) now sid h who reason [] (Some (case at_time of Some t \<Rightarrow> t | None \<Rightarrow> now)) (lf_machine s)) (\<lambda>(m, r).
       Inr (s\<lparr>lf_machine := m\<rparr>, r))"

text \<open>The rules are written one after the other; one that raises ends the loop and leaves the earlier ones.\<close>

fun register_loop ::
  "lc_env \<Rightarrow> tstamp \<Rightarrow> string \<Rightarrow> (rule_kind \<times> rule_parameters) list \<Rightarrow> string \<Rightarrow> string \<Rightarrow> rule_kind list \<Rightarrow> registration_store \<Rightarrow>
   registration_store \<times> (pyexn + (rule_kind \<times> rule_registration) list)" where
  "register_loop E t h ps by_whom reason [] st = (st, Inr [])"
| "register_loop E t h ps by_whom reason (k # ks) st =
     (case map_of ps k of
        None \<Rightarrow> (st, Inl (KeyError (lit (rule_kind_value k))))
      | Some p \<Rightarrow>
          (case register_rule E t h k p by_whom reason (Some t) st of
             Inl e \<Rightarrow> (st, Inl e)
           | Inr (st1, r) \<Rightarrow>
               (case register_loop E t h ps by_whom reason ks st1 of
                  (st2, Inl e) \<Rightarrow> (st2, Inl e)
                | (st2, Inr rs) \<Rightarrow> (st2, Inr ((k, r) # rs)))))"

definition pre_register_rules ::
  "service_env \<Rightarrow> tstamp \<Rightarrow> string \<Rightarrow> (rule_kind \<times> rule_parameters) list \<Rightarrow> string \<Rightarrow> string \<Rightarrow> tstamp option \<Rightarrow> lifecycle_service \<Rightarrow>
   lifecycle_service \<times> (pyexn + (rule_kind \<times> rule_registration) list)" where
  "pre_register_rules V now h ps by_whom reason at_time s =
     (if list_ex (\<lambda>k. map_of ps k = None) ALL_RULE_KINDS
      then (s, Inl (LifecycleError (lit ''all three stopping rules must be registered together'')))
      else case register_loop (se_lifecycle V) (case at_time of Some t \<Rightarrow> t | None \<Rightarrow> now) h ps by_whom reason ALL_RULE_KINDS (lf_registrations s) of
        (st, r) \<Rightarrow> (s\<lparr>lf_registrations := st\<rparr>, r))"

definition PromotionRefused :: "promotion_decision \<Rightarrow> pyexn" where
  "PromotionRefused d = PyExn ''PromotionRefused'' (decision_text d)"

definition decision_evidence :: "service_env \<Rightarrow> promotion_decision \<Rightarrow> evidence" where
  "decision_evidence V d =
     \<lparr>e_kind = PROMOTION_EVALUATION, e_id = ''promotion:'' @ pr_label (pd_rule d) @ '':'' @ take 12 (pd_ruleset_fingerprint d),
      e_summary = se_text V (decision_text d), e_detail = se_decision_row V d\<rparr>"

definition report_evidence :: "service_env \<Rightarrow> validation_report \<Rightarrow> evidence" where
  "report_evidence V r =
     \<lparr>e_kind = VALIDATION_REPORT, e_id = se_report_hash V r,
      e_summary = se_text V [Lit (vr_strategy_id r), Lit '': '', Lit (upper (verdict_value (vr_verdict r)))], e_detail = []\<rparr>"

definition promotion_items :: "service_env \<Rightarrow> promotion_decision \<Rightarrow> evidence list \<Rightarrow> promotion_evidence \<Rightarrow> pyexn + evidence list" where
  "promotion_items V d extra ev =
     rbind (evidence_post_init (decision_evidence V d)) (\<lambda>first.
     rbind (case pe_validation_report ev of
              None \<Rightarrow> Inr [] | Some r \<Rightarrow> rbind (evidence_post_init (report_evidence V r)) (\<lambda>e. Inr [e])) (\<lambda>reports.
     rbind (case pe_human_authorisation ev of
              None \<Rightarrow> Inr [] | Some a \<Rightarrow> rbind (as_evidence (se_lifecycle V) a) (\<lambda>e. Inr [e])) (\<lambda>auths.
       Inr (first # extra @ reports @ auths))))"

definition promote ::
  "service_env \<Rightarrow> tstamp \<Rightarrow> string \<Rightarrow> lifecycle \<Rightarrow> actor \<Rightarrow> string \<Rightarrow> promotion_evidence \<Rightarrow> evidence list \<Rightarrow> tstamp option \<Rightarrow>
   lifecycle_service \<Rightarrow> pyexn + lifecycle_service \<times> strategy_record" where
  "promote V now h to_state who reason ev extra at_time s =
     (let E = se_lifecycle V; t = (case at_time of Some x \<Rightarrow> x | None \<Rightarrow> now) in
      rbind (machine_record (lf_machine s) h) (\<lambda>r.
      rbind (evaluate_promotion E (se_promotions V) (sr_state r) to_state ev h t) (\<lambda>d.
        if \<not> pd_allowed d then Inl (PromotionRefused d)
        else rbind (promotion_items V d extra ev) (\<lambda>items.
             rbind (transition E now h to_state who reason items (Some t) (lf_machine s)) (\<lambda>(m, r').
               Inr (s\<lparr>lf_machine := m\<rparr>, r'))))))"

definition service_release_halt ::
  "tstamp \<Rightarrow> string \<Rightarrow> rule_kind \<Rightarrow> string \<Rightarrow> string \<Rightarrow> tstamp option \<Rightarrow> lifecycle_service \<Rightarrow> pyexn + lifecycle_service" where
  "service_release_halt now h k operator reason at_time s =
     rbind (release_halt now h k operator reason at_time (lf_halts s)) (\<lambda>(j, _). Inr (s\<lparr>lf_halts := j\<rparr>))"


section \<open>The monitoring tick\<close>

definition halt_alert :: "rule_evaluation \<Rightarrow> lifecycle_alert" where
  "halt_alert e =
     \<lparr>al_event = STRATEGY_HALTED, al_severity = SEV_CRITICAL, al_strategy_content_hash = ev_strategy_content_hash e,
      al_message = [Lit ''stopping rule '', Lit (rule_kind_value (ev_kind e)), Lit '' fired: ''] @ evaluation_text e\<rparr>"

fun fire_all :: "rule_evaluation list \<Rightarrow> halt_journal \<Rightarrow> halt_journal \<times> lifecycle_alert list" where
  "fire_all [] j = (j, [])"
| "fire_all (e # es) j =
     (case record_firing e j of
        (j1, None) \<Rightarrow> fire_all es j1
      | (j1, Some _) \<Rightarrow> (case fire_all es j1 of (j2, alerts) \<Rightarrow> (j2, halt_alert e # alerts)))"

definition evaluate_rules ::
  "service_env \<Rightarrow> string \<Rightarrow> observation option \<Rightarrow> tstamp \<Rightarrow> lifecycle_service \<Rightarrow> pyexn + rule_evaluation list" where
  "evaluate_rules V h ob t s =
     rbind (active_rules (se_lifecycle V) h (lf_registrations s)) (\<lambda>active.
       rmap (\<lambda>kr. evaluate_rule (se_rules V) (snd kr) (rule_observation_new h (map_option ob_returns ob) t)) active)"

definition tracker_for :: "strategy_record \<Rightarrow> lifecycle_service \<Rightarrow> tracker" where
  "tracker_for r s =
     (case lf_trackers s (sr_strategy_content_hash r) of Some t \<Rightarrow> t | None \<Rightarrow> tracker_new (band_of_lifecycle (sr_state r)))"

definition demotion_actor :: "rule_evaluation list \<Rightarrow> actor" where
  "demotion_actor fired =
     (case fired of
        e # _ \<Rightarrow> \<lparr>ar_kind = AUTOMATED_RULE, ar_name = ''stopping_rule:'' @ rule_kind_value (ev_kind e)\<rparr>
      | [] \<Rightarrow> DEGRADATION_ACTOR)"

definition demotion_items ::
  "service_env \<Rightarrow> string \<Rightarrow> degradation_verdict \<Rightarrow> divergence_report option \<Rightarrow> rule_evaluation list \<Rightarrow> tstamp \<Rightarrow> pyexn + evidence list" where
  "demotion_items V h v report fired t =
     rmap evidence_post_init
       (\<lparr>e_kind = MONITOR_RESULT, e_id = ''degradation:'' @ take 12 h @ ''@'' @ le_iso (se_lifecycle V) t,
         e_summary = se_text V (vd_reason v), e_detail = se_verdict_row V v\<rparr>
        # (case report of None \<Rightarrow> [] | Some r \<Rightarrow>
             [\<lparr>e_kind = MONITOR_RESULT, e_id = ''divergence:'' @ take 12 (mr_strategy_content_hash r) @ ''@'' @ le_iso (se_lifecycle V) (mr_at r),
               e_summary = [], e_detail = se_divergence_row V r\<rparr>])
        @ map (\<lambda>e. \<lparr>e_kind = STOPPING_RULE, e_id = ev_registration_id e @ ''@'' @ le_iso (se_lifecycle V) (ev_at e),
               e_summary = se_text V (evaluation_text e), e_detail = se_evaluation_row V e\<rparr>) fired)"

definition demote ::
  "service_env \<Rightarrow> strategy_record \<Rightarrow> lifecycle \<Rightarrow> degradation_verdict \<Rightarrow> divergence_report option \<Rightarrow> rule_evaluation list \<Rightarrow> tstamp \<Rightarrow>
   machine \<Rightarrow> pyexn + (machine \<times> transition_record) option" where
  "demote V r target v report evs t m =
     (if edge (sr_state r) target = None then Inr None
      else let fired = filter ev_fired evs in
        rbind (demotion_items V (sr_strategy_content_hash r) v report fired t) (\<lambda>items.
        rbind (transition (se_lifecycle V) t (sr_strategy_content_hash r) target (demotion_actor fired) (se_text V (vd_reason v)) items
                 (Some t) m) (\<lambda>(m', r').
          Inr (Some (m', last (sr_history r'))))))"

definition demotion_alert :: "string \<Rightarrow> lifecycle \<Rightarrow> lifecycle \<Rightarrow> degradation_verdict \<Rightarrow> lifecycle_alert" where
  "demotion_alert h f target v =
     \<lparr>al_event = (if target = LC_QUARANTINED then STRATEGY_QUARANTINED else STRATEGY_DEGRADED), al_severity = SEV_ERROR,
      al_strategy_content_hash = h,
      al_message = [Lit (take 12 h), Lit '' demoted '', Lit (lc_value f), Lit '' -> '', Lit (lc_value target), Lit '': ''] @ vd_reason v\<rparr>"

definition diverging_alert :: "string \<Rightarrow> lifecycle_alert" where
  "diverging_alert h =
     \<lparr>al_event = STRATEGY_DEGRADED, al_severity = SEV_WARNING, al_strategy_content_hash = h, al_message = [Lit (take 12 h), Lit '' diverging'']\<rparr>"

text \<open>The verdict applied to the machine: the state after, the transitions made and the alerts raised.\<close>

definition apply_verdict ::
  "service_env \<Rightarrow> strategy_record \<Rightarrow> degradation_verdict \<Rightarrow> divergence_report option \<Rightarrow> rule_evaluation list \<Rightarrow> tstamp \<Rightarrow> machine \<Rightarrow>
   pyexn + machine \<times> lifecycle \<times> transition_record list \<times> lifecycle_alert list" where
  "apply_verdict V r v report evs t m =
     (let h = sr_strategy_content_hash r; f = sr_state r in
      if vd_changed v \<and> worsened v then
        (case target_state v of
           None \<Rightarrow> Inr (m, f, [], [])
         | Some target \<Rightarrow>
             rbind (demote V r target v report evs t m) (\<lambda>done'.
               case done' of
                 None \<Rightarrow> Inr (m, f, [], [])
               | Some (m', x) \<Rightarrow> Inr (m', target, [x], [demotion_alert h f target v])))
      else (case report of
              Some rp \<Rightarrow> Inr (m, f, [], if diverged_dimensions rp \<noteq> [] \<and> \<not> vd_changed v then [diverging_alert h] else [])
            | None \<Rightarrow> Inr (m, f, [], [])))"

definition compare_inputs ::
  "service_env \<Rightarrow> expectation option \<Rightarrow> observation option \<Rightarrow> tstamp \<Rightarrow> pyexn + divergence_report option" where
  "compare_inputs V ex ob t =
     (case (ex, ob) of
        (Some x, Some y) \<Rightarrow> rbind (se_compare V x y t) (\<lambda>r. Inr (Some r))
      | _ \<Rightarrow> Inr None)"

definition finish_tick ::
  "service_env \<Rightarrow> strategy_record \<Rightarrow> divergence_report option \<Rightarrow> rule_evaluation list \<Rightarrow> lifecycle_alert list \<Rightarrow> tstamp \<Rightarrow> lifecycle_service \<Rightarrow>
   lifecycle_service \<times> (pyexn + lifecycle_evaluation)" where
  "finish_tick V r report evs halt_alerts t s =
     (let h = sr_strategy_content_hash r; latched = latched_kinds h (lf_halts s) in
      case score_degradation (se_config V) report evs (length latched) of
        Inl e \<Rightarrow> (s, Inl e)
      | Inr sc \<Rightarrow>
          (case observe (se_config V) sc (tracker_for r s) of
             (tk, v) \<Rightarrow>
               (let s1 = s\<lparr>lf_trackers := (lf_trackers s)(h \<mapsto> tk)\<rparr> in
                case apply_verdict V r v report evs t (lf_machine s1) of
                  Inl e \<Rightarrow> (s1, Inl e)
                | Inr (m, after, xs, alerts) \<Rightarrow>
                    (let result = \<lparr>lv_strategy_content_hash = h, lv_at = t, lv_state_before = sr_state r, lv_state_after = after,
                           lv_divergence = report, lv_rule_evaluations = evs, lv_degradation = sc, lv_verdict = v, lv_transitions = xs,
                           lv_alerts = halt_alerts @ alerts, lv_latched_halts = latched\<rparr>
                     in (s1\<lparr>lf_machine := m, lf_last := (lf_last s1)(h \<mapsto> result)\<rparr>, Inr result)))))"

definition evaluate_tick ::
  "service_env \<Rightarrow> tstamp \<Rightarrow> string \<Rightarrow> expectation option \<Rightarrow> observation option \<Rightarrow> tstamp option \<Rightarrow> lifecycle_service \<Rightarrow>
   lifecycle_service \<times> (pyexn + lifecycle_evaluation)" where
  "evaluate_tick V now h ex ob at_time s =
     (let t = (case at_time of Some x \<Rightarrow> x | None \<Rightarrow> (case ob of Some y \<Rightarrow> ob_observed_at y | None \<Rightarrow> now)) in
      case rbind (machine_record (lf_machine s) h) (\<lambda>r.
           rbind (compare_inputs V ex ob t) (\<lambda>report.
           rbind (evaluate_rules V h ob t s) (\<lambda>evs.
           rbind (missing_rules (se_lifecycle V) h (lf_registrations s)) (\<lambda>_. Inr (r, report, evs))))) of
        Inl e \<Rightarrow> (s, Inl e)
      | Inr (r, report, evs) \<Rightarrow>
          (case fire_all evs (lf_halts s) of
             (j, alerts) \<Rightarrow> finish_tick V r report evs alerts t (s\<lparr>lf_halts := j\<rparr>)))"

text \<open>\<open>evaluate_all\<close>: the running strategies in the order of their hashes; one that raises ends the tick.\<close>

definition machine_records :: "machine \<Rightarrow> strategy_record list" where
  "machine_records m = map (\<lambda>k. the (mc_records m k)) (sorted_list_of_set (dom (mc_records m)))"

definition in_state :: "lifecycle list \<Rightarrow> machine \<Rightarrow> strategy_record list" where
  "in_state wanted m = filter (\<lambda>r. sr_state r \<in> set wanted) (machine_records m)"

fun evaluate_each ::
  "service_env \<Rightarrow> tstamp \<Rightarrow> (string \<times> (expectation \<times> observation)) list \<Rightarrow> tstamp option \<Rightarrow> string list \<Rightarrow> lifecycle_service \<Rightarrow>
   lifecycle_service \<times> (pyexn + lifecycle_evaluation list)" where
  "evaluate_each V now inputs at_time [] s = (s, Inr [])"
| "evaluate_each V now inputs at_time (h # hs) s =
     (case evaluate_tick V now h (map_option fst (map_of inputs h)) (map_option snd (map_of inputs h)) at_time s of
        (s1, Inl e) \<Rightarrow> (s1, Inl e)
      | (s1, Inr r) \<Rightarrow>
          (case evaluate_each V now inputs at_time hs s1 of
             (s2, Inl e) \<Rightarrow> (s2, Inl e)
           | (s2, Inr rs) \<Rightarrow> (s2, Inr (r # rs))))"

definition evaluate_all ::
  "service_env \<Rightarrow> tstamp \<Rightarrow> (string \<times> (expectation \<times> observation)) list \<Rightarrow> tstamp option \<Rightarrow> lifecycle_service \<Rightarrow>
   lifecycle_service \<times> (pyexn + lifecycle_evaluation list)" where
  "evaluate_all V now inputs at_time s =
     evaluate_each V now inputs at_time (map sr_strategy_content_hash (in_state RUNNING_STATES (lf_machine s))) s"


section \<open>The status\<close>

record strategy_status =
  ss_strategy_id :: string
  ss_strategy_content_hash :: string
  ss_lifecycle :: lifecycle
  ss_health :: flt
  ss_degraded :: bool
  ss_band :: band
  ss_entered_state_at :: tstamp
  ss_latched_halts :: "rule_kind list"
  ss_missing_rules :: "rule_kind list"
  ss_last_evaluated_at :: "tstamp option"
  ss_last_score :: "flt option"
  ss_last_confidence :: "flt option"
  ss_n_transitions :: nat

definition strategy_status_of :: "service_env \<Rightarrow> string \<Rightarrow> lifecycle_service \<Rightarrow> pyexn + strategy_status" where
  "strategy_status_of V h s =
     rbind (machine_record (lf_machine s) h) (\<lambda>r.
     rbind (missing_rules (se_lifecycle V) h (lf_registrations s)) (\<lambda>missing.
       let last_one = lf_last s h;
           band = (case lf_trackers s h of Some t \<Rightarrow> tk_band t | None \<Rightarrow> band_of_lifecycle (sr_state r));
           score = map_option (\<lambda>l. sc_score (lv_degradation l)) last_one;
           latched = latched_kinds h (lf_halts s)
       in Inr \<lparr>ss_strategy_id = sr_strategy_id r, ss_strategy_content_hash = h, ss_lifecycle = sr_state r,
            ss_health = (case score of None \<Rightarrow> Fin 1 | Some x \<Rightarrow> py_max (Fin 0) (py_min (Fin 1) (Fin 1 - x))),
            ss_degraded = (latched \<noteq> [] \<or> band \<noteq> HEALTHY \<or> sr_state r \<in> {LC_DEGRADED, LC_QUARANTINED}),
            ss_band = band, ss_entered_state_at = entered_state_at r, ss_latched_halts = latched, ss_missing_rules = missing,
            ss_last_evaluated_at = map_option lv_at last_one, ss_last_score = score,
            ss_last_confidence = map_option (\<lambda>l. sc_confidence (lv_degradation l)) last_one,
            ss_n_transitions = length (sr_history r)\<rparr>))"

definition lifecycle_of :: "string \<Rightarrow> lifecycle_service \<Rightarrow> pyexn + lifecycle" where
  "lifecycle_of h s = machine_state (lf_machine s) h"

definition statuses :: "service_env \<Rightarrow> lifecycle_service \<Rightarrow> pyexn + strategy_status list" where
  "statuses V s = rmap (\<lambda>r. strategy_status_of V (sr_strategy_content_hash r) s) (machine_records (lf_machine s))"

definition last_evaluation :: "string \<Rightarrow> lifecycle_service \<Rightarrow> lifecycle_evaluation option" where
  "last_evaluation h s = lf_last s h"

end
