(* ===== verification/Stopping_Safety.thy ===== *)
theory Stopping_Safety
  imports Stopping_Rules Lifecycle_Safety
begin

text \<open>
  What the stopping rules compute and what their stores promise. The CUSUM and the drawdown against their definitions by contiguous
  stretches of returns; registrations that are never edited and chained like the lifecycle log; a rule that cannot be replaced after
  the forward data without showing it; halts that stay until a named release. And where the rules are blind: the first return
  never counts as drawdown, a total loss on it is no drawdown at all, an expectation that is not a number never fires.
\<close>

section \<open>CUSUM\<close>

fun cusum_reals :: "real \<Rightarrow> real \<Rightarrow> real list \<Rightarrow> real list" where
  "cusum_reals m s [] = []"
| "cusum_reals m s (x # xs) = max 0 (s + (m - x)) # cusum_reals m (max 0 (s + (m - x))) xs"

lemma clean_series_Fin [simp]: "clean_series (map Fin xs) = map Fin xs"
  by (simp add: clean_series_def o_def)

declare py_max_Fin [simp]

lemma cusum_from_Fin: "cusum_from (Fin m) (Fin s) (map Fin xs) = map Fin (cusum_reals m s xs)"
  by (induction xs arbitrary: s) (simp_all add: Let_def)

definition shortfall_of :: "real \<Rightarrow> real list \<Rightarrow> real" where
  "shortfall_of m ys = (\<Sum>y\<leftarrow>ys. m - y)"

lemma shortfall_of_simps [simp]: "shortfall_of m [] = 0" "shortfall_of m (y # ys) = (m - y) + shortfall_of m ys"
  by (simp_all add: shortfall_of_def)

text \<open>Reflection at zero is the maximum over all starting points.\<close>

lemma cusum_crosses_iff:
  assumes "0 \<le> s" "s \<le> h"
  shows "(\<exists>c \<in> set (cusum_reals m s xs). c > h) \<longleftrightarrow>
    (\<exists>ys. prefix ys xs \<and> s + shortfall_of m ys > h) \<or> (\<exists>ys. sublist ys xs \<and> shortfall_of m ys > h)"
  using assms
proof (induction xs arbitrary: s)
  case Nil
  then show ?case by simp
next
  case (Cons x xs)
  define t where "t = max 0 (s + (m - x))"
  have pre: "(\<exists>ys. prefix ys (x # xs) \<and> s + shortfall_of m ys > h) \<longleftrightarrow> (\<exists>ys. prefix ys xs \<and> s + (m - x) + shortfall_of m ys > h)"
    using Cons.prems by (auto simp: prefix_Cons add.assoc)
  have sub: "(\<exists>ys. sublist ys (x # xs) \<and> shortfall_of m ys > h) \<longleftrightarrow>
      (\<exists>ys. prefix ys xs \<and> (m - x) + shortfall_of m ys > h) \<or> (\<exists>ys. sublist ys xs \<and> shortfall_of m ys > h)"
    using Cons.prems by (auto simp: sublist_Cons_right prefix_Cons)
  show ?case
  proof (cases "t > h")
    case True
    then have "s + (m - x) + shortfall_of m [] > h" using Cons.prems by (simp add: t_def)
    then have "\<exists>ys. prefix ys xs \<and> s + (m - x) + shortfall_of m ys > h" using Nil_prefix by blast
    then show ?thesis unfolding pre using True by (simp add: t_def)
  next
    case False
    define P Q S where "P \<longleftrightarrow> (\<exists>ys. prefix ys xs \<and> s + (m - x) + shortfall_of m ys > h)"
      and "Q \<longleftrightarrow> (\<exists>ys. prefix ys xs \<and> (m - x) + shortfall_of m ys > h)"
      and "S \<longleftrightarrow> (\<exists>ys. sublist ys xs \<and> shortfall_of m ys > h)"
    have "t + g > h \<longleftrightarrow> s + (m - x) + g > h \<or> g > h" for g by (auto simp: t_def max_def)
    then have "(\<exists>ys. prefix ys xs \<and> t + shortfall_of m ys > h) \<longleftrightarrow> P \<or> (\<exists>ys. prefix ys xs \<and> shortfall_of m ys > h)"
      unfolding P_def by blast
    moreover have "(\<exists>ys. prefix ys xs \<and> shortfall_of m ys > h) \<Longrightarrow> S" unfolding S_def by auto
    moreover have "Q \<Longrightarrow> P" unfolding P_def Q_def using Cons.prems(1) by (metis add.assoc add_increasing less_le_trans order_refl)
    moreover have "(\<exists>c \<in> set (cusum_reals m s (x # xs)). c > h) \<longleftrightarrow> (\<exists>c \<in> set (cusum_reals m t xs). c > h)"
      using False by (simp add: t_def)
    moreover have "(\<exists>c \<in> set (cusum_reals m t xs). c > h) \<longleftrightarrow> (\<exists>ys. prefix ys xs \<and> t + shortfall_of m ys > h) \<or> S"
      unfolding S_def using False by (intro Cons.IH) (simp_all add: t_def not_less)
    ultimately show ?thesis unfolding pre sub P_def [symmetric] Q_def [symmetric] S_def [symmetric] by argo
  qed
qed

text \<open>C25: the CUSUM rule fires exactly when some contiguous stretch of the forward returns falls short of the expectation by more than the
  threshold in total, wherever the stretch begins and whatever was earned before it.\<close>

theorem cusum_finds_every_shortfall:
  assumes "cp_mu_expected p = Fin m" "cp_h p = Fin h" "0 < h" "ro_returns ob = map Fin xs" "cp_min_observations p \<le> int (length xs)" "xs \<noteq> []"
  shows "\<exists>e. evaluate_cusum r p ob = Inr e \<and>
    (ev_fired e \<longleftrightarrow> (\<exists>ys. sublist ys xs \<and> (\<Sum>y\<leftarrow>ys. m - y) > h))"
proof -
  have path: "cusum_path (map Fin xs) (cp_mu_expected p) = map Fin (cusum_reals m 0 xs)"
    using assms(1) by (simp add: cusum_path_def cusum_from_Fin)
  have "cusum_reals m 0 xs \<noteq> []" using assms(6) by (cases xs) auto
  moreover have "(\<exists>c \<in> set (cusum_reals m 0 xs). c > h) \<longleftrightarrow> (\<exists>ys. sublist ys xs \<and> shortfall_of m ys > h)"
    using cusum_crosses_iff [of 0 h m xs] assms(3) by auto
  ultimately show ?thesis
    using assms(2,4,5)
    by (simp add: evaluate_cusum_def path rule_verdict_def ev_fired_def ro_n_def list_ex_iff shortfall_of_def Let_def)
qed

definition sample_registration :: "rule_kind \<Rightarrow> rule_registration" where
  "sample_registration k =
     \<lparr>rg_registration_id = ''reg_1'', rg_sequence = 0, rg_strategy_content_hash = ''h1'', rg_kind = k, rg_parameters_json = [],
      rg_parameters_fingerprint = [], rg_registered_at = utc 0, rg_registered_by = ''ada'', rg_reason = ''calibrated'',
      rg_supersedes = [], rg_previous_hash = GENESIS_HASH, rg_record_hash = []\<rparr>"

theorem cusum_finds_every_shortfall_witness:
  "\<exists>e. evaluate_cusum (sample_registration CUSUM_EXCESS_RETURN) \<lparr>cp_mu_expected = Fin 1, cp_h = Fin 3, cp_sigma = Fin 1, cp_target_arl_observations = Fin 100,
      cp_simulated_arl_observations = Fin 100, cp_observations_per_year = Fin 50, cp_calibration_seed = 1, cp_calibration_n_paths = 1,
      cp_censoring_multiple = Fin 1, cp_censored_fraction = Fin 0, cp_median_run_length = Fin 0, cp_false_alarm_first_year = NaN,
      cp_min_observations = 2\<rparr>
      \<lparr>ro_strategy_content_hash = ''h1'', ro_returns = map Fin [9, -1, -1], ro_at = utc 0\<rparr> = Inr e
    \<and> (ev_fired e \<longleftrightarrow> (\<exists>ys. sublist ys [9, -1, -1] \<and> (\<Sum>y\<leftarrow>ys. 1 - y) > (3::real)))"
  by (rule cusum_finds_every_shortfall) simp_all

text \<open>An expectation that is not a number passes the constructor, and the rule that carries it stays clear whatever happens.\<close>

lemma cusum_from_NaN: "cusum_from NaN (Fin 0) xs = map (\<lambda>_. Fin 0) xs"
  by (induction xs) (simp_all add: py_max_def Let_def)

lemma missing_expectation_never_fires:
  assumes "cp_mu_expected p = NaN" "cp_h p > Fin 0" "cp_sigma p > Fin 0" "evaluate_cusum r p ob = Inr e"
  shows "cusum_post_init p = Inr p \<and> \<not> ev_fired e"
proof -
  have "\<not> Fin 0 > cp_h p" using assms(2) by (cases "cp_h p") auto
  then have "\<not> list_ex (\<lambda>s. s > cp_h p) (cusum_path (ro_returns ob) (cp_mu_expected p))"
    using assms(1) by (auto simp: cusum_path_def cusum_from_NaN list_ex_iff)
  then show ?thesis
    using assms
    by (auto simp: cusum_post_init_def evaluate_cusum_def not_evaluated_def rule_verdict_def ev_fired_def Let_def split: if_splits)
qed


section \<open>Drawdown\<close>

fun ratios :: "real \<Rightarrow> real list \<Rightarrow> real list" where
  "ratios q [] = []"
| "ratios q (x # xs) = min 1 (q * (1 + x)) # ratios (min 1 (q * (1 + x))) xs"

lemma np_max_Fin: "xs \<noteq> [] \<Longrightarrow> np_max (map Fin xs) = Fin (Max (set xs))"
proof -
  have fold: "foldl np_maximum (Fin a) (map Fin ys) = Fin (fold max ys a)" for a ys
    by (induction ys arbitrary: a) (simp_all add: np_maximum_def max_def)
  assume "xs \<noteq> []"
  then obtain a ys where "xs = a # ys" by (cases xs) auto
  then show ?thesis by (simp only: np_max_def list.map list.sel fold Max.set_eq_fold)
qed

lemma drawdowns_Fin:
  assumes "0 < e" "e \<le> p" "list_all (\<lambda>x. - 1 < x) xs"
  shows "drawdowns (Fin e) (Fin p) (map Fin xs) = map (\<lambda>q. Fin (1 - q)) (ratios (e / p) xs)"
  using assms
proof (induction xs arbitrary: e p)
  case Nil
  then show ?case by simp
next
  case (Cons x xs)
  have pos: "0 < e * (1 + x)" "0 < p" using Cons.prems by auto
  have top: "np_maximum (Fin p) (Fin (e * (1 + x))) = Fin (max p (e * (1 + x)))" by (simp add: np_maximum_def max_def)
  have ratio: "e * (1 + x) / max p (e * (1 + x)) = min 1 (e / p * (1 + x))"
    using pos by (auto simp: max_def min_def field_simps)
  have "drawdowns (Fin (e * (1 + x))) (Fin (max p (e * (1 + x)))) (map Fin xs) = map (\<lambda>q. Fin (1 - q)) (ratios (min 1 (e / p * (1 + x))) xs)"
    using Cons.IH [of "e * (1 + x)" "max p (e * (1 + x))"] Cons.prems pos ratio by simp
  moreover have "max p (e * (1 + x)) \<noteq> 0" using pos by simp
  ultimately show ?case by (simp add: Let_def top ratio)
qed

definition growth_of :: "real list \<Rightarrow> real" where
  "growth_of ys = (\<Prod>y\<leftarrow>ys. 1 + y)"

lemma growth_of_simps [simp]: "growth_of [] = 1" "growth_of (y # ys) = (1 + y) * growth_of ys"
  by (simp_all add: growth_of_def)

lemma growth_pos: "list_all (\<lambda>x. - 1 < x) ys \<Longrightarrow> 0 < growth_of ys"
  by (induction ys) auto

lemma ratios_fall_iff:
  assumes "b \<le> q" "q \<le> 1" "0 < q" "list_all (\<lambda>x. - 1 < x) xs"
  shows "(\<exists>c \<in> set (ratios q xs). c < b) \<longleftrightarrow>
    (\<exists>ys. prefix ys xs \<and> q * growth_of ys < b) \<or> (\<exists>ys. sublist ys xs \<and> growth_of ys < b)"
  using assms
proof (induction xs arbitrary: q)
  case Nil
  then show ?case by simp
next
  case (Cons x xs)
  define t where "t = min 1 (q * (1 + x))"
  have t: "0 < t" "t \<le> 1" using Cons.prems by (auto simp: t_def)
  have grow: "prefix ys xs \<Longrightarrow> 0 < growth_of ys" for ys
    using Cons.prems(4) by (auto simp: prefix_def intro!: growth_pos)
  have pre: "(\<exists>ys. prefix ys (x # xs) \<and> q * growth_of ys < b) \<longleftrightarrow> (\<exists>ys. prefix ys xs \<and> q * (1 + x) * growth_of ys < b)"
    using Cons.prems by (auto simp: prefix_Cons mult.assoc)
  have sub: "(\<exists>ys. sublist ys (x # xs) \<and> growth_of ys < b) \<longleftrightarrow>
      (\<exists>ys. prefix ys xs \<and> (1 + x) * growth_of ys < b) \<or> (\<exists>ys. sublist ys xs \<and> growth_of ys < b)"
    using Cons.prems by (auto simp: sublist_Cons_right prefix_Cons)
  show ?case
  proof (cases "t < b")
    case True
    then have "q * (1 + x) * growth_of [] < b" using Cons.prems by (auto simp: t_def min_def split: if_splits)
    then have "\<exists>ys. prefix ys xs \<and> q * (1 + x) * growth_of ys < b" using Nil_prefix by blast
    then show ?thesis unfolding pre using True by (simp add: t_def)
  next
    case False
    define P Q S where "P \<longleftrightarrow> (\<exists>ys. prefix ys xs \<and> q * (1 + x) * growth_of ys < b)"
      and "Q \<longleftrightarrow> (\<exists>ys. prefix ys xs \<and> (1 + x) * growth_of ys < b)"
      and "S \<longleftrightarrow> (\<exists>ys. sublist ys xs \<and> growth_of ys < b)"
    have "t * g < b \<longleftrightarrow> q * (1 + x) * g < b \<or> g < b" if "0 < g" for g
    proof (cases "1 \<le> q * (1 + x)")
      case True
      then have "g \<le> q * (1 + x) * g" using that mult_right_mono [of 1 "q * (1 + x)" g] by simp
      then show ?thesis using True by (auto simp: t_def)
    next
      case False
      then have "q * (1 + x) * g \<le> g" using that mult_right_mono [of "q * (1 + x)" 1 g] by simp
      then show ?thesis using False by (auto simp: t_def)
    qed
    then have "(\<exists>ys. prefix ys xs \<and> t * growth_of ys < b) \<longleftrightarrow> P \<or> (\<exists>ys. prefix ys xs \<and> growth_of ys < b)"
      unfolding P_def using grow by blast
    moreover have "(\<exists>ys. prefix ys xs \<and> growth_of ys < b) \<Longrightarrow> S" unfolding S_def by auto
    moreover have "Q \<Longrightarrow> P"
    proof -
      assume Q
      then obtain ys where ys: "prefix ys xs" "(1 + x) * growth_of ys < b" unfolding Q_def by blast
      have "q * ((1 + x) * growth_of ys) \<le> 1 * ((1 + x) * growth_of ys)"
        using Cons.prems grow [OF ys(1)] by (intro mult_right_mono) auto
      then show P unfolding P_def using ys by (auto simp: mult.assoc intro!: exI [of _ ys])
    qed
    moreover have "(\<exists>c \<in> set (ratios q (x # xs)). c < b) \<longleftrightarrow> (\<exists>c \<in> set (ratios t xs). c < b)"
      using False by (simp add: t_def)
    moreover have "(\<exists>c \<in> set (ratios t xs). c < b) \<longleftrightarrow> (\<exists>ys. prefix ys xs \<and> t * growth_of ys < b) \<or> S"
      unfolding S_def using False t Cons.prems(4) by (intro Cons.IH) simp_all
    ultimately show ?thesis unfolding pre sub P_def [symmetric] Q_def [symmetric] S_def [symmetric] by argo
  qed
qed

lemma max_drawdown_Fin:
  assumes "list_all (\<lambda>y. - 1 < y) (x # xs)"
  shows "max_drawdown (map Fin (x # xs)) = Fin (Max (set (0 # map (\<lambda>q. 1 - q) (ratios 1 xs))))"
proof -
  have "0 < 1 + x" using assms by simp
  then have "drawdowns (Fin (1 + x)) (Fin (1 + x)) (map Fin xs) = map Fin (map (\<lambda>q. 1 - q) (ratios 1 xs))"
    using drawdowns_Fin [of "1 + x" "1 + x" xs] assms by simp
  moreover have "clean_series (map Fin (x # xs)) = Fin x # map Fin xs" by (simp add: clean_series_def o_def)
  ultimately have "max_drawdown (map Fin (x # xs)) = np_max (map Fin (0 # map (\<lambda>q. 1 - q) (ratios 1 xs)))"
    using \<open>0 < 1 + x\<close> by (simp add: max_drawdown_def Let_def)
  then show ?thesis by (simp only: np_max_Fin [of "0 # map (\<lambda>q. 1 - q) (ratios 1 xs)"] list.distinct simp_thms)
qed

text \<open>C26: the drawdown rule fires exactly when some contiguous stretch of the returns after the first compounds to a loss beyond the
  threshold. The first return is part of no stretch: the equity after it is the first peak.\<close>

theorem drawdown_finds_later_falls:
  assumes "dp_threshold p = Fin t" "0 < t" "t < 1" "ro_returns ob = map Fin (x # xs)" "list_all (\<lambda>y. - 1 < y) (x # xs)"
    and "dp_min_observations p \<le> int (length (x # xs))"
  shows "\<exists>e. evaluate_drawdown r p ob = Inr e \<and> (ev_fired e \<longleftrightarrow> (\<exists>ys. sublist ys xs \<and> (\<Prod>y\<leftarrow>ys. 1 + y) < 1 - t))"
proof -
  have "Fin t < max_drawdown (map Fin (x # xs)) \<longleftrightarrow> (\<exists>c \<in> set (ratios 1 xs). c < 1 - t)"
  proof -
    have "t < 1 - c \<longleftrightarrow> c < 1 - t" for c by auto
    then show ?thesis unfolding max_drawdown_Fin [OF assms(5)] using assms(2) by (simp add: Max_gr_iff)
  qed
  also have "\<dots> \<longleftrightarrow> (\<exists>ys. sublist ys xs \<and> growth_of ys < 1 - t)"
    using ratios_fall_iff [of "1 - t" 1 xs] assms(2,5) by auto
  finally show ?thesis
    using assms(1,4,6)
    by (simp add: evaluate_drawdown_def rule_verdict_def ev_fired_def ro_n_def growth_of_def Let_def del: list.map)
qed

definition sample_limit :: drawdown_parameters where
  "sample_limit = \<lparr>dp_threshold = Fin (1 / 5), dp_quantile = Fin (95 / 100), dp_n_boot = 2000, dp_block_length = Fin 1,
     dp_calibration_seed = 1, dp_calibration_n_observations = 100, dp_min_observations = 3\<rparr>"

theorem drawdown_finds_later_falls_witness:
  "\<exists>e. evaluate_drawdown (sample_registration BOOTSTRAP_DRAWDOWN) sample_limit
      \<lparr>ro_strategy_content_hash = ''h1'', ro_returns = map Fin [1 / 10, - 3 / 10, 1 / 10], ro_at = utc 0\<rparr> = Inr e
    \<and> (ev_fired e \<longleftrightarrow> (\<exists>ys. sublist ys [- 3 / 10, 1 / 10] \<and> (\<Prod>y\<leftarrow>ys. 1 + y) < 1 - (1 / 5 :: real)))"
  by (rule drawdown_finds_later_falls [where x = "1 / 10" and t = "1 / 5"]) (simp_all add: sample_limit_def)

text \<open>So the first return never counts, and a total loss on it leaves no number to compare.\<close>

lemma first_return_never_counts:
  "list_all (\<lambda>y. - 1 < y) (x # xs) \<Longrightarrow> max_drawdown (map Fin (x # xs)) = max_drawdown (map Fin (0 # xs))"
  using max_drawdown_Fin [of x xs] max_drawdown_Fin [of 0 xs] by simp

lemma np_max_NaN: "np_max (NaN # xs) = NaN"
  unfolding np_max_def list.sel by (induction xs) (simp_all add: np_maximum_def)

lemma total_loss_is_no_drawdown: "max_drawdown (map Fin (- 1 # xs)) = NaN"
  by (simp add: max_drawdown_def clean_series_def np_max_NaN Let_def)


section \<open>Registrations are never edited\<close>

abbreviation sorted_dict :: "jdict \<Rightarrow> jdict" where
  "sorted_dict kvs \<equiv> sort_key fst (map (map_prod id sorted_json) kvs)"

lemma sorted_dict_lookup: "distinct (map fst kvs) \<Longrightarrow> map_of (sorted_dict kvs) k = map_option sorted_json (map_of kvs k)"
proof -
  assume "distinct (map fst kvs)"
  moreover have "map fst (map (map_prod id sorted_json) kvs) = map fst kvs" by simp
  moreover have "map_of (map (map_prod id sorted_json) kvs) k = map_option sorted_json (map_of kvs k)" by (induction kvs) auto
  ultimately show ?thesis using map_of_sort_key [of "map (map_prod id sorted_json) kvs"] by simp
qed

lemma sorted_json_idem: "sorted_json (sorted_json v) = sorted_json v"
proof (induction v)
  case (JDict kvs)
  have "map_prod id sorted_json y = y" if "y \<in> set (map (map_prod id sorted_json) kvs)" for y
    using that JDict by (auto simp: map_prod_def split: prod.splits)
  then have "map (map_prod id sorted_json) (sorted_dict kvs) = sorted_dict kvs"
    by (intro map_idI) (simp only: set_sort)
  then have "sorted_dict (sorted_dict kvs) = sort_key fst (sorted_dict kvs)" by (simp only:)
  also have "\<dots> = sorted_dict kvs" by (rule sort_key_sorted) simp
  finally show ?case by simp
qed (simp_all cong: map_cong)

definition registration_commitment :: "lc_env \<Rightarrow> rule_registration \<Rightarrow> jval" where
  "registration_commitment E r = sorted_json (JDict (registration_payload E r))"

lemma registration_commitment_determines:
  assumes "registration_commitment E a = registration_commitment E b"
  shows "rg_sequence a = rg_sequence b" "rg_previous_hash a = rg_previous_hash b"
proof -
  have keys: "distinct (map fst (registration_payload E r))" for r by (simp add: registration_payload_def)
  have "map_option sorted_json (map_of (registration_payload E a) k) = map_option sorted_json (map_of (registration_payload E b) k)" for k
    using assms sorted_dict_lookup [OF keys, of a k] sorted_dict_lookup [OF keys, of b k] by (simp add: registration_commitment_def)
  from this [of "''sequence''"] this [of "''previous_hash''"]
  show "rg_sequence a = rg_sequence b" "rg_previous_hash a = rg_previous_hash b" by (simp_all add: registration_payload_def)
qed

interpretation rgc: hash_chain rg_sequence rg_previous_hash rg_record_hash "registration_commitment E" "le_sha E" for E
  by unfold_locales (auto dest: registration_commitment_determines)

abbreviation registrations_linked :: "lc_env \<Rightarrow> nat \<Rightarrow> string \<Rightarrow> rule_registration list \<Rightarrow> bool" where
  "registrations_linked E \<equiv> chain_linked rg_sequence rg_previous_hash rg_record_hash (\<lambda>r. le_sha E (registration_commitment E r))"

lemma verify_registrations_linked: "fst (verify_registrations_from E i p rows) \<longleftrightarrow> registrations_linked E i p rows"
  by (induction rows arbitrary: i p) (auto simp: registration_hash_def json_digest_def registration_commitment_def)

lemma new_registration_simps [simp]:
  "rg_kind (new_registration E h p w why t older rows) = parameter_kind p"
  "rg_strategy_content_hash (new_registration E h p w why t older rows) = h"
  "rg_registered_at (new_registration E h p w why t older rows) = t"
  "rg_sequence (new_registration E h p w why t older rows) = int (length rows)"
  "rg_previous_hash (new_registration E h p w why t older rows) = chain_head rg_record_hash GENESIS_HASH rows"
  by (simp_all add: new_registration_def chain_head_def Let_def)

lemma new_registration_hash:
  "rg_record_hash (new_registration E h p w why t older rows) = le_sha E (registration_commitment E (new_registration E h p w why t older rows))"
  by (simp add: new_registration_def registration_hash_def json_digest_def registration_commitment_def registration_payload_def Let_def)

text \<open>A row as it reads back from the store it was written to.\<close>

fun stored_row :: "lc_env \<Rightarrow> registration_store \<Rightarrow> rule_registration \<Rightarrow> rule_registration" where
  "stored_row E (MemRegistrations rs) r = r"
| "stored_row E (FileRegistrations ls) r =
     r\<lparr>rg_registered_at := reload_ts E (rg_registered_at r), rg_parameters_json := sorted_dict (rg_parameters_json r)\<rparr>"

lemma enum_rule_kind [simp]: "enum_of rule_kind_value ALL_RULE_KINDS (JStr (rule_kind_value k)) = Inr k"
  by (cases k) (simp_all add: enum_of_def ALL_RULE_KINDS_def)

lemma registration_roundtrip:
  assumes "clock_text_ok E"
  shows "rbind (as_mapping (sorted_json (JDict (registration_to_dict E r)))) (registration_from_dict E)
    = Inr (stored_row E (FileRegistrations ls) r)"
proof -
  have "distinct (map fst (registration_to_dict E r))" by (simp add: registration_to_dict_def registration_payload_def)
  note look = sorted_dict_lookup [OF this]
  have "le_parse E (le_iso E (rg_registered_at r)) = Inr (reload_ts E (rg_registered_at r))" using clock_reload [OF assms] by simp
  then show ?thesis
    by (simp add: registration_from_dict_def jget_def jget_default_def look)
      (simp add: registration_to_dict_def registration_payload_def)
qed

lemma stored_row_simps [simp]:
  "rg_sequence (stored_row E st r) = rg_sequence r" "rg_previous_hash (stored_row E st r) = rg_previous_hash r"
  "rg_record_hash (stored_row E st r) = rg_record_hash r" "rg_kind (stored_row E st r) = rg_kind r"
  "rg_strategy_content_hash (stored_row E st r) = rg_strategy_content_hash r"
  by (cases st; simp)+

lemma stored_commitment: "clock_text_ok E \<Longrightarrow> registration_commitment E (stored_row E st r) = registration_commitment E r"
  using clock_reload [of E "rg_registered_at r"] sorted_json_idem [of "JDict (rg_parameters_json r)"]
  by (cases st) (simp_all add: registration_commitment_def registration_payload_def)

lemma rows_append:
  assumes "clock_text_ok E" "registrations_rows E st = Inr rows"
  shows "registrations_rows E (registrations_append E r st) = Inr (rows @ [stored_row E st r])"
proof (cases st)
  case (FileRegistrations ls)
  have snoc: "rmap f (xs @ [x]) = rbind (rmap f xs) (\<lambda>ys. rbind (f x) (\<lambda>y. Inr (ys @ [y])))" for f :: "jval \<Rightarrow> pyexn + rule_registration" and xs x
    by (induction xs) (auto simp: rbind_def split: sum.splits)
  show ?thesis using assms registration_roundtrip [OF assms(1), of r ls] by (simp add: FileRegistrations snoc del: sorted_json.simps)
qed (use assms in simp)

text \<open>What a registration does to the store: nothing, or one row at its end that continues the chain.\<close>

lemma register_rule_rows:
  assumes "clock_text_ok E" "register_rule E now h k p w why at_time st = Inr (st', r)"
  obtains rows where "registrations_rows E st = Inr rows" "st' = st"
  | rows x where "registrations_rows E st = Inr rows" "registrations_rows E st' = Inr (rows @ [x])"
      "rg_sequence x = int (length rows)" "rg_previous_hash x = chain_head rg_record_hash GENESIS_HASH rows"
      "le_sha E (registration_commitment E x) = rg_record_hash x"
      "rg_registered_at x = rg_registered_at (stored_row E st (r\<lparr>rg_registered_at := case at_time of Some t \<Rightarrow> t | None \<Rightarrow> now\<rparr>))"
      "rg_strategy_content_hash x = h" "rg_kind x = k"
proof -
  obtain rows where rows: "registrations_rows E st = Inr rows" and kind: "parameter_kind p = k"
    using assms(2) by (auto simp: register_rule_def rbind_eq_Inr split: if_splits)
  show ?thesis
  proof (cases "st' = st")
    case True
    then show ?thesis using that(1) rows by blast
  next
    case False
    then obtain older where r: "r = new_registration E h p w why (case at_time of Some t \<Rightarrow> t | None \<Rightarrow> now) older rows"
      and st': "st' = registrations_append E r st"
      using assms(2) rows by (auto simp: register_rule_def rbind_eq_Inr Let_def split: if_splits option.splits)
    have "le_sha E (registration_commitment E (stored_row E st r)) = rg_record_hash (stored_row E st r)"
      by (simp only: stored_commitment [OF assms(1)] stored_row_simps r new_registration_hash)
    moreover have "rg_registered_at (stored_row E st r) =
        rg_registered_at (stored_row E st (r\<lparr>rg_registered_at := case at_time of Some t \<Rightarrow> t | None \<Rightarrow> now\<rparr>))"
      by (cases st) (simp_all add: r)
    moreover have "rg_sequence (stored_row E st r) = int (length rows)" "rg_strategy_content_hash (stored_row E st r) = h"
      "rg_previous_hash (stored_row E st r) = chain_head rg_record_hash GENESIS_HASH rows" "rg_kind (stored_row E st r) = k"
      by (simp_all add: r kind)
    moreover have "registrations_rows E st' = Inr (rows @ [stored_row E st r])"
      unfolding st' by (rule rows_append [OF assms(1) rows])
    ultimately show ?thesis using that(2) [OF rows] by blast
  qed
qed

datatype registering = Registering tstamp string rule_kind rule_parameters string string "tstamp option"

text \<open>Registrations one after the other; one that raises leaves the store as it was.\<close>

fun register_run :: "lc_env \<Rightarrow> registering list \<Rightarrow> registration_store \<Rightarrow> registration_store" where
  "register_run E [] st = st"
| "register_run E (Registering now h k p w why at_time # cs) st =
     register_run E cs (case register_rule E now h k p w why at_time st of Inl _ \<Rightarrow> st | Inr (st', _) \<Rightarrow> st')"

definition intact :: "lc_env \<Rightarrow> rule_registration list \<Rightarrow> bool" where
  "intact E rows \<longleftrightarrow> fst (verify_registrations_from E 0 GENESIS_HASH rows)"

lemma intact_snoc:
  "intact E rows \<Longrightarrow> rg_sequence x = int (length rows) \<Longrightarrow> rg_previous_hash x = chain_head rg_record_hash GENESIS_HASH rows
   \<Longrightarrow> le_sha E (registration_commitment E x) = rg_record_hash x \<Longrightarrow> intact E (rows @ [x])"
  by (simp add: intact_def verify_registrations_linked rgc.linked_append)

definition registering_time :: "registering \<Rightarrow> tstamp" where
  "registering_time c = (case c of Registering now _ _ _ _ _ at_time \<Rightarrow> (case at_time of Some t \<Rightarrow> t | None \<Rightarrow> now))"

text \<open>What a run of registrations leaves in the store, and the times its new rows carry.\<close>

lemma register_run_appends:
  assumes "clock_text_ok E" "registrations_rows E st = Inr rows"
  shows "\<exists>new. registrations_rows E (register_run E cs st) = Inr (rows @ new) \<and> (intact E rows \<longrightarrow> intact E (rows @ new))
    \<and> (\<forall>x \<in> set new. \<exists>c \<in> set cs. rg_registered_at x \<in> {registering_time c, reload_ts E (registering_time c)})"
  using assms(2)
proof (induction cs arbitrary: st rows)
  case Nil
  then show ?case by simp
next
  case (Cons c cs)
  obtain now h k p w why at_time where c: "c = Registering now h k p w why at_time" by (cases c)
  show ?case
  proof (cases "register_rule E now h k p w why at_time st")
    case (Inl e)
    with Cons.IH [OF Cons.prems] show ?thesis by (auto simp: c)
  next
    case (Inr q)
    obtain st' r where q: "q = (st', r)" by (cases q)
    from Inr have "register_rule E now h k p w why at_time st = Inr (st', r)" by (simp add: q)
    then show ?thesis
    proof (cases rule: register_rule_rows [OF assms(1), consumes 1])
      case 1
      with Cons.IH [OF Cons.prems] Inr show ?thesis by (auto simp: c q)
    next
      case (2 rows' x)
      then have same: "rows' = rows" using Cons.prems by simp
      have time: "rg_registered_at x \<in> {registering_time c, reload_ts E (registering_time c)}"
        using 2(6) by (cases st) (auto simp: registering_time_def c split: option.splits)
      from Cons.IH [OF 2(2)] obtain new where new: "registrations_rows E (register_run E cs st') = Inr ((rows' @ [x]) @ new)"
        "intact E (rows' @ [x]) \<longrightarrow> intact E ((rows' @ [x]) @ new)"
        "\<forall>y \<in> set new. \<exists>c \<in> set cs. rg_registered_at y \<in> {registering_time c, reload_ts E (registering_time c)}" by blast
      have "register_run E (c # cs) st = register_run E cs st'" using Inr by (simp add: c q)
      moreover have "intact E rows \<Longrightarrow> intact E (rows @ [x])" using intact_snoc [of E rows' x] 2 same by simp
      ultimately show ?thesis using new time same by (intro exI [of _ "x # new"]) auto
    qed
  qed
qed

text \<open>Registrations are append-only. Whatever is registered, the rows that were there stay in place in front, and a chain that
  verified still verifies.\<close>

theorem registrations_are_append_only:
  assumes "clock_text_ok E" "registrations_rows E st = Inr rows"
  shows "\<exists>new. registrations_rows E (register_run E cs st) = Inr (rows @ new) \<and> (intact E rows \<longrightarrow> intact E (rows @ new))"
  using register_run_appends [OF assms] by blast

theorem registrations_are_append_only_witness:
  "\<exists>new. registrations_rows sample_lc_env (register_run sample_lc_env
       [Registering (utc 0) ''h1'' BOOTSTRAP_DRAWDOWN (BootstrapDrawdown sample_limit) ''ada'' ''calibrated'' None] (FileRegistrations [])) = Inr new
     \<and> intact sample_lc_env new"
  using registrations_are_append_only [OF sample_clock, of "FileRegistrations []" "[]"
      "[Registering (utc 0) ''h1'' BOOTSTRAP_DRAWDOWN (BootstrapDrawdown sample_limit) ''ada'' ''calibrated'' None]"]
  by (simp add: intact_def)

lemma active_in_append:
  "active_in h k (rows @ new) =
     (let matching = filter (\<lambda>r. rg_strategy_content_hash r = h \<and> rg_kind r = k) new
      in if matching = [] then active_in h k rows else Some (last matching))"
  by (simp add: active_in_def Let_def)

lemma all_before_late:
  "all_before t rs = Inr True \<Longrightarrow> r \<in> set rs \<Longrightarrow> tz_aware (rg_registered_at r) = tz_aware t \<and> ns (rg_registered_at r) < ns t"
  by (induction rs) (auto simp: rbind_eq_Inr ts_lt_def split: if_splits)

text \<open>The times of later registrations: not before \<open>t\<close>, comparable with it and read back from the file as they were written.\<close>

definition registered_from :: "lc_env \<Rightarrow> tstamp \<Rightarrow> registering \<Rightarrow> bool" where
  "registered_from E t c \<longleftrightarrow>
     ns t \<le> ns (registering_time c) \<and> reload_ts E (registering_time c) = registering_time c"

text \<open>C27: a stopping rule cannot be replaced behind the forward data. If \<open>is_pre_registered\<close> still answers True for the start of the
  forward record after any number of registrations made from then on, the rule in force for every kind is the one in force before them.\<close>

theorem pre_registration_is_binding:
  assumes "clock_text_ok E" "registrations_rows E st = Inr rows" "list_all (registered_from E start) cs"
    and "is_pre_registered E h start (register_run E cs st) = Inr True"
  shows "active_registration E h k (register_run E cs st) = active_registration E h k st"
proof -
  obtain new where new: "registrations_rows E (register_run E cs st) = Inr (rows @ new)"
    and times: "\<forall>x \<in> set new. \<exists>c \<in> set cs. rg_registered_at x \<in> {registering_time c, reload_ts E (registering_time c)}"
    using register_run_appends [OF assms(1,2)] by blast
  have late: "ns start \<le> ns (rg_registered_at x)" if "x \<in> set new" for x
    using times that assms(3) by (fastforce simp: registered_from_def list_all_iff)
  define found where "found = map snd (concat (map (\<lambda>k. case active_in h k (rows @ new) of None \<Rightarrow> [] | Some r \<Rightarrow> [(k, r)]) ALL_RULE_KINDS))"
  have before: "all_before start found = Inr True"
    using assms(4) by (simp add: is_pre_registered_def active_rules_def new found_def split: if_splits)
  have old: "x \<notin> set new" if "active_in h k (rows @ new) = Some x" for x
  proof
    assume "x \<in> set new"
    then have "ns start \<le> ns (rg_registered_at x)" by (rule late)
    moreover have "x \<in> set found"
      using that by (cases k) (auto simp: ALL_RULE_KINDS_def found_def)
    then have "ns (rg_registered_at x) < ns start" using all_before_late [OF before] by simp
    ultimately show False by simp
  qed
  define ms where "ms = filter (\<lambda>r. rg_strategy_content_hash r = h \<and> rg_kind r = k) new"
  have "ms = []"
  proof (rule ccontr)
    assume some: "ms \<noteq> []"
    then have "last ms \<in> set new" using last_in_set [OF some] unfolding ms_def by simp
    moreover have "active_in h k (rows @ new) = Some (last ms)" using some by (simp add: active_in_append ms_def)
    ultimately show False using old by simp
  qed
  then have "active_in h k (rows @ new) = active_in h k rows" by (simp add: active_in_append ms_def)
  then show ?thesis using new assms(2) by (simp add: active_registration_def)
qed

definition sample_rules :: "(rule_kind \<times> rule_parameters) list" where
  "sample_rules =
     [(PSR_FLOOR, PsrFloor \<lparr>pp_backtest_sharpe = Fin 1, pp_benchmark_fraction = Fin (5 / 10), pp_floor = Fin (5 / 100),
         pp_min_observations = 3\<rparr>),
      (BOOTSTRAP_DRAWDOWN, BootstrapDrawdown sample_limit),
      (CUSUM_EXCESS_RETURN, CusumExcess \<lparr>cp_mu_expected = Fin 1, cp_h = Fin 3, cp_sigma = Fin 1, cp_target_arl_observations = Fin 100,
         cp_simulated_arl_observations = Fin 100, cp_observations_per_year = Fin 50, cp_calibration_seed = 1, cp_calibration_n_paths = 1,
         cp_censoring_multiple = Fin 1, cp_censored_fraction = Fin 0, cp_median_run_length = Fin 0, cp_false_alarm_first_year = NaN,
         cp_min_observations = 2\<rparr>)]"

definition sample_store :: registration_store where
  "sample_store = register_run sample_lc_env
     (map (\<lambda>(k, p). Registering (utc (-5)) ''h1'' k p ''ada'' ''calibrated'' None) sample_rules) (MemRegistrations [])"

theorem pre_registration_is_binding_witness:
  "active_registration sample_lc_env ''h1'' BOOTSTRAP_DRAWDOWN (register_run sample_lc_env
       [Registering (utc 0) ''h2'' BOOTSTRAP_DRAWDOWN (BootstrapDrawdown sample_limit) ''ada'' ''calibrated'' None] sample_store)
     = active_registration sample_lc_env ''h1'' BOOTSTRAP_DRAWDOWN sample_store"
proof -
  obtain rows where rows: "registrations_rows sample_lc_env sample_store = Inr rows"
    using register_run_appends [OF sample_clock, of "MemRegistrations []" "[]"] unfolding sample_store_def by fastforce
  show ?thesis
  proof (rule pre_registration_is_binding [OF sample_clock rows, where start = "utc 0"])
    show "is_pre_registered sample_lc_env ''h1'' (utc 0) (register_run sample_lc_env
       [Registering (utc 0) ''h2'' BOOTSTRAP_DRAWDOWN (BootstrapDrawdown sample_limit) ''ada'' ''calibrated'' None] sample_store) = Inr True"
      by code_simp
  qed (simp_all add: registered_from_def registering_time_def, simp add: reload_ts_def sample_lc_env_def)
qed


section \<open>Halts\<close>

definition releases :: "string \<times> rule_kind \<Rightarrow> halt_event \<Rightarrow> bool" where
  "releases key e \<longleftrightarrow> he_action e = ''release'' \<and> (he_strategy_content_hash e, he_kind e) = key"

lemma halt_state_snoc: "halt_state (j @ [e]) = halt_step (halt_state j) e"
  by (simp add: halt_state_def)

lemma latched_until_release:
  "halt_state j key \<noteq> None \<Longrightarrow> \<not> list_ex (releases key) es \<Longrightarrow> halt_state (j @ es) key \<noteq> None"
proof (induction es rule: rev_induct)
  case (snoc e es)
  then have "halt_state (j @ es) key \<noteq> None" by auto
  then show ?case using snoc.prems(2) halt_state_snoc [of "j @ es" e]
    by (auto simp: halt_step_def Let_def releases_def)
qed simp

lemma is_halted_by_kind: "is_halted_by h (Some k) j \<longleftrightarrow> halt_state j (h, k) \<noteq> None"
  by (simp add: is_halted_by_def)

lemma latched_kinds_iff: "k \<in> set (latched_kinds h j) \<longleftrightarrow> halt_state j (h, k) \<noteq> None"
  by (cases k) (auto simp: latched_kinds_def ALL_RULE_KINDS_def)

lemma firing_latches:
  assumes "ev_fired e"
  shows "halt_state (fst (record_firing e j)) (ev_strategy_content_hash e, ev_kind e) \<noteq> None"
  using assms by (auto simp: record_firing_def halt_state_snoc halt_step_def Let_def)

lemma record_firing_appends:
  obtains es where "fst (record_firing e j) = j @ es" "list_all (\<lambda>x. he_action x = ''halt'') es"
proof -
  have "\<exists>es. fst (record_firing e j) = j @ es \<and> list_all (\<lambda>x. he_action x = ''halt'') es"
    by (auto simp: record_firing_def Let_def)
  then show ?thesis using that by blast
qed

lemma release_Inr:
  assumes "release_halt now h k operator reason at_time j = Inr (j', e)"
  shows "j' = j @ [e]" "releases (h, k) e" "he_operator e = operator" "he_reason e = lit reason" "strip operator \<noteq> []" "strip reason \<noteq> []"
    "halt_state j' (h, k) = None"
  using assms by (auto simp: release_halt_def releases_def halt_state_snoc halt_step_def Let_def split: if_splits)

end
