(* ===== verification/Tracker_Safety.thy ===== *)
theory Tracker_Safety
  imports Degradation
begin

text \<open>
  The hysteresis of the degradation tracker: a band is entered on its own threshold held over consecutive evaluations with enough
  confidence behind them, and without automatic recovery no score ever makes a band less deep.
\<close>

definition track :: "degradation_config \<Rightarrow> degradation_score list \<Rightarrow> tracker \<Rightarrow> tracker" where
  "track c scs t = fold (\<lambda>sc t. fst (observe c sc t)) scs t"

text \<open>An evaluation that supports a move from one band to another.\<close>

definition supports :: "degradation_config \<Rightarrow> band \<Rightarrow> band \<Rightarrow> degradation_score \<Rightarrow> bool" where
  "supports c b target sc \<longleftrightarrow> \<not> sc_confidence sc < dc_min_confidence c \<and> supported_band c b (sc_score sc) = target"

lemma supported_deeper:
  assumes "supported_band c b x = target" "depth b < depth target"
  shows "passes_threshold enter_threshold c target (\<lambda>y. x \<ge> y)"
proof -
  let ?deeper = "filter (\<lambda>t. depth t > depth b \<and> passes_threshold enter_threshold c t (\<lambda>y. x \<ge> y)) [BAND_QUARANTINED, BAND_DEGRADED, BAND_WATCH]"
  have "depth (band_above b) \<le> depth b" by (cases b) simp_all
  then have "?deeper \<noteq> []"
    using assms by (auto simp: supported_band_def split: if_splits)
  then have "target = hd ?deeper" using assms(1) by (auto simp: supported_band_def split: list.splits)
  then have "target \<in> set ?deeper" using \<open>?deeper \<noteq> []\<close> hd_in_set by blast
  then show ?thesis by (simp only: set_filter mem_Collect_eq)
qed

definition forced_deeper :: "degradation_score \<Rightarrow> band \<Rightarrow> bool" where
  "forced_deeper sc b \<longleftrightarrow> (\<exists>f. sc_forced_band sc = Some f \<and> depth f > depth b)"

text \<open>The five outcomes of an evaluation.\<close>

lemma observe_cases:
  assumes "observe c sc t = (t', v)"
  obtains
    (forced) "forced_deeper sc (tk_band t)" "sc_forced_band sc = Some (tk_band t')" "vd_band v = tk_band t'" "vd_previous_band v = tk_band t"
      "vd_changed v" "tk_pending_band t' = None"
  | (idle) "tk_band t' = tk_band t" "tk_pending_band t' = None" "\<not> vd_changed v" "vd_band v = tk_band t" "vd_previous_band v = tk_band t"
  | (waits) target where "supports c (tk_band t) target sc" "tk_band t' = tk_band t" "tk_pending_band t' = Some target" "\<not> vd_changed v"
      "vd_band v = tk_band t" "vd_previous_band v = tk_band t"
      "tk_consecutive t' = (if tk_pending_band t = Some target then tk_consecutive t + 1 else 1)"
  | (moves) target where "\<not> forced_deeper sc (tk_band t)" "supports c (tk_band t) target sc" "tk_band t' = target" "tk_pending_band t' = None"
      "vd_changed v" "vd_band v = target" "vd_previous_band v = tk_band t" "target \<noteq> tk_band t"
      "(if tk_pending_band t = Some target then tk_consecutive t + 1 else 1)
         \<ge> (if depth target > depth (tk_band t) then dc_consecutive_to_worsen c else dc_consecutive_to_recover c)"
      "depth target > depth (tk_band t) \<or> dc_allow_automatic_recovery c"
proof -
  define target where "target = supported_band c (tk_band t) (sc_score sc)"
  show ?thesis
  proof (cases "forced_deeper sc (tk_band t)")
    case True
    then show ?thesis using assms that(1) by (auto simp: observe_def Let_def forced_deeper_def)
  next
    case False
    then have none: "(case sc_forced_band sc of Some b \<Rightarrow> if depth b > depth (tk_band t) then Some b else None | None \<Rightarrow> None) = None"
      by (auto simp: forced_deeper_def split: option.splits)
    show ?thesis
    proof (cases "sc_confidence sc < dc_min_confidence c \<or> target = tk_band t")
      case True
      then show ?thesis using assms none that(2) by (auto simp: observe_def Let_def target_def split: if_splits)
    next
      case weighed: False
      then have sup: "supports c (tk_band t) target sc" by (simp add: supports_def target_def)
      define n where "n = (if tk_pending_band t = Some target then tk_consecutive t + 1 else 1)"
      define needed where "needed = (if depth target > depth (tk_band t) then dc_consecutive_to_worsen c else dc_consecutive_to_recover c)"
      show ?thesis
      proof (cases "n < needed \<or> \<not> depth target > depth (tk_band t) \<and> \<not> dc_allow_automatic_recovery c")
        case True
        then show ?thesis using assms none weighed that(3) [OF sup]
          by (auto simp: observe_def Let_def target_def [symmetric] n_def [symmetric] needed_def [symmetric] split: if_splits)
      next
        case go: False
        have "t' = t\<lparr>tk_band := target, tk_pending_band := None, tk_consecutive := 0, tk_history := tk_history t @ [sc_score sc]\<rparr>"
          "vd_changed v" "vd_band v = target" "vd_previous_band v = tk_band t"
          using assms none weighed go
          by (auto simp: observe_def Let_def target_def [symmetric] n_def [symmetric] needed_def [symmetric] split: if_splits)
        then show ?thesis using that(4) [OF False sup] weighed go by (auto simp: n_def needed_def)
      qed
    qed
  qed
qed

lemma observe_never_recovers:
  assumes "\<not> dc_allow_automatic_recovery c" "observe c sc t = (t', v)"
  shows "depth (tk_band t) \<le> depth (tk_band t')" "vd_changed v \<longrightarrow> depth (tk_band t) < depth (tk_band t')"
  using assms(2) by (cases rule: observe_cases; use assms(1) in \<open>auto simp: forced_deeper_def\<close>)+

lemma observe_quarantined:
  assumes "\<not> dc_allow_automatic_recovery c" "observe c sc t = (t', v)" "tk_band t = BAND_QUARANTINED"
  shows "tk_band t' = BAND_QUARANTINED" "\<not> vd_changed v"
  using observe_never_recovers [OF assms(1,2)] assms(3) by (cases "tk_band t'"; auto)+

text \<open>A pending band is backed by as many evaluations as the tracker counted, the last ones made.\<close>

definition pending_backed :: "degradation_config \<Rightarrow> degradation_score list \<Rightarrow> tracker \<Rightarrow> bool" where
  "pending_backed c scs t \<longleftrightarrow>
     (\<forall>target. tk_pending_band t = Some target \<longrightarrow>
        (\<exists>xs ys. scs = xs @ ys \<and> int (length ys) = tk_consecutive t \<and> list_all (supports c (tk_band t) target) ys))"

lemma backed_run:
  assumes "pending_backed c scs t" "supports c (tk_band t) target sc"
  shows "\<exists>xs ys. scs @ [sc] = xs @ ys \<and> int (length ys) = (if tk_pending_band t = Some target then tk_consecutive t + 1 else 1)
    \<and> list_all (supports c (tk_band t) target) ys"
proof (cases "tk_pending_band t = Some target")
  case True
  then obtain xs ys where "scs = xs @ ys" "int (length ys) = tk_consecutive t" "list_all (supports c (tk_band t) target) ys"
    using assms(1) unfolding pending_backed_def by blast
  then show ?thesis using True assms(2) by (intro exI [of _ xs] exI [of _ "ys @ [sc]"]) simp
next
  case False
  then show ?thesis using assms(2) by (intro exI [of _ scs] exI [of _ "[sc]"]) simp
qed

lemma observe_backed:
  assumes "pending_backed c scs t" "observe c sc t = (t', v)"
  shows "pending_backed c (scs @ [sc]) t'"
  using assms(2)
proof (cases rule: observe_cases)
  case (waits target)
  then show ?thesis using backed_run [OF assms(1) waits(1)] by (auto simp: pending_backed_def)
qed (auto simp: pending_backed_def)

lemma track_backed: "pending_backed c scs (track c scs (tracker_new b))"
proof (induction scs rule: rev_induct)
  case Nil
  then show ?case by (simp add: track_def pending_backed_def tracker_new_def)
next
  case (snoc sc scs)
  have "track c (scs @ [sc]) (tracker_new b) = fst (observe c sc (track c scs (tracker_new b)))" by (simp add: track_def)
  then show ?case using observe_backed [OF snoc] by (metis prod.collapse)
qed

text \<open>C28: a band is entered on persistent evidence. Unless a stopping rule forces it, a strategy's band gets deeper only when the last
  evaluations, at least the configured number of them in a row, each reached the entry threshold of the new band with a confidence not
  below the floor.\<close>

theorem deeper_bands_need_persistence:
  assumes "observe c sc (track c scs (tracker_new b)) = (t', v)" "worsened v" "sc_forced_band sc = None"
  shows "\<exists>xs ys. scs @ [sc] = xs @ ys \<and> dc_consecutive_to_worsen c \<le> int (length ys)
    \<and> list_all (\<lambda>s. \<not> sc_confidence s < dc_min_confidence c \<and> passes_threshold enter_threshold c (vd_band v) (\<lambda>x. sc_score s \<ge> x)) ys"
  using assms(1)
proof (cases rule: observe_cases)
  case (moves target)
  let ?t = "track c scs (tracker_new b)"
  have deeper: "depth (tk_band ?t) < depth target" using assms(2) moves by (simp add: worsened_def)
  obtain xs ys where run: "scs @ [sc] = xs @ ys" "list_all (supports c (tk_band ?t) target) ys"
    "int (length ys) = (if tk_pending_band ?t = Some target then tk_consecutive ?t + 1 else 1)"
    using backed_run [OF track_backed moves(2)] by blast
  moreover have "dc_consecutive_to_worsen c \<le> int (length ys)" using moves(9) run(3) deeper by simp
  moreover have "list_all (\<lambda>s. \<not> sc_confidence s < dc_min_confidence c \<and> passes_threshold enter_threshold c (vd_band v) (\<lambda>x. sc_score s \<ge> x)) ys"
    using run(2) supported_deeper [OF _ deeper] moves(6) by (auto simp: list_all_iff supports_def)
  ultimately show ?thesis by blast
qed (use assms(2,3) in \<open>auto simp: worsened_def forced_deeper_def\<close>)

definition sample_score :: "real \<Rightarrow> degradation_score" where
  "sample_score x = \<lparr>sc_score = Fin x, sc_confidence = Fin 1, sc_components = [], sc_config_version = [], sc_forced_band = None\<rparr>"

lemma sample_worsening:
  "worsened (snd (observe DEGRADATION_CONFIG_V1 (sample_score (1 / 2)) (track DEGRADATION_CONFIG_V1 [sample_score (1 / 2)] (tracker_new HEALTHY))))"
  by (simp add: track_def observe_def supported_band_def passes_threshold_def DEGRADATION_CONFIG_V1_def sample_score_def tracker_new_def
      worsened_def Let_def)

theorem deeper_bands_need_persistence_witness:
  "\<exists>v xs ys. snd (observe DEGRADATION_CONFIG_V1 (sample_score (1 / 2)) (track DEGRADATION_CONFIG_V1 [sample_score (1 / 2)] (tracker_new HEALTHY))) = v
     \<and> [sample_score (1 / 2), sample_score (1 / 2)] = xs @ ys \<and> 2 \<le> int (length ys)
     \<and> list_all (\<lambda>s. passes_threshold enter_threshold DEGRADATION_CONFIG_V1 (vd_band v) (\<lambda>x. sc_score s \<ge> x)) ys"
proof -
  obtain t v where tv: "observe DEGRADATION_CONFIG_V1 (sample_score (1 / 2)) (track DEGRADATION_CONFIG_V1 [sample_score (1 / 2)] (tracker_new HEALTHY)) = (t, v)"
    by (cases "observe DEGRADATION_CONFIG_V1 (sample_score (1 / 2)) (track DEGRADATION_CONFIG_V1 [sample_score (1 / 2)] (tracker_new HEALTHY))")
  have "worsened v" using sample_worsening by (simp add: tv)
  from deeper_bands_need_persistence [OF tv this] tv show ?thesis
    by (auto simp: DEGRADATION_CONFIG_V1_def sample_score_def list_all_iff)
qed

end
