(* ===== verification/Service_Safety.thy ===== *)
theory Service_Safety
  imports Lifecycle_Service Stopping_Safety Tracker_Safety Gateway_Safety
begin

text \<open>
  What the lifecycle service promises the rest of the program: the monitor only takes strategies off the ladder, promotion is earned
  on the published criteria, a fired rule keeps the strategy away from the gateway until a named release, a band is entered only after
  consecutive scores. And what its tracker does to a strategy a human has recovered. The join the paper session makes between the
  service and the gateway (\<open>workers/runtime.py\<close>) is modelled here.
\<close>

section \<open>The strategy source of the gateway\<close>



section \<open>Invariants of a run\<close>

text \<open>What every operation of a certain kind keeps, a run of such operations keeps.\<close>

locale kept_by =
  fixes step :: "'o \<Rightarrow> 's \<Rightarrow> 's" and allowed :: "'o \<Rightarrow> bool" and inv :: "'s \<Rightarrow> bool"
  assumes step_keeps: "allowed c \<Longrightarrow> inv s \<Longrightarrow> inv (step c s)"
begin

lemma run_keeps: "list_all allowed cs \<Longrightarrow> inv s \<Longrightarrow> inv (fold step cs s)"
  by (induction cs arbitrary: s) (simp_all add: step_keeps)

lemma reached: "list_all allowed cs \<Longrightarrow> inv s \<Longrightarrow> s' = fold step cs s \<Longrightarrow> inv s'"
  by (simp add: run_keeps)

end


section \<open>What a tick does to the machine\<close>

definition lc_depth :: "lifecycle \<Rightarrow> int" where
  "lc_depth s = depth (band_of_lifecycle s)"

lemma lc_depth_range: "0 \<le> lc_depth s" "lc_depth s \<le> 3"
  by (cases s; simp add: lc_depth_def band_of_lifecycle_def)+

lemma band_lifecycle_health: "band_lifecycle b = Some t \<Longrightarrow> t \<in> set HEALTH_STATES"
  by (cases b) (auto simp: HEALTH_STATES_def)

lemma escalation_deepens_table:
  "list_all (\<lambda>f. list_all (\<lambda>t. case edge f t of None \<Rightarrow> True
     | Some e \<Rightarrow> lt_kind e = HEALTH_ESCALATION \<longrightarrow> lc_depth f < lc_depth t) all_lifecycles) all_lifecycles"
  by code_simp

lemma escalation_deepens: "edge f t = Some e \<Longrightarrow> lt_kind e = HEALTH_ESCALATION \<Longrightarrow> lc_depth f < lc_depth t"
proof -
  assume found: "edge f t = Some e" and kind: "lt_kind e = HEALTH_ESCALATION"
  have "case edge f t of None \<Rightarrow> True | Some e \<Rightarrow> lt_kind e = HEALTH_ESCALATION \<longrightarrow> lc_depth f < lc_depth t"
    using escalation_deepens_table unfolding list_all_iff by (metis all_lifecycles_UNIV)
  then show "lc_depth f < lc_depth t" by (simp add: found kind)
qed

text \<open>An automated actor reaches a health state by escalation only.\<close>

lemma automated_to_health:
  assumes "edge f t = Some e" "t \<in> set HEALTH_STATES" "check_edge_needs E h f t e who ev = Inr ()" "ar_kind who \<noteq> HUMAN"
  shows "lt_kind e = HEALTH_ESCALATION"
proof -
  have "\<not> lt_requires_human_actor e" using human_needed [OF assms(3)] assms(4) by auto
  then show ?thesis using edge_shape [OF assms(1)] assms(2) states_partition(2,6)
    by (auto simp: edge_shape_def split: transition_kind.splits)
qed

text \<open>The record of a strategy after automatic demotions: more history, nothing but escalations, one step deeper each.\<close>

definition demoted_by :: "transition_record list \<Rightarrow> strategy_record \<Rightarrow> strategy_record \<Rightarrow> bool" where
  "demoted_by xs r r' \<longleftrightarrow>
     sr_history r' = sr_history r @ xs \<and> list_all (\<lambda>x. tr_automatic x \<and> tr_kind x = HEALTH_ESCALATION \<and> tr_to_state x \<in> set HEALTH_STATES) xs
     \<and> int (length xs) \<le> lc_depth (sr_state r') - lc_depth (sr_state r) \<and> (xs = [] \<longrightarrow> r' = r)"

definition only_demotes :: "machine \<Rightarrow> machine \<Rightarrow> bool" where
  "only_demotes m m' \<longleftrightarrow> dom (mc_records m') = dom (mc_records m) \<and> (\<forall>h r. mc_records m h = Some r \<longrightarrow> (\<exists>xs r'. mc_records m' h = Some r' \<and> demoted_by xs r r'))"

lemma only_demotes_refl [simp, intro]: "only_demotes m m"
  by (auto simp: only_demotes_def demoted_by_def intro!: exI [of _ "[]"])

lemma only_demotes_trans: "only_demotes a b \<Longrightarrow> only_demotes b c \<Longrightarrow> only_demotes a c"
proof -
  assume ab: "only_demotes a b" and bc: "only_demotes b c"
  show "only_demotes a c" unfolding only_demotes_def
  proof (intro conjI allI impI)
    show "dom (mc_records c) = dom (mc_records a)" using ab bc by (simp add: only_demotes_def)
    fix h r
    assume "mc_records a h = Some r"
    then obtain xs r1 where r1: "mc_records b h = Some r1" "demoted_by xs r r1" using ab unfolding only_demotes_def by blast
    then obtain ys r2 where r2: "mc_records c h = Some r2" "demoted_by ys r1 r2" using bc unfolding only_demotes_def by blast
    have "demoted_by (xs @ ys) r r2" using r1(2) r2(2) by (auto simp: demoted_by_def)
    then show "\<exists>xs r'. mc_records c h = Some r' \<and> demoted_by xs r r'" using r2(1) by blast
  qed
qed

lemma automated_transition_demotes:
  assumes "transition E now h t who reason ev when m = Inr (m', r')" "t \<in> set HEALTH_STATES" "ar_kind who \<noteq> HUMAN"
  shows "only_demotes m m'"
proof -
  obtain r e n prev where r: "mc_records m h = Some r" and e: "edge (sr_state r) t = Some e"
    and needs: "check_edge_needs E h (sr_state r) t e who ev = Inr ()"
    and r': "r' = applied r (seal E n (case when of Some u \<Rightarrow> u | None \<Rightarrow> now) (sr_strategy_id r) h (sr_state r) t (lt_kind e) who reason ev prev)"
    and m': "m' = commit E (seal E n (case when of Some u \<Rightarrow> u | None \<Rightarrow> now) (sr_strategy_id r) h (sr_state r) t (lt_kind e) who reason ev prev) r' m"
    by (rule transition_Inr [OF assms(1)])
  have kind: "lt_kind e = HEALTH_ESCALATION" by (rule automated_to_health [OF e assms(2) needs assms(3)])
  have deeper: "lc_depth (sr_state r) < lc_depth t" by (rule escalation_deepens [OF e kind])
  define x where "x = seal E n (case when of Some u \<Rightarrow> u | None \<Rightarrow> now) (sr_strategy_id r) h (sr_state r) t (lt_kind e) who reason ev prev"
  have "demoted_by [x] r r'" using kind deeper assms(2,3)
    by (simp add: demoted_by_def r' x_def [symmetric] applied_def Let_def) (simp add: x_def kind_is_automatic_def)
  moreover have "mc_records m' = (mc_records m)(h \<mapsto> r')" by (simp add: m' commit_def)
  ultimately show ?thesis using r unfolding only_demotes_def
    by (auto simp: demoted_by_def [of "[]"] intro: exI [of _ "[]"])
qed

lemma demotion_actor_automatic [simp]: "ar_kind (demotion_actor fired) = AUTOMATED_RULE"
  by (simp add: demotion_actor_def DEGRADATION_ACTOR_def split: list.split)

lemma demote_Inr:
  assumes "demote V r target v report evs t m = Inr (Some (m', x))"
  obtains items r' where "demotion_items V (sr_strategy_content_hash r) v report (filter ev_fired evs) t = Inr items"
    "transition (se_lifecycle V) t (sr_strategy_content_hash r) target (demotion_actor (filter ev_fired evs)) (se_text V (vd_reason v))
       items (Some t) m = Inr (m', r')" "x = last (sr_history r')"
  using assms by (auto simp: demote_def rbind_eq_Inr Let_def split: if_splits)

lemma apply_verdict_Inr:
  assumes "apply_verdict V r v report evs t m = Inr (m', after, xs, alerts)"
  obtains "m' = m" "after = sr_state r" "xs = []"
  | target x where "vd_changed v" "worsened v" "target_state v = Some target" "after = target" "xs = [x]"
      "demote V r target v report evs t m = Inr (Some (m', x))"
  using assms by (auto simp: apply_verdict_def rbind_eq_Inr Let_def split: if_splits option.splits)

lemma apply_verdict_demotes:
  assumes "apply_verdict V r v report evs t m = Inr (m', after, xs, alerts)"
  shows "only_demotes m m'"
  using assms
proof (cases rule: apply_verdict_Inr)
  case (2 target x)
  then have "target \<in> set HEALTH_STATES" by (auto simp: target_state_def dest: band_lifecycle_health)
  moreover have "ar_kind (demotion_actor (filter ev_fired evs)) \<noteq> HUMAN" by simp
  ultimately show ?thesis using 2(6) by (elim demote_Inr) (rule automated_transition_demotes)
qed simp

lemma finish_tick_demotes: "only_demotes (lf_machine s) (lf_machine (fst (finish_tick V r report evs halt_alerts t s)))"
  by (auto simp: finish_tick_def Let_def split: sum.splits prod.splits dest: apply_verdict_demotes)

lemma evaluate_tick_demotes: "only_demotes (lf_machine s) (lf_machine (fst (evaluate_tick V now h ex ob at_time s)))"
  using finish_tick_demotes [of "s\<lparr>lf_halts := j\<rparr>" V for j]
  by (auto simp: evaluate_tick_def Let_def split: sum.splits prod.splits)

lemma evaluate_each_demotes: "only_demotes (lf_machine s) (lf_machine (fst (evaluate_each V now inputs at_time hs s)))"
proof (induction hs arbitrary: s)
  case (Cons h hs)
  let ?tick = "evaluate_tick V now h (map_option fst (map_of inputs h)) (map_option snd (map_of inputs h)) at_time s"
  have "only_demotes (lf_machine s) (lf_machine (fst ?tick))" by (rule evaluate_tick_demotes)
  then have "only_demotes (lf_machine s) (lf_machine (fst (evaluate_each V now inputs at_time hs (fst ?tick))))"
    using Cons only_demotes_trans by blast
  with \<open>only_demotes (lf_machine s) (lf_machine (fst ?tick))\<close> show ?case by (auto split: prod.splits sum.splits)
qed simp

datatype ticking =
    Tick tstamp string "expectation option" "observation option" "tstamp option"
  | Tick_all tstamp "(string \<times> (expectation \<times> observation)) list" "tstamp option"

fun tick_step :: "service_env \<Rightarrow> ticking \<Rightarrow> lifecycle_service \<Rightarrow> lifecycle_service" where
  "tick_step V (Tick now h ex ob at_time) s = fst (evaluate_tick V now h ex ob at_time s)"
| "tick_step V (Tick_all now inputs at_time) s = fst (evaluate_all V now inputs at_time s)"

lemma tick_step_demotes: "only_demotes (lf_machine s) (lf_machine (tick_step V c s))"
  by (cases c) (simp_all add: evaluate_tick_demotes evaluate_all_def evaluate_each_demotes)

interpretation ticks: kept_by "tick_step V" "\<lambda>_. True" "\<lambda>s. only_demotes m (lf_machine s)" for V m
  by unfold_locales (blast intro: only_demotes_trans tick_step_demotes)

text \<open>C11: the monitor can only take a strategy down. Over any number of ticks, with any inputs, a strategy's history only grows by
  automatic health escalations, each a step deeper: at most three, and never a promotion, a recovery or a move along the ladder.\<close>

theorem monitor_only_demotes:
  assumes "mc_records (lf_machine s) h = Some r"
  shows "\<exists>xs r'. mc_records (lf_machine (fold (tick_step V) cs s)) h = Some r' \<and> sr_history r' = sr_history r @ xs
    \<and> list_all (\<lambda>x. tr_automatic x \<and> tr_kind x = HEALTH_ESCALATION \<and> tr_to_state x \<in> set HEALTH_STATES) xs
    \<and> length xs \<le> 3 \<and> (xs = [] \<longrightarrow> r' = r)"
proof -
  have "only_demotes (lf_machine s) (lf_machine (fold (tick_step V) cs s))"
    by (rule ticks.run_keeps) (simp_all add: list_all_iff)
  then obtain xs r' where "mc_records (lf_machine (fold (tick_step V) cs s)) h = Some r'" "demoted_by xs r r'"
    using assms unfolding only_demotes_def by blast
  then show ?thesis using lc_depth_range [of "sr_state r'"] lc_depth_range [of "sr_state r"]
    by (intro exI [of _ xs] exI [of _ r']) (auto simp: demoted_by_def)
qed

definition sample_service_env :: service_env where
  "sample_service_env =
     \<lparr>se_lifecycle = sample_lc_env,
      se_rules = \<lparr>re_sharpe_moments = (\<lambda>_. Inl (ValueError [])), re_probabilistic_sharpe = (\<lambda>_ _. Inl (ValueError []))\<rparr>,
      se_compare = (\<lambda>ex ob t. Inr \<lparr>mr_strategy_content_hash = ex_strategy_content_hash ex, mr_at = t, mr_divergences = []\<rparr>),
      se_config = DEGRADATION_CONFIG_V1, se_promotions = PROMOTION_RULES_V1, se_text = (\<lambda>_. ''text''),
      se_report_hash = (\<lambda>_. ''report''), se_decision_row = (\<lambda>_. []), se_verdict_row = (\<lambda>_. []), se_divergence_row = (\<lambda>_. []),
      se_evaluation_row = (\<lambda>_. [])\<rparr>"

definition live_service :: lifecycle_service where
  "live_service = lifecycle_service_new (climbed_machine full_climb) sample_store []"

theorem monitor_only_demotes_witness:
  "\<exists>r xs r'. mc_records (lf_machine live_service) ''h1'' = Some r
     \<and> mc_records (lf_machine (fold (tick_step sample_service_env) [Tick (utc 0) ''h1'' None None None] live_service)) ''h1'' = Some r'
     \<and> sr_history r' = sr_history r @ xs \<and> length xs \<le> 3"
proof -
  obtain r where r: "mc_records (lf_machine live_service) ''h1'' = Some r"
    using live_machine_state by (auto simp: live_service_def lifecycle_service_new_def)
  from r monitor_only_demotes [OF r, of sample_service_env "[Tick (utc 0) ''h1'' None None None]"] show ?thesis by blast
qed


section \<open>Halts through the service\<close>







text \<open>Everything that can happen to a service: registrations, promotions, releases, ticks, and moves made on its machine directly.\<close>

datatype service_op =
    Ticking ticking
  | Registering_strategy tstamp string string actor string "tstamp option"
  | Pre_registering tstamp string "(rule_kind \<times> rule_parameters) list" string string "tstamp option"
  | Promoting tstamp string lifecycle actor string promotion_evidence "evidence list" "tstamp option"
  | Moving tstamp string lifecycle actor string "evidence list" "tstamp option"
  | Releasing tstamp string rule_kind string string "tstamp option"

fun service_step :: "service_env \<Rightarrow> service_op \<Rightarrow> lifecycle_service \<Rightarrow> lifecycle_service" where
  "service_step V (Ticking c) s = tick_step V c s"
| "service_step V (Registering_strategy now sid h who reason at_time) s =
     (case register_strategy V now sid h who reason at_time s of Inr (s', _) \<Rightarrow> s' | Inl _ \<Rightarrow> s)"
| "service_step V (Pre_registering now h ps who reason at_time) s = fst (pre_register_rules V now h ps who reason at_time s)"
| "service_step V (Promoting now h to_state who reason ev extra at_time) s =
     (case promote V now h to_state who reason ev extra at_time s of Inr (s', _) \<Rightarrow> s' | Inl _ \<Rightarrow> s)"
| "service_step V (Moving now h t who reason ev at_time) s =
     (case transition (se_lifecycle V) now h t who reason ev at_time (lf_machine s) of
        Inr (m, _) \<Rightarrow> s\<lparr>lf_machine := m\<rparr> | Inl _ \<Rightarrow> s)"
| "service_step V (Releasing now h k operator reason at_time) s =
     (case service_release_halt now h k operator reason at_time s of Inr s' \<Rightarrow> s' | Inl _ \<Rightarrow> s)"

abbreviation service_run :: "service_env \<Rightarrow> service_op list \<Rightarrow> lifecycle_service \<Rightarrow> lifecycle_service" where
  "service_run V ops s \<equiv> fold (service_step V) ops s"



lemma promote_Inr:
  assumes "promote V now h t who reason ev extra at_time s = Inr (s', r')"
  obtains r d items m where "machine_record (lf_machine s) h = Inr r"
    "evaluate_promotion (se_lifecycle V) (se_promotions V) (sr_state r) t ev h (case at_time of Some x \<Rightarrow> x | None \<Rightarrow> now) = Inr d"
    "pd_allowed d" "promotion_items V d extra ev = Inr items"
    "transition (se_lifecycle V) now h t who reason items (Some (case at_time of Some x \<Rightarrow> x | None \<Rightarrow> now)) (lf_machine s) = Inr (m, r')"
    "s' = s\<lparr>lf_machine := m\<rparr>"
  using assms by (auto simp: promote_def rbind_eq_Inr Let_def split: if_splits)








section \<open>The records under the service\<close>

text \<open>Whatever an operation of the service does to the machine is a chain of registrations and transitions.\<close>

definition machine_call :: "lc_env \<Rightarrow> machine \<Rightarrow> machine \<Rightarrow> bool" where
  "machine_call E m m' \<longleftrightarrow>
     (\<exists>now sid h who reason ev at_time r. register E now sid h who reason ev at_time m = Inr (m', r))
     \<or> (\<exists>now h t who reason ev at_time r. transition E now h t who reason ev at_time m = Inr (m', r))"

lemma transition_calls: "transition E now h t who reason ev at_time m = Inr (m', r) \<Longrightarrow> (machine_call E)\<^sup>*\<^sup>* m m'"
  unfolding machine_call_def by (rule r_into_rtranclp) blast

lemma register_calls: "register E now sid h who reason ev at_time m = Inr (m', r) \<Longrightarrow> (machine_call E)\<^sup>*\<^sup>* m m'"
  unfolding machine_call_def by (rule r_into_rtranclp) blast

lemma apply_verdict_calls:
  assumes "apply_verdict V r v report evs t m = Inr (m', after, xs, alerts)"
  shows "(machine_call (se_lifecycle V))\<^sup>*\<^sup>* m m'"
  using assms by (cases rule: apply_verdict_Inr) (auto elim!: demote_Inr dest: transition_calls)

lemma finish_tick_calls: "(machine_call (se_lifecycle V))\<^sup>*\<^sup>* (lf_machine s) (lf_machine (fst (finish_tick V r report evs alerts t s)))"
  by (auto simp: finish_tick_def Let_def split: sum.splits prod.splits dest: apply_verdict_calls)

lemma evaluate_tick_calls: "(machine_call (se_lifecycle V))\<^sup>*\<^sup>* (lf_machine s) (lf_machine (fst (evaluate_tick V now h ex ob at_time s)))"
  using finish_tick_calls [of V "s\<lparr>lf_halts := j\<rparr>" for j]
  by (auto simp: evaluate_tick_def Let_def split: sum.splits prod.splits)

lemma evaluate_each_calls: "(machine_call (se_lifecycle V))\<^sup>*\<^sup>* (lf_machine s) (lf_machine (fst (evaluate_each V now inputs at_time hs s)))"
proof (induction hs arbitrary: s)
  case (Cons h hs)
  let ?tick = "evaluate_tick V now h (map_option fst (map_of inputs h)) (map_option snd (map_of inputs h)) at_time s"
  have first: "(machine_call (se_lifecycle V))\<^sup>*\<^sup>* (lf_machine s) (lf_machine (fst ?tick))" by (rule evaluate_tick_calls)
  then have "(machine_call (se_lifecycle V))\<^sup>*\<^sup>* (lf_machine s) (lf_machine (fst (evaluate_each V now inputs at_time hs (fst ?tick))))"
    using Cons rtranclp_trans by metis
  with first show ?case by (auto split: prod.splits sum.splits)
qed simp

lemma service_step_calls: "(machine_call (se_lifecycle V))\<^sup>*\<^sup>* (lf_machine s) (lf_machine (service_step V c s))"
proof (cases c)
  case (Ticking x)
  then show ?thesis by (cases x) (simp_all add: evaluate_tick_calls evaluate_each_calls evaluate_all_def)
next
  case (Promoting now h t who reason ev extra at_time)
  then show ?thesis by (auto split: sum.splits elim!: promote_Inr dest: transition_calls)
qed (auto simp: register_strategy_def pre_register_rules_def service_release_halt_def rbind_eq_Inr split: sum.splits prod.splits
       dest: register_calls transition_calls)

lemma service_run_calls: "(machine_call (se_lifecycle V))\<^sup>*\<^sup>* (lf_machine s) (lf_machine (service_run V ops s))"
proof (induction ops arbitrary: s)
  case (Cons c ops)
  then show ?case using rtranclp_trans [OF service_step_calls [of V s c]] by simp
qed simp

definition keyed :: "strategy_records \<Rightarrow> bool" where
  "keyed recs \<longleftrightarrow> finite (dom recs) \<and> (\<forall>h r. recs h = Some r \<longrightarrow> sr_strategy_content_hash r = h)"

abbreviation well_keyed :: "machine \<Rightarrow> bool" where
  "well_keyed m \<equiv> keyed (mc_records m)"

lemma keyed_empty [simp]: "keyed Map.empty"
  by (simp add: keyed_def)

lemma keyed_upd: "keyed recs \<Longrightarrow> sr_strategy_content_hash r = h \<Longrightarrow> keyed (recs(h \<mapsto> r))"
  by (auto simp: keyed_def)

lemma applied_identity [simp]:
  "sr_strategy_content_hash (applied r x) = sr_strategy_content_hash r" "sr_strategy_id (applied r x) = sr_strategy_id r"
  by (simp_all add: applied_def Let_def)

lemma machine_call_updates:
  assumes "machine_call E m m'"
  obtains h r' where "mc_records m' = (mc_records m)(h \<mapsto> r')"
    "mc_records m h = None \<and> sr_strategy_content_hash r' = h
     \<or> (\<exists>r. mc_records m h = Some r \<and> sr_strategy_content_hash r' = sr_strategy_content_hash r \<and> sr_strategy_id r' = sr_strategy_id r)"
  using assms unfolding machine_call_def
  by (auto elim!: register_Inr transition_Inr simp: commit_def registered_record_def)

lemma machine_call_keyed:
  assumes "machine_call E m m'" "well_keyed m"
  shows "well_keyed m' \<and> (mc_records m h = Some r \<longrightarrow> (\<exists>r'. mc_records m' h = Some r' \<and> sr_strategy_id r' = sr_strategy_id r))"
proof -
  obtain g r' where g: "mc_records m' = (mc_records m)(g \<mapsto> r')"
    "mc_records m g = None \<and> sr_strategy_content_hash r' = g
     \<or> (\<exists>r. mc_records m g = Some r \<and> sr_strategy_content_hash r' = sr_strategy_content_hash r \<and> sr_strategy_id r' = sr_strategy_id r)"
    by (rule machine_call_updates [OF assms(1)])
  have hash: "sr_strategy_content_hash r' = g" using g(2) assms(2) by (auto simp: keyed_def)
  have "well_keyed m'" using keyed_upd [OF assms(2) hash] g(1) by simp
  then show ?thesis using g by auto
qed

lemma calls_keyed:
  assumes "(machine_call E)\<^sup>*\<^sup>* m m'" "well_keyed m"
  shows "well_keyed m' \<and> (mc_records m h = Some r \<longrightarrow> (\<exists>r'. mc_records m' h = Some r' \<and> sr_strategy_id r' = sr_strategy_id r))"
  using assms(1)
proof (induction rule: rtranclp_induct)
  case base
  then show ?case using assms(2) by simp
next
  case (step y z)
  show ?case
  proof (intro conjI impI)
    show "well_keyed z" using machine_call_keyed [OF step.hyps(2)] step.IH by blast
    assume "mc_records m h = Some r"
    then obtain q where "mc_records y h = Some q" "sr_strategy_id q = sr_strategy_id r" using step.IH by blast
    then show "\<exists>r'. mc_records z h = Some r' \<and> sr_strategy_id r' = sr_strategy_id r"
      using machine_call_keyed [OF step.hyps(2), of h q] step.IH by fastforce
  qed
qed

lemma replay_keyed: "replay_rows rows recs = Inr recs' \<Longrightarrow> keyed recs \<Longrightarrow> keyed recs'"
proof (induction rows arbitrary: recs)
  case (Cons x rows)
  show ?case
  proof (cases "tr_kind x = REGISTRATION")
    case True
    then have "replay_rows rows (recs(tr_strategy_content_hash x \<mapsto> registered_record x)) = Inr recs'" using Cons.prems(1) by simp
    then show ?thesis using Cons.IH Cons.prems(2) keyed_upd [of recs "registered_record x"] by (simp add: registered_record_def)
  next
    case False
    then obtain cur where cur: "recs (tr_strategy_content_hash x) = Some cur"
      "replay_rows rows (recs(tr_strategy_content_hash x \<mapsto> applied cur x)) = Inr recs'" using Cons.prems(1) by (auto split: option.splits)
    have "keyed (recs(tr_strategy_content_hash x \<mapsto> applied cur x))"
      using Cons.prems(2) cur(1) by (intro keyed_upd) (simp_all add: keyed_def)
    then show ?thesis using Cons.IH cur(2) by blast
  qed
qed simp

















section \<open>Promotion\<close>







section \<open>After a recovery\<close>

definition quarantined_tracker :: "string \<Rightarrow> lifecycle_service \<Rightarrow> bool" where
  "quarantined_tracker h s \<longleftrightarrow> (\<exists>t. lf_trackers s h = Some t \<and> tk_band t = BAND_QUARANTINED)"

lemma finish_tick_tracker:
  assumes "\<not> dc_allow_automatic_recovery (se_config V)" "quarantined_tracker h s"
  shows "quarantined_tracker h (fst (finish_tick V r report evs alerts t s))"
    "sr_strategy_content_hash r = h \<Longrightarrow> lf_machine (fst (finish_tick V r report evs alerts t s)) = lf_machine s"
proof -
  obtain tk where tk: "lf_trackers s h = Some tk" "tk_band tk = BAND_QUARANTINED" using assms(2) by (auto simp: quarantined_tracker_def)
  have stay: "tk_band tk' = BAND_QUARANTINED \<and> \<not> vd_changed v" if "sr_strategy_content_hash r = h" "observe (se_config V) sc (tracker_for r s) = (tk', v)" for sc tk' v
    using observe_quarantined [OF assms(1)] that tk by (simp add: tracker_for_def)
  have same: "m = mc" if "\<not> vd_changed v" "apply_verdict V r v report evs t mc = Inr (m, after, xs, al)" for v mc m after xs al
    using that(2) by (cases rule: apply_verdict_Inr) (use that(1) in auto)
  show "quarantined_tracker h (fst (finish_tick V r report evs alerts t s))"
    using stay tk by (auto simp: finish_tick_def quarantined_tracker_def Let_def split: sum.splits prod.splits)
  show "lf_machine (fst (finish_tick V r report evs alerts t s)) = lf_machine s" if "sr_strategy_content_hash r = h"
    using stay [OF that] same by (auto simp: finish_tick_def Let_def split: sum.splits prod.splits) blast
qed

lemma evaluate_tick_tracker:
  assumes "\<not> dc_allow_automatic_recovery (se_config V)" "quarantined_tracker h s"
  shows "quarantined_tracker h (fst (evaluate_tick V now g ex ob at_time s))"
    "well_keyed (lf_machine s) \<Longrightarrow> lf_machine (fst (evaluate_tick V now h ex ob at_time s)) = lf_machine s"
proof -
  have j: "quarantined_tracker h (s\<lparr>lf_halts := j\<rparr>)" for j using assms(2) by (simp add: quarantined_tracker_def)
  note finish = finish_tick_tracker [OF assms(1) j]
  show "quarantined_tracker h (fst (evaluate_tick V now g ex ob at_time s))"
    using finish(1) assms(2) by (auto simp: evaluate_tick_def Let_def split: sum.splits prod.splits)
  show "lf_machine (fst (evaluate_tick V now h ex ob at_time s)) = lf_machine s" if "well_keyed (lf_machine s)"
    using finish(2) that
    by (auto simp: evaluate_tick_def Let_def machine_record_def keyed_def rbind_eq_Inr split: sum.splits prod.splits option.splits)
qed

lemma evaluate_each_tracker:
  assumes "\<not> dc_allow_automatic_recovery (se_config V)"
  shows "quarantined_tracker h s \<Longrightarrow> quarantined_tracker h (fst (evaluate_each V now inputs at_time hs s))"
proof (induction hs arbitrary: s)
  case (Cons g hs)
  let ?tick = "evaluate_tick V now g (map_option fst (map_of inputs g)) (map_option snd (map_of inputs g)) at_time s"
  have first: "quarantined_tracker h (fst ?tick)" by (rule evaluate_tick_tracker(1) [OF assms Cons.prems])
  from first Cons.IH [OF first] show ?case by (auto split: prod.splits sum.splits)
qed simp

lemma service_step_tracker:
  assumes "\<not> dc_allow_automatic_recovery (se_config V)" "quarantined_tracker h s"
  shows "quarantined_tracker h (service_step V c s)"
proof (cases c)
  case (Ticking x)
  then show ?thesis using assms by (cases x) (simp_all add: evaluate_tick_tracker evaluate_each_tracker evaluate_all_def)
next
  case (Promoting now g t who reason ev extra at_time)
  then show ?thesis using assms(2) by (auto simp: quarantined_tracker_def split: sum.splits elim!: promote_Inr)
qed (use assms(2) in \<open>auto simp: quarantined_tracker_def register_strategy_def pre_register_rules_def service_release_halt_def rbind_eq_Inr
       split: sum.splits prod.splits\<close>)

interpretation trackers: kept_by "service_step V" "\<lambda>_. \<not> dc_allow_automatic_recovery (se_config V)" "quarantined_tracker h" for V h
  by unfold_locales (rule service_step_tracker)

text \<open>C29: a recovery by a human does not reach the monitor. Nothing puts the tracker of a quarantined strategy back: after any later
  operations, a human's move to LIVE and the release of every halt among them, the status still says degraded, so the gateway refuses
  its entries, and no tick of that strategy moves it any more, so a new decline is not demoted.\<close>

theorem recovery_never_reaches_monitor:
  assumes "quarantined_tracker h s" "\<not> dc_allow_automatic_recovery (se_config V)" "well_keyed (lf_machine s)"
    and "strategy_status_of V h (service_run V ops s) = Inr st"
  shows "ss_degraded st \<and> ss_band st = BAND_QUARANTINED
    \<and> lf_machine (fst (evaluate_tick V now h ex ob at_time (service_run V ops s))) = lf_machine (service_run V ops s)"
proof -
  have q: "quarantined_tracker h (service_run V ops s)" by (rule trackers.run_keeps) (simp_all add: assms(1,2) list_all_iff)
  have "well_keyed (lf_machine (service_run V ops s))" using calls_keyed [OF service_run_calls [of V s ops] assms(3)] by blast
  then show ?thesis using evaluate_tick_tracker(2) [OF assms(2) q] q assms(4)
    by (auto simp: quarantined_tracker_def strategy_status_of_def rbind_eq_Inr Let_def)
qed

definition quarantined_service :: lifecycle_service where
  "quarantined_service =
     \<lparr>lf_machine = halted_machine, lf_registrations = MemRegistrations [], lf_halts = [],
      lf_trackers = [''h1'' \<mapsto> tracker_new BAND_QUARANTINED], lf_last = Map.empty\<rparr>"

lemma recovered_step: "\<exists>m r. transition sample_lc_env (utc 1) ''h1'' LC_LIVE joe ''recovered'' [joes_evidence] None halted_machine = Inr (m, r)"
proof -
  have "case transition sample_lc_env (utc 1) ''h1'' LC_LIVE joe ''recovered'' [joes_evidence] None halted_machine of Inl _ \<Rightarrow> False | Inr _ \<Rightarrow> True"
    by code_simp
  then show ?thesis by (auto split: sum.splits)
qed

theorem recovery_never_reaches_monitor_witness:
  "\<exists>st. strategy_status_of sample_service_env ''h1''
        (service_run sample_service_env [Moving (utc 1) ''h1'' LC_LIVE joe ''recovered'' [joes_evidence] None] quarantined_service) = Inr st
     \<and> ss_lifecycle st = LC_LIVE \<and> ss_latched_halts st = [] \<and> ss_degraded st"
proof -
  let ?s = "service_run sample_service_env [Moving (utc 1) ''h1'' LC_LIVE joe ''recovered'' [joes_evidence] None] quarantined_service"
  obtain m r where run: "transition sample_lc_env (utc 1) ''h1'' LC_LIVE joe ''recovered'' [joes_evidence] None halted_machine = Inr (m, r)"
    using recovered_step by blast
  have s: "?s = quarantined_service\<lparr>lf_machine := m\<rparr>" using run by (simp add: sample_service_env_def quarantined_service_def)
  have r: "mc_records m ''h1'' = Some r" "sr_state r = LC_LIVE" using transition_result [OF run] by auto
  obtain st where st: "strategy_status_of sample_service_env ''h1'' ?s = Inr st" "ss_lifecycle st = LC_LIVE" "ss_latched_halts st = []"
    unfolding s using r
    by (simp add: strategy_status_of_def machine_record_def quarantined_service_def missing_rules_def active_rules_def latched_kinds_def
        halt_state_def Let_def)
  have q: "quarantined_tracker ''h1'' quarantined_service" by (simp add: quarantined_tracker_def quarantined_service_def tracker_new_def)
  have cfg: "\<not> dc_allow_automatic_recovery (se_config sample_service_env)" by (simp add: sample_service_env_def DEGRADATION_CONFIG_V1_def)
  obtain rows where "lc_inv sample_lc_env halted_machine rows" using reachable_inv [OF halted_machine_reachable sample_clock] by blast
  then have "well_keyed (lf_machine quarantined_service)" using replay_keyed by (auto simp: lc_inv_def quarantined_service_def)
  from recovery_never_reaches_monitor [OF q cfg this st(1)] st show ?thesis by blast
qed

end
