(* ===== verification/Spec2Isabelle.thy ===== *)
theory Spec2Isabelle
  imports Mode_Guard Lifecycle_Safety Execution_Safety Intent_Log Lock_Safety Sizing_Safety Manager_Safety Service_Safety
begin

text \<open>
  \<^bold>\<open>Fiboki V2: the path of an order and the life of a strategy\<close>

  Fiboki (\<open>src/src/fiboki\<close>) is a research and trading platform. A strategy produces a signal; portfolio construction
  sizes it once into a trade plan; the execution service sends it to a venue after the mode guard and the risk
  gateway have passed it; a kill switch, shared by all processes through a journal file, stops new risk or flattens
  the book; and a hash-chained log records every promotion, demotion and halt of a strategy. A closed position may lock
  its instrument for a number of bars; the intents and journals live in append-only files that survive a crash. This
  library models the part of the platform that decides whether an order is sent and whether a strategy may trade, and
  the files that decision rests on.

  \<^bold>\<open>Theories, in the order of their imports\<close>

  \<^item> \<open>Py_Prelude\<close>: the Python values the source computes with. Floats (finite reals, the two infinities and NaN,
    with Python's comparisons), timestamps with or without a zone, text with formatted numbers in it, exceptions as
    values, results \<open>pyexn + 'a\<close>, JSON values.
  \<^item> \<open>Core_Types\<close>: \<open>core/enums.py\<close>, the contracts of \<open>core/contracts.py\<close> with their constructor checks, the instrument
    record of \<open>core/instruments.py\<close> and the portfolio snapshot of \<open>portfolio/construction.py\<close>.
  \<^item> \<open>Kill_Switch\<close>: \<open>risk/killswitch.py\<close>. Journals in memory and on file, replay, the fingerprint cache, activation
    and deactivation, the permission table, the flatten list; a step relation for one process among several sharing
    a journal. The cache always answers like a replay of the complete journal, the switch never clears itself, and
    the two ways the protection can be lost: a FLATTEN landing inside another process's activation, and the journal
    file disappearing.
  \<^item> \<open>Limit_Sets\<close>: \<open>risk/limits.py\<close>. Validation, fingerprint payload, derivation, registry and the published sets;
    the payload determines every number, published sets are valid and found, versions are stable, and LIVE's limits
    are no looser than DEMO's.
  \<^item> \<open>Risk_Gateway\<close>: \<open>risk/gateway.py\<close>. The views and contexts, each of the 21 checks with its early returns and
    exceptions, \<open>evaluate\<close> and \<open>evaluate_exit\<close> with the recorded attempt.
  \<^item> \<open>Gateway_Safety\<close>: what an allowed order means. Fail-closed voting, the limit checks as a specification of the
    book after the trade, missing inputs, preconditions, blackout, veto, recording, exits.
  \<^item> \<open>Mode_Guard\<close>: \<open>broker/mode_guard.py\<close>. Host parsing (as \<open>urlsplit(url).hostname\<close> does it), the live
    authorisation with its file, the five controls of LIVE, the demo rule of the other modes.
  \<^item> \<open>Lifecycle\<close>: \<open>lifecycle/state.py\<close>, with \<open>canonicalise\<close> of \<open>validation/report.py\<close>. Actors, evidence, human
    authorisation, the transition table as data, records sealed into a hash chain, the two logs, replay, \<open>register\<close> and
    \<open>transition\<close> with every check in its order.
  \<^item> \<open>Lifecycle_Safety\<close>: a locale for hash chains, interpreted on the log; machines reachable by registrations and
    transitions, and their invariant. LIVE needs a named human, no rung is skipped, automation never adds risk, a
    restart rebuilds the state, the head hash commits to the history; and a truncated log verifies, a machine with
    stale records can undo a halt.
  \<^item> \<open>Promotion_Gates\<close>: \<open>validation/gates.py\<close> and the verdict of \<open>validation/report.py\<close>. Gates and gate sets with fingerprint and
    overrides, the published sets, rung results, the binding constraint, and the verdict a report derives from its own evidence.
  \<^item> \<open>Promotion\<close>: \<open>lifecycle/promotion.py\<close>. The evidence of a promotion, one rule per step of the ladder, the decision with its
    structural checks, the eight published rules.
  \<^item> \<open>Stopping_Rules\<close>: \<open>lifecycle/stopping_rules.py\<close>. Parameters of the three rules, hash-chained registrations, what counts as
    pre-registered, the rules on a forward record, halts that latch until they are released.
  \<^item> \<open>Stopping_Safety\<close>: the hash-chain locale interpreted on registrations. CUSUM and drawdown fire exactly on a stretch of returns
    beyond the threshold, registrations are append-only, a rule cannot be replaced behind the data, a halt stays until its release;
    and the first return, a total loss on it and an expectation that is no number escape the rules.
  \<^item> \<open>Degradation\<close>: \<open>lifecycle/degradation.py\<close> over the divergence report of \<open>lifecycle/monitor.py\<close>. Severities, the score, the
    bands, the tracker with its hysteresis.
  \<^item> \<open>Tracker_Safety\<close>: bands get deeper on persistent evidence only, and never less deep without automatic recovery.
  \<^item> \<open>Lifecycle_Service\<close>: \<open>lifecycle/service.py\<close>. Registration, promotion, the monitoring tick (compare, evaluate the rules, latch,
    score, observe, demote), release and status; an exception keeps what was written before it.
  \<^item> \<open>Service_Safety\<close>: the join of the service with the gateway (\<open>workers/runtime.py\<close>), and a locale for what every allowed operation
    keeps, interpreted on demotions, halts and trackers. The monitor only demotes, promotion is earned, a fired rule blocks the
    strategy's orders until a named release; and a recovery never reaches the tracker.
  \<^item> \<open>Execution_Service\<close>: \<open>broker/execution_service.py\<close> over the adapter contract of \<open>broker/base.py\<close>. Intents and
    their stores, \<open>submit\<close>, \<open>close\<close>, \<open>flatten\<close>, \<open>amend\<close>, \<open>close_partial\<close>, \<open>reconcile\<close>, \<open>recover\<close>.
  \<^item> \<open>Execution_Protocol\<close>: a locale for keyed stores, interpreted on the intent store; write-ahead of every venue
    instruction; when a submission reaches the venue; one pass of reconciliation.
  \<^item> \<open>Execution_Safety\<close>: an entry is dispatched at most once, a clean report is complete, amendments report what is
    stored; and the sequences in which an order is forgotten, sent twice, or can never be sent again.
  \<^item> \<open>Durable_Log\<close>: \<open>core/durable.py\<close> on bytes. CRC-32 on 32-bit words, framing, scanning, quarantine of a torn tail,
    append, read, atomic replacement; a crash leaves any number of a record's bytes.
  \<^item> \<open>Durable_Safety\<close>: the file refines the list of completed appends, a changed byte is detected, the write loop ends;
    and the two ways a record or the whole file is lost to its readers.
  \<^item> \<open>Intent_Log\<close>: the rows of the intent file (\<open>OrderIntent.to_json\<close>, \<open>from_json\<close>) and \<open>JsonlIntentStore\<close> over the durable
    log: rows read back, and no written intent is lost by crashes and restarts. This is the theorem behind taking a line of
    the file for the intent in \<open>Execution_Service\<close>.
  \<^item> \<open>Instrument_Locks\<close>: \<open>backtest/locks.py\<close>. The session clock with its running sums, lock policies, the lock book with
    cooldowns and stop streaks, its rebuild from a ledger and the lock source of the gateway.
  \<^item> \<open>Lock_Safety\<close>: the clock counts open slots and never goes back, the active locks are the latest per key, a cooldown
    refuses exactly its bars, a streak is armed exactly by enough recent stop-outs, a restart rebuilds the book; and a
    book-wide lock is cut short by another.
  \<^item> \<open>Cost_Profiles\<close>: \<open>sim/profiles.py\<close>. Spread, slippage, commission, financing and minimum-stop models, and the published
    execution profiles.
  \<^item> \<open>Fill_Model\<close>: \<open>sim/fills.py\<close>. Bars, session calendars, staleness, simulated entries, the resolution of stop and target
    inside a bar, market exits.
  \<^item> \<open>Fill_Safety\<close>: costs are adverse, an exit is no better than its level, a bar exits exactly when it reaches a level with
    the stop first, both legs of a round trip pay.
  \<^item> \<open>Sizing\<close>: \<open>core/money.py\<close>, \<open>portfolio/sizing.py\<close> and the sizer of \<open>backtest/engine.py\<close>. Conversion rates as of a time,
    rounding to the step, the sizing rule.
  \<^item> \<open>Sizing_Safety\<close>: rates are known and fresh, a plan stays inside its budget and leverage, the two sizers agree.
  \<^item> \<open>Exit_Policy\<close>: \<open>backtest/exits.py\<close>. Trailing rules, reversal modes, event blackouts and the policy with their checks.
  \<^item> \<open>Position_Book\<close>: \<open>backtest/position.py\<close>, the book that the backtest, the paper venue and the live manager share. Scale-out
    legs, financing nights, the four phases of a bar, reversals, flattening and marking.
  \<^item> \<open>Book_Invariant\<close>: the totals of the open positions, the closing fills and the ledger rows agree through every phase.
  \<^item> \<open>Book_Safety\<close>: locales for relations between a position and what becomes of it, interpreted on "same deal, stop no
    looser". The ledger adds up, a position closes once, limits hold, stops only tighten, legs fit, each rollover is charged once.
  \<^item> \<open>Book_State\<close>: \<open>export_state\<close> and \<open>restore_state\<close> of the book as JSON values, and that reading inverts writing.
  \<^item> \<open>Book_Restart\<close>: a restored book goes through every later call in step with the uninterrupted one.
  \<^item> \<open>Venue_Driver\<close>: the first half of \<open>broker/position_manager.py\<close>. The driver that turns closed bars into steps of the book,
    entries queued for the next bar, the levels a venue holds, retry policies, telemetry, and the gate for policies that one
    stop and one target cannot express.
  \<^item> \<open>Position_Manager\<close>: \<open>VenuePositionManager\<close>. Submission and adoption, the instructions that close and amend, the bar
    (advance the book, retry closes, push closes, link entries, push levels, measure the exposure), flattening, reconciliation
    with the venue and recovery after a restart.
  \<^item> \<open>Manager_Invariant\<close>: a locale for relations that every instruction keeps, carried through the phases of a bar once, and
    interpreted three times: every unapplied instruction is reported, every reference is accounted for, the book is the book's own.
  \<^item> \<open>Manager_Safety\<close>: a silent bar means that the venue holds the book's levels, no position goes off the record unclosed, the
    venue never leads the book; and a refused scale-out is forgotten, orders that wait are not counted.
  \<^item> This theory: what spans components. An accepted close in the execution service makes the gateway refuse entries
    inside the cooldown, through the intent store, the ledger view and the lock check.

  \<^bold>\<open>How the model corresponds to the code\<close>

  A class is a record with one prefix per class (\<open>pl_\<close> for a trade plan, \<open>cx_\<close> for the surface the checks read), an
  enum a datatype, a method a function on the record that returns the changed object. A method that may raise returns
  \<open>Inl\<close> of the exception. Mutation is state passing: the gateway with its attempts and kill switch, the service with
  its store and the venue's state. Where several processes share a file, the file is part of the state and other
  processes are steps on it.

  Arithmetic on finite floats is exact; rounding is not modelled, infinities and NaN are. The wording of messages is
  abbreviated where nothing reads it; reasons that the code compares or prefixes are kept. A line of a journal, of
  the intent file or of the transition log is the row it encodes (the transition log keeps JSON values, so that
  reading back is a theorem about them; for the intent file \<open>Intent_Log\<close> goes down to the bytes). The intent \<open>order_id\<close>, a random identifier, is an argument of \<open>submit\<close>; waiting
  between the attempts of an amendment changes nothing. The service carries a trace of its writes and venue calls, which
  the code does not have; no operation reads it. Mismatches in a reconciliation report are triples, not sentences.

  Arguments that stand for code outside the model: the digest of payloads and rows, the text of timestamps and numbers,
  the text of JSON, pandas durations, the zone database, the validity of an IP literal, the instrument table, the lock
  source and the veto source of the gateway, the venue adapter, numpy's generator (its draws as a function of seed, bar and
  sequence), the calendar behind a blackout, the rate source and the random identifiers of a position book,
  and for the position manager the factory of exit contexts, its clock, the position identifiers and the rendering of a message;
  for the lifecycle service the comparison of expectation and observation, the estimators of the PSR rule, the readability of a regime
  key, the digest of a report, the rows evidence is displayed as and the text of messages. The ledger view of \<open>Instrument_Locks\<close> is one lock source. Nothing is assumed about them except, where a theorem names it, that timestamps
  written by the program read back and that an integer drawn from a range lies in it.

  No fuel is chosen anywhere. The loops without structural recursion are the attempts of an amendment (a counter), the
  chunked read of a file and the extension of the clock's running sums (with their termination measures), and the write
  loop, which may not end if the kernel accepts nothing: it is a partial function, with the theorem that it returns
  when each call accepts a byte.

  \<^bold>\<open>Not modelled\<close>

  The rest of the platform. Numerical code (indicators, statistics, market state, strategy kernels), data download and
  storage, HTTP (API and venue adapters), process loops, agents, research bookkeeping and the command line are left
  aside. Of \<open>core/durable.py\<close> the flushing of file descriptors, the hook registry and the SQLite settings are left out;
  of \<open>backtest/locks.py\<close> the fingerprints and display rows. Of the backtest the fills, the sizing and the
  position book are modelled, not the loop over pandas frames; of the position manager not the latencies, nor the rows its
  records are displayed as. Of the validation package the gates and the verdict are modelled, not the estimators, the orchestration of
  backtests nor the ledger of holdout looks; of the stopping rules not their calibration by simulation; of the forward monitor the
  report, not the bootstrap tests that fill it. What is left over everywhere is arithmetic over arrays and frames, input and output,
  and processes, where a model would have to invent the libraries the code calls.
\<close>


section \<open>Across components\<close>














end
